(* ===== verification/Prelude.thy ===== *)
theory Prelude
  imports Main "HOL-Library.List_Lexorder" "HOL-Library.Char_ord"
begin

text \<open>
  Shared vocabulary of the development: results as sums, Python's \<open>or\<close> on optional
  values, the string methods the code calls, and rows of a keyed SQL table kept as a
  list together with the interface (a locale) that the stores rely on.
\<close>

section \<open>Collections of facts\<close>

named_theorems tbl_simps "how the table operations read and keep rows"
named_theorems row_defs "row transformers of the durable stores"
named_theorems guard_defs "guards of the durable stores"

section \<open>Results\<close>

text \<open>
  A call that may raise returns \<open>error + value\<close>: \<open>Inl\<close> is the exception that leaves the
  function, \<open>Inr\<close> the value it returns.
\<close>

fun bind_res :: "'e + 'a \<Rightarrow> ('a \<Rightarrow> 'e + 'b) \<Rightarrow> 'e + 'b" where
  "bind_res (Inl e) f = Inl e"
| "bind_res (Inr a) f = f a"

definition ensure :: "bool \<Rightarrow> 'e \<Rightarrow> 'e + unit" where
  "ensure b e = (if b then Inr () else Inl e)"

definition of_option :: "'e \<Rightarrow> 'a option \<Rightarrow> 'e + 'a" where
  "of_option e x = (case x of None \<Rightarrow> Inl e | Some a \<Rightarrow> Inr a)"

lemma conj3I: "A \<Longrightarrow> B \<Longrightarrow> C \<Longrightarrow> A \<and> B \<and> C"
  by simp

lemma conj4I: "A \<Longrightarrow> B \<Longrightarrow> C \<Longrightarrow> D \<Longrightarrow> A \<and> B \<and> C \<and> D"
  by simp

lemma bind_res_Inr [simp]: "bind_res r f = Inr b \<longleftrightarrow> (\<exists>a. r = Inr a \<and> f a = Inr b)"
  by (cases r) auto

lemma bind_res_Inl: "bind_res r f = Inl e \<longleftrightarrow> r = Inl e \<or> (\<exists>a. r = Inr a \<and> f a = Inl e)"
  by (cases r) auto

lemma ensure_simps [simp]:
  "ensure b e = Inr u \<longleftrightarrow> b"
  "ensure b e = Inl e' \<longleftrightarrow> \<not> b \<and> e' = e"
  by (auto simp: ensure_def)

lemma of_option_simps [simp]:
  "of_option e x = Inr a \<longleftrightarrow> x = Some a"
  "of_option e x = Inl e' \<longleftrightarrow> x = None \<and> e' = e"
  by (auto simp: of_option_def split: option.splits)

section \<open>Optional values\<close>

text \<open>
  Python's \<open>x or y\<close> for a value whose only falsy form is \<open>None\<close> (a \<open>datetime\<close>), and for
  optional strings, where the empty string is falsy too.
\<close>

fun opt_or :: "'a option \<Rightarrow> 'a \<Rightarrow> 'a option" where
  "opt_or None y = Some y"
| "opt_or (Some x) y = Some x"

fun str_or :: "string option \<Rightarrow> string option \<Rightarrow> string option" where
  "str_or None y = y"
| "str_or (Some s) y = (if s = [] then y else Some s)"

fun nonblank_opt :: "string option \<Rightarrow> bool" where
  "nonblank_opt None = False"
| "nonblank_opt (Some s) = (s \<noteq> [])"

lemma opt_or_not_None [simp]: "opt_or x y \<noteq> None"
  by (cases x) simp_all

lemma opt_or_eq_None [simp]: "(None = opt_or x y) = False"
  by (cases x) simp_all

section \<open>Strings\<close>

text \<open>
  A character is a code point below 256. \<open>is_space\<close> is \<open>str.isspace\<close> on that range, which
  \<open>str.strip\<close> removes at both ends; \<open>lower\<close> is \<open>str.lower\<close> and \<open>upper_ascii\<close> is
  \<open>str.upper\<close> on the ASCII letters.
\<close>

definition is_space :: "char \<Rightarrow> bool" where
  "is_space c = (let n = (of_char c :: nat) in
     (9 \<le> n \<and> n \<le> 13) \<or> (28 \<le> n \<and> n \<le> 32) \<or> n = 133 \<or> n = 160)"

definition lstrip :: "string \<Rightarrow> string" where
  "lstrip s = dropWhile is_space s"

definition strip :: "string \<Rightarrow> string" where
  "strip s = rev (lstrip (rev (lstrip s)))"

definition lower_char :: "char \<Rightarrow> char" where
  "lower_char c = (let n = (of_char c :: nat) in
     if (65 \<le> n \<and> n \<le> 90) \<or> (192 \<le> n \<and> n \<le> 222 \<and> n \<noteq> 215) then char_of (n + 32) else c)"

definition lower :: "string \<Rightarrow> string" where
  "lower s = List.map lower_char s"

definition upper_char :: "char \<Rightarrow> char" where
  "upper_char c = (let n = (of_char c :: nat) in if 97 \<le> n \<and> n \<le> 122 then char_of (n - 32) else c)"

definition upper_ascii :: "string \<Rightarrow> string" where
  "upper_ascii s = List.map upper_char s"

definition starts_with :: "string \<Rightarrow> string \<Rightarrow> bool" where
  "starts_with s p = (take (length p) s = p)"

lemma lstrip_hd: "lstrip s \<noteq> [] \<Longrightarrow> \<not> is_space (hd (lstrip s))"
  by (induction s) (auto simp: lstrip_def)

lemma lstrip_last: "lstrip s \<noteq> [] \<Longrightarrow> last (lstrip s) = last s"
  by (metis append_Nil last_appendR lstrip_def takeWhile_dropWhile_id)

lemma lstrip_Nil: "lstrip [] = []"
  by (simp add: lstrip_def)

lemma lstrip_id: "s = [] \<or> \<not> is_space (hd s) \<Longrightarrow> lstrip s = s"
  by (cases s) (auto simp: lstrip_def)

lemma strip_ends:
  assumes "strip s \<noteq> []"
  shows "\<not> is_space (hd (strip s))" "\<not> is_space (last (strip s))"
proof -
  let ?b = "lstrip (rev (lstrip s))"
  have b: "?b \<noteq> []" and a: "lstrip s \<noteq> []" using assms by (auto simp: strip_def lstrip_Nil)
  show "\<not> is_space (last (strip s))" using lstrip_hd [OF b] b by (simp add: strip_def last_rev)
  have "hd (strip s) = hd (lstrip s)"
    using lstrip_last [OF b] a b by (simp add: strip_def hd_rev last_rev)
  then show "\<not> is_space (hd (strip s))" using lstrip_hd [OF a] by simp
qed

lemma strip_idem [simp]: "strip (strip s) = strip s"
proof (cases "strip s = []")
  case True
  then show ?thesis by (simp only: True) (simp add: strip_def lstrip_Nil)
next
  case False
  have "lstrip (strip s) = strip s" "lstrip (rev (strip s)) = rev (strip s)"
    using strip_ends [OF False] False by (auto simp: hd_rev intro!: lstrip_id)
  then show ?thesis by (simp add: strip_def [of "strip s"])
qed

fun split_on :: "char \<Rightarrow> string \<Rightarrow> string list" where
  "split_on c [] = [[]]"
| "split_on c (x # xs) = (if x = c then [] # split_on c xs
     else (case split_on c xs of [] \<Rightarrow> [[x]] | p # ps \<Rightarrow> (x # p) # ps))"

fun join_with :: "string \<Rightarrow> string list \<Rightarrow> string" where
  "join_with sep [] = []"
| "join_with sep [s] = s"
| "join_with sep (s # t # ts) = s @ sep @ join_with sep (t # ts)"

text \<open>\<open>str\<close> of an integer.\<close>

fun nat_text :: "nat \<Rightarrow> string" where
  "nat_text n = (if n < 10 then [char_of (48 + n)] else nat_text (n div 10) @ [char_of (48 + n mod 10)])"

declare nat_text.simps [simp del]

definition int_text :: "int \<Rightarrow> string" where
  "int_text n = (if n < 0 then CHR ''-'' # nat_text (nat (- n)) else nat_text (nat n))"

text \<open>\<open>sorted(set(xs))\<close>.\<close>

definition sorted_set :: "'a::linorder list \<Rightarrow> 'a list" where
  "sorted_set xs = sort (remdups xs)"

section \<open>Dictionaries\<close>

text \<open>A Python \<open>dict\<close> in insertion order: an existing key keeps its place.\<close>

fun dict_put :: "('k \<times> 'v) list \<Rightarrow> 'k \<Rightarrow> 'v \<Rightarrow> ('k \<times> 'v) list" where
  "dict_put [] k v = [(k, v)]"
| "dict_put ((k', v') # kvs) k v = (if k' = k then (k, v) # kvs else (k', v') # dict_put kvs k v)"

definition dict_update :: "('k \<times> 'v) list \<Rightarrow> ('k \<times> 'v) list \<Rightarrow> ('k \<times> 'v) list" where
  "dict_update d kvs = fold (\<lambda>(k, v) d'. dict_put d' k v) kvs d"

lemma dict_put_map_of: "map_of (dict_put d k v) = (map_of d)(k \<mapsto> v)"
  by (induction d k v rule: dict_put.induct) auto

lemma dict_put_keys: "fst ` set (dict_put d k v) = insert k (fst ` set d)"
  by (induction d k v rule: dict_put.induct) auto

lemma dict_put_distinct: "distinct (List.map fst d) \<Longrightarrow> distinct (List.map fst (dict_put d k v))"
proof (induction d k v rule: dict_put.induct)
  case (2 k' v' kvs k v)
  then show ?case using dict_put_keys [of kvs k v] by (cases "k' = k") auto
qed simp

lemma dict_update_distinct: "distinct (List.map fst d) \<Longrightarrow> distinct (List.map fst (dict_update d kvs))"
  by (induction kvs arbitrary: d) (auto simp: dict_update_def dict_put_distinct)

lemma find_key: "find (\<lambda>(k, c). P k) d = Some (k0, c0) \<Longrightarrow> P k0"
  by (auto simp: find_Some_iff)

lemma map_of_rev: "distinct (List.map fst d) \<Longrightarrow> map_of (rev d) = map_of d"
  by (rule map_of_inject_set [THEN iffD2]) (simp_all add: rev_map [symmetric])

lemma find_dict_put:
  "find (\<lambda>(k, c). P k) d = Some (k0, c0) \<Longrightarrow>
   find (\<lambda>(k, c). P k) (dict_put d k v) = Some (k0, if k = k0 then v else c0)"
  by (induction d k v rule: dict_put.induct) (auto split: if_splits dest: find_key)

lemma find_dict_update:
  "find (\<lambda>(k, c). P k) d = Some (k0, c0) \<Longrightarrow>
   find (\<lambda>(k, c). P k) (dict_update d kvs) = Some (k0, case map_of (rev kvs) k0 of None \<Rightarrow> c0 | Some v \<Rightarrow> v)"
proof (induction kvs arbitrary: d c0)
  case (Cons kv kvs)
  obtain k v where kv: "kv = (k, v)" by (cases kv)
  have "find (\<lambda>(k, c). P k) (dict_put d k v) = Some (k0, if k = k0 then v else c0)" by (rule find_dict_put [OF Cons.prems])
  from Cons.IH [OF this] show ?case by (auto simp: dict_update_def kv map_add_def split: option.splits)
qed (simp add: dict_update_def)

section \<open>Keyed tables\<close>

text \<open>
  A SQL table is the list of its rows in the order the engine scans them; \<open>key\<close> reads the
  primary key. \<open>ORDER BY\<close> is a stable sort of that list, so a statement about every table is
  a statement about every way the engine may order rows that compare equal.
\<close>

definition tbl_get :: "('r \<Rightarrow> 'k) \<Rightarrow> 'k \<Rightarrow> 'r list \<Rightarrow> 'r option" where
  "tbl_get key k t = find (\<lambda>r. key r = k) t"

definition tbl_add :: "'r \<Rightarrow> 'r list \<Rightarrow> 'r list" where
  "tbl_add r t = t @ [r]"

definition tbl_upd :: "('r \<Rightarrow> 'k) \<Rightarrow> 'k \<Rightarrow> ('r \<Rightarrow> 'r) \<Rightarrow> 'r list \<Rightarrow> 'r list" where
  "tbl_upd key k f t = List.map (\<lambda>r. if key r = k then f r else r) t"

definition tbl_del :: "('r \<Rightarrow> 'k) \<Rightarrow> 'k \<Rightarrow> 'r list \<Rightarrow> 'r list" where
  "tbl_del key k t = filter (\<lambda>r. key r \<noteq> k) t"

definition tbl_ok :: "('r \<Rightarrow> 'k) \<Rightarrow> 'r list \<Rightarrow> bool" where
  "tbl_ok key t = distinct (List.map key t)"

text \<open>\<open>UPDATE \<dots> WHERE p\<close>, with the number of rows it matched.\<close>

definition tbl_update_where :: "('r \<Rightarrow> bool) \<Rightarrow> ('r \<Rightarrow> 'r) \<Rightarrow> 'r list \<Rightarrow> 'r list \<times> nat" where
  "tbl_update_where p f t = (List.map (\<lambda>r. if p r then f r else r) t, length (filter p t))"

lemma tbl_get_Some: "tbl_get key k t = Some r \<Longrightarrow> r \<in> set t \<and> key r = k"
  by (induction t) (auto simp: tbl_get_def split: if_splits)

lemma tbl_get_None: "tbl_get key k t = None \<longleftrightarrow> k \<notin> key ` set t"
  by (induction t) (auto simp: tbl_get_def)

lemma tbl_get_mem: "tbl_ok key t \<Longrightarrow> r \<in> set t \<Longrightarrow> tbl_get key (key r) t = Some r"
  by (induction t) (auto simp: tbl_get_def tbl_ok_def image_iff)

lemma tbl_get_add [tbl_simps]:
  "tbl_get key k (tbl_add r t) = (case tbl_get key k t of Some q \<Rightarrow> Some q | None \<Rightarrow> if key r = k then Some r else None)"
  by (induction t) (auto simp: tbl_get_def tbl_add_def)

lemma tbl_get_upd [tbl_simps]:
  "(\<And>r. key (f r) = key r) \<Longrightarrow>
   tbl_get key k' (tbl_upd key k f t) = (if k' = k then map_option f (tbl_get key k t) else tbl_get key k' t)"
  by (induction t) (auto simp: tbl_get_def tbl_upd_def)

lemma tbl_get_replace:
  "key row = k \<Longrightarrow> tbl_get key k' (tbl_upd key k (\<lambda>_. row) t)
     = (if k' = k then map_option (\<lambda>_. row) (tbl_get key k t) else tbl_get key k' t)"
  by (induction t) (auto simp: tbl_get_def tbl_upd_def)

lemma tbl_get_map:
  "(\<And>r. key (f r) = key r) \<Longrightarrow> tbl_get key k (List.map f t) = map_option f (tbl_get key k t)"
  by (induction t) (auto simp: tbl_get_def)

lemma tbl_ok_map: "(\<And>r. key (f r) = key r) \<Longrightarrow> tbl_ok key (List.map f t) = tbl_ok key t"
  by (simp add: tbl_ok_def comp_def)

lemma tbl_get_del [tbl_simps]:
  "tbl_get key k' (tbl_del key k t) = (if k' = k then None else tbl_get key k' t)"
  by (induction t) (auto simp: tbl_get_def tbl_del_def)

lemma tbl_keys_upd [tbl_simps]:
  "(\<And>r. key (f r) = key r) \<Longrightarrow> List.map key (tbl_upd key k f t) = List.map key t"
  by (induction t) (auto simp: tbl_upd_def)

lemma tbl_ok_upd [tbl_simps]: "(\<And>r. key (f r) = key r) \<Longrightarrow> tbl_ok key (tbl_upd key k f t) = tbl_ok key t"
  by (simp add: tbl_ok_def tbl_keys_upd)

lemma tbl_ok_add [tbl_simps]: "tbl_ok key (tbl_add r t) \<longleftrightarrow> tbl_ok key t \<and> tbl_get key (key r) t = None"
  unfolding tbl_get_None by (auto simp: tbl_ok_def tbl_add_def)

lemma distinct_map_filterI: "distinct (List.map f xs) \<Longrightarrow> distinct (List.map f (filter p xs))"
  by (induction xs) auto

lemma tbl_ok_del [tbl_simps]: "tbl_ok key t \<Longrightarrow> tbl_ok key (tbl_del key k t)"
  by (simp add: tbl_ok_def tbl_del_def distinct_map_filterI)

lemma tbl_upd_set:
  "r \<in> set (tbl_upd key k f t) \<longleftrightarrow> (\<exists>q \<in> set t. r = (if key q = k then f q else q))"
  unfolding tbl_upd_def set_map image_iff by (rule refl)

lemma tbl_upd_all:
  assumes "\<forall>r \<in> set t. P r" "\<And>r. r \<in> set t \<Longrightarrow> key r = k \<Longrightarrow> P r \<Longrightarrow> P (f r)"
  shows "\<forall>r \<in> set (tbl_upd key k f t). P r"
  using assms by (auto simp: tbl_upd_def)

lemma tbl_upd_id: "tbl_get key k t = None \<Longrightarrow> tbl_upd key k f t = t"
  unfolding tbl_get_None tbl_upd_def by (rule map_idI) auto

text \<open>
  The interface the stores rely on: a lookup, an insert that a session performs after the
  primary key was found free, an update in place, a delete, and the key constraint.
\<close>

locale keyed_store =
  fixes key :: "'r \<Rightarrow> 'k"
    and get :: "'k \<Rightarrow> 's \<Rightarrow> 'r option"
    and add :: "'r \<Rightarrow> 's \<Rightarrow> 's"
    and upd :: "'k \<Rightarrow> ('r \<Rightarrow> 'r) \<Rightarrow> 's \<Rightarrow> 's"
    and del :: "'k \<Rightarrow> 's \<Rightarrow> 's"
    and ok :: "'s \<Rightarrow> bool"
  assumes get_key: "get k s = Some r \<Longrightarrow> key r = k"
    and get_add: "get (key r) s = None \<Longrightarrow> get k (add r s) = (if k = key r then Some r else get k s)"
    and get_upd: "(\<And>r. key (f r) = key r) \<Longrightarrow>
          get k' (upd k f s) = (if k' = k then map_option f (get k s) else get k' s)"
    and get_del: "get k' (del k s) = (if k' = k then None else get k' s)"
    and ok_add: "ok s \<Longrightarrow> get (key r) s = None \<Longrightarrow> ok (add r s)"
    and ok_upd: "ok s \<Longrightarrow> (\<And>r. key (f r) = key r) \<Longrightarrow> ok (upd k f s)"
    and ok_del: "ok s \<Longrightarrow> ok (del k s)"
begin

lemma add_del: "get (key r) s = None \<Longrightarrow> get k (del (key r) (add r s)) = get k s"
  by (simp add: get_del get_add)

lemma upd_frame: "(\<And>r. key (f r) = key r) \<Longrightarrow> k' \<noteq> k \<Longrightarrow> get k' (upd k f s) = get k' s"
  by (simp add: get_upd)

lemma add_frame: "get (key r) s = None \<Longrightarrow> get k s = Some q \<Longrightarrow> get k (add r s) = Some q"
  by (auto simp: get_add)

end

text \<open>A table inside a larger state: \<open>proj\<close> reads it, \<open>put\<close> writes it back.\<close>

lemma keyed_store_in_state:
  assumes "\<And>t s. proj (put t s) = t"
  shows "keyed_store key (\<lambda>k s. tbl_get key k (proj s)) (\<lambda>r s. put (tbl_add r (proj s)) s)
    (\<lambda>k f s. put (tbl_upd key k f (proj s)) s) (\<lambda>k s. put (tbl_del key k (proj s)) s)
    (\<lambda>s. tbl_ok key (proj s))"
proof unfold_locales
  fix k s r
  show "tbl_get key k (proj s) = Some r \<Longrightarrow> key r = k" by (auto dest: tbl_get_Some)
next
  fix r s k
  assume "tbl_get key (key r) (proj s) = None"
  then show "tbl_get key k (proj (put (tbl_add r (proj s)) s)) = (if k = key r then Some r else tbl_get key k (proj s))"
    by (auto simp: assms tbl_get_add split: option.splits)
qed (auto simp: assms tbl_simps)

section \<open>Runs of guarded operations\<close>

text \<open>
  An operation of a store runs in one transaction: an exception rolls back, so the caller
  sees the old state. A run folds a list of events over the state that way.
\<close>

fun run_ops :: "('s \<Rightarrow> 'e \<Rightarrow> 'x + 's) \<Rightarrow> 's \<Rightarrow> 'e list \<Rightarrow> 's" where
  "run_ops step s [] = s"
| "run_ops step s (e # es) = run_ops step (case step s e of Inl _ \<Rightarrow> s | Inr s' \<Rightarrow> s') es"

locale guarded_machine =
  fixes step :: "'s \<Rightarrow> 'e \<Rightarrow> 'x + 's"
    and allowed :: "'e \<Rightarrow> bool"
    and inv :: "'s \<Rightarrow> bool"
  assumes step_inv: "inv s \<Longrightarrow> allowed e \<Longrightarrow> step s e = Inr s' \<Longrightarrow> inv s'"
begin

lemma run_inv: "inv s \<Longrightarrow> list_all allowed es \<Longrightarrow> inv (run_ops step s es)"
  by (induction es arbitrary: s) (auto split: sum.splits intro: step_inv)

lemma run_append: "run_ops step s (es @ fs) = run_ops step (run_ops step s es) fs"
  by (induction es arbitrary: s) auto

end

end
