(* ===== verification/Calendar.thy ===== *)
theory Calendar
  imports Prelude
begin

text \<open>
  The proleptic Gregorian calendar of Python's \<open>datetime\<close> module: dates, ordinals and
  weekdays, with the laws the period and timestamp code relies on. Years are unbounded
  integers here; Python's \<open>date\<close> covers the years 1 to 9999.
\<close>

section \<open>Dates\<close>

datatype date = Date (year: int) (month: int) (day: int)

instantiation date :: linorder
begin

definition less_eq_date :: "date \<Rightarrow> date \<Rightarrow> bool" where
  "less_eq_date a b \<longleftrightarrow> year a < year b \<or> year a = year b \<and> (month a < month b \<or> month a = month b \<and> day a \<le> day b)"

definition less_date :: "date \<Rightarrow> date \<Rightarrow> bool" where
  "less_date a b \<longleftrightarrow> year a < year b \<or> year a = year b \<and> (month a < month b \<or> month a = month b \<and> day a < day b)"

instance
proof
  fix a b c :: date
  show "(a < b) = (a \<le> b \<and> \<not> b \<le> a)" by (auto simp: less_eq_date_def less_date_def)
  show "a \<le> a" by (simp add: less_eq_date_def)
  show "a \<le> b \<Longrightarrow> b \<le> c \<Longrightarrow> a \<le> c" by (auto simp: less_eq_date_def)
  show "a \<le> b \<Longrightarrow> b \<le> a \<Longrightarrow> a = b" by (cases a; cases b) (auto simp: less_eq_date_def)
  show "a \<le> b \<or> b \<le> a" by (auto simp: less_eq_date_def)
qed

end

definition is_leap :: "int \<Rightarrow> bool" where
  "is_leap y \<longleftrightarrow> y mod 4 = 0 \<and> (y mod 100 \<noteq> 0 \<or> y mod 400 = 0)"

definition month_lengths :: "bool \<Rightarrow> int list" where
  "month_lengths leap = [31, if leap then 29 else 28, 31, 30, 31, 30, 31, 31, 30, 31, 30, 31]"

definition days_in_month :: "int \<Rightarrow> int \<Rightarrow> int" where
  "days_in_month y m = month_lengths (is_leap y) ! nat (m - 1)"

definition days_before_month :: "int \<Rightarrow> int \<Rightarrow> int" where
  "days_before_month y m = sum_list (take (nat (m - 1)) (month_lengths (is_leap y)))"

definition days_before_year :: "int \<Rightarrow> int" where
  "days_before_year y = (y - 1) * 365 + (y - 1) div 4 - (y - 1) div 100 + (y - 1) div 400"

definition valid_date :: "date \<Rightarrow> bool" where
  "valid_date d \<longleftrightarrow> 1 \<le> month d \<and> month d \<le> 12 \<and> 1 \<le> day d \<and> day d \<le> days_in_month (year d) (month d)"

definition toordinal :: "date \<Rightarrow> int" where
  "toordinal d = days_before_year (year d) + days_before_month (year d) (month d) + day d"

fun month_scan :: "int list \<Rightarrow> int \<Rightarrow> int \<Rightarrow> int \<times> int" where
  "month_scan [] m d = (m, d + 1)"
| "month_scan (l # ls) m d = (if d < l then (m, d + 1) else month_scan ls (m + 1) (d - l))"

definition fromordinal :: "int \<Rightarrow> date" where
  "fromordinal n =
     (let n0 = n - 1;
          n400 = n0 div 146097; r400 = n0 mod 146097;
          n100 = r400 div 36524; r100 = r400 mod 36524;
          n4 = r100 div 1461; r4 = r100 mod 1461;
          n1 = r4 div 365; r1 = r4 mod 365;
          y = n400 * 400 + n100 * 100 + n4 * 4 + n1 + 1
      in if n1 = 4 \<or> n100 = 4 then Date (y - 1) 12 31
         else let (m, d) = month_scan (month_lengths (is_leap y)) 1 r1 in Date y m d)"

definition weekday :: "date \<Rightarrow> int" where
  "weekday d = (toordinal d + 6) mod 7"

definition add_days :: "date \<Rightarrow> int \<Rightarrow> date" where
  "add_days d n = fromordinal (toordinal d + n)"

section \<open>Year and month arithmetic\<close>

lemma div_pred: "0 < k \<Longrightarrow> y div k - (y - 1) div k = (if y mod k = 0 then 1 else 0)" for y k :: int
proof -
  assume k: "0 < k"
  show ?thesis
  proof (cases "y mod k = 0")
    case True
    then obtain q where q: "y = k * q" by (auto elim: dvdE simp: mod_eq_0_iff_dvd)
    then have "y - 1 = (k - 1) + k * (q - 1)" by (simp add: algebra_simps)
    then have "(y - 1) div k = (k - 1) div k + (q - 1)" using k by (metis div_mult_self2 less_irrefl add.commute)
    moreover have "(k - 1) div k = 0" using k by (simp add: div_pos_pos_trivial)
    ultimately show ?thesis using q k by simp
  next
    case False
    have "0 \<le> y mod k - 1" "y mod k - 1 < k" using k False pos_mod_bound [OF k, of y] pos_mod_sign [OF k, of y] by linarith+
    then have "(y mod k - 1 + k * (y div k)) div k = y div k" using k by (simp add: div_pos_pos_trivial)
    moreover have "y mod k - 1 + k * (y div k) = y - 1" by simp
    ultimately show ?thesis using False by simp
  qed
qed

lemma days_before_year_step: "days_before_year (y + 1) = days_before_year y + (if is_leap y then 366 else 365)"
proof -
  have d4: "y div 4 - (y - 1) div 4 = (if y mod 4 = 0 then 1 else 0)"
    and d100: "y div 100 - (y - 1) div 100 = (if y mod 100 = 0 then 1 else 0)"
    and d400: "y div 400 - (y - 1) div 400 = (if y mod 400 = 0 then 1 else 0)"
    by (rule div_pred, simp)+
  have "days_before_year (y + 1) - days_before_year y
      = 365 + (y div 4 - (y - 1) div 4) - (y div 100 - (y - 1) div 100) + (y div 400 - (y - 1) div 400)"
    by (simp add: days_before_year_def)
  also have "\<dots> = 365 + (if y mod 4 = 0 then 1 else 0) - (if y mod 100 = 0 then 1 else 0)
      + (if y mod 400 = 0 then 1 else 0)"
    by (simp only: d4 d100 d400)
  finally have diff: "days_before_year (y + 1) - days_before_year y = 365 + (if y mod 4 = 0 then 1 else 0)
      - (if y mod 100 = 0 then 1 else 0) + (if y mod 400 = 0 then 1 else 0)" .
  have shift: "\<And>a b c :: int. a - b = c \<Longrightarrow> a = b + c" by simp
  have m4: "y mod 100 = 0 \<Longrightarrow> y mod 4 = 0" using mod_mod_cancel [of 4 100 y] by simp
  have m100: "y mod 400 = 0 \<Longrightarrow> y mod 100 = 0" using mod_mod_cancel [of 100 400 y] by simp
  have count: "(B \<longrightarrow> A) \<Longrightarrow> (C \<longrightarrow> B) \<Longrightarrow>
      365 + (if A then 1 else 0) - (if B then 1 else 0) + (if C then 1 else 0)
        = (if A \<and> (\<not> B \<or> C) then 366 else (365 :: int))" for A B C
    by (cases A; cases B; cases C) simp_all
  have "365 + (if y mod 4 = 0 then 1 else 0) - (if y mod 100 = 0 then 1 else 0) + (if y mod 400 = 0 then 1 else 0)
      = (if is_leap y then 366 else (365 :: int))"
    unfolding is_leap_def by (rule count) (use m4 m100 in blast)+
  with shift [OF diff] show ?thesis by (simp only:)
qed

lemma days_before_year_mono: "a \<le> b \<Longrightarrow> days_before_year a \<le> days_before_year b"
proof (induction rule: int_ge_induct)
  case (step i)
  then show ?case using days_before_year_step [of i] by (auto split: if_splits)
qed simp

lemma month_range:
  fixes m :: int
  assumes "1 \<le> m" "m \<le> 12"
  shows "m = 1 \<or> m = 2 \<or> m = 3 \<or> m = 4 \<or> m = 5 \<or> m = 6 \<or> m = 7 \<or> m = 8 \<or> m = 9 \<or> m = 10 \<or> m = 11 \<or> m = 12"
  using assms by presburger

lemma month_tables:
  "days_before_month y 1 = 0" "days_in_month y 1 = 31"
  "days_before_month y 2 = 31" "days_in_month y 2 = (if is_leap y then 29 else 28)"
  "days_before_month y 3 = (if is_leap y then 60 else 59)" "days_in_month y 3 = 31"
  "days_before_month y 4 = (if is_leap y then 91 else 90)" "days_in_month y 4 = 30"
  "days_before_month y 5 = (if is_leap y then 121 else 120)" "days_in_month y 5 = 31"
  "days_before_month y 6 = (if is_leap y then 152 else 151)" "days_in_month y 6 = 30"
  "days_before_month y 7 = (if is_leap y then 182 else 181)" "days_in_month y 7 = 31"
  "days_before_month y 8 = (if is_leap y then 213 else 212)" "days_in_month y 8 = 31"
  "days_before_month y 9 = (if is_leap y then 244 else 243)" "days_in_month y 9 = 30"
  "days_before_month y 10 = (if is_leap y then 274 else 273)" "days_in_month y 10 = 31"
  "days_before_month y 11 = (if is_leap y then 305 else 304)" "days_in_month y 11 = 30"
  "days_before_month y 12 = (if is_leap y then 335 else 334)" "days_in_month y 12 = 31"
  by (simp_all add: days_before_month_def days_in_month_def month_lengths_def eval_nat_numeral)

lemma days_in_month_bounds:
  assumes "1 \<le> m" "m \<le> 12"
  shows "28 \<le> days_in_month y m" "days_in_month y m \<le> 31"
  using month_range [OF assms] by (elim disjE; simp add: month_tables)+

lemma day_of_year_bounds:
  assumes "valid_date d"
  shows "1 \<le> days_before_month (year d) (month d) + day d"
    "days_before_month (year d) (month d) + day d \<le> (if is_leap (year d) then 366 else 365)"
proof -
  have m: "1 \<le> month d" "month d \<le> 12" "1 \<le> day d" "day d \<le> days_in_month (year d) (month d)"
    using assms by (simp_all add: valid_date_def)
  show "1 \<le> days_before_month (year d) (month d) + day d"
    using m(3) month_range [OF m(1,2)] by (elim disjE; simp add: month_tables split: if_splits)
  show "days_before_month (year d) (month d) + day d \<le> (if is_leap (year d) then 366 else 365)"
    using m(4) month_range [OF m(1,2)] by (elim disjE; simp add: month_tables split: if_splits)
qed

lemma days_before_month_next:
  assumes "1 \<le> m" "m < 12"
  shows "days_before_month y (m + 1) = days_before_month y m + days_in_month y m"
proof -
  have "1 \<le> m" "m \<le> 12" using assms by auto
  from month_range [OF this] assms show ?thesis by (elim disjE; simp add: month_tables)
qed

lemma days_before_month_mono:
  assumes "1 \<le> m" "m \<le> m'" "m' \<le> 12"
  shows "days_before_month y m \<le> days_before_month y m'"
  using assms(2,3)
proof (induction rule: int_ge_induct)
  case (step i)
  then show ?case
    using assms(1) days_before_month_next [of i y] days_in_month_bounds(1) [of i y] by auto
qed simp

lemma days_before_month_step:
  assumes "1 \<le> m" "m < m'" "m' \<le> 12"
  shows "days_before_month y m + days_in_month y m \<le> days_before_month y m'"
  using assms days_before_month_next [of m y] days_before_month_mono [of "m + 1" m' y] by simp

lemma toordinal_less:
  assumes "valid_date a" "valid_date b" "a < b"
  shows "toordinal a < toordinal b"
proof (cases "year a = year b")
  case True
  note va = assms(1) [unfolded valid_date_def] and vb = assms(2) [unfolded valid_date_def]
  show ?thesis
  proof (cases "month a = month b")
    case same: True
    then show ?thesis using True assms(3) by (auto simp: toordinal_def less_date_def)
  next
    case False
    then have "month a < month b" using True assms(3) by (auto simp: less_date_def)
    then show ?thesis using True va vb days_before_month_step [of "month a" "month b" "year b"]
      by (auto simp: toordinal_def)
  qed
next
  case False
  then have "year a + 1 \<le> year b" using assms(3) by (auto simp: less_date_def)
  then have "days_before_year (year a + 1) \<le> days_before_year (year b)" by (rule days_before_year_mono)
  then show ?thesis
    using day_of_year_bounds [OF assms(1)] day_of_year_bounds [OF assms(2)] days_before_year_step [of "year a"]
    by (auto simp: toordinal_def split: if_splits)
qed

lemma toordinal_inj: "valid_date a \<Longrightarrow> valid_date b \<Longrightarrow> toordinal a = toordinal b \<Longrightarrow> a = b"
  by (metis less_irrefl linorder_neqE toordinal_less)

lemma toordinal_le: "valid_date a \<Longrightarrow> valid_date b \<Longrightarrow> a \<le> b \<longleftrightarrow> toordinal a \<le> toordinal b"
  by (metis linorder_not_le order.order_iff_strict toordinal_inj toordinal_less)

section \<open>From ordinals back to dates\<close>

lemma month_scan_spec:
  assumes "0 \<le> d" "d < sum_list ls" "\<forall>l \<in> set ls. 0 < l"
  shows "\<exists>i < length ls. month_scan ls m d = (m + int i, d - sum_list (take i ls) + 1)
    \<and> sum_list (take i ls) \<le> d \<and> d < sum_list (take i ls) + ls ! i"
  using assms
proof (induction ls arbitrary: m d)
  case (Cons l ls)
  show ?case
  proof (cases "d < l")
    case True
    then show ?thesis using Cons.prems by (intro exI [of _ 0]) auto
  next
    case False
    then have "0 \<le> d - l" "d - l < sum_list ls" "\<forall>l \<in> set ls. 0 < l" using Cons.prems by auto
    from Cons.IH [OF this, of "m + 1"] obtain i where i: "i < length ls"
      "month_scan ls (m + 1) (d - l) = (m + 1 + int i, d - l - sum_list (take i ls) + 1)"
      "sum_list (take i ls) \<le> d - l" "d - l < sum_list (take i ls) + ls ! i" by blast
    then show ?thesis using False by (intro exI [of _ "Suc i"]) auto
  qed
qed simp

lemma month_lengths_facts:
  "length (month_lengths b) = 12" "sum_list (month_lengths b) = (if b then 366 else 365)"
  "\<forall>l \<in> set (month_lengths b). 0 < l"
  by (auto simp: month_lengths_def)

lemma month_scan_date:
  assumes "0 \<le> r" "r < (if is_leap y then 366 else 365)"
  shows "(case month_scan (month_lengths (is_leap y)) 1 r of (m, d) \<Rightarrow>
      valid_date (Date y m d) \<and> days_before_month y m + d = r + 1)"
proof -
  from month_scan_spec [of r "month_lengths (is_leap y)" 1] assms
  obtain i where i: "i < 12" "month_scan (month_lengths (is_leap y)) 1 r
      = (1 + int i, r - sum_list (take i (month_lengths (is_leap y))) + 1)"
    "sum_list (take i (month_lengths (is_leap y))) \<le> r"
    "r < sum_list (take i (month_lengths (is_leap y))) + month_lengths (is_leap y) ! i"
    by (auto simp: month_lengths_facts)
  then show ?thesis by (simp add: valid_date_def days_in_month_def days_before_month_def)
qed

text \<open>The four-level decomposition of an ordinal into eras, centuries, olympiads and years.\<close>

lemma era_bounds:
  fixes n0 :: int
  defines "r400 \<equiv> n0 mod 146097"
  defines "n100 \<equiv> r400 div 36524" and "r100 \<equiv> r400 mod 36524"
  defines "n4 \<equiv> r100 div 1461" and "r4 \<equiv> r100 mod 1461"
  defines "n1 \<equiv> r4 div 365" and "r1 \<equiv> r4 mod 365"
  shows "0 \<le> n100 \<and> n100 \<le> 4" "0 \<le> n4 \<and> n4 \<le> 24" "0 \<le> n1 \<and> n1 \<le> 4" "0 \<le> r1 \<and> r1 < 365"
    "n100 = 4 \<Longrightarrow> n4 = 0 \<and> n1 = 0 \<and> r1 = 0" "n1 = 4 \<Longrightarrow> r1 = 0"
    "n0 = n0 div 146097 * 146097 + n100 * 36524 + n4 * 1461 + n1 * 365 + r1"
    "n4 = 24 \<Longrightarrow> n100 < 4 \<Longrightarrow> r4 < 1460"
proof -
  have r400: "0 \<le> r400" "r400 < 146097" unfolding r400_def by simp_all
  have e100: "r400 = n100 * 36524 + r100" "0 \<le> r100" "r100 < 36524"
    unfolding n100_def r100_def by simp_all
  have e4: "r100 = n4 * 1461 + r4" "0 \<le> r4" "r4 < 1461" unfolding n4_def r4_def by simp_all
  have e1: "r4 = n1 * 365 + r1" "0 \<le> r1" "r1 < 365" unfolding n1_def r1_def by simp_all
  have n0: "n0 = n0 div 146097 * 146097 + r400" unfolding r400_def by simp
  show "0 \<le> n100 \<and> n100 \<le> 4" using r400 e100 by auto
  show "0 \<le> n4 \<and> n4 \<le> 24" using e100 e4 by auto
  show "0 \<le> n1 \<and> n1 \<le> 4" using e4 e1 by auto
  show "0 \<le> r1 \<and> r1 < 365" using e1 by simp
  show "n0 = n0 div 146097 * 146097 + n100 * 36524 + n4 * 1461 + n1 * 365 + r1"
    using n0 e100(1) e4(1) e1(1) by linarith
  show "n1 = 4 \<Longrightarrow> r1 = 0" using e4 e1 by auto
  show "n4 = 24 \<Longrightarrow> n100 < 4 \<Longrightarrow> r4 < 1460" using e100 e4 by auto
  assume "n100 = 4"
  then have "r100 = 0" using r400 e100 by auto
  then show "n4 = 0 \<and> n1 = 0 \<and> r1 = 0" using e4 e1 unfolding n4_def r4_def n1_def r1_def by simp
qed

lemma div_of_remainder: "0 \<le> r \<Longrightarrow> r < k \<Longrightarrow> x = k * q + r \<Longrightarrow> x div k = q" for r k q x :: int
  by (metis add.commute add_0 div_mult_self2 div_pos_pos_trivial order_le_less_trans less_irrefl)

lemma days_before_decomposed:
  fixes a b c d :: int
  assumes "0 \<le> b" "b \<le> 3" "0 \<le> c" "0 \<le> d" "d \<le> 3" "c \<le> 24"
  shows "days_before_year (a * 400 + b * 100 + c * 4 + d + 1) = a * 146097 + b * 36524 + c * 1461 + d * 365"
proof -
  let ?p = "a * 400 + b * 100 + c * 4 + d"
  have "?p div 4 = a * 100 + b * 25 + c" by (rule div_of_remainder [of d]) (use assms in auto)
  moreover have "?p div 100 = a * 4 + b" by (rule div_of_remainder [of "c * 4 + d"]) (use assms in auto)
  moreover have "?p div 400 = a" by (rule div_of_remainder [of "b * 100 + c * 4 + d"]) (use assms in auto)
  ultimately show ?thesis unfolding days_before_year_def by simp
qed

lemma last_day_ordinal: "valid_date (Date y 12 31)" "toordinal (Date y 12 31) = days_before_year (y + 1)"
  by (auto simp: toordinal_def days_before_year_step month_tables valid_date_def)

theorem fromordinal_spec: "valid_date (fromordinal n) \<and> toordinal (fromordinal n) = n"
proof -
  define n0 n400 r400 where "n0 = n - 1" and "n400 = n0 div 146097" and "r400 = n0 mod 146097"
  define n100 r100 where "n100 = r400 div 36524" and "r100 = r400 mod 36524"
  define n4 r4 where "n4 = r100 div 1461" and "r4 = r100 mod 1461"
  define n1 r1 where "n1 = r4 div 365" and "r1 = r4 mod 365"
  note defs = n400_def r400_def n100_def r100_def n4_def r4_def n1_def r1_def
  note b = era_bounds [of n0, folded defs]
  define y where "y = n400 * 400 + n100 * 100 + n4 * 4 + n1 + 1"
  have unfold: "fromordinal n = (if n1 = 4 \<or> n100 = 4 then Date (y - 1) 12 31
      else let (m, d) = month_scan (month_lengths (is_leap y)) 1 r1 in Date y m d)"
    by (simp add: fromordinal_def Let_def y_def n0_def defs)
  have total: "n = n400 * 146097 + n100 * 36524 + n4 * 1461 + n1 * 365 + r1 + 1"
    using b(7) by (simp add: n0_def)
  consider (era) "n100 = 4" | (leap) "n100 \<noteq> 4" "n1 = 4" | (plain) "n100 \<noteq> 4" "n1 \<noteq> 4" by blast
  then show ?thesis
  proof cases
    case era
    with b(5) have z: "n4 = 0" "n1 = 0" "r1 = 0" by auto
    have "days_before_year y = n"
      using days_before_decomposed [of 0 0 0 "n400 + 1"] total era z by (simp add: y_def algebra_simps)
    then show ?thesis using unfold era last_day_ordinal [of "y - 1"] by simp
  next
    case leap
    have "r1 = 0" "n4 \<le> 23" using b(2,6,8) leap b(1) r4_def n1_def r1_def by (auto; linarith)+
    then have "days_before_year y = n"
      using days_before_decomposed [of n100 "n4 + 1" 0 n400] total leap b(1,2) by (simp add: y_def algebra_simps)
    then show ?thesis using unfold leap last_day_ordinal [of "y - 1"] by simp
  next
    case plain
    then have "days_before_year y = n400 * 146097 + n100 * 36524 + n4 * 1461 + n1 * 365"
      unfolding y_def by (intro days_before_decomposed) (use b(1-3) in auto)
    moreover have "r1 < (if is_leap y then 366 else 365)" using b(4) by auto
    moreover obtain m d where md: "month_scan (month_lengths (is_leap y)) 1 r1 = (m, d)" by fastforce
    ultimately show ?thesis
      using month_scan_date [of r1 y] b(4) plain total unfold by (simp add: toordinal_def)
  qed
qed

lemma valid_fromordinal [simp]: "valid_date (fromordinal n)"
  and toordinal_fromordinal [simp]: "toordinal (fromordinal n) = n"
  using fromordinal_spec by simp_all

lemma fromordinal_toordinal: "valid_date d \<Longrightarrow> fromordinal (toordinal d) = d"
  by (rule toordinal_inj) simp_all

lemma add_days_facts [simp]: "valid_date (add_days d n)" "toordinal (add_days d n) = toordinal d + n"
  by (simp_all add: add_days_def)

end
