(* ===== verification/Durable_Time.thy ===== *)
theory Durable_Time
  imports Calendar Complex_Main
begin

text \<open>
  Timestamps of the durable stores (src/app/services/durable_store_time.py) and the two
  helpers that read them: the inspection query context (durable_store_inspection.py) and
  the offset arithmetic of list pages (durable_store_pagination.py).

  An instant is the number of microseconds since the epoch, UTC. A \<open>datetime\<close> is a wall
  clock reading in microseconds, naive or with its UTC offset. A column of the database holds
  an instant: the stores only write \<open>datetime.now(timezone.utc)\<close> into it. Float seconds
  are exact rationals here, so the rounding of \<open>total_seconds\<close> is not modelled.
\<close>

type_synonym instant = int

datatype datetime = Naive int | Aware int int

fun instant_of :: "datetime \<Rightarrow> instant" where
  "instant_of (Naive t) = t"
| "instant_of (Aware t off) = t - off"

definition utc :: "instant \<Rightarrow> datetime" where
  "utc t = Aware t 0"

fun coerce_utc_datetime :: "datetime \<Rightarrow> datetime" where
  "coerce_utc_datetime (Naive t) = Aware t 0"
| "coerce_utc_datetime (Aware t off) = Aware (t - off) 0"

fun without_tzinfo :: "datetime \<Rightarrow> datetime" where
  "without_tzinfo (Naive t) = Naive t"
| "without_tzinfo (Aware t off) = Naive t"

definition normalize_filter_datetime :: "datetime option \<Rightarrow> string \<Rightarrow> datetime option" where
  "normalize_filter_datetime v dialect_name =
     (case v of None \<Rightarrow> None
      | Some d \<Rightarrow> let normalized = coerce_utc_datetime d in
          Some (if dialect_name = ''sqlite'' then without_tzinfo normalized else normalized))"

lemma coerce_utc_datetime_eq [simp]: "coerce_utc_datetime d = utc (instant_of d)"
  by (cases d) (simp_all add: utc_def)

lemma instant_of_utc [simp]: "instant_of (utc t) = t"
  by (simp add: utc_def)

lemma normalize_filter_instant [simp]:
  "map_option instant_of (normalize_filter_datetime v dialect) = map_option instant_of v"
  by (cases v) (simp_all add: normalize_filter_datetime_def utc_def Let_def)

section \<open>Ages\<close>

definition total_seconds :: "int \<Rightarrow> rat" where
  "total_seconds micros = of_int micros / 1000000"

definition elapsed_seconds_since :: "datetime \<Rightarrow> datetime \<Rightarrow> rat" where
  "elapsed_seconds_since now_utc timestamp_utc =
     max 0 (total_seconds (instant_of (coerce_utc_datetime now_utc) - instant_of (coerce_utc_datetime timestamp_utc)))"

definition elapsed_seconds_since_or_zero :: "datetime \<Rightarrow> datetime option \<Rightarrow> rat" where
  "elapsed_seconds_since_or_zero now_utc timestamp_utc =
     (case timestamp_utc of None \<Rightarrow> 0 | Some t \<Rightarrow> elapsed_seconds_since now_utc t)"

lemma elapsed_nonneg: "0 \<le> elapsed_seconds_since_or_zero n t"
  by (auto simp: elapsed_seconds_since_or_zero_def elapsed_seconds_since_def split: option.splits)

section \<open>ISO timestamps\<close>

fun padded :: "nat \<Rightarrow> int \<Rightarrow> string" where
  "padded 0 n = []"
| "padded (Suc w) n = padded w (n div 10) @ [char_of (48 + nat (n mod 10))]"

text \<open>\<open>date.isoformat\<close>, which is also \<open>str\<close> of a date.\<close>

definition str_date :: "date \<Rightarrow> string" where
  "str_date d = padded 4 (year d) @ ''-'' @ padded 2 (month d) @ ''-'' @ padded 2 (day d)"

text \<open>\<open>datetime.isoformat\<close> of an instant read in UTC, without its offset suffix.\<close>

definition iso_body :: "instant \<Rightarrow> string" where
  "iso_body t =
     (let secs = t div 1000000; us = t mod 1000000;
          d = fromordinal (719163 + secs div 86400); sod = secs mod 86400
      in padded 4 (year d) @ ''-'' @ padded 2 (month d) @ ''-'' @ padded 2 (day d) @ ''T''
         @ padded 2 (sod div 3600) @ '':'' @ padded 2 (sod div 60 mod 60) @ '':'' @ padded 2 (sod mod 60)
         @ (if us = 0 then [] else ''.'' @ padded 6 us))"

definition isoformat_utc :: "instant \<Rightarrow> string" where
  "isoformat_utc t = iso_body t @ ''+00:00''"

function str_replace :: "string \<Rightarrow> string \<Rightarrow> string \<Rightarrow> string" where
  "str_replace old new s =
     (case s of [] \<Rightarrow> []
      | c # cs \<Rightarrow> if old \<noteq> [] \<and> starts_with s old then new @ str_replace old new (drop (length old) s)
                 else c # str_replace old new cs)"
  by pat_completeness auto
termination
  by (relation "measure (\<lambda>(old, new, s). length s)") auto

declare str_replace.simps [simp del]

definition format_timestamp :: "datetime option \<Rightarrow> string option" where
  "format_timestamp v =
     (case v of None \<Rightarrow> None
      | Some d \<Rightarrow> Some (str_replace ''+00:00'' ''Z'' (isoformat_utc (instant_of (coerce_utc_datetime d)))))"

lemma format_timestamp_None [simp]: "format_timestamp v = None \<longleftrightarrow> v = None"
  by (simp add: format_timestamp_def split: option.splits)

lemma str_replace_skip: "c \<noteq> hd old \<Longrightarrow> str_replace old new (c # s) = c # str_replace old new s"
  by (subst str_replace.simps) (cases old; auto simp: starts_with_def)

lemma str_replace_prefix:
  "old \<noteq> [] \<Longrightarrow> hd old \<notin> set s \<Longrightarrow> str_replace old new (s @ t) = s @ str_replace old new t"
  by (induction s) (auto simp: str_replace_skip)

lemma padded_chars: "c \<in> set (padded w n) \<Longrightarrow> c \<noteq> CHR ''+''"
proof (induction w arbitrary: n)
  case (Suc w)
  have "char_of (48 + nat (n mod 10)) \<noteq> CHR ''+''"
  proof
    assume eq: "char_of (48 + nat (n mod 10)) = CHR ''+''"
    have "(of_char (char_of (48 + nat (n mod 10))) :: nat) = 48 + nat (n mod 10)"
      by (simp add: nat_less_iff take_bit_nat_def)
    with eq show False by simp
  qed
  with Suc show ?case by auto
qed simp

lemma format_timestamp_utc: "format_timestamp (Some d) = Some (iso_body (instant_of d) @ ''Z'')"
proof -
  have no_plus: "CHR ''+'' \<notin> set (iso_body (instant_of d))"
    by (auto simp: iso_body_def Let_def dest: padded_chars)
  have "str_replace ''+00:00'' ''Z'' ''+00:00'' = ''Z''"
    by (subst str_replace.simps) (simp add: starts_with_def str_replace.simps)
  then show ?thesis using no_plus
    by (simp add: format_timestamp_def isoformat_utc_def str_replace_prefix)
qed

section \<open>Inspection context and page offsets\<close>

definition INSPECTION_STATUS_ACTIVE :: string where "INSPECTION_STATUS_ACTIVE = ''active''"
definition INSPECTION_STATUS_FAILED :: string where "INSPECTION_STATUS_FAILED = ''failed''"
definition INSPECTION_STATUS_ALL :: string where "INSPECTION_STATUS_ALL = ''all''"
definition INSPECTION_STATUS_RECLAIMABLE :: string where "INSPECTION_STATUS_RECLAIMABLE = ''reclaimable''"

lemmas inspection_status_defs =
  INSPECTION_STATUS_ACTIVE_def INSPECTION_STATUS_FAILED_def INSPECTION_STATUS_ALL_def INSPECTION_STATUS_RECLAIMABLE_def

definition SUPPORTED_INSPECTION_STATUS_FILTERS :: "string set" where
  "SUPPORTED_INSPECTION_STATUS_FILTERS =
     {INSPECTION_STATUS_ACTIVE, INSPECTION_STATUS_FAILED, INSPECTION_STATUS_ALL, INSPECTION_STATUS_RECLAIMABLE}"

record inspection_query_context =
  iqc_status_filter :: string
  iqc_now :: instant
  iqc_min_age_threshold :: "instant option"

text \<open>\<open>timedelta(seconds=x)\<close> rounds to whole microseconds, ties to even.\<close>

definition round_half_even :: "rat \<Rightarrow> int" where
  "round_half_even x = (let f = \<lfloor>x\<rfloor>; r = x - of_int f in
     if r < 1 / 2 then f else if r > 1 / 2 then f + 1 else if even f then f else f + 1)"

definition build_inspection_query_context ::
    "string \<Rightarrow> rat \<Rightarrow> instant \<Rightarrow> string + inspection_query_context" where
  "build_inspection_query_context status_filter min_age_seconds now =
     (let normalized = lower status_filter in
      if normalized \<notin> SUPPORTED_INSPECTION_STATUS_FILTERS
      then Inl (''Unsupported status filter: '' @ status_filter)
      else Inr \<lparr>iqc_status_filter = normalized, iqc_now = now,
                iqc_min_age_threshold =
                  (if 0 < min_age_seconds then Some (now - round_half_even (min_age_seconds * 1000000)) else None)\<rparr>)"

text \<open>\<open>WHERE active_since <= threshold\<close>: a row whose column is NULL does not match.\<close>

definition apply_min_age_filter :: "('r \<Rightarrow> instant option) \<Rightarrow> instant option \<Rightarrow> 'r list \<Rightarrow> 'r list" where
  "apply_min_age_filter active_since threshold rows =
     (case threshold of None \<Rightarrow> rows
      | Some th \<Rightarrow> filter (\<lambda>r. case active_since r of None \<Rightarrow> False | Some t \<Rightarrow> t \<le> th) rows)"

definition next_offset_or_none :: "nat \<Rightarrow> nat \<Rightarrow> nat \<Rightarrow> nat option" where
  "next_offset_or_none offset item_count total_count =
     (let next_offset = offset + item_count in if next_offset < total_count then Some next_offset else None)"

record recovery_cursor =
  rc_recovered_before :: "string option"
  rc_calculation_id_before :: "string option"

definition recovery_cursor_or_none ::
    "('i \<Rightarrow> string) \<Rightarrow> ('i \<Rightarrow> string) \<Rightarrow> nat option \<Rightarrow> 'i list \<Rightarrow> recovery_cursor" where
  "recovery_cursor_or_none recovered_at calc_id next_offset items =
     (if next_offset = None \<or> items = []
      then \<lparr>rc_recovered_before = None, rc_calculation_id_before = None\<rparr>
      else let last_item = last items in
        \<lparr>rc_recovered_before = Some (recovered_at last_item), rc_calculation_id_before = Some (calc_id last_item)\<rparr>)"

lemma round_half_even_int [simp]: "round_half_even (of_int n) = n"
  by (simp add: round_half_even_def)

lemma round_half_even_error: "\<bar>of_int (round_half_even x) - x\<bar> \<le> 1 / 2"
proof -
  have "of_int \<lfloor>x\<rfloor> \<le> x" "x < of_int \<lfloor>x\<rfloor> + 1" by linarith+
  then show ?thesis by (auto simp: round_half_even_def Let_def abs_le_iff)
qed

end
