(* ===== verification/Durable_Json.thy ===== *)
theory Durable_Json
  imports Prelude "HOL-Library.Multiset"
begin

text \<open>
  JSON payload columns (src/app/services/durable_store_json.py). A TEXT column is kept up to
  the value its text parses to: \<open>Doc j\<close> for a text that \<open>json.loads\<close> reads as \<open>j\<close>, and
  \<open>Malformed s\<close> for a text on which it raises \<open>JSONDecodeError\<close>. A float keeps the text of its
  literal. Dictionaries are association lists in insertion order, as Python keeps them.
\<close>

datatype json =
    JNull
  | JBool bool
  | JInt int
  | JFloat string
  | JStr string
  | JList "json list"
  | JObj "(string \<times> json) list"

type_synonym json_dict = "(string \<times> json) list"

datatype json_text = Doc json | Malformed string

fun json_loads :: "json_text \<Rightarrow> json option" where
  "json_loads (Doc j) = Some j"
| "json_loads (Malformed s) = None"

text \<open>\<open>json.dumps(\<dots>, sort_keys=True)\<close>: the text of the value with every object's keys sorted.\<close>

primrec sort_keys :: "json \<Rightarrow> json" where
  "sort_keys JNull = JNull"
| "sort_keys (JBool b) = JBool b"
| "sort_keys (JInt n) = JInt n"
| "sort_keys (JFloat s) = JFloat s"
| "sort_keys (JStr s) = JStr s"
| "sort_keys (JList js) = JList (List.map sort_keys js)"
| "sort_keys (JObj kvs) = JObj (sort_key fst (List.map (map_prod id sort_keys) kvs))"

definition json_dumps :: "json \<Rightarrow> json_text" where
  "json_dumps j = Doc (sort_keys j)"

definition dumps_dict :: "json_dict \<Rightarrow> json_text" where
  "dumps_dict d = json_dumps (JObj d)"

text \<open>\<open>not raw_payload\<close>: only the empty text is falsy, and it never parses.\<close>

fun text_truthy :: "json_text option \<Rightarrow> bool" where
  "text_truthy None = False"
| "text_truthy (Some (Malformed s)) = (s \<noteq> [])"
| "text_truthy (Some (Doc j)) = True"

fun present_json_payload_or_none :: "json_text option \<Rightarrow> bool \<Rightarrow> json_text option" where
  "present_json_payload_or_none None empty_is_absent = None"
| "present_json_payload_or_none (Some raw) empty_is_absent =
     (if empty_is_absent \<and> raw = Malformed [] then None else Some raw)"

fun is_json_object_payload :: "json \<Rightarrow> bool" where
  "is_json_object_payload (JObj kvs) = True"
| "is_json_object_payload _ = False"

definition load_json_object_or_none :: "json_text option \<Rightarrow> bool \<Rightarrow> json_dict option" where
  "load_json_object_or_none raw_payload empty_is_absent =
     (case present_json_payload_or_none raw_payload empty_is_absent of
        None \<Rightarrow> None
      | Some present \<Rightarrow>
          (case json_loads present of
             None \<Rightarrow> None
           | Some payload \<Rightarrow> (case payload of JObj kvs \<Rightarrow> Some kvs | _ \<Rightarrow> None)))"

fun nonempty_string_of :: "json \<Rightarrow> string option" where
  "nonempty_string_of (JStr s) = (if s \<noteq> [] then Some s else None)"
| "nonempty_string_of _ = None"

fun is_non_empty_string_list_payload :: "json \<Rightarrow> bool" where
  "is_non_empty_string_list_payload (JList items) = list_all (\<lambda>i. nonempty_string_of i \<noteq> None) items"
| "is_non_empty_string_list_payload _ = False"

fun string_list_of :: "json \<Rightarrow> string list" where
  "string_list_of (JList items) = List.map (\<lambda>i. case nonempty_string_of i of Some s \<Rightarrow> s | None \<Rightarrow> []) items"
| "string_list_of _ = []"

definition load_json_string_list_or_default :: "json_text \<Rightarrow> string list \<Rightarrow> string list" where
  "load_json_string_list_or_default raw_payload default_value =
     (case json_loads raw_payload of
        None \<Rightarrow> default_value
      | Some payload \<Rightarrow>
          if is_non_empty_string_list_payload payload then string_list_of payload else default_value)"

definition dict_get :: "json_dict \<Rightarrow> string \<Rightarrow> json option" where
  "dict_get d k = map_of d k"

text \<open>An optional string as a JSON value.\<close>

definition json_opt :: "string option \<Rightarrow> json" where
  "json_opt s = (case s of None \<Rightarrow> JNull | Some t \<Rightarrow> JStr t)"

section \<open>Laws\<close>

lemma sort_key_fst_map: "(\<And>x. fst (f x) = fst x) \<Longrightarrow> sort_key fst (List.map f xs) = List.map f (sort_key fst xs)"
proof (induction xs)
  case (Cons x xs)
  have "insort_key fst (f x) (List.map f ys) = List.map f (insort_key fst x ys)" for ys
    using Cons.prems by (induction ys) auto
  with Cons show ?case by simp
qed simp

lemma sort_key_idem: "sort_key f (sort_key f xs) = sort_key f xs"
  by (simp add: sort_key_id_if_sorted)

lemma sort_keys_idem [simp]: "sort_keys (sort_keys j) = sort_keys j"
proof (induction j)
  case (JObj kvs)
  have fixed: "map_prod id sort_keys kv = kv" if "kv \<in> set (List.map (map_prod id sort_keys) kvs)" for kv
  proof -
    from that obtain p where p: "p \<in> set kvs" "kv = map_prod id sort_keys p" by auto
    have "sort_keys (sort_keys (snd p)) = sort_keys (snd p)" by (rule JObj [OF p(1)]) (simp add: snds.intros)
    then show ?thesis unfolding p(2) by (cases p) (simp only: map_prod_simp id_apply snd_conv)
  qed
  let ?s = "sort_key fst (List.map (map_prod id sort_keys) kvs)"
  have "List.map (map_prod id sort_keys) ?s = ?s"
  proof (rule map_idI)
    fix x assume "x \<in> set ?s"
    then have "x \<in> set (List.map (map_prod id sort_keys) kvs)" by simp
    then show "map_prod id sort_keys x = x" by (rule fixed)
  qed
  then show ?case by (simp only: sort_keys.simps sort_key_idem)
qed (auto intro: map_idI)

theorem json_roundtrip: "json_loads (json_dumps j) = Some (sort_keys j)"
  by (simp add: json_dumps_def)

lemma dumps_dict_object [simp]:
  "load_json_object_or_none (Some (dumps_dict d)) e = Some (sort_key fst (List.map (map_prod id sort_keys) d))"
  by (simp add: load_json_object_or_none_def dumps_dict_def json_dumps_def)

lemma dumps_dict_stable: "dumps_dict (sort_key fst (List.map (map_prod id sort_keys) d)) = dumps_dict d"
proof -
  have "sort_keys (sort_keys (JObj d)) = sort_keys (JObj d)" by (rule sort_keys_idem)
  then show ?thesis by (simp add: dumps_dict_def json_dumps_def)
qed

text \<open>Two dictionaries with the same items have the same text, whatever their insertion order.\<close>

lemma dumps_dict_perm:
  assumes "distinct (List.map fst d)" "mset d = mset d'"
  shows "dumps_dict d = dumps_dict d'"
proof -
  let ?f = "List.map (map_prod id sort_keys)"
  have "mset (?f d) = mset (?f d')" using assms(2) by (metis mset_map)
  moreover have "List.map fst (?f d) = List.map fst d" by (simp add: comp_def)
  then have "inj_on fst (set (?f d))" using assms(1) distinct_map by metis
  ultimately have "sort_key fst (?f d) = sort_key fst (?f d')"
    by (intro sort_key_inj_key_eq) simp_all
  then show ?thesis by (simp add: dumps_dict_def json_dumps_def)
qed

lemma load_object_Malformed [simp]: "load_json_object_or_none (Some (Malformed s)) e = None"
  by (simp add: load_json_object_or_none_def)

lemma load_object_None [simp]: "load_json_object_or_none None e = None"
  by (simp add: load_json_object_or_none_def)

end
