(* ===== verification/Failure_Classification.thy ===== *)
theory Failure_Classification
  imports Durable_Json
begin

text \<open>
  The durable failure classification (src/app/services/durable_failure_classification.py):
  what a failed job may disclose, how it is stored with the job row, and how a stored text is
  read back. Validators return the message of the \<open>ValueError\<close> they raise.
\<close>

section \<open>API errors (src/core/errors.py)\<close>

record api_error =
  status_code :: int
  detail :: json
  error_code :: "string option"
  retryable :: "bool option"
  remediation_hint :: "string option"

datatype exn = APIError api_error | OtherException

definition DURABLE_FAILURE_CONTRACT_VERSION :: string where
  "DURABLE_FAILURE_CONTRACT_VERSION = ''v1''"

definition GENERIC_ASYNC_FAILURE_CODE :: string where
  "GENERIC_ASYNC_FAILURE_CODE = ''ASYNC_EXECUTION_FAILED''"

definition GENERIC_ASYNC_FAILURE_MESSAGE :: string where
  "GENERIC_ASYNC_FAILURE_MESSAGE =
     ''Compute job execution failed unexpectedly. Use the correlation_id for support.''"

definition MAX_CODE_LENGTH :: nat where "MAX_CODE_LENGTH = 128"
definition MAX_MESSAGE_LENGTH :: nat where "MAX_MESSAGE_LENGTH = 512"
definition MAX_REMEDIATION_LENGTH :: nat where "MAX_REMEDIATION_LENGTH = 512"

definition ERROR_CODE_BY_STATUS :: "(int \<times> string) list" where
  "ERROR_CODE_BY_STATUS =
     [(400, ''INVALID_REQUEST''), (401, ''UNAUTHORIZED''), (403, ''FORBIDDEN''), (404, ''RESOURCE_NOT_FOUND''),
      (409, ''CONFLICT''), (422, ''INVALID_REQUEST''), (429, ''RATE_LIMITED''), (500, ''INTERNAL_SERVER_ERROR''),
      (502, ''SOURCE_UNAVAILABLE''), (503, ''SOURCE_UNAVAILABLE''), (504, ''SOURCE_UNAVAILABLE'')]"

definition RETRYABLE_STATUSES :: "int list" where
  "RETRYABLE_STATUSES = [408, 429, 500, 502, 503, 504]"

definition REPLAYABLE_STATUS_CODES :: "int list" where
  "REPLAYABLE_STATUS_CODES = List.map fst ERROR_CODE_BY_STATUS @ [408]"

record durable_failure_classification =
  dfc_contract_version :: string
  dfc_status_code :: int
  dfc_error_code :: string
  dfc_message :: string
  dfc_retryable :: bool
  dfc_remediation_hint :: "string option"

definition to_json :: "durable_failure_classification \<Rightarrow> json_text" where
  "to_json c = json_dumps (JObj (
     [(''contract_version'', JStr (dfc_contract_version c)),
      (''status_code'', JInt (dfc_status_code c)),
      (''error_code'', JStr (dfc_error_code c)),
      (''message'', JStr (dfc_message c)),
      (''retryable'', JBool (dfc_retryable c))]
     @ (case dfc_remediation_hint c of None \<Rightarrow> [] | Some h \<Rightarrow> [(''remediation_hint'', JStr h)])))"

definition to_api_error :: "durable_failure_classification \<Rightarrow> api_error" where
  "to_api_error c = \<lparr>status_code = dfc_status_code c, detail = JStr (dfc_message c),
     error_code = Some (dfc_error_code c), retryable = Some (dfc_retryable c),
     remediation_hint = dfc_remediation_hint c\<rparr>"

definition bounded_text :: "string \<Rightarrow> nat \<Rightarrow> string" where
  "bounded_text value limit = take limit (strip value)"

fun nonblank_string :: "json option \<Rightarrow> string option" where
  "nonblank_string (Some (JStr s)) = (if strip s = [] then None else Some (strip s))"
| "nonblank_string _ = None"

fun optional_bounded_text :: "json option \<Rightarrow> nat \<Rightarrow> string option" where
  "optional_bounded_text (Some (JStr s)) limit = (if strip s = [] then None else Some (take limit (strip s)))"
| "optional_bounded_text _ limit = None"

definition json_of_str :: "string option \<Rightarrow> json option" where
  "json_of_str s = map_option JStr s"

text \<open>\<open>getattr(exc, key, None)\<close> on an \<open>APIError\<close>, for the keys the module asks for.\<close>

definition error_attribute :: "api_error \<Rightarrow> string \<Rightarrow> json option" where
  "error_attribute e key =
     (if key = ''error_code'' then json_of_str (error_code e)
      else if key = ''retryable'' then map_option JBool (retryable e)
      else if key = ''remediation_hint'' then json_of_str (remediation_hint e)
      else None)"

definition detail_value :: "api_error \<Rightarrow> string \<Rightarrow> json option" where
  "detail_value e key = (case detail e of JObj d \<Rightarrow> dict_get d key | _ \<Rightarrow> error_attribute e key)"

definition safe_api_error_message :: "api_error \<Rightarrow> string" where
  "safe_api_error_message e =
     (if status_code e \<ge> 500 then GENERIC_ASYNC_FAILURE_MESSAGE
      else let fallback = ''The asynchronous calculation was refused.'' in
        (case detail e of
           JObj d \<Rightarrow> (case nonblank_string (dict_get d ''message'') of Some m \<Rightarrow> m | None \<Rightarrow> fallback)
         | JStr s \<Rightarrow> (if strip s \<noteq> [] then strip s else fallback)
         | _ \<Rightarrow> fallback))"

definition resolved_error_code :: "api_error \<Rightarrow> string" where
  "resolved_error_code e =
     (case nonblank_string (json_of_str (error_code e)) of Some c \<Rightarrow> c
      | None \<Rightarrow> (case nonblank_string (detail_value e ''error_code'') of Some c \<Rightarrow> c
      | None \<Rightarrow> (case nonblank_string (detail_value e ''code'') of Some c \<Rightarrow> c
      | None \<Rightarrow> (case map_of ERROR_CODE_BY_STATUS (status_code e) of Some c \<Rightarrow> c
      | None \<Rightarrow> ''INTERNAL_SERVER_ERROR''))))"

definition resolved_retryable :: "api_error \<Rightarrow> bool" where
  "resolved_retryable e =
     (case retryable e of Some b \<Rightarrow> b
      | None \<Rightarrow> (case detail_value e ''retryable'' of Some (JBool b) \<Rightarrow> b
                 | _ \<Rightarrow> status_code e \<in> set RETRYABLE_STATUSES))"

definition generic_durable_failure :: "bool \<Rightarrow> durable_failure_classification" where
  "generic_durable_failure b =
     \<lparr>dfc_contract_version = DURABLE_FAILURE_CONTRACT_VERSION, dfc_status_code = 409,
      dfc_error_code = GENERIC_ASYNC_FAILURE_CODE, dfc_message = GENERIC_ASYNC_FAILURE_MESSAGE,
      dfc_retryable = b, dfc_remediation_hint = None\<rparr>"

definition hint_source :: "api_error \<Rightarrow> json option" where
  "hint_source e = (if nonblank_opt (remediation_hint e) then json_of_str (remediation_hint e)
                    else detail_value e ''remediation_hint'')"

fun classify_durable_failure :: "exn \<Rightarrow> bool option \<Rightarrow> durable_failure_classification" where
  "classify_durable_failure OtherException r = generic_durable_failure (r = Some True)"
| "classify_durable_failure (APIError e) r =
     (if status_code e \<notin> set REPLAYABLE_STATUS_CODES then generic_durable_failure (r = Some True)
      else \<lparr>dfc_contract_version = DURABLE_FAILURE_CONTRACT_VERSION,
            dfc_status_code = status_code e,
            dfc_error_code = bounded_text (resolved_error_code e) MAX_CODE_LENGTH,
            dfc_message = bounded_text (safe_api_error_message e) MAX_MESSAGE_LENGTH,
            dfc_retryable = (case r of None \<Rightarrow> resolved_retryable e | Some b \<Rightarrow> b),
            dfc_remediation_hint = optional_bounded_text (hint_source e) MAX_REMEDIATION_LENGTH\<rparr>)"

section \<open>Reading a stored classification back\<close>

fun is_str :: "json option \<Rightarrow> bool" where
  "is_str (Some (JStr s)) = True" | "is_str _ = False"

fun is_int :: "json option \<Rightarrow> bool" where
  "is_int (Some (JInt n)) = True" | "is_int _ = False"

fun is_bool :: "json option \<Rightarrow> bool" where
  "is_bool (Some (JBool b)) = True" | "is_bool _ = False"

definition validate_payload_types :: "json_dict \<Rightarrow> string + unit" where
  "validate_payload_types p =
     (let bad = (\<lambda>f. ''invalid durable failure '' @ f @ '' type'') in
      if \<not> is_str (dict_get p ''contract_version'') then Inl (bad ''contract_version'')
      else if \<not> is_int (dict_get p ''status_code'') then Inl (bad ''status_code'')
      else if \<not> is_str (dict_get p ''error_code'') then Inl (bad ''error_code'')
      else if \<not> is_str (dict_get p ''message'') then Inl (bad ''message'')
      else if \<not> is_bool (dict_get p ''retryable'') then Inl (bad ''retryable'')
      else (case dict_get p ''remediation_hint'' of
              None \<Rightarrow> Inr () | Some JNull \<Rightarrow> Inr () | Some (JStr s) \<Rightarrow> Inr ()
            | Some _ \<Rightarrow> Inl ''invalid durable failure remediation type''))"

definition validate_classification :: "durable_failure_classification \<Rightarrow> string + unit" where
  "validate_classification c =
     (if dfc_contract_version c \<noteq> DURABLE_FAILURE_CONTRACT_VERSION
        then Inl ''unsupported durable failure contract version''
      else if dfc_status_code c \<notin> set REPLAYABLE_STATUS_CODES then Inl ''invalid durable failure status''
      else if dfc_error_code c = [] \<or> length (dfc_error_code c) > MAX_CODE_LENGTH
        then Inl ''invalid durable failure code''
      else if dfc_message c = [] \<or> length (dfc_message c) > MAX_MESSAGE_LENGTH
        then Inl ''invalid durable failure message''
      else Inr ())"

definition str_field :: "json_dict \<Rightarrow> string \<Rightarrow> string" where
  "str_field p k = (case dict_get p k of Some (JStr s) \<Rightarrow> s | _ \<Rightarrow> [])"

definition int_field :: "json_dict \<Rightarrow> string \<Rightarrow> int" where
  "int_field p k = (case dict_get p k of Some (JInt n) \<Rightarrow> n | _ \<Rightarrow> 0)"

definition bool_field :: "json_dict \<Rightarrow> string \<Rightarrow> bool" where
  "bool_field p k = (case dict_get p k of Some (JBool b) \<Rightarrow> b | _ \<Rightarrow> False)"

definition load_durable_failure :: "json_text option \<Rightarrow> durable_failure_classification option" where
  "load_durable_failure raw_value =
     (case raw_value of None \<Rightarrow> None
      | Some raw \<Rightarrow>
          (case json_loads raw of
             Some (JObj payload) \<Rightarrow>
               (case validate_payload_types payload of
                  Inl _ \<Rightarrow> None
                | Inr _ \<Rightarrow>
                    let c = \<lparr>dfc_contract_version = str_field payload ''contract_version'',
                             dfc_status_code = int_field payload ''status_code'',
                             dfc_error_code = str_field payload ''error_code'',
                             dfc_message = str_field payload ''message'',
                             dfc_retryable = bool_field payload ''retryable'',
                             dfc_remediation_hint =
                               optional_bounded_text (dict_get payload ''remediation_hint'') MAX_REMEDIATION_LENGTH\<rparr>
                    in (case validate_classification c of Inl _ \<Rightarrow> None | Inr _ \<Rightarrow> Some c))
           | _ \<Rightarrow> None))"

lemmas failure_limits =
  DURABLE_FAILURE_CONTRACT_VERSION_def MAX_CODE_LENGTH_def MAX_MESSAGE_LENGTH_def MAX_REMEDIATION_LENGTH_def
  GENERIC_ASYNC_FAILURE_CODE_def GENERIC_ASYNC_FAILURE_MESSAGE_def

section \<open>Every classification is storable\<close>

lemma nonblank_string_Some: "nonblank_string j = Some s \<Longrightarrow> s \<noteq> [] \<and> strip s = s"
  by (cases j rule: nonblank_string.cases) (auto split: if_splits)

lemma strip_generic [simp]: "strip GENERIC_ASYNC_FAILURE_MESSAGE = GENERIC_ASYNC_FAILURE_MESSAGE"
  by code_simp

lemma generic_message_nonempty [simp]: "GENERIC_ASYNC_FAILURE_MESSAGE \<noteq> []"
  by (simp add: GENERIC_ASYNC_FAILURE_MESSAGE_def)

lemma strip_fallback: "strip ''The asynchronous calculation was refused.'' = ''The asynchronous calculation was refused.''"
  by code_simp

lemma safe_message_clean: "safe_api_error_message e \<noteq> [] \<and> strip (safe_api_error_message e) = safe_api_error_message e"
  using strip_fallback
  by (auto simp: safe_api_error_message_def Let_def dest: nonblank_string_Some
      split: json.splits option.splits if_splits)

lemma error_code_table: "map_of ERROR_CODE_BY_STATUS n = Some c \<Longrightarrow> c \<noteq> [] \<and> strip c = c"
proof -
  have "list_all (\<lambda>(_, c). c \<noteq> [] \<and> strip c = c) ERROR_CODE_BY_STATUS" by code_simp
  then show "map_of ERROR_CODE_BY_STATUS n = Some c \<Longrightarrow> c \<noteq> [] \<and> strip c = c"
    by (auto simp: list_all_iff dest: map_of_SomeD)
qed

lemma strip_internal: "strip ''INTERNAL_SERVER_ERROR'' = ''INTERNAL_SERVER_ERROR''"
  by code_simp

lemma resolved_code_clean: "resolved_error_code e \<noteq> [] \<and> strip (resolved_error_code e) = resolved_error_code e"
  using strip_internal
  by (auto simp: resolved_error_code_def dest: nonblank_string_Some error_code_table split: option.splits)

lemma classify_valid: "validate_classification (classify_durable_failure x r) = Inr ()"
proof (cases x)
  case OtherException
  then show ?thesis by (simp add: validate_classification_def generic_durable_failure_def failure_limits
        REPLAYABLE_STATUS_CODES_def ERROR_CODE_BY_STATUS_def)
next
  case (APIError e)
  then show ?thesis using safe_message_clean [of e] resolved_code_clean [of e]
    by (auto simp: validate_classification_def generic_durable_failure_def bounded_text_def failure_limits
        REPLAYABLE_STATUS_CODES_def ERROR_CODE_BY_STATUS_def)
qed

definition hint_clean :: "durable_failure_classification \<Rightarrow> bool" where
  "hint_clean c \<longleftrightarrow> optional_bounded_text (json_of_str (dfc_remediation_hint c)) MAX_REMEDIATION_LENGTH
                      = dfc_remediation_hint c"

lemma load_to_json:
  assumes "validate_classification c = Inr ()"
  shows "load_durable_failure (Some (to_json c)) =
    Some (c\<lparr>dfc_remediation_hint :=
      optional_bounded_text (json_of_str (dfc_remediation_hint c)) MAX_REMEDIATION_LENGTH\<rparr>)"
proof (cases "dfc_remediation_hint c")
  case None
  with assms show ?thesis
    by (simp add: load_durable_failure_def to_json_def json_dumps_def dict_get_def validate_payload_types_def
        str_field_def int_field_def bool_field_def json_of_str_def validate_classification_def Let_def
        split: if_splits)
next
  case (Some h)
  with assms show ?thesis
    by (simp add: load_durable_failure_def to_json_def json_dumps_def dict_get_def validate_payload_types_def
        str_field_def int_field_def bool_field_def json_of_str_def validate_classification_def Let_def
        split: if_splits)
qed


end
