(* ===== verification/Tenant_Authority.thy ===== *)
theory Tenant_Authority
  imports Failure_Classification
begin

text \<open>
  Tenant admission (src/app/services/core_tenant_authority.py): the presented header becomes
  an authority, absence, or a refusal. Refusals are API errors with their HTTP mapping.
\<close>

definition TENANT_HEADER :: string where "TENANT_HEADER = ''X-Tenant-Id''"
definition MAX_TENANT_ID_LENGTH :: nat where "MAX_TENANT_ID_LENGTH = 128"

definition MALFORMED_TENANT_AUTHORITY_DETAIL :: string where
  "MALFORMED_TENANT_AUTHORITY_DETAIL = ''X-Tenant-Id must not exceed 128 characters after trimming.''"

definition DUPLICATE_TENANT_AUTHORITY_DETAIL :: string where
  "DUPLICATE_TENANT_AUTHORITY_DETAIL = ''X-Tenant-Id must be supplied exactly once.''"

definition COMPOSITE_TENANT_AUTHORITY_REQUIRED_DETAIL :: string where
  "COMPOSITE_TENANT_AUTHORITY_REQUIRED_DETAIL =
     ''Performance composite access requires an admitted X-Tenant-Id.''"

definition tenant_refusal :: "int \<Rightarrow> string \<Rightarrow> string \<Rightarrow> api_error" where
  "tenant_refusal code msg err = \<lparr>status_code = code, detail = JStr msg, error_code = Some err,
     retryable = Some False, remediation_hint = None\<rparr>"

definition MalformedTenantAuthorityError :: "string \<Rightarrow> api_error" where
  "MalformedTenantAuthorityError d = tenant_refusal 400 d ''TENANT_AUTHORITY_MALFORMED''"

definition MissingStatefulSubmissionTenantAuthorityError :: api_error where
  "MissingStatefulSubmissionTenantAuthorityError = tenant_refusal 401
     (''Stateful async submission requires X-Tenant-Id before durable execution is registered. '' @
      ''This service does not accept a job that cannot perform its authorized Core reads.'')
     ''TENANT_AUTHORITY_REQUIRED''"

definition MissingIdempotentSubmissionTenantAuthorityError :: api_error where
  "MissingIdempotentSubmissionTenantAuthorityError = tenant_refusal 401
     (''Idempotency-Key requires X-Tenant-Id before durable execution is registered. '' @
      ''The idempotency namespace is tenant-scoped and this service does not infer tenant authority.'')
     ''TENANT_AUTHORITY_REQUIRED''"

definition MissingCompositeTenantAuthorityError :: api_error where
  "MissingCompositeTenantAuthorityError =
     tenant_refusal 401 COMPOSITE_TENANT_AUTHORITY_REQUIRED_DETAIL ''TENANT_AUTHORITY_REQUIRED''"

record tenant_authority =
  tenant_id :: string

text \<open>The constructor with its \<open>__post_init__\<close>; the \<open>Inl\<close> is the \<open>ValueError\<close> message.\<close>

definition TenantAuthority :: "string \<Rightarrow> string + tenant_authority" where
  "TenantAuthority t =
     (if strip t = [] then Inl (''tenant_id must be a non-empty string; a blank tenant is an absent tenant '' @
           ''and must be represented by refusing the read, not by an empty header'')
      else if length (strip t) > MAX_TENANT_ID_LENGTH then Inl ''tenant_id must not exceed 128 characters''
      else Inr \<lparr>tenant_id = strip t\<rparr>)"

definition tenant_headers :: "tenant_authority \<Rightarrow> (string \<times> string) list" where
  "tenant_headers a = [(TENANT_HEADER, tenant_id a)]"

text \<open>
  \<open>Inl (Inl e)\<close> is an API refusal; \<open>Inl (Inr m)\<close> would be the constructor's \<open>ValueError\<close>,
  which \<open>admitted_no_value_error\<close> shows never leaves the admission.
\<close>

definition admitted_tenant_authority :: "string \<Rightarrow> (api_error + string) + tenant_authority option" where
  "admitted_tenant_authority presented =
     (let normalized = strip presented in
      if normalized = [] then Inr None
      else if length normalized > MAX_TENANT_ID_LENGTH
        then Inl (Inl (MalformedTenantAuthorityError MALFORMED_TENANT_AUTHORITY_DETAIL))
      else (case TenantAuthority normalized of Inl m \<Rightarrow> Inl (Inr m) | Inr a \<Rightarrow> Inr (Some a)))"

definition admitted_tenant_authority_from_header_values ::
    "string list \<Rightarrow> (api_error + string) + tenant_authority option" where
  "admitted_tenant_authority_from_header_values presented_values =
     (if length presented_values > 1
        then Inl (Inl (MalformedTenantAuthorityError DUPLICATE_TENANT_AUTHORITY_DETAIL))
      else admitted_tenant_authority (case presented_values of [] \<Rightarrow> [] | v # _ \<Rightarrow> v))"

definition require_composite_tenant_authority :: "tenant_authority option \<Rightarrow> api_error + tenant_authority" where
  "require_composite_tenant_authority authority =
     of_option MissingCompositeTenantAuthorityError authority"

lemma admitted_no_value_error: "admitted_tenant_authority p \<noteq> Inl (Inr m)"
  by (auto simp: admitted_tenant_authority_def TenantAuthority_def Let_def)

lemma admitted_cases:
  "admitted_tenant_authority p =
     (if strip p = [] then Inr None
      else if length (strip p) > MAX_TENANT_ID_LENGTH
        then Inl (Inl (MalformedTenantAuthorityError MALFORMED_TENANT_AUTHORITY_DETAIL))
      else Inr (Some \<lparr>tenant_id = strip p\<rparr>))"
  by (simp add: admitted_tenant_authority_def TenantAuthority_def Let_def)

lemma admitted_header_unique:
  "admitted_tenant_authority_from_header_values vs = Inr (Some a) \<Longrightarrow> \<exists>v. vs = [v] \<and> tenant_id a = strip v"
  by (cases vs) (auto simp: admitted_tenant_authority_from_header_values_def admitted_cases strip_def lstrip_def
      split: if_splits)

end
