(* ===== verification/Store_Schema.thy ===== *)
theory Store_Schema
  imports Durable_Time Tenant_Authority
begin

text \<open>
  The rows of the durable metadata database and the database itself: the SQLAlchemy models of
  src/app/services/compute_job_store.py, execution_registry.py, lineage_metadata_store.py and
  async_result_store.py.
  All stores share one database (\<open>LINEAGE_METADATA_DATABASE_URL\<close>), so one record holds every
  table. A status column holds one of its enum's values, which is all the stores write.
\<close>

type_synonym uuid = string

section \<open>Compute jobs\<close>

datatype compute_job_status = JPending | JLeased | JRunning | JComplete | JFailed

fun compute_job_status_value :: "compute_job_status \<Rightarrow> string" where
  "compute_job_status_value JPending = ''pending''"
| "compute_job_status_value JLeased = ''leased''"
| "compute_job_status_value JRunning = ''running''"
| "compute_job_status_value JComplete = ''complete''"
| "compute_job_status_value JFailed = ''failed''"

record compute_job_row =
  job_calculation_id :: uuid
  job_analytics_type :: string
  job_status :: compute_job_status
  job_request_json :: json_text
  job_response_json :: "json_text option"
  job_error_message :: "string option"
  job_error_type :: "string option"
  job_failure_json :: "json_text option"
  job_attempt_count :: int
  job_max_attempts :: int
  job_worker_id :: "string option"
  job_lease_owner_id :: "string option"
  job_tenant_id :: "string option"
  job_leased_at_utc :: "instant option"
  job_lease_expires_at_utc :: "instant option"
  job_last_error_at_utc :: "instant option"
  job_created_at_utc :: instant
  job_started_at_utc :: "instant option"
  job_completed_at_utc :: "instant option"

section \<open>Executions, stages and upstream snapshots\<close>

datatype execution_status = EPending | ERunning | EComplete | EFailed

datatype execution_stage_status = SPending | SInProgress | SComplete | SFailed

record execution_row =
  ex_calculation_id :: uuid
  ex_tenant_id :: "string option"
  ex_analytics_type :: string
  ex_portfolio_id :: "string option"
  ex_execution_mode :: string
  ex_status :: execution_status
  ex_requested_window_json :: json_text
  ex_request_json :: "json_text option"
  ex_response_json :: "json_text option"
  ex_submission_idempotency_key_hash :: "string option"
  ex_submission_identity_fingerprint :: "string option"
  ex_submission_contract_version :: "string option"
  ex_input_fingerprint :: "string option"
  ex_calculation_hash :: "string option"
  ex_error_message :: "string option"
  ex_failure_json :: "json_text option"
  ex_created_at_utc :: instant
  ex_started_at_utc :: "instant option"
  ex_completed_at_utc :: "instant option"

record stage_row =
  st_calculation_id :: uuid
  st_stage_name :: string
  st_status :: execution_stage_status
  st_started_at_utc :: "instant option"
  st_completed_at_utc :: "instant option"
  st_details_json :: "json_text option"
  st_error_message :: "string option"

record snapshot_row =
  sn_snapshot_id :: string
  sn_calculation_id :: uuid
  sn_upstream_endpoint :: string
  sn_source_identifier :: string
  sn_as_of_date :: string
  sn_request_fingerprint :: string
  sn_response_fingerprint :: string
  sn_retrieval_status :: string
  sn_paging_metadata_json :: "json_text option"
  sn_created_at_utc :: instant

section \<open>Lineage records and queued payloads\<close>

datatype lineage_status = LPending | LComplete | LFailed

datatype custody_state = Capturing | Frozen | PendingMaterialization | CustodyComplete | CustodyFailed

fun custody_state_value :: "custody_state \<Rightarrow> string" where
  "custody_state_value Capturing = ''capturing''"
| "custody_state_value Frozen = ''frozen''"
| "custody_state_value PendingMaterialization = ''pending_materialization''"
| "custody_state_value CustodyComplete = ''complete''"
| "custody_state_value CustodyFailed = ''failed''"

record lineage_row =
  lr_calculation_id :: uuid
  lr_calculation_type :: string
  lr_status :: lineage_status
  lr_timestamp_utc :: instant
  lr_artifact_names :: string
  lr_error_message :: "string option"
  lr_source_tenant_id :: "string option"
  lr_source_attempt_id :: "string option"
  lr_source_attempt_number :: "int option"
  lr_source_custody_state :: "custody_state option"
  lr_source_root_digest :: "string option"
  lr_source_manifest_digest :: "string option"

record payload_row =
  lp_calculation_id :: uuid
  lp_calculation_type :: string
  lp_request_json :: json_text
  lp_response_json :: json_text
  lp_details_json :: json_text
  lp_created_at_utc :: instant
  lp_attempt_count :: int
  lp_worker_id :: "string option"
  lp_leased_at_utc :: "instant option"
  lp_lease_expires_at_utc :: "instant option"

section \<open>Asynchronous results\<close>

datatype async_result_status = RComplete | RFailed

record result_row =
  ar_calculation_id :: uuid
  ar_tenant_id :: "string option"
  ar_analytics_type :: string
  ar_result_status :: async_result_status
  ar_response_json :: "json_text option"
  ar_error_message :: "string option"
  ar_error_type :: "string option"
  ar_failure_json :: "json_text option"
  ar_created_at_utc :: instant
  ar_updated_at_utc :: instant

section \<open>The database\<close>

record database =
  db_jobs :: "compute_job_row list"
  db_executions :: "execution_row list"
  db_stages :: "stage_row list"
  db_snapshots :: "snapshot_row list"
  db_lineage :: "lineage_row list"
  db_payloads :: "payload_row list"
  db_results :: "result_row list"
  db_has_lineage_table :: bool
  db_dialect_name :: string

definition stage_key :: "stage_row \<Rightarrow> uuid \<times> string" where
  "stage_key s = (st_calculation_id s, st_stage_name s)"

definition keys_ok :: "database \<Rightarrow> bool" where
  "keys_ok db \<longleftrightarrow> tbl_ok job_calculation_id (db_jobs db) \<and> tbl_ok ex_calculation_id (db_executions db)
     \<and> tbl_ok stage_key (db_stages db) \<and> tbl_ok sn_snapshot_id (db_snapshots db)
     \<and> tbl_ok lr_calculation_id (db_lineage db) \<and> tbl_ok lp_calculation_id (db_payloads db)
     \<and> tbl_ok ar_calculation_id (db_results db)"

definition empty_database :: "string \<Rightarrow> database" where
  "empty_database dialect = \<lparr>db_jobs = [], db_executions = [], db_stages = [], db_snapshots = [],
     db_lineage = [], db_payloads = [], db_results = [], db_has_lineage_table = True, db_dialect_name = dialect\<rparr>"

text \<open>The exceptions the stores raise.\<close>

datatype store_error =
    LeaseOwnershipError string
  | LineageOwnershipError string
  | SourceCustodyConflict string
  | KeyError string
  | ValueError string
  | RuntimeError string
  | IntegrityError
  | IndexError
  | APIRefusal api_error
  | ResultTenantConflict string
  | CaptureAdmissionRequired string
  | OriginalConflict string

text \<open>A session update of one table, in the row's transaction.\<close>

definition update_job :: "uuid \<Rightarrow> (compute_job_row \<Rightarrow> compute_job_row) \<Rightarrow> database \<Rightarrow> database" where
  "update_job k f db = db\<lparr>db_jobs := tbl_upd job_calculation_id k f (db_jobs db)\<rparr>"

definition update_execution :: "uuid \<Rightarrow> (execution_row \<Rightarrow> execution_row) \<Rightarrow> database \<Rightarrow> database" where
  "update_execution k f db = db\<lparr>db_executions := tbl_upd ex_calculation_id k f (db_executions db)\<rparr>"

definition update_stage :: "uuid \<times> string \<Rightarrow> (stage_row \<Rightarrow> stage_row) \<Rightarrow> database \<Rightarrow> database" where
  "update_stage k f db = db\<lparr>db_stages := tbl_upd stage_key k f (db_stages db)\<rparr>"

definition update_lineage :: "uuid \<Rightarrow> (lineage_row \<Rightarrow> lineage_row) \<Rightarrow> database \<Rightarrow> database" where
  "update_lineage k f db = db\<lparr>db_lineage := tbl_upd lr_calculation_id k f (db_lineage db)\<rparr>"

definition get_job :: "uuid \<Rightarrow> database \<Rightarrow> compute_job_row option" where
  "get_job k db = tbl_get job_calculation_id k (db_jobs db)"

definition get_execution_row :: "uuid \<Rightarrow> database \<Rightarrow> execution_row option" where
  "get_execution_row k db = tbl_get ex_calculation_id k (db_executions db)"

definition get_stage_row :: "uuid \<times> string \<Rightarrow> database \<Rightarrow> stage_row option" where
  "get_stage_row k db = tbl_get stage_key k (db_stages db)"

definition get_lineage :: "uuid \<Rightarrow> database \<Rightarrow> lineage_row option" where
  "get_lineage k db = tbl_get lr_calculation_id k (db_lineage db)"

definition get_payload :: "uuid \<Rightarrow> database \<Rightarrow> payload_row option" where
  "get_payload k db = tbl_get lp_calculation_id k (db_payloads db)"

definition add_job :: "compute_job_row \<Rightarrow> database \<Rightarrow> database" where
  "add_job r db = db\<lparr>db_jobs := tbl_add r (db_jobs db)\<rparr>"

definition add_execution :: "execution_row \<Rightarrow> database \<Rightarrow> database" where
  "add_execution r db = db\<lparr>db_executions := tbl_add r (db_executions db)\<rparr>"

definition delete_job :: "uuid \<Rightarrow> database \<Rightarrow> database" where
  "delete_job k db = db\<lparr>db_jobs := tbl_del job_calculation_id k (db_jobs db)\<rparr>"

definition drop_execution :: "uuid \<Rightarrow> database \<Rightarrow> database" where
  "drop_execution k db = db\<lparr>db_executions := tbl_del ex_calculation_id k (db_executions db)\<rparr>"

lemmas db_ops = update_job_def update_execution_def update_stage_def update_lineage_def get_job_def
  get_execution_row_def get_stage_row_def get_lineage_def get_payload_def add_job_def add_execution_def
  delete_job_def drop_execution_def

text \<open>Each table of the database is a keyed store.\<close>

interpretation jobs: keyed_store job_calculation_id get_job add_job update_job delete_job
  "\<lambda>db. tbl_ok job_calculation_id (db_jobs db)"
  unfolding db_ops [abs_def]
  by (rule keyed_store_in_state [where put = "\<lambda>t db. db\<lparr>db_jobs := t\<rparr>"]) simp

interpretation execs: keyed_store ex_calculation_id get_execution_row add_execution update_execution drop_execution
  "\<lambda>db. tbl_ok ex_calculation_id (db_executions db)"
  unfolding db_ops [abs_def]
  by (rule keyed_store_in_state [where put = "\<lambda>t db. db\<lparr>db_executions := t\<rparr>"]) simp

lemma get_frames [simp]:
  "get_job k (update_execution k' g db) = get_job k db"
  "get_job k (update_stage s h db) = get_job k db"
  "get_job k (update_lineage k' l db) = get_job k db"
  "get_job k (add_execution e db) = get_job k db"
  "get_execution_row k (update_job k' f db) = get_execution_row k db"
  "get_execution_row k (update_stage s h db) = get_execution_row k db"
  "get_execution_row k (update_lineage k' l db) = get_execution_row k db"
  "get_execution_row k (add_job j db) = get_execution_row k db"
  "get_lineage k (update_job k' f db) = get_lineage k db"
  "get_lineage k (update_execution k' g db) = get_lineage k db"
  "get_lineage k (update_stage s h db) = get_lineage k db"
  "get_stage_row s (update_job k' f db) = get_stage_row s db"
  "get_stage_row s (update_execution k' g db) = get_stage_row s db"
  "get_stage_row s (update_lineage k' l db) = get_stage_row s db"
  by (simp_all add: db_ops)

end
