(* ===== verification/Source_Custody.thy ===== *)
theory Source_Custody
  imports Store_Schema
begin

text \<open>
  Source-root custody (src/app/services/returns_series_source/custody.py): which attempt may
  select the immutable source root of a returns-series calculation, when its lineage record is
  frozen, queued, complete or failed. The functions run inside the transaction of the store
  that owns the execution; a raised conflict rolls that transaction back.
\<close>

section \<open>Claims and selections\<close>

record source_custody_claim =
  cl_calculation_id :: uuid
  cl_tenant_id :: string
  cl_attempt_id :: string
  cl_attempt_number :: int

definition claim_validate :: "source_custody_claim \<Rightarrow> store_error + unit" where
  "claim_validate c =
     (if cl_tenant_id c = [] \<or> cl_tenant_id c \<noteq> strip (cl_tenant_id c)
         \<or> cl_attempt_id c = [] \<or> cl_attempt_id c \<noteq> strip (cl_attempt_id c)
         \<or> cl_attempt_number c < 0
      then Inl (SourceCustodyConflict ''Explicit source tenant and attempt required.'')
      else Inr ())"

record source_custody_selection =
  sel_tenant_id :: string
  sel_attempt_id :: string
  sel_attempt_number :: int
  sel_state :: string
  sel_root_digest :: "string option"
  sel_manifest_digest :: "string option"

record source_materialization_payload =
  mp_request_json :: json_text
  mp_response_json :: json_text

text \<open>\<open>re.fullmatch(r"[0-9a-f]{64}", s)\<close>.\<close>

definition is_hex_char :: "char \<Rightarrow> bool" where
  "is_hex_char c = (let n = (of_char c :: nat) in (48 \<le> n \<and> n \<le> 57) \<or> (97 \<le> n \<and> n \<le> 102))"

definition is_digest :: "string \<Rightarrow> bool" where
  "is_digest s \<longleftrightarrow> length s = 64 \<and> list_all is_hex_char s"

definition or_empty :: "string option \<Rightarrow> string" where
  "or_empty s = (case s of None \<Rightarrow> [] | Some t \<Rightarrow> t)"

definition int_or_zero :: "int option \<Rightarrow> int" where
  "int_or_zero n = (case n of None \<Rightarrow> 0 | Some k \<Rightarrow> k)"

definition selection :: "lineage_row \<Rightarrow> source_custody_selection" where
  "selection row = \<lparr>sel_tenant_id = or_empty (lr_source_tenant_id row),
     sel_attempt_id = or_empty (lr_source_attempt_id row),
     sel_attempt_number = int_or_zero (lr_source_attempt_number row),
     sel_state = (case lr_source_custody_state row of None \<Rightarrow> [] | Some s \<Rightarrow> custody_state_value s),
     sel_root_digest = lr_source_root_digest row,
     sel_manifest_digest = lr_source_manifest_digest row\<rparr>"

section \<open>Selecting a root\<close>

definition new_source_record :: "source_custody_claim \<Rightarrow> instant \<Rightarrow> lineage_row" where
  "new_source_record c now = \<lparr>lr_calculation_id = cl_calculation_id c, lr_calculation_type = ''ReturnsSeries'',
     lr_status = LPending, lr_timestamp_utc = now, lr_artifact_names = [], lr_error_message = None,
     lr_source_tenant_id = Some (cl_tenant_id c), lr_source_attempt_id = Some (cl_attempt_id c),
     lr_source_attempt_number = Some (cl_attempt_number c), lr_source_custody_state = Some Capturing,
     lr_source_root_digest = None, lr_source_manifest_digest = None\<rparr>"

text \<open>The row to work on and the database that holds it.\<close>

definition source_record :: "source_custody_claim \<Rightarrow> instant \<Rightarrow> database \<Rightarrow> lineage_row \<times> database" where
  "source_record c now db =
     (case get_lineage (cl_calculation_id c) db of
        Some row \<Rightarrow> (row, db)
      | None \<Rightarrow> let row = new_source_record c now in (row, db\<lparr>db_lineage := tbl_add row (db_lineage db)\<rparr>))"

definition require_source_record_scope :: "lineage_row \<Rightarrow> source_custody_claim \<Rightarrow> store_error + unit" where
  "require_source_record_scope row c =
     (if lr_calculation_type row \<noteq> ''ReturnsSeries'' \<or> lr_source_tenant_id row \<noteq> Some (cl_tenant_id c)
        then Inl (SourceCustodyConflict ''Source custody tenant or workflow conflict.'')
      else if cl_attempt_number c = 0 \<and>
              (lr_source_attempt_id row, lr_source_attempt_number row) \<noteq> (Some (cl_attempt_id c), Some 0)
        then Inl (SourceCustodyConflict ''Source custody belongs to a different inline attempt.'')
      else Inr ())"

definition select_unfrozen_root ::
    "lineage_row \<Rightarrow> source_custody_claim \<Rightarrow> string option \<Rightarrow> bool \<Rightarrow> store_error + lineage_row" where
  "select_unfrozen_root row c root_digest beginning_capture =
     (let different_attempt =
            (lr_source_attempt_id row, lr_source_attempt_number row) \<noteq> (Some (cl_attempt_id c), Some (cl_attempt_number c))
      in if lr_status row \<noteq> LPending
           then Inl (SourceCustodyConflict ''Terminal lineage cannot select a source root.'')
         else if different_attempt \<and>
                 (\<not> beginning_capture \<or> cl_attempt_number c \<le> int_or_zero (lr_source_attempt_number row))
           then Inl (SourceCustodyConflict ''Source capture attempt was superseded.'')
         else Inr (row\<lparr>lr_source_attempt_id := Some (cl_attempt_id c),
                        lr_source_attempt_number := Some (cl_attempt_number c),
                        lr_source_custody_state := Some (if root_digest = None then Capturing else Frozen),
                        lr_source_root_digest := root_digest\<rparr>))"

definition apply_root_selection ::
    "lineage_row \<Rightarrow> source_custody_claim \<Rightarrow> string option \<Rightarrow> bool \<Rightarrow> store_error + lineage_row" where
  "apply_root_selection row c root_digest beginning_capture =
     (if lr_source_root_digest row \<noteq> None
      then (if root_digest \<noteq> None \<and> lr_source_root_digest row \<noteq> root_digest
            then Inl (SourceCustodyConflict ''An immutable source root is already selected.'')
            else Inr row)
      else select_unfrozen_root row c root_digest beginning_capture)"

definition fail_source_capture :: "lineage_row \<Rightarrow> string \<Rightarrow> store_error + lineage_row" where
  "fail_source_capture row failure =
     (if lr_status row = LComplete
      then Inl (SourceCustodyConflict ''Completed source custody cannot be reset.'')
      else Inr (row\<lparr>lr_source_custody_state := Some CustodyFailed, lr_status := LFailed,
                     lr_error_message := Some failure\<rparr>))"

definition new_payload :: "lineage_row \<Rightarrow> source_materialization_payload \<Rightarrow> instant \<Rightarrow> payload_row" where
  "new_payload row p now = \<lparr>lp_calculation_id = lr_calculation_id row, lp_calculation_type = lr_calculation_type row,
     lp_request_json = mp_request_json p, lp_response_json = mp_response_json p, lp_details_json = Doc (JObj []),
     lp_created_at_utc = now, lp_attempt_count = 0, lp_worker_id = None, lp_leased_at_utc = None,
     lp_lease_expires_at_utc = None\<rparr>"

definition enqueue_selected_source ::
    "lineage_row \<Rightarrow> source_materialization_payload \<Rightarrow> instant \<Rightarrow> database \<Rightarrow> store_error + lineage_row \<times> database" where
  "enqueue_selected_source row p now db =
     (if lr_source_root_digest row = None
         \<or> lr_source_custody_state row \<notin> {Some Frozen, Some PendingMaterialization, Some CustodyComplete}
        then Inl (SourceCustodyConflict ''Only verified frozen source evidence may be enqueued.'')
      else (case get_payload (lr_calculation_id row) db of
          Some existing \<Rightarrow>
            (if lp_request_json existing \<noteq> mp_request_json p \<or> lp_response_json existing \<noteq> mp_response_json p
             then Inl (SourceCustodyConflict ''Source materialization payload is immutable.'')
             else Inr (row, db))
        | None \<Rightarrow>
            (if lr_source_custody_state row = Some CustodyComplete then Inr (row, db)
             else if lr_status row \<noteq> LPending
               then Inl (SourceCustodyConflict ''Terminal lineage cannot be reset by enqueue.'')
             else Inr (row\<lparr>lr_source_custody_state := Some PendingMaterialization\<rparr>,
                       db\<lparr>db_payloads := tbl_add (new_payload row p now) (db_payloads db)\<rparr>))))"

definition fail_if_given :: "string option \<Rightarrow> lineage_row \<Rightarrow> store_error + lineage_row" where
  "fail_if_given failure row = (case failure of None \<Rightarrow> Inr row | Some f \<Rightarrow> fail_source_capture row f)"

definition enqueue_if_given ::
    "source_materialization_payload option \<Rightarrow> instant \<Rightarrow> database \<Rightarrow> lineage_row \<Rightarrow> store_error + lineage_row \<times> database" where
  "enqueue_if_given m now db row =
     (case m of None \<Rightarrow> Inr (row, db) | Some p \<Rightarrow> enqueue_selected_source row p now db)"

definition store_row :: "lineage_row \<Rightarrow> database \<Rightarrow> database" where
  "store_row row db = update_lineage (lr_calculation_id row) (\<lambda>_. row) db"

definition select_source_root ::
    "source_custody_claim \<Rightarrow> string option \<Rightarrow> string option \<Rightarrow> source_materialization_payload option \<Rightarrow> instant
      \<Rightarrow> database \<Rightarrow> store_error + source_custody_selection \<times> database" where
  "select_source_root c root_digest failure materialization now db =
     bind_res (claim_validate c) (\<lambda>_.
     bind_res (ensure (root_digest = None \<or> is_digest (or_empty root_digest))
                 (SourceCustodyConflict ''Invalid source root digest.'')) (\<lambda>_.
     let (row, db1) = source_record c now db in
     bind_res (require_source_record_scope row c) (\<lambda>_.
     let beginning = (root_digest = None \<and> failure = None \<and> materialization = None) in
     if lr_status row = LFailed
     then (if \<not> beginning then Inl (SourceCustodyConflict ''Terminal source failure cannot be reset.'')
           else Inr (selection row, db1))
     else bind_res (apply_root_selection row c root_digest beginning) (\<lambda>row1.
          bind_res (fail_if_given failure row1) (\<lambda>row2.
          bind_res (enqueue_if_given materialization now db1 row2) (\<lambda>(row3, db2).
          Inr (selection row3, store_row row3 db2)))))))"

section \<open>Reading frozen custody\<close>

definition require_frozen_source_identity :: "lineage_row \<Rightarrow> store_error + unit" where
  "require_frozen_source_identity row =
     (if \<not> is_digest (or_empty (lr_source_root_digest row)) \<or> \<not> nonblank_opt (lr_source_attempt_id row)
         \<or> lr_source_attempt_number row = None \<or> int_or_zero (lr_source_attempt_number row) < 0
      then Inl (SourceCustodyConflict ''Completed publication requires immutable frozen identity.'')
      else Inr ())"

definition expected_frozen_status :: "custody_state option \<Rightarrow> lineage_status option" where
  "expected_frozen_status s =
     (case s of Some Frozen \<Rightarrow> Some LPending
      | Some PendingMaterialization \<Rightarrow> Some LPending
      | Some CustodyComplete \<Rightarrow> Some LComplete
      | _ \<Rightarrow> None)"

definition require_existing_frozen_source ::
    "source_custody_claim \<Rightarrow> database \<Rightarrow> store_error + source_custody_selection" where
  "require_existing_frozen_source c db =
     (case get_lineage (cl_calculation_id c) db of
        None \<Rightarrow> Inl (SourceCustodyConflict ''Completed publication requires existing frozen custody.'')
      | Some row \<Rightarrow>
          bind_res (require_source_record_scope row c) (\<lambda>_.
          if expected_frozen_status (lr_source_custody_state row) \<noteq> Some (lr_status row)
          then Inl (SourceCustodyConflict ''Completed publication requires immutable frozen custody.'')
          else bind_res (require_frozen_source_identity row) (\<lambda>_. Inr (selection row))))"

definition is_line_break :: "char \<Rightarrow> bool" where
  "is_line_break c = (let n = (of_char c :: nat) in (10 \<le> n \<and> n \<le> 13) \<or> (28 \<le> n \<and> n \<le> 30) \<or> n = 133)"

text \<open>\<open>str.splitlines\<close>: a line break after a carriage return belongs to it.\<close>

fun splitlines_from :: "string \<Rightarrow> string \<Rightarrow> string list" where
  "splitlines_from line [] = (if line = [] then [] else [line])"
| "splitlines_from line (c # cs) =
     (if is_line_break c
      then line # (case cs of [] \<Rightarrow> []
                   | d # ds \<Rightarrow> if c = char_of (13 :: nat) \<and> d = char_of (10 :: nat)
                               then splitlines_from [] ds else splitlines_from [] cs)
      else splitlines_from (line @ [c]) cs)"

definition splitlines :: "string \<Rightarrow> string list" where
  "splitlines s = splitlines_from [] s"

text \<open>
  \<open>original_of\<close> stands for the response model (\<open>ReturnsSeriesResponse.model_validate\<close> with its
  JSON dump) and SHA-256: the dumped response and the digest of its text, or \<open>None\<close> when the
  model refuses the response.
\<close>

definition require_immutable_source_response ::
    "(json_dict \<Rightarrow> (json_dict \<times> string) option) \<Rightarrow> source_custody_claim \<Rightarrow> json_dict \<Rightarrow> database \<Rightarrow> store_error + unit" where
  "require_immutable_source_response original_of c response db =
     (case get_payload (cl_calculation_id c) db of
        Some payload \<Rightarrow>
          (case json_loads (lp_response_json payload) of
             None \<Rightarrow> Inl (ValueError ''JSONDecodeError'')
           | Some j \<Rightarrow>
               if sort_keys j \<noteq> sort_keys (JObj response)
               then Inl (SourceCustodyConflict ''Completed publication differs from its immutable source response.'')
               else Inr ())
      | None \<Rightarrow>
          (case get_lineage (cl_calculation_id c) db of
             None \<Rightarrow> Inl (SourceCustodyConflict ''Immutable completed publication response authority is unavailable.'')
           | Some row \<Rightarrow>
               if lr_source_custody_state row \<noteq> Some CustodyComplete
               then Inl (SourceCustodyConflict ''Immutable completed publication response authority is unavailable.'')
               else (case original_of response of
                       None \<Rightarrow> Inl (SourceCustodyConflict ''Completed publication response is invalid.'')
                     | Some (dumped, digest) \<Rightarrow>
                         if sort_keys (JObj dumped) \<noteq> sort_keys (JObj response)
                            \<or> ''source-'' @ digest @ ''.response.json'' \<notin> set (splitlines (lr_artifact_names row))
                         then Inl (SourceCustodyConflict
                                ''Completed publication differs from its selected immutable response digest.'')
                         else Inr ())))"

section \<open>Completion and retry of a queued source\<close>

definition require_source_completion_attempt ::
    "payload_row option \<Rightarrow> string option \<Rightarrow> int option \<Rightarrow> store_error + unit" where
  "require_source_completion_attempt payload worker_id attempt_count =
     (case (worker_id, payload, attempt_count) of
        (Some w, Some p, Some n) \<Rightarrow>
          ensure (lp_worker_id p = Some w \<and> lp_attempt_count p = n)
            (LineageOwnershipError ''Source completion requires the current lineage attempt.'')
      | _ \<Rightarrow> Inl (LineageOwnershipError ''Source completion requires the current lineage attempt.''))"

definition require_source_completion_root ::
    "lineage_row \<Rightarrow> string option \<Rightarrow> string option \<Rightarrow> string option \<Rightarrow> store_error + unit" where
  "require_source_completion_root record root_dg manifest tenant =
     (if root_dg = None \<or> manifest = None \<or> tenant = None
        then Inl (LineageOwnershipError ''Source completion identity is unavailable.'')
      else if \<not> is_digest (or_empty manifest)
        then Inl (LineageOwnershipError ''Source completion manifest digest is invalid.'')
      else if lr_source_root_digest record \<noteq> root_dg \<or> lr_source_tenant_id record \<noteq> tenant
              \<or> lr_source_custody_state record \<noteq> Some PendingMaterialization
        then Inl (LineageOwnershipError ''Source completion root or tenant differs from retained authority.'')
      else Inr ())"

definition require_source_completion_execution ::
    "database \<Rightarrow> uuid \<Rightarrow> string option \<Rightarrow> store_error + unit" where
  "require_source_completion_execution db calculation_id tenant =
     (case get_execution_row calculation_id db of
        None \<Rightarrow> Inl (LineageOwnershipError ''Source completion requires retained execution authority.'')
      | Some execution \<Rightarrow>
          ensure (ex_tenant_id execution = tenant \<and> ex_analytics_type execution = ''ReturnsSeries''
                  \<and> ex_status execution \<noteq> EFailed)
            (LineageOwnershipError ''Source completion requires retained execution authority.''))"

text \<open>The columns to write: none when the record has no source custody.\<close>

definition source_completion_values ::
    "database \<Rightarrow> lineage_row \<Rightarrow> payload_row option \<Rightarrow> string option \<Rightarrow> string option \<Rightarrow> string option
      \<Rightarrow> string option \<Rightarrow> int option \<Rightarrow> store_error + (custody_state \<times> string option) option" where
  "source_completion_values db record payload root_dg manifest tenant worker_id attempt_count =
     (if lr_source_custody_state record = None then Inr None
      else bind_res (require_source_completion_attempt payload worker_id attempt_count) (\<lambda>_.
           bind_res (require_source_completion_root record root_dg manifest tenant) (\<lambda>_.
           bind_res (require_source_completion_execution db (lr_calculation_id record) tenant) (\<lambda>_.
           Inr (Some (CustodyComplete, manifest))))))"

definition require_source_retry_record :: "database \<Rightarrow> lineage_row option \<Rightarrow> store_error + unit" where
  "require_source_retry_record db record =
     (case record of
        None \<Rightarrow> Inl (LineageOwnershipError ''Source retry requires pending retained authority.'')
      | Some row \<Rightarrow>
          bind_res (ensure (lr_status row = LPending \<and> lr_source_custody_state row = Some PendingMaterialization
                       \<and> lr_source_root_digest row \<noteq> None \<and> lr_source_tenant_id row \<noteq> None)
                      (LineageOwnershipError ''Source retry requires pending retained authority.'')) (\<lambda>_.
          require_source_completion_execution db (lr_calculation_id row) (lr_source_tenant_id row)))"

section \<open>Failing custody with its execution\<close>

definition custody_open :: "custody_state option \<Rightarrow> bool" where
  "custody_open s \<longleftrightarrow> s \<in> {Some Capturing, Some Frozen, Some PendingMaterialization}"

definition CUSTODY_TERMINATED :: string where
  "CUSTODY_TERMINATED = ''Arithmetic execution terminated before complete source custody.''"

definition fail_terminal_source_custody ::
    "uuid list \<Rightarrow> string option \<Rightarrow> string option \<Rightarrow> instant \<Rightarrow> database \<Rightarrow> database" where
  "fail_terminal_source_custody calculation_ids tenant analytics_type now db =
     (if tenant = None \<or> analytics_type \<noteq> Some ''ReturnsSeries'' then db
      else if \<not> db_has_lineage_table db then db
      else db\<lparr>db_lineage := fst (tbl_update_where
             (\<lambda>r. lr_calculation_id r \<in> set calculation_ids \<and> lr_calculation_type r = ''ReturnsSeries''
                  \<and> lr_source_tenant_id r = tenant \<and> custody_open (lr_source_custody_state r))
             (\<lambda>r. r\<lparr>lr_status := LFailed, lr_source_custody_state := Some CustodyFailed,
                     lr_error_message := Some CUSTODY_TERMINATED, lr_timestamp_utc := now\<rparr>)
             (db_lineage db))\<rparr>)"

section \<open>What a selection may change\<close>

text \<open>
  \<open>custody_move row row'\<close> is the contract of a selection on the row it works on: identity and
  tenant stay, a terminal failure stays as it is, and once a root is selected neither the root
  nor the attempt that froze it changes; without a root the attempt number never goes down.
\<close>

definition custody_move :: "lineage_row \<Rightarrow> lineage_row \<Rightarrow> bool" where
  "custody_move row row' \<longleftrightarrow>
     lr_calculation_id row' = lr_calculation_id row \<and> lr_calculation_type row' = lr_calculation_type row
   \<and> lr_source_tenant_id row' = lr_source_tenant_id row
   \<and> (lr_status row = LFailed \<longrightarrow> row' = row)
   \<and> (lr_source_root_digest row \<noteq> None \<longrightarrow>
        lr_source_root_digest row' = lr_source_root_digest row
        \<and> lr_source_attempt_id row' = lr_source_attempt_id row
        \<and> lr_source_attempt_number row' = lr_source_attempt_number row)
   \<and> int_or_zero (lr_source_attempt_number row) \<le> int_or_zero (lr_source_attempt_number row')"

lemma custody_move_refl: "custody_move r r"
  by (simp add: custody_move_def)

lemma select_unfrozen_move:
  "select_unfrozen_root row c d b = Inr row' \<Longrightarrow> lr_source_root_digest row = None \<Longrightarrow> lr_status row \<noteq> LFailed \<Longrightarrow>
   custody_move row row' \<and> lr_status row' = LPending \<and> lr_source_root_digest row' = d
   \<and> lr_source_custody_state row' = Some (if d = None then Capturing else Frozen)"
  by (auto simp: select_unfrozen_root_def custody_move_def int_or_zero_def Let_def split: if_splits)

lemma apply_root_move:
  "apply_root_selection row c d b = Inr row' \<Longrightarrow> lr_status row \<noteq> LFailed \<Longrightarrow>
   custody_move row row' \<and> lr_status row' \<noteq> LFailed"
  by (auto simp: apply_root_selection_def custody_move_refl split: if_splits dest: select_unfrozen_move)

lemma fail_if_given_move: "fail_if_given f row = Inr row' \<Longrightarrow> lr_status row \<noteq> LFailed \<Longrightarrow> custody_move row row'"
  by (auto simp: fail_if_given_def fail_source_capture_def custody_move_def split: option.splits if_splits)

lemma enqueue_move:
  "enqueue_if_given m now db row = Inr (row', db') \<Longrightarrow>
   lr_calculation_id row' = lr_calculation_id row \<and> lr_calculation_type row' = lr_calculation_type row
   \<and> lr_source_tenant_id row' = lr_source_tenant_id row \<and> lr_source_root_digest row' = lr_source_root_digest row
   \<and> lr_source_attempt_id row' = lr_source_attempt_id row \<and> lr_source_attempt_number row' = lr_source_attempt_number row
   \<and> db_lineage db' = db_lineage db"
  by (auto simp: enqueue_if_given_def enqueue_selected_source_def split: option.splits if_splits)

lemma store_row_get:
  "get_lineage k (store_row row db) =
     (if k = lr_calculation_id row then map_option (\<lambda>_. row) (get_lineage k db) else get_lineage k db)"
  by (simp add: store_row_def db_ops tbl_get_replace)

lemma source_record_facts:
  assumes "source_record c now db = (row, db1)"
  shows "lr_calculation_id row = cl_calculation_id c" "get_lineage (cl_calculation_id c) db1 = Some row"
    "k \<noteq> cl_calculation_id c \<Longrightarrow> get_lineage k db1 = get_lineage k db"
    "get_lineage (cl_calculation_id c) db = Some r \<Longrightarrow> row = r \<and> db1 = db"
  using assms
  by (auto simp: source_record_def Let_def db_ops tbl_simps new_source_record_def split: option.splits
      dest: tbl_get_Some)

text \<open>The shape of every accepted selection.\<close>

lemma select_source_rootE:
  assumes "select_source_root c d f m now db = Inr (sel, db')"
  obtains row db1 row' where "source_record c now db = (row, db1)" "custody_move row row'"
    "\<And>k. get_lineage k db' = (if k = cl_calculation_id c then Some row' else get_lineage k db)"
    "lr_source_tenant_id row = Some (cl_tenant_id c)" "sel = selection row'"
proof -
  obtain row db1 where sr: "source_record c now db = (row, db1)" by fastforce
  note facts = source_record_facts [OF sr]
  have scope: "lr_source_tenant_id row = Some (cl_tenant_id c)"
    using assms sr by (auto simp: select_source_root_def require_source_record_scope_def split: if_splits)
  show thesis
  proof (cases "lr_status row = LFailed")
    case True
    with assms sr have "sel = selection row" "db' = db1"
      by (auto simp: select_source_root_def Let_def split: if_splits)
    then show thesis using that [OF sr custody_move_refl] facts scope by simp
  next
    case False
    with assms sr obtain row1 row2 row3 db2 where steps:
      "apply_root_selection row c d (d = None \<and> f = None \<and> m = None) = Inr row1"
      "fail_if_given f row1 = Inr row2" "enqueue_if_given m now db1 row2 = Inr (row3, db2)"
      "sel = selection row3" "db' = store_row row3 db2"
      by (auto simp: select_source_root_def Let_def split: if_splits)
    have "custody_move row row1" "custody_move row1 row2"
      using apply_root_move [OF steps(1) False] fail_if_given_move [OF steps(2)] by blast+
    with enqueue_move [OF steps(3)] False have move: "custody_move row row3"
      by (auto simp: custody_move_def)
    then have key: "lr_calculation_id row3 = cl_calculation_id c" using facts(1) by (simp add: custody_move_def)
    have "get_lineage k db2 = get_lineage k db1" for k using enqueue_move [OF steps(3)] by (simp add: db_ops)
    then have "get_lineage k db' = (if k = cl_calculation_id c then Some row3 else get_lineage k db)" for k
      using steps(5) key facts(2,3) by (simp add: store_row_get)
    with move scope steps(4) show thesis by (intro that [OF sr]) auto
  qed
qed

section \<open>Custody as a guarded machine\<close>

definition custody_row_ok :: "lineage_row \<Rightarrow> bool" where
  "custody_row_ok row \<longleftrightarrow>
     (case lr_source_custody_state row of
        None \<Rightarrow> True
      | Some Capturing \<Rightarrow> lr_source_root_digest row = None \<and> lr_status row = LPending
      | Some Frozen \<Rightarrow> lr_source_root_digest row \<noteq> None \<and> lr_status row = LPending
      | Some PendingMaterialization \<Rightarrow> lr_source_root_digest row \<noteq> None \<and> lr_status row = LPending
      | Some CustodyComplete \<Rightarrow> lr_source_root_digest row \<noteq> None \<and> lr_status row = LComplete
      | Some CustodyFailed \<Rightarrow> lr_status row = LFailed)
   \<and> (lr_source_root_digest row \<noteq> None \<longrightarrow> is_digest (or_empty (lr_source_root_digest row)))"

definition custody_inv :: "database \<Rightarrow> bool" where
  "custody_inv db \<longleftrightarrow> (\<forall>k row. get_lineage k db = Some row \<longrightarrow> custody_row_ok row)"

datatype custody_event =
    Select source_custody_claim "string option" "string option" "source_materialization_payload option" instant
  | Terminate "uuid list" "string option" "string option" instant

fun custody_step :: "database \<Rightarrow> custody_event \<Rightarrow> store_error + database" where
  "custody_step db (Select c d f m now) = bind_res (select_source_root c d f m now db) (\<lambda>(_, db'). Inr db')"
| "custody_step db (Terminate ids tenant atype now) = Inr (fail_terminal_source_custody ids tenant atype now db)"

lemma select_unfrozen_ok:
  "select_unfrozen_root row c d b = Inr row' \<Longrightarrow> d = None \<or> is_digest (or_empty d) \<Longrightarrow> custody_row_ok row'"
  by (auto simp: select_unfrozen_root_def custody_row_ok_def Let_def split: if_splits)

lemma apply_root_ok:
  "apply_root_selection row c d b = Inr row' \<Longrightarrow> custody_row_ok row \<Longrightarrow> d = None \<or> is_digest (or_empty d) \<Longrightarrow>
   custody_row_ok row'"
  by (auto simp: apply_root_selection_def split: if_splits dest: select_unfrozen_ok)

lemma fail_if_given_ok: "fail_if_given f row = Inr row' \<Longrightarrow> custody_row_ok row \<Longrightarrow> custody_row_ok row'"
  by (auto simp: fail_if_given_def fail_source_capture_def custody_row_ok_def split: option.splits if_splits)

lemma enqueue_ok: "enqueue_if_given m now db row = Inr (row', db') \<Longrightarrow> custody_row_ok row \<Longrightarrow> custody_row_ok row'"
  by (auto simp: enqueue_if_given_def enqueue_selected_source_def custody_row_ok_def
      split: option.splits if_splits custody_state.splits)

lemma new_record_ok: "custody_row_ok (new_source_record c now)"
  by (simp add: new_source_record_def custody_row_ok_def)

lemma source_record_ok: "source_record c now db = (row, db1) \<Longrightarrow> custody_inv db \<Longrightarrow> custody_row_ok row"
  by (auto simp: source_record_def custody_inv_def Let_def new_record_ok split: option.splits)

lemma select_row_ok:
  assumes "select_source_root c d f m now db = Inr (sel, db')" "custody_inv db"
    "get_lineage (cl_calculation_id c) db' = Some row'"
  shows "custody_row_ok row'"
proof -
  obtain row db1 where sr: "source_record c now db = (row, db1)" by fastforce
  note facts = source_record_facts [OF sr] and ok = source_record_ok [OF sr assms(2)]
  have digest: "d = None \<or> is_digest (or_empty d)"
    using assms(1) by (auto simp: select_source_root_def)
  show ?thesis
  proof (cases "lr_status row = LFailed")
    case True
    with assms(1) sr have "db' = db1" by (auto simp: select_source_root_def Let_def split: if_splits)
    with assms(3) facts(2) ok show ?thesis by simp
  next
    case False
    with assms(1) sr obtain row1 row2 row3 db2 where steps:
      "apply_root_selection row c d (d = None \<and> f = None \<and> m = None) = Inr row1"
      "fail_if_given f row1 = Inr row2" "enqueue_if_given m now db1 row2 = Inr (row3, db2)" "db' = store_row row3 db2"
      by (auto simp: select_source_root_def Let_def split: if_splits)
    have "custody_row_ok row3"
      using enqueue_ok [OF steps(3)] fail_if_given_ok [OF steps(2)] apply_root_ok [OF steps(1) ok digest] by blast
    moreover have "lr_calculation_id row3 = cl_calculation_id c"
      using apply_root_move [OF steps(1) False] fail_if_given_move [OF steps(2)] enqueue_move [OF steps(3)] facts(1)
      by (auto simp: custody_move_def)
    then have "row' = row3" using assms(3) steps(4) by (auto simp: store_row_get)
    ultimately show ?thesis by simp
  qed
qed

lemma terminate_get:
  "get_lineage k (fail_terminal_source_custody ids tenant atype now db) =
     map_option (\<lambda>r. if tenant \<noteq> None \<and> atype = Some ''ReturnsSeries'' \<and> db_has_lineage_table db
         \<and> lr_calculation_id r \<in> set ids \<and> lr_calculation_type r = ''ReturnsSeries''
         \<and> lr_source_tenant_id r = tenant \<and> custody_open (lr_source_custody_state r)
       then r\<lparr>lr_status := LFailed, lr_source_custody_state := Some CustodyFailed,
              lr_error_message := Some CUSTODY_TERMINATED, lr_timestamp_utc := now\<rparr> else r) (get_lineage k db)"
proof (cases "tenant = None \<or> atype \<noteq> Some ''ReturnsSeries'' \<or> \<not> db_has_lineage_table db")
  case True
  then show ?thesis by (auto simp: fail_terminal_source_custody_def option.map_ident)
next
  case False
  then obtain t where "tenant = Some t" "atype = Some ''ReturnsSeries''" "db_has_lineage_table db" by auto
  then show ?thesis
    by (simp add: fail_terminal_source_custody_def tbl_update_where_def db_ops tbl_get_map)
qed

lemma terminate_row:
  assumes "get_lineage k (fail_terminal_source_custody ids tenant atype now db) = Some row'"
  obtains row where "get_lineage k db = Some row"
    "row' = row \<or> row' = row\<lparr>lr_status := LFailed, lr_source_custody_state := Some CustodyFailed,
              lr_error_message := Some CUSTODY_TERMINATED, lr_timestamp_utc := now\<rparr>"
  using assms unfolding terminate_get by (cases "get_lineage k db") (simp_all split: if_splits)

lemma terminate_keeps_row:
  assumes "get_lineage k db = Some row"
  obtains row' where "get_lineage k (fail_terminal_source_custody ids tenant atype now db) = Some row'"
    "row' = row \<or> row' = row\<lparr>lr_status := LFailed, lr_source_custody_state := Some CustodyFailed,
              lr_error_message := Some CUSTODY_TERMINATED, lr_timestamp_utc := now\<rparr>"
proof -
  obtain row' where get: "get_lineage k (fail_terminal_source_custody ids tenant atype now db) = Some row'"
    using assms by (simp only: terminate_get option.map)
  from get obtain r where "get_lineage k db = Some r"
    "row' = r \<or> row' = r\<lparr>lr_status := LFailed, lr_source_custody_state := Some CustodyFailed,
              lr_error_message := Some CUSTODY_TERMINATED, lr_timestamp_utc := now\<rparr>"
    by (rule terminate_row)
  with assms get that show thesis by simp
qed

interpretation custody: guarded_machine custody_step "\<lambda>_. True" custody_inv
proof
  fix db e db'
  assume inv: "custody_inv db" and step: "custody_step db e = Inr db'"
  show "custody_inv db'"
  proof (cases e)
    case (Select c d f m now)
    with step obtain sel where sel: "select_source_root c d f m now db = Inr (sel, db')" by auto
    from sel show ?thesis
    proof (rule select_source_rootE)
      fix row db1 row'
      assume get: "\<And>k. get_lineage k db' = (if k = cl_calculation_id c then Some row' else get_lineage k db)"
      show ?thesis unfolding custody_inv_def
        using select_row_ok [OF sel inv] inv get by (auto simp: custody_inv_def split: if_splits)
    qed
  next
    case (Terminate ids tenant atype now)
    with step have db': "db' = fail_terminal_source_custody ids tenant atype now db" by simp
    show ?thesis unfolding custody_inv_def db'
    proof (intro allI impI)
      fix k row'
      assume "get_lineage k (fail_terminal_source_custody ids tenant atype now db) = Some row'"
      then obtain row where "get_lineage k db = Some row"
        "row' = row \<or> row' = row\<lparr>lr_status := LFailed, lr_source_custody_state := Some CustodyFailed,
              lr_error_message := Some CUSTODY_TERMINATED, lr_timestamp_utc := now\<rparr>"
        by (rule terminate_row)
      moreover from this(1) inv have "custody_row_ok row" by (simp add: custody_inv_def)
      ultimately show "custody_row_ok row'" by (auto simp: custody_row_ok_def)
    qed
  qed
qed

text \<open>
  Two facts about one calculation that no later custody event undoes: a root it froze, with
  the attempt that froze it, and a terminal failure.
\<close>

definition root_frozen :: "uuid \<Rightarrow> string \<Rightarrow> string option \<Rightarrow> int option \<Rightarrow> database \<Rightarrow> bool" where
  "root_frozen k r a n db \<longleftrightarrow> (\<exists>row. get_lineage k db = Some row \<and> lr_source_root_digest row = Some r
     \<and> lr_source_attempt_id row = a \<and> lr_source_attempt_number row = n)"

definition custody_dead :: "uuid \<Rightarrow> database \<Rightarrow> bool" where
  "custody_dead k db \<longleftrightarrow> (\<exists>row. get_lineage k db = Some row \<and> lr_status row = LFailed)"

lemma select_keeps:
  assumes "select_source_root c d f m now db = Inr (sel, db')"
  shows "root_frozen k r a n db \<Longrightarrow> root_frozen k r a n db'" "custody_dead k db \<Longrightarrow> custody_dead k db'"
  using assms
  by (elim select_source_rootE; (auto simp: root_frozen_def custody_dead_def custody_move_def
        dest!: source_record_facts(4))[1])+

lemma terminate_keeps:
  shows "root_frozen k r a n db \<Longrightarrow> root_frozen k r a n (fail_terminal_source_custody ids tenant atype now db)"
    and "custody_dead k db \<Longrightarrow> custody_dead k (fail_terminal_source_custody ids tenant atype now db)"
proof -
  assume "root_frozen k r a n db"
  then obtain row where row: "get_lineage k db = Some row" "lr_source_root_digest row = Some r"
    "lr_source_attempt_id row = a" "lr_source_attempt_number row = n" unfolding root_frozen_def by blast
  show "root_frozen k r a n (fail_terminal_source_custody ids tenant atype now db)"
    by (rule terminate_keeps_row [OF row(1)]) (use row in \<open>fastforce simp: root_frozen_def\<close>)
next
  assume "custody_dead k db"
  then obtain row where row: "get_lineage k db = Some row" "lr_status row = LFailed"
    unfolding custody_dead_def by blast
  show "custody_dead k (fail_terminal_source_custody ids tenant atype now db)"
    by (rule terminate_keeps_row [OF row(1)]) (use row in \<open>fastforce simp: custody_dead_def\<close>)
qed

interpretation frozen_root: guarded_machine custody_step "\<lambda>_. True" "root_frozen k r a n" for k r a n
proof
  fix db e db'
  assume "root_frozen k r a n db" "custody_step db e = Inr db'"
  then show "root_frozen k r a n db'"
    by (cases e) (auto dest: select_keeps(1) terminate_keeps(1))
qed

interpretation dead_custody: guarded_machine custody_step "\<lambda>_. True" "custody_dead k" for k
proof
  fix db e db'
  assume "custody_dead k db" "custody_step db e = Inr db'"
  then show "custody_dead k db'"
    by (cases e) (auto dest: select_keeps(2) terminate_keeps(2))
qed

end
