(* ===== verification/Compute_Jobs.thy ===== *)
theory Compute_Jobs
  imports Source_Custody
begin

text \<open>
  The durable compute-job queue (src/app/services/compute_job_store.py): registration, leasing,
  execution, completion, failure, retry, cancellation, reconciliation and retention of jobs.
  Every operation takes the current time and the database and returns the exception it raises
  or its result with the new database; a raised exception rolls the transaction back.
\<close>

section \<open>Constants and records\<close>

definition INVALID_COMPUTE_JOB_REQUEST_PAYLOAD_ERROR_TYPE :: string where
  "INVALID_COMPUTE_JOB_REQUEST_PAYLOAD_ERROR_TYPE = ''InvalidComputeJobRequestPayload''"
definition INVALID_COMPUTE_JOB_REQUEST_PAYLOAD_MESSAGE :: string where
  "INVALID_COMPUTE_JOB_REQUEST_PAYLOAD_MESSAGE = ''Stored compute job request payload is invalid.''"
definition INVALID_COMPUTE_JOB_RESPONSE_PAYLOAD_ERROR_TYPE :: string where
  "INVALID_COMPUTE_JOB_RESPONSE_PAYLOAD_ERROR_TYPE = ''InvalidComputeJobResponsePayload''"
definition INVALID_COMPUTE_JOB_RESPONSE_PAYLOAD_MESSAGE :: string where
  "INVALID_COMPUTE_JOB_RESPONSE_PAYLOAD_MESSAGE = ''Stored compute job response payload is invalid.''"

datatype registration_status = Created | Replay | Conflict

record compute_job_registration_result =
  reg_status :: registration_status
  reg_existing_status :: "compute_job_status option"

record compute_job_record =
  rec_calculation_id :: uuid
  rec_analytics_type :: string
  rec_job_status :: compute_job_status
  rec_tenant_id :: "string option"
  rec_request_payload :: json_dict
  rec_response_payload :: "json_dict option"
  rec_error_message :: "string option"
  rec_error_type :: "string option"
  rec_attempt_count :: int
  rec_max_attempts :: int
  rec_worker_id :: "string option"
  rec_leased_at_utc :: "string option"
  rec_lease_expires_at_utc :: "string option"
  rec_last_error_at_utc :: "string option"
  rec_created_at_utc :: string
  rec_started_at_utc :: "string option"
  rec_completed_at_utc :: "string option"
  rec_failure :: "durable_failure_classification option"

record reconciled_job_record =
  rj_calculation_id :: uuid
  rj_analytics_type :: string
  rj_previous_status :: compute_job_status
  rj_reconciled_status :: compute_job_status
  rj_attempt_count :: int
  rj_max_attempts :: int
  rj_error_message :: string
  rj_error_type :: string
  rj_tenant_id :: "string option"

record stale_job_outcome =
  so_job_status :: compute_job_status
  so_error_message :: string
  so_error_type :: string
  so_completed_at_utc :: "instant option"

definition TRANSIENT_COMPUTE_JOB_REQUEST_FIELDS :: "string list" where
  "TRANSIENT_COMPUTE_JOB_REQUEST_FIELDS = [''observability_context'']"

definition timedelta_seconds :: "int \<Rightarrow> int" where
  "timedelta_seconds s = s * 1000000"

definition stale_job_reconciliation_outcome ::
    "compute_job_status \<Rightarrow> int \<Rightarrow> int \<Rightarrow> instant \<Rightarrow> stale_job_outcome" where
  "stale_job_reconciliation_outcome previous_status attempt_count max_attempts now =
     (if previous_status = JRunning \<and> attempt_count \<ge> max_attempts
      then \<lparr>so_job_status = JFailed,
             so_error_message = ''Compute job execution lease expired after exhausting retry budget.'',
             so_error_type = ''LeaseExpired'', so_completed_at_utc = Some now\<rparr>
      else \<lparr>so_job_status = JPending,
             so_error_message = ''Compute job reconciliation detected an expired worker lease.'',
             so_error_type = ''LeaseExpired'', so_completed_at_utc = None\<rparr>)"

section \<open>Request identity\<close>

definition identity_payload :: "json_dict \<Rightarrow> json_dict" where
  "identity_payload d = filter (\<lambda>(field, _). field \<notin> set TRANSIENT_COMPUTE_JOB_REQUEST_FIELDS) d"

definition compute_job_request_identity_json :: "json_dict \<Rightarrow> json_text" where
  "compute_job_request_identity_json request_payload = dumps_dict (identity_payload request_payload)"

definition compute_job_request_identity_json_from_json :: "json_text \<Rightarrow> json_text" where
  "compute_job_request_identity_json_from_json request_json =
     (case json_loads request_json of
        Some (JObj request_payload) \<Rightarrow> compute_job_request_identity_json request_payload
      | _ \<Rightarrow> request_json)"

definition matches_existing_compute_job_registration ::
    "compute_job_row \<Rightarrow> string \<Rightarrow> string \<Rightarrow> json_text \<Rightarrow> int \<Rightarrow> bool" where
  "matches_existing_compute_job_registration existing analytics_type tenant request_identity_json max_attempts =
     (job_analytics_type existing = analytics_type \<and> job_tenant_id existing = Some tenant
      \<and> compute_job_request_identity_json_from_json (job_request_json existing) = request_identity_json
      \<and> job_max_attempts existing = max_attempts)"

definition registration_result_for_integrity_conflict ::
    "compute_job_row option \<Rightarrow> string \<Rightarrow> string \<Rightarrow> json_text \<Rightarrow> int
      \<Rightarrow> store_error + compute_job_registration_result" where
  "registration_result_for_integrity_conflict existing analytics_type tenant request_identity_json max_attempts =
     (case existing of
        None \<Rightarrow> Inl IntegrityError
      | Some row \<Rightarrow>
          if matches_existing_compute_job_registration row analytics_type tenant request_identity_json max_attempts
          then Inr \<lparr>reg_status = Replay, reg_existing_status = Some (job_status row)\<rparr>
          else Inr \<lparr>reg_status = Conflict, reg_existing_status = Some (job_status row)\<rparr>)"

section \<open>Guards\<close>

definition compute_job_has_conflicting_worker_lease :: "string option \<Rightarrow> string option \<Rightarrow> bool" where
  "compute_job_has_conflicting_worker_lease current_worker_id requested_worker_id \<longleftrightarrow>
     requested_worker_id \<noteq> None \<and> current_worker_id \<notin> {None, requested_worker_id}"

definition active_owner :: "compute_job_row \<Rightarrow> string option" where
  "active_owner row = str_or (job_lease_owner_id row) (job_worker_id row)"

definition ensure_compute_job_active_lease_owner ::
    "compute_job_row \<Rightarrow> uuid \<Rightarrow> string option \<Rightarrow> string \<Rightarrow> instant \<Rightarrow> store_error + unit" where
  "ensure_compute_job_active_lease_owner row calculation_id worker_id transition now =
     (if worker_id = None then Inr ()
      else if job_status row \<notin> {JLeased, JRunning}
        then Inl (LeaseOwnershipError (''Cannot '' @ transition @ '' compute job without an active lease: '' @ calculation_id))
      else if active_owner row \<noteq> worker_id
        then Inl (LeaseOwnershipError
               (''Compute job lease owner mismatch while trying to '' @ transition @ '': '' @ calculation_id))
      else (case job_lease_expires_at_utc row of
          None \<Rightarrow> Inl (LeaseOwnershipError
               (''Cannot '' @ transition @ '' compute job without a lease expiry: '' @ calculation_id))
        | Some expiry \<Rightarrow>
            if expiry < now
            then Inl (LeaseOwnershipError (''Cannot '' @ transition @ '' compute job after lease expiry: '' @ calculation_id))
            else Inr ()))"

definition ensure_compute_job_can_mark_running ::
    "compute_job_row \<Rightarrow> uuid \<Rightarrow> string option \<Rightarrow> store_error + unit" where
  "ensure_compute_job_can_mark_running row calculation_id worker_id =
     (if job_status row = JFailed then Inl (ValueError (''Cannot mark failed job as running: '' @ calculation_id))
      else if job_status row = JComplete
        then Inl (ValueError (''Cannot mark complete job as running: '' @ calculation_id))
      else if compute_job_has_conflicting_worker_lease (job_worker_id row) worker_id
        then Inl (ValueError (''Compute job leased by another worker: '' @ calculation_id))
      else Inr ())"

definition require_input_custody_claim ::
    "compute_job_row \<Rightarrow> uuid \<Rightarrow> string \<Rightarrow> string \<Rightarrow> string \<Rightarrow> int \<Rightarrow> instant \<Rightarrow> store_error + unit" where
  "require_input_custody_claim row calculation_id tenant analytics_type worker_id expected_attempt_count now =
     (if worker_id = [] \<or> strip worker_id = [] \<or> expected_attempt_count < 1
         \<or> job_tenant_id row \<noteq> Some tenant \<or> job_analytics_type row \<noteq> analytics_type
         \<or> job_attempt_count row \<noteq> expected_attempt_count \<or> job_status row \<noteq> JRunning
      then Inl (LeaseOwnershipError ''Input custody requires the exact active tenant/workflow/attempt claim.'')
      else ensure_compute_job_active_lease_owner row calculation_id (Some worker_id)
             ''bind immutable input for'' now)"

definition get_model :: "uuid \<Rightarrow> database \<Rightarrow> store_error + compute_job_row" where
  "get_model calculation_id db =
     of_option (KeyError (''Compute job not found: '' @ calculation_id)) (get_job calculation_id db)"

section \<open>Reading a row\<close>

definition load_request_payload :: "compute_job_row \<Rightarrow> json_dict option" where
  "load_request_payload row = load_json_object_or_none (Some (job_request_json row)) False"

definition load_response_payload :: "compute_job_row \<Rightarrow> json_dict option" where
  "load_response_payload row = load_json_object_or_none (job_response_json row) True"

definition stored_or_default :: "string option \<Rightarrow> string \<Rightarrow> string" where
  "stored_or_default v default_value = (case str_or v (Some default_value) of Some s \<Rightarrow> s | None \<Rightarrow> default_value)"

record payload_failure_values =
  pf_request_payload :: "json_dict option"
  pf_error_message :: string
  pf_error_type :: string

definition has_invalid_compute_job_response_payload :: "compute_job_row \<Rightarrow> json_dict option \<Rightarrow> bool" where
  "has_invalid_compute_job_response_payload row response_payload =
     (text_truthy (job_response_json row) \<and> response_payload = None)"

definition compute_job_payload_failure ::
    "compute_job_row \<Rightarrow> json_dict option \<Rightarrow> json_dict option \<Rightarrow> payload_failure_values option" where
  "compute_job_payload_failure row request_payload response_payload =
     (if request_payload = None
      then Some \<lparr>pf_request_payload = Some [],
             pf_error_message = stored_or_default (job_error_message row) INVALID_COMPUTE_JOB_REQUEST_PAYLOAD_MESSAGE,
             pf_error_type = stored_or_default (job_error_type row) INVALID_COMPUTE_JOB_REQUEST_PAYLOAD_ERROR_TYPE\<rparr>
      else if has_invalid_compute_job_response_payload row response_payload
      then Some \<lparr>pf_request_payload = request_payload,
             pf_error_message = stored_or_default (job_error_message row) INVALID_COMPUTE_JOB_RESPONSE_PAYLOAD_MESSAGE,
             pf_error_type = stored_or_default (job_error_type row) INVALID_COMPUTE_JOB_RESPONSE_PAYLOAD_ERROR_TYPE\<rparr>
      else None)"

record record_payload_state =
  ps_job_status :: compute_job_status
  ps_request_payload :: json_dict
  ps_response_payload :: "json_dict option"
  ps_error_message :: "string option"
  ps_error_type :: "string option"

definition compute_job_record_payload_state ::
    "compute_job_row \<Rightarrow> json_dict option \<Rightarrow> json_dict option \<Rightarrow> store_error + record_payload_state" where
  "compute_job_record_payload_state row request_payload response_payload =
     (let (st, msg, typ, req) =
        (case compute_job_payload_failure row request_payload response_payload of
           None \<Rightarrow> (job_status row, job_error_message row, job_error_type row, request_payload)
         | Some f \<Rightarrow> (JFailed, Some (pf_error_message f), Some (pf_error_type f), pf_request_payload f))
      in case req of
           None \<Rightarrow> Inl (RuntimeError ''Compute job request payload resolution failed.'')
         | Some payload \<Rightarrow> Inr \<lparr>ps_job_status = st, ps_request_payload = payload,
             ps_response_payload = response_payload, ps_error_message = msg, ps_error_type = typ\<rparr>)"

definition stamp :: "instant option \<Rightarrow> string option" where
  "stamp t = format_timestamp (map_option utc t)"

definition to_record :: "compute_job_row \<Rightarrow> store_error + compute_job_record" where
  "to_record row =
     bind_res (compute_job_record_payload_state row (load_request_payload row) (load_response_payload row)) (\<lambda>ps.
     Inr \<lparr>rec_calculation_id = job_calculation_id row, rec_analytics_type = job_analytics_type row,
       rec_job_status = ps_job_status ps, rec_tenant_id = job_tenant_id row,
       rec_request_payload = ps_request_payload ps, rec_response_payload = ps_response_payload ps,
       rec_error_message = ps_error_message ps, rec_error_type = ps_error_type ps,
       rec_attempt_count = job_attempt_count row, rec_max_attempts = job_max_attempts row,
       rec_worker_id = job_worker_id row, rec_leased_at_utc = stamp (job_leased_at_utc row),
       rec_lease_expires_at_utc = stamp (job_lease_expires_at_utc row),
       rec_last_error_at_utc = stamp (job_last_error_at_utc row),
       rec_created_at_utc = or_empty (stamp (Some (job_created_at_utc row))),
       rec_started_at_utc = stamp (job_started_at_utc row),
       rec_completed_at_utc = stamp (job_completed_at_utc row),
       rec_failure = load_durable_failure (job_failure_json row)\<rparr>)"

fun to_records :: "compute_job_row list \<Rightarrow> store_error + compute_job_record list" where
  "to_records [] = Inr []"
| "to_records (row # rows) = bind_res (to_record row) (\<lambda>r. bind_res (to_records rows) (\<lambda>rs. Inr (r # rs)))"

section \<open>Registration\<close>

text \<open>\<open>max_attempts or get_settings().COMPUTE_EXECUTOR_MAX_ATTEMPTS\<close>.\<close>

definition configured_max_attempts :: "int option \<Rightarrow> int \<Rightarrow> int" where
  "configured_max_attempts max_attempts setting =
     (case max_attempts of None \<Rightarrow> setting | Some n \<Rightarrow> if n = 0 then setting else n)"

definition new_job :: "uuid \<Rightarrow> string \<Rightarrow> string \<Rightarrow> json_dict \<Rightarrow> int \<Rightarrow> instant \<Rightarrow> compute_job_row" where
  "new_job calculation_id analytics_type tenant request_payload max_attempts now =
     \<lparr>job_calculation_id = calculation_id, job_analytics_type = analytics_type, job_status = JPending,
      job_request_json = dumps_dict request_payload, job_response_json = None, job_error_message = None,
      job_error_type = None, job_failure_json = None, job_attempt_count = 0, job_max_attempts = max_attempts,
      job_worker_id = None, job_lease_owner_id = None, job_tenant_id = Some tenant, job_leased_at_utc = None,
      job_lease_expires_at_utc = None, job_last_error_at_utc = None, job_created_at_utc = now,
      job_started_at_utc = None, job_completed_at_utc = None\<rparr>"

text \<open>
  \<open>session.merge\<close> writes the attributes set on the given instance, so the \<open>failure_json\<close> of
  an existing row, which \<open>enqueue_job\<close> does not set, stays.
\<close>

definition enqueue_job ::
    "uuid \<Rightarrow> string \<Rightarrow> string \<Rightarrow> json_dict \<Rightarrow> int option \<Rightarrow> int \<Rightarrow> instant \<Rightarrow> database \<Rightarrow> store_error + unit \<times> database" where
  "enqueue_job calculation_id analytics_type tenant request_payload max_attempts setting now db =
     (let admitted_tenant = strip tenant in
      if admitted_tenant = []
      then Inl (ValueError (''A compute job requires an admitted tenant. This service does not mint or '' @
             ''default one, because a defaulted tenant can return another tenant's data.''))
      else let row = new_job calculation_id analytics_type admitted_tenant request_payload
                       (configured_max_attempts max_attempts setting) now
        in Inr ((), case get_job calculation_id db of
             None \<Rightarrow> add_job row db
           | Some existing \<Rightarrow>
               update_job calculation_id (\<lambda>_. row\<lparr>job_failure_json := job_failure_json existing\<rparr>) db))"

definition register_job ::
    "uuid \<Rightarrow> string \<Rightarrow> string \<Rightarrow> json_dict \<Rightarrow> int option \<Rightarrow> int \<Rightarrow> instant \<Rightarrow> database
      \<Rightarrow> store_error + compute_job_registration_result \<times> database" where
  "register_job calculation_id analytics_type tenant request_payload max_attempts setting now db =
     (let canonical_tenant = strip tenant;
          maxa = configured_max_attempts max_attempts setting;
          row = new_job calculation_id analytics_type canonical_tenant request_payload maxa now
      in case get_job calculation_id db of
           None \<Rightarrow> Inr (\<lparr>reg_status = Created, reg_existing_status = None\<rparr>, add_job row db)
         | Some existing \<Rightarrow>
             bind_res (registration_result_for_integrity_conflict (Some existing) analytics_type canonical_tenant
                 (compute_job_request_identity_json request_payload) maxa) (\<lambda>r. Inr (r, db)))"

definition list_pending_jobs ::
    "string option \<Rightarrow> nat \<Rightarrow> database \<Rightarrow> store_error + compute_job_record list" where
  "list_pending_jobs analytics_type limit db =
     to_records (take limit (sort_key job_created_at_utc
       (filter (\<lambda>r. job_status r = JPending \<and> (analytics_type = None \<or> Some (job_analytics_type r) = analytics_type))
          (db_jobs db))))"

section \<open>Leasing\<close>

definition lease_expired :: "instant \<Rightarrow> compute_job_row \<Rightarrow> bool" where
  "lease_expired now r = (case job_lease_expires_at_utc r of None \<Rightarrow> False | Some e \<Rightarrow> e < now)"

text \<open>
  \<open>locked\<close> are the rows other transactions hold, which PostgreSQL skips
  (\<open>FOR UPDATE SKIP LOCKED\<close>); other dialects serialise writers instead.
\<close>

definition skip_locked :: "string \<Rightarrow> (uuid \<Rightarrow> bool) \<Rightarrow> compute_job_row \<Rightarrow> bool" where
  "skip_locked dialect locked r \<longleftrightarrow> dialect = ''postgresql'' \<and> locked (job_calculation_id r)"

definition lease_pending_jobs_statement ::
    "instant \<Rightarrow> nat \<Rightarrow> string option \<Rightarrow> string \<Rightarrow> (uuid \<Rightarrow> bool) \<Rightarrow> compute_job_row list \<Rightarrow> compute_job_row list" where
  "lease_pending_jobs_statement now limit analytics_type dialect locked rows =
     take limit (sort_key job_created_at_utc
       (filter (\<lambda>r. (job_status r = JPending \<or> (job_status r = JLeased \<and> lease_expired now r))
            \<and> (analytics_type = None \<or> Some (job_analytics_type r) = analytics_type)
            \<and> \<not> skip_locked dialect locked r) rows))"

definition leased_row :: "string \<Rightarrow> instant \<Rightarrow> instant \<Rightarrow> compute_job_row \<Rightarrow> compute_job_row" where
  "leased_row worker_id now lease_expiry row =
     row\<lparr>job_status := JLeased, job_worker_id := Some worker_id, job_lease_owner_id := Some worker_id,
          job_leased_at_utc := Some now, job_lease_expires_at_utc := Some lease_expiry,
          job_completed_at_utc := None\<rparr>"

definition mark_invalid_request_payload :: "instant \<Rightarrow> compute_job_row \<Rightarrow> compute_job_row" where
  "mark_invalid_request_payload now row =
     row\<lparr>job_status := JFailed,
          job_error_message := str_or (job_error_message row) (Some INVALID_COMPUTE_JOB_REQUEST_PAYLOAD_MESSAGE),
          job_error_type := str_or (job_error_type row) (Some INVALID_COMPUTE_JOB_REQUEST_PAYLOAD_ERROR_TYPE),
          job_worker_id := None, job_lease_owner_id := None, job_leased_at_utc := None,
          job_lease_expires_at_utc := None, job_last_error_at_utc := Some now, job_completed_at_utc := Some now\<rparr>"

fun lease_rows ::
    "string \<Rightarrow> instant \<Rightarrow> instant \<Rightarrow> compute_job_row list \<Rightarrow> database \<Rightarrow> store_error + compute_job_record list \<times> database" where
  "lease_rows worker_id now lease_expiry [] db = Inr ([], db)"
| "lease_rows worker_id now lease_expiry (row # rows) db =
     (if load_request_payload row = None
      then lease_rows worker_id now lease_expiry rows
             (update_job (job_calculation_id row) (mark_invalid_request_payload now) db)
      else bind_res (to_record (leased_row worker_id now lease_expiry row)) (\<lambda>record.
           bind_res (lease_rows worker_id now lease_expiry rows
               (update_job (job_calculation_id row) (leased_row worker_id now lease_expiry) db)) (\<lambda>(records, db').
           Inr (record # records, db'))))"

definition lease_pending_jobs ::
    "string \<Rightarrow> nat \<Rightarrow> int \<Rightarrow> string option \<Rightarrow> (uuid \<Rightarrow> bool) \<Rightarrow> instant \<Rightarrow> database
      \<Rightarrow> store_error + compute_job_record list \<times> database" where
  "lease_pending_jobs worker_id limit lease_seconds analytics_type locked now db =
     lease_rows worker_id now (now + timedelta_seconds lease_seconds)
       (lease_pending_jobs_statement now limit analytics_type (db_dialect_name db) locked (db_jobs db)) db"

section \<open>Execution under a lease\<close>

definition running_row :: "string option \<Rightarrow> instant option \<Rightarrow> instant \<Rightarrow> compute_job_row \<Rightarrow> compute_job_row" where
  "running_row owner lease_expiry now row =
     row\<lparr>job_status := JRunning, job_lease_owner_id := owner, job_attempt_count := job_attempt_count row + 1,
          job_error_message := None, job_error_type := None, job_failure_json := None,
          job_started_at_utc := opt_or (job_started_at_utc row) now, job_leased_at_utc := Some now,
          job_lease_expires_at_utc := lease_expiry, job_completed_at_utc := None\<rparr>"

definition mark_running ::
    "uuid \<Rightarrow> string option \<Rightarrow> int option \<Rightarrow> instant \<Rightarrow> database \<Rightarrow> store_error + unit \<times> database" where
  "mark_running calculation_id worker_id lease_seconds now db =
     bind_res (get_model calculation_id db) (\<lambda>row.
     bind_res (ensure_compute_job_can_mark_running row calculation_id worker_id) (\<lambda>_.
     Inr ((), update_job calculation_id
       (\<lambda>r. running_row worker_id
          (case lease_seconds of None \<Rightarrow> job_lease_expires_at_utc r | Some s \<Rightarrow> Some (now + timedelta_seconds s)) now r) db)))"

definition mark_running_acquired ::
    "uuid \<Rightarrow> string \<Rightarrow> string \<Rightarrow> int \<Rightarrow> instant \<Rightarrow> database \<Rightarrow> store_error + unit \<times> database" where
  "mark_running_acquired calculation_id current_worker_id acquisition_worker_id lease_seconds now db =
     bind_res (get_model calculation_id db) (\<lambda>row.
     bind_res (ensure_compute_job_active_lease_owner row calculation_id (Some current_worker_id)
                 ''acquire running lease for'' now) (\<lambda>_.
     Inr ((), update_job calculation_id
       (running_row (Some acquisition_worker_id) (Some (now + timedelta_seconds lease_seconds)) now) db)))"

definition renewed_row :: "instant \<Rightarrow> int \<Rightarrow> compute_job_row \<Rightarrow> compute_job_row" where
  "renewed_row now lease_seconds row =
     row\<lparr>job_leased_at_utc := Some now, job_lease_expires_at_utc := Some (now + timedelta_seconds lease_seconds)\<rparr>"

definition renew_lease ::
    "uuid \<Rightarrow> string option \<Rightarrow> int \<Rightarrow> instant \<Rightarrow> database \<Rightarrow> store_error + unit \<times> database" where
  "renew_lease calculation_id worker_id lease_seconds now db =
     bind_res (get_model calculation_id db) (\<lambda>row.
     bind_res (ensure_compute_job_active_lease_owner row calculation_id worker_id ''renew lease for'' now) (\<lambda>_.
     Inr ((), update_job calculation_id (renewed_row now lease_seconds) db)))"

definition ensure_active_lease_owner ::
    "uuid \<Rightarrow> string option \<Rightarrow> instant \<Rightarrow> database \<Rightarrow> store_error + unit" where
  "ensure_active_lease_owner calculation_id worker_id now db =
     bind_res (get_model calculation_id db) (\<lambda>row.
     ensure_compute_job_active_lease_owner row calculation_id worker_id ''publish success for'' now)"

text \<open>
  The callback of \<open>run_with_active_lease_transaction\<close> works on the owning connection, whose
  event hooks see every statement and every attempt to end the transaction. A callback is the
  tree of the things it does there: it returns, or it executes a statement (with the effect the
  engine gives it, which may itself fail) and goes on with the database it then sees.
\<close>

datatype connection_event = CommitRequested | RollbackRequested | Statement string

datatype 'a callback =
    Return 'a
  | Execute connection_event "database \<Rightarrow> store_error + database" "database \<Rightarrow> 'a callback"

definition statement_verb :: "string \<Rightarrow> string option" where
  "statement_verb sql =
     (if lstrip sql = [] then None else Some (upper_ascii (takeWhile (\<lambda>c. \<not> is_space c) (lstrip sql))))"

fun input_custody_hook :: "connection_event \<Rightarrow> store_error + unit" where
  "input_custody_hook (Statement sql) =
     (case statement_verb sql of
        None \<Rightarrow> Inl IndexError
      | Some verb \<Rightarrow> ensure (verb \<in> {''SELECT'', ''INSERT''})
          (LeaseOwnershipError ''Input custody callbacks permit only SELECT and INSERT.''))"
| "input_custody_hook e =
     Inl (LeaseOwnershipError ''Input custody callbacks cannot end the owning transaction.'')"

primrec run_callback :: "'a callback \<Rightarrow> database \<Rightarrow> store_error + 'a \<times> database" where
  "run_callback (Return a) = (\<lambda>db. Inr (a, db))"
| "run_callback (Execute e effect k) = (\<lambda>db.
     bind_res (input_custody_hook e) (\<lambda>_. bind_res (effect db) (\<lambda>db'. run_callback (k db') db')))"

text \<open>
  \<open>now1\<close> and \<open>now2\<close> are the clock readings before and after the callback; the second check
  reads the row object loaded before it.
\<close>

definition run_with_active_lease_transaction ::
    "uuid \<Rightarrow> string \<Rightarrow> string \<Rightarrow> string \<Rightarrow> int \<Rightarrow> 'a callback \<Rightarrow> instant \<Rightarrow> instant \<Rightarrow> database
      \<Rightarrow> store_error + 'a \<times> database" where
  "run_with_active_lease_transaction calculation_id tenant analytics_type worker_id expected_attempt_count
       operation now1 now2 db =
     bind_res (of_option (LeaseOwnershipError ''Input custody compute claim was not found.'')
                 (get_job calculation_id db)) (\<lambda>row.
     let claim = require_input_custody_claim row calculation_id tenant analytics_type worker_id expected_attempt_count in
     bind_res (claim now1) (\<lambda>_.
     bind_res (run_callback operation db) (\<lambda>(result, db').
     bind_res (claim now2) (\<lambda>_. Inr (result, db')))))"

section \<open>Source custody owned by a job\<close>

definition require_returns_source_execution ::
    "execution_row option \<Rightarrow> source_custody_claim \<Rightarrow> string \<Rightarrow> store_error + unit" where
  "require_returns_source_execution row claim execution_mode =
     (case row of
        None \<Rightarrow> Inl (SourceCustodyConflict ''Source custody requires the existing active tenant execution.'')
      | Some r \<Rightarrow> ensure (ex_tenant_id r = Some (cl_tenant_id claim) \<and> ex_analytics_type r = ''ReturnsSeries''
            \<and> ex_execution_mode r = execution_mode \<and> ex_status r \<in> {EPending, ERunning})
          (SourceCustodyConflict ''Source custody requires the existing active tenant execution.''))"

text \<open>
  \<open>lease_expires_at_utc > database_now\<close>. SQLite's \<open>CURRENT_TIMESTAMP\<close> is the text of the
  clock cut to seconds, and the column's text carries six digits of microseconds, so the
  comparison of the two texts holds as soon as the expiry is not before that second.
\<close>

definition lease_valid_at_database :: "string \<Rightarrow> instant option \<Rightarrow> instant \<Rightarrow> bool" where
  "lease_valid_at_database dialect lease_expiry clock =
     (case lease_expiry of None \<Rightarrow> False
      | Some e \<Rightarrow> if dialect = ''sqlite'' then (clock div 1000000) * 1000000 \<le> e else clock < e)"

definition claim_lease_valid :: "uuid \<Rightarrow> instant \<Rightarrow> database \<Rightarrow> bool" where
  "claim_lease_valid calculation_id clock db =
     (case get_job calculation_id db of None \<Rightarrow> False
      | Some r \<Rightarrow> lease_valid_at_database (db_dialect_name db) (job_lease_expires_at_utc r) clock)"

definition returns_source_owner_session ::
    "source_custody_claim \<Rightarrow> instant \<Rightarrow> instant \<Rightarrow> instant \<Rightarrow> database
      \<Rightarrow> (execution_row option \<Rightarrow> database \<Rightarrow> store_error + 'a \<times> database) \<Rightarrow> store_error + 'a \<times> database" where
  "returns_source_owner_session claim now clock1 clock2 db body =
     bind_res (claim_validate claim) (\<lambda>_.
     let execution = get_execution_row (cl_calculation_id claim) db in
     bind_res (of_option (SourceCustodyConflict ''Source custody compute claim was not found.'')
                 (get_job (cl_calculation_id claim) db)) (\<lambda>row.
     bind_res (require_input_custody_claim row (cl_calculation_id claim) (cl_tenant_id claim) ''ReturnsSeries''
                 (cl_attempt_id claim) (cl_attempt_number claim) now) (\<lambda>_.
     bind_res (ensure (claim_lease_valid (cl_calculation_id claim) clock1 db)
                 (SourceCustodyConflict ''Source custody compute lease has expired.'')) (\<lambda>_.
     bind_res (body execution db) (\<lambda>(result, db').
     bind_res (ensure (claim_lease_valid (cl_calculation_id claim) clock2 db')
                 (SourceCustodyConflict ''Source custody compute lease expired during selection.'')) (\<lambda>_.
     Inr (result, db')))))))"

definition select_returns_series_source_root ::
    "source_custody_claim \<Rightarrow> string option \<Rightarrow> string option \<Rightarrow> source_materialization_payload option
      \<Rightarrow> instant \<Rightarrow> instant \<Rightarrow> instant \<Rightarrow> instant \<Rightarrow> database \<Rightarrow> store_error + source_custody_selection \<times> database" where
  "select_returns_series_source_root claim root_digest failure materialization now clock1 now2 clock2 db =
     returns_source_owner_session claim now clock1 clock2 db (\<lambda>execution db'.
       bind_res (require_returns_source_execution execution claim ''async'') (\<lambda>_.
       select_source_root claim root_digest failure materialization now2 db'))"

definition load_completed_returns_series_publication ::
    "(json_dict \<Rightarrow> (json_dict \<times> string) option) \<Rightarrow> source_custody_claim \<Rightarrow> instant \<Rightarrow> instant \<Rightarrow> instant \<Rightarrow> database
      \<Rightarrow> store_error + json_dict option \<times> database" where
  "load_completed_returns_series_publication original_of claim now clock1 clock2 db =
     returns_source_owner_session claim now clock1 clock2 db (\<lambda>execution db'.
       case execution of
         Some ex \<Rightarrow>
           if ex_status ex \<noteq> EComplete
           then bind_res (require_returns_source_execution execution claim ''async'') (\<lambda>_. Inr (None, db'))
           else if (ex_tenant_id ex, ex_analytics_type ex, ex_execution_mode ex)
                     \<noteq> (Some (cl_tenant_id claim), ''ReturnsSeries'', ''async'')
             then Inl (SourceCustodyConflict ''Completed publication requires the matching async execution.'')
           else bind_res (require_existing_frozen_source claim db') (\<lambda>_.
             case (if text_truthy (ex_response_json ex) then Option.bind (ex_response_json ex) json_loads
                   else Some JNull) of
               None \<Rightarrow> Inl (ValueError ''JSONDecodeError'')
             | Some (JObj response) \<Rightarrow>
                 if dict_get response ''calculation_id'' \<noteq> Some (JStr (cl_calculation_id claim))
                    \<or> \<not> (case dict_get response ''portfolio_id'' of
                            None \<Rightarrow> ex_portfolio_id ex = None
                          | Some JNull \<Rightarrow> ex_portfolio_id ex = None
                          | Some (JStr s) \<Rightarrow> ex_portfolio_id ex = Some s
                          | Some _ \<Rightarrow> False)
                 then Inl (SourceCustodyConflict ''Completed publication response identity is unavailable.'')
                 else bind_res (require_immutable_source_response original_of claim response db') (\<lambda>_.
                      Inr (Some response, db'))
             | Some _ \<Rightarrow> Inl (SourceCustodyConflict ''Completed publication response identity is unavailable.''))
       | None \<Rightarrow> bind_res (require_returns_source_execution None claim ''async'') (\<lambda>_. Inr (None, db')))"

section \<open>Completion and failure\<close>

definition complete_row :: "json_dict \<Rightarrow> instant \<Rightarrow> compute_job_row \<Rightarrow> compute_job_row" where
  "complete_row response_payload now row =
     row\<lparr>job_status := JComplete, job_response_json := Some (dumps_dict response_payload),
          job_error_message := None, job_error_type := None, job_failure_json := None, job_lease_owner_id := None,
          job_started_at_utc := opt_or (job_started_at_utc row) now, job_completed_at_utc := Some now,
          job_leased_at_utc := None, job_lease_expires_at_utc := None\<rparr>"

definition mark_complete ::
    "uuid \<Rightarrow> json_dict \<Rightarrow> string option \<Rightarrow> instant \<Rightarrow> database \<Rightarrow> store_error + unit \<times> database" where
  "mark_complete calculation_id response_payload worker_id now db =
     bind_res (get_model calculation_id db) (\<lambda>row.
     bind_res (ensure_compute_job_active_lease_owner row calculation_id worker_id ''mark complete'' now) (\<lambda>_.
     Inr ((), update_job calculation_id (complete_row response_payload now) db)))"

definition failed_row ::
    "string \<Rightarrow> string option \<Rightarrow> durable_failure_classification option \<Rightarrow> instant \<Rightarrow> compute_job_row \<Rightarrow> compute_job_row" where
  "failed_row error_message error_type failure now row =
     row\<lparr>job_status := JFailed, job_error_message := Some error_message, job_error_type := error_type,
          job_failure_json := map_option to_json failure,
          job_started_at_utc := opt_or (job_started_at_utc row) now, job_completed_at_utc := Some now,
          job_last_error_at_utc := Some now, job_lease_owner_id := None, job_leased_at_utc := None,
          job_lease_expires_at_utc := None\<rparr>"

definition mark_failed ::
    "uuid \<Rightarrow> string \<Rightarrow> string option \<Rightarrow> string option \<Rightarrow> durable_failure_classification option \<Rightarrow> instant \<Rightarrow> database
      \<Rightarrow> store_error + unit \<times> database" where
  "mark_failed calculation_id error_message error_type worker_id failure now db =
     bind_res (get_model calculation_id db) (\<lambda>row.
     bind_res (ensure_compute_job_active_lease_owner row calculation_id worker_id ''mark failed'' now) (\<lambda>_.
     Inr ((), fail_terminal_source_custody [job_calculation_id row] (job_tenant_id row) (Some (job_analytics_type row)) now
                (update_job calculation_id (failed_row error_message error_type failure now) db))))"

definition cancelled_row :: "string \<Rightarrow> instant \<Rightarrow> compute_job_row \<Rightarrow> compute_job_row" where
  "cancelled_row reason now row =
     row\<lparr>job_status := JFailed, job_error_message := Some reason, job_error_type := Some ''SourceCorrectionCancelled'',
          job_failure_json := None, job_completed_at_utc := Some now, job_lease_owner_id := None,
          job_leased_at_utc := None, job_lease_expires_at_utc := None\<rparr>"

definition cancellable :: "uuid list \<Rightarrow> string \<Rightarrow> compute_job_row \<Rightarrow> bool" where
  "cancellable calculation_ids tenant r \<longleftrightarrow>
     job_calculation_id r \<in> set calculation_ids \<and> job_tenant_id r = Some tenant \<and> job_status r = JPending"

definition cancel_pending_jobs :: "uuid list \<Rightarrow> string \<Rightarrow> string \<Rightarrow> instant \<Rightarrow> database \<Rightarrow> bool \<times> database" where
  "cancel_pending_jobs calculation_ids tenant reason now db =
     (if calculation_ids = [] then (True, db)
      else let (jobs', rowcount) = tbl_update_where (cancellable calculation_ids tenant) (cancelled_row reason now) (db_jobs db)
        in if rowcount \<noteq> length calculation_ids then (False, db)
           else (True, fail_terminal_source_custody calculation_ids (Some tenant) (Some ''ReturnsSeries'') now
                         (db\<lparr>db_jobs := jobs'\<rparr>)))"

definition cancel_pending_job :: "uuid \<Rightarrow> string \<Rightarrow> string \<Rightarrow> instant \<Rightarrow> database \<Rightarrow> bool \<times> database" where
  "cancel_pending_job calculation_id tenant reason now db = cancel_pending_jobs [calculation_id] tenant reason now db"

definition retryable_row ::
    "string \<Rightarrow> string option \<Rightarrow> durable_failure_classification option \<Rightarrow> instant \<Rightarrow> compute_job_row \<Rightarrow> compute_job_row" where
  "retryable_row error_message error_type failure now row =
     (let base = row\<lparr>job_error_message := Some error_message, job_error_type := error_type,
          job_failure_json := map_option to_json failure, job_last_error_at_utc := Some now,
          job_lease_owner_id := None, job_leased_at_utc := None, job_lease_expires_at_utc := None,
          job_completed_at_utc := None\<rparr>
      in if job_attempt_count row < job_max_attempts row then base\<lparr>job_status := JPending\<rparr>
         else base\<lparr>job_status := JFailed, job_completed_at_utc := Some now\<rparr>)"

definition mark_retryable_failure ::
    "uuid \<Rightarrow> string \<Rightarrow> string option \<Rightarrow> string option \<Rightarrow> durable_failure_classification option \<Rightarrow> instant \<Rightarrow> database
      \<Rightarrow> store_error + bool \<times> database" where
  "mark_retryable_failure calculation_id error_message error_type worker_id failure now db =
     bind_res (get_model calculation_id db) (\<lambda>row.
     bind_res (ensure_compute_job_active_lease_owner row calculation_id worker_id ''mark retryable failure for'' now) (\<lambda>_.
     let db' = update_job calculation_id (retryable_row error_message error_type failure now) db
     in if job_attempt_count row < job_max_attempts row then Inr (True, db')
        else Inr (False, fail_terminal_source_custody [job_calculation_id row] (job_tenant_id row)
                           (Some (job_analytics_type row)) now db')))"

section \<open>Reconciliation\<close>

definition reconcile_stale_jobs_statement ::
    "instant \<Rightarrow> string \<Rightarrow> (uuid \<Rightarrow> bool) \<Rightarrow> compute_job_row list \<Rightarrow> compute_job_row list" where
  "reconcile_stale_jobs_statement now dialect locked rows =
     filter (\<lambda>r. job_status r \<in> {JLeased, JRunning} \<and> lease_expired now r \<and> \<not> skip_locked dialect locked r) rows"

definition row_outcome :: "instant \<Rightarrow> compute_job_row \<Rightarrow> stale_job_outcome" where
  "row_outcome now row =
     stale_job_reconciliation_outcome (job_status row) (job_attempt_count row) (job_max_attempts row) now"

definition reconciled_row :: "instant \<Rightarrow> compute_job_row \<Rightarrow> compute_job_row" where
  "reconciled_row now row =
     (let outcome = row_outcome now row in
      row\<lparr>job_worker_id := None, job_lease_owner_id := None, job_leased_at_utc := None,
           job_lease_expires_at_utc := None, job_last_error_at_utc := Some now,
           job_error_message := Some (so_error_message outcome), job_error_type := Some (so_error_type outcome),
           job_completed_at_utc := so_completed_at_utc outcome, job_status := so_job_status outcome,
           job_failure_json := Some (to_json (generic_durable_failure (so_job_status outcome = JPending)))\<rparr>)"

definition reconciled_record :: "instant \<Rightarrow> compute_job_row \<Rightarrow> reconciled_job_record" where
  "reconciled_record now row =
     (let outcome = row_outcome now row in
      \<lparr>rj_calculation_id = job_calculation_id row, rj_analytics_type = job_analytics_type row,
       rj_previous_status = job_status row, rj_reconciled_status = so_job_status outcome,
       rj_attempt_count = job_attempt_count row, rj_max_attempts = job_max_attempts row,
       rj_error_message = so_error_message outcome, rj_error_type = so_error_type outcome,
       rj_tenant_id = job_tenant_id row\<rparr>)"

definition reconcile_stale_job_row :: "instant \<Rightarrow> compute_job_row \<Rightarrow> database \<Rightarrow> reconciled_job_record \<times> database" where
  "reconcile_stale_job_row now row db =
     (reconciled_record now row,
      fail_terminal_source_custody [job_calculation_id row] (job_tenant_id row)
        (if so_job_status (row_outcome now row) = JFailed then Some (job_analytics_type row) else None) now
        (update_job (job_calculation_id row) (reconciled_row now) db))"

fun reconcile_rows :: "instant \<Rightarrow> compute_job_row list \<Rightarrow> database \<Rightarrow> reconciled_job_record list \<times> database" where
  "reconcile_rows now [] db = ([], db)"
| "reconcile_rows now (row # rows) db =
     (let (record, db1) = reconcile_stale_job_row now row db;
          (records, db2) = reconcile_rows now rows db1
      in (record # records, db2))"

definition reconcile_stale_jobs ::
    "(uuid \<Rightarrow> bool) \<Rightarrow> instant \<Rightarrow> database \<Rightarrow> reconciled_job_record list \<times> database" where
  "reconcile_stale_jobs locked now db =
     reconcile_rows now (reconcile_stale_jobs_statement now (db_dialect_name db) locked (db_jobs db)) db"

section \<open>Retention and lookup\<close>

definition terminal_retention_filter :: "instant \<Rightarrow> compute_job_row \<Rightarrow> bool" where
  "terminal_retention_filter cutoff r \<longleftrightarrow> job_status r \<in> {JComplete, JFailed}
     \<and> (case job_completed_at_utc r of None \<Rightarrow> False | Some t \<Rightarrow> t \<le> cutoff)"

definition cutoff_of :: "datetime \<Rightarrow> database \<Rightarrow> instant" where
  "cutoff_of older_than db =
     (case normalize_filter_datetime (Some older_than) (db_dialect_name db) of None \<Rightarrow> 0 | Some d \<Rightarrow> instant_of d)"

text \<open>\<open>NULL\<close> cannot occur in the first sort column: the filter asks for a completion time.\<close>

definition list_terminal_job_ids_older_than :: "datetime \<Rightarrow> database \<Rightarrow> uuid list" where
  "list_terminal_job_ids_older_than older_than db =
     List.map job_calculation_id
       (sort_key (\<lambda>r. the (job_completed_at_utc r))
         (sort_key job_created_at_utc
           (filter (terminal_retention_filter (cutoff_of older_than db)) (db_jobs db))))"

definition prune_terminal_jobs_older_than ::
    "datetime \<Rightarrow> bool \<Rightarrow> uuid list option \<Rightarrow> database \<Rightarrow> nat \<times> database" where
  "prune_terminal_jobs_older_than older_than dry_run exclude_calculation_ids db =
     (let excluded = (case exclude_calculation_ids of None \<Rightarrow> [] | Some ids \<Rightarrow> ids);
          retention_filter = (\<lambda>r. terminal_retention_filter (cutoff_of older_than db) r
                                  \<and> job_calculation_id r \<notin> set excluded);
          matched = length (filter retention_filter (db_jobs db))
      in if dry_run then (matched, db)
         else (matched, db\<lparr>db_jobs := filter (\<lambda>r. \<not> retention_filter r) (db_jobs db)\<rparr>))"

definition clear_all_job_records :: "database \<Rightarrow> database" where
  "clear_all_job_records db = db\<lparr>db_jobs := []\<rparr>"

definition get_job_record :: "uuid \<Rightarrow> database \<Rightarrow> store_error + compute_job_record option" where
  "get_job_record calculation_id db =
     (case get_job calculation_id db of None \<Rightarrow> Inr None
      | Some row \<Rightarrow> bind_res (to_record row) (\<lambda>r. Inr (Some r)))"

definition get_job_for_tenant :: "uuid \<Rightarrow> string \<Rightarrow> database \<Rightarrow> store_error + compute_job_record option" where
  "get_job_for_tenant calculation_id tenant db =
     (case find (\<lambda>r. job_calculation_id r = calculation_id \<and> job_tenant_id r = Some tenant) (db_jobs db) of
        None \<Rightarrow> Inr None
      | Some row \<Rightarrow> bind_res (to_record row) (\<lambda>r. Inr (Some r)))"

end
