(* ===== verification/Job_Machine.thy ===== *)
theory Job_Machine
  imports Compute_Jobs
begin

text \<open>
  The queue as a state machine. A database event is one call of the store by a worker,
  under its id or owner-less (\<open>worker_id=None\<close>, the source's default), or by the control plane (\<open>job_step\<close>); \<open>row_step\<close> is the specification of what an
  event may do to the job with one calculation id. The refinement lemma \<open>job_step_row\<close> says
  that every accepted event is such a step for every calculation id, so an invariant of one job
  is proved by cases of \<open>row_step\<close> and lifted to runs of the store.
\<close>

section \<open>Events\<close>

datatype job_event =
    Register uuid string string json_dict "int option" int instant
  | Enqueue uuid string string json_dict "int option" int instant
  | Lease string nat int "string option" "uuid \<Rightarrow> bool" instant
  | Acquire uuid string string int instant
  | MarkRunning uuid "string option" "int option" instant
  | Renew uuid "string option" int instant
  | Finish uuid json_dict "string option" instant
  | Fail uuid string "string option" "string option" "durable_failure_classification option" instant
  | Retry uuid string "string option" "string option" "durable_failure_classification option" instant
  | Cancel "uuid list" string string instant
  | Reconcile "uuid \<Rightarrow> bool" instant
  | Prune datetime "uuid list option"
  | SelectRoot source_custody_claim "string option" "string option" "source_materialization_payload option"
      instant instant instant instant

definition drop_result :: "store_error + 'a \<times> database \<Rightarrow> store_error + database" where
  "drop_result r = bind_res r (\<lambda>(_, db). Inr db)"

fun job_step :: "database \<Rightarrow> job_event \<Rightarrow> store_error + database" where
  "job_step db (Register k typ tenant payload maxa setting now) =
     drop_result (register_job k typ tenant payload maxa setting now db)"
| "job_step db (Enqueue k typ tenant payload maxa setting now) =
     drop_result (enqueue_job k typ tenant payload maxa setting now db)"
| "job_step db (Lease w limit secs typ locked now) = drop_result (lease_pending_jobs w limit secs typ locked now db)"
| "job_step db (Acquire k w acq secs now) = drop_result (mark_running_acquired k w acq secs now db)"
| "job_step db (MarkRunning k caller secs now) = drop_result (mark_running k caller secs now db)"
| "job_step db (Renew k caller secs now) = drop_result (renew_lease k caller secs now db)"
| "job_step db (Finish k payload caller now) = drop_result (mark_complete k payload caller now db)"
| "job_step db (Fail k msg typ caller failure now) = drop_result (mark_failed k msg typ caller failure now db)"
| "job_step db (Retry k msg typ caller failure now) = drop_result (mark_retryable_failure k msg typ caller failure now db)"
| "job_step db (Cancel ks tenant reason now) = Inr (snd (cancel_pending_jobs ks tenant reason now db))"
| "job_step db (Reconcile locked now) = Inr (snd (reconcile_stale_jobs locked now db))"
| "job_step db (Prune older_than excl) = Inr (snd (prune_terminal_jobs_older_than older_than False excl db))"
| "job_step db (SelectRoot claim d f m now c1 now2 c2) =
     drop_result (select_returns_series_source_root claim d f m now c1 now2 c2 db)"

section \<open>The specification of one job\<close>

definition holds_lease :: "string \<Rightarrow> instant \<Rightarrow> compute_job_row \<Rightarrow> bool" where
  "holds_lease w now row \<longleftrightarrow> job_status row \<in> {JLeased, JRunning} \<and> active_owner row = Some w
     \<and> (\<exists>e. job_lease_expires_at_utc row = Some e \<and> now \<le> e)"

text \<open>
  The id a call is made under, \<open>worker_id\<close>, defaults to \<open>None\<close> in the source: a call that names a
  worker needs that worker's lease, an owner-less one is never refused for the lease.
\<close>

definition permitted :: "string option \<Rightarrow> instant \<Rightarrow> compute_job_row \<Rightarrow> bool" where
  "permitted caller now row = (case caller of None \<Rightarrow> True | Some w \<Rightarrow> holds_lease w now row)"

lemma permitted_simps [simp]: "permitted None now row" "permitted (Some w) now row = holds_lease w now row"
  by (simp_all add: permitted_def)

definition leasable :: "instant \<Rightarrow> compute_job_row \<Rightarrow> bool" where
  "leasable now r \<longleftrightarrow> job_status r = JPending \<or> (job_status r = JLeased \<and> lease_expired now r)"

definition stale :: "instant \<Rightarrow> compute_job_row \<Rightarrow> bool" where
  "stale now r \<longleftrightarrow> job_status r \<in> {JLeased, JRunning} \<and> lease_expired now r"

inductive row_step :: "uuid \<Rightarrow> job_event \<Rightarrow> compute_job_row option \<Rightarrow> compute_job_row option \<Rightarrow> bool" for k where
  keep: "row_step k e x x"
| register: "row_step k (Register k typ tenant payload maxa setting now) None
     (Some (new_job k typ (strip tenant) payload (configured_max_attempts maxa setting) now))"
| enqueue_new: "strip tenant \<noteq> [] \<Longrightarrow> row_step k (Enqueue k typ tenant payload maxa setting now) None
     (Some (new_job k typ (strip tenant) payload (configured_max_attempts maxa setting) now))"
| enqueue_again: "strip tenant \<noteq> [] \<Longrightarrow> row_step k (Enqueue k typ tenant payload maxa setting now) (Some r)
     (Some ((new_job k typ (strip tenant) payload (configured_max_attempts maxa setting) now)
              \<lparr>job_failure_json := job_failure_json r\<rparr>))"
| lease: "leasable now r \<Longrightarrow> load_request_payload r \<noteq> None \<Longrightarrow> row_step k (Lease w limit secs typ locked now) (Some r)
     (Some (leased_row w now (now + timedelta_seconds secs) r))"
| lease_invalid: "leasable now r \<Longrightarrow> load_request_payload r = None \<Longrightarrow>
     row_step k (Lease w limit secs typ locked now) (Some r) (Some (mark_invalid_request_payload now r))"
| acquire: "holds_lease w now r \<Longrightarrow> row_step k (Acquire k w acq secs now) (Some r)
     (Some (running_row (Some acq) (Some (now + timedelta_seconds secs)) now r))"
| running: "job_status r \<notin> {JFailed, JComplete} \<Longrightarrow>
     \<not> compute_job_has_conflicting_worker_lease (job_worker_id r) caller \<Longrightarrow>
     row_step k (MarkRunning k caller secs now) (Some r)
     (Some (running_row caller
        (case secs of None \<Rightarrow> job_lease_expires_at_utc r | Some s \<Rightarrow> Some (now + timedelta_seconds s)) now r))"
| renew: "permitted caller now r \<Longrightarrow> row_step k (Renew k caller secs now) (Some r) (Some (renewed_row now secs r))"
| finish: "permitted caller now r \<Longrightarrow>
     row_step k (Finish k payload caller now) (Some r) (Some (complete_row payload now r))"
| fail: "permitted caller now r \<Longrightarrow> row_step k (Fail k msg typ caller failure now) (Some r)
     (Some (failed_row msg typ failure now r))"
| retry: "permitted caller now r \<Longrightarrow> row_step k (Retry k msg typ caller failure now) (Some r)
     (Some (retryable_row msg typ failure now r))"
| cancel: "cancellable ks tenant r \<Longrightarrow> k \<in> set ks \<Longrightarrow>
     row_step k (Cancel ks tenant reason now) (Some r) (Some (cancelled_row reason now r))"
| reconcile: "stale now r \<Longrightarrow> row_step k (Reconcile locked now) (Some r) (Some (reconciled_row now r))"
| prune: "job_status r \<in> {JComplete, JFailed} \<Longrightarrow> job_completed_at_utc r \<noteq> None \<Longrightarrow>
     row_step k (Prune older_than excl) (Some r) None"

section \<open>Row transformers keep the key\<close>

lemmas row_transformers =
  new_job_def leased_row_def mark_invalid_request_payload_def running_row_def renewed_row_def complete_row_def
  failed_row_def cancelled_row_def retryable_row_def reconciled_row_def row_outcome_def
  stale_job_reconciliation_outcome_def

lemma row_keys [simp]:
  "job_calculation_id (new_job k typ t p m now) = k"
  "job_calculation_id (leased_row w now x r) = job_calculation_id r"
  "job_calculation_id (mark_invalid_request_payload now r) = job_calculation_id r"
  "job_calculation_id (running_row ow ox now r) = job_calculation_id r"
  "job_calculation_id (renewed_row now s r) = job_calculation_id r"
  "job_calculation_id (complete_row p now r) = job_calculation_id r"
  "job_calculation_id (failed_row msg ty f now r) = job_calculation_id r"
  "job_calculation_id (cancelled_row rs now r) = job_calculation_id r"
  "job_calculation_id (retryable_row msg ty f now r) = job_calculation_id r"
  "job_calculation_id (reconciled_row now r) = job_calculation_id r"
  by (simp_all add: row_transformers Let_def)

lemma fail_custody_frame [simp]:
  "db_jobs (fail_terminal_source_custody ks t a now db) = db_jobs db"
  "db_dialect_name (fail_terminal_source_custody ks t a now db) = db_dialect_name db"
  "db_executions (fail_terminal_source_custody ks t a now db) = db_executions db"
  "db_stages (fail_terminal_source_custody ks t a now db) = db_stages db"
  "db_snapshots (fail_terminal_source_custody ks t a now db) = db_snapshots db"
  "db_results (fail_terminal_source_custody ks t a now db) = db_results db"
  by (simp_all add: fail_terminal_source_custody_def)

lemma get_job_fail_custody [simp]: "get_job k (fail_terminal_source_custody ks t a now db) = get_job k db"
  by (simp add: get_job_def)

definition jobs_ok :: "database \<Rightarrow> bool" where
  "jobs_ok db \<longleftrightarrow> tbl_ok job_calculation_id (db_jobs db)"

lemma jobs_ok_ops [simp]:
  "(\<And>r. job_calculation_id (f r) = job_calculation_id r) \<Longrightarrow> jobs_ok (update_job k f db) = jobs_ok db"
  "jobs_ok (fail_terminal_source_custody ks t a now db) = jobs_ok db"
  by (simp_all add: jobs_ok_def update_job_def tbl_ok_upd)

lemma jobs_ok_add: "jobs_ok db \<Longrightarrow> get_job (job_calculation_id r) db = None \<Longrightarrow> jobs_ok (add_job r db)"
  by (simp add: jobs_ok_def add_job_def get_job_def tbl_ok_add)

lemma get_job_row:
  assumes "jobs_ok db" "r \<in> set (db_jobs db)"
  shows "get_job (job_calculation_id r) db = Some r"
  using assms by (simp add: jobs_ok_def get_job_def tbl_get_mem)

lemma get_job_mem: "get_job k db = Some r \<Longrightarrow> r \<in> set (db_jobs db) \<and> job_calculation_id r = k"
  by (auto simp: get_job_def dest: tbl_get_Some)

lemma get_job_update [simp]:
  "(\<And>r. job_calculation_id (f r) = job_calculation_id r) \<Longrightarrow>
   get_job k' (update_job k f db) = (if k' = k then map_option f (get_job k db) else get_job k' db)"
  by (rule jobs.get_upd)

section \<open>Batches of updates\<close>

text \<open>Leasing and reconciliation walk the selected rows and update each one by its key.\<close>

definition update_rows :: "(compute_job_row \<Rightarrow> compute_job_row \<Rightarrow> compute_job_row) \<Rightarrow> compute_job_row list \<Rightarrow> database \<Rightarrow> database" where
  "update_rows g rows db = fold (\<lambda>row. update_job (job_calculation_id row) (g row)) rows db"

lemma update_rows_get:
  assumes "\<And>row r. job_calculation_id (g row r) = job_calculation_id r" "distinct (List.map job_calculation_id rows)"
    "\<And>row. row \<in> set rows \<Longrightarrow> get_job (job_calculation_id row) db = Some row"
  shows "get_job k (update_rows g rows db) =
    (case get_job k db of None \<Rightarrow> None | Some r \<Rightarrow> if r \<in> set rows then Some (g r r) else Some r)"
  using assms(2,3)
proof (induction rows arbitrary: db)
  case Nil
  then show ?case by (simp add: update_rows_def split: option.splits)
next
  case (Cons row rows)
  let ?db1 = "update_job (job_calculation_id row) (g row) db"
  have ne: "job_calculation_id q \<noteq> job_calculation_id row" if "q \<in> set rows" for q
    using Cons.prems(1) that by (metis distinct.simps(2) image_eqI list.set_map list.simps(9))
  have "get_job k (update_rows g rows ?db1) =
    (case get_job k ?db1 of None \<Rightarrow> None | Some r \<Rightarrow> if r \<in> set rows then Some (g r r) else Some r)"
    by (rule Cons.IH) (use Cons.prems ne in \<open>auto simp: assms(1)\<close>)
  moreover have "get_job (job_calculation_id row) db = Some row" using Cons.prems(2) by simp
  moreover have "g row row \<notin> set rows" "row \<notin> set rows" using ne [of "g row row"] ne [of row] assms(1) by auto
  moreover have "row = r" if "get_job k db = Some r" "k = job_calculation_id row" for r
    using that Cons.prems(2) [of row] by simp
  moreover have "r \<noteq> row" if "get_job k db = Some r" "k \<noteq> job_calculation_id row" for r
    using that get_job_mem by blast
  ultimately show ?case
    by (auto simp: update_rows_def assms(1) split: option.splits)
qed

lemma update_rows_ok [simp]:
  "(\<And>row r. job_calculation_id (g row r) = job_calculation_id r) \<Longrightarrow> jobs_ok (update_rows g rows db) = jobs_ok db"
  by (induction rows arbitrary: db) (simp_all add: update_rows_def)

definition touched_row :: "string \<Rightarrow> instant \<Rightarrow> instant \<Rightarrow> compute_job_row \<Rightarrow> compute_job_row \<Rightarrow> compute_job_row" where
  "touched_row w now lease_expiry row =
     (if load_request_payload row = None then mark_invalid_request_payload now else leased_row w now lease_expiry)"

lemma touched_key [simp]: "job_calculation_id (touched_row w now x row r) = job_calculation_id r"
  by (simp add: touched_row_def)

lemma to_record_Inr: "\<exists>rec. to_record row = Inr rec"
  by (auto simp: to_record_def compute_job_record_payload_state_def compute_job_payload_failure_def
      has_invalid_compute_job_response_payload_def Let_def split: option.splits)

lemma lease_rows_result:
  "\<exists>records. lease_rows w now x rows db = Inr (records, update_rows (touched_row w now x) rows db)
     \<and> to_records (List.map (leased_row w now x) (filter (\<lambda>r. load_request_payload r \<noteq> None) rows)) = Inr records"
proof (induction rows arbitrary: db)
  case Nil
  then show ?case by (simp add: update_rows_def)
next
  case (Cons row rows)
  obtain rec where rec: "to_record (leased_row w now x row) = Inr rec" using to_record_Inr by blast
  let ?f = "touched_row w now x row"
  obtain records where
    "lease_rows w now x rows (update_job (job_calculation_id row) ?f db)
       = Inr (records, update_rows (touched_row w now x) rows (update_job (job_calculation_id row) ?f db))"
    "to_records (List.map (leased_row w now x) (filter (\<lambda>r. load_request_payload r \<noteq> None) rows)) = Inr records"
    using Cons.IH by blast
  then show ?case using rec
    by (cases "load_request_payload row") (simp_all add: touched_row_def update_rows_def)
qed

lemma reconcile_rows_Cons:
  "reconcile_rows now (row # rows) db =
     (reconciled_record now row # fst (reconcile_rows now rows (snd (reconcile_stale_job_row now row db))),
      snd (reconcile_rows now rows (snd (reconcile_stale_job_row now row db))))"
  by (simp add: reconcile_stale_job_row_def split_def Let_def)

lemma reconcile_rows_result:
  "fst (reconcile_rows now rows db) = List.map (reconciled_record now) rows"
  "db_jobs (snd (reconcile_rows now rows db)) = db_jobs (update_rows (\<lambda>_. reconciled_row now) rows db)"
proof -
  have cong: "db_jobs (update_rows g rows d) = db_jobs (update_rows g rows d')"
    if "db_jobs d = db_jobs d'" for g rows d d'
    using that by (induction rows arbitrary: d d') (simp_all add: update_rows_def update_job_def)
  show "fst (reconcile_rows now rows db) = List.map (reconciled_record now) rows"
    by (induction rows arbitrary: db) (simp_all add: reconcile_rows_Cons del: reconcile_rows.simps(2))
  show "db_jobs (snd (reconcile_rows now rows db)) = db_jobs (update_rows (\<lambda>_. reconciled_row now) rows db)"
  proof (induction rows arbitrary: db)
    case Nil
    then show ?case by (simp add: update_rows_def)
  next
    case (Cons row rows)
    let ?db1 = "snd (reconcile_stale_job_row now row db)"
    have "db_jobs (snd (reconcile_rows now (row # rows) db)) = db_jobs (snd (reconcile_rows now rows ?db1))"
      by (simp add: reconcile_rows_Cons del: reconcile_rows.simps(2))
    also have "\<dots> = db_jobs (update_rows (\<lambda>_. reconciled_row now) rows ?db1)" by (rule Cons.IH)
    also have "\<dots> = db_jobs (update_rows (\<lambda>_. reconciled_row now) rows
        (update_job (job_calculation_id row) (reconciled_row now) db))"
      by (rule cong) (simp add: reconcile_stale_job_row_def)
    finally show ?case by (simp add: update_rows_def)
  qed
qed

section \<open>The store refines the specification of a job\<close>

lemma ensure_owner_iff:
  "ensure_compute_job_active_lease_owner row k (Some w) t now = Inr () \<longleftrightarrow> holds_lease w now row"
  by (auto simp: ensure_compute_job_active_lease_owner_def holds_lease_def not_less split: option.splits)

lemma ensure_caller_iff:
  "ensure_compute_job_active_lease_owner row k caller t now = Inr () \<longleftrightarrow> permitted caller now row"
  by (cases caller) (simp_all add: ensure_owner_iff, simp add: ensure_compute_job_active_lease_owner_def)

lemma get_model_iff [simp]: "get_model k db = Inr row \<longleftrightarrow> get_job k db = Some row"
  by (simp add: get_model_def)

lemma statement_rows:
  assumes "jobs_ok db" "distinct (List.map job_calculation_id rows)" "set rows \<subseteq> set (db_jobs db)" "r \<in> set rows"
  shows "get_job (job_calculation_id r) db = Some r"
  using assms get_job_row by blast

lemma distinct_take_sort_filter:
  "distinct (List.map f t) \<Longrightarrow> distinct (List.map f (take n (sort_key g (filter p t))))"
proof -
  assume "distinct (List.map f t)"
  then have "distinct (List.map f (filter p t))" by (rule distinct_map_filterI)
  then have "distinct (List.map f (sort_key g (filter p t)))" by (simp add: distinct_map)
  then show ?thesis by (metis distinct_take take_map)
qed

lemma lease_statement_facts:
  assumes "jobs_ok db" "rows = lease_pending_jobs_statement now limit typ dialect locked (db_jobs db)"
  shows "distinct (List.map job_calculation_id rows)" "set rows \<subseteq> set (db_jobs db)"
    "r \<in> set rows \<Longrightarrow> leasable now r" "length rows \<le> limit"
  using assms distinct_take_sort_filter
  by (auto simp: lease_pending_jobs_statement_def jobs_ok_def tbl_ok_def leasable_def dest!: in_set_takeD)

lemma reconcile_statement_facts:
  assumes "jobs_ok db" "rows = reconcile_stale_jobs_statement now dialect locked (db_jobs db)"
  shows "distinct (List.map job_calculation_id rows)" "set rows \<subseteq> set (db_jobs db)" "r \<in> set rows \<Longrightarrow> stale now r"
  using assms by (auto simp: reconcile_stale_jobs_statement_def jobs_ok_def tbl_ok_def stale_def distinct_map_filterI)

text \<open>The effect of a lease and of a reconciliation on one job.\<close>

lemma lease_effect:
  assumes ok: "jobs_ok db" and lease: "lease_pending_jobs w limit secs typ locked now db = Inr (records, db')"
  defines "rows \<equiv> lease_pending_jobs_statement now limit typ (db_dialect_name db) locked (db_jobs db)"
  shows "jobs_ok db'"
    "get_job k db' = (case get_job k db of None \<Rightarrow> None
       | Some r \<Rightarrow> if r \<in> set rows then Some (touched_row w now (now + timedelta_seconds secs) r r) else Some r)"
    "to_records (List.map (leased_row w now (now + timedelta_seconds secs))
       (filter (\<lambda>r. load_request_payload r \<noteq> None) rows)) = Inr records"
proof -
  note facts = lease_statement_facts [OF ok, of rows now limit "typ" "db_dialect_name db" locked]
  have rows: "distinct (List.map job_calculation_id rows)" "set rows \<subseteq> set (db_jobs db)"
    using facts(1,2) by (simp_all add: rows_def)
  obtain recs where res: "lease_rows w now (now + timedelta_seconds secs) rows db
      = Inr (recs, update_rows (touched_row w now (now + timedelta_seconds secs)) rows db)"
    "to_records (List.map (leased_row w now (now + timedelta_seconds secs))
       (filter (\<lambda>r. load_request_payload r \<noteq> None) rows)) = Inr recs"
    using lease_rows_result by blast
  have db': "db' = update_rows (touched_row w now (now + timedelta_seconds secs)) rows db" "records = recs"
    using lease res(1) by (simp_all add: lease_pending_jobs_def rows_def)
  show "jobs_ok db'" using ok by (simp add: db')
  show "get_job k db' = (case get_job k db of None \<Rightarrow> None
       | Some r \<Rightarrow> if r \<in> set rows then Some (touched_row w now (now + timedelta_seconds secs) r r) else Some r)"
    unfolding db' by (rule update_rows_get) (use rows statement_rows [OF ok rows] in auto)
  show "to_records (List.map (leased_row w now (now + timedelta_seconds secs))
       (filter (\<lambda>r. load_request_payload r \<noteq> None) rows)) = Inr records" using res(2) db'(2) by simp
qed

lemma reconcile_effect:
  assumes ok: "jobs_ok db" and rec: "reconcile_stale_jobs locked now db = (records, db')"
  defines "rows \<equiv> reconcile_stale_jobs_statement now (db_dialect_name db) locked (db_jobs db)"
  shows "jobs_ok db'"
    "get_job k db' = (case get_job k db of None \<Rightarrow> None
       | Some r \<Rightarrow> if r \<in> set rows then Some (reconciled_row now r) else Some r)"
    "records = List.map (reconciled_record now) rows"
proof -
  note facts = reconcile_statement_facts [OF ok, of rows now "db_dialect_name db" locked]
  have rows: "distinct (List.map job_calculation_id rows)" "set rows \<subseteq> set (db_jobs db)"
    using facts(1,2) by (simp_all add: rows_def)
  have db': "records = fst (reconcile_rows now rows db)" "db' = snd (reconcile_rows now rows db)"
    using rec by (simp_all add: reconcile_stale_jobs_def rows_def)
  have jobs: "db_jobs db' = db_jobs (update_rows (\<lambda>_. reconciled_row now) rows db)"
    by (simp add: db'(2) reconcile_rows_result)
  have "jobs_ok (update_rows (\<lambda>_. reconciled_row now) rows db)" using ok by simp
  then show "jobs_ok db'" by (simp add: jobs_ok_def jobs)
  have "get_job k db' = get_job k (update_rows (\<lambda>_. reconciled_row now) rows db)" by (simp add: get_job_def jobs)
  also have "\<dots> = (case get_job k db of None \<Rightarrow> None
       | Some r \<Rightarrow> if r \<in> set rows then Some (reconciled_row now r) else Some r)"
    by (rule update_rows_get) (use rows statement_rows [OF ok rows] in auto)
  finally show "get_job k db' = (case get_job k db of None \<Rightarrow> None
       | Some r \<Rightarrow> if r \<in> set rows then Some (reconciled_row now r) else Some r)" .
  show "records = List.map (reconciled_record now) rows" by (simp add: db'(1) reconcile_rows_result)
qed

text \<open>Selecting a source root leaves the job and execution tables alone.\<close>

definition same_stores :: "database \<Rightarrow> database \<Rightarrow> bool" where
  "same_stores db db' \<longleftrightarrow> db_jobs db' = db_jobs db \<and> db_executions db' = db_executions db
     \<and> db_stages db' = db_stages db \<and> db_snapshots db' = db_snapshots db \<and> db_results db' = db_results db
     \<and> db_dialect_name db' = db_dialect_name db"

lemma source_record_frame: "source_record c now db = (row, db1) \<Longrightarrow> same_stores db db1"
  by (auto simp: source_record_def Let_def same_stores_def split: option.splits)

lemma enqueue_if_given_frame: "enqueue_if_given m now db row = Inr (row', db') \<Longrightarrow> same_stores db db'"
  by (auto simp: enqueue_if_given_def enqueue_selected_source_def same_stores_def split: option.splits if_splits)

lemma select_source_root_frame:
  assumes "select_source_root c d f m now db = Inr (sel, db')"
  shows "same_stores db db'"
proof -
  obtain row db1 where sr: "source_record c now db = (row, db1)" by fastforce
  note frame = source_record_frame [OF sr]
  show ?thesis
  proof (cases "lr_status row = LFailed")
    case True
    with assms sr have "db' = db1" by (auto simp: select_source_root_def Let_def split: if_splits)
    with frame show ?thesis by simp
  next
    case False
    with assms sr obtain row2 row3 db2 where "enqueue_if_given m now db1 row2 = Inr (row3, db2)"
      "db' = store_row row3 db2"
      by (auto simp: select_source_root_def Let_def split: if_splits)
    then show ?thesis using frame enqueue_if_given_frame
      by (auto simp: same_stores_def store_row_def update_lineage_def)
  qed
qed

lemma owner_session_body:
  "returns_source_owner_session claim now c1 c2 db body = Inr (a, db') \<Longrightarrow>
   body (get_execution_row (cl_calculation_id claim) db) db = Inr (a, db')"
  by (auto simp: returns_source_owner_session_def Let_def split: prod.splits)

lemma select_root_frame:
  assumes "select_returns_series_source_root claim d f m now c1 now2 c2 db = Inr (sel, db')"
  shows "db_jobs db' = db_jobs db" "get_job k db' = get_job k db" "jobs_ok db' = jobs_ok db"
    "select_source_root claim d f m now2 db = Inr (sel, db')"
proof -
  show sel: "select_source_root claim d f m now2 db = Inr (sel, db')"
    using owner_session_body [OF assms [unfolded select_returns_series_source_root_def]] by simp
  show "db_jobs db' = db_jobs db" using select_source_root_frame [OF sel] by (simp add: same_stores_def)
  then show "get_job k db' = get_job k db" "jobs_ok db' = jobs_ok db" by (simp_all add: get_job_def jobs_ok_def)
qed

lemma get_job_add: "get_job (job_calculation_id r) db = None \<Longrightarrow>
    get_job k (add_job r db) = (if k = job_calculation_id r then Some r else get_job k db)"
  by (rule jobs.get_add)

lemma drop_result_Inr [simp]: "drop_result x = Inr db \<longleftrightarrow> (\<exists>a. x = Inr (a, db))"
  by (auto simp: drop_result_def)

lemma register_step:
  assumes "jobs_ok db" "register_job i typ tenant payload maxa setting now db = Inr (r, db')"
  shows "jobs_ok db' \<and> row_step k (Register i typ tenant payload maxa setting now) (get_job k db) (get_job k db')"
proof (cases "get_job i db")
  case None
  with assms have db': "db' = add_job (new_job i typ (strip tenant) payload (configured_max_attempts maxa setting) now) db"
    by (simp add: register_job_def Let_def)
  show ?thesis
  proof (cases "k = i")
    case True
    then show ?thesis using None assms(1) row_step.register
      by (simp add: db' get_job_add jobs_ok_add)
  next
    case False
    then show ?thesis using None assms(1) row_step.keep by (simp add: db' get_job_add jobs_ok_add)
  qed
next
  case (Some existing)
  with assms have "db' = db" by (auto simp: register_job_def Let_def)
  with assms(1) show ?thesis by (simp add: row_step.keep)
qed

lemma enqueue_step:
  assumes "jobs_ok db" "enqueue_job i typ tenant payload maxa setting now db = Inr (r, db')"
  shows "jobs_ok db' \<and> row_step k (Enqueue i typ tenant payload maxa setting now) (get_job k db) (get_job k db')"
proof -
  let ?row = "new_job i typ (strip tenant) payload (configured_max_attempts maxa setting) now"
  from assms(2) have t: "strip tenant \<noteq> []" by (auto simp: enqueue_job_def Let_def split: if_splits)
  show ?thesis
  proof (cases "get_job i db")
    case None
    with assms(2) t have db': "db' = add_job ?row db" by (simp add: enqueue_job_def Let_def)
    show ?thesis using None assms(1) row_step.keep row_step.enqueue_new [OF t]
      by (cases "k = i") (simp_all add: db' get_job_add jobs_ok_add)
  next
    case (Some existing)
    let ?f = "\<lambda>_. ?row\<lparr>job_failure_json := job_failure_json existing\<rparr>"
    from Some assms(2) t have db': "db' = update_job i ?f db" by (simp add: enqueue_job_def Let_def)
    have get: "get_job k db' = (if k = i then map_option ?f (get_job i db) else get_job k db)" for k
      unfolding db' db_ops by (simp add: tbl_get_replace)
    have "List.map job_calculation_id (tbl_upd job_calculation_id i ?f (db_jobs db)) = List.map job_calculation_id (db_jobs db)"
      by (auto simp: tbl_upd_def)
    then have "jobs_ok db'" using assms(1) by (simp add: jobs_ok_def db' update_job_def tbl_ok_def)
    then show ?thesis using Some row_step.keep row_step.enqueue_again [OF t] by (auto simp: get)
  qed
qed

lemma lease_step:
  assumes "jobs_ok db" "lease_pending_jobs w limit secs typ locked now db = Inr (r, db')"
  shows "jobs_ok db' \<and> row_step k (Lease w limit secs typ locked now) (get_job k db) (get_job k db')"
proof -
  note eff = lease_effect [OF assms]
  show ?thesis
  proof (cases "get_job k db")
    case None
    then show ?thesis using eff(1,2) row_step.keep by simp
  next
    case (Some row)
    then show ?thesis using eff(1) lease_statement_facts(3) [OF assms(1) refl] row_step.keep row_step.lease row_step.lease_invalid
      unfolding eff(2) by (auto simp: touched_row_def simp del: not_None_eq)
  qed
qed

lemma reconcile_step:
  assumes "jobs_ok db" "reconcile_stale_jobs locked now db = (r, db')"
  shows "jobs_ok db' \<and> row_step k (Reconcile locked now) (get_job k db) (get_job k db')"
proof -
  note eff = reconcile_effect [OF assms]
  show ?thesis
  proof (cases "get_job k db")
    case None
    then show ?thesis using eff(1,2) row_step.keep by simp
  next
    case (Some row)
    then show ?thesis using eff(1) reconcile_statement_facts(3) [OF assms(1) refl] row_step.keep row_step.reconcile
      unfolding eff(2) by auto
  qed
qed

lemma owned_step:
  assumes "jobs_ok db"
  shows "mark_running_acquired i w acq secs now db = Inr (u, db') \<Longrightarrow>
      jobs_ok db' \<and> row_step k (Acquire i w acq secs now) (get_job k db) (get_job k db')"
    and "renew_lease i caller secs now db = Inr (u, db') \<Longrightarrow>
      jobs_ok db' \<and> row_step k (Renew i caller secs now) (get_job k db) (get_job k db')"
    and "mark_complete i payload caller now db = Inr (u, db') \<Longrightarrow>
      jobs_ok db' \<and> row_step k (Finish i payload caller now) (get_job k db) (get_job k db')"
    and "mark_failed i msg ty caller failure now db = Inr (u, db') \<Longrightarrow>
      jobs_ok db' \<and> row_step k (Fail i msg ty caller failure now) (get_job k db) (get_job k db')"
    and "mark_retryable_failure i msg ty caller failure now db = Inr (b, db') \<Longrightarrow>
      jobs_ok db' \<and> row_step k (Retry i msg ty caller failure now) (get_job k db) (get_job k db')"
  using assms
  by (auto simp: mark_running_acquired_def renew_lease_def mark_complete_def mark_failed_def mark_retryable_failure_def
      ensure_owner_iff ensure_caller_iff Let_def split: if_splits intro: row_step.intros)

lemma running_step:
  assumes "jobs_ok db" "mark_running i caller secs now db = Inr (u, db')"
  shows "jobs_ok db' \<and> row_step k (MarkRunning i caller secs now) (get_job k db) (get_job k db')"
  using assms
  by (auto simp: mark_running_def ensure_compute_job_can_mark_running_def split: if_splits intro: row_step.intros)

lemma cancel_step:
  assumes "jobs_ok db" "cancel_pending_jobs ks tenant reason now db = (b, db')"
  shows "jobs_ok db' \<and> row_step k (Cancel ks tenant reason now) (get_job k db) (get_job k db')"
proof -
  let ?f = "\<lambda>r. if cancellable ks tenant r then cancelled_row reason now r else r"
  consider "db' = db" | "db_jobs db' = List.map ?f (db_jobs db)"
    using assms(2) by (auto simp: cancel_pending_jobs_def tbl_update_where_def split: if_splits)
  then show ?thesis
  proof cases
    case 1
    then show ?thesis using assms(1) row_step.keep by simp
  next
    case 2
    then have get: "get_job k db' = map_option ?f (get_job k db)"
      unfolding get_job_def by (simp only: 2) (rule tbl_get_map, simp)
    have "jobs_ok db'" using assms(1) by (simp add: jobs_ok_def 2 tbl_ok_map)
    moreover have "row_step k (Cancel ks tenant reason now) (get_job k db) (get_job k db')"
    proof (cases "get_job k db")
      case None
      then show ?thesis by (simp add: get row_step.keep)
    next
      case (Some r)
      then have "job_calculation_id r = k" using get_job_mem by blast
      then show ?thesis using Some row_step.keep row_step.cancel by (auto simp: get cancellable_def)
    qed
    ultimately show ?thesis by simp
  qed
qed

lemma tbl_get_filter: "tbl_ok key t \<Longrightarrow>
   tbl_get key k (filter p t) = (case tbl_get key k t of None \<Rightarrow> None | Some r \<Rightarrow> if p r then Some r else None)"
proof (induction t)
  case (Cons r t)
  then show ?case
  proof (cases "key r = k")
    case True
    then have "tbl_get key k (filter p t) = None" unfolding tbl_get_None using Cons.prems by (auto simp: tbl_ok_def)
    then show ?thesis using True by (simp add: tbl_get_def)
  qed (auto simp: tbl_get_def tbl_ok_def)
qed (simp add: tbl_get_def)

lemma prune_step:
  assumes "jobs_ok db" "prune_terminal_jobs_older_than older_than False excl db = (n, db')"
  shows "jobs_ok db' \<and> row_step k (Prune older_than excl) (get_job k db) (get_job k db')"
proof -
  let ?ex = "case excl of None \<Rightarrow> [] | Some ids \<Rightarrow> ids"
  let ?p = "\<lambda>r. terminal_retention_filter (cutoff_of older_than db) r \<and> job_calculation_id r \<notin> set ?ex"
  have jobs: "db_jobs db' = filter (\<lambda>r. \<not> ?p r) (db_jobs db)"
    using assms(2) unfolding prune_terminal_jobs_older_than_def Let_def by auto
  have "jobs_ok db'" using assms(1) unfolding jobs_ok_def jobs tbl_ok_def by (rule distinct_map_filterI)
  moreover have "get_job k db' = (case get_job k db of None \<Rightarrow> None | Some r \<Rightarrow> if \<not> ?p r then Some r else None)"
    using assms(1) unfolding get_job_def jobs jobs_ok_def by (rule tbl_get_filter)
  ultimately show ?thesis
    using row_step.keep row_step.prune
    by (cases "get_job k db") (auto simp: terminal_retention_filter_def split: option.splits)
qed

text \<open>The refinement: every accepted event is a step of the specification for every job.\<close>

lemma job_step_row:
  assumes "jobs_ok db" "job_step db e = Inr db'"
  shows "jobs_ok db' \<and> row_step k e (get_job k db) (get_job k db')"
proof (cases e)
  case (Reconcile locked now)
  then show ?thesis using assms reconcile_step by (metis job_step.simps(11) prod.collapse sum.inject(2))
next
  case (Cancel ks tenant reason now)
  then show ?thesis using assms cancel_step by (metis job_step.simps(10) prod.collapse sum.inject(2))
next
  case (Prune older_than excl)
  then show ?thesis using assms prune_step by (metis job_step.simps(12) prod.collapse sum.inject(2))
next
  case (SelectRoot claim d f m now c1 now2 c2)
  with assms(2) obtain sel where sel: "select_returns_series_source_root claim d f m now c1 now2 c2 db = Inr (sel, db')"
    by auto
  show ?thesis using assms(1) select_root_frame(2,3) [OF sel] by (simp add: row_step.keep)
qed (use assms in \<open>auto dest: register_step enqueue_step lease_step running_step owned_step\<close>)

section \<open>Lifting an invariant of one job to runs of the store\<close>

interpretation job_table: guarded_machine job_step "\<lambda>_. True" jobs_ok
proof
  show "jobs_ok s \<Longrightarrow> True \<Longrightarrow> job_step s e = Inr s' \<Longrightarrow> jobs_ok s'" for s e s' using job_step_row by blast
qed

locale row_invariant =
  fixes allowed :: "job_event \<Rightarrow> bool"
    and k :: uuid
    and I :: "compute_job_row option \<Rightarrow> bool"
  assumes row_step_inv: "I x \<Longrightarrow> allowed e \<Longrightarrow> row_step k e x y \<Longrightarrow> I y"
begin

lemma store_step: "jobs_ok s \<and> I (get_job k s) \<Longrightarrow> allowed e \<Longrightarrow> job_step s e = Inr s' \<Longrightarrow> jobs_ok s' \<and> I (get_job k s')"
  using job_step_row row_step_inv by blast

end

sublocale row_invariant \<subseteq> run: guarded_machine job_step allowed "\<lambda>db. jobs_ok db \<and> I (get_job k db)"
  by unfold_locales (rule store_step)

end
