(* ===== verification/Job_Safety.thy ===== *)
theory Job_Safety
  imports Job_Machine
begin

text \<open>
  What the job queue guarantees: the lifecycle invariant, the fence around finished jobs, the
  exclusivity of a lease, the retry budget, and the exact effect of leasing, reconciliation,
  registration, cancellation and pruning. Invariants of one job are instances of
  \<open>row_invariant\<close>, so their proofs are case analyses of \<open>row_step\<close>.
\<close>

section \<open>The lifecycle invariant\<close>

definition no_lease :: "compute_job_row \<Rightarrow> bool" where
  "no_lease r \<longleftrightarrow> job_lease_owner_id r = None \<and> job_leased_at_utc r = None \<and> job_lease_expires_at_utc r = None"

definition no_error :: "compute_job_row \<Rightarrow> bool" where
  "no_error r \<longleftrightarrow> job_error_message r = None \<and> job_error_type r = None \<and> job_failure_json r = None"

text \<open>
  \<open>job_shape\<close> is what every call keeps, owner-less ones included; \<open>job_wf\<close> adds the lease
  discipline (an owner exactly while a job is leased or running, no lease fields on a job that is
  neither), which only an owner-less start or renewal can break.
\<close>

definition job_shape :: "compute_job_row \<Rightarrow> bool" where
  "job_shape r \<longleftrightarrow> 0 \<le> job_attempt_count r \<and>
     (case job_status r of
        JPending \<Rightarrow> job_lease_owner_id r = None \<and> job_completed_at_utc r = None
      | JLeased \<Rightarrow> job_lease_owner_id r \<noteq> None \<and> job_worker_id r = job_lease_owner_id r \<and> job_leased_at_utc r \<noteq> None
          \<and> job_lease_expires_at_utc r \<noteq> None \<and> job_completed_at_utc r = None
      | JRunning \<Rightarrow> 1 \<le> job_attempt_count r \<and> job_started_at_utc r \<noteq> None \<and> job_leased_at_utc r \<noteq> None
          \<and> job_completed_at_utc r = None \<and> no_error r
      | JComplete \<Rightarrow> job_lease_owner_id r = None \<and> no_error r \<and> job_response_json r \<noteq> None
          \<and> job_started_at_utc r \<noteq> None \<and> job_completed_at_utc r \<noteq> None
      | JFailed \<Rightarrow> job_lease_owner_id r = None \<and> job_error_message r \<noteq> None \<and> job_completed_at_utc r \<noteq> None)"

definition job_wf :: "compute_job_row \<Rightarrow> bool" where
  "job_wf r \<longleftrightarrow> job_shape r \<and>
     (case job_status r of
        JLeased \<Rightarrow> True
      | JRunning \<Rightarrow> job_lease_owner_id r \<noteq> None
      | _ \<Rightarrow> no_lease r)"

definition every_row :: "(compute_job_row \<Rightarrow> bool) \<Rightarrow> compute_job_row option \<Rightarrow> bool" where
  "every_row P x = (case x of None \<Rightarrow> True | Some r \<Rightarrow> P r)"

fun keeps_owner :: "job_event \<Rightarrow> bool" where
  "keeps_owner (MarkRunning k caller secs now) = (caller \<noteq> None)"
| "keeps_owner (Renew k caller secs now) = (caller \<noteq> None)"
| "keeps_owner e = True"

lemma str_or_Some [simp]: "str_or x (Some y) \<noteq> None"
  by (cases x) auto

lemmas job_forms = every_row_def job_wf_def job_shape_def no_lease_def no_error_def

lemma shape_step:
  assumes x: "every_row job_shape x" and step: "row_step k e x y"
  shows "every_row job_shape y"
  using step x
proof cases
  case (lease_invalid now r w limit secs ty locked)
  with x show ?thesis
    by (auto simp: job_forms mark_invalid_request_payload_def split: compute_job_status.splits simp del: not_None_eq)
next
  case (running r caller secs now)
  with x show ?thesis by (auto simp: job_forms running_row_def split: compute_job_status.splits)
next
  case (renew caller now r secs)
  with x show ?thesis by (auto simp: job_forms renewed_row_def split: compute_job_status.splits)
next
  case (retry caller now r msg ty failure)
  with x show ?thesis by (auto simp: job_forms retryable_row_def Let_def split: compute_job_status.splits)
next
  case (reconcile now r locked)
  with x show ?thesis
    by (auto simp: job_forms reconciled_row_def row_outcome_def
        stale_job_reconciliation_outcome_def Let_def split: compute_job_status.splits)
qed (auto simp: job_forms new_job_def leased_row_def running_row_def
    complete_row_def failed_row_def cancelled_row_def split: compute_job_status.splits)

lemma every_wf: "every_row job_wf x \<Longrightarrow> every_row job_shape x"
  by (cases x) (simp_all add: every_row_def job_wf_def)

lemma wf_of_shape:
  "every_row job_wf x \<longleftrightarrow> every_row job_shape x \<and> every_row (\<lambda>r. case job_status r of
      JLeased \<Rightarrow> True | JRunning \<Rightarrow> job_lease_owner_id r \<noteq> None | _ \<Rightarrow> no_lease r) x"
  by (cases x) (simp_all add: every_row_def job_wf_def)

lemma wf_step:
  assumes x: "every_row job_wf x" and e: "keeps_owner e" and step: "row_step k e x y"
  shows "every_row job_wf y"
  unfolding wf_of_shape
proof (rule conjI [OF shape_step [OF every_wf [OF x] step]])
  from x have held: "every_row (\<lambda>r. case job_status r of
      JLeased \<Rightarrow> True | JRunning \<Rightarrow> job_lease_owner_id r \<noteq> None | _ \<Rightarrow> no_lease r) x"
    by (simp add: wf_of_shape)
  from step held e show "every_row (\<lambda>r. case job_status r of
      JLeased \<Rightarrow> True | JRunning \<Rightarrow> job_lease_owner_id r \<noteq> None | _ \<Rightarrow> no_lease r) y"
    by cases (auto simp: every_row_def no_lease_def permitted_def holds_lease_def row_transformers Let_def
        split: compute_job_status.splits option.splits)
qed

interpretation lifecycle: row_invariant "\<lambda>_. True" k "every_row job_shape" for k
  by unfold_locales (rule shape_step)

interpretation owned: row_invariant keeps_owner k "every_row job_wf" for k
  by unfold_locales (rule wf_step)

lemma jobs_ok_empty [simp]: "jobs_ok (empty_database dialect)"
  by (simp add: jobs_ok_def empty_database_def tbl_ok_def)

lemma get_job_empty [simp]: "get_job k (empty_database dialect) = None"
  by (simp add: get_job_def empty_database_def tbl_get_def)

lemma run_rows_shape:
  assumes "r \<in> set (db_jobs (run_ops job_step (empty_database dialect) es))"
  shows "job_shape r" "list_all keeps_owner es \<Longrightarrow> job_wf r"
proof -
  let ?db = "run_ops job_step (empty_database dialect) es"
  have "jobs_ok ?db \<and> every_row job_shape (get_job (job_calculation_id r) ?db)"
    by (rule lifecycle.run.run_inv) (auto simp: every_row_def list_all_iff)
  then show "job_shape r" using get_job_row [OF _ assms] by (simp add: every_row_def)
  have "jobs_ok ?db \<and> every_row job_wf (get_job (job_calculation_id r) ?db)" if "list_all keeps_owner es"
    by (rule owned.run.run_inv) (auto simp: every_row_def that)
  then show "list_all keeps_owner es \<Longrightarrow> job_wf r" using get_job_row [OF _ assms] by (simp add: every_row_def)
qed

text \<open>C1: Whatever workers, the control plane and retention do to the queue, in any order
  and starting from an empty store, by calls that name a worker or by owner-less ones
  (\<open>worker_id=None\<close>), every job row keeps the shape of its status: a pending job has no owner and is
  not completed, a leased one has the owner that is its worker, and an expiry, a running one has been
  started and charged an attempt and carries no error, a complete one has its response, no owner and
  no error, a failed one has no owner and says why. If moreover no job was started or had its lease
  renewed without naming a worker (the worker's owner-less completion is allowed), a running job has
  an owner and a job that is neither leased nor running carries no lease field at all.\<close>

theorem job_lifecycle:
  "\<forall>r \<in> set (db_jobs (run_ops job_step (empty_database dialect) es)).
     job_shape r \<and> (list_all keeps_owner es \<longrightarrow> job_wf r)"
  using run_rows_shape by blast

section \<open>The terminal fence\<close>

text \<open>
  \<open>_recover_reconciled_job_from_success_result\<close> of the worker completes, without naming a worker, a job whose
  result was published although the job was reconciled to failed meanwhile. It is the one call that
  may move a finished job.
\<close>

fun fence_event :: "uuid \<Rightarrow> job_event \<Rightarrow> bool" where
  "fence_event k (Enqueue i ty tenant payload maxa setting now) = (i \<noteq> k)"
| "fence_event k (Prune older_than excl) = False"
| "fence_event k (Renew i caller secs now) = (i \<noteq> k \<or> caller \<noteq> None)"
| "fence_event k (Fail i msg ty caller failure now) = (i \<noteq> k \<or> caller \<noteq> None)"
| "fence_event k (Retry i msg ty caller failure now) = (i \<noteq> k \<or> caller \<noteq> None)"
| "fence_event k e = True"

definition is_terminal :: "compute_job_row \<Rightarrow> bool" where
  "is_terminal r \<longleftrightarrow> job_status r \<in> {JComplete, JFailed}"

definition recovered_row :: "uuid \<Rightarrow> job_event list \<Rightarrow> compute_job_row \<Rightarrow> compute_job_row \<Rightarrow> bool" where
  "recovered_row k es r q \<longleftrightarrow> (\<exists>payload now started. Finish k payload None now \<in> set es
     \<and> q = (complete_row payload now r)\<lparr>job_started_at_utc := Some started\<rparr>)"

lemma recovered_again:
  "recovered_row k es r q \<Longrightarrow> Finish k payload None now \<in> set es \<Longrightarrow> recovered_row k es r (complete_row payload now q)"
  unfolding recovered_row_def
proof (elim exE conjE)
  fix p n started
  assume "Finish k payload None now \<in> set es" "q = (complete_row p n r)\<lparr>job_started_at_utc := Some started\<rparr>"
  then have "Finish k payload None now \<in> set es
    \<and> complete_row payload now q = (complete_row payload now r)\<lparr>job_started_at_utc := Some started\<rparr>"
    by (simp add: complete_row_def)
  then show "\<exists>payload' now' started. Finish k payload' None now' \<in> set es
    \<and> complete_row payload now q = (complete_row payload' now' r)\<lparr>job_started_at_utc := Some started\<rparr>" by blast
qed

lemma recovered_first:
  "Finish k payload None now \<in> set es \<Longrightarrow> recovered_row k es r (complete_row payload now r)"
  unfolding recovered_row_def
  by (rule exI [of _ payload], rule exI [of _ now], rule exI [of _ "the (opt_or (job_started_at_utc r) now)"])
    (cases "job_started_at_utc r"; simp add: complete_row_def)

lemma recovered_terminal: "recovered_row k es r q \<Longrightarrow> job_status q = JComplete"
  by (auto simp: recovered_row_def complete_row_def)

interpretation fence: row_invariant "\<lambda>e. fence_event k e \<and> e \<in> set es" k
    "\<lambda>x. \<exists>q. x = Some q \<and> is_terminal q \<and> (q = r \<or> recovered_row k es r q)" for k r es
proof
  fix x e y
  assume x: "\<exists>q. x = Some q \<and> is_terminal q \<and> (q = r \<or> recovered_row k es r q)"
    and e: "fence_event k e \<and> e \<in> set es" and step: "row_step k e x y"
  from x obtain q where q: "x = Some q" "is_terminal q" "q = r \<or> recovered_row k es r q" by blast
  have "y = x \<or> (\<exists>payload now. e = Finish k payload None now \<and> y = Some (complete_row payload now q))"
    using step q(1,2) e
    by cases (auto simp: is_terminal_def leasable_def permitted_def holds_lease_def cancellable_def stale_def
        split: option.splits)
  then show "\<exists>q. y = Some q \<and> is_terminal q \<and> (q = r \<or> recovered_row k es r q)"
  proof (elim disjE exE conjE)
    assume "y = x"
    then show ?thesis using x by simp
  next
    fix payload now
    assume f: "e = Finish k payload None now" "y = Some (complete_row payload now q)"
    have "recovered_row k es r (complete_row payload now q)"
      using q(3) e f(1) recovered_first recovered_again by metis
    then show ?thesis using f(2) recovered_terminal by (auto simp: is_terminal_def)
  qed
qed

text \<open>C13: A finished job is final: once a job is complete or failed, no lease, start,
  renewal, completion, failure, retry, cancellation, registration or reconciliation by any
  worker changes its row, however late it arrives, with one exception: the worker's recovery, a
  completion that names no worker, may set it (a failed job too) to complete with the payload of one
  such call, and leaves its id, tenant, request and attempts. So a job that completed never becomes
  failed or runnable again, and without a recovery call the row is exactly what it was. (Explicit
  re-enqueueing of the id, retention pruning, and renewals, failures and retries that name no worker,
  which no component of the service makes, are outside the claim.)\<close>

theorem terminal_fence:
  assumes "jobs_ok db" "get_job k db = Some r" "job_status r \<in> {JComplete, JFailed}"
    "list_all (fence_event k) es"
  shows "get_job k (run_ops job_step db es) = Some r
    \<or> (\<exists>payload now started. Finish k payload None now \<in> set es
        \<and> get_job k (run_ops job_step db es) = Some ((complete_row payload now r)\<lparr>job_started_at_utc := Some started\<rparr>))"
proof -
  have "list_all (\<lambda>e. fence_event k e \<and> e \<in> set es) es" using assms(4) by (simp add: list_all_iff)
  from fence.run.run_inv [OF _ this, of db r]
  have "\<exists>q. get_job k (run_ops job_step db es) = Some q \<and> is_terminal q \<and> (q = r \<or> recovered_row k es r q)"
    using assms by (simp add: is_terminal_def)
  then show ?thesis unfolding recovered_row_def by blast
qed

section \<open>Exclusivity of a lease\<close>

lemma retryable_failure_result:
  "mark_retryable_failure k msg ty worker failure now db =
     bind_res (get_model k db) (\<lambda>row.
     bind_res (ensure_compute_job_active_lease_owner row k worker ''mark retryable failure for'' now) (\<lambda>_.
     Inr (job_attempt_count row < job_max_attempts row,
          let db' = update_job k (retryable_row msg ty failure now) db
          in if job_attempt_count row < job_max_attempts row then db'
             else fail_terminal_source_custody [job_calculation_id row] (job_tenant_id row)
                    (Some (job_analytics_type row)) now db')))"
  by (auto simp: mark_retryable_failure_def Let_def intro!: arg_cong [where f = "bind_res (get_model k db)"]
      arg_cong [where f = "bind_res (ensure_compute_job_active_lease_owner _ k worker _ now)"])

fun foreign_caller :: "string \<Rightarrow> string option \<Rightarrow> bool" where
  "foreign_caller w None = False"
| "foreign_caller w (Some v) = (v \<noteq> w)"

fun foreign_event :: "uuid \<Rightarrow> string \<Rightarrow> instant \<Rightarrow> job_event \<Rightarrow> bool" where
  "foreign_event k w x (Enqueue i ty tenant payload maxa setting now) = (i \<noteq> k)"
| "foreign_event k w x (Lease v limit secs ty locked now) = (now \<le> x)"
| "foreign_event k w x (Reconcile locked now) = (now \<le> x)"
| "foreign_event k w x (Acquire i v acq secs now) = (i \<noteq> k \<or> v \<noteq> w)"
| "foreign_event k w x (MarkRunning i c secs now) = (i \<noteq> k \<or> foreign_caller w c)"
| "foreign_event k w x (Renew i c secs now) = (i \<noteq> k \<or> foreign_caller w c)"
| "foreign_event k w x (Finish i payload c now) = (i \<noteq> k \<or> foreign_caller w c)"
| "foreign_event k w x (Fail i msg ty c failure now) = (i \<noteq> k \<or> foreign_caller w c)"
| "foreign_event k w x (Retry i msg ty c failure now) = (i \<noteq> k \<or> foreign_caller w c)"
| "foreign_event k w x e = True"

definition leased_to :: "string \<Rightarrow> instant \<Rightarrow> compute_job_row \<Rightarrow> bool" where
  "leased_to w x r \<longleftrightarrow> holds_lease w x r \<and> job_worker_id r = Some w"

interpretation exclusive: row_invariant "foreign_event k w x" k "\<lambda>y. y = Some r \<and> leased_to w x r" for k w x r
proof
  fix y e z
  assume y: "y = Some r \<and> leased_to w x r" and e: "foreign_event k w x e" and step: "row_step k e y z"
  have not_foreign: "permitted c now r \<Longrightarrow> \<not> foreign_caller w c" for c now
    using y by (cases c) (auto simp: leased_to_def holds_lease_def)
  have conflict: "foreign_caller w c \<Longrightarrow> compute_job_has_conflicting_worker_lease (Some w) c" for c
    by (cases c) (auto simp: compute_job_has_conflicting_worker_lease_def)
  from step y e show "z = Some r \<and> leased_to w x r"
    by cases (auto simp: leased_to_def holds_lease_def leasable_def cancellable_def stale_def lease_expired_def conflict
        dest: not_foreign)
qed

lemma lease_survives:
  assumes "jobs_ok db" "get_job k db = Some r" "leased_to w x r" "list_all (foreign_event k w x) es"
  shows "jobs_ok (run_ops job_step db es) \<and> get_job k (run_ops job_step db es) = Some r"
  using exclusive.run.run_inv [of db k r w x es] assms by simp

lemma refused_bind: "isl x \<Longrightarrow> isl (bind_res x f)"
  by (cases x) simp_all

text \<open>What is refused to every worker but the one a job is leased to.\<close>

lemma others_refused:
  assumes "get_job k db = Some r" "leased_to w x r" "v \<noteq> w"
  shows "isl (mark_running k (Some v) secs t db)" "isl (mark_running_acquired k v acq secs' t db)"
    "isl (renew_lease k (Some v) secs' t db)" "isl (mark_complete k payload (Some v) t db)"
    "isl (mark_failed k msg ty (Some v) failure t db)" "isl (mark_retryable_failure k msg ty (Some v) failure t db)"
proof -
  have "active_owner r \<noteq> Some v" "job_worker_id r = Some w" using assms(2,3) by (auto simp: leased_to_def holds_lease_def)
  then have "isl (ensure_compute_job_active_lease_owner r k (Some v) tr t)"
    "isl (ensure_compute_job_can_mark_running r k (Some v))" for tr
    using assms(3)
    by (simp_all add: ensure_compute_job_active_lease_owner_def ensure_compute_job_can_mark_running_def
        compute_job_has_conflicting_worker_lease_def)
  then show "isl (mark_running k (Some v) secs t db)" "isl (mark_running_acquired k v acq secs' t db)"
    "isl (renew_lease k (Some v) secs' t db)" "isl (mark_complete k payload (Some v) t db)"
    "isl (mark_failed k msg ty (Some v) failure t db)" "isl (mark_retryable_failure k msg ty (Some v) failure t db)"
    by (simp_all add: mark_running_def mark_running_acquired_def renew_lease_def mark_complete_def mark_failed_def
        retryable_failure_result get_model_def of_option_def assms(1) refused_bind)
qed

lemma to_records_ids: "to_records rows = Inr recs \<Longrightarrow> List.map rec_calculation_id recs = List.map job_calculation_id rows"
  by (induction rows arbitrary: recs) (auto simp: to_record_def)

lemma holds_lease_mono: "holds_lease w x r \<Longrightarrow> now \<le> x \<Longrightarrow> holds_lease w now r"
  by (auto simp: holds_lease_def)

lemma leased_row_holds: "leased_to w (now + timedelta_seconds secs) (leased_row w now (now + timedelta_seconds secs) r)"
  by (auto simp: leased_to_def holds_lease_def leased_row_def active_owner_def)

lemma lease_record_row:
  assumes ok: "jobs_ok db" and lease: "lease_pending_jobs w limit secs ty locked now db = Inr (records, db1)"
    and rec: "rec \<in> set records"
  obtains r where "get_job (rec_calculation_id rec) db = Some r" "leasable now r" "load_request_payload r \<noteq> None"
    "r \<in> set (lease_pending_jobs_statement now limit ty (db_dialect_name db) locked (db_jobs db))"
    "get_job (rec_calculation_id rec) db1 = Some (leased_row w now (now + timedelta_seconds secs) r)"
proof -
  let ?rows = "lease_pending_jobs_statement now limit ty (db_dialect_name db) locked (db_jobs db)"
  let ?x = "now + timedelta_seconds secs"
  note eff = lease_effect [OF ok lease]
  note facts = lease_statement_facts [OF ok refl]
  have "rec_calculation_id rec \<in> set (List.map rec_calculation_id records)" using rec by simp
  also have "List.map rec_calculation_id records =
      List.map job_calculation_id (filter (\<lambda>r. load_request_payload r \<noteq> None) ?rows)"
    using to_records_ids [OF eff(3)] by (simp add: comp_def)
  finally obtain r where r: "r \<in> set ?rows" "load_request_payload r \<noteq> None" "job_calculation_id r = rec_calculation_id rec"
    by auto
  have get: "get_job (rec_calculation_id rec) db = Some r" using get_job_row [OF ok, of r] subsetD [OF facts(2) r(1)] r(3) by simp
  then have "get_job (rec_calculation_id rec) db1 = Some (leased_row w now ?x r)"
    using r(1,2) by (auto simp: eff(2) touched_row_def)
  then show thesis using that get facts(3) r(1,2) by blast
qed

text \<open>C2: No double lease: after a worker leased a job, whatever other workers (under their
  own ids) and the control plane do until the lease expires, the job's row stays as the lease left
  it; a lease call in that time does not return the job, and every attempt of another worker to
  start it by either call, to renew its lease, or to report it complete, failed or to be retried, is
  refused. (Explicit re-enqueueing of the id and calls that name no worker are outside the
  claim.)\<close>

theorem lease_exclusive:
  assumes ok: "jobs_ok db" and lease: "lease_pending_jobs w limit secs ty locked now db = Inr (records, db1)"
    and rec: "rec \<in> set records"
    and es: "list_all (foreign_event (rec_calculation_id rec) w (now + timedelta_seconds secs)) es"
    and k: "k = rec_calculation_id rec" and d: "d = run_ops job_step db1 es"
    and other: "v \<noteq> w" and t: "t \<le> now + timedelta_seconds secs"
  shows "get_job k d = get_job k db1
    \<and> (\<forall>records' db2. lease_pending_jobs v limit' secs' ty' locked' t d = Inr (records', db2)
         \<longrightarrow> k \<notin> rec_calculation_id ` set records')
    \<and> isl (mark_running k (Some v) start_secs t d)
    \<and> isl (mark_running_acquired k v acq secs' t d)
    \<and> isl (renew_lease k (Some v) secs' t d)
    \<and> isl (mark_complete k payload (Some v) t d)
    \<and> isl (mark_failed k msg mty (Some v) failure t d)
    \<and> isl (mark_retryable_failure k msg mty (Some v) failure t d)"
proof -
  let ?x = "now + timedelta_seconds secs"
  from lease_record_row [OF ok lease rec] obtain r where r: "get_job k db1 = Some (leased_row w now ?x r)"
    unfolding k by blast
  then have run: "jobs_ok d" "get_job k d = Some (leased_row w now ?x r)"
    unfolding d using es leased_row_holds lease_survives [OF lease_effect(1) [OF ok lease]] k by blast+
  have "k \<notin> rec_calculation_id ` set records'"
    if later: "lease_pending_jobs v limit' secs' ty' locked' t d = Inr (records', db2)" for records' db2
  proof
    assume "k \<in> rec_calculation_id ` set records'"
    then obtain rec' where rec': "rec' \<in> set records'" "rec_calculation_id rec' = k" by auto
    from lease_record_row [OF run(1) later rec'(1)] run(2) rec'(2) have "leasable t (leased_row w now ?x r)" by auto
    then show False using t by (simp add: leasable_def leased_row_def lease_expired_def)
  qed
  then show ?thesis using r run(2) others_refused [OF run(2) leased_row_holds other] by simp
qed

text \<open>A lease is worth its time: until it expires, and whatever the others do
  meanwhile, the worker that was handed a job can start it under its acquisition id, which
  charges exactly one attempt.\<close>

theorem leased_job_can_start:
  assumes ok: "jobs_ok db" and lease: "lease_pending_jobs w limit secs ty locked now db = Inr (records, db1)"
    and rec: "rec \<in> set records"
    and es: "list_all (foreign_event (rec_calculation_id rec) w (now + timedelta_seconds secs)) es"
    and t: "t \<le> now + timedelta_seconds secs"
  shows "\<exists>db2 r. mark_running_acquired (rec_calculation_id rec) w acq secs' t (run_ops job_step db1 es) = Inr ((), db2)
     \<and> get_job (rec_calculation_id rec) db2 = Some r \<and> job_status r = JRunning \<and> job_lease_owner_id r = Some acq
     \<and> job_attempt_count r = rec_attempt_count rec + 1"
proof -
  let ?x = "now + timedelta_seconds secs" and ?k = "rec_calculation_id rec"
  from lease_record_row [OF ok lease rec] obtain r where r: "get_job ?k db = Some r"
    "get_job ?k db1 = Some (leased_row w now ?x r)" "leasable now r" by blast
  with es leased_row_holds have run: "get_job ?k (run_ops job_step db1 es) = Some (leased_row w now ?x r)"
    using lease_survives [OF lease_effect(1) [OF ok lease]] by blast
  have "holds_lease w t (leased_row w now ?x r)" using leased_row_holds holds_lease_mono t leased_to_def by blast
  then have start: "mark_running_acquired ?k w acq secs' t (run_ops job_step db1 es)
      = Inr ((), update_job ?k (running_row (Some acq) (Some (t + timedelta_seconds secs')) t) (run_ops job_step db1 es))"
    using run ensure_owner_iff [of "leased_row w now ?x r" ?k w "''acquire running lease for''" t]
    by (simp add: mark_running_acquired_def)
  have "rec_attempt_count rec = job_attempt_count r"
  proof -
    let ?rows = "lease_pending_jobs_statement now limit ty (db_dialect_name db) locked (db_jobs db)"
    have recs: "to_records (List.map (leased_row w now ?x) (filter (\<lambda>r. load_request_payload r \<noteq> None) ?rows)) = Inr records"
      by (rule lease_effect(3) [OF ok lease])
    have "\<exists>q \<in> set qs. to_record q = Inr rec'" if "to_records qs = Inr recs" "rec' \<in> set recs" for qs recs rec'
      using that by (induction qs arbitrary: recs) auto
    from this [OF recs rec] obtain q where q: "q \<in> set ?rows" "to_record (leased_row w now ?x q) = Inr rec" by auto
    then have "job_calculation_id q = ?k" "rec_attempt_count rec = job_attempt_count q"
      by (auto simp: to_record_def leased_row_def)
    moreover have "get_job (job_calculation_id q) db = Some q"
      using get_job_row [OF ok] lease_statement_facts(2) [OF ok refl] q(1) by blast
    ultimately show ?thesis using r(1) by simp
  qed
  then show ?thesis using run unfolding start by (simp add: running_row_def leased_row_def)
qed

section \<open>Only the lease holder finishes a job\<close>

text \<open>C21: A call that names a worker can complete, fail, retry, renew or start a job, or pass the
  check before publication, exactly when that id owns the job's unexpired lease at that time; a call
  that names none (\<open>worker_id=None\<close>) exactly when the job exists. The start without an acquisition
  id looks at no lease: it succeeds exactly on a job that is not finished and was not leased to a
  worker other than the one named. In every other case the call is refused and, being one
  transaction, changes nothing.\<close>

theorem finish_only_by_holder:
  defines "allowed \<equiv> (\<lambda>db k caller now. \<exists>r. get_job k db = Some r \<and>
     (case caller of None \<Rightarrow> True | Some w \<Rightarrow> holds_lease w now r))"
  shows "((\<exists>x. mark_complete k payload caller now db = Inr x) = allowed db k caller now)
    \<and> ((\<exists>x. mark_failed k msg ty caller failure now db = Inr x) = allowed db k caller now)
    \<and> ((\<exists>x. mark_retryable_failure k msg ty caller failure now db = Inr x) = allowed db k caller now)
    \<and> ((\<exists>x. renew_lease k caller secs now db = Inr x) = allowed db k caller now)
    \<and> ((\<exists>x. ensure_active_lease_owner k caller now db = Inr x) = allowed db k caller now)
    \<and> ((\<exists>x. mark_running_acquired k w acq secs now db = Inr x) = allowed db k (Some w) now)
    \<and> ((\<exists>x. mark_running k caller start_secs now db = Inr x) = (\<exists>r. get_job k db = Some r
         \<and> job_status r \<notin> {JFailed, JComplete}
         \<and> (caller = None \<or> job_worker_id r = None \<or> job_worker_id r = caller)))"
  by (auto simp: allowed_def permitted_def [symmetric] mark_complete_def mark_failed_def retryable_failure_result
      renew_lease_def mark_running_acquired_def ensure_active_lease_owner_def mark_running_def
      ensure_compute_job_can_mark_running_def compute_job_has_conflicting_worker_lease_def
      ensure_owner_iff ensure_caller_iff Let_def)

section \<open>Leasing takes the oldest work first\<close>

lemma sort_key_take_le:
  assumes "x \<in> set (take n (sort_key f xs))" "y \<in> set xs" "y \<notin> set (take n (sort_key f xs))"
  shows "f x \<le> f y"
proof -
  let ?s = "sort_key f xs"
  have "y \<in> set (drop n ?s)"
    using assms(2,3) by (metis Un_iff append_take_drop_id set_append set_sort)
  moreover have "sorted (List.map f (take n ?s @ drop n ?s))" by simp
  ultimately show ?thesis using assms(1) unfolding map_append sorted_append by auto
qed

definition takeable :: "(uuid \<Rightarrow> bool) \<Rightarrow> instant \<Rightarrow> database \<Rightarrow> compute_job_row \<Rightarrow> bool" where
  "takeable locked now db r \<longleftrightarrow> leasable now r \<and> \<not> skip_locked (db_dialect_name db) locked r"

lemma lease_statement_takeable:
  "lease_pending_jobs_statement now limit None (db_dialect_name db) locked rows =
     take limit (sort_key job_created_at_utc (filter (takeable locked now db) rows))"
  by (simp add: lease_pending_jobs_statement_def takeable_def leasable_def cong: filter_cong)

lemma selected_row_recorded:
  assumes ok: "jobs_ok db" and lease: "lease_pending_jobs w limit secs ty locked now db = Inr (records, db')"
    and r: "r \<in> set (lease_pending_jobs_statement now limit ty (db_dialect_name db) locked (db_jobs db))"
      "load_request_payload r \<noteq> None"
  shows "job_calculation_id r \<in> rec_calculation_id ` set records"
proof -
  have "job_calculation_id r \<in> set (List.map job_calculation_id (List.map (leased_row w now (now + timedelta_seconds secs))
      (filter (\<lambda>r. load_request_payload r \<noteq> None)
        (lease_pending_jobs_statement now limit ty (db_dialect_name db) locked (db_jobs db)))))"
    using r by force
  then show ?thesis using to_records_ids [OF lease_effect(3) [OF ok lease]] by (metis list.set_map)
qed

text \<open>
  A lease call hands out at most \<open>limit\<close> jobs, each of which could be taken (pending, or held
  by an expired lease), has a readable request and is now held by the caller. A takeable job with a
  readable request that it does not hand out is no older than any job it does, and none is left
  out when there are at most \<open>limit\<close> takeable ones.\<close>

theorem lease_oldest_first:
  assumes ok: "jobs_ok db" and lease: "lease_pending_jobs w limit secs None locked now db = Inr (records, db')"
  shows "(length records \<le> limit)
    \<and> (\<forall>rec \<in> set records. \<exists>r r'. get_job (rec_calculation_id rec) db = Some r \<and> leasable now r
       \<and> load_request_payload r \<noteq> None
       \<and> get_job (rec_calculation_id rec) db' = Some r' \<and> holds_lease w (now + timedelta_seconds secs) r')
    \<and> (\<forall>r \<in> set (db_jobs db). takeable locked now db r \<and> load_request_payload r \<noteq> None
       \<and> job_calculation_id r \<notin> rec_calculation_id ` set records \<longrightarrow>
       limit < length (filter (takeable locked now db) (db_jobs db))
       \<and> (\<forall>rec \<in> set records. \<forall>q. get_job (rec_calculation_id rec) db = Some q
             \<longrightarrow> job_created_at_utc q \<le> job_created_at_utc r))"
proof (rule conj3I)
  let ?rows = "lease_pending_jobs_statement now limit None (db_dialect_name db) locked (db_jobs db)"
  note eff = lease_effect [OF ok lease]
  have "length (List.map rec_calculation_id records) = length (filter (\<lambda>r. load_request_payload r \<noteq> None) ?rows)"
    using to_records_ids [OF eff(3)] by simp
  then show "length records \<le> limit"
    using lease_statement_facts(4) [OF ok refl, of now limit None "db_dialect_name db" locked]
      length_filter_le [of "\<lambda>r. load_request_payload r \<noteq> None" ?rows] unfolding length_map by linarith
  show "\<forall>rec \<in> set records. \<exists>r r'. get_job (rec_calculation_id rec) db = Some r \<and> leasable now r
       \<and> load_request_payload r \<noteq> None
       \<and> get_job (rec_calculation_id rec) db' = Some r' \<and> holds_lease w (now + timedelta_seconds secs) r'"
    using lease_record_row [OF ok lease] leased_row_holds [unfolded leased_to_def, THEN conjunct1] by metis
  show "\<forall>r \<in> set (db_jobs db). takeable locked now db r \<and> load_request_payload r \<noteq> None
       \<and> job_calculation_id r \<notin> rec_calculation_id ` set records \<longrightarrow>
       limit < length (filter (takeable locked now db) (db_jobs db))
       \<and> (\<forall>rec \<in> set records. \<forall>q. get_job (rec_calculation_id rec) db = Some q
             \<longrightarrow> job_created_at_utc q \<le> job_created_at_utc r)"
  proof (intro ballI impI, elim conjE)
    fix r
    assume r: "r \<in> set (db_jobs db)" "takeable locked now db r" "load_request_payload r \<noteq> None"
      "job_calculation_id r \<notin> rec_calculation_id ` set records"
    have notin: "r \<notin> set ?rows" using selected_row_recorded [OF ok lease _ r(3)] r(4) by blast
    have mem: "r \<in> set (filter (takeable locked now db) (db_jobs db))" using r by simp
    have "limit < length (filter (takeable locked now db) (db_jobs db))"
    proof (rule ccontr)
      assume "\<not> ?thesis"
      then have "set ?rows = set (filter (takeable locked now db) (db_jobs db))"
        by (simp add: lease_statement_takeable)
      with notin mem show False by simp
    qed
    moreover have "job_created_at_utc q \<le> job_created_at_utc r"
      if "rec \<in> set records" "get_job (rec_calculation_id rec) db = Some q" for rec q
    proof -
      from lease_record_row [OF ok lease that(1)] that(2) have "q \<in> set ?rows" by auto
      then show ?thesis using mem notin unfolding lease_statement_takeable by (rule sort_key_take_le)
    qed
    ultimately show "limit < length (filter (takeable locked now db) (db_jobs db))
       \<and> (\<forall>rec \<in> set records. \<forall>q. get_job (rec_calculation_id rec) db = Some q
             \<longrightarrow> job_created_at_utc q \<le> job_created_at_utc r)" by blast
  qed
qed

section \<open>Reconciliation\<close>

text \<open>Reconciliation reports exactly the stale jobs it may lock, returns each to the queue
  or, when a running job has used its retry budget, fails it, leaves every other row untouched,
  and leaves nothing stale for a second pass at the same time.\<close>

theorem reconcile_clears_stale:
  assumes ok: "jobs_ok db" and rec: "reconcile_stale_jobs locked now db = (records, db')"
  shows "(List.map rj_calculation_id records = List.map job_calculation_id
       (filter (\<lambda>r. stale now r \<and> \<not> skip_locked (db_dialect_name db) locked r) (db_jobs db)))
    \<and> (\<forall>k r. get_job k db = Some r \<longrightarrow> get_job k db' =
       (if stale now r \<and> \<not> skip_locked (db_dialect_name db) locked r then Some (reconciled_row now r) else Some r))
    \<and> (\<forall>r. stale now r \<longrightarrow> job_status (reconciled_row now r) =
        (if job_status r = JRunning \<and> job_attempt_count r \<ge> job_max_attempts r then JFailed else JPending)
        \<and> no_lease (reconciled_row now r) \<and> job_attempt_count (reconciled_row now r) = job_attempt_count r)
    \<and> (fst (reconcile_stale_jobs locked now db') = [])"
proof (rule conj4I)
  let ?rows = "reconcile_stale_jobs_statement now (db_dialect_name db) locked (db_jobs db)"
  note eff = reconcile_effect [OF ok rec]
  have rows: "?rows = filter (\<lambda>r. stale now r \<and> \<not> skip_locked (db_dialect_name db) locked r) (db_jobs db)"
    by (simp add: reconcile_stale_jobs_statement_def stale_def)
  have "List.map rj_calculation_id records = List.map job_calculation_id ?rows"
    by (simp add: eff(3) comp_def reconciled_record_def Let_def)
  then show "List.map rj_calculation_id records = List.map job_calculation_id
       (filter (\<lambda>r. stale now r \<and> \<not> skip_locked (db_dialect_name db) locked r) (db_jobs db))" by (simp only: rows)
  show touched: "\<forall>k r. get_job k db = Some r \<longrightarrow> get_job k db' =
       (if stale now r \<and> \<not> skip_locked (db_dialect_name db) locked r then Some (reconciled_row now r) else Some r)"
    using get_job_mem by (simp add: eff(2) rows)
  show outcome: "\<forall>r. stale now r \<longrightarrow> job_status (reconciled_row now r) =
        (if job_status r = JRunning \<and> job_attempt_count r \<ge> job_max_attempts r then JFailed else JPending)
        \<and> no_lease (reconciled_row now r) \<and> job_attempt_count (reconciled_row now r) = job_attempt_count r"
    by (simp add: reconciled_row_def row_outcome_def stale_job_reconciliation_outcome_def no_lease_def Let_def)
  have dialect: "db_dialect_name db' = db_dialect_name db"
  proof -
    have "db_dialect_name (snd (reconcile_rows now rows d)) = db_dialect_name d" for rows d
      by (induction rows arbitrary: d)
        (simp_all add: reconcile_rows_Cons reconcile_stale_job_row_def update_job_def del: reconcile_rows.simps(2))
    then show ?thesis using rec by (metis reconcile_stale_jobs_def snd_conv)
  qed
  have "reconcile_stale_jobs_statement now (db_dialect_name db') locked (db_jobs db') = []"
  proof (rule ccontr)
    assume "reconcile_stale_jobs_statement now (db_dialect_name db') locked (db_jobs db') \<noteq> []"
    then obtain q where q: "q \<in> set (db_jobs db')" "stale now q" "\<not> skip_locked (db_dialect_name db) locked q"
      unfolding reconcile_stale_jobs_statement_def dialect stale_def filter_empty_conv by blast
    then have get: "get_job (job_calculation_id q) db' = Some q" using get_job_row eff(1) by blast
    then obtain r where r: "get_job (job_calculation_id q) db = Some r"
      by (auto simp: eff(2) split: option.splits)
    with touched get have "q = (if stale now r \<and> \<not> skip_locked (db_dialect_name db) locked r then reconciled_row now r else r)"
      by auto
    with q show False
      by (auto simp: stale_def lease_expired_def reconciled_row_def Let_def split: if_splits)
  qed
  then show "fst (reconcile_stale_jobs locked now db') = []" by (simp add: reconcile_stale_jobs_def)
qed

section \<open>The retry budget\<close>

text \<open>
  The compute worker (src/app/workers/compute_executor_worker.py) leases under its own id and
  starts each job under a fresh acquisition id \<open>cj:\<dots>\<close>; it never calls \<open>mark_running\<close>.
\<close>

definition is_acquisition_id :: "string \<Rightarrow> bool" where
  "is_acquisition_id w \<longleftrightarrow> starts_with w ''cj:''"

fun worker_protocol :: "job_event \<Rightarrow> bool" where
  "worker_protocol (Register k ty tenant payload maxa setting now) = (0 < configured_max_attempts maxa setting)"
| "worker_protocol (Enqueue k ty tenant payload maxa setting now) = (0 < configured_max_attempts maxa setting)"
| "worker_protocol (Lease w limit secs ty locked now) = (\<not> is_acquisition_id w)"
| "worker_protocol (Acquire k w acq secs now) = (\<not> is_acquisition_id w \<and> is_acquisition_id acq)"
| "worker_protocol (MarkRunning k caller secs now) = False"
| "worker_protocol e = True"

definition budget_ok :: "compute_job_row option \<Rightarrow> bool" where
  "budget_ok x = (case x of None \<Rightarrow> True
     | Some r \<Rightarrow> job_attempt_count r \<le> job_max_attempts r
         \<and> (job_status r \<in> {JPending, JLeased} \<longrightarrow> job_attempt_count r < job_max_attempts r)
         \<and> (job_status r = JRunning \<longrightarrow> (\<exists>a. job_lease_owner_id r = Some a \<and> is_acquisition_id a)))"

lemma acquisition_nonempty: "is_acquisition_id a \<Longrightarrow> a \<noteq> []"
  by (auto simp: is_acquisition_id_def starts_with_def)

interpretation budget: row_invariant worker_protocol k budget_ok for k
proof
  fix x e y
  assume x: "budget_ok x" and e: "worker_protocol e" and step: "row_step k e x y"
  from step x e show "budget_ok y"
  proof cases
    case (acquire w now r acq secs)
    then have "job_status r \<noteq> JRunning" using x e acquisition_nonempty
      by (auto simp: budget_ok_def holds_lease_def active_owner_def)
    with acquire x e show ?thesis by (auto simp: budget_ok_def running_row_def holds_lease_def)
  next
    case (reconcile now r locked)
    with x show ?thesis
      by (auto simp: budget_ok_def reconciled_row_def row_outcome_def stale_job_reconciliation_outcome_def stale_def Let_def)
  next
    case (retry w now r msg ty failure)
    with x show ?thesis by (auto simp: budget_ok_def retryable_row_def Let_def)
  qed (auto simp: budget_ok_def new_job_def leased_row_def leasable_def mark_invalid_request_payload_def
      complete_row_def failed_row_def cancelled_row_def cancellable_def renewed_row_def)
qed

text \<open>C28: Under the worker's protocol no job ever executes more often than its retry budget: an
  attempt is charged at each start, the count never exceeds \<open>max_attempts\<close>, and a job waiting or
  leased always has an attempt left.\<close>

theorem retry_budget:
  assumes "list_all worker_protocol es" "r \<in> set (db_jobs (run_ops job_step (empty_database dialect) es))"
  shows "job_attempt_count r \<le> job_max_attempts r
     \<and> (job_status r \<in> {JPending, JLeased} \<longrightarrow> job_attempt_count r < job_max_attempts r)"
proof -
  let ?db = "run_ops job_step (empty_database dialect) es"
  have "jobs_ok ?db \<and> budget_ok (get_job (job_calculation_id r) ?db)"
    by (rule budget.run.run_inv) (simp_all add: assms(1) budget_ok_def)
  then show ?thesis using get_job_row [OF _ assms(2)] by (simp add: budget_ok_def)
qed

section \<open>Registration\<close>

lemma json_loads_dumps_dict:
  "json_loads (dumps_dict d) = Some (JObj (sort_key fst (List.map (map_prod id sort_keys) d)))"
  by (simp add: dumps_dict_def json_dumps_def)

lemma identity_of_stored:
  "compute_job_request_identity_json_from_json (dumps_dict payload) = compute_job_request_identity_json payload"
proof -
  let ?f = "List.map (map_prod id sort_keys)"
  have "identity_payload (sort_key fst (?f payload)) = sort_key fst (?f (identity_payload payload))"
    unfolding identity_payload_def
    by (simp add: filter_sort filter_map comp_def map_prod_def split_def id_def)
  then show ?thesis
    by (simp add: compute_job_request_identity_json_from_json_def json_loads_dumps_dict
        compute_job_request_identity_json_def dumps_dict_stable)
qed

text \<open>
  Registration is idempotent: registering a fresh id creates the job, and registering it
  again at any later time with the same workflow, tenant (up to surrounding blanks), budget and
  request, in any key order and with any observability context, is a replay that changes nothing,
  while any other workflow, tenant, request identity or budget is a conflict that changes nothing.\<close>

theorem register_idempotent:
  assumes "get_job k db = None"
    "register_job k ty tenant payload maxa setting now db = Inr (res, db1)"
    "register_job k ty' tenant' payload' maxa' setting' now' db1 = Inr (res', db2)"
  shows "(reg_status res = Created)
    \<and> (db2 = db1)
    \<and> (reg_status res' =
       (if ty' = ty \<and> strip tenant' = strip tenant
           \<and> compute_job_request_identity_json payload' = compute_job_request_identity_json payload
           \<and> configured_max_attempts maxa' setting' = configured_max_attempts maxa setting
        then Replay else Conflict))"
proof (rule conj3I)
  let ?row = "new_job k ty (strip tenant) payload (configured_max_attempts maxa setting) now"
  from assms(1,2) have 1: "reg_status res = Created" "db1 = add_job ?row db"
    by (auto simp: register_job_def Let_def)
  then show "reg_status res = Created" by simp
  have get: "get_job k db1 = Some ?row" using get_job_add [of ?row db k] assms(1) 1(2) by simp
  have req: "job_request_json ?row = dumps_dict payload" "job_analytics_type ?row = ty"
    "job_tenant_id ?row = Some (strip tenant)" "job_max_attempts ?row = configured_max_attempts maxa setting"
    by (simp_all add: new_job_def)
  show "db2 = db1" using assms(3) get
    by (auto simp: register_job_def registration_result_for_integrity_conflict_def Let_def split: if_splits)
  show "reg_status res' =
       (if ty' = ty \<and> strip tenant' = strip tenant
           \<and> compute_job_request_identity_json payload' = compute_job_request_identity_json payload
           \<and> configured_max_attempts maxa' setting' = configured_max_attempts maxa setting
        then Replay else Conflict)"
    using assms(3) get
    by (auto simp: register_job_def registration_result_for_integrity_conflict_def
        matches_existing_compute_job_registration_def req identity_of_stored Let_def split: if_splits)
qed

lemma request_identity_perm:
  assumes "distinct (List.map fst payload)" "mset (identity_payload payload) = mset (identity_payload payload')"
  shows "compute_job_request_identity_json payload = compute_job_request_identity_json payload'"
  unfolding compute_job_request_identity_json_def
  by (rule dumps_dict_perm [OF _ assms(2)]) (simp add: identity_payload_def distinct_map_filterI assms(1))

section \<open>Cancellation\<close>

lemma cancellable_count:
  assumes ok: "jobs_ok db"
  shows "length (filter (cancellable ks tenant) (db_jobs db)) = card {k \<in> set ks. \<exists>r. get_job k db = Some r
     \<and> job_tenant_id r = Some tenant \<and> job_status r = JPending}"
proof -
  let ?rows = "filter (cancellable ks tenant) (db_jobs db)"
  have "distinct (List.map job_calculation_id ?rows)"
    using ok by (simp add: jobs_ok_def tbl_ok_def distinct_map_filterI)
  then have "length ?rows = card (set (List.map job_calculation_id ?rows))" by (metis distinct_card length_map)
  also have "set (List.map job_calculation_id ?rows) = {k \<in> set ks. \<exists>r. get_job k db = Some r
     \<and> job_tenant_id r = Some tenant \<and> job_status r = JPending}"
    using get_job_row [OF ok] by (auto simp: cancellable_def image_iff dest!: get_job_mem)
  finally show ?thesis .
qed

lemma card_all_iff: "card {k \<in> set ks. P k} = length ks \<longleftrightarrow> distinct ks \<and> (\<forall>k \<in> set ks. P k)"
proof
  assume eq: "card {k \<in> set ks. P k} = length ks"
  have "card {k \<in> set ks. P k} \<le> card (set ks)" by (rule card_mono) auto
  with eq card_length [of ks] have "card (set ks) = length ks" "card {k \<in> set ks. P k} = card (set ks)" by simp_all
  then have "distinct ks" "{k \<in> set ks. P k} = set ks" by (simp add: card_distinct, intro card_subset_eq) auto
  then show "distinct ks \<and> (\<forall>k \<in> set ks. P k)" by blast
next
  assume "distinct ks \<and> (\<forall>k \<in> set ks. P k)"
  then have "{k \<in> set ks. P k} = set ks" "distinct ks" by auto
  then show "card {k \<in> set ks. P k} = length ks" by (simp add: distinct_card)
qed

text \<open>C4: A batch cancellation is atomic: it succeeds exactly when the ids are distinct and every
  one names a pending job of the tenant, and then all of them, and no other job, are failed with
  the reason; otherwise it reports false and the database is unchanged. Leased or running work is
  never touched.\<close>

theorem cancel_all_or_nothing:
  assumes ok: "jobs_ok db" and cancel: "cancel_pending_jobs ks tenant reason now db = (done, db')"
  shows "(done \<longleftrightarrow> distinct ks \<and> (\<forall>k \<in> set ks. \<exists>r. get_job k db = Some r
           \<and> job_tenant_id r = Some tenant \<and> job_status r = JPending))
    \<and> (\<not> done \<longrightarrow> db' = db)
    \<and> (done \<longrightarrow> get_job k db' = (if k \<in> set ks then map_option (cancelled_row reason now) (get_job k db) else get_job k db))"
proof (rule conj3I)
  let ?P = "\<lambda>k. \<exists>r. get_job k db = Some r \<and> job_tenant_id r = Some tenant \<and> job_status r = JPending"
  let ?f = "\<lambda>r. if cancellable ks tenant r then cancelled_row reason now r else r"
  have count: "length (filter (cancellable ks tenant) (db_jobs db)) = length ks \<longleftrightarrow> distinct ks \<and> (\<forall>k \<in> set ks. ?P k)"
    unfolding cancellable_count [OF ok] by (rule card_all_iff)
  show "done \<longleftrightarrow> distinct ks \<and> (\<forall>k \<in> set ks. ?P k)"
    using cancel unfolding cancel_pending_jobs_def tbl_update_where_def Let_def prod.case count by (auto split: if_splits)
  show "\<not> done \<longrightarrow> db' = db"
    using cancel by (auto simp: cancel_pending_jobs_def tbl_update_where_def Let_def split: if_splits)
  show "done \<longrightarrow> get_job k db' = (if k \<in> set ks then map_option (cancelled_row reason now) (get_job k db) else get_job k db)"
  proof
    assume d: "done"
    show "get_job k db' = (if k \<in> set ks then map_option (cancelled_row reason now) (get_job k db) else get_job k db)"
    proof (cases "ks = []")
      case True
      then show ?thesis using cancel by (simp add: cancel_pending_jobs_def)
    next
      case False
      with cancel d have jobs: "db_jobs db' = List.map ?f (db_jobs db)"
        by (auto simp: cancel_pending_jobs_def tbl_update_where_def Let_def split: if_splits)
      have get: "get_job k db' = map_option ?f (get_job k db)"
        unfolding get_job_def jobs by (rule tbl_get_map) simp
      have all: "\<forall>k \<in> set ks. ?P k" using \<open>done \<longleftrightarrow> distinct ks \<and> (\<forall>k \<in> set ks. ?P k)\<close> d by blast
      show ?thesis
      proof (cases "get_job k db")
        case (Some r)
        then have "job_calculation_id r = k" using get_job_mem by blast
        then show ?thesis using Some all by (auto simp: get cancellable_def)
      qed (simp add: get)
    qed
  qed
qed

section \<open>Retention\<close>

text \<open>
  Pruning deletes exactly the finished jobs that completed by the cutoff and are not
  excluded: what a dry run counts is what is deleted, a dry run changes nothing, and without
  exclusions the deleted ids are those the retention listing names.\<close>

theorem prune_matches_dry_run:
  assumes ok: "jobs_ok db" and prune: "prune_terminal_jobs_older_than older_than False excl db = (n, db')"
  shows "(prune_terminal_jobs_older_than older_than True excl db = (n, db))
    \<and> (length (db_jobs db') + n = length (db_jobs db))
    \<and> (excl = None \<longrightarrow> set (list_terminal_job_ids_older_than older_than db) = {k. get_job k db \<noteq> None \<and> get_job k db' = None})"
proof (rule conj3I)
  let ?ex = "case excl of None \<Rightarrow> [] | Some ids \<Rightarrow> ids"
  let ?p = "\<lambda>r. terminal_retention_filter (cutoff_of older_than db) r \<and> job_calculation_id r \<notin> set ?ex"
  have n: "n = length (filter ?p (db_jobs db))" and jobs: "db_jobs db' = filter (\<lambda>r. \<not> ?p r) (db_jobs db)"
    using prune unfolding prune_terminal_jobs_older_than_def Let_def by auto
  show "prune_terminal_jobs_older_than older_than True excl db = (n, db)"
    using n unfolding prune_terminal_jobs_older_than_def Let_def by simp
  show "length (db_jobs db') + n = length (db_jobs db)"
    unfolding n jobs using sum_length_filter_compl [of ?p "db_jobs db"] by simp
  have get: "get_job k db' = (case get_job k db of None \<Rightarrow> None | Some r \<Rightarrow> if \<not> ?p r then Some r else None)" for k
    using ok unfolding get_job_def jobs jobs_ok_def by (rule tbl_get_filter)
  show "excl = None \<longrightarrow> set (list_terminal_job_ids_older_than older_than db) = {k. get_job k db \<noteq> None \<and> get_job k db' = None}"
  proof
    assume "excl = None"
    then have "{k. get_job k db \<noteq> None \<and> get_job k db' = None}
        = job_calculation_id ` {r \<in> set (db_jobs db). terminal_retention_filter (cutoff_of older_than db) r}"
      using get_job_row [OF ok] get_job_mem
      by (fastforce simp: get image_iff split: option.splits if_splits)
    then show "set (list_terminal_job_ids_older_than older_than db) = {k. get_job k db \<noteq> None \<and> get_job k db' = None}"
      by (auto simp: list_terminal_job_ids_older_than_def)
  qed
qed

end
