(* ===== verification/Job_Custody.thy ===== *)
theory Job_Custody
  imports Job_Safety
begin

text \<open>
  Source custody under the job queue: every job event acts on the lineage table through the
  custody contract of \<open>Source_Custody\<close>, so what no custody event undoes, no job event undoes;
  and a job that fails takes the custody it had left open with it.
\<close>

section \<open>Custody contracts carry over to the queue\<close>

locale jobs_closed =
  fixes Q :: "database \<Rightarrow> bool"
  assumes closed_event: "Q db \<Longrightarrow> custody_step db e = Inr db' \<Longrightarrow> Q db'"
    and jobs_keep_Q: "Q db \<Longrightarrow> Q (db\<lparr>db_jobs := js\<rparr>)"
begin

lemma terminate_keeps_Q: "Q db \<Longrightarrow> Q (fail_terminal_source_custody ks t a now db)"
  by (rule closed_event [of _ "Terminate ks t a now"]) simp_all

lemma update_job_keeps_Q: "Q db \<Longrightarrow> Q (update_job k f db)"
  by (simp add: update_job_def jobs_keep_Q)

lemma add_job_keeps_Q: "Q db \<Longrightarrow> Q (add_job r db)"
  by (simp add: add_job_def jobs_keep_Q)

lemma update_rows_keeps_Q: "Q db \<Longrightarrow> Q (update_rows g rows db)"
  by (induction rows arbitrary: db) (simp_all add: update_rows_def update_job_keeps_Q)

lemma reconcile_rows_keeps_Q: "Q db \<Longrightarrow> Q (snd (reconcile_rows now rows db))"
  by (induction rows arbitrary: db)
    (simp_all add: reconcile_rows_Cons reconcile_stale_job_row_def update_job_keeps_Q terminate_keeps_Q del: reconcile_rows.simps(2))

lemma lease_rows_keeps_Q: "Q db \<Longrightarrow> lease_rows w now x rows db = Inr (recs, db') \<Longrightarrow> Q db'"
  using lease_rows_result [of w now x rows db] update_rows_keeps_Q by auto

lemma select_keeps_Q:
  assumes "Q db" "select_returns_series_source_root claim d f m now c1 now2 c2 db = Inr (sel, db')"
  shows "Q db'"
  using closed_event [OF assms(1), of "Select claim d f m now2"] select_root_frame(4) [OF assms(2)] by simp

lemma job_event_keeps_Q: "Q db \<Longrightarrow> job_step db e = Inr db' \<Longrightarrow> Q db'"
  by (cases e)
    (auto simp: register_job_def enqueue_job_def lease_pending_jobs_def mark_running_acquired_def mark_running_def
      renew_lease_def mark_complete_def mark_failed_def retryable_failure_result cancel_pending_jobs_def
      reconcile_stale_jobs_def prune_terminal_jobs_older_than_def tbl_update_where_def Let_def
      add_job_keeps_Q update_job_keeps_Q terminate_keeps_Q jobs_keep_Q reconcile_rows_keeps_Q
      dest: lease_rows_keeps_Q select_keeps_Q split: option.splits if_splits)

end

sublocale jobs_closed \<subseteq> queue: guarded_machine job_step "\<lambda>_. True" Q
  by unfold_locales (rule job_event_keeps_Q)

text \<open>Statements about the lineage tables alone.\<close>

locale custody_closed =
  fixes Q :: "database \<Rightarrow> bool"
  assumes custody_event: "Q db \<Longrightarrow> custody_step db e = Inr db' \<Longrightarrow> Q db'"
    and lineage_only: "db_lineage db' = db_lineage db \<Longrightarrow> db_payloads db' = db_payloads db \<Longrightarrow> Q db \<Longrightarrow> Q db'"

sublocale custody_closed \<subseteq> jobs_closed Q
proof
  show "Q db \<Longrightarrow> custody_step db e = Inr db' \<Longrightarrow> Q db'" for db e db' by (rule custody_event)
  show "Q db \<Longrightarrow> Q (db\<lparr>db_jobs := js\<rparr>)" for db js by (rule lineage_only [of _ db]) simp_all
qed

lemma get_lineage_eq: "db_lineage db' = db_lineage db \<Longrightarrow> get_lineage k db' = get_lineage k db"
  by (simp add: get_lineage_def)

interpretation closed_inv: custody_closed custody_inv
proof
  show "custody_inv db \<Longrightarrow> custody_step db e = Inr db' \<Longrightarrow> custody_inv db'" for db e db'
    by (rule custody.step_inv [OF _ TrueI])
  show "db_lineage db' = db_lineage db \<Longrightarrow> db_payloads db' = db_payloads db \<Longrightarrow> custody_inv db \<Longrightarrow> custody_inv db'" for db db'
    by (simp only: custody_inv_def get_lineage_def)
qed

interpretation closed_frozen: custody_closed "root_frozen k r a n" for k r a n
proof
  show "root_frozen k r a n db \<Longrightarrow> custody_step db e = Inr db' \<Longrightarrow> root_frozen k r a n db'" for db e db'
    by (rule frozen_root.step_inv [OF _ TrueI])
  show "db_lineage db' = db_lineage db \<Longrightarrow> db_payloads db' = db_payloads db \<Longrightarrow> root_frozen k r a n db \<Longrightarrow> root_frozen k r a n db'" for db db'
    by (simp only: root_frozen_def get_lineage_def)
qed

interpretation closed_dead: custody_closed "custody_dead k" for k
proof
  show "custody_dead k db \<Longrightarrow> custody_step db e = Inr db' \<Longrightarrow> custody_dead k db'" for db e db'
    by (rule dead_custody.step_inv [OF _ TrueI])
  show "db_lineage db' = db_lineage db \<Longrightarrow> db_payloads db' = db_payloads db \<Longrightarrow> custody_dead k db \<Longrightarrow> custody_dead k db'" for db db'
    by (simp only: custody_dead_def get_lineage_def)
qed

lemma custody_inv_empty: "custody_inv (empty_database dialect)"
  by (simp add: custody_inv_def empty_database_def get_lineage_def tbl_get_def)

section \<open>A failing job closes its custody\<close>

definition custody_closed_for :: "uuid \<Rightarrow> string \<Rightarrow> database \<Rightarrow> bool" where
  "custody_closed_for k tenant db \<longleftrightarrow>
     (\<forall>row. get_lineage k db = Some row \<and> lr_calculation_type row = ''ReturnsSeries''
        \<and> lr_source_tenant_id row = Some tenant \<longrightarrow> \<not> custody_open (lr_source_custody_state row))"

lemma get_lineage_key: "get_lineage k db = Some row \<Longrightarrow> lr_calculation_id row = k"
  by (auto simp: get_lineage_def dest: tbl_get_Some)

lemma terminate_closes:
  assumes "k \<in> set ks" "db_has_lineage_table db"
  shows "custody_closed_for k t (fail_terminal_source_custody ks (Some t) (Some ''ReturnsSeries'') now db)"
  unfolding custody_closed_for_def
proof (intro allI impI, elim conjE)
  fix row
  assume row: "get_lineage k (fail_terminal_source_custody ks (Some t) (Some ''ReturnsSeries'') now db) = Some row"
    "lr_calculation_type row = ''ReturnsSeries''" "lr_source_tenant_id row = Some t"
  then obtain z where z: "get_lineage k db = Some z" "row = (if lr_calculation_id z \<in> set ks
      \<and> lr_calculation_type z = ''ReturnsSeries'' \<and> lr_source_tenant_id z = Some t \<and> custody_open (lr_source_custody_state z)
      then z\<lparr>lr_status := LFailed, lr_source_custody_state := Some CustodyFailed,
              lr_error_message := Some CUSTODY_TERMINATED, lr_timestamp_utc := now\<rparr> else z)"
    using assms(2) unfolding terminate_get by auto
  show "\<not> custody_open (lr_source_custody_state row)"
  proof (cases "custody_open (lr_source_custody_state z) \<and> lr_calculation_type z = ''ReturnsSeries'' \<and> lr_source_tenant_id z = Some t")
    case True
    then show ?thesis using z get_lineage_key [OF z(1)] assms(1) by (simp add: custody_open_def)
  next
    case False
    then have "row = z" using z(2) by auto
    then show ?thesis using False row by blast
  qed
qed

lemma terminate_stays_closed:
  assumes "custody_closed_for k t db"
  shows "custody_closed_for k t (fail_terminal_source_custody ks t' a now db)"
  unfolding custody_closed_for_def
proof (intro allI impI, elim conjE)
  fix row
  assume row: "get_lineage k (fail_terminal_source_custody ks t' a now db) = Some row"
    "lr_calculation_type row = ''ReturnsSeries''" "lr_source_tenant_id row = Some t"
  from row(1) obtain z where "get_lineage k db = Some z"
    "row = z \<or> row = z\<lparr>lr_status := LFailed, lr_source_custody_state := Some CustodyFailed,
              lr_error_message := Some CUSTODY_TERMINATED, lr_timestamp_utc := now\<rparr>"
    by (rule terminate_row)
  then show "\<not> custody_open (lr_source_custody_state row)"
    using assms row by (auto simp: custody_closed_for_def custody_open_def)
qed

lemma lineage_update_job [simp]: "db_has_lineage_table (update_job k f db) = db_has_lineage_table db"
  "custody_closed_for k' t (update_job k f db) = custody_closed_for k' t db"
  by (simp_all add: update_job_def custody_closed_for_def get_lineage_def)

lemma reconcile_rows_closed: "custody_closed_for k t db \<Longrightarrow> custody_closed_for k t (snd (reconcile_rows now rows db))"
  by (induction rows arbitrary: db)
    (simp_all add: reconcile_rows_Cons reconcile_stale_job_row_def terminate_stays_closed del: reconcile_rows.simps(2))

lemma has_lineage_fail [simp]:
  "db_has_lineage_table (fail_terminal_source_custody ks t a now db) = db_has_lineage_table db"
  by (simp add: fail_terminal_source_custody_def)

lemma reconcile_rows_closes:
  "r \<in> set rows \<Longrightarrow> so_job_status (row_outcome now r) = JFailed \<Longrightarrow> job_analytics_type r = ''ReturnsSeries'' \<Longrightarrow>
   job_tenant_id r = Some t \<Longrightarrow> db_has_lineage_table db \<Longrightarrow>
   custody_closed_for (job_calculation_id r) t (snd (reconcile_rows now rows db))"
proof (induction rows arbitrary: db)
  case (Cons row rows)
  show ?case
  proof (cases "row = r")
    case True
    then have "custody_closed_for (job_calculation_id r) t (snd (reconcile_stale_job_row now row db))"
      using Cons.prems terminate_closes by (simp add: reconcile_stale_job_row_def)
    then show ?thesis by (simp add: reconcile_rows_Cons reconcile_rows_closed del: reconcile_rows.simps(2))
  next
    case False
    then show ?thesis using Cons by (simp add: reconcile_rows_Cons reconcile_stale_job_row_def del: reconcile_rows.simps(2))
  qed
qed simp

text \<open>
  When a returns-series job ends in failure, by its worker's verdict, by exhausting its
  retries, or by reconciliation of an expired lease, the source custody it holds for its tenant
  is closed in the same transaction: none is left capturing, frozen or queued.\<close>

theorem failed_job_closes_custody:
  assumes job: "get_job k db = Some r" "job_analytics_type r = ''ReturnsSeries''" "job_tenant_id r = Some tenant"
    and lineage: "db_has_lineage_table db" and ok: "jobs_ok db"
  shows "(mark_failed k msg ty worker failure now db = Inr ((), db1) \<longrightarrow> custody_closed_for k tenant db1)
    \<and> (mark_retryable_failure k msg ty worker failure now db = Inr (False, db2) \<longrightarrow> custody_closed_for k tenant db2)
    \<and> (stale now r \<and> job_status (reconciled_row now r) = JFailed \<and> \<not> skip_locked (db_dialect_name db) locked r
       \<longrightarrow> custody_closed_for k tenant (snd (reconcile_stale_jobs locked now db)))"
proof (rule conj3I)
  have key: "job_calculation_id r = k" using job(1) get_job_mem by blast
  show "mark_failed k msg ty worker failure now db = Inr ((), db1) \<longrightarrow> custody_closed_for k tenant db1"
    using job lineage key by (auto simp: mark_failed_def terminate_closes)
  show "mark_retryable_failure k msg ty worker failure now db = Inr (False, db2) \<longrightarrow> custody_closed_for k tenant db2"
    using job lineage key by (auto simp: retryable_failure_result Let_def terminate_closes split: if_splits)
  show "stale now r \<and> job_status (reconciled_row now r) = JFailed \<and> \<not> skip_locked (db_dialect_name db) locked r
       \<longrightarrow> custody_closed_for k tenant (snd (reconcile_stale_jobs locked now db))"
  proof (intro impI, elim conjE)
    assume "stale now r" "job_status (reconciled_row now r) = JFailed" "\<not> skip_locked (db_dialect_name db) locked r"
    moreover from this(2) have "so_job_status (row_outcome now r) = JFailed" by (simp add: reconciled_row_def Let_def)
    ultimately show "custody_closed_for k tenant (snd (reconcile_stale_jobs locked now db))"
      using reconcile_rows_closes [of r _ now tenant db] job lineage key get_job_mem [OF job(1)]
      by (simp add: reconcile_stale_jobs_def reconcile_stale_jobs_statement_def stale_def)
  qed
qed

end
