(* ===== verification/Job_Queries.thy ===== *)
theory Job_Queries
  imports Job_Safety "HOL-Library.Product_Lexorder"
begin

text \<open>
  The operator views of the job queue (src/app/services/compute_job_store.py): queue
  statistics, inspection anchors, paged inspection lists and recovery events with a keyset
  cursor. A statement is a function of the table's rows; \<open>ORDER BY\<close> is a stable sort, and an
  absent timestamp sorts first on SQLite and last on PostgreSQL. A calculation-id prefix has
  passed CALCULATION_ID_PREFIX_PATTERN and is lower case, so \<open>LIKE\<close> on it is a prefix test.
\<close>

section \<open>SQL expressions\<close>

text \<open>\<open>column != c\<close> is not true of \<open>NULL\<close>.\<close>

definition sql_ne :: "string option \<Rightarrow> string \<Rightarrow> bool" where
  "sql_ne x c = (case x of None \<Rightarrow> False | Some y \<Rightarrow> y \<noteq> c)"

definition asc_key :: "string \<Rightarrow> instant option \<Rightarrow> int \<times> int" where
  "asc_key dialect t = (case t of None \<Rightarrow> (if dialect = ''sqlite'' then - 1 else 1, 0) | Some t \<Rightarrow> (0, t))"

definition nullslast_key :: "instant option \<Rightarrow> int \<times> int" where
  "nullslast_key t = (case t of None \<Rightarrow> (1, 0) | Some t \<Rightarrow> (0, t))"

definition sort_desc :: "('r \<Rightarrow> 'k :: linorder) \<Rightarrow> 'r list \<Rightarrow> 'r list" where
  "sort_desc f rows = rev (sort_key f (rev rows))"

definition count_where :: "('r \<Rightarrow> bool) \<Rightarrow> 'r list \<Rightarrow> nat" where
  "count_where p rows = length (filter p rows)"

text \<open>\<open>func.min(case((p, field)))\<close>: the least non-null value.\<close>

definition min_where :: "('r \<Rightarrow> bool) \<Rightarrow> ('r \<Rightarrow> instant option) \<Rightarrow> 'r list \<Rightarrow> instant option" where
  "min_where p field rows =
     (case List.map_filter (\<lambda>r. if p r then field r else None) rows of [] \<Rightarrow> None | t # ts \<Rightarrow> Some (foldr min ts t))"

section \<open>Queue statistics\<close>

record compute_queue_stats =
  qs_pending_count :: nat
  qs_leased_count :: nat
  qs_running_count :: nat
  qs_failed_count :: nat
  qs_complete_count :: nat
  qs_retry_backlog_count :: nat
  qs_lease_expired_count :: nat
  qs_terminal_failure_count :: nat
  qs_oldest_pending_age_seconds :: rat
  qs_oldest_leased_age_seconds :: rat
  qs_oldest_running_age_seconds :: rat
  qs_reclaimable_count :: nat

definition reclaimable :: "instant \<Rightarrow> compute_job_row \<Rightarrow> bool" where
  "reclaimable now r \<longleftrightarrow> job_status r \<in> {JLeased, JRunning} \<and> lease_expired now r"

definition is_terminal_failure :: "compute_job_row \<Rightarrow> bool" where
  "is_terminal_failure r \<longleftrightarrow> job_status r = JFailed \<and> sql_ne (job_error_type r) ''LeaseExpired''"

definition is_retry_backlog :: "compute_job_row \<Rightarrow> bool" where
  "is_retry_backlog r \<longleftrightarrow> job_status r = JPending \<and> 0 < job_attempt_count r"

definition oldest_age :: "instant \<Rightarrow> instant option \<Rightarrow> rat" where
  "oldest_age now t = elapsed_seconds_since_or_zero (utc now) (map_option utc t)"

definition get_queue_stats :: "instant \<Rightarrow> database \<Rightarrow> compute_queue_stats" where
  "get_queue_stats now db =
     (let rows = db_jobs db; count = (\<lambda>s. count_where (\<lambda>r. job_status r = s) rows) in
      \<lparr>qs_pending_count = count JPending, qs_leased_count = count JLeased, qs_running_count = count JRunning,
       qs_failed_count = count JFailed, qs_complete_count = count JComplete,
       qs_retry_backlog_count = count_where is_retry_backlog rows,
       qs_lease_expired_count = count_where (\<lambda>r. job_error_type r = Some ''LeaseExpired'') rows,
       qs_terminal_failure_count = count_where is_terminal_failure rows,
       qs_oldest_pending_age_seconds =
         oldest_age now (min_where (\<lambda>r. job_status r = JPending) (\<lambda>r. Some (job_created_at_utc r)) rows),
       qs_oldest_leased_age_seconds = oldest_age now (min_where (\<lambda>r. job_status r = JLeased) job_leased_at_utc rows),
       qs_oldest_running_age_seconds = oldest_age now (min_where (\<lambda>r. job_status r = JRunning) job_started_at_utc rows),
       qs_reclaimable_count = count_where (reclaimable now) rows\<rparr>)"

section \<open>Inspection anchors\<close>

record compute_queue_inspection_anchors =
  an_oldest_pending_calculation_id :: "uuid option"
  an_oldest_leased_calculation_id :: "uuid option"
  an_oldest_running_calculation_id :: "uuid option"
  an_latest_terminal_failure_calculation_id :: "uuid option"
  an_latest_recovered_calculation_id :: "uuid option"

definition first_id :: "compute_job_row list \<Rightarrow> uuid option" where
  "first_id rows = (case rows of [] \<Rightarrow> None | r # _ \<Rightarrow> Some (job_calculation_id r))"

definition is_recovered :: "compute_job_row \<Rightarrow> bool" where
  "is_recovered r \<longleftrightarrow> is_retry_backlog r \<and> job_last_error_at_utc r \<noteq> None"

definition get_queue_inspection_anchors :: "database \<Rightarrow> compute_queue_inspection_anchors" where
  "get_queue_inspection_anchors db =
     (let rows = db_jobs db; d = db_dialect_name db; created = job_created_at_utc in
      \<lparr>an_oldest_pending_calculation_id = first_id (sort_key created (filter (\<lambda>r. job_status r = JPending) rows)),
       an_oldest_leased_calculation_id =
         first_id (sort_key (\<lambda>r. (asc_key d (job_leased_at_utc r), created r)) (filter (\<lambda>r. job_status r = JLeased) rows)),
       an_oldest_running_calculation_id =
         first_id (sort_key (\<lambda>r. (asc_key d (job_started_at_utc r), created r)) (filter (\<lambda>r. job_status r = JRunning) rows)),
       an_latest_terminal_failure_calculation_id =
         first_id (sort_desc (\<lambda>r. (asc_key d (job_completed_at_utc r), created r)) (filter is_terminal_failure rows)),
       an_latest_recovered_calculation_id =
         first_id (sort_desc (\<lambda>r. (asc_key d (job_last_error_at_utc r), created r)) (filter is_recovered rows))\<rparr>)"

section \<open>Filters\<close>

definition apply_calculation_id_prefix_filter :: "('r \<Rightarrow> uuid) \<Rightarrow> string option \<Rightarrow> 'r list \<Rightarrow> 'r list" where
  "apply_calculation_id_prefix_filter column v rows =
     (if \<not> nonblank_opt v then rows else filter (\<lambda>r. starts_with (column r) (or_empty v)) rows)"

definition apply_calculation_filters ::
    "string option \<Rightarrow> string option \<Rightarrow> compute_job_row list \<Rightarrow> compute_job_row list" where
  "apply_calculation_filters analytics_type calculation_id_contains rows =
     apply_calculation_id_prefix_filter job_calculation_id calculation_id_contains
       (if analytics_type = None then rows else filter (\<lambda>r. Some (job_analytics_type r) = analytics_type) rows)"

section \<open>Recovery events\<close>

record compute_recovery_query_filters =
  rf_analytics_type :: "string option"
  rf_calculation_id_contains :: "string option"
  rf_recovered_after :: "datetime option"
  rf_recovered_before :: "datetime option"
  rf_cursor_recovered_before :: "datetime option"
  rf_cursor_calculation_id_before :: "string option"

definition recovery_query_filters ::
    "string \<Rightarrow> compute_recovery_query_filters \<Rightarrow> compute_recovery_query_filters" where
  "recovery_query_filters dialect f = f\<lparr>
     rf_recovered_after := normalize_filter_datetime (rf_recovered_after f) dialect,
     rf_recovered_before := normalize_filter_datetime (rf_recovered_before f) dialect,
     rf_cursor_recovered_before := normalize_filter_datetime (rf_cursor_recovered_before f) dialect\<rparr>"

definition sql_cmp :: "(instant \<Rightarrow> instant \<Rightarrow> bool) \<Rightarrow> instant option \<Rightarrow> instant \<Rightarrow> bool" where
  "sql_cmp c x y = (case x of None \<Rightarrow> False | Some t \<Rightarrow> c t y)"

definition recovery_seek_cursor_filter :: "instant \<Rightarrow> string option \<Rightarrow> compute_job_row \<Rightarrow> bool" where
  "recovery_seek_cursor_filter cursor id_before r \<longleftrightarrow>
     sql_cmp (<) (job_last_error_at_utc r) cursor
     \<or> (nonblank_opt id_before \<and> job_last_error_at_utc r = Some cursor \<and> job_calculation_id r < or_empty id_before)"

definition apply_recovery_time_filters ::
    "compute_recovery_query_filters \<Rightarrow> compute_job_row list \<Rightarrow> compute_job_row list" where
  "apply_recovery_time_filters f rows = filter (\<lambda>r.
       (case rf_recovered_after f of None \<Rightarrow> True | Some t \<Rightarrow> sql_cmp (\<ge>) (job_last_error_at_utc r) (instant_of t))
     \<and> (case rf_recovered_before f of None \<Rightarrow> True | Some t \<Rightarrow> sql_cmp (\<le>) (job_last_error_at_utc r) (instant_of t))
     \<and> (case rf_cursor_recovered_before f of None \<Rightarrow> True
        | Some t \<Rightarrow> recovery_seek_cursor_filter (instant_of t) (rf_cursor_calculation_id_before f) r)) rows"

definition filtered_recoveries :: "compute_recovery_query_filters \<Rightarrow> compute_job_row list \<Rightarrow> compute_job_row list" where
  "filtered_recoveries f rows = apply_recovery_time_filters f
     (apply_calculation_filters (rf_analytics_type f) (rf_calculation_id_contains f) (filter is_recovered rows))"

definition recovery_order :: "compute_job_row \<Rightarrow> instant \<times> uuid" where
  "recovery_order r = (the (job_last_error_at_utc r), job_calculation_id r)"

definition recent_recoveries_statement ::
    "nat \<Rightarrow> nat \<Rightarrow> compute_recovery_query_filters \<Rightarrow> compute_job_row list \<Rightarrow> compute_job_row list" where
  "recent_recoveries_statement limit offset f rows =
     take limit (drop offset (sort_desc recovery_order (filtered_recoveries f rows)))"

record compute_recovery_event =
  ev_calculation_id :: uuid
  ev_analytics_type :: string
  ev_recovery_kind :: string
  ev_recovered_at_utc :: string
  ev_attempt_count :: int
  ev_error_type :: "string option"

definition to_recovery_event :: "compute_job_row \<Rightarrow> compute_recovery_event option" where
  "to_recovery_event r =
     (case stamp (job_last_error_at_utc r) of None \<Rightarrow> None
      | Some recovered_at \<Rightarrow> Some \<lparr>ev_calculation_id = job_calculation_id r, ev_analytics_type = job_analytics_type r,
          ev_recovery_kind = (if job_error_type r = Some ''LeaseExpired'' then ''stale_lease_recovered''
                              else ''retryable_failure''),
          ev_recovered_at_utc = recovered_at, ev_attempt_count = job_attempt_count r, ev_error_type = job_error_type r\<rparr>)"

definition recovery_events_from_rows :: "compute_job_row list \<Rightarrow> compute_recovery_event list" where
  "recovery_events_from_rows rows = List.map_filter to_recovery_event rows"

record compute_recovery_event_page =
  rp_total_count :: nat
  rp_next_offset :: "nat option"
  rp_next_cursor_recovered_before :: "string option"
  rp_next_cursor_calculation_id_before :: "string option"
  rp_items :: "compute_recovery_event list"

definition compute_recovery_event_page_of :: "compute_recovery_event list \<Rightarrow> nat \<Rightarrow> nat \<Rightarrow> compute_recovery_event_page" where
  "compute_recovery_event_page_of events total_count offset =
     (let next_offset = next_offset_or_none offset (length events) total_count;
          cursor = recovery_cursor_or_none ev_recovered_at_utc ev_calculation_id next_offset events
      in \<lparr>rp_total_count = total_count, rp_next_offset = next_offset,
          rp_next_cursor_recovered_before = rc_recovered_before cursor,
          rp_next_cursor_calculation_id_before = rc_calculation_id_before cursor, rp_items = events\<rparr>)"

definition list_recent_recoveries ::
    "nat \<Rightarrow> nat \<Rightarrow> compute_recovery_query_filters \<Rightarrow> database \<Rightarrow> compute_recovery_event_page" where
  "list_recent_recoveries limit offset filters db =
     (let f = recovery_query_filters (db_dialect_name db) filters
      in compute_recovery_event_page_of
           (recovery_events_from_rows (recent_recoveries_statement limit offset f (db_jobs db)))
           (length (filtered_recoveries f (db_jobs db))) offset)"

section \<open>Inspection lists\<close>

definition active_since_expression :: "compute_job_row \<Rightarrow> instant option" where
  "active_since_expression r =
     (case job_status r of JRunning \<Rightarrow> job_started_at_utc r | JLeased \<Rightarrow> job_leased_at_utc r
      | JFailed \<Rightarrow> job_completed_at_utc r | _ \<Rightarrow> Some (job_created_at_utc r))"

fun first_datetime_field :: "instant option list \<Rightarrow> instant option" where
  "first_datetime_field [] = None"
| "first_datetime_field (Some t # ts) = Some t"
| "first_datetime_field (None # ts) = first_datetime_field ts"

definition inspection_active_since :: "compute_job_row \<Rightarrow> instant option" where
  "inspection_active_since r = first_datetime_field
     (case job_status r of
        JLeased \<Rightarrow> [job_leased_at_utc r, Some (job_created_at_utc r)]
      | JRunning \<Rightarrow> [job_started_at_utc r, job_leased_at_utc r, Some (job_created_at_utc r)]
      | JFailed \<Rightarrow> [job_completed_at_utc r, Some (job_created_at_utc r)]
      | _ \<Rightarrow> [Some (job_created_at_utc r)])"

record compute_queue_inspection_item =
  it_calculation_id :: uuid
  it_analytics_type :: string
  it_status :: string
  it_active_since_utc :: "string option"
  it_age_seconds :: "rat option"
  it_attempt_count :: int
  it_max_attempts :: int
  it_error_type :: "string option"
  it_error_message :: "string option"

definition to_inspection_item :: "instant \<Rightarrow> compute_job_row \<Rightarrow> compute_queue_inspection_item" where
  "to_inspection_item now r =
     \<lparr>it_calculation_id = job_calculation_id r, it_analytics_type = job_analytics_type r,
      it_status = compute_job_status_value (job_status r), it_active_since_utc = stamp (inspection_active_since r),
      it_age_seconds = map_option (\<lambda>t. elapsed_seconds_since (utc now) (utc t)) (inspection_active_since r),
      it_attempt_count = job_attempt_count r, it_max_attempts = job_max_attempts r,
      it_error_type = job_error_type r, it_error_message = job_error_message r\<rparr>"

text \<open>The rows a status filter selects and the order of its list.\<close>

definition inspected_rows :: "inspection_query_context \<Rightarrow> compute_job_row list \<Rightarrow> compute_job_row list" where
  "inspected_rows ctx rows =
     (if iqc_status_filter ctx = INSPECTION_STATUS_RECLAIMABLE then filter (reclaimable (iqc_now ctx)) rows
      else if iqc_status_filter ctx = INSPECTION_STATUS_ACTIVE
        then filter (\<lambda>r. job_status r \<in> {JPending, JLeased, JRunning}) rows
      else if iqc_status_filter ctx = INSPECTION_STATUS_FAILED then filter (\<lambda>r. job_status r = JFailed) rows
      else rows)"

definition inspection_order :: "string \<Rightarrow> inspection_query_context \<Rightarrow> compute_job_row list \<Rightarrow> compute_job_row list" where
  "inspection_order d ctx rows =
     (if iqc_status_filter ctx = INSPECTION_STATUS_RECLAIMABLE
        then sort_key (\<lambda>r. (asc_key d (job_lease_expires_at_utc r), job_created_at_utc r)) rows
      else if iqc_status_filter ctx = INSPECTION_STATUS_ACTIVE
        then sort_key (\<lambda>r. (asc_key d (active_since_expression r), job_created_at_utc r)) rows
      else if iqc_status_filter ctx = INSPECTION_STATUS_FAILED
        then sort_desc (\<lambda>r. (asc_key d (job_completed_at_utc r), job_created_at_utc r)) rows
      else sort_key (\<lambda>r. (nullslast_key (active_since_expression r), job_created_at_utc r)) rows)"

definition inspection_filter ::
    "inspection_query_context \<Rightarrow> string option \<Rightarrow> string option \<Rightarrow> compute_job_row list \<Rightarrow> compute_job_row list" where
  "inspection_filter ctx analytics_type calculation_id_contains rows =
     apply_calculation_filters analytics_type calculation_id_contains
       (apply_min_age_filter active_since_expression (iqc_min_age_threshold ctx) (inspected_rows ctx rows))"

definition inspection_count_statement where
  "inspection_count_statement ctx analytics_type calculation_id_contains rows =
     length (inspection_filter ctx analytics_type calculation_id_contains rows)"

definition inspection_items_statement where
  "inspection_items_statement d ctx limit offset analytics_type calculation_id_contains rows =
     take limit (drop offset (inspection_order d ctx
       (inspection_filter ctx analytics_type calculation_id_contains rows)))"

record compute_queue_inspection_page =
  pg_total_count :: nat
  pg_next_offset :: "nat option"
  pg_items :: "compute_queue_inspection_item list"

definition list_inspection_items ::
    "string \<Rightarrow> nat \<Rightarrow> nat \<Rightarrow> rat \<Rightarrow> string option \<Rightarrow> string option \<Rightarrow> instant \<Rightarrow> database
      \<Rightarrow> store_error + compute_queue_inspection_page" where
  "list_inspection_items status_filter limit offset min_age_seconds analytics_type calculation_id_contains now db =
     (case build_inspection_query_context status_filter min_age_seconds now of
        Inl m \<Rightarrow> Inl (ValueError m)
      | Inr ctx \<Rightarrow>
          let items = List.map (to_inspection_item (iqc_now ctx))
                (inspection_items_statement (db_dialect_name db) ctx limit offset analytics_type calculation_id_contains (db_jobs db));
              total = inspection_count_statement ctx analytics_type calculation_id_contains (db_jobs db)
          in Inr \<lparr>pg_total_count = total, pg_next_offset = next_offset_or_none offset (length items) total,
                  pg_items = items\<rparr>)"

end
