(* ===== verification/Query_Safety.thy ===== *)
theory Query_Safety
  imports Job_Queries
begin

text \<open>
  What an operator may rely on: the statistics add up and agree with reconciliation, offset
  paging visits every matching job once, a keyset cursor continues where the page ended, and
  the age shown for an item is the age its filter used.
\<close>

section \<open>Statistics\<close>

text \<open>
  The five status counts partition the table; the reclaimable count is exactly the
  number of jobs a reconciliation at that time takes and the total of the reclaimable inspection;
  the retry backlog is part of the pending jobs and terminal failures part of the failed ones.\<close>

theorem queue_stats_consistent:
  fixes now :: instant and db :: database
  defines "q \<equiv> get_queue_stats now db"
  shows "(qs_pending_count q + qs_leased_count q + qs_running_count q + qs_failed_count q + qs_complete_count q
      = length (db_jobs db))
    \<and> (qs_reclaimable_count q = length (fst (reconcile_stale_jobs (\<lambda>_. False) now db)))
    \<and> (map_sum (\<lambda>_. ()) pg_total_count (list_inspection_items INSPECTION_STATUS_RECLAIMABLE limit offset 0 None None now db)
      = Inr (qs_reclaimable_count q))
    \<and> (qs_retry_backlog_count q \<le> qs_pending_count q \<and> qs_terminal_failure_count q \<le> qs_failed_count q)"
proof (rule conj4I)
  have split: "length (filter (\<lambda>r. job_status r = JPending) rows) + length (filter (\<lambda>r. job_status r = JLeased) rows)
      + length (filter (\<lambda>r. job_status r = JRunning) rows) + length (filter (\<lambda>r. job_status r = JFailed) rows)
      + length (filter (\<lambda>r. job_status r = JComplete) rows) = length rows" for rows
  proof (induction rows)
    case (Cons r rows)
    then show ?case by (cases "job_status r") simp_all
  qed simp
  then show "qs_pending_count q + qs_leased_count q + qs_running_count q + qs_failed_count q + qs_complete_count q
      = length (db_jobs db)" by (simp add: q_def get_queue_stats_def count_where_def Let_def)
  show "qs_reclaimable_count q = length (fst (reconcile_stale_jobs (\<lambda>_. False) now db))"
    by (simp add: q_def get_queue_stats_def count_where_def Let_def reconcile_stale_jobs_def reconcile_rows_result
        reconcile_stale_jobs_statement_def reclaimable_def [abs_def] skip_locked_def cong: conj_cong)
  have "lower INSPECTION_STATUS_RECLAIMABLE = INSPECTION_STATUS_RECLAIMABLE" by code_simp
  then show "map_sum (\<lambda>_. ()) pg_total_count (list_inspection_items INSPECTION_STATUS_RECLAIMABLE limit offset 0 None None now db)
      = Inr (qs_reclaimable_count q)"
    by (simp add: list_inspection_items_def build_inspection_query_context_def SUPPORTED_INSPECTION_STATUS_FILTERS_def
        inspection_count_statement_def inspection_filter_def inspected_rows_def apply_calculation_filters_def
        apply_calculation_id_prefix_filter_def apply_min_age_filter_def q_def get_queue_stats_def count_where_def Let_def)
  have mono: "length (filter p rows) \<le> length (filter p' rows)" if "\<And>r. p r \<Longrightarrow> p' r" for p p' and rows :: "compute_job_row list"
    using that by (induction rows) (auto simp: le_Suc_eq)
  show "qs_retry_backlog_count q \<le> qs_pending_count q \<and> qs_terminal_failure_count q \<le> qs_failed_count q"
    unfolding q_def get_queue_stats_def count_where_def Let_def
    by (auto intro!: mono simp: is_retry_backlog_def is_terminal_failure_def)
qed

section \<open>Offset paging\<close>

text \<open>A client that follows \<open>next_offset\<close> until there is none.\<close>

fun visit_pages :: "(nat \<Rightarrow> store_error + compute_queue_inspection_page) \<Rightarrow> nat \<Rightarrow> nat \<Rightarrow> compute_queue_inspection_item list" where
  "visit_pages page 0 offset = []"
| "visit_pages page (Suc n) offset =
     (case page offset of Inl _ \<Rightarrow> []
      | Inr p \<Rightarrow> pg_items p @ (case pg_next_offset p of None \<Rightarrow> [] | Some o' \<Rightarrow> visit_pages page n o'))"

lemma visit_pages_drop:
  assumes page: "\<And>offset. page offset = Inr \<lparr>pg_total_count = length xs,
      pg_next_offset = next_offset_or_none offset (length (take limit (drop offset xs))) (length xs),
      pg_items = take limit (drop offset xs)\<rparr>"
    and limit: "0 < limit" "length xs < offset + n"
  shows "visit_pages page n offset = drop offset xs"
  using limit(2)
proof (induction n arbitrary: offset)
  case (Suc n)
  show ?case
  proof (cases "offset + length (take limit (drop offset xs)) < length xs")
    case True
    then have len: "length (take limit (drop offset xs)) = limit" by (auto simp: min_def split: if_splits)
    then have "visit_pages page n (offset + limit) = drop (offset + limit) xs"
      using Suc.prems limit(1) by (intro Suc.IH) linarith
    moreover have "take limit (drop offset xs) @ drop (offset + limit) xs = drop offset xs"
      by (metis add.commute append_take_drop_id drop_drop)
    ultimately show ?thesis using True len by (simp add: page [of offset] next_offset_or_none_def Let_def)
  next
    case False
    then have "take limit (drop offset xs) = drop offset xs" by (auto simp: min_def split: if_splits)
    with False show ?thesis by (simp add: page [of offset] next_offset_or_none_def Let_def)
  qed
qed simp

lemma mset_sort_desc [simp]: "mset (sort_desc f rows) = mset rows"
  by (simp add: sort_desc_def)

text \<open>Following the offsets of an inspection list visits every matching job exactly once, in the
  list's order, for every page size: the pages concatenate to the one ordered list of the rows
  the total counts.\<close>

theorem inspection_paging_complete:
  fixes db :: database and ty prefix :: "string option" and ctx :: inspection_query_context
  assumes "build_inspection_query_context status_filter min_age now = Inr ctx" "0 < limit"
  defines "rows \<equiv> inspection_filter ctx ty prefix (db_jobs db)"
  shows "(visit_pages (\<lambda>offset. list_inspection_items status_filter limit offset min_age ty prefix now db)
        (Suc (length rows)) 0 = List.map (to_inspection_item now) (inspection_order (db_dialect_name db) ctx rows))
    \<and> (mset (inspection_order (db_dialect_name db) ctx rows) = mset rows)"
proof (rule conjI)
  let ?xs = "List.map (to_inspection_item now) (inspection_order (db_dialect_name db) ctx rows)"
  have now: "iqc_now ctx = now"
    using assms(1) by (auto simp: build_inspection_query_context_def Let_def split: if_splits)
  show perm: "mset (inspection_order (db_dialect_name db) ctx rows) = mset rows"
    by (simp add: inspection_order_def)
  then have len: "length ?xs = length rows" by (metis length_map mset_eq_length)
  have "list_inspection_items status_filter limit offset min_age ty prefix now db = Inr \<lparr>pg_total_count = length ?xs,
      pg_next_offset = next_offset_or_none offset (length (take limit (drop offset ?xs))) (length ?xs),
      pg_items = take limit (drop offset ?xs)\<rparr>" for offset
    using len by (simp add: list_inspection_items_def assms(1) inspection_items_statement_def
        inspection_count_statement_def rows_def now Let_def take_map drop_map)
  from visit_pages_drop [OF this assms(2), of 0 "Suc (length rows)"] len
  show "visit_pages (\<lambda>offset. list_inspection_items status_filter limit offset min_age ty prefix now db)
        (Suc (length rows)) 0 = ?xs" by simp
qed

section \<open>Keyset paging of recoveries\<close>

lemma sort_desc_filter: "sort_desc f (filter p rows) = filter p (sort_desc f rows)"
  by (simp only: sort_desc_def rev_filter [symmetric] filter_sort)

lemma sort_desc_strict:
  assumes "distinct (List.map f rows)"
  shows "sorted_wrt (\<lambda>x y. f y < f x) (sort_desc f rows)"
proof -
  have "distinct (List.map f (sort_key f (rev rows)))" using assms by (simp add: distinct_map)
  moreover have "sorted (List.map f (sort_key f (rev rows)))" by simp
  ultimately have "sorted_wrt (<) (List.map f (sort_key f (rev rows)))" using strict_sorted_iff by blast
  then show ?thesis by (simp add: sort_desc_def sorted_wrt_rev sorted_wrt_map)
qed

lemma filter_below_drop:
  "sorted_wrt (\<lambda>x y. f y < (f x :: 'b :: linorder)) xs \<Longrightarrow> n < length xs \<Longrightarrow>
   filter (\<lambda>r. f r < f (xs ! n)) xs = drop (Suc n) xs"
proof (induction xs arbitrary: n)
  case (Cons x xs)
  show ?case
  proof (cases n)
    case 0
    then show ?thesis using Cons.prems(1) by (simp add: filter_id_conv)
  next
    case (Suc m)
    then have m: "m < length xs" using Cons.prems by simp
    then have "f (xs ! m) < f x" using Cons.prems(1) by simp
    then show ?thesis using Suc m Cons by (simp add: less_imp_not_less)
  qed
qed simp

lemma filtered_recoveries_cursor:
  assumes "rf_cursor_recovered_before f = None" "k \<noteq> []"
  shows "filtered_recoveries (f\<lparr>rf_cursor_recovered_before := Some d, rf_cursor_calculation_id_before := Some k\<rparr>) rows
     = filter (\<lambda>r. recovery_order r < (instant_of d, k)) (filtered_recoveries f rows)"
proof -
  have "recovery_seek_cursor_filter (instant_of d) (Some k) r \<longleftrightarrow> recovery_order r < (instant_of d, k)"
    if "job_last_error_at_utc r \<noteq> None" for r
    using that assms(2) by (auto simp: recovery_seek_cursor_filter_def sql_cmp_def recovery_order_def or_empty_def)
  then show ?thesis
    unfolding filtered_recoveries_def apply_recovery_time_filters_def apply_calculation_filters_def
      apply_calculation_id_prefix_filter_def
    by (auto simp: assms(1) is_recovered_def intro!: filter_cong simp del: not_None_eq)
qed

lemma filtered_recoveries_mem:
  "r \<in> set (filtered_recoveries f rows) \<Longrightarrow> r \<in> set rows \<and> job_last_error_at_utc r \<noteq> None"
  by (auto simp: filtered_recoveries_def apply_recovery_time_filters_def apply_calculation_filters_def
      apply_calculation_id_prefix_filter_def is_recovered_def split: if_splits)

lemma distinct_recoveries:
  assumes "distinct (List.map job_calculation_id rows)"
  shows "distinct (List.map recovery_order (filtered_recoveries f rows))"
proof -
  have "\<exists>p. filtered_recoveries f rows = filter p rows"
    by (auto simp: filtered_recoveries_def apply_recovery_time_filters_def apply_calculation_filters_def
      apply_calculation_id_prefix_filter_def)
  then obtain p where p: "filtered_recoveries f rows = filter p rows" by blast
  have "distinct (List.map job_calculation_id (filter p rows))" using assms by (rule distinct_map_filterI)
  then show ?thesis unfolding p by (auto simp: distinct_map recovery_order_def inj_on_def)
qed

definition event_of :: "compute_job_row \<Rightarrow> compute_recovery_event" where
  "event_of r = the (to_recovery_event r)"

lemma stamp_Some: "stamp (Some t) = Some (iso_body t @ ''Z'')"
  using format_timestamp_utc [of "utc t"] by (simp add: stamp_def)

lemma events_of_recoveries:
  "\<forall>r \<in> set rows. job_last_error_at_utc r \<noteq> None \<Longrightarrow> recovery_events_from_rows rows = List.map event_of rows"
  by (induction rows)
    (auto simp: recovery_events_from_rows_def map_filter_simps event_of_def to_recovery_event_def stamp_Some)

text \<open>
  When a page of recovery events has a successor, its cursor is the time and id of its last
  event, and asking for the events before that cursor, from the start, returns exactly what
  asking for the next offset would: keyset paging neither skips nor repeats a recovery, also
  among recoveries of the same instant.\<close>

theorem recovery_cursor_continues:
  assumes ok: "jobs_ok db" and ids: "\<forall>r \<in> set (db_jobs db). job_calculation_id r \<noteq> []"
    and base: "rf_cursor_recovered_before f = None"
    and more: "rp_next_offset (list_recent_recoveries n 0 f db) = Some n'" "0 < n"
  shows "\<exists>t k. rp_next_cursor_recovered_before (list_recent_recoveries n 0 f db) = stamp (Some t)
     \<and> rp_next_cursor_calculation_id_before (list_recent_recoveries n 0 f db) = Some k
     \<and> (\<forall>m. rp_items (list_recent_recoveries m 0
             (f\<lparr>rf_cursor_recovered_before := Some (utc t), rf_cursor_calculation_id_before := Some k\<rparr>) db)
          = rp_items (list_recent_recoveries m n' f db))"
proof -
  let ?d = "db_dialect_name db"
  let ?f = "recovery_query_filters ?d f"
  let ?S = "sort_desc recovery_order (filtered_recoveries ?f (db_jobs db))"
  have base': "rf_cursor_recovered_before ?f = None"
    using base by (simp add: recovery_query_filters_def normalize_filter_datetime_def)
  have S_mem: "r \<in> set (db_jobs db) \<and> job_last_error_at_utc r \<noteq> None" if "r \<in> set ?S" for r
    using that filtered_recoveries_mem by (metis mset_sort_desc set_mset_mset)
  have sub: "\<forall>r \<in> set (take m (drop j ?S)). job_last_error_at_utc r \<noteq> None" for m j
    using S_mem by (meson in_set_dropD in_set_takeD)
  have items: "rp_items (list_recent_recoveries m j f db) = List.map event_of (take m (drop j ?S))" for m j
    using events_of_recoveries [OF sub]
    by (simp add: list_recent_recoveries_def compute_recovery_event_page_of_def recent_recoveries_statement_def Let_def)
  have raw: "rp_items (list_recent_recoveries m j g db) = recovery_events_from_rows
      (recent_recoveries_statement m j (recovery_query_filters ?d g) (db_jobs db))" for m j g
    by (simp add: list_recent_recoveries_def compute_recovery_event_page_of_def Let_def)
  have total: "length (filtered_recoveries ?f (db_jobs db)) = length ?S" by (metis mset_sort_desc size_mset)
  have strict: "sorted_wrt (\<lambda>x y. recovery_order y < recovery_order x) ?S"
    using ok by (intro sort_desc_strict distinct_recoveries) (simp add: jobs_ok_def tbl_ok_def)
  have page: "rp_next_offset (list_recent_recoveries n 0 f db) = next_offset_or_none 0 (length (take n ?S)) (length ?S)"
    using items [of n 0]
    by (simp add: list_recent_recoveries_def compute_recovery_event_page_of_def Let_def total)
  then have n: "n' = n" "n < length ?S"
    using more by (auto simp: next_offset_or_none_def min_def Let_def split: if_splits)
  let ?r = "?S ! (n - 1)"
  have r: "?r \<in> set ?S" using n(2) more(2) by (intro nth_mem) linarith
  then obtain t where t: "job_last_error_at_utc ?r = Some t" using S_mem by blast
  have kne: "job_calculation_id ?r \<noteq> []" using S_mem [OF r] ids by blast
  have last: "last (take n ?S) = ?r"
    using n(2) more(2) by (metis Suc_pred' last_snoc less_imp_diff_less take_Suc_conv_app_nth)
  have ne: "take n ?S \<noteq> []" using n(2) more(2) by auto
  have cursor: "rp_next_cursor_recovered_before (list_recent_recoveries n 0 f db) = Some (ev_recovered_at_utc (event_of ?r))"
    "rp_next_cursor_calculation_id_before (list_recent_recoveries n 0 f db) = Some (ev_calculation_id (event_of ?r))"
    using items [of n 0] page n more(1) ne last
    by (auto simp: list_recent_recoveries_def compute_recovery_event_page_of_def recovery_cursor_or_none_def total Let_def
        last_map)
  have ev: "Some (ev_recovered_at_utc (event_of ?r)) = stamp (Some t)" "ev_calculation_id (event_of ?r) = job_calculation_id ?r"
    using t by (simp_all add: event_of_def to_recovery_event_def stamp_Some)
  have next_rows: "recent_recoveries_statement m 0
      (recovery_query_filters ?d (f\<lparr>rf_cursor_recovered_before := Some (utc t),
         rf_cursor_calculation_id_before := Some (job_calculation_id ?r)\<rparr>)) (db_jobs db) = take m (drop n ?S)" for m
  proof -
    obtain d where d: "normalize_filter_datetime (Some (utc t)) ?d = Some d" "instant_of d = t"
      by (cases "?d = ''sqlite''") (simp_all add: normalize_filter_datetime_def utc_def)
    have "recovery_query_filters ?d (f\<lparr>rf_cursor_recovered_before := Some (utc t),
         rf_cursor_calculation_id_before := Some (job_calculation_id ?r)\<rparr>)
        = ?f\<lparr>rf_cursor_recovered_before := Some d, rf_cursor_calculation_id_before := Some (job_calculation_id ?r)\<rparr>"
      by (simp add: recovery_query_filters_def d(1))
    moreover have "filter (\<lambda>q. recovery_order q < (t, job_calculation_id ?r)) ?S = drop n ?S"
      using filter_below_drop [OF strict, of "n - 1"] n(2) more(2) t by (simp add: recovery_order_def)
    ultimately show ?thesis
      using filtered_recoveries_cursor [OF base' kne, of d "db_jobs db"]
      by (simp add: recent_recoveries_statement_def sort_desc_filter d(2))
  qed
  have "rp_items (list_recent_recoveries m 0 (f\<lparr>rf_cursor_recovered_before := Some (utc t),
         rf_cursor_calculation_id_before := Some (job_calculation_id ?r)\<rparr>) db)
       = rp_items (list_recent_recoveries m n' f db)" for m
    unfolding n(1) items raw [of m 0] next_rows by (rule events_of_recoveries [OF sub])
  then show ?thesis using cursor ev by metis
qed

section \<open>Ages\<close>

text \<open>On every job the queue can produce, the start of its age as an item shows it, with the
  field fallbacks of the Python code, is the instant the SQL age filter compared; so a list
  filtered by minimum age shows no younger item.\<close>

theorem shown_age_is_filtered_age:
  assumes "r \<in> set (db_jobs (run_ops job_step (empty_database dialect) es))"
  shows "inspection_active_since r = active_since_expression r"
  using run_rows_shape(1) [OF assms]
  by (auto simp: inspection_active_since_def active_since_expression_def job_shape_def split: compute_job_status.splits)

end
