(* ===== verification/Job_Witnesses.thy ===== *)
theory Job_Witnesses
  imports Job_Custody Query_Safety
begin

text \<open>
  The properties of the job queue and of source custody on concrete databases: each witness
  applies a property where its hypotheses hold.
\<close>

section \<open>A queue with one returns-series job\<close>

definition demo_events :: "job_event list" where
  "demo_events = [Register ''k1'' ''ReturnsSeries'' '' acme '' [(''a'', JInt 1)] None 3 10,
     Register ''k2'' ''TWR'' ''acme'' [(''b'', JInt 2)] (Some 2) 3 11]"

definition demo_db :: database where
  "demo_db = run_ops job_step (empty_database ''sqlite'') demo_events"

definition demo_lease :: "compute_job_record list \<times> database" where
  "demo_lease = projr (lease_pending_jobs ''w1'' 1 60 None (\<lambda>_. False) 20 demo_db)"

definition demo_running :: database where
  "demo_running = run_ops job_step demo_db [Lease ''w1'' 1 60 None (\<lambda>_. False) 20, Acquire ''k1'' ''w1'' ''cj:1'' 60 30]"

definition demo_done :: database where
  "demo_done = run_ops job_step demo_running [Finish ''k1'' [(''ok'', JBool True)] (Some ''cj:1'') 40]"

lemma demo_facts:
  "jobs_ok demo_db" "jobs_ok demo_running" "jobs_ok demo_done"
  "lease_pending_jobs ''w1'' 1 60 None (\<lambda>_. False) 20 demo_db = Inr demo_lease"
  by code_simp+

lemma demo_lease_first: "hd (fst demo_lease) \<in> set (fst demo_lease)" "rec_calculation_id (hd (fst demo_lease)) = ''k1''"
  "rec_attempt_count (hd (fst demo_lease)) = 0"
  by code_simp+

theorem job_lifecycle_witness: "job_wf (hd (db_jobs (run_ops job_step (empty_database ''sqlite'') demo_events)))"
proof (rule job_lifecycle [rule_format, THEN conjunct2, rule_format, of _ "''sqlite''" demo_events])
  show "hd (db_jobs (run_ops job_step (empty_database ''sqlite'') demo_events))
      \<in> set (db_jobs (run_ops job_step (empty_database ''sqlite'') demo_events))" by code_simp
qed (simp add: demo_events_def)

definition demo_failed :: database where
  "demo_failed = run_ops job_step demo_running [Fail ''k1'' ''boom'' None (Some ''cj:1'') None 40]"

definition demo_late :: "job_event list" where
  "demo_late = [Finish ''k1'' [] (Some ''cj:1'') 41, Finish ''k1'' [(''ok'', JBool True)] None 42, Reconcile (\<lambda>_. False) 90000001]"

theorem terminal_fence_witness:
  "get_job ''k1'' (run_ops job_step demo_failed demo_late) \<noteq> None
   \<and> job_status (the (get_job ''k1'' demo_failed)) = JFailed
   \<and> job_status (the (get_job ''k1'' (run_ops job_step demo_failed demo_late))) = JComplete"
proof (intro conjI)
  have "jobs_ok demo_failed" "get_job ''k1'' demo_failed = Some (the (get_job ''k1'' demo_failed))"
    "job_status (the (get_job ''k1'' demo_failed)) \<in> {JComplete, JFailed}" "list_all (fence_event ''k1'') demo_late"
    by code_simp+
  from terminal_fence [OF this] show "get_job ''k1'' (run_ops job_step demo_failed demo_late) \<noteq> None"
    by (elim disjE exE conjE) simp_all
qed code_simp+

definition demo_meanwhile :: "job_event list" where
  "demo_meanwhile = [Reconcile (\<lambda>_. False) 25, MarkRunning ''k1'' (Some ''w9'') None 26,
     Finish ''k1'' [] (Some ''w9'') 26, Cancel [''k1''] ''acme'' ''stop'' 27]"

lemma demo_foreign: "list_all (foreign_event ''k1'' ''w1'' (20 + timedelta_seconds 60)) demo_meanwhile"
  by code_simp

theorem lease_exclusive_witness:
  "isl (mark_complete ''k1'' [] (Some ''w2'') 30 (run_ops job_step (snd demo_lease) demo_meanwhile))
   \<and> isl (mark_running ''k1'' (Some ''w2'') None 30 (run_ops job_step (snd demo_lease) demo_meanwhile))"
proof -
  have lease: "lease_pending_jobs ''w1'' 1 60 None (\<lambda>_. False) 20 demo_db = Inr (fst demo_lease, snd demo_lease)"
    using demo_facts(4) by simp
  have es: "list_all (foreign_event (rec_calculation_id (hd (fst demo_lease))) ''w1'' (20 + timedelta_seconds 60)) demo_meanwhile"
    using demo_foreign by (simp add: demo_lease_first)
  note exclusive = lease_exclusive [OF demo_facts(1) lease demo_lease_first(1) es demo_lease_first(2) [symmetric] refl,
      of "''w2''" 30]
  show ?thesis using exclusive by (simp add: timedelta_seconds_def)
qed

theorem leased_job_can_start_witness:
  "\<exists>db2 r. mark_running_acquired (rec_calculation_id (hd (fst demo_lease))) ''w1'' ''cj:1'' 60 50
        (run_ops job_step (snd demo_lease) demo_meanwhile) = Inr ((), db2)
     \<and> get_job (rec_calculation_id (hd (fst demo_lease))) db2 = Some r \<and> job_status r = JRunning
     \<and> job_lease_owner_id r = Some ''cj:1'' \<and> job_attempt_count r = rec_attempt_count (hd (fst demo_lease)) + 1"
proof (rule leased_job_can_start [where now = 20 and secs = 60])
  show "jobs_ok demo_db" by (rule demo_facts)
  show "lease_pending_jobs ''w1'' 1 60 None (\<lambda>_. False) 20 demo_db = Inr (fst demo_lease, snd demo_lease)"
    using demo_facts(4) by simp
  show "list_all (foreign_event (rec_calculation_id (hd (fst demo_lease))) ''w1'' (20 + timedelta_seconds 60)) demo_meanwhile"
    using demo_foreign by (simp add: demo_lease_first)
qed (simp_all add: timedelta_seconds_def demo_lease_first)

theorem lease_oldest_first_witness: "length (fst demo_lease) \<le> 1"
  by (rule lease_oldest_first [THEN conjunct1, OF demo_facts(1), of "''w1''" 1 60 "\<lambda>_. False" 20 _ "snd demo_lease"])
    (use demo_facts(4) in simp)

definition demo_reconciled :: "reconciled_job_record list \<times> database" where
  "demo_reconciled = reconcile_stale_jobs (\<lambda>_. False) 90000000 demo_running"

theorem reconcile_clears_stale_witness: "fst (reconcile_stale_jobs (\<lambda>_. False) 90000000 (snd demo_reconciled)) = []"
  by (rule reconcile_clears_stale [THEN conjunct2, THEN conjunct2, THEN conjunct2, OF demo_facts(2), of _ _ "fst demo_reconciled"]) (simp add: demo_reconciled_def)

theorem retry_budget_witness:
  "job_attempt_count (hd (db_jobs demo_running)) \<le> job_max_attempts (hd (db_jobs demo_running))
   \<and> job_attempt_count (hd (db_jobs demo_running)) = 1"
proof (rule conjI, rule retry_budget [THEN conjunct1])
  show "list_all worker_protocol (demo_events @ [Lease ''w1'' 1 60 None (\<lambda>_. False) 20, Acquire ''k1'' ''w1'' ''cj:1'' 60 30])"
    by code_simp
  show "hd (db_jobs demo_running) \<in> set (db_jobs (run_ops job_step (empty_database ''sqlite'')
      (demo_events @ [Lease ''w1'' 1 60 None (\<lambda>_. False) 20, Acquire ''k1'' ''w1'' ''cj:1'' 60 30])))"
    by code_simp
  show "job_attempt_count (hd (db_jobs demo_running)) = 1" by code_simp
qed

definition demo_first :: "compute_job_registration_result \<times> database" where
  "demo_first = projr (register_job ''k7'' ''TWR'' ''acme'' [(''b'', JInt 2), (''a'', JNull)] None 3 50 demo_db)"

definition demo_second :: "compute_job_registration_result \<times> database" where
  "demo_second = projr (register_job ''k7'' ''TWR'' '' acme''
     [(''a'', JNull), (''observability_context'', JStr ''x''), (''b'', JInt 2)] (Some 3) 9 60 (snd demo_first))"

theorem register_idempotent_witness: "snd demo_second = snd demo_first \<and> reg_status (fst demo_second) = Replay"
proof
  have first: "register_job ''k7'' ''TWR'' ''acme'' [(''b'', JInt 2), (''a'', JNull)] None 3 50 demo_db
      = Inr (fst demo_first, snd demo_first)"
    and second: "register_job ''k7'' ''TWR'' '' acme''
     [(''a'', JNull), (''observability_context'', JStr ''x''), (''b'', JInt 2)] (Some 3) 9 60 (snd demo_first)
      = Inr (fst demo_second, snd demo_second)"
    and free: "get_job ''k7'' demo_db = None" by code_simp+
  show "snd demo_second = snd demo_first" by (rule register_idempotent [THEN conjunct2, THEN conjunct1, OF free first second])
  have "strip '' acme'' = strip ''acme''"
    "compute_job_request_identity_json [(''a'', JNull), (''observability_context'', JStr ''x''), (''b'', JInt 2)]
      = compute_job_request_identity_json [(''b'', JInt 2), (''a'', JNull)]"
    "configured_max_attempts (Some 3) 9 = configured_max_attempts None 3" by code_simp+
  then show "reg_status (fst demo_second) = Replay"
    using register_idempotent [THEN conjunct2, THEN conjunct2, OF free first second] by simp
qed

theorem cancel_all_or_nothing_witness:
  "fst (cancel_pending_jobs [''k1'', ''k2''] ''acme'' ''corrected'' 70 demo_db) \<longleftrightarrow>
     distinct [''k1'', ''k2''] \<and> (\<forall>k \<in> set [''k1'', ''k2'']. \<exists>r. get_job k demo_db = Some r
           \<and> job_tenant_id r = Some ''acme'' \<and> job_status r = JPending)"
  by (rule cancel_all_or_nothing [THEN conjunct1, OF demo_facts(1), of _ _ "''corrected''" 70 _
        "snd (cancel_pending_jobs [''k1'', ''k2''] ''acme'' ''corrected'' 70 demo_db)"]) simp

theorem prune_matches_dry_run_witness:
  "prune_terminal_jobs_older_than (Naive 50) True None demo_done
     = (fst (prune_terminal_jobs_older_than (Naive 50) False None demo_done), demo_done)"
  by (rule prune_matches_dry_run [THEN conjunct1, OF demo_facts(3), of _ _ _
        "snd (prune_terminal_jobs_older_than (Naive 50) False None demo_done)"]) simp

section \<open>Custody of the running job\<close>

definition demo_digest :: string where "demo_digest = replicate 64 (CHR ''a'')"

definition demo_claim :: source_custody_claim where
  "demo_claim = \<lparr>cl_calculation_id = ''k1'', cl_tenant_id = ''acme'', cl_attempt_id = ''cj:1'', cl_attempt_number = 1\<rparr>"

definition demo_frozen :: database where
  "demo_frozen = run_ops custody_step demo_running
     [Select demo_claim None None None 31, Select demo_claim (Some demo_digest) None None 32]"

theorem failed_job_closes_custody_witness:
  "custody_closed_for ''k1'' ''acme'' (snd (projr (mark_failed ''k1'' ''boom'' None (Some ''cj:1'') None 34 demo_frozen)))"
proof (rule failed_job_closes_custody [THEN conjunct1, rule_format])
  show "get_job ''k1'' demo_frozen = Some (the (get_job ''k1'' demo_frozen))" by code_simp
  show "job_analytics_type (the (get_job ''k1'' demo_frozen)) = ''ReturnsSeries''" by code_simp
  show "job_tenant_id (the (get_job ''k1'' demo_frozen)) = Some ''acme''" by code_simp
  show "db_has_lineage_table demo_frozen" "jobs_ok demo_frozen" by code_simp+
  show "mark_failed ''k1'' ''boom'' None (Some ''cj:1'') None 34 demo_frozen
      = Inr ((), snd (projr (mark_failed ''k1'' ''boom'' None (Some ''cj:1'') None 34 demo_frozen)))" by code_simp
qed

section \<open>Operator views\<close>

definition demo_recovered :: database where
  "demo_recovered = run_ops job_step demo_db
     [Lease ''w1'' 5 60 None (\<lambda>_. False) 20, Acquire ''k1'' ''w1'' ''cj:1'' 60 30, Acquire ''k2'' ''w1'' ''cj:2'' 60 30,
      Retry ''k1'' ''timeout'' None (Some ''cj:1'') None 40, Retry ''k2'' ''timeout'' None (Some ''cj:2'') None 40]"

definition demo_no_filters :: compute_recovery_query_filters where
  "demo_no_filters = \<lparr>rf_analytics_type = None, rf_calculation_id_contains = None, rf_recovered_after = None,
     rf_recovered_before = None, rf_cursor_recovered_before = None, rf_cursor_calculation_id_before = None\<rparr>"

theorem recovery_cursor_continues_witness:
  "\<exists>t k. rp_next_cursor_recovered_before (list_recent_recoveries 1 0 demo_no_filters demo_recovered) = stamp (Some t)
     \<and> rp_next_cursor_calculation_id_before (list_recent_recoveries 1 0 demo_no_filters demo_recovered) = Some k
     \<and> (\<forall>m. rp_items (list_recent_recoveries m 0
             (demo_no_filters\<lparr>rf_cursor_recovered_before := Some (utc t), rf_cursor_calculation_id_before := Some k\<rparr>) demo_recovered)
          = rp_items (list_recent_recoveries m 1 demo_no_filters demo_recovered))"
proof (rule recovery_cursor_continues)
  show "jobs_ok demo_recovered" by code_simp
  show "\<forall>r \<in> set (db_jobs demo_recovered). job_calculation_id r \<noteq> []" by code_simp
  show "rf_cursor_recovered_before demo_no_filters = None" by (simp add: demo_no_filters_def)
  show "rp_next_offset (list_recent_recoveries 1 0 demo_no_filters demo_recovered) = Some 1" by code_simp
qed simp

definition demo_context :: inspection_query_context where
  "demo_context = projr (build_inspection_query_context ''All'' 0 100)"

theorem inspection_paging_complete_witness:
  "visit_pages (\<lambda>offset. list_inspection_items ''All'' 1 offset 0 None None 100 demo_recovered)
        (Suc (length (inspection_filter demo_context None None (db_jobs demo_recovered)))) 0
     = List.map (to_inspection_item 100) (inspection_order (db_dialect_name demo_recovered) demo_context
         (inspection_filter demo_context None None (db_jobs demo_recovered)))"
  by (rule inspection_paging_complete [THEN conjunct1]) (simp_all add: demo_context_def, code_simp)

theorem shown_age_is_filtered_age_witness:
  "inspection_active_since (hd (db_jobs demo_db)) = active_since_expression (hd (db_jobs demo_db))"
  by (rule shown_age_is_filtered_age [of _ "''sqlite''" demo_events]) code_simp

end
