(* ===== verification/Execution_Registry.thy ===== *)
theory Execution_Registry
  imports Job_Custody
begin

text \<open>
  The execution registry (src/app/services/execution_registry.py): the durable record of one
  calculation, its stages and the upstream snapshots it read. As in the job queue, every
  operation takes the time and the database; a raised exception rolls the transaction back.
\<close>

section \<open>Records\<close>

record execution_stage_record =
  sr_stage_name :: string
  sr_status :: execution_stage_status
  sr_started_at_utc :: "string option"
  sr_completed_at_utc :: "string option"
  sr_details :: "json_dict option"
  sr_error_message :: "string option"

record upstream_snapshot_record =
  us_snapshot_id :: string
  us_upstream_endpoint :: string
  us_source_identifier :: string
  us_as_of_date :: string
  us_request_fingerprint :: string
  us_response_fingerprint :: string
  us_retrieval_status :: string
  us_paging_metadata :: "json_dict option"
  us_created_at_utc :: string

record execution_record =
  er_calculation_id :: uuid
  er_tenant_id :: "string option"
  er_analytics_type :: string
  er_portfolio_id :: "string option"
  er_execution_mode :: string
  er_status :: execution_status
  er_requested_window :: json_dict
  er_request_payload :: "json_dict option"
  er_response_payload :: "json_dict option"
  er_input_fingerprint :: "string option"
  er_calculation_hash :: "string option"
  er_error_message :: "string option"
  er_failure :: "durable_failure_classification option"
  er_created_at_utc :: string
  er_started_at_utc :: "string option"
  er_completed_at_utc :: "string option"
  er_stages :: "execution_stage_record list"
  er_upstream_snapshots :: "upstream_snapshot_record list"

record execution_registration_result =
  xr_status :: registration_status
  xr_existing_status :: "execution_status option"
  xr_existing_execution_mode :: "string option"
  xr_calculation_id :: "uuid option"
  xr_request_payload :: "json_dict option"
  xr_response_payload_available :: bool

text \<open>The arguments of a registration, as the caller passes them.\<close>

record execution_request =
  rq_calculation_id :: uuid
  rq_tenant_id :: string
  rq_analytics_type :: string
  rq_portfolio_id :: "string option"
  rq_execution_mode :: string
  rq_requested_window :: "json_dict option"
  rq_input_fingerprint :: "string option"
  rq_calculation_hash :: "string option"
  rq_request_payload :: "json_dict option"
  rq_submission_idempotency_key_hash :: "string option"
  rq_submission_identity_fingerprint :: "string option"
  rq_submission_contract_version :: "string option"

section \<open>Registration\<close>

text \<open>\<open>json.dumps(requested_window or {}, sort_keys=True)\<close>.\<close>

definition window_json :: "json_dict option \<Rightarrow> json_text" where
  "window_json w = dumps_dict (case w of None \<Rightarrow> [] | Some d \<Rightarrow> d)"

definition execution_model_for_registration :: "execution_request \<Rightarrow> instant \<Rightarrow> execution_row" where
  "execution_model_for_registration rq created_at =
     \<lparr>ex_calculation_id = rq_calculation_id rq, ex_tenant_id = Some (strip (rq_tenant_id rq)),
      ex_analytics_type = rq_analytics_type rq, ex_portfolio_id = rq_portfolio_id rq,
      ex_execution_mode = rq_execution_mode rq, ex_status = EPending,
      ex_requested_window_json = window_json (rq_requested_window rq),
      ex_request_json = map_option dumps_dict (rq_request_payload rq), ex_response_json = None,
      ex_submission_idempotency_key_hash = rq_submission_idempotency_key_hash rq,
      ex_submission_identity_fingerprint = rq_submission_identity_fingerprint rq,
      ex_submission_contract_version = rq_submission_contract_version rq,
      ex_input_fingerprint = rq_input_fingerprint rq, ex_calculation_hash = rq_calculation_hash rq,
      ex_error_message = None, ex_failure_json = None, ex_created_at_utc = created_at,
      ex_started_at_utc = None, ex_completed_at_utc = None\<rparr>"

definition load_object :: "json_text option \<Rightarrow> json_dict option" where
  "load_object raw = load_json_object_or_none raw True"

definition existing_execution_registration_result ::
    "registration_status \<Rightarrow> execution_row \<Rightarrow> execution_registration_result" where
  "existing_execution_registration_result status existing =
     \<lparr>xr_status = status, xr_existing_status = Some (ex_status existing),
      xr_existing_execution_mode = Some (ex_execution_mode existing),
      xr_calculation_id = Some (ex_calculation_id existing),
      xr_request_payload = load_object (ex_request_json existing),
      xr_response_payload_available = (ex_response_json existing \<noteq> None)\<rparr>"

definition existing_execution_replay_signature where
  "existing_execution_replay_signature r =
     (ex_tenant_id r, ex_analytics_type r, ex_portfolio_id r, ex_execution_mode r, ex_requested_window_json r,
      ex_input_fingerprint r, ex_calculation_hash r)"

definition requested_execution_replay_signature where
  "requested_execution_replay_signature rq =
     (Some (strip (rq_tenant_id rq)), rq_analytics_type rq, rq_portfolio_id rq, rq_execution_mode rq,
      window_json (rq_requested_window rq), rq_input_fingerprint rq, rq_calculation_hash rq)"

definition is_replay_of_existing_execution :: "execution_row \<Rightarrow> execution_request \<Rightarrow> bool" where
  "is_replay_of_existing_execution existing rq =
     (existing_execution_replay_signature existing = requested_execution_replay_signature rq)"

text \<open>
  The unique index \<open>ux_execution_submission_idempotency\<close> over tenant, workflow and key hash;
  rows without a hash do not take part in it.
\<close>

definition idempotency_owner :: "execution_request \<Rightarrow> execution_row \<Rightarrow> bool" where
  "idempotency_owner rq r \<longleftrightarrow> ex_tenant_id r = Some (strip (rq_tenant_id rq))
     \<and> ex_analytics_type r = rq_analytics_type rq
     \<and> ex_submission_idempotency_key_hash r = rq_submission_idempotency_key_hash rq"

definition violates_integrity :: "execution_request \<Rightarrow> database \<Rightarrow> bool" where
  "violates_integrity rq db \<longleftrightarrow> get_execution_row (rq_calculation_id rq) db \<noteq> None
     \<or> (rq_submission_idempotency_key_hash rq \<noteq> None \<and> (\<exists>r \<in> set (db_executions db). idempotency_owner rq r))"

definition registration_result_for_duplicate_execution ::
    "execution_request \<Rightarrow> database \<Rightarrow> store_error + execution_registration_result" where
  "registration_result_for_duplicate_execution rq db =
     (case (if rq_submission_idempotency_key_hash rq = None then None
            else find (idempotency_owner rq) (db_executions db)) of
        Some owner \<Rightarrow>
          let is_replay = (ex_submission_identity_fingerprint owner = rq_submission_identity_fingerprint rq
                 \<and> ex_submission_contract_version owner = rq_submission_contract_version rq)
          in Inr (existing_execution_registration_result (if is_replay then Replay else Conflict) owner)
      | None \<Rightarrow>
          (case get_execution_row (rq_calculation_id rq) db of
             None \<Rightarrow> Inl IntegrityError
           | Some existing \<Rightarrow>
               if rq_submission_idempotency_key_hash rq \<noteq> None
                 then Inr (existing_execution_registration_result Conflict existing)
               else if is_replay_of_existing_execution existing rq
                 then Inr (existing_execution_registration_result Replay existing)
               else Inr (existing_execution_registration_result Conflict existing)))"

definition register_execution ::
    "execution_request \<Rightarrow> instant \<Rightarrow> database \<Rightarrow> store_error + execution_registration_result \<times> database" where
  "register_execution rq now db =
     (if violates_integrity rq db
      then bind_res (registration_result_for_duplicate_execution rq db) (\<lambda>r. Inr (r, db))
      else Inr (\<lparr>xr_status = Created, xr_existing_status = None, xr_existing_execution_mode = None,
                 xr_calculation_id = Some (rq_calculation_id rq), xr_request_payload = rq_request_payload rq,
                 xr_response_payload_available = False\<rparr>,
                add_execution (execution_model_for_registration rq now) db))"

text \<open>
  \<open>session.merge\<close>: the submission columns and the stored failure of an existing row, which
  the given instance does not set, stay as they are.
\<close>

definition merged_execution :: "execution_request \<Rightarrow> instant \<Rightarrow> database \<Rightarrow> database" where
  "merged_execution rq now db =
     (let row = (execution_model_for_registration rq now)\<lparr>ex_submission_idempotency_key_hash := None,
            ex_submission_identity_fingerprint := None, ex_submission_contract_version := None\<rparr>
      in case get_execution_row (rq_calculation_id rq) db of
           None \<Rightarrow> add_execution row db
         | Some old \<Rightarrow> update_execution (rq_calculation_id rq)
             (\<lambda>_. row\<lparr>ex_submission_idempotency_key_hash := ex_submission_idempotency_key_hash old,
                      ex_submission_identity_fingerprint := ex_submission_identity_fingerprint old,
                      ex_submission_contract_version := ex_submission_contract_version old,
                      ex_failure_json := ex_failure_json old\<rparr>) db)"

text \<open>
  A merge that re-tenants a row with an idempotency key could break the unique index; the
  registry then raises the engine's error.
\<close>

definition create_execution :: "execution_request \<Rightarrow> instant \<Rightarrow> database \<Rightarrow> store_error + unit \<times> database" where
  "create_execution rq now db =
     (let db' = merged_execution rq now db;
          index = List.map (\<lambda>r. (ex_tenant_id r, ex_analytics_type r, ex_submission_idempotency_key_hash r))
                    (filter (\<lambda>r. ex_submission_idempotency_key_hash r \<noteq> None \<and> ex_tenant_id r \<noteq> None) (db_executions db'))
      in if distinct index then Inr ((), db') else Inl IntegrityError)"

section \<open>Execution state\<close>

definition get_execution_model :: "uuid \<Rightarrow> database \<Rightarrow> store_error + execution_row" where
  "get_execution_model calculation_id db =
     of_option (KeyError (''Execution record not found: '' @ calculation_id)) (get_execution_row calculation_id db)"

definition get_stage_model :: "uuid \<Rightarrow> string \<Rightarrow> database \<Rightarrow> store_error + stage_row" where
  "get_stage_model calculation_id stage_name db =
     of_option (KeyError (''Execution stage not found: '' @ calculation_id @ ''/'' @ stage_name))
       (get_stage_row (calculation_id, stage_name) db)"

definition execution_running :: "instant \<Rightarrow> execution_row \<Rightarrow> execution_row" where
  "execution_running now e = e\<lparr>ex_status := ERunning, ex_started_at_utc := opt_or (ex_started_at_utc e) now,
     ex_completed_at_utc := None, ex_error_message := None, ex_failure_json := None\<rparr>"

definition mark_execution_running :: "uuid \<Rightarrow> instant \<Rightarrow> database \<Rightarrow> store_error + unit \<times> database" where
  "mark_execution_running calculation_id now db =
     bind_res (get_execution_model calculation_id db) (\<lambda>_.
     Inr ((), update_execution calculation_id (execution_running now) db))"

definition execution_complete :: "instant \<Rightarrow> execution_row \<Rightarrow> execution_row" where
  "execution_complete now e = e\<lparr>ex_status := EComplete, ex_started_at_utc := opt_or (ex_started_at_utc e) now,
     ex_completed_at_utc := Some now, ex_error_message := None, ex_failure_json := None\<rparr>"

definition mark_execution_complete :: "uuid \<Rightarrow> instant \<Rightarrow> database \<Rightarrow> store_error + unit \<times> database" where
  "mark_execution_complete calculation_id now db =
     bind_res (get_execution_model calculation_id db) (\<lambda>_.
     Inr ((), update_execution calculation_id (execution_complete now) db))"

definition execution_failed ::
    "string \<Rightarrow> durable_failure_classification option \<Rightarrow> instant \<Rightarrow> execution_row \<Rightarrow> execution_row" where
  "execution_failed error_message failure now e = e\<lparr>ex_status := EFailed,
     ex_started_at_utc := opt_or (ex_started_at_utc e) now, ex_completed_at_utc := Some now,
     ex_error_message := Some error_message, ex_failure_json := map_option to_json failure\<rparr>"

definition mark_execution_failed ::
    "uuid \<Rightarrow> string \<Rightarrow> durable_failure_classification option \<Rightarrow> instant \<Rightarrow> database \<Rightarrow> store_error + unit \<times> database" where
  "mark_execution_failed calculation_id error_message failure now db =
     bind_res (get_execution_model calculation_id db) (\<lambda>e.
     Inr ((), fail_terminal_source_custody [ex_calculation_id e] (ex_tenant_id e)
                (if ex_execution_mode e = ''sync'' then Some (ex_analytics_type e) else None) now
                (update_execution calculation_id (execution_failed error_message failure now) db)))"

definition update_execution_identity ::
    "uuid \<Rightarrow> string option \<Rightarrow> string option \<Rightarrow> json_dict option \<Rightarrow> database \<Rightarrow> store_error + unit \<times> database" where
  "update_execution_identity calculation_id input_fingerprint calculation_hash request_payload db =
     bind_res (get_execution_model calculation_id db) (\<lambda>_.
     Inr ((), update_execution calculation_id (\<lambda>e. e\<lparr>ex_input_fingerprint := input_fingerprint,
        ex_calculation_hash := calculation_hash,
        ex_request_json := (case request_payload of None \<Rightarrow> ex_request_json e | Some p \<Rightarrow> Some (dumps_dict p))\<rparr>) db))"

definition retain_response_payload :: "uuid \<Rightarrow> json_dict \<Rightarrow> database \<Rightarrow> store_error + unit \<times> database" where
  "retain_response_payload calculation_id response_payload db =
     bind_res (get_execution_model calculation_id db) (\<lambda>_.
     Inr ((), update_execution calculation_id (\<lambda>e. e\<lparr>ex_response_json := Some (dumps_dict response_payload)\<rparr>) db))"

definition update_execution_contract ::
    "uuid \<Rightarrow> string option \<Rightarrow> json_dict option \<Rightarrow> database \<Rightarrow> store_error + unit \<times> database" where
  "update_execution_contract calculation_id execution_mode requested_window db =
     bind_res (get_execution_model calculation_id db) (\<lambda>_.
     Inr ((), update_execution calculation_id (\<lambda>e. e\<lparr>
        ex_execution_mode := (case execution_mode of None \<Rightarrow> ex_execution_mode e | Some m \<Rightarrow> m),
        ex_requested_window_json := (case requested_window of None \<Rightarrow> ex_requested_window_json e
                                     | Some w \<Rightarrow> dumps_dict w)\<rparr>) db))"

section \<open>Stages\<close>

definition details_or :: "json_dict option \<Rightarrow> json_text option \<Rightarrow> json_text option" where
  "details_or details old = (case details of None \<Rightarrow> old | Some d \<Rightarrow> Some (dumps_dict d))"

definition new_stage :: "uuid \<Rightarrow> string \<Rightarrow> json_dict option \<Rightarrow> instant \<Rightarrow> stage_row" where
  "new_stage calculation_id stage_name details now = \<lparr>st_calculation_id = calculation_id, st_stage_name = stage_name,
     st_status = SInProgress, st_started_at_utc = Some now, st_completed_at_utc = None,
     st_details_json = details_or details None, st_error_message = None\<rparr>"

definition restarted_stage :: "json_dict option \<Rightarrow> instant \<Rightarrow> stage_row \<Rightarrow> stage_row" where
  "restarted_stage details now s = s\<lparr>st_status := SInProgress, st_started_at_utc := Some now,
     st_completed_at_utc := None, st_details_json := details_or details (st_details_json s), st_error_message := None\<rparr>"

definition start_stage :: "uuid \<Rightarrow> string \<Rightarrow> json_dict option \<Rightarrow> instant \<Rightarrow> database \<Rightarrow> store_error + unit \<times> database" where
  "start_stage calculation_id stage_name details now db =
     bind_res (get_execution_model calculation_id db) (\<lambda>_.
     Inr ((), case get_stage_row (calculation_id, stage_name) db of
        None \<Rightarrow> db\<lparr>db_stages := tbl_add (new_stage calculation_id stage_name details now) (db_stages db)\<rparr>
      | Some _ \<Rightarrow> update_stage (calculation_id, stage_name) (restarted_stage details now) db))"

definition completed_stage :: "json_dict option \<Rightarrow> instant \<Rightarrow> stage_row \<Rightarrow> stage_row" where
  "completed_stage details now s = s\<lparr>st_status := SComplete, st_started_at_utc := opt_or (st_started_at_utc s) now,
     st_completed_at_utc := Some now, st_details_json := details_or details (st_details_json s), st_error_message := None\<rparr>"

definition complete_stage :: "uuid \<Rightarrow> string \<Rightarrow> json_dict option \<Rightarrow> instant \<Rightarrow> database \<Rightarrow> store_error + unit \<times> database" where
  "complete_stage calculation_id stage_name details now db =
     bind_res (get_execution_model calculation_id db) (\<lambda>_.
     bind_res (get_stage_model calculation_id stage_name db) (\<lambda>_.
     Inr ((), update_stage (calculation_id, stage_name) (completed_stage details now) db)))"

definition complete_stage_if_in_progress ::
    "uuid \<Rightarrow> string \<Rightarrow> json_dict option \<Rightarrow> instant \<Rightarrow> database \<Rightarrow> store_error + bool \<times> database" where
  "complete_stage_if_in_progress calculation_id stage_name details now db =
     bind_res (get_execution_model calculation_id db) (\<lambda>_.
     case get_stage_row (calculation_id, stage_name) db of
       None \<Rightarrow> Inr (False, db)
     | Some s \<Rightarrow>
         if st_status s \<noteq> SInProgress then Inr (False, db)
         else Inr (True, update_stage (calculation_id, stage_name)
           (\<lambda>s. s\<lparr>st_status := SComplete, st_completed_at_utc := Some now,
                   st_details_json := details_or details (st_details_json s), st_error_message := None\<rparr>) db))"

text \<open>The guarded \<open>UPDATE \<dots> WHERE status != 'failed'\<close> that finishes lineage and execution together.\<close>

definition fenced_completion :: "uuid \<Rightarrow> instant \<Rightarrow> database \<Rightarrow> database \<times> nat" where
  "fenced_completion calculation_id now db =
     (let (rows, n) = tbl_update_where (\<lambda>e. ex_calculation_id e = calculation_id \<and> ex_status e \<noteq> EFailed)
            (\<lambda>e. e\<lparr>ex_status := EComplete, ex_started_at_utc := opt_or (ex_started_at_utc e) now,
                    ex_completed_at_utc := Some now, ex_error_message := None\<rparr>) (db_executions db)
      in (db\<lparr>db_executions := rows\<rparr>, n))"

definition complete_stage_and_execution ::
    "uuid \<Rightarrow> string \<Rightarrow> json_dict option \<Rightarrow> instant \<Rightarrow> database \<Rightarrow> store_error + bool \<times> database" where
  "complete_stage_and_execution calculation_id stage_name details now db =
     (let (db1, rowcount) = fenced_completion calculation_id now db in
      if rowcount \<noteq> 1 then Inr (False, db1)
      else bind_res (get_stage_model calculation_id stage_name db1) (\<lambda>_.
           Inr (True, update_stage (calculation_id, stage_name) (completed_stage details now) db1)))"

definition stage_status :: "uuid \<Rightarrow> string \<Rightarrow> database \<Rightarrow> execution_stage_status option" where
  "stage_status calculation_id stage_name db = map_option st_status (get_stage_row (calculation_id, stage_name) db)"

definition stage_is_complete :: "uuid \<Rightarrow> string \<Rightarrow> database \<Rightarrow> bool" where
  "stage_is_complete calculation_id stage_name db = (stage_status calculation_id stage_name db = Some SComplete)"

definition failed_stage :: "string \<Rightarrow> instant \<Rightarrow> stage_row \<Rightarrow> stage_row" where
  "failed_stage error_message now s = s\<lparr>st_status := SFailed, st_started_at_utc := opt_or (st_started_at_utc s) now,
     st_completed_at_utc := Some now, st_error_message := Some error_message\<rparr>"

definition fail_stage :: "uuid \<Rightarrow> string \<Rightarrow> string \<Rightarrow> instant \<Rightarrow> database \<Rightarrow> store_error + unit \<times> database" where
  "fail_stage calculation_id stage_name error_message now db =
     bind_res (get_stage_model calculation_id stage_name db) (\<lambda>_.
     Inr ((), update_stage (calculation_id, stage_name) (failed_stage error_message now) db))"

definition fail_stage_and_execution ::
    "uuid \<Rightarrow> string \<Rightarrow> string \<Rightarrow> instant \<Rightarrow> database \<Rightarrow> store_error + unit \<times> database" where
  "fail_stage_and_execution calculation_id stage_name error_message now db =
     bind_res (get_execution_model calculation_id db) (\<lambda>_.
     bind_res (get_stage_model calculation_id stage_name db) (\<lambda>_.
     Inr ((), update_execution calculation_id
        (\<lambda>e. e\<lparr>ex_status := EFailed, ex_started_at_utc := opt_or (ex_started_at_utc e) now,
                ex_completed_at_utc := Some now, ex_error_message := Some error_message\<rparr>)
        (update_stage (calculation_id, stage_name) (failed_stage error_message now) db))))"

definition fail_in_progress_stages :: "uuid \<Rightarrow> string \<Rightarrow> instant \<Rightarrow> database \<Rightarrow> store_error + unit \<times> database" where
  "fail_in_progress_stages calculation_id error_message now db =
     bind_res (get_execution_model calculation_id db) (\<lambda>_.
     Inr ((), db\<lparr>db_stages := List.map
        (\<lambda>s. if st_calculation_id s = calculation_id \<and> st_status s = SInProgress
             then failed_stage error_message now s else s) (db_stages db)\<rparr>))"

section \<open>Upstream snapshots\<close>

text \<open>A snapshot as the caller passes it.\<close>

record snapshot_payload =
  sp_snapshot_id :: string
  sp_upstream_endpoint :: string
  sp_source_identifier :: string
  sp_as_of_date :: string
  sp_request_fingerprint :: string
  sp_response_fingerprint :: string
  sp_retrieval_status :: string
  sp_paging_metadata :: "json_dict option"

definition upstream_snapshot_model_from_payload :: "uuid \<Rightarrow> snapshot_payload \<Rightarrow> instant \<Rightarrow> snapshot_row" where
  "upstream_snapshot_model_from_payload calculation_id p created_at =
     \<lparr>sn_snapshot_id = sp_snapshot_id p, sn_calculation_id = calculation_id,
      sn_upstream_endpoint = sp_upstream_endpoint p, sn_source_identifier = sp_source_identifier p,
      sn_as_of_date = sp_as_of_date p, sn_request_fingerprint = sp_request_fingerprint p,
      sn_response_fingerprint = sp_response_fingerprint p, sn_retrieval_status = sp_retrieval_status p,
      sn_paging_metadata_json = map_option dumps_dict (sp_paging_metadata p), sn_created_at_utc = created_at\<rparr>"

text \<open>An insert in a savepoint: \<open>None\<close> when the snapshot id is taken (the savepoint is rolled back).\<close>

definition insert_snapshot :: "snapshot_row \<Rightarrow> database \<Rightarrow> database option" where
  "insert_snapshot row db =
     (case tbl_get sn_snapshot_id (sn_snapshot_id row) (db_snapshots db) of
        Some _ \<Rightarrow> None
      | None \<Rightarrow> Some (db\<lparr>db_snapshots := tbl_add row (db_snapshots db)\<rparr>))"

text \<open>The \<open>try\<close> around the savepoint: a taken id changes nothing.\<close>

definition snapshot_or_keep :: "snapshot_row \<Rightarrow> database \<Rightarrow> database" where
  "snapshot_or_keep row db = (case insert_snapshot row db of None \<Rightarrow> db | Some db' \<Rightarrow> db')"

definition record_upstream_snapshot ::
    "uuid \<Rightarrow> snapshot_payload \<Rightarrow> instant \<Rightarrow> database \<Rightarrow> store_error + unit \<times> database" where
  "record_upstream_snapshot calculation_id p now db =
     bind_res (get_execution_model calculation_id db) (\<lambda>_.
     Inr ((), snapshot_or_keep (upstream_snapshot_model_from_payload calculation_id p now) db))"

definition existing_upstream_snapshot_ids :: "database \<Rightarrow> string list \<Rightarrow> string list" where
  "existing_upstream_snapshot_ids db ids =
     List.map sn_snapshot_id (filter (\<lambda>s. sn_snapshot_id s \<in> set ids) (db_snapshots db))"

text \<open>\<open>existing\<close> is the mutable set of known ids the loop shares.\<close>

definition record_missing_upstream_snapshot ::
    "uuid \<Rightarrow> snapshot_payload \<Rightarrow> instant \<Rightarrow> string list \<Rightarrow> database \<Rightarrow> bool \<times> string list \<times> database" where
  "record_missing_upstream_snapshot calculation_id p created_at existing db =
     (if sp_snapshot_id p \<in> set existing then (False, existing, db)
      else case insert_snapshot (upstream_snapshot_model_from_payload calculation_id p created_at) db of
             Some db' \<Rightarrow> (True, sp_snapshot_id p # existing, db')
           | None \<Rightarrow> (False, sp_snapshot_id p # existing, db))"

fun record_missing_loop ::
    "uuid \<Rightarrow> snapshot_payload list \<Rightarrow> instant \<Rightarrow> string list \<Rightarrow> database \<Rightarrow> database" where
  "record_missing_loop calculation_id [] created_at existing db = db"
| "record_missing_loop calculation_id (p # ps) created_at existing db =
     (let (_, existing', db') = record_missing_upstream_snapshot calculation_id p created_at existing db
      in record_missing_loop calculation_id ps created_at existing' db')"

definition record_upstream_snapshots ::
    "uuid \<Rightarrow> snapshot_payload list \<Rightarrow> instant \<Rightarrow> database \<Rightarrow> store_error + unit \<times> database" where
  "record_upstream_snapshots calculation_id snapshots now db =
     (if snapshots = [] then Inr ((), db)
      else bind_res (get_execution_model calculation_id db) (\<lambda>_.
        let existing = existing_upstream_snapshot_ids db (List.map sp_snapshot_id snapshots)
        in Inr ((), record_missing_loop calculation_id snapshots now existing db)))"

definition snapshot_record_of :: "snapshot_row \<Rightarrow> upstream_snapshot_record" where
  "snapshot_record_of row =
     \<lparr>us_snapshot_id = sn_snapshot_id row, us_upstream_endpoint = sn_upstream_endpoint row,
      us_source_identifier = sn_source_identifier row, us_as_of_date = sn_as_of_date row,
      us_request_fingerprint = sn_request_fingerprint row, us_response_fingerprint = sn_response_fingerprint row,
      us_retrieval_status = sn_retrieval_status row, us_paging_metadata = load_object (sn_paging_metadata_json row),
      us_created_at_utc = or_empty (stamp (Some (sn_created_at_utc row)))\<rparr>"

definition list_upstream_snapshots :: "uuid \<Rightarrow> database \<Rightarrow> upstream_snapshot_record list" where
  "list_upstream_snapshots calculation_id db =
     List.map snapshot_record_of
       (sort_key sn_created_at_utc (filter (\<lambda>s. sn_calculation_id s = calculation_id) (db_snapshots db)))"

definition list_upstream_snapshot_ids :: "uuid \<Rightarrow> database \<Rightarrow> string set" where
  "list_upstream_snapshot_ids calculation_id db =
     sn_snapshot_id ` set (filter (\<lambda>s. sn_calculation_id s = calculation_id) (db_snapshots db))"

section \<open>Reading executions\<close>

definition execution_stage_record_from_model :: "stage_row \<Rightarrow> execution_stage_record" where
  "execution_stage_record_from_model s =
     \<lparr>sr_stage_name = st_stage_name s, sr_status = st_status s, sr_started_at_utc = stamp (st_started_at_utc s),
      sr_completed_at_utc = stamp (st_completed_at_utc s), sr_details = load_object (st_details_json s),
      sr_error_message = st_error_message s\<rparr>"

definition execution_record_from_model ::
    "execution_row \<Rightarrow> stage_row list \<Rightarrow> upstream_snapshot_record list \<Rightarrow> execution_record" where
  "execution_record_from_model e stages snapshots =
     \<lparr>er_calculation_id = ex_calculation_id e, er_tenant_id = ex_tenant_id e, er_analytics_type = ex_analytics_type e,
      er_portfolio_id = ex_portfolio_id e, er_execution_mode = ex_execution_mode e, er_status = ex_status e,
      er_requested_window = (case load_object (Some (ex_requested_window_json e)) of None \<Rightarrow> [] | Some d \<Rightarrow> d),
      er_request_payload = load_object (ex_request_json e), er_response_payload = load_object (ex_response_json e),
      er_input_fingerprint = ex_input_fingerprint e, er_calculation_hash = ex_calculation_hash e,
      er_error_message = ex_error_message e, er_failure = load_durable_failure (ex_failure_json e),
      er_created_at_utc = or_empty (stamp (Some (ex_created_at_utc e))),
      er_started_at_utc = stamp (ex_started_at_utc e), er_completed_at_utc = stamp (ex_completed_at_utc e),
      er_stages = List.map execution_stage_record_from_model (sort_key st_stage_name stages),
      er_upstream_snapshots = snapshots\<rparr>"

definition stages_of :: "uuid \<Rightarrow> database \<Rightarrow> stage_row list" where
  "stages_of calculation_id db = filter (\<lambda>s. st_calculation_id s = calculation_id) (db_stages db)"

definition get_execution :: "uuid \<Rightarrow> database \<Rightarrow> execution_record option" where
  "get_execution calculation_id db =
     map_option (\<lambda>e. execution_record_from_model e (stages_of calculation_id db) (list_upstream_snapshots calculation_id db))
       (get_execution_row calculation_id db)"

definition get_execution_for_tenant :: "uuid \<Rightarrow> string \<Rightarrow> database \<Rightarrow> execution_record option" where
  "get_execution_for_tenant calculation_id tenant db =
     map_option (\<lambda>e. execution_record_from_model e (stages_of calculation_id db) (list_upstream_snapshots calculation_id db))
       (find (\<lambda>e. ex_calculation_id e = calculation_id \<and> ex_tenant_id e = Some tenant) (db_executions db))"

definition list_completed_executions_for_tenant_target ::
    "string \<Rightarrow> string option \<Rightarrow> database \<Rightarrow> execution_record list" where
  "list_completed_executions_for_tenant_target tenant target_id db =
     List.map (\<lambda>e. execution_record_from_model e (stages_of (ex_calculation_id e) db) [])
       (sort_key ex_created_at_utc
         (filter (\<lambda>e. ex_tenant_id e = Some tenant \<and> ex_status e = EComplete \<and> ex_request_json e \<noteq> None
              \<and> ex_response_json e \<noteq> None \<and> (target_id = None \<or> ex_portfolio_id e = target_id)) (db_executions db)))"

section \<open>Custody and retention\<close>

definition select_inline_source_root ::
    "source_custody_claim \<Rightarrow> string option \<Rightarrow> string option \<Rightarrow> source_materialization_payload option \<Rightarrow> instant
      \<Rightarrow> database \<Rightarrow> store_error + source_custody_selection \<times> database" where
  "select_inline_source_root claim root_digest failure materialization now db =
     bind_res (require_returns_source_execution (get_execution_row (cl_calculation_id claim) db) claim ''sync'') (\<lambda>_.
     bind_res (ensure (cl_attempt_number claim = 0)
       (SourceCustodyConflict ''Inline source custody requires the existing active tenant execution.'')) (\<lambda>_.
     select_source_root claim root_digest failure materialization now db))"

text \<open>
  The stages go with the ORM cascade. Snapshots have no ORM relationship: the foreign key's
  \<open>ON DELETE CASCADE\<close> removes them, which SQLite enforces only with \<open>PRAGMA foreign_keys\<close>,
  a pragma the engine factory does not set.
\<close>

definition delete_execution :: "uuid \<Rightarrow> database \<Rightarrow> database" where
  "delete_execution calculation_id db =
     (case get_execution_row calculation_id db of
        None \<Rightarrow> db
      | Some _ \<Rightarrow>
          (drop_execution calculation_id db)
            \<lparr>db_stages := filter (\<lambda>s. st_calculation_id s \<noteq> calculation_id) (db_stages db),
             db_snapshots := (if db_dialect_name db = ''sqlite'' then db_snapshots db
                              else filter (\<lambda>s. sn_calculation_id s \<noteq> calculation_id) (db_snapshots db))\<rparr>)"

definition list_terminal_execution_ids_older_than :: "datetime \<Rightarrow> database \<Rightarrow> uuid list" where
  "list_terminal_execution_ids_older_than older_than db =
     List.map ex_calculation_id
       (sort_key (\<lambda>e. the (ex_completed_at_utc e))
         (sort_key ex_created_at_utc
           (filter (\<lambda>e. ex_status e \<in> {EComplete, EFailed}
                \<and> (case ex_completed_at_utc e of None \<Rightarrow> False | Some t \<Rightarrow> t \<le> cutoff_of older_than db)) (db_executions db))))"

definition delete_executions :: "uuid list \<Rightarrow> database \<Rightarrow> nat \<times> database" where
  "delete_executions calculation_ids db =
     (if calculation_ids = [] then (0, db)
      else (length (filter (\<lambda>e. ex_calculation_id e \<in> set calculation_ids) (db_executions db)),
        db\<lparr>db_snapshots := filter (\<lambda>s. sn_calculation_id s \<notin> set calculation_ids) (db_snapshots db),
           db_stages := filter (\<lambda>s. st_calculation_id s \<notin> set calculation_ids) (db_stages db),
           db_executions := filter (\<lambda>e. ex_calculation_id e \<notin> set calculation_ids) (db_executions db)\<rparr>))"

definition clear_all_execution_records :: "database \<Rightarrow> database" where
  "clear_all_execution_records db = db\<lparr>db_snapshots := [], db_stages := [], db_executions := []\<rparr>"

end
