(* ===== verification/Execution_Safety.thy ===== *)
theory Execution_Safety
  imports Execution_Registry
begin

text \<open>
  What the execution registry guarantees: a well-formed store with a unique submission
  idempotency key, registrations bound to their key, the terminal fence of the lineage
  completion, first-writer-wins snapshots and tenant isolation of reads.
\<close>

section \<open>Events of the registry\<close>

datatype exec_event =
    XRegister execution_request instant
  | XCreate execution_request instant
  | XRun uuid instant
  | XComplete uuid instant
  | XFail uuid string "durable_failure_classification option" instant
  | XIdentity uuid "string option" "string option" "json_dict option"
  | XRetain uuid json_dict
  | XContract uuid "string option" "json_dict option"
  | XStartStage uuid string "json_dict option" instant
  | XCompleteStage uuid string "json_dict option" instant
  | XCompleteIfInProgress uuid string "json_dict option" instant
  | XCompleteBoth uuid string "json_dict option" instant
  | XFailStage uuid string string instant
  | XFailBoth uuid string string instant
  | XFailInProgress uuid string instant
  | XSnapshot uuid snapshot_payload instant
  | XSnapshots uuid "snapshot_payload list" instant
  | XDelete uuid
  | XDeleteMany "uuid list"

fun exec_step :: "database \<Rightarrow> exec_event \<Rightarrow> store_error + database" where
  "exec_step db (XRegister rq now) = drop_result (register_execution rq now db)"
| "exec_step db (XCreate rq now) = drop_result (create_execution rq now db)"
| "exec_step db (XRun k now) = drop_result (mark_execution_running k now db)"
| "exec_step db (XComplete k now) = drop_result (mark_execution_complete k now db)"
| "exec_step db (XFail k msg failure now) = drop_result (mark_execution_failed k msg failure now db)"
| "exec_step db (XIdentity k fp h req) = drop_result (update_execution_identity k fp h req db)"
| "exec_step db (XRetain k resp) = drop_result (retain_response_payload k resp db)"
| "exec_step db (XContract k m w) = drop_result (update_execution_contract k m w db)"
| "exec_step db (XStartStage k n d now) = drop_result (start_stage k n d now db)"
| "exec_step db (XCompleteStage k n d now) = drop_result (complete_stage k n d now db)"
| "exec_step db (XCompleteIfInProgress k n d now) = drop_result (complete_stage_if_in_progress k n d now db)"
| "exec_step db (XCompleteBoth k n d now) = drop_result (complete_stage_and_execution k n d now db)"
| "exec_step db (XFailStage k n msg now) = drop_result (fail_stage k n msg now db)"
| "exec_step db (XFailBoth k n msg now) = drop_result (fail_stage_and_execution k n msg now db)"
| "exec_step db (XFailInProgress k msg now) = drop_result (fail_in_progress_stages k msg now db)"
| "exec_step db (XSnapshot k p now) = drop_result (record_upstream_snapshot k p now db)"
| "exec_step db (XSnapshots k ps now) = drop_result (record_upstream_snapshots k ps now db)"
| "exec_step db (XDelete k) = Inr (delete_execution k db)"
| "exec_step db (XDeleteMany ks) = Inr (snd (delete_executions ks db))"

section \<open>What an event does to the execution table\<close>

text \<open>
  Every event adds a fresh row, replaces one by a merge, rewrites the rows of one id by a
  transformer that keeps their identity, or deletes rows.
\<close>

definition exec_identity where
  "exec_identity r = (ex_calculation_id r, ex_tenant_id r, ex_analytics_type r, ex_submission_idempotency_key_hash r,
     ex_submission_identity_fingerprint r, ex_submission_contract_version r)"

definition exec_wf :: "execution_row \<Rightarrow> bool" where
  "exec_wf e \<longleftrightarrow>
     (case ex_status e of
        EPending \<Rightarrow> ex_started_at_utc e = None \<and> ex_completed_at_utc e = None \<and> ex_error_message e = None
      | ERunning \<Rightarrow> ex_started_at_utc e \<noteq> None \<and> ex_completed_at_utc e = None \<and> ex_error_message e = None
      | EComplete \<Rightarrow> ex_started_at_utc e \<noteq> None \<and> ex_completed_at_utc e \<noteq> None \<and> ex_error_message e = None
      | EFailed \<Rightarrow> ex_started_at_utc e \<noteq> None \<and> ex_completed_at_utc e \<noteq> None \<and> ex_error_message e \<noteq> None)"

datatype exec_change =
    Unchanged
  | Added execution_request instant
  | Merged execution_request instant
  | Rewritten uuid "execution_row \<Rightarrow> execution_row"
  | Removed "uuid list"

fun apply_change :: "exec_change \<Rightarrow> database \<Rightarrow> execution_row list" where
  "apply_change Unchanged db = db_executions db"
| "apply_change (Added rq now) db = tbl_add (execution_model_for_registration rq now) (db_executions db)"
| "apply_change (Merged rq now) db = db_executions (merged_execution rq now db)"
| "apply_change (Rewritten k f) db = tbl_upd ex_calculation_id k f (db_executions db)"
| "apply_change (Removed ks) db = filter (\<lambda>e. ex_calculation_id e \<notin> set ks) (db_executions db)"

definition idempotency_index :: "execution_row list \<Rightarrow> (string option \<times> string \<times> string option) list" where
  "idempotency_index rows = List.map (\<lambda>r. (ex_tenant_id r, ex_analytics_type r, ex_submission_idempotency_key_hash r))
     (filter (\<lambda>r. ex_submission_idempotency_key_hash r \<noteq> None \<and> ex_tenant_id r \<noteq> None) rows)"

fun change_ok :: "exec_change \<Rightarrow> database \<Rightarrow> bool" where
  "change_ok Unchanged db = True"
| "change_ok (Added rq now) db = (\<not> violates_integrity rq db)"
| "change_ok (Merged rq now) db = distinct (idempotency_index (db_executions (merged_execution rq now db)))"
| "change_ok (Rewritten k f) db = ((\<forall>e. exec_identity (f e) = exec_identity e) \<and> (\<forall>e. exec_wf e \<longrightarrow> exec_wf (f e)))"
| "change_ok (Removed ks) db = True"

text \<open>The change an event makes when it is accepted.\<close>

definition fenced_row :: "instant \<Rightarrow> execution_row \<Rightarrow> execution_row" where
  "fenced_row now e = (if ex_status e \<noteq> EFailed
     then e\<lparr>ex_status := EComplete, ex_started_at_utc := opt_or (ex_started_at_utc e) now,
            ex_completed_at_utc := Some now, ex_error_message := None\<rparr> else e)"

fun change_of :: "database \<Rightarrow> exec_event \<Rightarrow> exec_change" where
  "change_of db (XRegister rq now) = (if violates_integrity rq db then Unchanged else Added rq now)"
| "change_of db (XCreate rq now) = Merged rq now"
| "change_of db (XRun k now) = Rewritten k (execution_running now)"
| "change_of db (XComplete k now) = Rewritten k (execution_complete now)"
| "change_of db (XFail k msg failure now) = Rewritten k (execution_failed msg failure now)"
| "change_of db (XIdentity k fp h req) = Rewritten k (\<lambda>e. e\<lparr>ex_input_fingerprint := fp, ex_calculation_hash := h,
        ex_request_json := (case req of None \<Rightarrow> ex_request_json e | Some p \<Rightarrow> Some (dumps_dict p))\<rparr>)"
| "change_of db (XRetain k resp) = Rewritten k (\<lambda>e. e\<lparr>ex_response_json := Some (dumps_dict resp)\<rparr>)"
| "change_of db (XContract k m w) = Rewritten k (\<lambda>e. e\<lparr>
        ex_execution_mode := (case m of None \<Rightarrow> ex_execution_mode e | Some m \<Rightarrow> m),
        ex_requested_window_json := (case w of None \<Rightarrow> ex_requested_window_json e | Some w \<Rightarrow> dumps_dict w)\<rparr>)"
| "change_of db (XCompleteBoth k n d now) = Rewritten k (fenced_row now)"
| "change_of db (XFailBoth k n msg now) = Rewritten k (\<lambda>e. e\<lparr>ex_status := EFailed,
        ex_started_at_utc := opt_or (ex_started_at_utc e) now, ex_completed_at_utc := Some now,
        ex_error_message := Some msg\<rparr>)"
| "change_of db (XDelete k) = Removed [k]"
| "change_of db (XDeleteMany ks) = Removed ks"
| "change_of db e = Unchanged"

lemma record_missing_executions [simp]:
  "db_executions (record_missing_loop k ps now existing db) = db_executions db"
  by (induction ps arbitrary: existing db)
    (auto simp: record_missing_upstream_snapshot_def insert_snapshot_def split: option.splits)

lemma fenced_rows:
  "List.map (\<lambda>e. if ex_calculation_id e = k \<and> ex_status e \<noteq> EFailed
      then e\<lparr>ex_status := EComplete, ex_started_at_utc := opt_or (ex_started_at_utc e) now,
             ex_completed_at_utc := Some now, ex_error_message := None\<rparr> else e) rows
   = tbl_upd ex_calculation_id k (fenced_row now) rows"
  by (auto simp: tbl_upd_def fenced_row_def)

lemma complete_both_executions:
  assumes "complete_stage_and_execution k n d now db = Inr (b, db')"
  shows "db_executions db' = tbl_upd ex_calculation_id k (fenced_row now) (db_executions db)"
proof -
  obtain db1 m where fc: "fenced_completion k now db = (db1, m)" by fastforce
  then have db1: "db_executions db1 = tbl_upd ex_calculation_id k (fenced_row now) (db_executions db)"
    by (auto simp: fenced_completion_def tbl_update_where_def fenced_rows)
  from assms fc have "db' = db1 \<or> (\<exists>key g. db' = update_stage key g db1)"
    by (auto simp: complete_stage_and_execution_def split: if_splits)
  with db1 show ?thesis by (auto simp: update_stage_def)
qed

lemma update_execution_rows [simp]:
  "db_executions (update_execution k f db) = tbl_upd ex_calculation_id k f (db_executions db)"
  by (simp add: update_execution_def)

lemma update_stage_executions [simp]: "db_executions (update_stage key g db) = db_executions db"
  by (simp add: update_stage_def)

lemma tbl_del_filter: "tbl_del key k t = filter (\<lambda>r. key r \<notin> set [k]) t"
  by (simp add: tbl_del_def)

lemma delete_execution_rows: "db_executions (delete_execution k db) = filter (\<lambda>e. ex_calculation_id e \<notin> set [k]) (db_executions db)"
proof (cases "get_execution_row k db")
  case None
  then have "filter (\<lambda>e. ex_calculation_id e \<notin> set [k]) (db_executions db) = db_executions db"
    unfolding get_execution_row_def tbl_get_None filter_id_conv by auto
  with None show ?thesis by (simp add: delete_execution_def)
qed (simp add: delete_execution_def drop_execution_def tbl_del_def)

lemma step_change: "exec_step db e = Inr db' \<Longrightarrow> db_executions db' = apply_change (change_of db e) db"
proof (cases e)
  case (XCompleteBoth k n d now)
  then show "exec_step db e = Inr db' \<Longrightarrow> ?thesis" by (auto dest: complete_both_executions)
next
  case (XDelete k)
  then show "exec_step db e = Inr db' \<Longrightarrow> ?thesis" using delete_execution_rows by auto
qed (auto simp: register_execution_def create_execution_def mark_execution_running_def mark_execution_complete_def
    mark_execution_failed_def update_execution_identity_def retain_response_payload_def update_execution_contract_def
    start_stage_def complete_stage_def complete_stage_if_in_progress_def fail_stage_def fail_stage_and_execution_def
    fail_in_progress_stages_def record_upstream_snapshot_def record_upstream_snapshots_def snapshot_or_keep_def insert_snapshot_def
    delete_executions_def add_execution_def Let_def split: if_splits option.splits)

lemma step_change_ok: "exec_step db e = Inr db' \<Longrightarrow> change_ok (change_of db e) db"
  by (cases e)
    (auto simp: exec_identity_def exec_wf_def execution_running_def execution_complete_def execution_failed_def
      fenced_row_def create_execution_def Let_def idempotency_index_def split: execution_status.splits if_splits)

section \<open>The registry invariant\<close>

definition registry_ok :: "database \<Rightarrow> bool" where
  "registry_ok db \<longleftrightarrow> tbl_ok ex_calculation_id (db_executions db) \<and> distinct (idempotency_index (db_executions db))
     \<and> (\<forall>e \<in> set (db_executions db). exec_wf e)"

lemma identity_fields:
  "exec_identity r = exec_identity q \<Longrightarrow> ex_calculation_id r = ex_calculation_id q \<and> ex_tenant_id r = ex_tenant_id q
     \<and> ex_analytics_type r = ex_analytics_type q
     \<and> ex_submission_idempotency_key_hash r = ex_submission_idempotency_key_hash q
     \<and> ex_submission_identity_fingerprint r = ex_submission_identity_fingerprint q
     \<and> ex_submission_contract_version r = ex_submission_contract_version q"
  by (simp add: exec_identity_def)

lemma rewritten_index:
  assumes "\<And>e. exec_identity (f e) = exec_identity e"
  shows "idempotency_index (tbl_upd ex_calculation_id k f rows) = idempotency_index rows"
  using identity_fields [OF assms] by (induction rows) (auto simp: idempotency_index_def tbl_upd_def)

lemma new_execution_wf: "exec_wf (execution_model_for_registration rq now)"
  by (simp add: exec_wf_def execution_model_for_registration_def)

lemma added_index:
  assumes "\<not> violates_integrity rq db" "distinct (idempotency_index (db_executions db))"
  shows "distinct (idempotency_index (tbl_add (execution_model_for_registration rq now) (db_executions db)))"
  using assms
  by (auto simp: idempotency_index_def tbl_add_def violates_integrity_def idempotency_owner_def
      execution_model_for_registration_def image_iff)

lemma distinct_filter_index:
  assumes "distinct (idempotency_index rows)"
  shows "distinct (idempotency_index (filter p rows))"
proof -
  from assms have "distinct (List.map (\<lambda>r. (ex_tenant_id r, ex_analytics_type r, ex_submission_idempotency_key_hash r))
     (filter p (filter (\<lambda>r. ex_submission_idempotency_key_hash r \<noteq> None \<and> ex_tenant_id r \<noteq> None) rows)))"
    unfolding idempotency_index_def by (rule distinct_map_filterI)
  then show ?thesis by (simp add: idempotency_index_def conj_commute)
qed

lemma merged_rows:
  "db_executions (merged_execution rq now db) =
     (case get_execution_row (rq_calculation_id rq) db of
        None \<Rightarrow> tbl_add ((execution_model_for_registration rq now)\<lparr>ex_submission_idempotency_key_hash := None,
            ex_submission_identity_fingerprint := None, ex_submission_contract_version := None\<rparr>) (db_executions db)
      | Some old \<Rightarrow> tbl_upd ex_calculation_id (rq_calculation_id rq)
          (\<lambda>_. (execution_model_for_registration rq now)
             \<lparr>ex_submission_idempotency_key_hash := ex_submission_idempotency_key_hash old,
              ex_submission_identity_fingerprint := ex_submission_identity_fingerprint old,
              ex_submission_contract_version := ex_submission_contract_version old,
              ex_failure_json := ex_failure_json old\<rparr>) (db_executions db))"
  by (simp add: merged_execution_def Let_def add_execution_def split: option.splits)

lemma merged_key: "ex_calculation_id (execution_model_for_registration rq now) = rq_calculation_id rq"
  by (simp add: execution_model_for_registration_def)

lemma replaced_rows_ok:
  "ex_calculation_id row = k \<Longrightarrow> tbl_ok ex_calculation_id rows \<Longrightarrow> tbl_ok ex_calculation_id (tbl_upd ex_calculation_id k (\<lambda>_. row) rows)"
  by (auto simp: tbl_ok_def tbl_upd_def comp_def if_distrib cong: map_cong if_cong)

lemma change_keeps_rows:
  assumes "change_ok c db" "registry_ok db"
  shows "tbl_ok ex_calculation_id (apply_change c db) \<and> distinct (idempotency_index (apply_change c db))
     \<and> (\<forall>e \<in> set (apply_change c db). exec_wf e)"
proof (cases c)
  case (Added rq now)
  with assms have "\<not> violates_integrity rq db" by simp
  moreover from this have "tbl_ok ex_calculation_id (tbl_add (execution_model_for_registration rq now) (db_executions db))"
    using assms(2) by (simp add: violates_integrity_def registry_ok_def tbl_ok_add merged_key get_execution_row_def)
  moreover have "\<forall>e \<in> set (tbl_add (execution_model_for_registration rq now) (db_executions db)). exec_wf e"
    using assms(2) new_execution_wf by (simp add: registry_ok_def tbl_add_def)
  ultimately show ?thesis using assms(2) Added added_index by (simp add: registry_ok_def)
next
  case (Merged rq now)
  have wf: "exec_wf ((execution_model_for_registration rq now)\<lparr>ex_submission_idempotency_key_hash := h,
     ex_submission_identity_fingerprint := fp, ex_submission_contract_version := v\<rparr>)"
    "exec_wf ((execution_model_for_registration rq now)\<lparr>ex_submission_idempotency_key_hash := h,
     ex_submission_identity_fingerprint := fp, ex_submission_contract_version := v, ex_failure_json := j\<rparr>)" for h fp v j
    by (simp_all add: exec_wf_def execution_model_for_registration_def)
  have "tbl_ok ex_calculation_id (db_executions (merged_execution rq now db))"
    using assms(2) by (cases "get_execution_row (rq_calculation_id rq) db")
      (simp_all add: merged_rows registry_ok_def tbl_ok_add merged_key get_execution_row_def replaced_rows_ok)
  moreover have "\<forall>e \<in> set (db_executions (merged_execution rq now db)). exec_wf e"
    using assms(2) wf by (cases "get_execution_row (rq_calculation_id rq) db")
      (auto simp: merged_rows registry_ok_def tbl_add_def tbl_upd_def)
  ultimately show ?thesis using assms(1) Merged by simp
next
  case (Rewritten k f)
  with assms have f: "\<And>e. exec_identity (f e) = exec_identity e" "\<And>e. exec_wf e \<Longrightarrow> exec_wf (f e)" by auto
  have "tbl_ok ex_calculation_id (tbl_upd ex_calculation_id k f (db_executions db))"
    using assms(2) identity_fields [OF f(1)] by (simp add: registry_ok_def tbl_ok_upd)
  then show ?thesis using assms(2) Rewritten rewritten_index [OF f(1)] f(2)
    by (auto simp: registry_ok_def tbl_upd_def)
next
  case (Removed ks)
  then show ?thesis using assms(2)
    by (auto simp: registry_ok_def tbl_ok_def distinct_map_filterI distinct_filter_index)
qed (use assms in \<open>auto simp: registry_ok_def\<close>)

interpretation registry: guarded_machine exec_step "\<lambda>_. True" registry_ok
proof
  fix db e db'
  assume "registry_ok db" "exec_step db e = Inr db'"
  then show "registry_ok db'"
    using change_keeps_rows [OF step_change_ok, of db e db'] step_change by (simp add: registry_ok_def)
qed

text \<open>C12: Whatever sequence of registry operations runs from an empty store, calculation ids stay
  unique, no two executions of a tenant and workflow carry the same submission idempotency key,
  and every execution's status agrees with its timestamps and error message.\<close>

theorem execution_registry_invariant:
  "registry_ok (run_ops exec_step (empty_database dialect) es)"
  by (rule registry.run_inv)
    (simp_all add: registry_ok_def empty_database_def tbl_ok_def idempotency_index_def list_all_iff)

section \<open>Following one execution\<close>

fun spares :: "uuid \<Rightarrow> exec_event \<Rightarrow> bool" where
  "spares k (XCreate rq now) = (rq_calculation_id rq \<noteq> k)"
| "spares k (XDelete i) = (i \<noteq> k)"
| "spares k (XDeleteMany ks) = (k \<notin> set ks)"
| "spares k e = True"

text \<open>The row of an id that is neither merged nor deleted is kept or rewritten.\<close>

lemma row_after:
  assumes "exec_step db e = Inr db'" "spares k e" "get_execution_row k db = Some r" "registry_ok db"
  shows "get_execution_row k db' = Some (case change_of db e of Rewritten i f \<Rightarrow> if i = k then f r else r | _ \<Rightarrow> r)"
proof -
  have rows: "db_executions db' = apply_change (change_of db e) db" by (rule step_change [OF assms(1)])
  have get: "tbl_get ex_calculation_id k (db_executions db) = Some r" using assms(3) by (simp add: get_execution_row_def)
  have ok: "change_ok (change_of db e) db" by (rule step_change_ok [OF assms(1)])
  have key: "ex_calculation_id r = k" using get tbl_get_Some by fast
  show ?thesis
  proof (cases "change_of db e")
    case (Merged rq now)
    then have "e = XCreate rq now" by (cases e) (auto split: if_splits)
    with assms(2) have "rq_calculation_id rq \<noteq> k" by simp
    then have "tbl_get ex_calculation_id k (db_executions (merged_execution rq now db)) = Some r"
      using get by (cases "get_execution_row (rq_calculation_id rq) db")
        (simp_all add: merged_rows tbl_get_add tbl_get_replace merged_key)
    then show ?thesis using rows Merged by (simp add: get_execution_row_def)
  next
    case (Rewritten i f)
    with ok have f: "ex_calculation_id (f q) = ex_calculation_id q" for q using identity_fields by auto
    show ?thesis using rows Rewritten get by (auto simp: get_execution_row_def tbl_get_upd [of ex_calculation_id f, OF f])
  next
    case (Removed ks)
    with assms(2) have "k \<notin> set ks" by (cases e) (auto split: if_splits)
    then have "tbl_get ex_calculation_id k (filter (\<lambda>e. ex_calculation_id e \<notin> set ks) (db_executions db)) = Some r"
      using get key assms(4) by (subst tbl_get_filter) (simp_all add: registry_ok_def)
    then show ?thesis using rows Removed by (simp add: get_execution_row_def)
  qed (use rows get in \<open>simp_all add: get_execution_row_def tbl_get_add\<close>)
qed

definition bound_to :: "uuid \<Rightarrow> string \<Rightarrow> string \<Rightarrow> string \<Rightarrow> string option \<Rightarrow> string option \<Rightarrow> database \<Rightarrow> bool" where
  "bound_to k tenant ty h fp v db \<longleftrightarrow> registry_ok db \<and> (\<exists>r. get_execution_row k db = Some r
     \<and> exec_identity r = (k, Some tenant, ty, Some h, fp, v))"

interpretation bound: guarded_machine exec_step "spares k" "bound_to k tenant ty h fp v" for k tenant ty h fp v
proof
  fix db e db'
  assume b: "bound_to k tenant ty h fp v db" and e: "spares k e" and step: "exec_step db e = Inr db'"
  then obtain r where r: "get_execution_row k db = Some r" "exec_identity r = (k, Some tenant, ty, Some h, fp, v)"
    and ok: "registry_ok db" by (auto simp: bound_to_def)
  have "exec_identity (case change_of db e of Rewritten i f \<Rightarrow> if i = k then f r else r | _ \<Rightarrow> r) = exec_identity r"
    using step_change_ok [OF step] by (cases "change_of db e") auto
  then show "bound_to k tenant ty h fp v db'"
    using row_after [OF step e r(1) ok] r(2) registry.step_inv [OF ok TrueI step] by (simp add: bound_to_def)
qed

section \<open>Submission idempotency\<close>

lemma unique_idempotency_owner:
  assumes "registry_ok db" "r \<in> set (db_executions db)" "q \<in> set (db_executions db)" "idempotency_owner rq r"
    "idempotency_owner rq q" "rq_submission_idempotency_key_hash rq \<noteq> None"
  shows "r = q"
proof -
  let ?p = "\<lambda>r. ex_submission_idempotency_key_hash r \<noteq> None \<and> ex_tenant_id r \<noteq> None"
  have "distinct (List.map (\<lambda>r. (ex_tenant_id r, ex_analytics_type r, ex_submission_idempotency_key_hash r))
      (filter ?p (db_executions db)))" using assms(1) by (simp add: registry_ok_def idempotency_index_def)
  then have "inj_on (\<lambda>r. (ex_tenant_id r, ex_analytics_type r, ex_submission_idempotency_key_hash r))
      (set (filter ?p (db_executions db)))" by (simp add: distinct_map)
  moreover have "r \<in> set (filter ?p (db_executions db))" "q \<in> set (filter ?p (db_executions db))"
    using assms by (auto simp: idempotency_owner_def)
  ultimately show ?thesis using assms(4,5) by (auto simp: inj_on_def idempotency_owner_def)
qed

text \<open>A submission's idempotency key is bound to its first execution: after a keyed
  registration created one, and whatever else the registry does to it short of deleting it or
  re-creating its id, every later registration of the tenant and workflow under that key creates
  nothing and answers with that execution, as a replay exactly when the identity fingerprint and
  the contract version agree, and otherwise as a conflict.\<close>

theorem idempotency_key_binds:
  assumes ok: "registry_ok db"
    and first: "register_execution rq now db = Inr (res, db1)" "xr_status res = Created"
      "rq_submission_idempotency_key_hash rq = Some h"
    and es: "list_all (spares (rq_calculation_id rq)) es"
    and second: "strip (rq_tenant_id rq') = strip (rq_tenant_id rq)" "rq_analytics_type rq' = rq_analytics_type rq"
      "rq_submission_idempotency_key_hash rq' = Some h"
  defines "db2 \<equiv> run_ops exec_step db1 es"
  shows "\<exists>res'. register_execution rq' now' db2 = Inr (res', db2)
     \<and> xr_calculation_id res' = Some (rq_calculation_id rq)
     \<and> xr_status res' = (if rq_submission_identity_fingerprint rq' = rq_submission_identity_fingerprint rq
             \<and> rq_submission_contract_version rq' = rq_submission_contract_version rq then Replay else Conflict)"
proof -
  let ?k = "rq_calculation_id rq" and ?row = "execution_model_for_registration rq now"
  have free: "\<not> violates_integrity rq db"
  proof
    assume "violates_integrity rq db"
    with first(1) have "registration_result_for_duplicate_execution rq db = Inr res" by (auto simp: register_execution_def)
    with first(2) show False
      by (auto simp: registration_result_for_duplicate_execution_def existing_execution_registration_result_def Let_def
          split: option.splits if_splits)
  qed
  with first(1) have db1: "db1 = add_execution ?row db" by (simp add: register_execution_def)
  have "exec_step db (XRegister rq now) = Inr db1" using first(1) by auto
  then have ok1: "registry_ok db1" by (rule registry.step_inv [OF ok TrueI])
  have "get_execution_row ?k db1 = Some ?row"
    using free execs.get_add [of ?row db ?k] by (simp add: db1 violates_integrity_def merged_key)
  then have "bound_to ?k (strip (rq_tenant_id rq)) (rq_analytics_type rq) h (rq_submission_identity_fingerprint rq)
      (rq_submission_contract_version rq) db1"
    using ok1 first(3) by (simp add: bound_to_def exec_identity_def execution_model_for_registration_def)
  from bound.run_inv [OF this es] obtain r where r: "get_execution_row ?k db2 = Some r" "registry_ok db2"
    "exec_identity r = (?k, Some (strip (rq_tenant_id rq)), rq_analytics_type rq, Some h,
       rq_submission_identity_fingerprint rq, rq_submission_contract_version rq)"
    by (auto simp: bound_to_def db2_def)
  then have mem: "r \<in> set (db_executions db2)" by (auto simp: get_execution_row_def dest: tbl_get_Some)
  have own: "idempotency_owner rq' r" using r(3) second by (simp add: idempotency_owner_def exec_identity_def)
  have viol: "violates_integrity rq' db2" using mem own second(3) by (auto simp: violates_integrity_def)
  obtain q where q: "find (idempotency_owner rq') (db_executions db2) = Some q"
    using mem own by (cases "find (idempotency_owner rq') (db_executions db2)") (auto simp: find_None_iff)
  then have "q \<in> set (db_executions db2)" "idempotency_owner rq' q" by (auto simp: find_Some_iff)
  then have "q = r" using unique_idempotency_owner [OF r(2) _ mem] own second(3) by simp
  then show ?thesis using viol q r(3) second(3)
    by (auto simp: register_execution_def registration_result_for_duplicate_execution_def
        existing_execution_registration_result_def exec_identity_def Let_def)
qed

section \<open>The terminal fence of the lineage completion\<close>

fun respects_failure :: "uuid \<Rightarrow> exec_event \<Rightarrow> bool" where
  "respects_failure k (XRun i now) = (i \<noteq> k)"
| "respects_failure k (XComplete i now) = (i \<noteq> k)"
| "respects_failure k e = spares k e"

definition failed_for_good :: "uuid \<Rightarrow> database \<Rightarrow> bool" where
  "failed_for_good k db \<longleftrightarrow> registry_ok db \<and> (\<exists>r. get_execution_row k db = Some r \<and> ex_status r = EFailed)"

interpretation failure_fence: guarded_machine exec_step "respects_failure k" "failed_for_good k" for k
proof
  fix db e db'
  assume f: "failed_for_good k db" and e: "respects_failure k e" and step: "exec_step db e = Inr db'"
  from f obtain r where r: "get_execution_row k db = Some r" "ex_status r = EFailed" and ok: "registry_ok db"
    by (auto simp: failed_for_good_def)
  have sp: "spares k e" using e by (cases e) auto
  have "ex_status (case change_of db e of Rewritten i f \<Rightarrow> if i = k then f r else r | _ \<Rightarrow> r) = EFailed"
    using e r(2) by (cases e) (auto simp: fenced_row_def execution_failed_def)
  then show "failed_for_good k db'"
    using row_after [OF step sp r(1) ok] registry.step_inv [OF ok TrueI step] by (simp add: failed_for_good_def)
qed

text \<open>Failure wins over a late lineage worker: on a failed execution the combined
  completion reports false and leaves the database as it was, and no sequence of registry
  operations other than a new \<open>mark_running\<close> or \<open>mark_complete\<close>, a re-creation or a deletion of
  the id turns the execution into anything but failed.\<close>

theorem failure_wins:
  assumes "registry_ok db" "get_execution_row k db = Some r" "ex_status r = EFailed"
  shows "(complete_stage_and_execution k stage details now db = Inr (False, db))
    \<and> (list_all (respects_failure k) es \<longrightarrow>
       (\<exists>r'. get_execution_row k (run_ops exec_step db es) = Some r' \<and> ex_status r' = EFailed))"
proof (rule conjI)
  let ?p = "\<lambda>e. ex_calculation_id e = k \<and> ex_status e \<noteq> EFailed"
  have none: "filter ?p (db_executions db) = []"
    unfolding filter_empty_conv
  proof
    fix q assume q: "q \<in> set (db_executions db)"
    show "\<not> ?p q"
    proof
      assume p: "?p q"
      then have "get_execution_row k db = Some q"
        using tbl_get_mem [of ex_calculation_id "db_executions db" q] q assms(1)
        by (simp add: registry_ok_def get_execution_row_def)
      with assms p show False by simp
    qed
  qed
  then have same: "tbl_upd ex_calculation_id k (fenced_row now) (db_executions db) = db_executions db"
    unfolding tbl_upd_def fenced_row_def by (intro map_idI) (auto simp: filter_empty_conv)
  have fc: "fenced_completion k now db = (db, 0)"
    unfolding fenced_completion_def tbl_update_where_def fenced_rows same none by simp
  then show "complete_stage_and_execution k stage details now db = Inr (False, db)"
    by (simp add: complete_stage_and_execution_def)
  show "list_all (respects_failure k) es \<longrightarrow>
       (\<exists>r'. get_execution_row k (run_ops exec_step db es) = Some r' \<and> ex_status r' = EFailed)"
    using failure_fence.run_inv [of k db es] assms by (auto simp: failed_for_good_def)
qed

text \<open>
  The plain marks carry no such fence: \<open>mark_running\<close> and \<open>mark_complete\<close> accept a failed
  execution and erase its error and its durable failure classification.\<close>

theorem unguarded_marks_resurrect:
  assumes "get_execution_row k db = Some r" "ex_status r = EFailed"
  shows "(\<exists>db'. mark_execution_running k now db = Inr ((), db')
        \<and> (\<exists>r'. get_execution_row k db' = Some r' \<and> ex_status r' = ERunning \<and> ex_error_message r' = None \<and> ex_failure_json r' = None))
    \<and> (\<exists>db'. mark_execution_complete k now db = Inr ((), db')
        \<and> (\<exists>r'. get_execution_row k db' = Some r' \<and> ex_status r' = EComplete \<and> ex_error_message r' = None \<and> ex_failure_json r' = None))"
  using assms
  by (auto simp: mark_execution_running_def mark_execution_complete_def get_execution_model_def
      execs.get_upd execution_running_def execution_complete_def)

section \<open>Snapshots\<close>

lemma snapshot_or_keep_get:
  "tbl_get sn_snapshot_id i (db_snapshots (snapshot_or_keep row db))
     = (case tbl_get sn_snapshot_id i (db_snapshots db) of Some s \<Rightarrow> Some s
        | None \<Rightarrow> if sn_snapshot_id row = i then Some row else None)"
  by (auto simp: snapshot_or_keep_def insert_snapshot_def tbl_get_add split: option.splits)

lemma snapshot_or_keep_executions: "get_execution_row k (snapshot_or_keep row db) = get_execution_row k db"
  by (auto simp: snapshot_or_keep_def insert_snapshot_def get_execution_row_def split: option.splits)

lemma snapshot_model_id: "sn_snapshot_id (upstream_snapshot_model_from_payload k p now) = sp_snapshot_id p"
  by (simp add: upstream_snapshot_model_from_payload_def)

abbreviation record_one :: "uuid \<Rightarrow> instant \<Rightarrow> snapshot_payload \<Rightarrow> database \<Rightarrow> database" where
  "record_one k now p \<equiv> snapshot_or_keep (upstream_snapshot_model_from_payload k p now)"

lemma record_missing_step:
  assumes "\<forall>i \<in> set existing. tbl_get sn_snapshot_id i (db_snapshots db) \<noteq> None"
    "record_missing_upstream_snapshot k p now existing db = (b, existing', db')"
  shows "db' = record_one k now p db" "\<forall>i \<in> set existing'. tbl_get sn_snapshot_id i (db_snapshots db') \<noteq> None"
proof -
  have taken: "tbl_get sn_snapshot_id (sp_snapshot_id p) (db_snapshots db) \<noteq> None" if "sp_snapshot_id p \<in> set existing"
    using assms(1) that by blast
  then show db': "db' = record_one k now p db" using assms(2)
    by (auto simp: record_missing_upstream_snapshot_def snapshot_or_keep_def insert_snapshot_def snapshot_model_id
        split: if_splits option.splits)
  have "set existing' \<subseteq> insert (sp_snapshot_id p) (set existing)" using assms(2)
    by (auto simp: record_missing_upstream_snapshot_def split: if_splits option.splits)
  then have "i = sp_snapshot_id p \<or> i \<in> set existing" if "i \<in> set existing'" for i using that by blast
  then show "\<forall>i \<in> set existing'. tbl_get sn_snapshot_id i (db_snapshots db') \<noteq> None"
    using assms(1) by (fastforce simp: db' snapshot_or_keep_get snapshot_model_id split: option.splits)
qed

lemma record_loop_is_fold:
  "\<forall>i \<in> set existing. tbl_get sn_snapshot_id i (db_snapshots db) \<noteq> None \<Longrightarrow>
   record_missing_loop k ps now existing db = fold (record_one k now) ps db"
proof (induction ps arbitrary: existing db)
  case (Cons p ps)
  obtain b existing' db' where step: "record_missing_upstream_snapshot k p now existing db = (b, existing', db')"
    by (metis prod_cases3)
  show ?case using Cons.IH [OF record_missing_step(2) [OF Cons.prems step]] record_missing_step(1) [OF Cons.prems step]
    by (simp add: step)
qed simp

lemma fold_record_keeps:
  "tbl_get sn_snapshot_id i (db_snapshots db) = Some s \<Longrightarrow>
   tbl_get sn_snapshot_id i (db_snapshots (fold (record_one k now) ps db)) = Some s"
  by (induction ps arbitrary: db) (simp_all add: snapshot_or_keep_get)

lemma fold_record_present:
  "p \<in> set ps \<Longrightarrow> tbl_get sn_snapshot_id (sp_snapshot_id p) (db_snapshots (fold (record_one k now) ps db)) \<noteq> None"
proof (induction ps arbitrary: db)
  case (Cons q ps)
  show ?case
  proof (cases "p = q")
    case True
    obtain s where "tbl_get sn_snapshot_id (sp_snapshot_id q) (db_snapshots (record_one k now q db)) = Some s"
      by (cases "tbl_get sn_snapshot_id (sp_snapshot_id q) (db_snapshots db)")
        (simp_all add: snapshot_or_keep_get snapshot_model_id)
    from fold_record_keeps [OF this] show ?thesis using True by simp
  qed (use Cons in simp)
qed simp

lemma snapshot_events_are_fold:
  "get_execution_row k db = Some e \<Longrightarrow>
   run_ops exec_step db (List.map (\<lambda>p. XSnapshot k p now) ps) = fold (record_one k now) ps db"
proof (induction ps arbitrary: db)
  case (Cons p ps)
  have "exec_step db (XSnapshot k p now) = Inr (record_one k now p db)"
    using Cons.prems by (simp add: record_upstream_snapshot_def get_execution_model_def)
  then show ?case using Cons by (simp add: snapshot_or_keep_executions del: exec_step.simps)
qed simp

text \<open>Recording a batch of upstream snapshots in one transaction has the effect of recording
  them one by one: the first snapshot of an id wins, later ones with that id change nothing, and
  every id of the batch is present afterwards.\<close>

theorem snapshot_batch_is_sequence:
  assumes "get_execution_row k db = Some e"
  shows "(exec_step db (XSnapshots k ps now) = Inr (run_ops exec_step db (List.map (\<lambda>p. XSnapshot k p now) ps)))
    \<and> (exec_step db (XSnapshots k ps now) = Inr db' \<longrightarrow>
       (\<forall>i s. tbl_get sn_snapshot_id i (db_snapshots db) = Some s \<longrightarrow> tbl_get sn_snapshot_id i (db_snapshots db') = Some s)
     \<and> (\<forall>p \<in> set ps. tbl_get sn_snapshot_id (sp_snapshot_id p) (db_snapshots db') \<noteq> None))"
proof (rule conjI)
  have "\<forall>i \<in> set (existing_upstream_snapshot_ids db (List.map sp_snapshot_id ps)).
      tbl_get sn_snapshot_id i (db_snapshots db) \<noteq> None"
    unfolding existing_upstream_snapshot_ids_def tbl_get_None by auto
  then have batch: "exec_step db (XSnapshots k ps now) = Inr (fold (record_one k now) ps db)"
    using assms record_loop_is_fold by (auto simp: record_upstream_snapshots_def get_execution_model_def Let_def)
  then show "exec_step db (XSnapshots k ps now) = Inr (run_ops exec_step db (List.map (\<lambda>p. XSnapshot k p now) ps))"
    using snapshot_events_are_fold [OF assms] by simp
  show "exec_step db (XSnapshots k ps now) = Inr db' \<longrightarrow>
       (\<forall>i s. tbl_get sn_snapshot_id i (db_snapshots db) = Some s \<longrightarrow> tbl_get sn_snapshot_id i (db_snapshots db') = Some s)
     \<and> (\<forall>p \<in> set ps. tbl_get sn_snapshot_id (sp_snapshot_id p) (db_snapshots db') \<noteq> None)"
    unfolding batch using fold_record_keeps fold_record_present by blast
qed

section \<open>Tenant isolation and deletion\<close>

lemma find_row: "tbl_ok key t \<Longrightarrow> find (\<lambda>r. key r = k \<and> p r) t =
    (case tbl_get key k t of None \<Rightarrow> None | Some r \<Rightarrow> if p r then Some r else None)"
proof (induction t)
  case (Cons r t)
  show ?case
  proof (cases "key r = k")
    case True
    then have "tbl_get key k t = None" using Cons.prems by (auto simp: tbl_get_None tbl_ok_def)
    then have "find (\<lambda>r. key r = k \<and> p r) t = None" using Cons by (simp add: tbl_ok_def)
    then show ?thesis using True by (simp add: tbl_get_def)
  qed (use Cons in \<open>simp add: tbl_get_def tbl_ok_def\<close>)
qed (simp add: tbl_get_def)

text \<open>A tenant-scoped read of a job or an execution returns exactly what the unscoped read
  returns when the stored tenant is the caller's, and nothing otherwise; a legacy row without a
  tenant is nobody's, not even the empty tenant's.\<close>

theorem tenant_isolation:
  assumes "tbl_ok ex_calculation_id (db_executions db)" "jobs_ok db"
  shows "(get_execution_for_tenant k tenant db =
      (case get_execution_row k db of
         Some e \<Rightarrow> if ex_tenant_id e = Some tenant then get_execution k db else None
       | None \<Rightarrow> None))
    \<and> (get_job_for_tenant k tenant db =
      (case get_job k db of
         Some r \<Rightarrow> if job_tenant_id r = Some tenant then get_job_record k db else Inr None
       | None \<Rightarrow> Inr None))"
  using find_row [OF assms(1), of k "\<lambda>e. ex_tenant_id e = Some tenant"]
    find_row [of job_calculation_id "db_jobs db" k "\<lambda>r. job_tenant_id r = Some tenant"] assms(2)
  by (auto simp: get_execution_for_tenant_def get_execution_def get_execution_row_def get_job_for_tenant_def
      get_job_record_def get_job_def jobs_ok_def split: option.splits)

text \<open>
  Deleting executions in a batch removes each execution with all of its
  stages and upstream snapshots, counts the executions it removed, and keeps everything that
  belongs to other executions.\<close>

theorem batch_delete_leaves_no_trace:
  assumes "delete_executions ks db = (n, db')" "ks \<noteq> []"
  shows "(\<forall>k \<in> set ks. get_execution k db' = None \<and> stages_of k db' = [] \<and> list_upstream_snapshots k db' = [])
    \<and> (k \<notin> set ks \<longrightarrow> get_execution k db' = get_execution k db)
    \<and> (n + length (db_executions db') = length (db_executions db))"
proof (rule conj3I)
  have rows: "db_executions db' = filter (\<lambda>e. ex_calculation_id e \<notin> set ks) (db_executions db)"
    "db_stages db' = filter (\<lambda>s. st_calculation_id s \<notin> set ks) (db_stages db)"
    "db_snapshots db' = filter (\<lambda>s. sn_calculation_id s \<notin> set ks) (db_snapshots db)"
    and n: "n = length (filter (\<lambda>e. ex_calculation_id e \<in> set ks) (db_executions db))"
    using assms by (auto simp: delete_executions_def)
  show "\<forall>k \<in> set ks. get_execution k db' = None \<and> stages_of k db' = [] \<and> list_upstream_snapshots k db' = []"
  proof
    fix k assume k: "k \<in> set ks"
    then have "get_execution_row k db' = None" unfolding get_execution_row_def tbl_get_None rows by auto
    moreover have "stages_of k db' = []" unfolding stages_of_def rows filter_filter using k by (auto simp: filter_empty_conv)
    moreover have "list_upstream_snapshots k db' = []"
      unfolding list_upstream_snapshots_def rows filter_filter using k
      by (metis (mono_tags, lifting) filter_False list.simps(8) sort_key_simps(1))
    ultimately show "get_execution k db' = None \<and> stages_of k db' = [] \<and> list_upstream_snapshots k db' = []"
      by (simp add: get_execution_def)
  qed
  have find_keep: "find (\<lambda>r. key r = k) (filter (\<lambda>r. key r \<notin> set ks) t) = find (\<lambda>r. key r = k) t"
    if "k \<notin> set ks" for key :: "execution_row \<Rightarrow> uuid" and t
    using that by (induction t) auto
  have filter_keep: "filter (\<lambda>s. f s \<notin> set ks \<and> f s = k) t = filter (\<lambda>s. f s = k) t" if "k \<notin> set ks" for f :: "'z \<Rightarrow> uuid" and t
    using that by (auto intro: filter_cong)
  show "k \<notin> set ks \<longrightarrow> get_execution k db' = get_execution k db"
    by (simp add: get_execution_def get_execution_row_def tbl_get_def stages_of_def list_upstream_snapshots_def rows
        find_keep filter_keep)
  show "n + length (db_executions db') = length (db_executions db)"
    using sum_length_filter_compl [of "\<lambda>e. ex_calculation_id e \<in> set ks" "db_executions db"] by (simp add: rows n)
qed

lemma delete_execution_stages:
  assumes "get_execution_row k db = Some e"
  shows "stages_of k (delete_execution k db) = []"
  using assms by (simp add: delete_execution_def stages_of_def drop_execution_def filter_empty_conv)

text \<open>The single deletion keeps that promise on PostgreSQL only: on SQLite, where the engine is
  opened without foreign-key enforcement, the snapshots of the deleted execution stay behind.\<close>

theorem single_delete_orphans_snapshots:
  assumes "get_execution_row k db = Some e"
  shows "(list_upstream_snapshots k (delete_execution k db) =
      (if db_dialect_name db = ''sqlite'' then list_upstream_snapshots k db else []))
    \<and> (stages_of k (delete_execution k db) = [])"
  using assms
  by (simp_all add: delete_execution_stages) (simp add: delete_execution_def list_upstream_snapshots_def drop_execution_def)

end
