(* ===== verification/Submission_Fencing.thy ===== *)
theory Submission_Fencing
  imports Execution_Safety
begin

text \<open>
  Fencing of calculation submissions (src/app/services/submission_fencing_service.py): one
  execution and one compute job per submission, across two stores whose operations are
  separate transactions. A refusal therefore does not undo what earlier operations committed,
  and a sequence of operations returns its error or value together with the database it left.
\<close>

section \<open>Sequences of transactions\<close>

type_synonym 'a txn = "database \<Rightarrow> (store_error + 'a) \<times> database"

definition commit :: "(database \<Rightarrow> store_error + 'a \<times> database) \<Rightarrow> 'a txn" where
  "commit op db = (case op db of Inl e \<Rightarrow> (Inl e, db) | Inr (a, db') \<Rightarrow> (Inr a, db'))"

definition then_do :: "'a txn \<Rightarrow> ('a \<Rightarrow> 'b txn) \<Rightarrow> 'b txn" where
  "then_do m f db = (case m db of (Inl e, db') \<Rightarrow> (Inl e, db') | (Inr a, db') \<Rightarrow> f a db')"

definition return :: "'a \<Rightarrow> 'a txn" where
  "return a db = (Inr a, db)"

definition refuse :: "store_error \<Rightarrow> 'a txn" where
  "refuse e db = (Inl e, db)"

lemmas txn_defs = commit_def then_do_def return_def refuse_def

section \<open>Refusals\<close>

definition APIConflictError :: "string \<Rightarrow> string option \<Rightarrow> api_error" where
  "APIConflictError msg code = \<lparr>status_code = 409, detail = JStr msg, error_code = code, retryable = None,
     remediation_hint = None\<rparr>"

definition EXECUTION_STAGE_SUBMISSION :: string where
  "EXECUTION_STAGE_SUBMISSION = ''submission''"

definition admit :: "string \<Rightarrow> store_error + tenant_authority option" where
  "admit presented = (case admitted_tenant_authority presented of
     Inl (Inl e) \<Rightarrow> Inl (APIRefusal e) | Inl (Inr m) \<Rightarrow> Inl (ValueError m) | Inr a \<Rightarrow> Inr a)"

definition require_submission_tenant_if_needed :: "string \<Rightarrow> bool \<Rightarrow> bool \<Rightarrow> store_error + unit" where
  "require_submission_tenant_if_needed tenant_var requires_tenant_authority requires_idempotency_authority =
     bind_res (admit tenant_var) (\<lambda>authority.
     if requires_idempotency_authority \<and> authority = None
       then Inl (APIRefusal MissingIdempotentSubmissionTenantAuthorityError)
     else if requires_tenant_authority \<and> authority = None
       then Inl (APIRefusal MissingStatefulSubmissionTenantAuthorityError)
     else Inr ())"

section \<open>The stores of a submission\<close>

text \<open>
  \<open>AsyncSubmissionStores\<close> lets an adapter bind other stores. The job store is an argument, so
  that its failures (an unreachable database, say) are covered; \<open>clk\<close> gives the successive
  clock readings of the operations.
\<close>

type_synonym job_registrar = "uuid \<Rightarrow> string \<Rightarrow> string \<Rightarrow> json_dict \<Rightarrow> instant \<Rightarrow> database
   \<Rightarrow> store_error + compute_job_registration_result \<times> database"

definition compute_job_registrar :: "int \<Rightarrow> job_registrar" where
  "compute_job_registrar setting calculation_id analytics_type tenant request_payload now db =
     register_job calculation_id analytics_type tenant request_payload None setting now db"

record submission =
  sub_calculation_id :: uuid
  sub_analytics_type :: string
  sub_portfolio_id :: "string option"
  sub_requested_window :: json_dict
  sub_input_fingerprint :: "string option"
  sub_calculation_hash :: "string option"
  sub_request_payload :: json_dict
  sub_offload_reason :: string
  sub_requires_tenant_authority :: bool
  sub_idempotency_key_hash :: "string option"
  sub_identity_fingerprint :: "string option"
  sub_contract_version :: "string option"
  sub_conflict_error_code :: "string option"

definition execution_request_of :: "submission \<Rightarrow> string \<Rightarrow> string \<Rightarrow> execution_request" where
  "execution_request_of s tenant_var execution_mode =
     \<lparr>rq_calculation_id = sub_calculation_id s, rq_tenant_id = tenant_var, rq_analytics_type = sub_analytics_type s,
      rq_portfolio_id = sub_portfolio_id s, rq_execution_mode = execution_mode,
      rq_requested_window = Some (sub_requested_window s), rq_input_fingerprint = sub_input_fingerprint s,
      rq_calculation_hash = sub_calculation_hash s, rq_request_payload = Some (sub_request_payload s),
      rq_submission_idempotency_key_hash = sub_idempotency_key_hash s,
      rq_submission_identity_fingerprint = sub_identity_fingerprint s,
      rq_submission_contract_version = sub_contract_version s\<rparr>"

section \<open>Synchronous registration\<close>

text \<open>A synchronous registration carries no submission columns and may carry no payload.\<close>

definition register_sync_execution_or_raise ::
    "uuid \<Rightarrow> string \<Rightarrow> string option \<Rightarrow> json_dict \<Rightarrow> string option \<Rightarrow> string option \<Rightarrow> json_dict option
      \<Rightarrow> string \<Rightarrow> instant \<Rightarrow> unit txn" where
  "register_sync_execution_or_raise calculation_id analytics_type portfolio_id requested_window input_fingerprint
       calculation_hash request_payload tenant_var now =
     (case admit tenant_var of Inl e \<Rightarrow> refuse e
      | Inr _ \<Rightarrow>
          then_do (commit (register_execution
             \<lparr>rq_calculation_id = calculation_id, rq_tenant_id = tenant_var, rq_analytics_type = analytics_type,
              rq_portfolio_id = portfolio_id, rq_execution_mode = ''sync'', rq_requested_window = Some requested_window,
              rq_input_fingerprint = input_fingerprint, rq_calculation_hash = calculation_hash,
              rq_request_payload = request_payload, rq_submission_idempotency_key_hash = None,
              rq_submission_identity_fingerprint = None, rq_submission_contract_version = None\<rparr> now)) (\<lambda>registration.
          if xr_status registration \<noteq> Created
          then refuse (APIRefusal (APIConflictError
             (''A calculation with this calculation_id already exists. '' @
              ''Use a new calculation_id for synchronous execution.'') None))
          else return ()))"

section \<open>Asynchronous registration\<close>

definition is_durably_resolved_execution_replay :: "execution_registration_result \<Rightarrow> bool" where
  "is_durably_resolved_execution_replay r \<longleftrightarrow> xr_status r = Replay
     \<and> (xr_response_payload_available r \<or> xr_existing_status r \<in> {Some EComplete, Some EFailed})"

definition raise_for_async_submission_conflict :: "execution_registration_result \<Rightarrow> string option \<Rightarrow> unit txn" where
  "raise_for_async_submission_conflict registration conflict_code =
     (if xr_status registration \<noteq> Conflict then return ()
      else refuse (APIRefusal (APIConflictError
        (if conflict_code \<noteq> None
         then ''Idempotency-Key conflicts with an existing attribution submission identity for this tenant.''
         else ''A different async calculation already exists for this calculation_id. '' @
              ''Reuse the original request exactly or submit with a new calculation_id.'') conflict_code)))"

definition registered_async_submission ::
    "execution_registration_result \<Rightarrow> uuid \<Rightarrow> json_dict \<Rightarrow> uuid \<times> json_dict" where
  "registered_async_submission registration calculation_id request_payload =
     (case xr_calculation_id registration of Some k \<Rightarrow> k | None \<Rightarrow> calculation_id,
      case xr_request_payload registration of Some p \<Rightarrow> p | None \<Rightarrow> request_payload)"

text \<open>The clean-up swallows its own errors; the model's deletion has none.\<close>

definition rollback_created_async_execution :: "uuid \<Rightarrow> bool \<Rightarrow> bool \<Rightarrow> unit txn" where
  "rollback_created_async_execution calculation_id created_execution preserve_created_execution db =
     (if \<not> created_execution \<or> preserve_created_execution then (Inr (), db)
      else (Inr (), delete_execution calculation_id db))"

definition register_async_compute_job_or_rollback_execution ::
    "job_registrar \<Rightarrow> uuid \<Rightarrow> string \<Rightarrow> json_dict \<Rightarrow> bool \<Rightarrow> bool \<Rightarrow> string \<Rightarrow> instant
      \<Rightarrow> compute_job_registration_result txn" where
  "register_async_compute_job_or_rollback_execution jobs calculation_id analytics_type request_payload
       created_execution preserve_created_execution tenant_var now db =
     (case commit (jobs calculation_id analytics_type tenant_var request_payload now) db of
        (Inl e, db') \<Rightarrow>
          then_do (rollback_created_async_execution calculation_id created_execution preserve_created_execution)
            (\<lambda>_. refuse e) db'
      | (Inr job_registration, db') \<Rightarrow>
          if reg_status job_registration = Conflict
          then then_do (rollback_created_async_execution calculation_id created_execution preserve_created_execution)
            (\<lambda>_. refuse (APIRefusal (APIConflictError
               (''A different async compute job already exists for this calculation_id. '' @
                ''Reuse the original request exactly or submit with a new calculation_id.'') None))) db'
          else (Inr job_registration, db'))"

definition offload_details :: "string \<Rightarrow> json_dict option" where
  "offload_details offload_reason = Some [(''offload_reason'', JStr offload_reason)]"

definition complete_async_submission_stage_if_needed ::
    "uuid \<Rightarrow> registration_status \<Rightarrow> registration_status \<Rightarrow> bool \<Rightarrow> string \<Rightarrow> instant \<Rightarrow> instant \<Rightarrow> unit txn" where
  "complete_async_submission_stage_if_needed calculation_id execution_status job_outcome created_execution
       offload_reason now1 now2 =
     (let complete = commit (complete_stage calculation_id EXECUTION_STAGE_SUBMISSION (offload_details offload_reason) now2)
      in if created_execution then complete
         else if execution_status = Replay \<and> job_outcome = Created
           then then_do (commit (start_stage calculation_id EXECUTION_STAGE_SUBMISSION None now1)) (\<lambda>_. complete)
         else if execution_status = Replay \<and> job_outcome = Replay
           then then_do (commit (complete_stage_if_in_progress calculation_id EXECUTION_STAGE_SUBMISSION
                                   (offload_details offload_reason) now2)) (\<lambda>_. return ())
         else return ())"

text \<open>The answer is the accepted response for the registered calculation id.\<close>

definition register_async_submission_or_raise ::
    "job_registrar \<Rightarrow> submission \<Rightarrow> string \<Rightarrow> (nat \<Rightarrow> instant) \<Rightarrow> uuid txn" where
  "register_async_submission_or_raise jobs s tenant_var clk =
     (case require_submission_tenant_if_needed tenant_var (sub_requires_tenant_authority s)
             (sub_idempotency_key_hash s \<noteq> None) of
        Inl e \<Rightarrow> refuse e
      | Inr _ \<Rightarrow>
          then_do (commit (register_execution (execution_request_of s tenant_var ''async'') (clk 0))) (\<lambda>registration.
          then_do (raise_for_async_submission_conflict registration (sub_conflict_error_code s)) (\<lambda>_.
          let created_execution = (xr_status registration = Created);
              (k, payload) = registered_async_submission registration (sub_calculation_id s) (sub_request_payload s)
          in then_do (if created_execution then commit (start_stage k EXECUTION_STAGE_SUBMISSION None (clk 1))
                      else return ()) (\<lambda>_.
             if is_durably_resolved_execution_replay registration then return k
             else then_do (register_async_compute_job_or_rollback_execution jobs k (sub_analytics_type s) payload
                             created_execution (sub_idempotency_key_hash s \<noteq> None) tenant_var (clk 2)) (\<lambda>job_registration.
                  then_do (complete_async_submission_stage_if_needed k (xr_status registration)
                             (reg_status job_registration) created_execution (sub_offload_reason s) (clk 3) (clk 4)) (\<lambda>_.
                  return k))))))"

section \<open>Promotion of a synchronous execution\<close>

definition promote_existing_execution_to_async_submission_or_raise ::
    "job_registrar \<Rightarrow> uuid \<Rightarrow> string \<Rightarrow> json_dict \<Rightarrow> string option \<Rightarrow> string option \<Rightarrow> json_dict \<Rightarrow> string \<Rightarrow> bool
      \<Rightarrow> string \<Rightarrow> (nat \<Rightarrow> instant) \<Rightarrow> uuid txn" where
  "promote_existing_execution_to_async_submission_or_raise jobs calculation_id analytics_type requested_window
       input_fingerprint calculation_hash request_payload offload_reason requires_tenant_authority tenant_var clk =
     (case require_submission_tenant_if_needed tenant_var requires_tenant_authority False of
        Inl e \<Rightarrow> refuse e
      | Inr _ \<Rightarrow>
          then_do (commit (jobs calculation_id analytics_type tenant_var request_payload (clk 0))) (\<lambda>job_registration.
          if reg_status job_registration = Conflict
          then refuse (APIRefusal (APIConflictError
             (''A different async compute job already exists for this calculation_id. '' @
              ''Reuse the original request exactly or submit with a new calculation_id.'') None))
          else
          then_do (commit (update_execution_contract calculation_id (Some ''async'') (Some requested_window))) (\<lambda>_.
          then_do (commit (update_execution_identity calculation_id input_fingerprint calculation_hash
                             (Some request_payload))) (\<lambda>_.
          then_do (commit (start_stage calculation_id EXECUTION_STAGE_SUBMISSION None (clk 1))) (\<lambda>_.
          then_do (commit (complete_stage calculation_id EXECUTION_STAGE_SUBMISSION
                             (offload_details offload_reason) (clk 2))) (\<lambda>_.
          return calculation_id))))))"

end
