(* ===== verification/Submission_Safety.thy ===== *)
theory Submission_Safety
  imports Submission_Fencing
begin

text \<open>
  What submission fencing guarantees: one execution and one job per submission however often it
  is repeated, clean-up of a half-registered submission, recovery after a crash between the two
  stores, and no work for results that are already durable. The fencing relies on the job store
  only through the contract \<open>job_store\<close>, which the model's registration satisfies.
\<close>

section \<open>The contract of the job store\<close>

locale job_store =
  fixes jobs :: job_registrar
  assumes rest_kept: "jobs k ty t p now db = Inr (r, db') \<Longrightarrow> same_stores (db\<lparr>db_jobs := db_jobs db'\<rparr>) db'"
    and created: "jobs k ty t p now db = Inr (r, db') \<Longrightarrow> reg_status r = Created \<Longrightarrow>
          get_job k db = None \<and> (\<exists>row. get_job k db' = Some row \<and> job_status row = JPending
            \<and> job_tenant_id row = Some (strip t) \<and> job_analytics_type row = ty)"
    and not_created: "jobs k ty t p now db = Inr (r, db') \<Longrightarrow> reg_status r \<noteq> Created \<Longrightarrow> db' = db \<and> get_job k db \<noteq> None"
begin

lemma executions_kept:
  "jobs k ty t p now db = Inr (r, db') \<Longrightarrow> get_execution_row i db' = get_execution_row i db \<and> get_stage_row s db' = get_stage_row s db"
  using rest_kept by (fastforce simp: same_stores_def get_execution_row_def get_stage_row_def)

lemma job_exists:
  "register_async_compute_job_or_rollback_execution jobs k ty p created preserve t now db = (Inr r, db') \<Longrightarrow>
   get_job k db' \<noteq> None \<and> reg_status r \<in> {Created, Replay} \<and> get_execution_row i db' = get_execution_row i db"
  using created [of k ty t p now db r db'] not_created [of k ty t p now db r db'] executions_kept [of k ty t p now db r db']
  by (auto simp: register_async_compute_job_or_rollback_execution_def txn_defs rollback_created_async_execution_def
      split: sum.splits prod.splits if_splits; cases "reg_status r"; auto)

end

interpretation model_jobs: job_store "compute_job_registrar setting" for setting
proof
  fix k ty t p now db r db'
  assume reg: "compute_job_registrar setting k ty t p now db = Inr (r, db')"
  show "same_stores (db\<lparr>db_jobs := db_jobs db'\<rparr>) db'"
    using reg by (auto simp: compute_job_registrar_def register_job_def same_stores_def add_job_def Let_def split: option.splits)
  show "reg_status r = Created \<Longrightarrow> get_job k db = None \<and> (\<exists>row. get_job k db' = Some row \<and> job_status row = JPending
            \<and> job_tenant_id row = Some (strip t) \<and> job_analytics_type row = ty)"
  proof -
    assume c: "reg_status r = Created"
    with reg have none: "get_job k db = None"
      by (auto simp: compute_job_registrar_def register_job_def registration_result_for_integrity_conflict_def Let_def
          split: option.splits if_splits)
    with reg have "db' = add_job (new_job k ty (strip t) p (configured_max_attempts None setting) now) db"
      by (simp add: compute_job_registrar_def register_job_def Let_def)
    with none show ?thesis by (simp add: get_job_add) (simp add: new_job_def)
  qed
  show "reg_status r \<noteq> Created \<Longrightarrow> db' = db \<and> get_job k db \<noteq> None"
    using reg by (auto simp: compute_job_registrar_def register_job_def Let_def split: option.splits)
qed

section \<open>Refusals leave nothing behind\<close>

text \<open>A submission that needs a tenant, because it reads tenant data or because it carries an
  idempotency key, is refused with 401 before anything is registered when the caller's tenant is
  blank, and so is a malformed tenant with 400.\<close>

theorem tenant_gate:
  assumes "sub_requires_tenant_authority s \<or> sub_idempotency_key_hash s \<noteq> None"
    "strip tenant_var = [] \<or> MAX_TENANT_ID_LENGTH < length (strip tenant_var)"
  shows "\<exists>e. register_async_submission_or_raise jobs s tenant_var clk db = (Inl (APIRefusal e), db)
     \<and> status_code e = (if strip tenant_var = [] then 401 else 400)"
  using assms
  by (auto simp: register_async_submission_or_raise_def require_submission_tenant_if_needed_def admit_def admitted_cases
      refuse_def MissingIdempotentSubmissionTenantAuthorityError_def MissingStatefulSubmissionTenantAuthorityError_def
      MalformedTenantAuthorityError_def tenant_refusal_def)

lemma txn_simps [simp]:
  "then_do (return a) f db = f a db"
  "then_do (refuse e) f db = (Inl e, db)"
  "op db = Inl e \<Longrightarrow> then_do (commit op) f db = (Inl e, db)"
  "op db = Inr (a, db') \<Longrightarrow> then_do (commit op) f db = f a db'"
  "return a db = (Inr a, db)"
  "refuse e db = (Inl e, db)"
  by (simp_all add: txn_defs)

definition fresh_submission :: "submission \<Rightarrow> string \<Rightarrow> database \<Rightarrow> bool" where
  "fresh_submission s tenant_var db \<longleftrightarrow> \<not> violates_integrity (execution_request_of s tenant_var ''async'') db
     \<and> get_stage_row (sub_calculation_id s, EXECUTION_STAGE_SUBMISSION) db = None
     \<and> (\<exists>u. require_submission_tenant_if_needed tenant_var (sub_requires_tenant_authority s)
               (sub_idempotency_key_hash s \<noteq> None) = Inr u)"

abbreviation submitted_row :: "submission \<Rightarrow> string \<Rightarrow> instant \<Rightarrow> execution_row" where
  "submitted_row s tenant_var now \<equiv> execution_model_for_registration (execution_request_of s tenant_var ''async'') now"

definition after_start :: "submission \<Rightarrow> string \<Rightarrow> (nat \<Rightarrow> instant) \<Rightarrow> database \<Rightarrow> database" where
  "after_start s tenant_var clk db =
     (let db1 = add_execution (submitted_row s tenant_var (clk 0)) db
      in db1\<lparr>db_stages := tbl_add (new_stage (sub_calculation_id s) EXECUTION_STAGE_SUBMISSION None (clk 1)) (db_stages db1)\<rparr>)"

lemma request_fields [simp]:
  "rq_calculation_id (execution_request_of s t m) = sub_calculation_id s"
  "rq_tenant_id (execution_request_of s t m) = t"
  "rq_analytics_type (execution_request_of s t m) = sub_analytics_type s"
  "rq_request_payload (execution_request_of s t m) = Some (sub_request_payload s)"
  "rq_submission_idempotency_key_hash (execution_request_of s t m) = sub_idempotency_key_hash s"
  "rq_submission_identity_fingerprint (execution_request_of s t m) = sub_identity_fingerprint s"
  "rq_submission_contract_version (execution_request_of s t m) = sub_contract_version s"
  by (simp_all add: execution_request_of_def)

lemma submitted_key [simp]: "ex_calculation_id (submitted_row s t now) = sub_calculation_id s"
  by (simp add: execution_model_for_registration_def)

lemma after_start_facts:
  assumes "fresh_submission s t db"
  shows "get_execution_row k (after_start s t clk db) =
      (if k = sub_calculation_id s then Some (submitted_row s t (clk 0)) else get_execution_row k db)"
    "get_stage_row (sub_calculation_id s, EXECUTION_STAGE_SUBMISSION) (after_start s t clk db)
      = Some (new_stage (sub_calculation_id s) EXECUTION_STAGE_SUBMISSION None (clk 1))"
    "db_jobs (after_start s t clk db) = db_jobs db" "db_dialect_name (after_start s t clk db) = db_dialect_name db"
proof -
  have "get_execution_row (sub_calculation_id s) db = None"
    using assms by (simp add: fresh_submission_def violates_integrity_def)
  then show "get_execution_row k (after_start s t clk db) =
      (if k = sub_calculation_id s then Some (submitted_row s t (clk 0)) else get_execution_row k db)"
    by (auto simp: after_start_def Let_def get_execution_row_def add_execution_def tbl_get_add split: option.splits)
  show "get_stage_row (sub_calculation_id s, EXECUTION_STAGE_SUBMISSION) (after_start s t clk db)
      = Some (new_stage (sub_calculation_id s) EXECUTION_STAGE_SUBMISSION None (clk 1))"
    using assms by (simp add: fresh_submission_def after_start_def Let_def get_stage_row_def add_execution_def tbl_get_add
        stage_key_def new_stage_def)
qed (simp_all add: after_start_def Let_def add_execution_def)

text \<open>A fresh submission up to the registration of its job.\<close>

lemma fresh_submission_run:
  assumes "fresh_submission s t db"
  shows "register_async_submission_or_raise jobs s t clk db =
     then_do (register_async_compute_job_or_rollback_execution jobs (sub_calculation_id s) (sub_analytics_type s)
        (sub_request_payload s) True (sub_idempotency_key_hash s \<noteq> None) t (clk 2)) (\<lambda>job_registration.
     then_do (complete_async_submission_stage_if_needed (sub_calculation_id s) Created (reg_status job_registration) True
        (sub_offload_reason s) (clk 3) (clk 4)) (\<lambda>_. return (sub_calculation_id s))) (after_start s t clk db)"
proof -
  let ?rq = "execution_request_of s t ''async''"
  obtain u where u: "require_submission_tenant_if_needed t (sub_requires_tenant_authority s)
      (sub_idempotency_key_hash s \<noteq> None) = Inr u" and free: "\<not> violates_integrity ?rq db"
    using assms by (auto simp: fresh_submission_def)
  have reg: "register_execution ?rq (clk 0) db =
      Inr (\<lparr>xr_status = Created, xr_existing_status = None, xr_existing_execution_mode = None,
            xr_calculation_id = Some (sub_calculation_id s), xr_request_payload = Some (sub_request_payload s),
            xr_response_payload_available = False\<rparr>, add_execution (submitted_row s t (clk 0)) db)"
    using free by (simp add: register_execution_def)
  have stage: "start_stage (sub_calculation_id s) EXECUTION_STAGE_SUBMISSION None (clk 1)
      (add_execution (submitted_row s t (clk 0)) db) = Inr ((), after_start s t clk db)"
  proof -
    have none: "get_execution_row (ex_calculation_id (submitted_row s t (clk 0))) db = None"
      using free by (simp add: violates_integrity_def)
    have "get_execution_row (sub_calculation_id s) (add_execution (submitted_row s t (clk 0)) db) = Some (submitted_row s t (clk 0))"
      unfolding execs.get_add [OF none] by simp
    moreover have "get_stage_row (sub_calculation_id s, EXECUTION_STAGE_SUBMISSION)
        (add_execution (submitted_row s t (clk 0)) db) = None"
      using assms by (simp add: fresh_submission_def get_stage_row_def add_execution_def)
    ultimately show ?thesis by (simp add: start_stage_def get_execution_model_def after_start_def Let_def)
  qed
  show ?thesis
    by (simp add: register_async_submission_or_raise_def u reg stage raise_for_async_submission_conflict_def
        registered_async_submission_def is_durably_resolved_execution_replay_def Let_def
        del: not_None_eq One_nat_def)
qed

section \<open>Clean-up of a half-registered submission\<close>

text \<open>When the job of a fresh submission without idempotency key cannot be registered, because the
  job store fails or already holds a different job, the submission is refused and neither its
  execution nor its submission stage remains; the jobs are as they were. With an idempotency key
  the execution is kept, so that a retry under the same key can finish the submission.\<close>

theorem failed_submission_cleaned_up:
  assumes fresh: "fresh_submission s tenant_var db"
    and fails: "jobs (sub_calculation_id s) (sub_analytics_type s) tenant_var (sub_request_payload s) (clk 2)
        (after_start s tenant_var clk db) \<in>
          {Inl e, Inr (\<lparr>reg_status = Conflict, reg_existing_status = st\<rparr>, after_start s tenant_var clk db)}"
  shows "\<exists>e' db'. register_async_submission_or_raise jobs s tenant_var clk db = (Inl e', db')
     \<and> db_jobs db' = db_jobs db
     \<and> (sub_idempotency_key_hash s = None \<longrightarrow>
          (\<forall>k. get_execution_row k db' = get_execution_row k db) \<and> stages_of (sub_calculation_id s) db' = [])
     \<and> (sub_idempotency_key_hash s \<noteq> None \<longrightarrow>
          get_execution_row (sub_calculation_id s) db' = Some (submitted_row s tenant_var (clk 0)))"
proof -
  let ?d = "after_start s tenant_var clk db" and ?k = "sub_calculation_id s"
  note start = after_start_facts [OF fresh]
  let ?d' = "if sub_idempotency_key_hash s = None then delete_execution ?k ?d else ?d"
  obtain e' where run: "register_async_submission_or_raise jobs s tenant_var clk db = (Inl e', ?d')"
    using fails unfolding fresh_submission_run [OF fresh]
    by (cases "sub_idempotency_key_hash s") (auto simp: register_async_compute_job_or_rollback_execution_def rollback_created_async_execution_def
        commit_def then_do_def refuse_def)
  have none: "get_execution_row ?k db = None"
    using fresh by (simp add: fresh_submission_def violates_integrity_def)
  have row: "get_execution_row ?k ?d \<noteq> None" by (simp add: start(1))
  have del: "db_executions (delete_execution ?k ?d) = filter (\<lambda>e. ex_calculation_id e \<notin> set [?k]) (db_executions ?d)"
    by (rule delete_execution_rows)
  have jobs: "db_jobs ?d' = db_jobs db"
    by (auto simp: start(3) delete_execution_def drop_execution_def split: option.splits)
  have gone: "get_execution_row k (delete_execution ?k ?d) = get_execution_row k db" for k
  proof (cases "k = ?k")
    case True
    have "get_execution_row ?k (delete_execution ?k ?d) = None"
      unfolding get_execution_row_def tbl_get_None del by auto
    then show ?thesis using none True by simp
  next
    case False
    then have "get_execution_row k (delete_execution ?k ?d) = get_execution_row k ?d"
      by (auto simp: delete_execution_def get_execution_row_def drop_execution_def tbl_get_del split: option.splits)
    with False show ?thesis by (simp add: start(1))
  qed
  have "stages_of ?k (delete_execution ?k ?d) = []"
    using row by (auto simp: delete_execution_stages)
  then show ?thesis using run jobs gone start(1) by (intro exI [of _ e'] exI [of _ ?d']) auto
qed

section \<open>Repeating a submission\<close>

lemma load_object_dumps: "load_object (Some (dumps_dict d)) = Some (sort_key fst (List.map (map_prod id sort_keys) d))"
  by (simp add: load_object_def)

lemma dumps_dict_load: "load_object (Some (dumps_dict d)) = Some d' \<Longrightarrow> dumps_dict d' = dumps_dict d"
  using dumps_dict_stable by (auto simp: load_object_dumps)

lemma identity_load:
  assumes "load_object (Some (dumps_dict d)) = Some d'"
  shows "compute_job_request_identity_json d' = compute_job_request_identity_json d"
  using identity_of_stored [of d] identity_of_stored [of d'] dumps_dict_load [OF assms] by simp

text \<open>The answer of the registry when the same request comes again.\<close>

lemma repeat_registration:
  assumes ok: "registry_ok db" and row: "get_execution_row (sub_calculation_id s) db = Some r"
    and same: "exec_identity r = exec_identity (submitted_row s t now)"
      "existing_execution_replay_signature r = existing_execution_replay_signature (submitted_row s t now)"
  shows "register_execution (execution_request_of s t ''async'') now' db =
     Inr (existing_execution_registration_result Replay r, db)"
proof -
  let ?rq = "execution_request_of s t ''async''"
  have mem: "r \<in> set (db_executions db)" using row by (auto simp: get_execution_row_def dest: tbl_get_Some)
  have own: "idempotency_owner ?rq r" and ids: "ex_submission_identity_fingerprint r = sub_identity_fingerprint s"
    "ex_submission_contract_version r = sub_contract_version s"
    using identity_fields [OF same(1)] by (simp_all add: idempotency_owner_def execution_model_for_registration_def)
  have viol: "violates_integrity ?rq db" using row by (simp add: violates_integrity_def)
  show ?thesis
  proof (cases "sub_idempotency_key_hash s")
    case None
    have "is_replay_of_existing_execution r ?rq"
      using same(2) by (simp add: is_replay_of_existing_execution_def existing_execution_replay_signature_def
          requested_execution_replay_signature_def execution_model_for_registration_def)
    with None viol row show ?thesis
      by (simp add: register_execution_def registration_result_for_duplicate_execution_def)
  next
    case (Some h)
    obtain q where q: "find (idempotency_owner ?rq) (db_executions db) = Some q"
      using mem own by (cases "find (idempotency_owner ?rq) (db_executions db)") (auto simp: find_None_iff)
    then have "q \<in> set (db_executions db)" "idempotency_owner ?rq q" by (auto simp: find_Some_iff)
    then have "q = r" using unique_idempotency_owner [OF ok _ mem _ own] Some by simp
    with Some viol q ids show ?thesis
      by (simp add: register_execution_def registration_result_for_duplicate_execution_def Let_def)
  qed
qed

lemma gate_passed: "fresh_submission s t db \<Longrightarrow>
   \<exists>u. require_submission_tenant_if_needed t (sub_requires_tenant_authority s) (sub_idempotency_key_hash s \<noteq> None) = Inr u"
  by (simp add: fresh_submission_def del: not_None_eq)

text \<open>A repeated submission whose execution has already finished, or whose response is already
  retained, is accepted for the same calculation without registering any work: the database does
  not change.\<close>

theorem durable_result_not_recomputed:
  assumes ok: "registry_ok db" and gate: "require_submission_tenant_if_needed tenant_var
        (sub_requires_tenant_authority s) (sub_idempotency_key_hash s \<noteq> None) = Inr u"
    and row: "get_execution_row (sub_calculation_id s) db = Some r"
    and same: "exec_identity r = exec_identity (submitted_row s tenant_var now)"
      "existing_execution_replay_signature r = existing_execution_replay_signature (submitted_row s tenant_var now)"
    and durable: "ex_status r \<in> {EComplete, EFailed} \<or> ex_response_json r \<noteq> None"
  shows "register_async_submission_or_raise jobs s tenant_var clk db = (Inr (sub_calculation_id s), db)"
proof -
  have key: "ex_calculation_id r = sub_calculation_id s"
    using row by (auto simp: get_execution_row_def dest: tbl_get_Some)
  have "is_durably_resolved_execution_replay (existing_execution_registration_result Replay r)"
    using durable by (auto simp: is_durably_resolved_execution_replay_def existing_execution_registration_result_def)
  then show ?thesis
    by (simp add: register_async_submission_or_raise_def gate repeat_registration [OF ok row same]
        raise_for_async_submission_conflict_def registered_async_submission_def key Let_def
        existing_execution_registration_result_def del: not_None_eq)
qed

text \<open>A repeated submission of an unfinished execution goes straight to its job.\<close>

lemma resumed_submission_run:
  assumes ok: "registry_ok db" and gate: "require_submission_tenant_if_needed t
        (sub_requires_tenant_authority s) (sub_idempotency_key_hash s \<noteq> None) = Inr u"
    and row: "get_execution_row (sub_calculation_id s) db = Some r"
    and same: "exec_identity r = exec_identity (submitted_row s t now)"
      "existing_execution_replay_signature r = existing_execution_replay_signature (submitted_row s t now)"
    and unfinished: "ex_status r \<in> {EPending, ERunning}" "ex_response_json r = None"
  shows "register_async_submission_or_raise jobs s t clk db =
     then_do (register_async_compute_job_or_rollback_execution jobs (sub_calculation_id s) (sub_analytics_type s)
        (case load_object (ex_request_json r) of Some p \<Rightarrow> p | None \<Rightarrow> sub_request_payload s) False
        (sub_idempotency_key_hash s \<noteq> None) t (clk 2)) (\<lambda>job_registration.
     then_do (complete_async_submission_stage_if_needed (sub_calculation_id s) Replay (reg_status job_registration) False
        (sub_offload_reason s) (clk 3) (clk 4)) (\<lambda>_. return (sub_calculation_id s))) db"
proof -
  have key: "ex_calculation_id r = sub_calculation_id s"
    using row by (auto simp: get_execution_row_def dest: tbl_get_Some)
  have "\<not> is_durably_resolved_execution_replay (existing_execution_registration_result Replay r)"
    using unfinished by (auto simp: is_durably_resolved_execution_replay_def existing_execution_registration_result_def)
  then show ?thesis
    by (simp add: register_async_submission_or_raise_def gate repeat_registration [OF ok row same]
        raise_for_async_submission_conflict_def registered_async_submission_def key Let_def
        existing_execution_registration_result_def del: not_None_eq One_nat_def)
qed

lemma register_job_fresh:
  "get_job k db = None \<Longrightarrow> compute_job_registrar setting k ty t p now db =
     Inr (\<lparr>reg_status = Created, reg_existing_status = None\<rparr>, add_job (new_job k ty (strip t) p setting now) db)"
  by (simp add: compute_job_registrar_def register_job_def configured_max_attempts_def Let_def)

lemma register_job_again:
  assumes "get_job k db = Some j" "job_request_json j = dumps_dict p" "job_analytics_type j = ty"
    "job_tenant_id j = Some (strip t)" "job_max_attempts j = setting"
    "compute_job_request_identity_json p' = compute_job_request_identity_json p"
  shows "compute_job_registrar setting k ty t p' now db =
     Inr (\<lparr>reg_status = Replay, reg_existing_status = Some (job_status j)\<rparr>, db)"
  using assms
  by (simp add: compute_job_registrar_def register_job_def configured_max_attempts_def Let_def
      registration_result_for_integrity_conflict_def matches_existing_compute_job_registration_def identity_of_stored)

lemma complete_stage_effect:
  assumes "get_execution_row k db = Some e" "get_stage_row (k, n) db = Some st"
  shows "complete_stage k n details now db = Inr ((), update_stage (k, n) (completed_stage details now) db)"
    "get_stage_row (k, n) (update_stage (k, n) (completed_stage details now) db) = Some (completed_stage details now st)"
proof -
  show "complete_stage k n details now db = Inr ((), update_stage (k, n) (completed_stage details now) db)"
    using assms by (simp add: complete_stage_def get_execution_model_def get_stage_model_def)
  have "stage_key (completed_stage details now q) = stage_key q" for q by (simp add: stage_key_def completed_stage_def)
  then show "get_stage_row (k, n) (update_stage (k, n) (completed_stage details now) db) = Some (completed_stage details now st)"
    using assms(2) by (simp add: get_stage_row_def update_stage_def tbl_get_upd)
qed

lemma update_stage_rows [simp]: "db_jobs (update_stage key g db) = db_jobs db"
  by (simp add: update_stage_def)

lemma registry_ok_cong: "db_executions db' = db_executions db \<Longrightarrow> registry_ok db' = registry_ok db"
  by (simp add: registry_ok_def)

text \<open>C5: A fresh submission registers exactly one execution and one pending job with the
  submitted tenant and request, completes its submission stage and is accepted; repeating the
  same submission at any later time is accepted for the same calculation and changes nothing.\<close>

theorem submission_exactly_once:
  assumes ok: "registry_ok db" and fresh: "fresh_submission s tenant_var db"
    and nojob: "get_job (sub_calculation_id s) db = None"
  shows "\<exists>db'. register_async_submission_or_raise (compute_job_registrar setting) s tenant_var clk db
        = (Inr (sub_calculation_id s), db')
     \<and> get_execution_row (sub_calculation_id s) db' = Some (submitted_row s tenant_var (clk 0))
     \<and> get_job (sub_calculation_id s) db' = Some (new_job (sub_calculation_id s) (sub_analytics_type s) (strip tenant_var)
            (sub_request_payload s) setting (clk 2))
     \<and> stage_is_complete (sub_calculation_id s) EXECUTION_STAGE_SUBMISSION db'
     \<and> (\<forall>clk'. register_async_submission_or_raise (compute_job_registrar setting) s tenant_var clk' db'
            = (Inr (sub_calculation_id s), db'))"
proof -
  let ?k = "sub_calculation_id s" and ?d = "after_start s tenant_var clk db"
  let ?j = "new_job ?k (sub_analytics_type s) (strip tenant_var) (sub_request_payload s) setting (clk 2)"
  let ?r = "submitted_row s tenant_var (clk 0)"
  let ?d1 = "add_job ?j ?d" and ?det = "offload_details (sub_offload_reason s)"
  let ?d2 = "update_stage (?k, EXECUTION_STAGE_SUBMISSION) (completed_stage ?det (clk 4)) ?d1"
  note start = after_start_facts [OF fresh]
  have nojob1: "get_job ?k ?d = None" using nojob by (simp add: get_job_def start(3))
  have row1: "get_execution_row ?k ?d1 = Some ?r" by (simp add: start(1))
  have stage1: "get_stage_row (?k, EXECUTION_STAGE_SUBMISSION) ?d1
      = Some (new_stage ?k EXECUTION_STAGE_SUBMISSION None (clk 1))"
    using start(2) by (simp add: get_stage_row_def add_job_def)
  note fin = complete_stage_effect [OF row1 stage1, of ?det "clk 4"]
  have first: "register_async_submission_or_raise (compute_job_registrar setting) s tenant_var clk db = (Inr ?k, ?d2)"
    unfolding fresh_submission_run [OF fresh]
    by (simp add: register_async_compute_job_or_rollback_execution_def register_job_fresh [OF nojob1]
        complete_async_submission_stage_if_needed_def fin(1) commit_def then_do_def return_def)
  have row2: "get_execution_row ?k ?d2 = Some ?r" using row1 by simp
  have job2: "get_job ?k ?d2 = Some ?j" using get_job_add [of ?j ?d ?k] nojob1 by simp
  have reg2: "registry_ok ?d2"
  proof -
    have "exec_step db (XRegister (execution_request_of s tenant_var ''async'') (clk 0)) = Inr (add_execution ?r db)"
      using fresh by (auto simp: fresh_submission_def register_execution_def)
    then have "registry_ok (add_execution ?r db)" by (rule registry.step_inv [OF ok TrueI])
    then show ?thesis by (rule iffD2 [OF registry_ok_cong, rotated])
        (simp add: after_start_def Let_def add_job_def update_stage_def)
  qed
  obtain u where gate: "require_submission_tenant_if_needed tenant_var
        (sub_requires_tenant_authority s) (sub_idempotency_key_hash s \<noteq> None) = Inr u"
    using gate_passed [OF fresh] by blast
  have again: "register_async_submission_or_raise (compute_job_registrar setting) s tenant_var clk' ?d2 = (Inr ?k, ?d2)" for clk'
  proof -
    have req: "ex_request_json ?r = Some (dumps_dict (sub_request_payload s))"
      by (simp add: execution_model_for_registration_def)
    obtain p' where p': "load_object (Some (dumps_dict (sub_request_payload s))) = Some p'"
      by (simp add: load_object_dumps)
    have j: "job_request_json ?j = dumps_dict (sub_request_payload s)" "job_analytics_type ?j = sub_analytics_type s"
      "job_tenant_id ?j = Some (strip tenant_var)" "job_max_attempts ?j = setting" by (simp_all add: new_job_def)
    have replay: "compute_job_registrar setting ?k (sub_analytics_type s) tenant_var p' now ?d2 =
        Inr (\<lparr>reg_status = Replay, reg_existing_status = Some (job_status ?j)\<rparr>, ?d2)" for now
      by (rule register_job_again [OF job2 j identity_load [OF p']])
    have stage2: "complete_stage_if_in_progress ?k EXECUTION_STAGE_SUBMISSION ?det now ?d2 = Inr (False, ?d2)" for now
      using row2 fin(2) by (simp add: complete_stage_if_in_progress_def get_execution_model_def completed_stage_def)
    show ?thesis
      using resumed_submission_run [OF reg2 gate row2 refl refl, of "compute_job_registrar setting" clk']
      by (simp add: req p' replay stage2 register_async_compute_job_or_rollback_execution_def
          complete_async_submission_stage_if_needed_def commit_def then_do_def return_def)
        (simp add: execution_model_for_registration_def)
  qed
  have "stage_is_complete ?k EXECUTION_STAGE_SUBMISSION ?d2"
    using fin(2) by (simp add: stage_is_complete_def stage_status_def completed_stage_def)
  with first row2 job2 again show ?thesis by blast
qed

text \<open>C34: If the service dies between registering the execution and registering its job, with or
  without the submission stage written, repeating the submission finishes it: the job is created
  with the originally retained request and the stage is complete.\<close>

theorem interrupted_submission_recovers:
  assumes ok: "registry_ok db" and gate: "require_submission_tenant_if_needed tenant_var
        (sub_requires_tenant_authority s) (sub_idempotency_key_hash s \<noteq> None) = Inr u"
    and row: "get_execution_row (sub_calculation_id s) db = Some (submitted_row s tenant_var now)"
    and nojob: "get_job (sub_calculation_id s) db = None"
  shows "\<exists>db' j. register_async_submission_or_raise (compute_job_registrar setting) s tenant_var clk db
        = (Inr (sub_calculation_id s), db')
     \<and> get_job (sub_calculation_id s) db' = Some j \<and> job_status j = JPending
     \<and> job_request_json j = dumps_dict (sub_request_payload s) \<and> job_tenant_id j = Some (strip tenant_var)
     \<and> get_execution_row (sub_calculation_id s) db' = Some (submitted_row s tenant_var now)
     \<and> stage_is_complete (sub_calculation_id s) EXECUTION_STAGE_SUBMISSION db'"
proof -
  let ?k = "sub_calculation_id s" and ?r = "submitted_row s tenant_var now"
  let ?det = "offload_details (sub_offload_reason s)"
  have req: "ex_request_json ?r = Some (dumps_dict (sub_request_payload s))"
    by (simp add: execution_model_for_registration_def)
  obtain p' where p': "load_object (Some (dumps_dict (sub_request_payload s))) = Some p'"
    by (simp add: load_object_dumps)
  let ?j = "new_job ?k (sub_analytics_type s) (strip tenant_var) p' setting (clk 2)"
  let ?d1 = "add_job ?j db"
  have row1: "get_execution_row ?k ?d1 = Some ?r" using row by simp
  have job1: "get_job ?k ?d1 = Some ?j" using get_job_add [of ?j db ?k] nojob by simp
  obtain d2 st where d2: "start_stage ?k EXECUTION_STAGE_SUBMISSION None (clk 3) ?d1 = Inr ((), d2)"
    "get_stage_row (?k, EXECUTION_STAGE_SUBMISSION) d2 = Some st" "get_execution_row ?k d2 = Some ?r" "get_job ?k d2 = Some ?j"
  proof (cases "get_stage_row (?k, EXECUTION_STAGE_SUBMISSION) ?d1")
    case None
    then show thesis using row1 job1
      by (intro that [of "?d1\<lparr>db_stages := tbl_add (new_stage ?k EXECUTION_STAGE_SUBMISSION None (clk 3)) (db_stages ?d1)\<rparr>"
            "new_stage ?k EXECUTION_STAGE_SUBMISSION None (clk 3)"])
        (simp_all add: start_stage_def get_execution_model_def get_stage_row_def tbl_get_add stage_key_def
          new_stage_def get_execution_row_def get_job_def)
  next
    case (Some st)
    have "stage_key (restarted_stage None now q) = stage_key q" for q now by (simp add: stage_key_def restarted_stage_def)
    then show thesis using row1 job1 Some
      by (intro that [of "update_stage (?k, EXECUTION_STAGE_SUBMISSION) (restarted_stage None (clk 3)) ?d1"])
        (simp_all add: start_stage_def get_execution_model_def get_stage_row_def tbl_get_upd update_stage_def
          get_execution_row_def get_job_def)
  qed
  let ?d3 = "update_stage (?k, EXECUTION_STAGE_SUBMISSION) (completed_stage ?det (clk 4)) d2"
  note fin = complete_stage_effect [OF d2(3,2), of ?det "clk 4"]
  have run: "register_async_submission_or_raise (compute_job_registrar setting) s tenant_var clk db = (Inr ?k, ?d3)"
    using resumed_submission_run [OF ok gate row refl refl, of "compute_job_registrar setting" clk]
    by (simp add: req p' register_job_fresh [OF nojob] register_async_compute_job_or_rollback_execution_def
        complete_async_submission_stage_if_needed_def d2(1) fin(1) commit_def then_do_def return_def)
      (simp add: execution_model_for_registration_def)
  have "job_request_json ?j = dumps_dict (sub_request_payload s)"
    using dumps_dict_load [OF p'] by (simp add: new_job_def)
  moreover have "job_status ?j = JPending" "job_tenant_id ?j = Some (strip tenant_var)" by (simp_all add: new_job_def)
  moreover have "stage_is_complete ?k EXECUTION_STAGE_SUBMISSION ?d3"
    using fin(2) by (simp add: stage_is_complete_def stage_status_def completed_stage_def)
  moreover have "get_job ?k ?d3 = Some ?j" "get_execution_row ?k ?d3 = Some ?r" using d2 by simp_all
  ultimately show ?thesis using run by blast
qed

end
