(* ===== verification/Execution_Witnesses.thy ===== *)
theory Execution_Witnesses
  imports Submission_Safety
begin

text \<open>
  The properties of the execution registry and of submission fencing on concrete databases.
\<close>

definition demo_request :: "string \<Rightarrow> execution_request" where
  "demo_request k = \<lparr>rq_calculation_id = k, rq_tenant_id = '' acme'', rq_analytics_type = ''Attribution'',
     rq_portfolio_id = Some ''P1'', rq_execution_mode = ''async'', rq_requested_window = Some [(''from'', JStr ''2024'')],
     rq_input_fingerprint = Some ''f'', rq_calculation_hash = None, rq_request_payload = Some [(''b'', JInt 2), (''a'', JInt 1)],
     rq_submission_idempotency_key_hash = Some ''h'', rq_submission_identity_fingerprint = Some ''id'',
     rq_submission_contract_version = Some ''v1''\<rparr>"

definition empty_db :: database where "empty_db = empty_database ''sqlite''"

definition demo_registered :: database where
  "demo_registered = run_ops exec_step empty_db [XRegister (demo_request ''x1'') 10]"

definition demo_exec_events :: "exec_event list" where
  "demo_exec_events = [XRun ''x1'' 20, XStartStage ''x1'' ''execution'' None 21]"

definition demo_failed :: database where
  "demo_failed = run_ops exec_step demo_registered (demo_exec_events @ [XFail ''x1'' ''cancelled'' None 30])"

lemma registry_facts: "registry_ok empty_db" "registry_ok demo_registered" "registry_ok demo_failed"
  by code_simp+

theorem idempotency_key_binds_witness:
  "\<exists>res'. register_execution (demo_request ''x2'') 50 (run_ops exec_step demo_registered demo_exec_events)
        = Inr (res', run_ops exec_step demo_registered demo_exec_events)
     \<and> xr_calculation_id res' = Some (rq_calculation_id (demo_request ''x1''))
     \<and> xr_status res' = (if rq_submission_identity_fingerprint (demo_request ''x2'') = rq_submission_identity_fingerprint (demo_request ''x1'')
             \<and> rq_submission_contract_version (demo_request ''x2'') = rq_submission_contract_version (demo_request ''x1'')
           then Replay else Conflict)"
proof (rule idempotency_key_binds [OF registry_facts(1), of "demo_request ''x1''" 10])
  show "register_execution (demo_request ''x1'') 10 empty_db
      = Inr (fst (projr (register_execution (demo_request ''x1'') 10 empty_db)), demo_registered)" by code_simp
  show "xr_status (fst (projr (register_execution (demo_request ''x1'') 10 empty_db))) = Created" by code_simp
  show "rq_submission_idempotency_key_hash (demo_request ''x1'') = Some ''h''" by (simp add: demo_request_def)
  show "list_all (spares (rq_calculation_id (demo_request ''x1''))) demo_exec_events" by code_simp
qed (simp_all add: demo_request_def)

theorem failure_wins_witness:
  "complete_stage_and_execution ''x1'' ''execution'' None 40 demo_failed = Inr (False, demo_failed)"
  by (rule failure_wins [THEN conjunct1, OF registry_facts(3), of _ "the (get_execution_row ''x1'' demo_failed)"]) code_simp+

theorem unguarded_marks_resurrect_witness:
  "\<exists>db'. mark_execution_complete ''x1'' 40 demo_failed = Inr ((), db')
        \<and> (\<exists>r'. get_execution_row ''x1'' db' = Some r' \<and> ex_status r' = EComplete \<and> ex_error_message r' = None \<and> ex_failure_json r' = None)"
  by (rule unguarded_marks_resurrect [THEN conjunct2, of _ _ "the (get_execution_row ''x1'' demo_failed)"]) code_simp+

definition demo_snapshot :: "string \<Rightarrow> string \<Rightarrow> snapshot_payload" where
  "demo_snapshot i fp = \<lparr>sp_snapshot_id = i, sp_upstream_endpoint = ''core'', sp_source_identifier = ''s'',
     sp_as_of_date = ''2024-01-01'', sp_request_fingerprint = ''r'', sp_response_fingerprint = fp,
     sp_retrieval_status = ''ok'', sp_paging_metadata = None\<rparr>"

theorem snapshot_batch_is_sequence_witness:
  "exec_step demo_registered (XSnapshots ''x1'' [demo_snapshot ''s1'' ''a'', demo_snapshot ''s1'' ''b''] 60)
     = Inr (run_ops exec_step demo_registered
         (List.map (\<lambda>p. XSnapshot ''x1'' p 60) [demo_snapshot ''s1'' ''a'', demo_snapshot ''s1'' ''b'']))"
  by (rule snapshot_batch_is_sequence [THEN conjunct1, of _ _ "the (get_execution_row ''x1'' demo_registered)"]) code_simp

theorem tenant_isolation_witness:
  "get_execution_for_tenant ''x1'' ''other'' demo_registered =
      (case get_execution_row ''x1'' demo_registered of
         Some e \<Rightarrow> if ex_tenant_id e = Some ''other'' then get_execution ''x1'' demo_registered else None
       | None \<Rightarrow> None)"
  by (rule tenant_isolation [THEN conjunct1]) code_simp+

definition demo_snapshots :: database where
  "demo_snapshots = run_ops exec_step demo_registered [XSnapshot ''x1'' (demo_snapshot ''s1'' ''a'') 60]"

theorem batch_delete_leaves_no_trace_witness:
  "get_execution ''x1'' (snd (delete_executions [''x1''] demo_snapshots)) = None
     \<and> stages_of ''x1'' (snd (delete_executions [''x1''] demo_snapshots)) = []
     \<and> list_upstream_snapshots ''x1'' (snd (delete_executions [''x1''] demo_snapshots)) = []"
  using batch_delete_leaves_no_trace [THEN conjunct1, of "[''x1'']" demo_snapshots
      "fst (delete_executions [''x1''] demo_snapshots)" "snd (delete_executions [''x1''] demo_snapshots)"] by simp

theorem single_delete_orphans_snapshots_witness:
  "list_upstream_snapshots ''x1'' (delete_execution ''x1'' demo_snapshots) =
      (if db_dialect_name demo_snapshots = ''sqlite'' then list_upstream_snapshots ''x1'' demo_snapshots else [])"
  by (rule single_delete_orphans_snapshots [THEN conjunct1, of _ _ "the (get_execution_row ''x1'' demo_snapshots)"]) code_simp

section \<open>Submissions\<close>

definition demo_submission :: "string option \<Rightarrow> submission" where
  "demo_submission key = \<lparr>sub_calculation_id = ''x9'', sub_analytics_type = ''Attribution'', sub_portfolio_id = None,
     sub_requested_window = [], sub_input_fingerprint = None, sub_calculation_hash = None,
     sub_request_payload = [(''b'', JInt 2), (''a'', JInt 1)], sub_offload_reason = ''large'',
     sub_requires_tenant_authority = True, sub_idempotency_key_hash = key, sub_identity_fingerprint = key,
     sub_contract_version = key, sub_conflict_error_code = None\<rparr>"

definition failing_registrar :: job_registrar where
  "failing_registrar k ty t p now db = Inl (RuntimeError ''database unavailable'')"

theorem tenant_gate_witness:
  "\<exists>e. register_async_submission_or_raise failing_registrar (demo_submission (Some ''h'')) ''  '' (\<lambda>_. 0) demo_registered
      = (Inl (APIRefusal e), demo_registered) \<and> status_code e = (if strip ''  '' = [] then 401 else 400)"
  by (rule tenant_gate) (simp add: demo_submission_def, code_simp)

lemma demo_fresh: "fresh_submission (demo_submission key) ''acme'' demo_registered \<longleftrightarrow> key \<noteq> Some ''h''"
proof -
  have "get_stage_row (''x9'', EXECUTION_STAGE_SUBMISSION) demo_registered = None"
    "get_execution_row ''x9'' demo_registered = None"
    "admitted_tenant_authority ''acme'' = Inr (Some \<lparr>tenant_id = ''acme''\<rparr>)" by code_simp+
  moreover have "db_executions demo_registered = [execution_model_for_registration (demo_request ''x1'') 10]" by code_simp
  moreover have "strip '' acme'' = ''acme''" "strip ''acme'' = ''acme''" by code_simp+
  ultimately show ?thesis
    by (auto simp: fresh_submission_def violates_integrity_def demo_submission_def idempotency_owner_def
        require_submission_tenant_if_needed_def admit_def execution_model_for_registration_def demo_request_def)
qed

theorem failed_submission_cleaned_up_witness:
  "\<exists>e' db'. register_async_submission_or_raise failing_registrar (demo_submission None) ''acme'' (\<lambda>_. 70) demo_registered = (Inl e', db')
     \<and> db_jobs db' = db_jobs demo_registered
     \<and> (sub_idempotency_key_hash (demo_submission None) = None \<longrightarrow>
          (\<forall>k. get_execution_row k db' = get_execution_row k demo_registered)
          \<and> stages_of (sub_calculation_id (demo_submission None)) db' = [])
     \<and> (sub_idempotency_key_hash (demo_submission None) \<noteq> None \<longrightarrow>
          get_execution_row (sub_calculation_id (demo_submission None)) db'
            = Some (submitted_row (demo_submission None) ''acme'' 70))"
  by (rule failed_submission_cleaned_up [where e = "RuntimeError ''database unavailable''"])
    (simp_all add: demo_fresh failing_registrar_def)

lemma demo_gate: "require_submission_tenant_if_needed ''acme'' True b = Inr ()"
proof -
  have "admitted_tenant_authority ''acme'' = Inr (Some \<lparr>tenant_id = ''acme''\<rparr>)" by code_simp
  then show ?thesis by (simp add: require_submission_tenant_if_needed_def admit_def)
qed

theorem submission_exactly_once_witness:
  "\<exists>db'. register_async_submission_or_raise (compute_job_registrar 3) (demo_submission (Some ''g'')) ''acme'' (\<lambda>_. 70) demo_registered
        = (Inr (sub_calculation_id (demo_submission (Some ''g''))), db')
     \<and> get_execution_row (sub_calculation_id (demo_submission (Some ''g''))) db'
         = Some (submitted_row (demo_submission (Some ''g'')) ''acme'' 70)
     \<and> get_job (sub_calculation_id (demo_submission (Some ''g''))) db'
         = Some (new_job (sub_calculation_id (demo_submission (Some ''g''))) (sub_analytics_type (demo_submission (Some ''g'')))
             (strip ''acme'') (sub_request_payload (demo_submission (Some ''g''))) 3 70)
     \<and> stage_is_complete (sub_calculation_id (demo_submission (Some ''g''))) EXECUTION_STAGE_SUBMISSION db'
     \<and> (\<forall>clk'. register_async_submission_or_raise (compute_job_registrar 3) (demo_submission (Some ''g'')) ''acme'' clk' db'
            = (Inr (sub_calculation_id (demo_submission (Some ''g''))), db'))"
  by (rule submission_exactly_once [where clk = "\<lambda>_. 70", OF registry_facts(2)]) (simp add: demo_fresh, code_simp)

definition demo_interrupted :: database where
  "demo_interrupted = run_ops exec_step demo_registered
     [XRegister (execution_request_of (demo_submission (Some ''g'')) ''acme'' ''async'') 70]"

theorem interrupted_submission_recovers_witness:
  "\<exists>db' j. register_async_submission_or_raise (compute_job_registrar 3) (demo_submission (Some ''g'')) ''acme'' (\<lambda>_. 90) demo_interrupted
        = (Inr (sub_calculation_id (demo_submission (Some ''g''))), db')
     \<and> get_job (sub_calculation_id (demo_submission (Some ''g''))) db' = Some j \<and> job_status j = JPending
     \<and> job_request_json j = dumps_dict (sub_request_payload (demo_submission (Some ''g'')))
     \<and> job_tenant_id j = Some (strip ''acme'')
     \<and> get_execution_row (sub_calculation_id (demo_submission (Some ''g''))) db'
         = Some (submitted_row (demo_submission (Some ''g'')) ''acme'' 70)
     \<and> stage_is_complete (sub_calculation_id (demo_submission (Some ''g''))) EXECUTION_STAGE_SUBMISSION db'"
proof (rule interrupted_submission_recovers)
  show "registry_ok demo_interrupted" by code_simp
  show "require_submission_tenant_if_needed ''acme'' (sub_requires_tenant_authority (demo_submission (Some ''g'')))
      (sub_idempotency_key_hash (demo_submission (Some ''g'')) \<noteq> None) = Inr ()"
    using demo_gate by (simp add: demo_submission_def)
  show "get_execution_row (sub_calculation_id (demo_submission (Some ''g''))) demo_interrupted
      = Some (submitted_row (demo_submission (Some ''g'')) ''acme'' 70)" by code_simp
  show "get_job (sub_calculation_id (demo_submission (Some ''g''))) demo_interrupted = None" by code_simp
qed

definition demo_finished :: database where
  "demo_finished = run_ops exec_step demo_interrupted [XRun ''x9'' 80, XComplete ''x9'' 81]"

theorem durable_result_not_recomputed_witness:
  "register_async_submission_or_raise failing_registrar (demo_submission (Some ''g'')) ''acme'' (\<lambda>_. 90) demo_finished
     = (Inr (sub_calculation_id (demo_submission (Some ''g''))), demo_finished)"
proof (rule durable_result_not_recomputed [where now = 70])
  show "registry_ok demo_finished" by code_simp
  show "require_submission_tenant_if_needed ''acme'' (sub_requires_tenant_authority (demo_submission (Some ''g'')))
      (sub_idempotency_key_hash (demo_submission (Some ''g'')) \<noteq> None) = Inr ()"
    using demo_gate by (simp add: demo_submission_def)
  show "get_execution_row (sub_calculation_id (demo_submission (Some ''g''))) demo_finished
      = Some (the (get_execution_row ''x9'' demo_finished))" by code_simp
  show "exec_identity (the (get_execution_row ''x9'' demo_finished))
      = exec_identity (submitted_row (demo_submission (Some ''g'')) ''acme'' 70)" by code_simp
  show "existing_execution_replay_signature (the (get_execution_row ''x9'' demo_finished))
      = existing_execution_replay_signature (submitted_row (demo_submission (Some ''g'')) ''acme'' 70)" by code_simp
  show "ex_status (the (get_execution_row ''x9'' demo_finished)) \<in> {EComplete, EFailed}
      \<or> ex_response_json (the (get_execution_row ''x9'' demo_finished)) \<noteq> None" by code_simp
qed

end
