(* ===== verification/Lineage_Store.thy ===== *)
theory Lineage_Store
  imports Execution_Registry "HOL-Library.Product_Lexorder" "HOL-Library.List_Lexorder" "HOL-Library.Char_ord"
begin

text \<open>
  The lineage metadata store (src/app/services/lineage_metadata_store.py): the record of a
  calculation's lineage and the payload queued for its materialization, with the payload leases
  of lineage workers and the custody transitions of retained sources. As in the other stores,
  an operation is one transaction and takes the clocks it reads: \<open>now\<close> is the service's,
  \<open>clock\<close> the database's at the statement.
\<close>

section \<open>Tables\<close>

definition update_payload :: "uuid \<Rightarrow> (payload_row \<Rightarrow> payload_row) \<Rightarrow> database \<Rightarrow> database" where
  "update_payload k f db = db\<lparr>db_payloads := tbl_upd lp_calculation_id k f (db_payloads db)\<rparr>"

definition add_payload :: "payload_row \<Rightarrow> database \<Rightarrow> database" where
  "add_payload p db = db\<lparr>db_payloads := tbl_add p (db_payloads db)\<rparr>"

definition drop_payload :: "uuid \<Rightarrow> database \<Rightarrow> database" where
  "drop_payload k db = db\<lparr>db_payloads := tbl_del lp_calculation_id k (db_payloads db)\<rparr>"

definition add_lineage :: "lineage_row \<Rightarrow> database \<Rightarrow> database" where
  "add_lineage r db = db\<lparr>db_lineage := tbl_add r (db_lineage db)\<rparr>"

definition drop_lineage :: "uuid \<Rightarrow> database \<Rightarrow> database" where
  "drop_lineage k db = db\<lparr>db_lineage := tbl_del lr_calculation_id k (db_lineage db)\<rparr>"

lemmas lineage_ops = update_payload_def add_payload_def drop_payload_def add_lineage_def drop_lineage_def
  update_lineage_def get_lineage_def get_payload_def

interpretation records: keyed_store lr_calculation_id get_lineage add_lineage update_lineage drop_lineage
  "\<lambda>db. tbl_ok lr_calculation_id (db_lineage db)"
  unfolding lineage_ops [abs_def]
  by (rule keyed_store_in_state [where put = "\<lambda>t db. db\<lparr>db_lineage := t\<rparr>"]) simp

interpretation payloads: keyed_store lp_calculation_id get_payload add_payload update_payload drop_payload
  "\<lambda>db. tbl_ok lp_calculation_id (db_payloads db)"
  unfolding lineage_ops [abs_def]
  by (rule keyed_store_in_state [where put = "\<lambda>t db. db\<lparr>db_payloads := t\<rparr>"]) simp

lemma lineage_frames [simp]:
  "get_lineage k (update_payload k' f db) = get_lineage k db"
  "get_lineage k (add_payload p db) = get_lineage k db"
  "get_lineage k (drop_payload k' db) = get_lineage k db"
  "get_payload k (update_lineage k' g db) = get_payload k db"
  "get_payload k (add_lineage r db) = get_payload k db"
  "get_payload k (drop_lineage k' db) = get_payload k db"
  by (simp_all add: lineage_ops)

section \<open>Payload leases\<close>

definition clear_payload_lease :: "payload_row \<Rightarrow> payload_row" where
  "clear_payload_lease p = p\<lparr>lp_worker_id := None, lp_leased_at_utc := None, lp_lease_expires_at_utc := None\<rparr>"

definition payload_has_active_lease :: "instant \<Rightarrow> payload_row \<Rightarrow> bool" where
  "payload_has_active_lease now p \<longleftrightarrow> lp_leased_at_utc p \<noteq> None
     \<and> (case lp_lease_expires_at_utc p of None \<Rightarrow> True | Some e \<Rightarrow> now \<le> e)"

definition ensure_lineage_payload_active_lease_owner ::
    "payload_row option \<Rightarrow> uuid \<Rightarrow> string option \<Rightarrow> string \<Rightarrow> instant \<Rightarrow> store_error + unit" where
  "ensure_lineage_payload_active_lease_owner payload calculation_id worker_id transition now =
     (if worker_id = None then Inr ()
      else case payload of
          None \<Rightarrow> Inl (LineageOwnershipError
            (''Cannot '' @ transition @ '' lineage payload without an active lease: '' @ calculation_id))
        | Some p \<Rightarrow>
            if lp_worker_id p \<noteq> worker_id
              then Inl (LineageOwnershipError
                (''Lineage payload lease owner mismatch while trying to '' @ transition @ '': '' @ calculation_id))
            else if \<not> payload_has_active_lease now p
              then Inl (LineageOwnershipError
                (''Cannot '' @ transition @ '' lineage payload after lease expiry: '' @ calculation_id))
            else Inr ())"

text \<open>
  \<open>lease_expires_at_utc IS NULL OR lease_expires_at_utc >= database_now\<close>. On SQLite the clock is a
  text cut to seconds, compared with the column's text of microseconds.
\<close>

definition payload_lease_active_filter :: "string \<Rightarrow> instant \<Rightarrow> payload_row \<Rightarrow> bool" where
  "payload_lease_active_filter dialect clock p =
     (case lp_lease_expires_at_utc p of None \<Rightarrow> True
      | Some e \<Rightarrow> if dialect = ''sqlite'' then (clock div 1000000) * 1000000 \<le> e else clock \<le> e)"

text \<open>The filter of lease statements: free, or leased until before \<open>now\<close>.\<close>

definition payload_lease_free :: "instant \<Rightarrow> payload_row \<Rightarrow> bool" where
  "payload_lease_free now p = (case lp_lease_expires_at_utc p of None \<Rightarrow> True | Some e \<Rightarrow> e < now)"

section \<open>Details and records handed out\<close>

definition INVALID_LINEAGE_PAYLOAD_DETAILS_MESSAGE :: string where
  "INVALID_LINEAGE_PAYLOAD_DETAILS_MESSAGE = ''Stored lineage payload details are invalid.''"

fun string_value :: "json \<Rightarrow> string option" where
  "string_value (JStr s) = Some s"
| "string_value _ = None"

definition load_payload_details :: "json_text \<Rightarrow> (string \<times> string) list option" where
  "load_payload_details details_json =
     (case load_json_object_or_none (Some details_json) False of
        None \<Rightarrow> None
      | Some payload \<Rightarrow>
          if list_all (\<lambda>(key, v). string_value v \<noteq> None) payload
          then Some (List.map (\<lambda>(key, v). (key, the (string_value v))) payload) else None)"

record lineage_payload =
  pl_calculation_id :: uuid
  pl_calculation_type :: string
  pl_request_json :: json_text
  pl_response_json :: json_text
  pl_details :: "(string \<times> string) list"
  pl_attempt_count :: int
  pl_worker_id :: "string option"
  pl_leased_at_utc :: "string option"
  pl_lease_expires_at_utc :: "string option"

definition to_payload :: "payload_row \<Rightarrow> (string \<times> string) list \<Rightarrow> lineage_payload" where
  "to_payload p details =
     \<lparr>pl_calculation_id = lp_calculation_id p, pl_calculation_type = lp_calculation_type p,
      pl_request_json = lp_request_json p, pl_response_json = lp_response_json p, pl_details = details,
      pl_attempt_count = lp_attempt_count p, pl_worker_id = lp_worker_id p,
      pl_leased_at_utc = stamp (lp_leased_at_utc p), pl_lease_expires_at_utc = stamp (lp_lease_expires_at_utc p)\<rparr>"

record lineage_record =
  re_calculation_id :: uuid
  re_calculation_type :: string
  re_status :: lineage_status
  re_timestamp_utc :: string
  re_artifact_names :: "string list"
  re_error_message :: "string option"
  re_source_tenant_id :: "string option"
  re_source_attempt_id :: "string option"
  re_source_attempt_number :: "int option"
  re_source_custody_state :: "custody_state option"
  re_source_root_digest :: "string option"
  re_source_manifest_digest :: "string option"

definition get_record :: "uuid \<Rightarrow> database \<Rightarrow> lineage_record option" where
  "get_record calculation_id db = map_option (\<lambda>row.
     \<lparr>re_calculation_id = lr_calculation_id row, re_calculation_type = lr_calculation_type row,
      re_status = lr_status row, re_timestamp_utc = or_empty (stamp (Some (lr_timestamp_utc row))),
      re_artifact_names = filter (\<lambda>name. name \<noteq> []) (splitlines (lr_artifact_names row)),
      re_error_message = lr_error_message row, re_source_tenant_id = lr_source_tenant_id row,
      re_source_attempt_id = lr_source_attempt_id row, re_source_attempt_number = lr_source_attempt_number row,
      re_source_custody_state = lr_source_custody_state row, re_source_root_digest = lr_source_root_digest row,
      re_source_manifest_digest = lr_source_manifest_digest row\<rparr>) (get_lineage calculation_id db)"

section \<open>Records and queued payloads\<close>

definition refuse_generic_source_reset :: "uuid \<Rightarrow> database \<Rightarrow> store_error + unit" where
  "refuse_generic_source_reset calculation_id db =
     (case get_lineage calculation_id db of
        None \<Rightarrow> Inr ()
      | Some record \<Rightarrow> ensure (lr_source_custody_state record = None)
          (LineageOwnershipError ''Retained source custody requires its conditional producer.''))"

text \<open>\<open>session.merge\<close> writes the given attributes and keeps the others of an existing row.\<close>

definition pending_record :: "uuid \<Rightarrow> string \<Rightarrow> instant \<Rightarrow> lineage_row" where
  "pending_record calculation_id calculation_type now =
     \<lparr>lr_calculation_id = calculation_id, lr_calculation_type = calculation_type, lr_status = LPending,
      lr_timestamp_utc = now, lr_artifact_names = [], lr_error_message = None, lr_source_tenant_id = None,
      lr_source_attempt_id = None, lr_source_attempt_number = None, lr_source_custody_state = None,
      lr_source_root_digest = None, lr_source_manifest_digest = None\<rparr>"

definition merge_pending_record :: "uuid \<Rightarrow> string \<Rightarrow> instant \<Rightarrow> database \<Rightarrow> database" where
  "merge_pending_record calculation_id calculation_type now db =
     (case get_lineage calculation_id db of
        None \<Rightarrow> add_lineage (pending_record calculation_id calculation_type now) db
      | Some _ \<Rightarrow> update_lineage calculation_id (\<lambda>r. r\<lparr>lr_calculation_type := calculation_type,
          lr_status := LPending, lr_timestamp_utc := now, lr_artifact_names := [], lr_error_message := None\<rparr>) db)"

definition create_pending_record :: "uuid \<Rightarrow> string \<Rightarrow> instant \<Rightarrow> database \<Rightarrow> store_error + unit \<times> database" where
  "create_pending_record calculation_id calculation_type now db =
     bind_res (refuse_generic_source_reset calculation_id db) (\<lambda>_.
     Inr ((), merge_pending_record calculation_id calculation_type now db))"

definition queued_payload ::
    "uuid \<Rightarrow> string \<Rightarrow> json_text \<Rightarrow> json_text \<Rightarrow> (string \<times> string) list \<Rightarrow> instant \<Rightarrow> payload_row" where
  "queued_payload calculation_id calculation_type request_json response_json details now =
     \<lparr>lp_calculation_id = calculation_id, lp_calculation_type = calculation_type, lp_request_json = request_json,
      lp_response_json = response_json, lp_details_json = Doc (JObj (List.map (\<lambda>(key, v). (key, JStr v)) details)),
      lp_created_at_utc = now, lp_attempt_count = 0, lp_worker_id = None, lp_leased_at_utc = None,
      lp_lease_expires_at_utc = None\<rparr>"

definition merge_payload :: "payload_row \<Rightarrow> database \<Rightarrow> database" where
  "merge_payload p db =
     (case get_payload (lp_calculation_id p) db of
        None \<Rightarrow> add_payload p db
      | Some _ \<Rightarrow> update_payload (lp_calculation_id p) (\<lambda>_. p) db)"

definition enqueue_lineage_payload ::
    "uuid \<Rightarrow> string \<Rightarrow> json_text \<Rightarrow> json_text \<Rightarrow> (string \<times> string) list \<Rightarrow> instant \<Rightarrow> database
      \<Rightarrow> store_error + unit \<times> database" where
  "enqueue_lineage_payload calculation_id calculation_type request_json response_json details now db =
     bind_res (refuse_generic_source_reset calculation_id db) (\<lambda>_.
     Inr ((), merge_payload (queued_payload calculation_id calculation_type request_json response_json details now)
                (merge_pending_record calculation_id calculation_type now db)))"

definition mark_pending :: "uuid \<Rightarrow> instant \<Rightarrow> database \<Rightarrow> store_error + unit \<times> database" where
  "mark_pending calculation_id now db =
     bind_res (refuse_generic_source_reset calculation_id db) (\<lambda>_.
     bind_res (of_option (KeyError (''Lineage record not found: '' @ calculation_id))
                 (get_lineage calculation_id db)) (\<lambda>_.
     Inr ((), update_payload calculation_id clear_payload_lease
       (update_lineage calculation_id (\<lambda>r. r\<lparr>lr_timestamp_utc := now, lr_status := LPending, lr_error_message := None\<rparr>) db))))"

section \<open>Completion and failure\<close>

fun join_lines :: "string list \<Rightarrow> string" where
  "join_lines [] = []"
| "join_lines [line] = line"
| "join_lines (line # lines) = line @ char_of (10 :: nat) # join_lines lines"

definition completed_record ::
    "instant \<Rightarrow> string list \<Rightarrow> (custody_state \<times> string option) option \<Rightarrow> lineage_row \<Rightarrow> lineage_row" where
  "completed_record timestamp artifact_names source_values r =
     (let base = r\<lparr>lr_timestamp_utc := timestamp, lr_status := LComplete,
          lr_artifact_names := join_lines (sort artifact_names), lr_error_message := None\<rparr>
      in case source_values of None \<Rightarrow> base
         | Some (state, manifest) \<Rightarrow> base\<lparr>lr_source_custody_state := Some state, lr_source_manifest_digest := manifest\<rparr>)"

text \<open>The lease condition of the completing statement, for a named worker.\<close>

definition completion_lease_holds ::
    "string \<Rightarrow> instant \<Rightarrow> string \<Rightarrow> bool \<Rightarrow> int option \<Rightarrow> payload_row option \<Rightarrow> bool" where
  "completion_lease_holds dialect clock worker sourced attempt_count payload =
     (case payload of None \<Rightarrow> False
      | Some p \<Rightarrow> lp_worker_id p = Some worker \<and> lp_leased_at_utc p \<noteq> None
          \<and> payload_lease_active_filter dialect clock p
          \<and> (sourced \<longrightarrow> attempt_count = Some (lp_attempt_count p)))"

definition COMPLETION_REFUSED :: "uuid \<Rightarrow> store_error" where
  "COMPLETION_REFUSED calculation_id = LineageOwnershipError
     (''Cannot mark complete lineage payload after terminal failure or lease loss: '' @ calculation_id)"

definition mark_lineage_complete ::
    "uuid \<Rightarrow> string list \<Rightarrow> instant option \<Rightarrow> string option \<Rightarrow> string option \<Rightarrow> string option \<Rightarrow> string option
      \<Rightarrow> int option \<Rightarrow> instant \<Rightarrow> instant \<Rightarrow> database \<Rightarrow> store_error + unit \<times> database" where
  "mark_lineage_complete calculation_id artifact_names timestamp_utc worker_id source_root_digest
       source_manifest_digest source_tenant_id expected_attempt_count now clock db =
     bind_res (of_option (KeyError (''Lineage record not found: '' @ calculation_id))
                 (get_lineage calculation_id db)) (\<lambda>record.
     bind_res (ensure (lr_status record \<noteq> LFailed) (COMPLETION_REFUSED calculation_id)) (\<lambda>_.
     let payload = get_payload calculation_id db in
     bind_res (source_completion_values db record payload source_root_digest source_manifest_digest source_tenant_id
                 worker_id expected_attempt_count) (\<lambda>source_values.
     bind_res (ensure_lineage_payload_active_lease_owner payload calculation_id worker_id ''mark complete'' now) (\<lambda>_.
     bind_res (ensure (case worker_id of None \<Rightarrow> True
                 | Some w \<Rightarrow> completion_lease_holds (db_dialect_name db) clock w (source_values \<noteq> None)
                               expected_attempt_count payload)
                 (COMPLETION_REFUSED calculation_id)) (\<lambda>_.
     Inr ((), update_lineage calculation_id
       (completed_record (the (opt_or timestamp_utc now)) artifact_names source_values) db))))))"

definition failed_record :: "string \<Rightarrow> instant \<Rightarrow> lineage_row \<Rightarrow> lineage_row" where
  "failed_record error_message now r = r\<lparr>lr_timestamp_utc := now, lr_status := LFailed,
     lr_error_message := Some error_message,
     lr_source_custody_state := (if lr_source_custody_state r \<noteq> None then Some CustodyFailed else None)\<rparr>"

definition mark_failed_in_session :: "uuid \<Rightarrow> string \<Rightarrow> instant \<Rightarrow> database \<Rightarrow> bool \<times> database" where
  "mark_failed_in_session calculation_id error_message now db =
     (let (rows, n) = tbl_update_where
            (\<lambda>r. lr_calculation_id r = calculation_id \<and> lr_source_custody_state r \<noteq> Some CustodyComplete)
            (failed_record error_message now) (db_lineage db)
      in if n \<noteq> 1 then (False, db\<lparr>db_lineage := rows\<rparr>)
         else (True, update_payload calculation_id clear_payload_lease (db\<lparr>db_lineage := rows\<rparr>)))"

definition mark_lineage_failed :: "uuid \<Rightarrow> string \<Rightarrow> instant \<Rightarrow> database \<Rightarrow> store_error + unit \<times> database" where
  "mark_lineage_failed calculation_id error_message now db =
     (case mark_failed_in_session calculation_id error_message now db of
        (True, db') \<Rightarrow> Inr ((), db')
      | (False, _) \<Rightarrow> Inl (KeyError (''Lineage record not found: '' @ calculation_id)))"

definition mark_failed_if_present :: "uuid \<Rightarrow> string \<Rightarrow> instant \<Rightarrow> database \<Rightarrow> bool \<times> database" where
  "mark_failed_if_present calculation_id error_message now db =
     mark_failed_in_session calculation_id error_message now db"

definition exhausted_record :: "instant \<Rightarrow> lineage_row \<Rightarrow> lineage_row" where
  "exhausted_record now r = r\<lparr>lr_status := LFailed, lr_source_custody_state := Some CustodyFailed,
     lr_error_message := Some ''Source materialization failed after exhausting retry budget.'',
     lr_timestamp_utc := now\<rparr>"

definition retry_source_materialization ::
    "uuid \<Rightarrow> string option \<Rightarrow> int \<Rightarrow> int \<Rightarrow> instant \<Rightarrow> instant \<Rightarrow> database \<Rightarrow> store_error + unit \<times> database" where
  "retry_source_materialization calculation_id worker_id expected_attempt_count max_attempts now clock db =
     bind_res (require_source_retry_record db (get_lineage calculation_id db)) (\<lambda>_.
     let (rows, n) = tbl_update_where
           (\<lambda>p. lp_calculation_id p = calculation_id \<and> worker_id \<noteq> None \<and> lp_worker_id p = worker_id
              \<and> lp_attempt_count p = expected_attempt_count \<and> lp_leased_at_utc p \<noteq> None
              \<and> payload_lease_active_filter (db_dialect_name db) clock p)
           clear_payload_lease (db_payloads db)
     in bind_res (ensure (n = 1)
          (LineageOwnershipError ''Source retry requires the exact active lineage attempt.'')) (\<lambda>_.
        let db' = db\<lparr>db_payloads := rows\<rparr>
        in Inr ((), if expected_attempt_count \<ge> max_attempts
                    then update_lineage calculation_id (exhausted_record now) db' else db')))"

definition mark_invalid_payload_details :: "uuid \<Rightarrow> instant \<Rightarrow> database \<Rightarrow> database" where
  "mark_invalid_payload_details calculation_id now db =
     update_payload calculation_id clear_payload_lease
       (update_lineage calculation_id
          (\<lambda>r. if lr_source_custody_state r \<noteq> Some CustodyComplete
               then failed_record INVALID_LINEAGE_PAYLOAD_DETAILS_MESSAGE now r else r) db)"

section \<open>Leasing payloads\<close>

definition leased_payload :: "string \<Rightarrow> instant \<Rightarrow> instant \<Rightarrow> payload_row \<Rightarrow> payload_row" where
  "leased_payload worker_id now lease_expiry p = p\<lparr>lp_worker_id := Some worker_id, lp_leased_at_utc := Some now,
     lp_lease_expires_at_utc := Some lease_expiry, lp_attempt_count := lp_attempt_count p + 1\<rparr>"

definition record_pending :: "database \<Rightarrow> uuid \<Rightarrow> bool" where
  "record_pending db calculation_id \<longleftrightarrow>
     (\<exists>r \<in> set (db_lineage db). lr_calculation_id r = calculation_id \<and> lr_status r = LPending)"

definition payload_order :: "payload_row \<Rightarrow> instant \<times> uuid" where
  "payload_order p = (lp_created_at_utc p, lp_calculation_id p)"

definition lease_pending_payloads_statement ::
    "instant \<Rightarrow> nat \<Rightarrow> (uuid \<Rightarrow> bool) \<Rightarrow> database \<Rightarrow> payload_row list" where
  "lease_pending_payloads_statement now limit locked db =
     take limit (sort_key payload_order (filter (\<lambda>p. record_pending db (lp_calculation_id p)
       \<and> payload_lease_free now p \<and> \<not> (db_dialect_name db = ''postgresql'' \<and> locked (lp_calculation_id p)))
       (db_payloads db)))"

text \<open>SQLite: the session leases the selected rows one after the other.\<close>

fun lease_payload_rows ::
    "string \<Rightarrow> instant \<Rightarrow> instant \<Rightarrow> payload_row list \<Rightarrow> database \<Rightarrow> lineage_payload list \<times> database" where
  "lease_payload_rows worker_id now lease_expiry [] db = ([], db)"
| "lease_payload_rows worker_id now lease_expiry (p # rows) db =
     (case load_payload_details (lp_details_json p) of
        None \<Rightarrow> lease_payload_rows worker_id now lease_expiry rows
                  (mark_invalid_payload_details (lp_calculation_id p) now db)
      | Some details \<Rightarrow>
          (case lease_payload_rows worker_id now lease_expiry rows
                  (update_payload (lp_calculation_id p) (leased_payload worker_id now lease_expiry) db) of
             (leased, db') \<Rightarrow> (to_payload (leased_payload worker_id now lease_expiry p) details # leased, db')))"

text \<open>
  PostgreSQL: one \<open>UPDATE \<dots> RETURNING\<close> leases every selected row, then the rows with unreadable
  details are failed. The engine chooses the order of the returned rows; here it is the table's.
\<close>

definition claim_payloads :: "string \<Rightarrow> instant \<Rightarrow> instant \<Rightarrow> uuid list \<Rightarrow> database \<Rightarrow> payload_row list \<times> database" where
  "claim_payloads worker_id now lease_expiry claimable db =
     (let (rows, _) = tbl_update_where (\<lambda>p. lp_calculation_id p \<in> set claimable)
            (leased_payload worker_id now lease_expiry) (db_payloads db)
      in (filter (\<lambda>p. lp_calculation_id p \<in> set claimable) rows, db\<lparr>db_payloads := rows\<rparr>))"

fun payloads_from_rows :: "instant \<Rightarrow> payload_row list \<Rightarrow> database \<Rightarrow> lineage_payload list \<times> database" where
  "payloads_from_rows now [] db = ([], db)"
| "payloads_from_rows now (p # rows) db =
     (case load_payload_details (lp_details_json p) of
        None \<Rightarrow> payloads_from_rows now rows (mark_invalid_payload_details (lp_calculation_id p) now db)
      | Some details \<Rightarrow>
          (case payloads_from_rows now rows db of (leased, db') \<Rightarrow> (to_payload p details # leased, db')))"

definition lease_pending_payloads_postgresql ::
    "string \<Rightarrow> nat \<Rightarrow> instant \<Rightarrow> instant \<Rightarrow> (uuid \<Rightarrow> bool) \<Rightarrow> database \<Rightarrow> lineage_payload list \<times> database" where
  "lease_pending_payloads_postgresql worker_id limit now lease_expiry locked db =
     (let claimable = List.map lp_calculation_id (lease_pending_payloads_statement now limit locked db);
          (rows, db') = claim_payloads worker_id now lease_expiry claimable db
      in payloads_from_rows now rows db')"

definition lease_pending_payloads ::
    "string \<Rightarrow> nat \<Rightarrow> int \<Rightarrow> (uuid \<Rightarrow> bool) \<Rightarrow> instant \<Rightarrow> database \<Rightarrow> lineage_payload list \<times> database" where
  "lease_pending_payloads worker_id limit lease_seconds locked now db =
     (let lease_expiry = now + timedelta_seconds lease_seconds
      in if db_dialect_name db = ''postgresql''
         then lease_pending_payloads_postgresql worker_id limit now lease_expiry locked db
         else lease_payload_rows worker_id now lease_expiry (lease_pending_payloads_statement now limit locked db) db)"

definition lease_pending_payload ::
    "uuid \<Rightarrow> string \<Rightarrow> int \<Rightarrow> (uuid \<Rightarrow> bool) \<Rightarrow> instant \<Rightarrow> database \<Rightarrow> lineage_payload option \<times> database" where
  "lease_pending_payload calculation_id worker_id lease_seconds locked now db =
     (let lease_expiry = now + timedelta_seconds lease_seconds in
      case get_payload calculation_id db of
        None \<Rightarrow> (None, db)
      | Some p \<Rightarrow>
          if \<not> record_pending db calculation_id \<or> \<not> payload_lease_free now p
             \<or> (db_dialect_name db = ''postgresql'' \<and> locked calculation_id) then (None, db)
          else (case load_payload_details (lp_details_json p) of
              None \<Rightarrow> (None, mark_invalid_payload_details calculation_id now db)
            | Some details \<Rightarrow>
                (Some (to_payload (leased_payload worker_id now lease_expiry p) details),
                 update_payload calculation_id (leased_payload worker_id now lease_expiry) db)))"

section \<open>Reading and deleting payloads\<close>

text \<open>A read fails the records whose details it cannot load.\<close>

definition list_pending_payloads :: "nat \<Rightarrow> instant \<Rightarrow> database \<Rightarrow> lineage_payload list \<times> database" where
  "list_pending_payloads limit now db =
     payloads_from_rows now
       (take limit (sort_key lp_created_at_utc (filter (\<lambda>p. record_pending db (lp_calculation_id p)) (db_payloads db)))) db"

definition increment_attempt_count :: "uuid \<Rightarrow> database \<Rightarrow> store_error + unit \<times> database" where
  "increment_attempt_count calculation_id db =
     bind_res (of_option (KeyError (''Lineage payload not found: '' @ calculation_id)) (get_payload calculation_id db))
       (\<lambda>_. Inr ((), update_payload calculation_id (\<lambda>p. p\<lparr>lp_attempt_count := lp_attempt_count p + 1\<rparr>) db))"

definition get_lineage_payload :: "uuid \<Rightarrow> instant \<Rightarrow> database \<Rightarrow> lineage_payload option \<times> database" where
  "get_lineage_payload calculation_id now db =
     (case get_payload calculation_id db of
        None \<Rightarrow> (None, db)
      | Some p \<Rightarrow> (case load_payload_details (lp_details_json p) of
            None \<Rightarrow> (None, mark_invalid_payload_details calculation_id now db)
          | Some details \<Rightarrow> (Some (to_payload p details), db)))"

definition ensure_active_payload_lease_owner ::
    "uuid \<Rightarrow> string option \<Rightarrow> instant \<Rightarrow> database \<Rightarrow> store_error + unit" where
  "ensure_active_payload_lease_owner calculation_id worker_id now db =
     ensure_lineage_payload_active_lease_owner (get_payload calculation_id db) calculation_id worker_id ''materialize'' now"

definition delete_payload :: "uuid \<Rightarrow> string option \<Rightarrow> instant \<Rightarrow> database \<Rightarrow> store_error + unit \<times> database" where
  "delete_payload calculation_id worker_id now db =
     (case get_payload calculation_id db of
        None \<Rightarrow> Inr ((), db)
      | Some p \<Rightarrow>
          bind_res (ensure_lineage_payload_active_lease_owner (Some p) calculation_id worker_id ''delete'' now) (\<lambda>_.
          Inr ((), drop_payload calculation_id db)))"

section \<open>Retention\<close>

definition list_terminal_lineage_ids_older_than :: "datetime \<Rightarrow> database \<Rightarrow> uuid list" where
  "list_terminal_lineage_ids_older_than older_than db =
     List.map lr_calculation_id (sort_key (\<lambda>r. (lr_timestamp_utc r, lr_calculation_id r))
       (filter (\<lambda>r. lr_status r \<in> {LComplete, LFailed} \<and> lr_timestamp_utc r \<le> cutoff_of older_than db) (db_lineage db)))"

definition delete_calculation_ids :: "uuid list \<Rightarrow> database \<Rightarrow> nat \<times> database" where
  "delete_calculation_ids calculation_ids db =
     (if calculation_ids = [] then (0, db)
      else (length (filter (\<lambda>r. lr_calculation_id r \<in> set calculation_ids) (db_lineage db)),
        db\<lparr>db_payloads := filter (\<lambda>p. lp_calculation_id p \<notin> set calculation_ids) (db_payloads db),
           db_lineage := filter (\<lambda>r. lr_calculation_id r \<notin> set calculation_ids) (db_lineage db)\<rparr>))"

definition clear_all_lineage_records :: "database \<Rightarrow> database" where
  "clear_all_lineage_records db = db\<lparr>db_lineage := [], db_payloads := []\<rparr>"

definition source_ids :: "database \<Rightarrow> uuid list" where
  "source_ids db = List.map lr_calculation_id (filter (\<lambda>r. lr_source_custody_state r \<noteq> None) (db_lineage db))"

definition present_not_eligible :: "uuid list \<Rightarrow> uuid list \<Rightarrow> uuid list \<Rightarrow> uuid list" where
  "present_not_eligible ids rows eligible = filter (\<lambda>k. k \<in> set ids \<and> k \<notin> set eligible) rows"

definition source_retention_protection ::
    "uuid list \<Rightarrow> uuid list \<Rightarrow> uuid list \<Rightarrow> uuid list \<Rightarrow> instant \<Rightarrow> database \<Rightarrow> uuid list" where
  "source_retention_protection execution_ids lineage_ids compute_ids result_ids clock db =
     (let ids = source_ids db in
      filter (\<lambda>k. k \<notin> set lineage_ids) ids
      @ present_not_eligible ids (List.map ex_calculation_id (db_executions db)) execution_ids
      @ present_not_eligible ids (List.map job_calculation_id (db_jobs db)) compute_ids
      @ present_not_eligible ids (List.map ar_calculation_id (db_results db)) result_ids
      @ List.map lp_calculation_id (filter (\<lambda>p. lp_calculation_id p \<in> set ids \<and> lp_worker_id p \<noteq> None
          \<and> payload_lease_active_filter (db_dialect_name db) clock p) (db_payloads db)))"

section \<open>Stranded sources\<close>

text \<open>A frozen source whose producer ended without queueing its materialization.\<close>

definition stranded_source_state :: "database \<Rightarrow> lineage_row \<Rightarrow> bool" where
  "stranded_source_state db r \<longleftrightarrow> lr_calculation_type r = ''ReturnsSeries'' \<and> lr_status r = LPending
     \<and> lr_source_custody_state r = Some Frozen \<and> lr_source_tenant_id r \<noteq> None \<and> lr_source_attempt_id r \<noteq> None
     \<and> lr_source_attempt_number r \<noteq> None \<and> lr_source_root_digest r \<noteq> None \<and> lr_source_manifest_digest r = None
     \<and> \<not> (\<exists>p \<in> set (db_payloads db). lp_calculation_id p = lr_calculation_id r)"

definition stranded_source :: "database \<Rightarrow> lineage_row \<Rightarrow> bool" where
  "stranded_source db r \<longleftrightarrow> stranded_source_state db r
     \<and> (\<exists>e \<in> set (db_executions db). ex_calculation_id e = lr_calculation_id r
          \<and> ex_tenant_id e = lr_source_tenant_id r \<and> ex_analytics_type e = ''ReturnsSeries''
          \<and> ex_status e \<in> {EComplete, EFailed})
     \<and> (\<not> (\<exists>j \<in> set (db_jobs db). job_calculation_id j = lr_calculation_id r)
        \<or> (\<exists>j \<in> set (db_jobs db). job_calculation_id j = lr_calculation_id r
             \<and> job_tenant_id j = lr_source_tenant_id r \<and> job_analytics_type j = ''ReturnsSeries''
             \<and> job_status j \<in> {JComplete, JFailed}))"

type_synonym source_identity = "uuid \<times> string option \<times> string option \<times> int option \<times> string option"

definition stranded_source_identity :: "lineage_row \<Rightarrow> source_identity" where
  "stranded_source_identity r = (lr_calculation_id r, lr_source_tenant_id r, lr_source_attempt_id r,
     lr_source_attempt_number r, lr_source_root_digest r)"

definition stranded_candidates :: "nat \<Rightarrow> bool \<Rightarrow> database \<Rightarrow> source_identity list" where
  "stranded_candidates limit owner_tables db =
     (if \<not> list_ex (stranded_source_state db) (db_lineage db) \<or> \<not> owner_tables then []
      else List.map stranded_source_identity (take limit
        (sort_key (\<lambda>r. (lr_timestamp_utc r, lr_calculation_id r)) (filter (stranded_source db) (db_lineage db)))))"

text \<open>The rows other transactions hold, per table; PostgreSQL skips them.\<close>

record owner_locks =
  lk_execution :: "uuid \<Rightarrow> bool"
  lk_job :: "uuid \<Rightarrow> bool"
  lk_lineage :: "uuid \<Rightarrow> bool"

definition lock_stranded_source_owners :: "owner_locks \<Rightarrow> uuid \<Rightarrow> database \<Rightarrow> bool" where
  "lock_stranded_source_owners locks calculation_id db \<longleftrightarrow>
     (let skipped = (\<lambda>locked. db_dialect_name db = ''postgresql'' \<and> locked calculation_id) in
      get_execution_row calculation_id db \<noteq> None \<and> \<not> skipped (lk_execution locks)
      \<and> (get_job calculation_id db = None \<or> \<not> skipped (lk_job locks))
      \<and> get_lineage calculation_id db \<noteq> None \<and> \<not> skipped (lk_lineage locks))"

definition stranded_record :: "instant \<Rightarrow> lineage_row \<Rightarrow> lineage_row" where
  "stranded_record now r = r\<lparr>lr_status := LFailed, lr_source_custody_state := Some CustodyFailed,
     lr_timestamp_utc := now,
     lr_error_message := Some ''Source materialization was not queued before arithmetic became terminal.''\<rparr>"

definition terminalize_stranded_source :: "source_identity \<Rightarrow> instant \<Rightarrow> database \<Rightarrow> nat \<times> database" where
  "terminalize_stranded_source identity now db =
     (case tbl_update_where (\<lambda>r. stranded_source_identity r = identity \<and> stranded_source db r) (stranded_record now)
             (db_lineage db) of
        (rows, n) \<Rightarrow> (n, db\<lparr>db_lineage := rows\<rparr>))"

text \<open>
  Each candidate has a transaction of its own, at a time of its own; \<open>others\<close> is what other
  transactions did to the database before it.
\<close>

definition reconcile_stranded_candidate :: "owner_locks \<Rightarrow> instant \<Rightarrow> source_identity \<Rightarrow> database \<Rightarrow> nat \<times> database" where
  "reconcile_stranded_candidate locks now candidate db =
     (if lock_stranded_source_owners locks (fst candidate) db then terminalize_stranded_source candidate now db else (0, db))"

fun reconcile_candidates ::
    "(source_identity \<Rightarrow> owner_locks) \<Rightarrow> (source_identity \<Rightarrow> instant) \<Rightarrow> (source_identity \<Rightarrow> database \<Rightarrow> database)
      \<Rightarrow> source_identity list \<Rightarrow> database \<Rightarrow> nat \<times> database" where
  "reconcile_candidates locks clk others [] db = (0, db)"
| "reconcile_candidates locks clk others (c # cs) db =
     (let (n, db1) = reconcile_stranded_candidate (locks c) (clk c) c (others c db);
          (m, db2) = reconcile_candidates locks clk others cs db1 in (n + m, db2))"

definition reconcile_stranded_source_custody ::
    "nat \<Rightarrow> bool \<Rightarrow> (source_identity \<Rightarrow> owner_locks) \<Rightarrow> (source_identity \<Rightarrow> instant)
      \<Rightarrow> (source_identity \<Rightarrow> database \<Rightarrow> database) \<Rightarrow> database \<Rightarrow> store_error + nat \<times> database" where
  "reconcile_stranded_source_custody limit owner_tables locks clk others db =
     (if limit < 1 then Inl (ValueError ''Source custody reconciliation requires a positive batch limit.'')
      else Inr (reconcile_candidates locks clk others (stranded_candidates limit owner_tables db) db))"

end
