(* ===== verification/Lineage_Machine.thy ===== *)
theory Lineage_Machine
  imports Lineage_Store Execution_Safety
begin

text \<open>
  The lineage store as a state machine: a lineage event is one transaction of the store, and
  \<open>source_move\<close> is the specification of what an event may do to a record. A system event is an
  event of any of the stores that share the database.
\<close>

section \<open>Events\<close>

datatype lineage_event =
    LCreate uuid string instant
  | LEnqueue uuid string json_text json_text "(string \<times> string) list" instant
  | LPendingAgain uuid instant
  | LFinish uuid "string list" "instant option" "string option" "string option" "string option" "string option"
      "int option" instant instant
  | LFail uuid string instant
  | LRetry uuid "string option" int int instant instant
  | LLease string nat int "uuid \<Rightarrow> bool" instant
  | LLeaseOne uuid string int "uuid \<Rightarrow> bool" instant
  | LList nat instant
  | LRead uuid instant
  | LCount uuid
  | LDelete uuid "string option" instant
  | LStranded owner_locks instant source_identity
  | LPrune "uuid list"

fun lineage_step :: "database \<Rightarrow> lineage_event \<Rightarrow> store_error + database" where
  "lineage_step db (LCreate k ty now) = drop_result (create_pending_record k ty now db)"
| "lineage_step db (LEnqueue k ty req resp details now) = drop_result (enqueue_lineage_payload k ty req resp details now db)"
| "lineage_step db (LPendingAgain k now) = drop_result (mark_pending k now db)"
| "lineage_step db (LFinish k names ts w rd manifest tenant n now clock) =
     drop_result (mark_lineage_complete k names ts w rd manifest tenant n now clock db)"
| "lineage_step db (LFail k msg now) = Inr (snd (mark_failed_if_present k msg now db))"
| "lineage_step db (LRetry k w n maxa now clock) = drop_result (retry_source_materialization k w n maxa now clock db)"
| "lineage_step db (LLease w limit secs locked now) = Inr (snd (lease_pending_payloads w limit secs locked now db))"
| "lineage_step db (LLeaseOne k w secs locked now) = Inr (snd (lease_pending_payload k w secs locked now db))"
| "lineage_step db (LList limit now) = Inr (snd (list_pending_payloads limit now db))"
| "lineage_step db (LRead k now) = Inr (snd (get_lineage_payload k now db))"
| "lineage_step db (LCount k) = drop_result (increment_attempt_count k db)"
| "lineage_step db (LDelete k w now) = drop_result (delete_payload k w now db)"
| "lineage_step db (LStranded locks now c) = Inr (snd (reconcile_stranded_candidate locks now c db))"
| "lineage_step db (LPrune ks) = Inr (snd (delete_calculation_ids ks db))"

fun keeps_lineage :: "uuid \<Rightarrow> lineage_event \<Rightarrow> bool" where
  "keeps_lineage k (LPrune ks) = (k \<notin> set ks)"
| "keeps_lineage k e = True"

section \<open>What an event may do to a record\<close>

text \<open>
  Identity and root never change. A record without custody stays without; custody only moves
  from queued to complete, or from anything but complete to failed, together with the status.
\<close>

definition source_move :: "lineage_row \<Rightarrow> lineage_row \<Rightarrow> bool" where
  "source_move r r' \<longleftrightarrow>
     lr_calculation_id r' = lr_calculation_id r \<and> lr_source_tenant_id r' = lr_source_tenant_id r
   \<and> lr_source_attempt_id r' = lr_source_attempt_id r \<and> lr_source_attempt_number r' = lr_source_attempt_number r
   \<and> lr_source_root_digest r' = lr_source_root_digest r
   \<and> (lr_source_custody_state r' = lr_source_custody_state r
        \<and> (lr_source_custody_state r \<noteq> None \<longrightarrow> lr_status r' = lr_status r \<and> lr_calculation_type r' = lr_calculation_type r)
      \<or> lr_source_custody_state r \<notin> {None, Some CustodyComplete}
        \<and> lr_source_custody_state r' = Some CustodyFailed \<and> lr_status r' = LFailed
        \<and> lr_calculation_type r' = lr_calculation_type r
      \<or> lr_source_custody_state r = Some PendingMaterialization \<and> lr_status r \<noteq> LFailed
        \<and> lr_source_custody_state r' = Some CustodyComplete \<and> lr_status r' = LComplete
        \<and> lr_calculation_type r' = lr_calculation_type r)"

fun option_move :: "('r \<Rightarrow> 'r \<Rightarrow> bool) \<Rightarrow> ('r \<Rightarrow> bool) \<Rightarrow> 'r option \<Rightarrow> 'r option \<Rightarrow> bool" where
  "option_move m fresh None None = True"
| "option_move m fresh None (Some r') = fresh r'"
| "option_move m fresh (Some r) (Some r') = m r r'"
| "option_move m fresh (Some r) None = False"

definition unsourced :: "lineage_row \<Rightarrow> bool" where
  "unsourced r \<longleftrightarrow> lr_source_custody_state r = None \<and> lr_source_root_digest r = None"

abbreviation record_moves :: "uuid \<Rightarrow> database \<Rightarrow> database \<Rightarrow> bool" where
  "record_moves k db db' \<equiv> option_move source_move unsourced (get_lineage k db) (get_lineage k db')"

lemma source_move_refl [simp]: "source_move r r"
  by (simp add: source_move_def)

lemma option_move_refl: "(\<And>r. m r r) \<Longrightarrow> option_move m fresh x x"
  by (cases x) simp_all

lemma record_moves_same: "get_lineage k db' = get_lineage k db \<Longrightarrow> record_moves k db db'"
  by (simp add: option_move_refl)

lemma source_move_failed: "lr_source_custody_state r \<noteq> Some CustodyComplete \<Longrightarrow> source_move r (failed_record msg now r)"
  by (auto simp: source_move_def failed_record_def)

lemma get_lineage_map:
  "(\<And>r. lr_calculation_id (f r) = lr_calculation_id r) \<Longrightarrow>
   get_lineage k (db\<lparr>db_lineage := List.map f (db_lineage db)\<rparr>) = map_option f (get_lineage k db)"
  by (simp add: get_lineage_def tbl_get_map)

lemma tbl_get_drop: "tbl_get key k (filter (\<lambda>r. key r \<notin> S) t) = (if k \<in> S then None else tbl_get key k t)"
  by (induction t) (auto simp: tbl_get_def)

lemma update_lineage_get:
  "(\<And>r. lr_calculation_id (f r) = lr_calculation_id r) \<Longrightarrow>
   get_lineage k' (update_lineage k f db) = (if k' = k then map_option f (get_lineage k db) else get_lineage k' db)"
  by (rule records.get_upd)

lemma update_payload_get:
  "(\<And>p. lp_calculation_id (f p) = lp_calculation_id p) \<Longrightarrow>
   get_payload k' (update_payload k f db) = (if k' = k then map_option f (get_payload k db) else get_payload k' db)"
  by (rule payloads.get_upd)

lemma lease_ids [simp]:
  "lp_calculation_id (clear_payload_lease p) = lp_calculation_id p"
  "lp_calculation_id (leased_payload w now x p) = lp_calculation_id p"
  "lr_calculation_id (failed_record msg now r) = lr_calculation_id r"
  "lr_calculation_id (exhausted_record now r) = lr_calculation_id r"
  "lr_calculation_id (stranded_record now r) = lr_calculation_id r"
  "lr_calculation_id (completed_record t names sv r) = lr_calculation_id r"
  by (simp_all add: clear_payload_lease_def leased_payload_def failed_record_def exhausted_record_def
      stranded_record_def completed_record_def Let_def split: option.splits prod.splits)

lemma get_lineage_payloads [simp]: "get_lineage k (db\<lparr>db_payloads := ps\<rparr>) = get_lineage k db"
  by (simp add: get_lineage_def)

lemma get_payload_lineage [simp]: "get_payload k (db\<lparr>db_lineage := rs\<rparr>) = get_payload k db"
  by (simp add: get_payload_def)

lemma mark_invalid_lineage:
  "get_lineage k (mark_invalid_payload_details k' now db) =
     (if k = k' then map_option (\<lambda>r. if lr_source_custody_state r \<noteq> Some CustodyComplete
         then failed_record INVALID_LINEAGE_PAYLOAD_DETAILS_MESSAGE now r else r) (get_lineage k db)
      else get_lineage k db)"
  by (simp add: mark_invalid_payload_details_def update_lineage_get)

lemma mark_invalid_moves: "record_moves k db (mark_invalid_payload_details k' now db)"
  by (cases "k = k'"; cases "get_lineage k db") (auto simp: mark_invalid_lineage source_move_failed option_move_refl)

text \<open>Steps that follow one another on records without custody change stay moves: a lease call.\<close>

lemma source_move_trans: "source_move r r' \<Longrightarrow> source_move r' r'' \<Longrightarrow> source_move r r''"
  unfolding source_move_def by (elim conjE disjE) (simp_all, auto)

lemma unsourced_move: "unsourced r \<Longrightarrow> source_move r r' \<Longrightarrow> unsourced r'"
  by (auto simp: unsourced_def source_move_def)

lemma record_moves_trans: "record_moves k a b \<Longrightarrow> record_moves k b c \<Longrightarrow> record_moves k a c"
  by (cases "get_lineage k a"; cases "get_lineage k b"; cases "get_lineage k c")
    (auto intro: source_move_trans unsourced_move)

lemma payloads_from_rows_moves: "record_moves k db (snd (payloads_from_rows now rows db))"
proof (induction rows arbitrary: db)
  case (Cons p rows)
  show ?case
  proof (cases "load_payload_details (lp_details_json p)")
    case None
    then show ?thesis
      using record_moves_trans [OF mark_invalid_moves Cons.IH] by simp
  next
    case (Some details)
    then show ?thesis using Cons.IH [of db] by (simp add: case_prod_beta)
  qed
qed (simp add: option_move_refl)

lemma lease_payload_rows_moves: "record_moves k db (snd (lease_payload_rows w now x rows db))"
proof (induction rows arbitrary: db)
  case (Cons p rows)
  show ?case
  proof (cases "load_payload_details (lp_details_json p)")
    case None
    then show ?thesis
      using record_moves_trans [OF mark_invalid_moves Cons.IH] by simp
  next
    case (Some details)
    then show ?thesis
      using Cons.IH [of "update_payload (lp_calculation_id p) (leased_payload w now x) db"]
      by (simp add: case_prod_beta)
  qed
qed (simp add: option_move_refl)

lemma lease_moves: "record_moves k db (snd (lease_pending_payloads w limit secs locked now db))"
proof -
  have "record_moves k db (snd (payloads_from_rows now rows db'))" if "get_lineage k db' = get_lineage k db" for rows db'
    using payloads_from_rows_moves [of k db' now rows] that by simp
  then show ?thesis
    by (auto simp: lease_pending_payloads_def lease_pending_payloads_postgresql_def claim_payloads_def
        tbl_update_where_def Let_def lease_payload_rows_moves)
qed

lemma merge_pending_moves:
  "refuse_generic_source_reset k' db = Inr () \<Longrightarrow> record_moves k db (merge_pending_record k' ty now db)"
  by (cases "get_lineage k' db"; cases "get_lineage k db")
    (auto simp: refuse_generic_source_reset_def merge_pending_record_def update_lineage_get records.get_add
      pending_record_def unsourced_def source_move_def option_move_refl split: if_splits)

lemma merge_payload_lineage [simp]: "get_lineage k (merge_payload p db) = get_lineage k db"
  by (simp add: merge_payload_def split: option.splits)

lemma completion_values_Some:
  "source_completion_values db r payload rd manifest tenant w n = Inr (Some (s, m)) \<Longrightarrow>
     s = CustodyComplete \<and> m = manifest \<and> lr_source_custody_state r = Some PendingMaterialization
   \<and> lr_source_root_digest r = rd \<and> rd \<noteq> None"
  by (auto simp: source_completion_values_def require_source_completion_root_def split: if_splits)

lemma completion_values_None:
  "source_completion_values db r payload rd manifest tenant w n = Inr None \<longleftrightarrow> lr_source_custody_state r = None"
  by (auto simp: source_completion_values_def)

lemma finish_moves:
  assumes "mark_lineage_complete k' names ts w rd manifest tenant n now clock db = Inr ((), db')"
  shows "record_moves k db db'"
proof -
  from assms obtain r sv where r: "get_lineage k' db = Some r" "lr_status r \<noteq> LFailed"
    and sv: "source_completion_values db r (get_payload k' db) rd manifest tenant w n = Inr sv"
    and db': "db' = update_lineage k' (completed_record (the (opt_or ts now)) names sv) db"
    by (auto simp: mark_lineage_complete_def Let_def split: if_splits)
  have "source_move r (completed_record t names sv r)" for t
    using r(2) sv
    by (cases sv) (auto simp: completed_record_def source_move_def Let_def completion_values_None
        dest!: completion_values_Some)
  then show ?thesis
    by (cases "k = k'"; cases "get_lineage k db") (simp_all add: db' update_lineage_get r(1) option_move_refl)
qed

lemma retry_moves:
  assumes "retry_source_materialization k' w n maxa now clock db = Inr ((), db')"
  shows "record_moves k db db'"
proof -
  from assms obtain r where r: "get_lineage k' db = Some r" "lr_source_custody_state r = Some PendingMaterialization"
    by (auto simp: retry_source_materialization_def require_source_retry_record_def split: option.splits)
  have "source_move r (exhausted_record t r)" for t
    using r(2) by (simp add: source_move_def exhausted_record_def)
  then have "record_moves k db (update_lineage k' (exhausted_record now) (db\<lparr>db_payloads := ps\<rparr>))" for ps
    by (cases "k = k'"; cases "get_lineage k db") (simp_all add: update_lineage_get r(1) option_move_refl)
  then show ?thesis using assms
    by (auto simp: retry_source_materialization_def tbl_update_where_def Let_def option_move_refl split: if_splits)
qed

lemma fail_moves: "record_moves k db (snd (mark_failed_in_session k' msg now db))"
proof -
  let ?f = "\<lambda>r. if lr_calculation_id r = k' \<and> lr_source_custody_state r \<noteq> Some CustodyComplete then failed_record msg now r else r"
  have "get_lineage k (snd (mark_failed_in_session k' msg now db)) = map_option ?f (get_lineage k db)"
    by (simp add: mark_failed_in_session_def tbl_update_where_def get_lineage_map)
  then show ?thesis by (cases "get_lineage k db") (simp_all add: source_move_failed)
qed

lemma stranded_moves: "record_moves k db (snd (reconcile_stranded_candidate locks now c db))"
proof -
  let ?f = "\<lambda>r. if stranded_source_identity r = c \<and> stranded_source db r then stranded_record now r else r"
  have "get_lineage k (snd (terminalize_stranded_source c now db)) = map_option ?f (get_lineage k db)"
    by (simp add: terminalize_stranded_source_def tbl_update_where_def get_lineage_map)
  moreover have "source_move r (?f r)" for r
    by (auto simp: source_move_def stranded_record_def stranded_source_def stranded_source_state_def)
  ultimately show ?thesis
    by (cases "get_lineage k db") (simp_all add: reconcile_stranded_candidate_def option_move_refl)
qed

text \<open>Every event of the store refines the specification.\<close>

lemma lineage_step_moves:
  assumes "lineage_step db e = Inr db'" "keeps_lineage k e"
  shows "record_moves k db db'"
proof (cases e)
  case (LPrune ks)
  then have "get_lineage k db' = get_lineage k db"
    using assms by (auto simp: delete_calculation_ids_def get_lineage_def tbl_get_drop split: if_splits)
  then show ?thesis by (rule record_moves_same)
next
  case (LPendingAgain k' now)
  with assms show ?thesis
    by (cases "get_lineage k db")
      (auto simp: mark_pending_def drop_result_def refuse_generic_source_reset_def update_lineage_get
        source_move_def split: option.splits if_splits)
next
  case (LLeaseOne k' w secs locked now)
  with assms show ?thesis
    by (auto simp: lease_pending_payload_def Let_def option_move_refl mark_invalid_moves split: option.splits if_splits)
next
  case (LRead k' now)
  with assms show ?thesis
    by (auto simp: get_lineage_payload_def option_move_refl mark_invalid_moves split: option.splits)
qed (use assms in \<open>auto simp: drop_result_def create_pending_record_def enqueue_lineage_payload_def
      merge_pending_moves mark_failed_if_present_def fail_moves lease_moves list_pending_payloads_def
      payloads_from_rows_moves increment_attempt_count_def delete_payload_def stranded_moves option_move_refl
      dest: finish_moves retry_moves split: option.splits\<close>)

end
