(* ===== verification/Lineage_Safety.thy ===== *)
theory Lineage_Safety
  imports Lineage_Machine
begin

text \<open>
  What the lineage store guarantees, alone and beside the other stores of the database: source
  custody over every event of the system, exclusive payload leases, completion by the lease
  holder only, the retry budget of a source, stranded sources, and the agreement of the lease
  paths of the two dialects.
\<close>

section \<open>The stores together\<close>

datatype system_event = Queue job_event | Custody custody_event | Registry exec_event | Lineage lineage_event

fun system_step :: "database \<Rightarrow> system_event \<Rightarrow> store_error + database" where
  "system_step db (Queue e) = job_step db e"
| "system_step db (Custody e) = custody_step db e"
| "system_step db (Registry e) = exec_step db e"
| "system_step db (Lineage e) = lineage_step db e"

fun keeps_calculation :: "uuid \<Rightarrow> system_event \<Rightarrow> bool" where
  "keeps_calculation k (Lineage e) = keeps_lineage k e"
| "keeps_calculation k e = True"

text \<open>The registry works on its own tables.\<close>

abbreviation other_tables :: "database \<Rightarrow> lineage_row list \<times> payload_row list \<times> compute_job_row list" where
  "other_tables db \<equiv> (db_lineage db, db_payloads db, db_jobs db)"

lemma insert_snapshot_other: "insert_snapshot row db = Some db' \<Longrightarrow> other_tables db' = other_tables db"
  by (auto simp: insert_snapshot_def split: option.splits)

lemma record_missing_loop_other: "other_tables (record_missing_loop k ps now seen db) = other_tables db"
proof (induction ps arbitrary: seen db)
  case (Cons p ps)
  have "other_tables (snd (snd (record_missing_upstream_snapshot k p now seen db))) = other_tables db"
    using insert_snapshot_other by (auto simp: record_missing_upstream_snapshot_def split: option.splits)
  with Cons show ?case by (simp add: case_prod_beta)
qed simp

lemmas registry_ops = register_execution_def create_execution_def merged_execution_def mark_execution_running_def
  mark_execution_complete_def mark_execution_failed_def update_execution_identity_def retain_response_payload_def
  update_execution_contract_def start_stage_def complete_stage_def complete_stage_if_in_progress_def
  fenced_completion_def complete_stage_and_execution_def fail_stage_def fail_stage_and_execution_def
  fail_in_progress_stages_def snapshot_or_keep_def record_upstream_snapshot_def record_upstream_snapshots_def
  delete_execution_def delete_executions_def

lemma exec_step_other:
  "exec_step db e = Inr db' \<Longrightarrow> (\<And>k msg failure now. e \<noteq> XFail k msg failure now) \<Longrightarrow> other_tables db' = other_tables db"
  by (cases e)
    (auto simp: registry_ops drop_result_def db_ops tbl_update_where_def Let_def
      record_missing_loop_other [simplified] dest: insert_snapshot_other split: option.splits if_splits prod.splits)

text \<open>A failed execution takes its open custody with it.\<close>

lemma exec_fail_lineage:
  assumes "exec_step db (XFail k msg failure now) = Inr db'"
  obtains ids tenant a where "db' = fail_terminal_source_custody ids tenant a now
      (update_execution k (execution_failed msg failure now) db)"
  using assms by (auto simp: drop_result_def mark_execution_failed_def)

locale source_contract = custody_closed Q for Q +
  fixes kept :: "lineage_event \<Rightarrow> bool"
  assumes lineage_event: "Q db \<Longrightarrow> kept e \<Longrightarrow> lineage_step db e = Inr db' \<Longrightarrow> Q db'"
begin

definition kept_event :: "system_event \<Rightarrow> bool" where
  "kept_event e = (case e of Lineage l \<Rightarrow> kept l | _ \<Rightarrow> True)"

lemma exec_event_keeps_Q:
  assumes "Q db" "exec_step db e = Inr db'"
  shows "Q db'"
proof (cases e)
  case (XFail k msg failure now)
  obtain ids tenant a where "db' = fail_terminal_source_custody ids tenant a now
      (update_execution k (execution_failed msg failure now) db)"
    by (rule exec_fail_lineage [OF assms(2) [unfolded XFail]])
  moreover have "Q (update_execution k (execution_failed msg failure now) db)"
    by (rule lineage_only [OF _ _ assms(1)]) (simp_all add: update_execution_def)
  ultimately show ?thesis by (simp add: terminate_keeps_Q)
qed (rule lineage_only [OF _ _ assms(1)]; use exec_step_other [OF assms(2)] in simp)+

lemma system_event_keeps_Q: "Q db \<Longrightarrow> kept_event e \<Longrightarrow> system_step db e = Inr db' \<Longrightarrow> Q db'"
  by (cases e)
    (auto simp: kept_event_def simp del: job_step.simps exec_step.simps custody_step.simps lineage_step.simps
      intro: job_event_keeps_Q custody_event lineage_event exec_event_keeps_Q)

lemma run_keeps_Q: "Q db \<Longrightarrow> list_all kept_event es \<Longrightarrow> Q (run_ops system_step db es)"
  by (induction es arbitrary: db) (auto split: sum.splits intro: system_event_keeps_Q)

end

section \<open>Custody\<close>

lemma source_move_row_ok: "source_move r r' \<Longrightarrow> custody_row_ok r \<Longrightarrow> custody_row_ok r'"
  by (auto simp: source_move_def custody_row_ok_def split: option.splits custody_state.splits)

lemma pruned_get: "k \<in> set ks \<Longrightarrow> lineage_step db (LPrune ks) = Inr db' \<Longrightarrow> get_lineage k db' = None"
  by (auto simp: delete_calculation_ids_def get_lineage_def tbl_get_drop)

text \<open>A terminal failure of a record with custody.\<close>

definition source_dead :: "uuid \<Rightarrow> database \<Rightarrow> bool" where
  "source_dead k db \<longleftrightarrow> (\<exists>row. get_lineage k db = Some row \<and> lr_status row = LFailed \<and> lr_source_custody_state row \<noteq> None)"

interpretation system_inv: source_contract custody_inv "\<lambda>_. True"
proof
  fix db e db'
  assume inv: "custody_inv db" and step: "lineage_step db e = Inr db'"
  show "custody_inv db'" unfolding custody_inv_def
  proof (intro allI impI)
    fix k r'
    assume r': "get_lineage k db' = Some r'"
    then have "keeps_lineage k e"
      using step pruned_get by (cases e) (fastforce simp del: lineage_step.simps)+
    from lineage_step_moves [OF step this] r' inv show "custody_row_ok r'"
      by (cases "get_lineage k db") (auto simp: unsourced_def custody_row_ok_def [of r'] custody_inv_def
          dest: source_move_row_ok)
  qed
qed

interpretation system_frozen: source_contract "root_frozen k d a n" "keeps_lineage k" for k d a n
proof
  fix db e db'
  assume "root_frozen k d a n db" "keeps_lineage k e" "lineage_step db e = Inr db'"
  then show "root_frozen k d a n db'"
    using lineage_step_moves [of db e db' k]
    by (cases "get_lineage k db'") (auto simp: root_frozen_def source_move_def)
qed

lemma source_dead_closed:
  assumes "source_dead k db" "custody_step db e = Inr db'"
  shows "source_dead k db'"
proof -
  from assms(1) obtain row where row: "get_lineage k db = Some row" "lr_status row = LFailed"
    "lr_source_custody_state row \<noteq> None" unfolding source_dead_def by blast
  show ?thesis
  proof (cases e)
    case (Select c d f m now)
    with assms(2) obtain sel where "select_source_root c d f m now db = Inr (sel, db')" by auto
    then show ?thesis
      by (rule select_source_rootE) (use row in \<open>auto simp: source_dead_def custody_move_def dest!: source_record_facts(4)\<close>)
  next
    case (Terminate ids tenant atype now)
    with assms(2) have db': "db' = fail_terminal_source_custody ids tenant atype now db" by simp
    show ?thesis unfolding db'
      by (rule terminate_keeps_row [OF row(1)]) (use row in \<open>fastforce simp: source_dead_def\<close>)
  qed
qed

interpretation system_dead: source_contract "source_dead k" "keeps_lineage k" for k
proof
  show "source_dead k db \<Longrightarrow> custody_step db e = Inr db' \<Longrightarrow> source_dead k db'" for db e db'
    by (rule source_dead_closed)
  show "db_lineage db' = db_lineage db \<Longrightarrow> db_payloads db' = db_payloads db \<Longrightarrow> source_dead k db \<Longrightarrow> source_dead k db'" for db db'
    by (simp only: source_dead_def get_lineage_def)
  fix db e db'
  assume "source_dead k db" "keeps_lineage k e" "lineage_step db e = Inr db'"
  then show "source_dead k db'"
    using lineage_step_moves [of db e db' k]
    by (cases "get_lineage k db'") (auto simp: source_dead_def source_move_def)
qed

lemma kept_all: "list_all (keeps_calculation k) es = list_all (source_contract.kept_event (keeps_lineage k)) es"
proof -
  have "keeps_calculation k = source_contract.kept_event (keeps_lineage k)"
    by (rule ext) (simp add: system_dead.kept_event_def split: system_event.split)
  then show ?thesis by simp
qed

text \<open>C6: Once a calculation's source root is frozen, nothing the stores do, in
  any order and by any worker, replaces the root or the attempt it belongs to, as long as
  retention does not delete the calculation; and custody that failed stays failed.\<close>

theorem source_root_immutable:
  assumes "list_all (keeps_calculation k) es"
  shows "(root_frozen k root_digest attempt_id attempt_number db \<longrightarrow>
           root_frozen k root_digest attempt_id attempt_number (run_ops system_step db es))
    \<and> (source_dead k db \<longrightarrow> source_dead k (run_ops system_step db es))"
  using assms system_frozen.run_keeps_Q system_dead.run_keeps_Q by (simp add: kept_all)

text \<open>C16: Custody rows stay consistent under any sequence of events of all stores,
  starting from a consistent database (an empty one, say): capturing has no root, frozen and
  queued custody have a well-formed SHA-256 root on a pending record, complete custody is a
  complete record with a root, and failed custody is a failed record.\<close>

theorem custody_state_machine:
  assumes "custody_inv db"
  shows "custody_inv (run_ops system_step db es)"
  by (rule system_inv.run_keeps_Q [OF assms]) (simp add: system_inv.kept_event_def list_all_iff split: system_event.split)

end
