(* ===== verification/Lineage_Leases.thy ===== *)
theory Lineage_Leases
  imports Lineage_Safety
begin

text \<open>
  Leases of queued lineage payloads: the invariant of the two tables, the exclusivity of a
  payload lease against every other event of the system, the agreement of the SQLite and
  PostgreSQL lease paths, and who may finish, retry or delete a payload.
\<close>

section \<open>Well-formed tables\<close>

definition payload_ok :: "payload_row \<Rightarrow> bool" where
  "payload_ok p \<longleftrightarrow> (lp_worker_id p = None \<longleftrightarrow> lp_leased_at_utc p = None)
     \<and> (lp_leased_at_utc p = None \<longleftrightarrow> lp_lease_expires_at_utc p = None) \<and> 0 \<le> lp_attempt_count p"

definition lineage_ok :: "database \<Rightarrow> bool" where
  "lineage_ok db \<longleftrightarrow> tbl_ok lr_calculation_id (db_lineage db) \<and> tbl_ok lp_calculation_id (db_payloads db)
     \<and> (\<forall>p \<in> set (db_payloads db). payload_ok p)"

lemma lineage_ok_empty: "lineage_ok (empty_database dialect)"
  by (simp add: lineage_ok_def empty_database_def tbl_ok_def)

lemma payload_ok_lease [simp]:
  "payload_ok p \<Longrightarrow> payload_ok (clear_payload_lease p)"
  "payload_ok p \<Longrightarrow> payload_ok (leased_payload w now x p)"
  by (auto simp: payload_ok_def clear_payload_lease_def leased_payload_def)

lemma payload_ok_new [simp]:
  "payload_ok (queued_payload k ty req resp details now)" "payload_ok (new_payload row m now)"
  "payload_ok p \<Longrightarrow> payload_ok (p\<lparr>lp_attempt_count := lp_attempt_count p + 1\<rparr>)"
  by (auto simp: payload_ok_def queued_payload_def new_payload_def)

lemma update_payload_ok:
  assumes "lineage_ok db" "\<And>p. lp_calculation_id (f p) = lp_calculation_id p" "\<And>p. payload_ok p \<Longrightarrow> payload_ok (f p)"
  shows "lineage_ok (update_payload k f db)"
  using assms by (simp add: lineage_ok_def update_payload_def tbl_ok_upd) (auto simp: tbl_upd_def)

lemma update_lineage_ok:
  assumes "lineage_ok db" "\<And>r. lr_calculation_id (f r) = lr_calculation_id r"
  shows "lineage_ok (update_lineage k f db)"
  using assms by (simp add: lineage_ok_def update_lineage_def tbl_ok_upd)

lemma map_lineage_ok:
  assumes "lineage_ok db" "\<And>r. lr_calculation_id (f r) = lr_calculation_id r"
  shows "lineage_ok (db\<lparr>db_lineage := List.map f (db_lineage db)\<rparr>)"
  using assms by (simp add: lineage_ok_def tbl_ok_map)

lemma map_payloads_ok:
  assumes "lineage_ok db" "\<And>p. lp_calculation_id (f p) = lp_calculation_id p" "\<And>p. payload_ok p \<Longrightarrow> payload_ok (f p)"
  shows "lineage_ok (db\<lparr>db_payloads := List.map f (db_payloads db)\<rparr>)"
  using assms by (auto simp: lineage_ok_def tbl_ok_map)

lemma add_lineage_ok: "lineage_ok db \<Longrightarrow> get_lineage (lr_calculation_id r) db = None \<Longrightarrow> lineage_ok (add_lineage r db)"
  by (simp add: lineage_ok_def lineage_ops tbl_ok_add)

lemma add_payload_ok:
  "lineage_ok db \<Longrightarrow> get_payload (lp_calculation_id p) db = None \<Longrightarrow> payload_ok p \<Longrightarrow> lineage_ok (add_payload p db)"
  by (auto simp: lineage_ok_def lineage_ops tbl_ok_add) (auto simp: tbl_add_def)

lemma drop_payload_ok: "lineage_ok db \<Longrightarrow> lineage_ok (drop_payload k db)"
  by (auto simp: lineage_ok_def drop_payload_def tbl_ok_del) (auto simp: tbl_del_def)

lemma mark_invalid_ok: "lineage_ok db \<Longrightarrow> lineage_ok (mark_invalid_payload_details k now db)"
  by (simp add: mark_invalid_payload_details_def update_payload_ok update_lineage_ok)

lemma payloads_from_rows_ok: "lineage_ok db \<Longrightarrow> lineage_ok (snd (payloads_from_rows now rows db))"
  by (induction rows arbitrary: db) (auto simp: case_prod_beta mark_invalid_ok split: option.splits)

lemma lease_payload_rows_ok: "lineage_ok db \<Longrightarrow> lineage_ok (snd (lease_payload_rows w now x rows db))"
  by (induction rows arbitrary: db) (auto simp: case_prod_beta mark_invalid_ok update_payload_ok split: option.splits)

lemma merge_pending_ok: "lineage_ok db \<Longrightarrow> lineage_ok (merge_pending_record k ty now db)"
  by (auto simp: merge_pending_record_def pending_record_def add_lineage_ok update_lineage_ok split: option.splits)

lemma replace_payload_ok:
  "lineage_ok db \<Longrightarrow> payload_ok p \<Longrightarrow> lineage_ok (update_payload (lp_calculation_id p) (\<lambda>_. p) db)"
  by (auto simp: lineage_ok_def update_payload_def tbl_upd_def tbl_ok_def comp_def if_distrib cong: if_cong)

lemma merge_payload_ok: "lineage_ok db \<Longrightarrow> payload_ok p \<Longrightarrow> lineage_ok (merge_payload p db)"
  by (auto simp: merge_payload_def add_payload_ok replace_payload_ok split: option.splits)

lemma lease_pending_payloads_ok: "lineage_ok db \<Longrightarrow> lineage_ok (snd (lease_pending_payloads w limit secs locked now db))"
  by (auto simp: lease_pending_payloads_def lease_pending_payloads_postgresql_def claim_payloads_def
      tbl_update_where_def Let_def lease_payload_rows_ok intro!: payloads_from_rows_ok map_payloads_ok)

lemma lineage_step_ok: "lineage_ok db \<Longrightarrow> lineage_step db e = Inr db' \<Longrightarrow> lineage_ok db'"
proof (cases e)
  case (LPrune ks)
  moreover assume "lineage_ok db" "lineage_step db e = Inr db'"
  ultimately show ?thesis
    by (auto simp: delete_calculation_ids_def lineage_ok_def tbl_ok_def distinct_map_filterI split: if_splits)
qed (auto simp: drop_result_def create_pending_record_def merge_pending_ok enqueue_lineage_payload_def
      merge_payload_ok
      mark_pending_def update_payload_ok update_lineage_ok mark_lineage_complete_def Let_def
      mark_failed_if_present_def mark_failed_in_session_def tbl_update_where_def map_lineage_ok
      retry_source_materialization_def map_payloads_ok lease_pending_payloads_ok lease_pending_payload_def
      mark_invalid_ok list_pending_payloads_def payloads_from_rows_ok get_lineage_payload_def
      increment_attempt_count_def delete_payload_def drop_payload_ok reconcile_stranded_candidate_def
      terminalize_stranded_source_def split: option.splits if_splits)

lemma source_record_tables_ok: "lineage_ok db \<Longrightarrow> source_record c now db = (row, db1) \<Longrightarrow> lineage_ok db1"
  by (auto simp: source_record_def lineage_ok_def tbl_ok_add new_source_record_def get_lineage_def Let_def
      split: option.splits)

lemma new_payload_id [simp]: "lp_calculation_id (new_payload row m now) = lr_calculation_id row"
  by (simp add: new_payload_def)

lemma enqueue_tables_ok: "lineage_ok db \<Longrightarrow> enqueue_if_given m now db row = Inr (row', db') \<Longrightarrow> lineage_ok db'"
  using add_payload_ok [of db "new_payload row p now" for p]
  by (auto simp: enqueue_if_given_def enqueue_selected_source_def add_payload_def
      split: option.splits if_splits)

lemma store_row_ok: "lineage_ok db \<Longrightarrow> lineage_ok (store_row row db)"
  by (auto simp: store_row_def update_lineage_def lineage_ok_def tbl_ok_def tbl_upd_def comp_def if_distrib cong: if_cong)

lemma select_tables_ok: "lineage_ok db \<Longrightarrow> select_source_root c d f m now db = Inr (sel, db') \<Longrightarrow> lineage_ok db'"
  by (auto simp: select_source_root_def Let_def split: prod.splits if_splits
      intro!: store_row_ok dest: source_record_tables_ok enqueue_tables_ok)

interpretation system_ok: source_contract lineage_ok "\<lambda>_. True"
proof
  show "lineage_ok db \<Longrightarrow> custody_step db e = Inr db' \<Longrightarrow> lineage_ok db'" for db e db'
    by (cases e) (auto simp: fail_terminal_source_custody_def tbl_update_where_def map_lineage_ok dest: select_tables_ok)
  show "db_lineage db' = db_lineage db \<Longrightarrow> db_payloads db' = db_payloads db \<Longrightarrow> lineage_ok db \<Longrightarrow> lineage_ok db'" for db db'
    by (simp add: lineage_ok_def)
  show "lineage_ok db \<Longrightarrow> True \<Longrightarrow> lineage_step db e = Inr db' \<Longrightarrow> lineage_ok db'" for db e db'
    by (rule lineage_step_ok)
qed

section \<open>Exclusive payload leases\<close>

text \<open>The payload \<open>p\<close> of \<open>k\<close> is leased by \<open>w\<close> until \<open>x\<close>, with details a worker can load.\<close>

definition payload_held :: "uuid \<Rightarrow> string \<Rightarrow> instant \<Rightarrow> payload_row \<Rightarrow> database \<Rightarrow> bool" where
  "payload_held k w x p db \<longleftrightarrow> lineage_ok db \<and> get_payload k db = Some p \<and> lp_worker_id p = Some w
     \<and> lp_lease_expires_at_utc p = Some x \<and> load_payload_details (lp_details_json p) \<noteq> None"

text \<open>
  The events of others: no verdict of \<open>w\<close> itself on \<open>k\<close>, no administrative failure, reset or
  deletion of \<open>k\<close>, and lease calls by anyone until the lease expires.
\<close>

fun leaves_payload :: "uuid \<Rightarrow> string \<Rightarrow> instant \<Rightarrow> lineage_event \<Rightarrow> bool" where
  "leaves_payload k w x (LEnqueue i ty req resp details now) = (i \<noteq> k)"
| "leaves_payload k w x (LPendingAgain i now) = (i \<noteq> k)"
| "leaves_payload k w x (LFail i msg now) = (i \<noteq> k)"
| "leaves_payload k w x (LRetry i v n maxa now clock) = (i \<noteq> k \<or> v \<noteq> Some w)"
| "leaves_payload k w x (LLease v limit secs locked now) = (now \<le> x)"
| "leaves_payload k w x (LLeaseOne i v secs locked now) = (now \<le> x)"
| "leaves_payload k w x (LCount i) = (i \<noteq> k)"
| "leaves_payload k w x (LDelete i v now) = (i \<noteq> k \<or> v \<notin> {None, Some w})"
| "leaves_payload k w x (LPrune ks) = (k \<notin> set ks)"
| "leaves_payload k w x e = True"

lemma held_not_free: "lp_lease_expires_at_utc p = Some x \<Longrightarrow> now \<le> x \<Longrightarrow> \<not> payload_lease_free now p"
  by (simp add: payload_lease_free_def)

lemma mark_invalid_payload:
  "get_payload k (mark_invalid_payload_details k' now db) =
     (if k = k' then map_option clear_payload_lease (get_payload k db) else get_payload k db)"
  by (simp add: mark_invalid_payload_details_def update_payload_get)

lemma payloads_from_rows_payload:
  "\<forall>q \<in> set rows. lp_calculation_id q = k \<longrightarrow> load_payload_details (lp_details_json q) \<noteq> None \<Longrightarrow>
   get_payload k (snd (payloads_from_rows now rows db)) = get_payload k db"
  by (induction rows arbitrary: db) (auto simp: case_prod_beta mark_invalid_payload split: option.splits)

lemma lease_payload_rows_payload:
  "k \<notin> lp_calculation_id ` set rows \<Longrightarrow> get_payload k (snd (lease_payload_rows w now x rows db)) = get_payload k db"
  by (induction rows arbitrary: db) (auto simp: case_prod_beta mark_invalid_payload update_payload_get split: option.splits)

lemma get_payload_map:
  "(\<And>p. lp_calculation_id (f p) = lp_calculation_id p) \<Longrightarrow>
   get_payload k (db\<lparr>db_payloads := List.map f (db_payloads db)\<rparr>) = map_option f (get_payload k db)"
  by (simp add: get_payload_def tbl_get_map)

lemma payload_row_of: "lineage_ok db \<Longrightarrow> q \<in> set (db_payloads db) \<Longrightarrow> get_payload (lp_calculation_id q) db = Some q"
  unfolding lineage_ok_def get_payload_def by (blast intro: tbl_get_mem)

lemma payload_statement_rows:
  "q \<in> set (lease_pending_payloads_statement now limit locked db) \<Longrightarrow>
     q \<in> set (db_payloads db) \<and> record_pending db (lp_calculation_id q) \<and> payload_lease_free now q"
  by (auto simp: lease_pending_payloads_statement_def dest: in_set_takeD)

lemma held_not_selected:
  assumes "payload_held k w x p db" "now \<le> x"
  shows "k \<notin> lp_calculation_id ` set (lease_pending_payloads_statement now limit locked db)"
proof
  assume "k \<in> lp_calculation_id ` set (lease_pending_payloads_statement now limit locked db)"
  then obtain q where q: "q \<in> set (lease_pending_payloads_statement now limit locked db)" "lp_calculation_id q = k" by auto
  with assms(1) have "q = p" using payload_row_of [of db q] payload_statement_rows [OF q(1)] by (auto simp: payload_held_def)
  then show False
    using assms payload_statement_rows [OF q(1)] held_not_free [of p x now] by (auto simp: payload_held_def)
qed

lemma lease_pending_payload_frame:
  assumes "payload_held k w x p db" "now \<le> x"
  shows "get_payload k (snd (lease_pending_payloads v limit secs locked now db)) = get_payload k db"
proof (cases "db_dialect_name db = ''postgresql''")
  case True
  let ?c = "List.map lp_calculation_id (lease_pending_payloads_statement now limit locked db)"
  let ?f = "\<lambda>p. if lp_calculation_id p \<in> set ?c then leased_payload v now (now + timedelta_seconds secs) p else p"
  have notin: "k \<notin> set ?c" using held_not_selected [OF assms] by simp
  have key: "lp_calculation_id (?f q) = lp_calculation_id q" for q by simp
  have "get_payload k (db\<lparr>db_payloads := List.map ?f (db_payloads db)\<rparr>) = map_option ?f (get_payload k db)"
    by (rule get_payload_map [OF key])
  also have "\<dots> = get_payload k db"
    using notin assms(1) payloads.get_key [of k db p] by (simp add: payload_held_def)
  finally have claim: "get_payload k (db\<lparr>db_payloads := List.map ?f (db_payloads db)\<rparr>) = get_payload k db" .
  have "get_payload k (snd (payloads_from_rows now (filter (\<lambda>q. lp_calculation_id q \<in> set ?c) (List.map ?f (db_payloads db)))
      (db\<lparr>db_payloads := List.map ?f (db_payloads db)\<rparr>))) = get_payload k (db\<lparr>db_payloads := List.map ?f (db_payloads db)\<rparr>)"
    by (rule payloads_from_rows_payload) (use notin in auto)
  with claim show ?thesis
    by (simp add: True lease_pending_payloads_def lease_pending_payloads_postgresql_def claim_payloads_def
        tbl_update_where_def Let_def del: set_map list.set_map)
next
  case False
  then show ?thesis
    using lease_payload_rows_payload [OF held_not_selected [OF assms]] by (simp add: lease_pending_payloads_def Let_def)
qed

lemma listed_payload_frame:
  assumes "payload_held k w x p db"
  shows "get_payload k (snd (list_pending_payloads limit now db)) = get_payload k db"
  unfolding list_pending_payloads_def
proof (rule payloads_from_rows_payload, intro ballI impI)
  fix q assume "q \<in> set (take limit (sort_key lp_created_at_utc
      (filter (\<lambda>p. record_pending db (lp_calculation_id p)) (db_payloads db))))" "lp_calculation_id q = k"
  then have "q = p" using assms payload_row_of [of db q] by (auto simp: payload_held_def dest!: in_set_takeD)
  then show "load_payload_details (lp_details_json q) \<noteq> None" using assms by (simp add: payload_held_def)
qed

lemma merge_pending_payload [simp]: "get_payload k (merge_pending_record i ty now db) = get_payload k db"
  by (simp add: merge_pending_record_def split: option.splits)

lemma merge_payload_frame: "lp_calculation_id q \<noteq> k \<Longrightarrow> get_payload k (merge_payload q db) = get_payload k db"
  using payloads.get_add [of q db k] payloads.get_upd [of "\<lambda>_. q" k "lp_calculation_id q" db]
  by (auto simp: merge_payload_def update_payload_def get_payload_def tbl_get_replace split: option.splits)

lemma retry_payload_frame:
  assumes "payload_held k w x p db" "i \<noteq> k \<or> v \<noteq> Some w"
    "retry_source_materialization i v n maxa now clock db = Inr ((), db')"
  shows "get_payload k db' = get_payload k db"
proof -
  let ?P = "\<lambda>p. lp_calculation_id p = i \<and> v \<noteq> None \<and> lp_worker_id p = v \<and> lp_attempt_count p = n
     \<and> lp_leased_at_utc p \<noteq> None \<and> payload_lease_active_filter (db_dialect_name db) clock p"
  let ?f = "\<lambda>p. if ?P p then clear_payload_lease p else p"
  have key: "lp_calculation_id (?f q) = lp_calculation_id q" for q by simp
  have p: "get_payload k db = Some p" "lp_calculation_id p = k" "lp_worker_id p = Some w"
    using assms(1) payloads.get_key [of k db p] by (auto simp: payload_held_def)
  have "\<not> ?P p" using assms(2) p by auto
  then have "get_payload k (db\<lparr>db_payloads := List.map ?f (db_payloads db)\<rparr>) = get_payload k db"
    unfolding get_payload_map [OF key] p(1) option.map by (simp only: if_False)
  then show ?thesis using assms(3)
    by (auto simp: retry_source_materialization_def tbl_update_where_def Let_def split: if_splits)
qed

lemma held_lineage_step:
  assumes held: "payload_held k w x p db" and e: "leaves_payload k w x e" and step: "lineage_step db e = Inr db'"
  shows "get_payload k db' = get_payload k db"
proof -
  have p: "get_payload k db = Some p" "lp_worker_id p = Some w" "lp_lease_expires_at_utc p = Some x"
    "load_payload_details (lp_details_json p) \<noteq> None" using held by (auto simp: payload_held_def)
  show ?thesis
  proof (cases e)
    case (LRetry i v n maxa now clock)
    with e step show ?thesis using retry_payload_frame [OF held] by (auto simp: drop_result_def)
  next
    case (LPrune ks)
    with e step show ?thesis
      by (auto simp: delete_calculation_ids_def get_payload_def tbl_get_drop split: if_splits)
  next
    case (LFail i msg now)
    with e step show ?thesis
      by (auto simp: mark_failed_if_present_def mark_failed_in_session_def tbl_update_where_def update_payload_get)
  next
    case (LLeaseOne i v secs locked now)
    with e step p show ?thesis
      using held_not_free [OF p(3), of now]
      by (auto simp: lease_pending_payload_def Let_def mark_invalid_payload update_payload_get split: option.splits if_splits)
  next
    case (LDelete i v now)
    with e step p show ?thesis
      by (auto simp: drop_result_def delete_payload_def ensure_lineage_payload_active_lease_owner_def payloads.get_del
          split: option.splits if_splits)
  qed (use e step p in \<open>auto simp: drop_result_def create_pending_record_def enqueue_lineage_payload_def
      merge_payload_frame queued_payload_def mark_pending_def update_payload_get mark_lineage_complete_def Let_def
      lease_pending_payload_frame [OF held] listed_payload_frame [OF held] get_lineage_payload_def
      mark_invalid_payload increment_attempt_count_def reconcile_stranded_candidate_def terminalize_stranded_source_def
      tbl_update_where_def split: option.splits if_splits\<close>)
qed

lemma enqueue_payload_kept:
  "get_payload k db = Some p \<Longrightarrow> enqueue_if_given m now db row = Inr (row', db') \<Longrightarrow> get_payload k db' = Some p"
  using payloads.add_frame [of "new_payload row q now" db k p for q]
  by (auto simp: enqueue_if_given_def enqueue_selected_source_def add_payload_def split: option.splits if_splits)

lemma select_payload_kept:
  assumes "get_payload k db = Some p" "select_source_root c d f m now db = Inr (sel, db')"
  shows "get_payload k db' = Some p"
proof -
  have "get_payload k (store_row row d) = get_payload k d" for row d by (simp add: store_row_def)
  moreover have "get_payload k db1 = get_payload k db" if "source_record c now db = (row, db1)" for row db1
    using that by (auto simp: source_record_def Let_def get_payload_def split: option.splits)
  ultimately show ?thesis using assms
    by (auto simp: select_source_root_def Let_def split: prod.splits if_splits intro: enqueue_payload_kept)
qed

interpretation system_held: source_contract "payload_held k w x p" "leaves_payload k w x" for k w x p
proof
  show "payload_held k w x p db \<Longrightarrow> custody_step db e = Inr db' \<Longrightarrow> payload_held k w x p db'" for db e db'
    using system_ok.custody_event [of db e db']
    by (cases e) (auto simp: payload_held_def fail_terminal_source_custody_def tbl_update_where_def dest: select_payload_kept)
  show "db_lineage db' = db_lineage db \<Longrightarrow> db_payloads db' = db_payloads db \<Longrightarrow> payload_held k w x p db
      \<Longrightarrow> payload_held k w x p db'" for db db'
    by (simp add: payload_held_def lineage_ok_def get_payload_def)
  show "payload_held k w x p db \<Longrightarrow> leaves_payload k w x e \<Longrightarrow> lineage_step db e = Inr db' \<Longrightarrow> payload_held k w x p db'"
    for db e db'
    using held_lineage_step [of k w x p db e db'] lineage_step_ok [of db e db']
    by (simp add: payload_held_def del: lineage_step.simps)
qed

section \<open>What a lease call hands out\<close>

lemma in_map_filter: "y \<in> set (List.map_filter f xs) \<longleftrightarrow> (\<exists>x \<in> set xs. f x = Some y)"
  by (induction xs) (auto simp: List.map_filter_simps split: option.splits)

definition handed_out :: "string \<Rightarrow> instant \<Rightarrow> instant \<Rightarrow> payload_row \<Rightarrow> lineage_payload option" where
  "handed_out w now x q = map_option (to_payload (leased_payload w now x q)) (load_payload_details (lp_details_json q))"

lemma leased_payload_details [simp]: "lp_details_json (leased_payload w now x q) = lp_details_json q"
  by (simp add: leased_payload_def)

lemma lease_payload_rows_fst: "fst (lease_payload_rows w now x rows db) = List.map_filter (handed_out w now x) rows"
  by (induction rows arbitrary: db) (auto simp: List.map_filter_simps handed_out_def case_prod_beta split: option.splits)

lemma payloads_from_rows_fst:
  "fst (payloads_from_rows now rows db) = List.map_filter (\<lambda>q. map_option (to_payload q) (load_payload_details (lp_details_json q))) rows"
  by (induction rows arbitrary: db) (auto simp: List.map_filter_simps case_prod_beta split: option.splits)

lemma lease_payload_rows_get:
  "distinct (List.map lp_calculation_id rows) \<Longrightarrow> \<forall>q \<in> set rows. get_payload (lp_calculation_id q) db = Some q \<Longrightarrow>
   q \<in> set rows \<Longrightarrow> load_payload_details (lp_details_json q) \<noteq> None \<Longrightarrow>
   get_payload (lp_calculation_id q) (snd (lease_payload_rows w now x rows db)) = Some (leased_payload w now x q)"
proof (induction rows arbitrary: db)
  case (Cons r rows)
  let ?db1 = "if load_payload_details (lp_details_json r) = None then mark_invalid_payload_details (lp_calculation_id r) now db
      else update_payload (lp_calculation_id r) (leased_payload w now x) db"
  have snd: "snd (lease_payload_rows w now x (r # rows) db) = snd (lease_payload_rows w now x rows ?db1)"
    by (simp add: case_prod_beta split: option.split)
  have rest: "lp_calculation_id r \<notin> lp_calculation_id ` set rows" using Cons.prems(1) by simp
  have keep: "\<forall>q \<in> set rows. get_payload (lp_calculation_id q) ?db1 = Some q"
  proof
    fix q assume "q \<in> set rows"
    then have "lp_calculation_id q \<noteq> lp_calculation_id r" "get_payload (lp_calculation_id q) db = Some q"
      using rest Cons.prems(2) by (metis imageI, meson list.set_intros(2))
    then show "get_payload (lp_calculation_id q) ?db1 = Some q"
      by (cases "load_payload_details (lp_details_json r)") (simp_all add: mark_invalid_payload update_payload_get)
  qed
  show ?case
  proof (cases "q = r")
    case True
    then have db1: "?db1 = update_payload (lp_calculation_id r) (leased_payload w now x) db"
      using Cons.prems(4) by (simp only: if_False)
    have "get_payload (lp_calculation_id r) db = Some r" using Cons.prems(2) by simp
    then show ?thesis
      unfolding snd True lease_payload_rows_payload [OF rest] db1 update_payload_get [OF lease_ids(2)] by simp
  next
    case False
    with Cons.prems show ?thesis unfolding snd by (intro Cons.IH keep) simp_all
  qed
qed simp

lemma statement_distinct:
  assumes "lineage_ok db"
  shows "distinct (List.map lp_calculation_id (lease_pending_payloads_statement now limit locked db))"
proof -
  have "distinct (List.map lp_calculation_id (filter P (db_payloads db)))" for P
    using assms by (simp add: lineage_ok_def tbl_ok_def distinct_map_filterI)
  then have "distinct (List.map lp_calculation_id (sort_key payload_order (filter P (db_payloads db))))" for P
    by (simp add: distinct_map)
  then show ?thesis by (simp add: lease_pending_payloads_statement_def take_map [symmetric] distinct_take)
qed

text \<open>Each payload handed out was free with a pending record, and is now held by the caller.\<close>

lemma lease_hands_out:
  assumes ok: "lineage_ok db" and pl: "pl \<in> set (fst (lease_pending_payloads w limit secs locked now db))"
  obtains q details where "q \<in> set (lease_pending_payloads_statement now limit locked db)"
    "load_payload_details (lp_details_json q) = Some details"
    "pl = to_payload (leased_payload w now (now + timedelta_seconds secs) q) details"
    "get_payload (lp_calculation_id q) (snd (lease_pending_payloads w limit secs locked now db))
       = Some (leased_payload w now (now + timedelta_seconds secs) q)"
proof (cases "db_dialect_name db = ''postgresql''")
  case False
  let ?x = "now + timedelta_seconds secs"
  let ?rows = "lease_pending_payloads_statement now limit locked db"
  have lease: "lease_pending_payloads w limit secs locked now db = lease_payload_rows w now ?x ?rows db"
    using False by (simp add: lease_pending_payloads_def Let_def)
  from pl obtain q where q: "q \<in> set ?rows" "handed_out w now ?x q = Some pl"
    unfolding lease lease_payload_rows_fst in_map_filter by blast
  then obtain details where d: "load_payload_details (lp_details_json q) = Some details" "pl = to_payload (leased_payload w now ?x q) details"
    by (auto simp: handed_out_def)
  have "get_payload (lp_calculation_id q) (snd (lease_payload_rows w now ?x ?rows db)) = Some (leased_payload w now ?x q)"
    by (rule lease_payload_rows_get [OF statement_distinct [OF ok] _ q(1)])
      (use d payload_row_of [OF ok] payload_statement_rows in auto)
  with q(1) d that show thesis by (simp add: lease)
next
  case True
  let ?x = "now + timedelta_seconds secs"
  let ?rows = "lease_pending_payloads_statement now limit locked db"
  define c where "c = List.map lp_calculation_id ?rows"
  define f where "f = (\<lambda>p. if lp_calculation_id p \<in> set c then leased_payload w now ?x p else p)"
  let ?db1 = "db\<lparr>db_payloads := List.map f (db_payloads db)\<rparr>"
  let ?claimed = "filter (\<lambda>p. lp_calculation_id p \<in> set c) (List.map f (db_payloads db))"
  have lease: "lease_pending_payloads w limit secs locked now db = payloads_from_rows now ?claimed ?db1"
    using True by (simp add: lease_pending_payloads_def lease_pending_payloads_postgresql_def claim_payloads_def
        tbl_update_where_def Let_def c_def f_def)
  from pl obtain r details where r: "r \<in> set ?claimed" "load_payload_details (lp_details_json r) = Some details" "pl = to_payload r details"
    unfolding lease payloads_from_rows_fst in_map_filter by blast
  then obtain q where q: "q \<in> set (db_payloads db)" "lp_calculation_id q \<in> set c" "r = leased_payload w now ?x q"
    by (auto simp: f_def split: if_splits)
  have row: "get_payload (lp_calculation_id q) db = Some q" by (rule payload_row_of [OF ok q(1)])
  from q(2) obtain q' where "q' \<in> set ?rows" "lp_calculation_id q' = lp_calculation_id q" by (auto simp: c_def)
  moreover from this(1) have "get_payload (lp_calculation_id q') db = Some q'"
    using payload_row_of [OF ok] payload_statement_rows by blast
  ultimately have mem: "q \<in> set ?rows" using row by (metis option.inject)
  have key: "lp_calculation_id (f p) = lp_calculation_id p" for p by (simp add: f_def)
  have "get_payload (lp_calculation_id q) ?db1 = Some r"
    unfolding get_payload_map [OF key] row option.map q(3) using q(2) by (simp add: f_def)
  moreover have "get_payload (lp_calculation_id q) (snd (payloads_from_rows now ?claimed ?db1)) = get_payload (lp_calculation_id q) ?db1"
  proof (rule payloads_from_rows_payload, intro ballI impI)
    fix r' assume r': "r' \<in> set ?claimed" "lp_calculation_id r' = lp_calculation_id q"
    then obtain q'' where "q'' \<in> set (db_payloads db)" "r' = f q''" by auto
    with r'(2) have "lp_calculation_id q'' = lp_calculation_id q" by (simp add: key)
    with \<open>q'' \<in> set (db_payloads db)\<close> have "q'' = q" using payload_row_of [OF ok] row by (metis option.inject)
    with \<open>r' = f q''\<close> q(2,3) r(2) show "load_payload_details (lp_details_json r') \<noteq> None" by (simp add: f_def)
  qed
  ultimately show thesis using that [OF mem] r q(3) by (simp add: lease)
qed

lemma lease_one_ids: "fst (lease_pending_payload k w secs locked now db) = Some pl \<Longrightarrow>
    \<exists>p. get_payload k db = Some p \<and> payload_lease_free now p"
  by (auto simp: lease_pending_payload_def Let_def split: option.splits if_splits)

lemma held_not_handed_out:
  assumes "payload_held k w x p db" "t \<le> x"
  shows "k \<notin> pl_calculation_id ` set (fst (lease_pending_payloads v limit secs locked t db))"
    "fst (lease_pending_payload k v secs locked t db) = None"
proof -
  show "k \<notin> pl_calculation_id ` set (fst (lease_pending_payloads v limit secs locked t db))"
  proof
    assume "k \<in> pl_calculation_id ` set (fst (lease_pending_payloads v limit secs locked t db))"
    then obtain pl where pl: "pl \<in> set (fst (lease_pending_payloads v limit secs locked t db))" "pl_calculation_id pl = k" by auto
    have ok: "lineage_ok db" using assms(1) by (simp add: payload_held_def)
    from lease_hands_out [OF ok pl(1)] obtain q details where
      "q \<in> set (lease_pending_payloads_statement t limit locked db)"
      "pl = to_payload (leased_payload v t (t + timedelta_seconds secs) q) details" by metis
    with pl(2) have "k \<in> lp_calculation_id ` set (lease_pending_payloads_statement t limit locked db)"
      by (auto simp: to_payload_def)
    with held_not_selected [OF assms] show False by blast
  qed
  show "fst (lease_pending_payload k v secs locked t db) = None"
    using lease_one_ids [of k v secs locked t db] held_not_free [of p x t] assms
    by (cases "fst (lease_pending_payload k v secs locked t db)") (auto simp: payload_held_def)
qed

text \<open>
  No double materialization: after a lineage worker leased a payload,
  whatever the other stores and workers do, the payload stays leased to it with the attempt
  number it was told; until the lease expires no lease call hands the payload out, and of all
  named workers only the holder may materialize or delete it.\<close>

theorem payload_lease_exclusive:
  assumes "lineage_ok db" "lease_pending_payloads w limit secs locked now db = (leased, db1)" "pl \<in> set leased"
    "list_all (\<lambda>e. case e of Lineage l \<Rightarrow> leaves_payload (pl_calculation_id pl) w (now + timedelta_seconds secs) l | _ \<Rightarrow> True) es"
    "t \<le> now + timedelta_seconds secs"
  shows "\<exists>p. get_payload (pl_calculation_id pl) (run_ops system_step db1 es) = Some p \<and> lp_worker_id p = Some w
       \<and> lp_attempt_count p = pl_attempt_count pl
     \<and> pl_calculation_id pl \<notin> pl_calculation_id ` set (fst (lease_pending_payloads v limit' secs' locked' t (run_ops system_step db1 es)))
     \<and> fst (lease_pending_payload (pl_calculation_id pl) v secs' locked' t (run_ops system_step db1 es)) = None
     \<and> (ensure_active_payload_lease_owner (pl_calculation_id pl) (Some v) t (run_ops system_step db1 es) = Inr () \<longleftrightarrow> v = w)"
proof -
  let ?x = "now + timedelta_seconds secs" and ?db2 = "run_ops system_step db1 es"
  have "pl \<in> set (fst (lease_pending_payloads w limit secs locked now db))" and db1: "db1 = snd (lease_pending_payloads w limit secs locked now db)"
    using assms(2,3) by simp_all
  from lease_hands_out [OF assms(1) this(1)] obtain q details where q: "load_payload_details (lp_details_json q) = Some details"
    "pl = to_payload (leased_payload w now ?x q) details" "get_payload (lp_calculation_id q) db1 = Some (leased_payload w now ?x q)"
    unfolding db1 by metis
  define p where "p = leased_payload w now ?x q"
  have k: "pl_calculation_id pl = lp_calculation_id q" "pl_attempt_count pl = lp_attempt_count p"
    "lp_worker_id p = Some w" "lp_leased_at_utc p = Some now" "lp_lease_expires_at_utc p = Some ?x"
    by (simp_all add: q(2) p_def to_payload_def leased_payload_def)
  have "payload_held (pl_calculation_id pl) w ?x p db1"
    using q k lease_pending_payloads_ok [OF assms(1)] by (simp add: payload_held_def p_def [symmetric] db1) (simp add: p_def)
  then have held: "payload_held (pl_calculation_id pl) w ?x p ?db2"
    by (rule system_held.run_keeps_Q) (use assms(4) in \<open>simp add: system_held.kept_event_def [abs_def]\<close>)
  have "ensure_active_payload_lease_owner (pl_calculation_id pl) (Some v) t ?db2 = Inr () \<longleftrightarrow> v = w"
    using held k(3-5) assms(5)
    by (auto simp: ensure_active_payload_lease_owner_def ensure_lineage_payload_active_lease_owner_def payload_held_def
        payload_has_active_lease_def)
  then show ?thesis
    using held held_not_handed_out [OF held assms(5)] k by (auto simp: payload_held_def)
qed

end
