(* ===== verification/Lineage_Outcomes.thy ===== *)
theory Lineage_Outcomes
  imports Lineage_Leases "HOL-Library.Multiset"
begin

text \<open>
  How a queued lineage ends: who may complete it and what is recorded, the retry budget of a
  retained source, stranded sources, and the agreement of the two dialects' lease paths.
\<close>

section \<open>Completion\<close>

text \<open>What a completing attempt must prove about a retained source.\<close>

definition source_authority ::
    "database \<Rightarrow> lineage_row \<Rightarrow> payload_row \<Rightarrow> string option \<Rightarrow> string option \<Rightarrow> string option \<Rightarrow> int option \<Rightarrow> bool" where
  "source_authority db r p rd manifest tenant n \<longleftrightarrow>
     lr_source_custody_state r = Some PendingMaterialization \<and> n = Some (lp_attempt_count p)
   \<and> rd = lr_source_root_digest r \<and> rd \<noteq> None \<and> tenant = lr_source_tenant_id r \<and> tenant \<noteq> None
   \<and> manifest \<noteq> None \<and> is_digest (or_empty manifest)
   \<and> (\<exists>e. get_execution_row (lr_calculation_id r) db = Some e \<and> ex_tenant_id e = tenant
        \<and> ex_analytics_type e = ''ReturnsSeries'' \<and> ex_status e \<noteq> EFailed)"

lemma completion_values_iff:
  "lp_worker_id p = Some w \<Longrightarrow>
   (\<exists>sv. source_completion_values db r (Some p) rd manifest tenant (Some w) n = Inr sv)
   \<longleftrightarrow> lr_source_custody_state r = None \<or> source_authority db r p rd manifest tenant n"
  by (cases n; cases "get_execution_row (lr_calculation_id r) db")
    (auto simp: source_completion_values_def source_authority_def require_source_completion_attempt_def
      require_source_completion_root_def require_source_completion_execution_def)

lemma completion_values_attempt:
  "source_completion_values db r (Some p) rd manifest tenant (Some w) n = Inr (Some v) \<Longrightarrow> n = Some (lp_attempt_count p)"
  by (auto simp: source_completion_values_def require_source_completion_attempt_def split: option.splits if_splits)

lemma lineage_finish_by_worker:
  "(\<exists>x. mark_lineage_complete k names ts (Some w) rd manifest tenant n now clock db = Inr x) \<longleftrightarrow>
     (\<exists>r p. get_lineage k db = Some r \<and> lr_status r \<noteq> LFailed \<and> get_payload k db = Some p
        \<and> lp_worker_id p = Some w \<and> payload_has_active_lease now p
        \<and> payload_lease_active_filter (db_dialect_name db) clock p
        \<and> (lr_source_custody_state r = None \<or> source_authority db r p rd manifest tenant n))"
proof (cases "get_lineage k db")
  case (Some r)
  show ?thesis
  proof (cases "get_payload k db")
    case None
    with Some show ?thesis
      by (auto simp: mark_lineage_complete_def Let_def ensure_lineage_payload_active_lease_owner_def split: if_splits)
  next
    case p: (Some p)
    show ?thesis
    proof (cases "lp_worker_id p = Some w \<and> payload_has_active_lease now p")
      case True
      have lease: "completion_lease_holds (db_dialect_name db) clock w (sv \<noteq> None) n (Some p)
          \<longleftrightarrow> payload_lease_active_filter (db_dialect_name db) clock p"
        if "source_completion_values db r (Some p) rd manifest tenant (Some w) n = Inr sv" for sv
        using True that completion_values_attempt [of db r p rd manifest tenant w n]
        by (cases sv) (auto simp: completion_lease_holds_def payload_has_active_lease_def)
      show ?thesis
        using True completion_values_iff [of p w db r rd manifest tenant n]
        by (auto simp: mark_lineage_complete_def Let_def Some p ensure_lineage_payload_active_lease_owner_def lease
            simp del: not_None_eq)
    next
      case False
      then show ?thesis
        by (auto simp: mark_lineage_complete_def Let_def Some p ensure_lineage_payload_active_lease_owner_def split: if_splits)
    qed
  qed
qed (simp add: mark_lineage_complete_def)

text \<open>C23: The completion of a lineage that is not failed succeeds, when it names a worker, exactly if
  that worker holds the unexpired lease by its own clock and by the database's and, for a retained
  source, presents the current attempt, root, tenant and a manifest digest of an execution that has not
  failed; when it names no worker (\<open>worker_id=None\<close>), exactly if no source is retained. A failed or
  unknown lineage is never completed.\<close>

theorem lineage_finish_iff:
  "(\<exists>x. mark_lineage_complete k names ts caller rd manifest tenant n now clock db = Inr x) \<longleftrightarrow>
     (\<exists>r. get_lineage k db = Some r \<and> lr_status r \<noteq> LFailed
        \<and> (case caller of
             None \<Rightarrow> lr_source_custody_state r = None
           | Some w \<Rightarrow> \<exists>p. get_payload k db = Some p \<and> lp_worker_id p = Some w \<and> payload_has_active_lease now p
               \<and> payload_lease_active_filter (db_dialect_name db) clock p
               \<and> (lr_source_custody_state r = None \<or> source_authority db r p rd manifest tenant n)))"
proof (cases caller)
  case None
  have "(\<exists>sv. source_completion_values db r payload rd manifest tenant None n = Inr sv) \<longleftrightarrow> lr_source_custody_state r = None"
    for r payload
    by (auto simp: source_completion_values_def require_source_completion_attempt_def)
  then show ?thesis
    by (auto simp: None mark_lineage_complete_def Let_def ensure_lineage_payload_active_lease_owner_def simp del: not_None_eq)
next
  case (Some w)
  then show ?thesis using lineage_finish_by_worker by auto
qed

section \<open>Artifact names\<close>

definition plain_name :: "string \<Rightarrow> bool" where
  "plain_name name \<longleftrightarrow> name \<noteq> [] \<and> list_all (\<lambda>c. \<not> is_line_break c) name"

lemma splitlines_from_plain:
  "list_all (\<lambda>c. \<not> is_line_break c) s \<Longrightarrow> splitlines_from line (s @ rest) = splitlines_from (line @ s) rest"
  by (induction s arbitrary: line) auto

lemma splitlines_from_break:
  "list_all (\<lambda>c. \<not> is_line_break c) s \<Longrightarrow> splitlines_from [] (s @ char_of (10 :: nat) # rest) = s # splitlines_from [] rest"
  unfolding splitlines_from_plain by (cases rest) (auto simp: is_line_break_def)

lemma splitlines_join: "list_all plain_name names \<Longrightarrow> splitlines (join_lines names) = names"
proof (induction names rule: join_lines.induct)
  case (2 line)
  then show ?case using splitlines_from_plain [of line "[]" "[]"] by (simp add: splitlines_def plain_name_def)
next
  case (3 line l lines)
  then show ?case by (simp add: splitlines_def splitlines_from_break plain_name_def [of line])
qed (simp add: splitlines_def)

text \<open>
  The record of a completed lineage names the artifacts it was
  completed with, in order, whatever the order they were given in; it is complete, without an
  error, and a retained source is recorded complete with its manifest.\<close>

theorem artifact_names_roundtrip:
  assumes "mark_lineage_complete k names ts w rd manifest tenant n now clock db = Inr ((), db')" "list_all plain_name names"
  shows "\<exists>rec. get_record k db' = Some rec \<and> re_artifact_names rec = sort names \<and> re_status rec = LComplete
     \<and> re_error_message rec = None
     \<and> (re_source_custody_state rec \<noteq> None \<longrightarrow> re_source_custody_state rec = Some CustodyComplete
          \<and> re_source_manifest_digest rec = manifest)"
proof -
  from assms(1) obtain r sv where r: "get_lineage k db = Some r"
    and sv: "source_completion_values db r (get_payload k db) rd manifest tenant w n = Inr sv"
    and db': "db' = update_lineage k (completed_record (the (opt_or ts now)) names sv) db"
    by (auto simp: mark_lineage_complete_def Let_def split: if_splits)
  have "list_all plain_name (sort names)" using assms(2) by (simp add: list_all_iff)
  then have "splitlines (join_lines (sort names)) = sort names" "filter (\<lambda>name. name \<noteq> []) (sort names) = sort names"
    by (auto simp: splitlines_join list_all_iff plain_name_def)
  then show ?thesis
    using sv by (cases sv) (auto simp: get_record_def db' update_lineage_get r completed_record_def Let_def
        completion_values_None dest: completion_values_Some)
qed

section \<open>The retry budget of a retained source\<close>

lemma dead_not_pending: "lineage_ok db \<Longrightarrow> source_dead k db \<Longrightarrow> \<not> record_pending db k"
  unfolding lineage_ok_def source_dead_def record_pending_def get_lineage_def
  by (metis lineage_status.distinct(3) option.inject tbl_get_mem)

lemma dead_not_handed_out:
  assumes "lineage_ok db" "source_dead k db"
  shows "k \<notin> pl_calculation_id ` set (fst (lease_pending_payloads v limit secs locked t db))"
proof
  assume "k \<in> pl_calculation_id ` set (fst (lease_pending_payloads v limit secs locked t db))"
  then obtain pl where pl: "pl \<in> set (fst (lease_pending_payloads v limit secs locked t db))" "pl_calculation_id pl = k" by auto
  from lease_hands_out [OF assms(1) pl(1)] obtain q details where
    "q \<in> set (lease_pending_payloads_statement t limit locked db)"
    "pl = to_payload (leased_payload v t (t + timedelta_seconds secs) q) details" by metis
  with pl(2) payload_statement_rows have "record_pending db k" by (fastforce simp: to_payload_def)
  with dead_not_pending [OF assms] show False by blast
qed

lemma retry_effect:
  assumes "lineage_ok db" "retry_source_materialization k w n maxa now clock db = Inr ((), db1)"
  obtains r p where "get_lineage k db = Some r" "lr_status r = LPending" "lr_source_custody_state r = Some PendingMaterialization"
    "get_payload k db = Some p" "lp_attempt_count p = n" "get_payload k db1 = Some (clear_payload_lease p)"
    "get_lineage k db1 = Some (if n \<ge> maxa then exhausted_record now r else r)"
proof -
  let ?P = "\<lambda>p. lp_calculation_id p = k \<and> w \<noteq> None \<and> lp_worker_id p = w \<and> lp_attempt_count p = n
     \<and> lp_leased_at_utc p \<noteq> None \<and> payload_lease_active_filter (db_dialect_name db) clock p"
  let ?f = "\<lambda>p. if ?P p then clear_payload_lease p else p"
  have key: "lp_calculation_id (?f q) = lp_calculation_id q" for q by simp
  from assms(2) obtain r where r: "get_lineage k db = Some r" "lr_status r = LPending"
      "lr_source_custody_state r = Some PendingMaterialization" and one: "length (filter ?P (db_payloads db)) = 1"
    and db1: "db1 = (if n \<ge> maxa then update_lineage k (exhausted_record now) (db\<lparr>db_payloads := List.map ?f (db_payloads db)\<rparr>)
        else db\<lparr>db_payloads := List.map ?f (db_payloads db)\<rparr>)"
    by (auto simp: retry_source_materialization_def require_source_retry_record_def tbl_update_where_def Let_def
        split: option.splits if_splits)
  from one have "filter ?P (db_payloads db) \<noteq> []" by fastforce
  then obtain p where p: "p \<in> set (db_payloads db)" "?P p" unfolding filter_empty_conv by blast
  then have row: "get_payload k db = Some p" using payload_row_of [OF assms(1) p(1)] by simp
  have "get_payload k (db\<lparr>db_payloads := List.map ?f (db_payloads db)\<rparr>) = Some (clear_payload_lease p)"
    unfolding get_payload_map [OF key] row option.map using p(2) by (simp only: if_True simp_thms)
  then show thesis using that [OF r row] p(2) r by (simp add: db1 update_lineage_get)
qed

text \<open>
  A failed materialization of a retained source frees the payload with the
  attempts it has used. While attempts remain the record stays pending for the next worker; with
  the last one it fails for good: no later event hands the payload out again.\<close>

theorem source_retry_budget:
  assumes "lineage_ok db" "retry_source_materialization k w n maxa now clock db = Inr ((), db1)"
  shows "(\<exists>p. get_payload k db1 = Some p \<and> lp_attempt_count p = n \<and> payload_lease_free t p)
     \<and> (n < maxa \<longrightarrow> record_pending db1 k)
     \<and> (maxa \<le> n \<and> list_all (keeps_calculation k) es \<longrightarrow>
          k \<notin> pl_calculation_id ` set (fst (lease_pending_payloads v limit secs locked t (run_ops system_step db1 es))))"
proof (rule conj3I)
  obtain r p where facts: "get_lineage k db = Some r" "lr_status r = LPending"
    "lr_source_custody_state r = Some PendingMaterialization" "get_payload k db = Some p" "lp_attempt_count p = n"
    "get_payload k db1 = Some (clear_payload_lease p)"
    "get_lineage k db1 = Some (if n \<ge> maxa then exhausted_record now r else r)"
    by (rule retry_effect [OF assms])
  show "\<exists>p. get_payload k db1 = Some p \<and> lp_attempt_count p = n \<and> payload_lease_free t p"
    using facts(5,6) by (simp add: clear_payload_lease_def payload_lease_free_def)
  show "n < maxa \<longrightarrow> record_pending db1 k"
    using facts(2,7) by (auto simp: record_pending_def get_lineage_def dest!: tbl_get_Some)
  show "maxa \<le> n \<and> list_all (keeps_calculation k) es \<longrightarrow>
      k \<notin> pl_calculation_id ` set (fst (lease_pending_payloads v limit secs locked t (run_ops system_step db1 es)))"
  proof (intro impI, elim conjE, rule dead_not_handed_out)
    assume "maxa \<le> n" and es: "list_all (keeps_calculation k) es"
    then have "source_dead k db1" using facts(7) by (simp add: source_dead_def exhausted_record_def)
    then show "source_dead k (run_ops system_step db1 es)" using es system_dead.run_keeps_Q by (simp add: kept_all)
    have "lineage_ok db1" using lineage_step_ok [OF assms(1), of "LRetry k w n maxa now clock"] assms(2) by (simp add: drop_result_def)
    then show "lineage_ok (run_ops system_step db1 es)"
      by (rule system_ok.run_keeps_Q) (simp add: system_ok.kept_event_def list_all_iff split: system_event.split)
  qed
qed

section \<open>The two lease paths\<close>

lemma update_payload_map: "update_payload k f db = db\<lparr>db_payloads := List.map (\<lambda>p. if lp_calculation_id p = k then f p else p) (db_payloads db)\<rparr>"
  by (simp add: update_payload_def tbl_upd_def)

lemma lease_payload_rows_readable:
  "distinct (List.map lp_calculation_id rows) \<Longrightarrow> \<forall>q \<in> set rows. load_payload_details (lp_details_json q) \<noteq> None \<Longrightarrow>
   snd (lease_payload_rows w now x rows db) = db\<lparr>db_payloads := List.map
     (\<lambda>p. if lp_calculation_id p \<in> lp_calculation_id ` set rows then leased_payload w now x p else p) (db_payloads db)\<rparr>"
proof (induction rows arbitrary: db)
  case (Cons r rows)
  let ?db1 = "update_payload (lp_calculation_id r) (leased_payload w now x) db"
  obtain d where d: "load_payload_details (lp_details_json r) = Some d" using Cons.prems(2) by auto
  have "snd (lease_payload_rows w now x (r # rows) db) = snd (lease_payload_rows w now x rows ?db1)"
    by (simp add: d case_prod_beta)
  also have "\<dots> = ?db1\<lparr>db_payloads := List.map
     (\<lambda>p. if lp_calculation_id p \<in> lp_calculation_id ` set rows then leased_payload w now x p else p) (db_payloads ?db1)\<rparr>"
    by (rule Cons.IH) (use Cons.prems in auto)
  also have "\<dots> = db\<lparr>db_payloads := List.map
     (\<lambda>p. if lp_calculation_id p \<in> lp_calculation_id ` set (r # rows) then leased_payload w now x p else p) (db_payloads db)\<rparr>"
    using Cons.prems(1) by (auto simp: update_payload_map)
  finally show ?case .
qed simp

lemma map_filter_leased:
  "List.map_filter (\<lambda>q. map_option (to_payload q) (load_payload_details (lp_details_json q))) (List.map (leased_payload w now x) ps)
   = List.map_filter (handed_out w now x) ps"
  by (induction ps) (auto simp: List.map_filter_simps handed_out_def split: option.splits)

lemma mset_map_filter: "mset xs = mset ys \<Longrightarrow> mset (List.map_filter g xs) = mset (List.map_filter g ys)"
  by (simp add: List.map_filter_def)

lemma claimed_rows:
  "filter (\<lambda>p. lp_calculation_id p \<in> K) (List.map (\<lambda>p. if lp_calculation_id p \<in> K then leased_payload w now x p else p) ps)
   = List.map (leased_payload w now x) (filter (\<lambda>p. lp_calculation_id p \<in> K) ps)"
  by (induction ps) auto

lemma payloads_from_rows_readable:
  "\<forall>q \<in> set rows. load_payload_details (lp_details_json q) \<noteq> None \<Longrightarrow> snd (payloads_from_rows now rows db) = db"
  by (induction rows arbitrary: db) (auto simp: case_prod_beta)

text \<open>C36: The two implementations of a lease call agree: when no row is locked and the
  details of the payloads to lease can be read, SQLite's row-by-row lease and PostgreSQL's single
  \<open>UPDATE \<dots> RETURNING\<close> leave the same database and hand out the same payloads.\<close>

theorem lease_paths_agree:
  assumes "lineage_ok db"
    "\<forall>q \<in> set (lease_pending_payloads_statement now limit (\<lambda>_. False) db). load_payload_details (lp_details_json q) \<noteq> None"
  shows "snd (lease_payload_rows w now x (lease_pending_payloads_statement now limit (\<lambda>_. False) db) db)
         = snd (lease_pending_payloads_postgresql w limit now x (\<lambda>_. False) db)
     \<and> mset (fst (lease_payload_rows w now x (lease_pending_payloads_statement now limit (\<lambda>_. False) db) db))
         = mset (fst (lease_pending_payloads_postgresql w limit now x (\<lambda>_. False) db))"
proof (rule conjI)
  define rows where "rows = lease_pending_payloads_statement now limit (\<lambda>_. False) db"
  define c where "c = List.map lp_calculation_id rows"
  define f where "f = (\<lambda>p. if lp_calculation_id p \<in> set c then leased_payload w now x p else p)"
  define mine where "mine = filter (\<lambda>p. lp_calculation_id p \<in> set c) (db_payloads db)"
  have rows: "distinct (List.map lp_calculation_id rows)" "set rows \<subseteq> set (db_payloads db)"
    "\<forall>q \<in> set rows. load_payload_details (lp_details_json q) \<noteq> None"
    using statement_distinct [OF assms(1)] payload_statement_rows assms(2) by (auto simp: rows_def)
  have "distinct (List.map lp_calculation_id mine)"
    using assms(1) by (simp add: mine_def lineage_ok_def tbl_ok_def distinct_map_filterI)
  moreover have "set mine = set rows"
  proof
    show "set mine \<subseteq> set rows"
    proof
      fix p assume "p \<in> set mine"
      then obtain q where "p \<in> set (db_payloads db)" "q \<in> set rows" "lp_calculation_id q = lp_calculation_id p"
        by (auto simp: mine_def c_def)
      then show "p \<in> set rows" using rows(2) payload_row_of [OF assms(1)] by (metis option.inject subsetD)
    qed
    show "set rows \<subseteq> set mine" using rows(2) by (auto simp: mine_def c_def)
  qed
  ultimately have same: "mset mine = mset rows" using rows(1) by (metis distinct_map set_eq_iff_mset_eq_distinct)
  have claimed: "filter (\<lambda>p. lp_calculation_id p \<in> set c) (List.map f (db_payloads db)) = List.map (leased_payload w now x) mine"
    unfolding mine_def f_def by (rule claimed_rows)
  have pg: "lease_pending_payloads_postgresql w limit now x (\<lambda>_. False) db
      = payloads_from_rows now (List.map (leased_payload w now x) mine) (db\<lparr>db_payloads := List.map f (db_payloads db)\<rparr>)"
    by (simp add: lease_pending_payloads_postgresql_def claim_payloads_def tbl_update_where_def Let_def
        rows_def [symmetric] c_def [symmetric] f_def [symmetric] claimed [symmetric])
  have readable: "\<forall>q \<in> set (List.map (leased_payload w now x) mine). load_payload_details (lp_details_json q) \<noteq> None"
    using rows(3) \<open>set mine = set rows\<close> by auto
  show "snd (lease_payload_rows w now x (lease_pending_payloads_statement now limit (\<lambda>_. False) db) db)
      = snd (lease_pending_payloads_postgresql w limit now x (\<lambda>_. False) db)"
    unfolding pg payloads_from_rows_readable [OF readable] rows_def [symmetric] lease_payload_rows_readable [OF rows(1,3)]
    by (simp add: f_def c_def)
  show "mset (fst (lease_payload_rows w now x (lease_pending_payloads_statement now limit (\<lambda>_. False) db) db))
      = mset (fst (lease_pending_payloads_postgresql w limit now x (\<lambda>_. False) db))"
    unfolding pg rows_def [symmetric] lease_payload_rows_fst payloads_from_rows_fst map_filter_leased
    by (rule mset_map_filter [OF same [symmetric]])
qed

end
