(* ===== verification/Lineage_Stranded.thy ===== *)
theory Lineage_Stranded
  imports Lineage_Leases
begin

text \<open>
  Reconciliation of stranded sources: the batch a pass selects, the candidates it can lock, and
  the records it fails.
\<close>

definition stranded_batch :: "nat \<Rightarrow> database \<Rightarrow> lineage_row list" where
  "stranded_batch limit db =
     take limit (sort_key (\<lambda>r. (lr_timestamp_utc r, lr_calculation_id r)) (filter (stranded_source db) (db_lineage db)))"

definition owners_free :: "(source_identity \<Rightarrow> owner_locks) \<Rightarrow> database \<Rightarrow> lineage_row \<Rightarrow> bool" where
  "owners_free locks db r \<longleftrightarrow> (let held = locks (stranded_source_identity r); k = lr_calculation_id r in
     db_dialect_name db = ''postgresql'' \<longrightarrow>
       \<not> lk_execution held k \<and> (get_job k db = None \<or> \<not> lk_job held k) \<and> \<not> lk_lineage held k)"

text \<open>Only the lineage table changes, and no key of it.\<close>

definition failed_rows :: "(source_identity \<Rightarrow> instant) \<Rightarrow> uuid set \<Rightarrow> database \<Rightarrow> database" where
  "failed_rows clk K db = db\<lparr>db_lineage := List.map
     (\<lambda>r. if lr_calculation_id r \<in> K then stranded_record (clk (stranded_source_identity r)) r else r) (db_lineage db)\<rparr>"

lemma stranded_record_key [simp]: "lr_calculation_id (stranded_record now r) = lr_calculation_id r"
  by (simp add: stranded_record_def)

lemma failed_rows_other [simp]:
  "db_payloads (failed_rows clk K db) = db_payloads db" "db_executions (failed_rows clk K db) = db_executions db"
  "db_jobs (failed_rows clk K db) = db_jobs db" "db_dialect_name (failed_rows clk K db) = db_dialect_name db"
  by (simp_all add: failed_rows_def)

lemma failed_rows_stranded [simp]: "stranded_source (failed_rows clk K db) r = stranded_source db r"
  by (simp add: stranded_source_def stranded_source_state_def)

lemma failed_rows_free [simp]: "owners_free locks (failed_rows clk K db) r = owners_free locks db r"
  by (simp add: owners_free_def get_job_def)

lemma failed_rows_keys: "List.map lr_calculation_id (db_lineage (failed_rows clk K db)) = List.map lr_calculation_id (db_lineage db)"
  by (simp add: failed_rows_def comp_def)

lemma failed_rows_empty [simp]: "failed_rows clk {} db = db"
  by (simp add: failed_rows_def)

lemma failed_rows_insert: "k \<notin> K \<Longrightarrow> failed_rows clk K (failed_rows clk {k} db) = failed_rows clk (insert k K) db"
  by (simp add: failed_rows_def comp_def)

lemma failed_rows_mem: "r \<in> set (db_lineage db) \<Longrightarrow> lr_calculation_id r \<notin> K \<Longrightarrow> r \<in> set (db_lineage (failed_rows clk K db))"
  by (force simp: failed_rows_def)

lemma stranded_owned:
  assumes "stranded_source db r" "r \<in> set (db_lineage db)"
  shows "lock_stranded_source_owners (locks (stranded_source_identity r)) (lr_calculation_id r) db \<longleftrightarrow> owners_free locks db r"
proof -
  have "get_execution_row (lr_calculation_id r) db \<noteq> None"
    using assms(1) unfolding stranded_source_def get_execution_row_def tbl_get_None not_not by (metis imageI)
  moreover have "get_lineage (lr_calculation_id r) db \<noteq> None"
    using assms(2) unfolding get_lineage_def tbl_get_None not_not by (rule imageI)
  ultimately show ?thesis unfolding lock_stranded_source_owners_def owners_free_def Let_def by blast
qed

lemma key_once: "distinct (List.map key t) \<Longrightarrow> r \<in> set t \<Longrightarrow> filter (\<lambda>q. key q = key r) t = [r]"
  by (induction t) (auto simp: filter_empty_conv image_iff)

lemma key_same: "distinct (List.map key t) \<Longrightarrow> r \<in> set t \<Longrightarrow> q \<in> set t \<Longrightarrow> key q = key r \<Longrightarrow> q = r"
  by (meson distinct_map inj_onD)

lemma terminalize_stranded:
  assumes "distinct (List.map lr_calculation_id (db_lineage db))" "r \<in> set (db_lineage db)" "stranded_source db r"
  shows "terminalize_stranded_source (stranded_source_identity r) (clk (stranded_source_identity r)) db
    = (1, failed_rows clk {lr_calculation_id r} db)"
proof -
  have only: "stranded_source_identity q = stranded_source_identity r \<and> stranded_source db q \<longleftrightarrow> lr_calculation_id q = lr_calculation_id r"
    if "q \<in> set (db_lineage db)" for q
    using key_same [OF assms(1,2) that] assms(3) unfolding stranded_source_identity_def by auto
  have same: "stranded_source_identity q = stranded_source_identity r"
    if "q \<in> set (db_lineage db)" "lr_calculation_id q = lr_calculation_id r" for q
    using key_same [OF assms(1,2) that] by simp
  have n: "length (filter (\<lambda>q. stranded_source_identity q = stranded_source_identity r \<and> stranded_source db q) (db_lineage db)) = 1"
    using key_once [OF assms(1,2)] by (simp add: only cong: filter_cong)
  show ?thesis unfolding terminalize_stranded_source_def tbl_update_where_def failed_rows_def prod.case n
    using only same by (auto intro!: map_cong)
qed

text \<open>The pass over a batch, in whatever order it lists the rows.\<close>

lemma reconcile_batch:
  assumes "distinct (List.map lr_calculation_id (db_lineage db))" "distinct (List.map lr_calculation_id rows)"
    "set rows \<subseteq> set (db_lineage db)" "\<forall>r \<in> set rows. stranded_source db r"
  shows "reconcile_candidates locks clk (\<lambda>c d. d) (List.map stranded_source_identity rows) db
    = (length (filter (owners_free locks db) rows), failed_rows clk (lr_calculation_id ` set (filter (owners_free locks db) rows)) db)"
  using assms
proof (induction rows arbitrary: db)
  case (Cons r rows)
  let ?db1 = "if owners_free locks db r then failed_rows clk {lr_calculation_id r} db else db"
  have r: "r \<in> set (db_lineage db)" "stranded_source db r" using Cons.prems by auto
  have lock: "lock_stranded_source_owners (locks (stranded_source_identity r)) (fst (stranded_source_identity r)) db \<longleftrightarrow> owners_free locks db r"
    using stranded_owned [OF r(2,1)] by (simp add: stranded_source_identity_def)
  have head: "reconcile_stranded_candidate (locks (stranded_source_identity r)) (clk (stranded_source_identity r)) (stranded_source_identity r) db
      = (if owners_free locks db r then 1 else 0, ?db1)"
    using terminalize_stranded [OF Cons.prems(1) r] by (simp add: reconcile_stranded_candidate_def lock)
  have other: "lr_calculation_id x \<noteq> lr_calculation_id r" if "x \<in> set rows" for x
    using Cons.prems(2) imageI [OF that, of lr_calculation_id] unfolding list.map distinct.simps set_map by metis
  have rest: "reconcile_candidates locks clk (\<lambda>c d. d) (List.map stranded_source_identity rows) ?db1
      = (length (filter (owners_free locks ?db1) rows), failed_rows clk (lr_calculation_id ` set (filter (owners_free locks ?db1) rows)) ?db1)"
    using Cons.prems other by (intro Cons.IH) (auto simp: failed_rows_keys intro!: failed_rows_mem)
  have free: "owners_free locks ?db1 = owners_free locks db" by (auto simp: fun_eq_iff)
  have new: "lr_calculation_id r \<notin> lr_calculation_id ` set (filter (owners_free locks db) rows)" using Cons.prems(2) by auto
  show ?case
    by (simp add: head rest [unfolded free] failed_rows_insert [OF new] del: set_filter)
qed simp

lemma stranded_batch_facts:
  assumes "distinct (List.map lr_calculation_id (db_lineage db))"
  shows "distinct (List.map lr_calculation_id (stranded_batch limit db))"
    "set (stranded_batch limit db) \<subseteq> {r \<in> set (db_lineage db). stranded_source db r}"
proof -
  let ?sorted = "sort_key (\<lambda>r. (lr_timestamp_utc r, lr_calculation_id r)) (filter (stranded_source db) (db_lineage db))"
  have "distinct (List.map lr_calculation_id ?sorted)"
    using assms by (auto simp: distinct_map intro: inj_on_subset)
  then show "distinct (List.map lr_calculation_id (stranded_batch limit db))"
    unfolding stranded_batch_def take_map [symmetric] by (rule distinct_take)
  show "set (stranded_batch limit db) \<subseteq> {r \<in> set (db_lineage db). stranded_source db r}"
    unfolding stranded_batch_def using set_take_subset [of limit ?sorted] by auto
qed

text \<open>A reconciliation pass fails exactly the stranded sources of its batch (the
  oldest \<open>limit\<close> of them) whose rows no other transaction holds, reports their number, and leaves
  every other record and every other table as it was.\<close>

theorem stranded_reconciled:
  assumes "lineage_ok db" "limit \<ge> 1"
  shows "reconcile_stranded_source_custody limit True locks clk (\<lambda>c d. d) db
      = Inr (length (filter (owners_free locks db) (stranded_batch limit db)), db\<lparr>db_lineage := List.map
        (\<lambda>r. if r \<in> set (stranded_batch limit db) \<and> owners_free locks db r
             then stranded_record (clk (stranded_source_identity r)) r else r) (db_lineage db)\<rparr>)"
proof -
  have keys: "distinct (List.map lr_calculation_id (db_lineage db))"
    using assms(1) by (simp add: lineage_ok_def tbl_ok_def)
  have candidates: "stranded_candidates limit True db = List.map stranded_source_identity (stranded_batch limit db)"
  proof (cases "list_ex (stranded_source_state db) (db_lineage db)")
    case False
    then have "filter (stranded_source db) (db_lineage db) = []"
      by (auto simp: list_ex_iff filter_empty_conv stranded_source_def)
    with False show ?thesis by (simp add: stranded_candidates_def stranded_batch_def)
  qed (simp add: stranded_candidates_def stranded_batch_def)
  let ?free = "filter (owners_free locks db) (stranded_batch limit db)"
  have batch: "set (stranded_batch limit db) \<subseteq> set (db_lineage db)" "\<forall>r \<in> set (stranded_batch limit db). stranded_source db r"
    using stranded_batch_facts(2) [OF keys] by auto
  have "lr_calculation_id r \<in> lr_calculation_id ` set ?free \<longleftrightarrow> r \<in> set (stranded_batch limit db) \<and> owners_free locks db r"
    if "r \<in> set (db_lineage db)" for r
    using key_same [OF keys that] batch(1) by fastforce
  then have "failed_rows clk (lr_calculation_id ` set ?free) db = db\<lparr>db_lineage := List.map
        (\<lambda>r. if r \<in> set (stranded_batch limit db) \<and> owners_free locks db r
             then stranded_record (clk (stranded_source_identity r)) r else r) (db_lineage db)\<rparr>"
    unfolding failed_rows_def by (auto intro!: map_cong)
  then show ?thesis
    using reconcile_batch [OF keys stranded_batch_facts(1) [OF keys] batch] assms(2)
    by (simp add: reconcile_stranded_source_custody_def candidates del: set_filter)
qed

end
