(* ===== verification/Lineage_Witnesses.thy ===== *)
theory Lineage_Witnesses
  imports Lineage_Outcomes Lineage_Stranded
begin

text \<open>The properties of lineage records, payload leases and retained sources on concrete databases.\<close>

section \<open>A queue of two payloads\<close>

definition lineage_events :: "lineage_event list" where
  "lineage_events = [LEnqueue ''k2'' ''TWR'' (Doc JNull) (Doc JNull) [(''a.csv'', ''1'')] 11,
     LEnqueue ''k1'' ''TWR'' (Doc JNull) (Doc JNull) [(''b.csv'', ''2'')] 10]"

definition lineage_db :: database where
  "lineage_db = run_ops lineage_step (empty_database ''postgresql'') lineage_events"

definition lineage_lease :: "lineage_payload list \<times> database" where
  "lineage_lease = lease_pending_payloads ''w1'' 1 60 (\<lambda>_. False) 20 lineage_db"

definition lineage_meanwhile :: "system_event list" where
  "lineage_meanwhile = [Lineage (LLease ''w2'' 5 60 (\<lambda>_. False) 25), Lineage (LDelete ''k1'' (Some ''w2'') 26),
     Queue (Reconcile (\<lambda>_. False) 27), Lineage (LLeaseOne ''k1'' ''w2'' 60 (\<lambda>_. False) 28)]"

lemma lineage_facts:
  "lineage_ok lineage_db" "hd (fst lineage_lease) \<in> set (fst lineage_lease)"
  "pl_calculation_id (hd (fst lineage_lease)) = ''k1''" "pl_attempt_count (hd (fst lineage_lease)) = 1"
  by code_simp+

theorem payload_lease_exclusive_witness:
  "\<exists>p. get_payload ''k1'' (run_ops system_step (snd lineage_lease) lineage_meanwhile) = Some p \<and> lp_worker_id p = Some ''w1''
       \<and> lp_attempt_count p = 1
     \<and> ''k1'' \<notin> pl_calculation_id ` set (fst (lease_pending_payloads ''w3'' 9 60 (\<lambda>_. False) 30 (run_ops system_step (snd lineage_lease) lineage_meanwhile)))
     \<and> fst (lease_pending_payload ''k1'' ''w3'' 60 (\<lambda>_. False) 30 (run_ops system_step (snd lineage_lease) lineage_meanwhile)) = None
     \<and> (ensure_active_payload_lease_owner ''k1'' (Some ''w3'') 30 (run_ops system_step (snd lineage_lease) lineage_meanwhile) = Inr () \<longleftrightarrow> ''w3'' = ''w1'')"
proof -
  have lease: "lease_pending_payloads ''w1'' 1 60 (\<lambda>_. False) 20 lineage_db = (fst lineage_lease, snd lineage_lease)"
    by (simp add: lineage_lease_def)
  have "list_all (\<lambda>e. case e of Lineage l \<Rightarrow> leaves_payload ''k1'' ''w1'' (20 + timedelta_seconds 60) l | _ \<Rightarrow> True) lineage_meanwhile"
    by code_simp
  then show ?thesis
    using payload_lease_exclusive [OF lineage_facts(1) lease lineage_facts(2), where es = lineage_meanwhile and t = 30
        and v = "''w3''" and limit' = 9 and secs' = 60 and locked' = "\<lambda>_. False"]
    unfolding lineage_facts(3,4) by (simp add: timedelta_seconds_def)
qed

theorem lease_paths_agree_witness:
  "snd (lease_payload_rows ''w1'' 20 80 (lease_pending_payloads_statement 20 2 (\<lambda>_. False) lineage_db) lineage_db)
     = snd (lease_pending_payloads_postgresql ''w1'' 2 20 80 (\<lambda>_. False) lineage_db)"
  by (rule lease_paths_agree [THEN conjunct1, OF lineage_facts(1)]) code_simp

definition lineage_finished :: "store_error + unit \<times> database" where
  "lineage_finished = mark_lineage_complete ''k1'' [''b.csv'', ''a.csv''] None (Some ''w1'') None None None None 30 30 (snd lineage_lease)"

theorem artifact_names_roundtrip_witness:
  "\<exists>rec. get_record ''k1'' (snd (projr lineage_finished)) = Some rec \<and> re_artifact_names rec = sort [''b.csv'', ''a.csv'']
     \<and> re_status rec = LComplete \<and> re_error_message rec = None
     \<and> (re_source_custody_state rec \<noteq> None \<longrightarrow> re_source_custody_state rec = Some CustodyComplete
          \<and> re_source_manifest_digest rec = None)"
proof (rule artifact_names_roundtrip)
  show "mark_lineage_complete ''k1'' [''b.csv'', ''a.csv''] None (Some ''w1'') None None None None 30 30 (snd lineage_lease)
      = Inr ((), snd (projr lineage_finished))" by code_simp
  show "list_all plain_name [''b.csv'', ''a.csv'']" by code_simp
qed

section \<open>A retained source\<close>

definition series_request :: execution_request where
  "series_request = \<lparr>rq_calculation_id = ''k1'', rq_tenant_id = ''acme'', rq_analytics_type = ''ReturnsSeries'',
     rq_portfolio_id = Some ''P1'', rq_execution_mode = ''async'', rq_requested_window = None,
     rq_input_fingerprint = None, rq_calculation_hash = None, rq_request_payload = None,
     rq_submission_idempotency_key_hash = None, rq_submission_identity_fingerprint = None,
     rq_submission_contract_version = None\<rparr>"

definition series_digest :: string where "series_digest = replicate 64 (CHR ''a'')"

definition series_claim :: source_custody_claim where
  "series_claim = \<lparr>cl_calculation_id = ''k1'', cl_tenant_id = ''acme'', cl_attempt_id = ''cj:1'', cl_attempt_number = 1\<rparr>"

definition series_events :: "system_event list" where
  "series_events = [Registry (XRegister series_request 1),
     Queue (Register ''k1'' ''ReturnsSeries'' ''acme'' [(''a'', JInt 1)] None 3 10),
     Queue (Lease ''w1'' 1 60 None (\<lambda>_. False) 20), Queue (Acquire ''k1'' ''w1'' ''cj:1'' 60 30),
     Custody (Select series_claim None None None 31), Custody (Select series_claim (Some series_digest) None None 32)]"

definition series_frozen :: database where
  "series_frozen = run_ops system_step (empty_database ''sqlite'') series_events"

definition series_queued :: database where
  "series_queued = run_ops system_step series_frozen
     [Custody (Select series_claim (Some series_digest) None (Some \<lparr>mp_request_json = Doc JNull, mp_response_json = Doc JNull\<rparr>) 33),
      Lineage (LLease ''lw'' 1 60 (\<lambda>_. False) 34)]"

definition series_later :: "system_event list" where
  "series_later = [Custody (Select series_claim (Some (replicate 64 (CHR ''b''))) None None 40),
     Lineage (LFinish ''k1'' [''m''] None (Some ''lw'') (Some series_digest) (Some series_digest) (Some ''acme'') (Some 1) 41 41),
     Registry (XFail ''k1'' ''late'' None 42), Lineage (LCreate ''k1'' ''TWR'' 43)]"

theorem source_root_immutable_witness:
  "root_frozen ''k1'' series_digest (Some ''cj:1'') (Some 1) (run_ops system_step series_queued series_later)"
proof (rule source_root_immutable [THEN conjunct1, rule_format])
  show "list_all (keeps_calculation ''k1'') series_later" by code_simp
  have "get_lineage ''k1'' series_queued = Some (the (get_lineage ''k1'' series_queued))"
    "lr_source_root_digest (the (get_lineage ''k1'' series_queued)) = Some series_digest"
    "lr_source_attempt_id (the (get_lineage ''k1'' series_queued)) = Some ''cj:1''"
    "lr_source_attempt_number (the (get_lineage ''k1'' series_queued)) = Some 1" by code_simp+
  then show "root_frozen ''k1'' series_digest (Some ''cj:1'') (Some 1) series_queued" unfolding root_frozen_def by blast
qed

theorem custody_state_machine_witness: "custody_inv (run_ops system_step (empty_database ''sqlite'') series_events)"
  by (rule custody_state_machine [OF custody_inv_empty])

theorem source_retry_budget_witness:
  "\<exists>p. get_payload ''k1'' (snd (projr (retry_source_materialization ''k1'' (Some ''lw'') 1 3 50 50 series_queued))) = Some p
     \<and> lp_attempt_count p = 1 \<and> payload_lease_free 60 p"
proof (rule source_retry_budget [THEN conjunct1])
  show "lineage_ok series_queued" by code_simp
  show "retry_source_materialization ''k1'' (Some ''lw'') 1 3 50 50 series_queued
      = Inr ((), snd (projr (retry_source_materialization ''k1'' (Some ''lw'') 1 3 50 50 series_queued)))" by code_simp
qed

section \<open>A stranded source\<close>

text \<open>The job and its execution completed, but the frozen source was never queued.\<close>

definition series_stranded :: database where
  "series_stranded = run_ops system_step series_frozen
     [Queue (Finish ''k1'' [] (Some ''cj:1'') 40), Registry (XComplete ''k1'' 41)]"

definition no_locks :: owner_locks where
  "no_locks = \<lparr>lk_execution = (\<lambda>_. False), lk_job = (\<lambda>_. False), lk_lineage = (\<lambda>_. False)\<rparr>"

lemma series_stranded_batch: "List.map lr_calculation_id (stranded_batch 5 series_stranded) = [''k1'']"
  by code_simp

theorem stranded_reconciled_witness:
  "reconcile_stranded_source_custody 5 True (\<lambda>_. no_locks) (\<lambda>_. 90) (\<lambda>c d. d) series_stranded
      = Inr (1, series_stranded\<lparr>db_lineage := List.map
        (\<lambda>r. if r \<in> set (stranded_batch 5 series_stranded) then stranded_record 90 r else r) (db_lineage series_stranded)\<rparr>)"
proof -
  have "lineage_ok series_stranded" by code_simp
  moreover have free: "owners_free (\<lambda>_. no_locks) series_stranded r" for r by (simp add: owners_free_def no_locks_def)
  moreover have "length (stranded_batch 5 series_stranded) = 1" using arg_cong [OF series_stranded_batch, of length] by simp
  ultimately show ?thesis
    using stranded_reconciled [of series_stranded 5 "\<lambda>_. no_locks" "\<lambda>_. 90"] by simp
qed

end
