(* ===== verification/Boundary_Safety.thy ===== *)
theory Boundary_Safety
  imports Tenant_Authority
begin

text \<open>
  What crosses the service boundary: a stored failure classification can always be read back,
  discloses no server-side detail, and a tenant header is admitted in one canonical form.
\<close>

section \<open>Durable failures\<close>

text \<open>C38: Every failure the worker classifies can be stored and read back: status, code, message and
  retryability survive unchanged, and so does the whole classification when its remediation hint
  is in the trimmed form the reader enforces.\<close>

theorem failure_roundtrip:
  defines "c \<equiv> \<lambda>x r. classify_durable_failure x r"
  shows "\<exists>d. load_durable_failure (Some (to_json (c x r))) = Some d
     \<and> d\<lparr>dfc_remediation_hint := dfc_remediation_hint (c x r)\<rparr> = c x r
     \<and> (hint_clean (c x r) \<longrightarrow> d = c x r)"
  using load_to_json [OF classify_valid, of x r] by (auto simp: c_def hint_clean_def)

lemma take_generic: "bounded_text GENERIC_ASYNC_FAILURE_MESSAGE MAX_MESSAGE_LENGTH = GENERIC_ASYNC_FAILURE_MESSAGE"
  by code_simp

text \<open>
  The stored message never carries the detail of a server-side error: for a status of 500
  or more, for a status outside the replayable set and for any other exception it is the generic
  support message.\<close>

theorem server_detail_not_disclosed:
  "(dfc_message (classify_durable_failure OtherException r) = GENERIC_ASYNC_FAILURE_MESSAGE)
    \<and> (500 \<le> status_code e \<or> status_code e \<notin> set REPLAYABLE_STATUS_CODES \<longrightarrow>
     dfc_message (classify_durable_failure (APIError e) r) = GENERIC_ASYNC_FAILURE_MESSAGE)"
  by (simp_all add: generic_durable_failure_def safe_api_error_message_def take_generic)

theorem server_detail_not_disclosed_witness:
  "dfc_message (classify_durable_failure (APIError \<lparr>status_code = 502, detail = JStr ''core db password'',
     error_code = None, retryable = None, remediation_hint = None\<rparr>) None) = GENERIC_ASYNC_FAILURE_MESSAGE"
  by (rule server_detail_not_disclosed [THEN conjunct2, rule_format]) simp

definition long_hint_error :: api_error where
  "long_hint_error = \<lparr>status_code = 409, detail = JNull, error_code = None, retryable = None,
     remediation_hint = Some (replicate 511 (CHR ''x'') @ '' y'')\<rparr>"

theorem failure_roundtrip_witness:
  "\<exists>d. load_durable_failure (Some (to_json (classify_durable_failure (APIError long_hint_error) None))) = Some d
     \<and> d\<lparr>dfc_remediation_hint := dfc_remediation_hint (classify_durable_failure (APIError long_hint_error) None)\<rparr>
         = classify_durable_failure (APIError long_hint_error) None
     \<and> (hint_clean (classify_durable_failure (APIError long_hint_error) None) \<longrightarrow>
         d = classify_durable_failure (APIError long_hint_error) None)"
  by (rule failure_roundtrip)

text \<open>The writer cuts a hint at 512 characters after trimming it and the reader trims again, so
  a hint cut just after a blank comes back one character shorter than it was classified.\<close>

theorem truncated_hint_not_stable:
  "load_durable_failure (Some (to_json (classify_durable_failure (APIError long_hint_error) None)))
     \<noteq> Some (classify_durable_failure (APIError long_hint_error) None)"
  by code_simp

section \<open>Tenant admission\<close>

text \<open>
  A presented tenant is admitted exactly in its trimmed form: blank means absent, more than
  128 characters after trimming is refused with 400, and admission of an admitted tenant changes
  nothing; more than one header value is refused.\<close>

theorem tenant_admission:
  "(admitted_tenant_authority presented = Inr (Some a) \<longleftrightarrow>
     tenant_id a = strip presented \<and> strip presented \<noteq> [] \<and> length (strip presented) \<le> 128)
    \<and> (admitted_tenant_authority presented = Inr None \<longleftrightarrow> strip presented = [])
    \<and> (admitted_tenant_authority presented = Inr (Some a) \<longrightarrow> admitted_tenant_authority (tenant_id a) = Inr (Some a))
    \<and> (admitted_tenant_authority_from_header_values (v # w # vs)
     = Inl (Inl (MalformedTenantAuthorityError DUPLICATE_TENANT_AUTHORITY_DETAIL)))"
  by (auto simp: admitted_cases MAX_TENANT_ID_LENGTH_def admitted_tenant_authority_from_header_values_def)

theorem tenant_admission_witness: "admitted_tenant_authority (tenant_id \<lparr>tenant_id = ''acme''\<rparr>) = Inr (Some \<lparr>tenant_id = ''acme''\<rparr>)"
  by (rule tenant_admission [THEN conjunct2, THEN conjunct2, THEN conjunct1, rule_format, of "'' acme ''"]) code_simp

end
