(* ===== verification/Decimal_Context.thy ===== *)
theory Decimal_Context
  imports Durable_Time
begin

text \<open>
  Python's \<open>decimal\<close> arithmetic as src/engine/composites.py uses it. A finite \<open>Decimal\<close> is kept
  up to its value, a rational number; an operation rounds the exact result half-even to the
  precision of its context. Exponent limits, signed zeros and the exponent a value is printed
  with are left out: no result near \<open>Emax\<close> is in the reach of a performance calculation.
\<close>

section \<open>Decimal digits\<close>

function ndigits :: "int \<Rightarrow> nat" where
  "ndigits n = (if n < 10 then 1 else Suc (ndigits (n div 10)))"
  by pat_completeness auto
termination by (relation "measure nat") auto

declare ndigits.simps [simp del]

lemma ndigits_pos: "0 < ndigits n"
  by (subst ndigits.simps) simp

lemma ndigits_upper: "n < 10 ^ ndigits n"
proof (induction n rule: ndigits.induct)
  case (1 n)
  show ?case
  proof (cases "n < 10")
    case False
    with 1 have "n div 10 < 10 ^ ndigits (n div 10)" by simp
    then have "n < 10 * 10 ^ ndigits (n div 10)" by linarith
    with False show ?thesis by (subst ndigits.simps) simp
  qed (subst ndigits.simps, simp)
qed

lemma ndigits_lower: "0 < n \<Longrightarrow> 10 ^ (ndigits n - 1) \<le> n"
proof (induction n rule: ndigits.induct)
  case (1 n)
  show ?case
  proof (cases "n < 10")
    case True
    then show ?thesis using 1(2) by (subst ndigits.simps) simp
  next
    case False
    with 1 have "10 ^ (ndigits (n div 10) - 1) \<le> n div 10" by simp
    then have "10 ^ (ndigits (n div 10) - 1) * 10 \<le> n" by linarith
    moreover have "(10::int) ^ (ndigits (n div 10) - 1) * 10 = 10 ^ ndigits (n div 10)"
      using ndigits_pos [of "n div 10"] by (metis One_nat_def Suc_pred mult.commute power_Suc)
    ultimately show ?thesis using False by (subst ndigits.simps) simp
  qed
qed

text \<open>\<open>value.adjusted()\<close>: the exponent of the most significant digit.\<close>

definition exponent_below :: "rat \<Rightarrow> int \<Rightarrow> int" where
  "exponent_below v a = (if 10 powi a \<le> v then a else a - 1)"

definition adjusted :: "rat \<Rightarrow> int" where
  "adjusted v = (case quotient_of \<bar>v\<bar> of (p, q) \<Rightarrow> exponent_below \<bar>v\<bar> (int (ndigits p) - int (ndigits q)))"

lemma powi_less_iff [simp]: "(10::rat) powi a < 10 powi b \<longleftrightarrow> a < b"
  by (metis linorder_neqE_linordered_idom one_less_numeral_iff order_less_asym' power_int_strict_increasing semiring_norm(76))

lemma powi_le_iff [simp]: "(10::rat) powi a \<le> 10 powi b \<longleftrightarrow> a \<le> b"
  by (meson linorder_not_less powi_less_iff)

lemma powi_pos [simp]: "0 < (10::rat) powi a" "0 \<le> (10::rat) powi a" "(10::rat) powi a \<noteq> 0"
  by auto

lemma powi_add: "(10::rat) powi (a + b) = 10 powi a * 10 powi b"
  by (simp add: power_int_add)

lemma powi_diff: "(10::rat) powi (a - b) = 10 powi a / 10 powi b"
  by (simp add: power_int_diff)

lemma powi_ratio_less: "0 < x \<Longrightarrow> x < 10 powi i \<Longrightarrow> 10 powi j \<le> y \<Longrightarrow> x / y < (10::rat) powi (i - j)"
  unfolding powi_diff by (rule frac_less) auto

lemma powi_ratio_ge: "10 powi i \<le> x \<Longrightarrow> 0 < y \<Longrightarrow> y < 10 powi j \<Longrightarrow> (10::rat) powi (i - j) \<le> x / y"
  unfolding powi_diff by (rule frac_le) (auto intro: order_trans [OF powi_pos(2)])

lemma ndigits_upper_rat: "(of_int n :: rat) < 10 powi int (ndigits n)"
proof -
  have "(of_int n :: rat) < of_int (10 ^ ndigits n)" using ndigits_upper by (rule of_int_less_iff [THEN iffD2])
  then show ?thesis by simp
qed

lemma ndigits_lower_rat:
  assumes "0 < n"
  shows "10 powi (int (ndigits n) - 1) \<le> (of_int n :: rat)"
proof -
  have "int (ndigits n) - 1 = int (ndigits n - 1)" using ndigits_pos [of n] by simp
  moreover have "(of_int (10 ^ (ndigits n - 1)) :: rat) \<le> of_int n"
    using ndigits_lower [OF assms] by (rule of_int_le_iff [THEN iffD2])
  ultimately show ?thesis by (simp del: of_nat_diff)
qed

lemma adjusted_bounds:
  assumes "v \<noteq> 0"
  shows "10 powi adjusted v \<le> \<bar>v\<bar>" "\<bar>v\<bar> < 10 powi (adjusted v + 1)"
proof -
  obtain p q where pq: "quotient_of \<bar>v\<bar> = (p, q)" by force
  have q: "0 < q" and v: "\<bar>v\<bar> = of_int p / of_int q"
    using quotient_of_denom_pos [OF pq] quotient_of_div [OF pq] by auto
  have "0 < \<bar>v\<bar>" using assms by simp
  then have p: "0 < p" using q by (simp add: v zero_less_divide_iff)
  define a where "a = int (ndigits p) - int (ndigits q)"
  have up: "(of_int p :: rat) < 10 powi int (ndigits p)" and uq: "(of_int q :: rat) < 10 powi int (ndigits q)"
    by (rule ndigits_upper_rat)+
  have lp: "10 powi (int (ndigits p) - 1) \<le> (of_int p :: rat)" and lq: "10 powi (int (ndigits q) - 1) \<le> (of_int q :: rat)"
    by (rule ndigits_lower_rat; use p q in simp)+
  have less: "\<bar>v\<bar> < 10 powi (a + 1)"
  proof -
    have eq: "a + 1 = int (ndigits p) - (int (ndigits q) - 1)" by (simp add: a_def)
    show ?thesis unfolding v eq by (rule powi_ratio_less [OF _ up lq]) (use p in simp)
  qed
  have more: "10 powi (a - 1) \<le> \<bar>v\<bar>"
  proof -
    have eq: "a - 1 = (int (ndigits p) - 1) - int (ndigits q)" by (simp add: a_def)
    show ?thesis unfolding v eq by (rule powi_ratio_ge [OF lp _ uq]) (use q in simp)
  qed
  have adj: "adjusted v = (if 10 powi a \<le> \<bar>v\<bar> then a else a - 1)"
    by (simp add: adjusted_def exponent_below_def pq a_def)
  show "10 powi adjusted v \<le> \<bar>v\<bar>" "\<bar>v\<bar> < 10 powi (adjusted v + 1)"
    using less more by (auto simp: adj)
qed

section \<open>Rounding to a precision and to a quantum\<close>

definition quantize :: "rat \<Rightarrow> rat \<Rightarrow> rat" where
  "quantize value quantum = of_int (round_half_even (value / quantum)) * quantum"

definition ctx_round :: "nat \<Rightarrow> rat \<Rightarrow> rat" where
  "ctx_round prec v = (if v = 0 then 0 else quantize v (10 powi (adjusted v - int prec + 1)))"

definition dec_add :: "nat \<Rightarrow> rat \<Rightarrow> rat \<Rightarrow> rat" where "dec_add prec a b = ctx_round prec (a + b)"
definition dec_sub :: "nat \<Rightarrow> rat \<Rightarrow> rat \<Rightarrow> rat" where "dec_sub prec a b = ctx_round prec (a - b)"
definition dec_mul :: "nat \<Rightarrow> rat \<Rightarrow> rat \<Rightarrow> rat" where "dec_mul prec a b = ctx_round prec (a * b)"
definition dec_div :: "nat \<Rightarrow> rat \<Rightarrow> rat \<Rightarrow> rat" where "dec_div prec a b = ctx_round prec (a / b)"

text \<open>\<open>value ** 2\<close>: CPython squares in a work context of three more digits and rounds again.\<close>

definition dec_square :: "nat \<Rightarrow> rat \<Rightarrow> rat" where
  "dec_square prec a = ctx_round prec (ctx_round (prec + 3) (a * a))"

text \<open>\<open>sum(values, Decimal("0"))\<close>.\<close>

definition dec_sum :: "nat \<Rightarrow> rat list \<Rightarrow> rat" where
  "dec_sum prec values = foldl (dec_add prec) 0 values"

definition root_digit :: "int \<Rightarrow> int \<Rightarrow> int" where
  "root_digit n r = (if (r + 1) * (r + 1) \<le> n then r + 1 else r)"

function isqrt :: "int \<Rightarrow> int" where
  "isqrt n = (if n \<le> 0 then 0 else root_digit n (2 * isqrt (n div 4)))"
  by pat_completeness auto
termination by (relation "measure nat") auto

declare isqrt.simps [simp del]

text \<open>\<open>value.sqrt()\<close>, the correctly rounded root of a non-negative value.\<close>

definition nearest_root :: "rat \<Rightarrow> int \<Rightarrow> int" where
  "nearest_root m s = (if m < (of_int s + 1 / 2) * (of_int s + 1 / 2) then s
     else if (of_int s + 1 / 2) * (of_int s + 1 / 2) < m then s + 1 else if even s then s else s + 1)"

definition root_in_units :: "rat \<Rightarrow> rat \<Rightarrow> rat" where
  "root_in_units v ulp = of_int (nearest_root (v / (ulp * ulp)) (isqrt \<lfloor>v / (ulp * ulp)\<rfloor>)) * ulp"

definition dec_sqrt :: "nat \<Rightarrow> rat \<Rightarrow> rat" where
  "dec_sqrt prec v = (if v \<le> 0 then 0 else root_in_units v (10 powi (adjusted v div 2 - int prec + 1)))"

section \<open>Accuracy\<close>

lemma ctx_round_0 [simp]: "ctx_round prec 0 = 0" by (simp add: ctx_round_def)

lemma scaled_error:
  assumes "0 < (u::rat)"
  shows "\<bar>of_int (round_half_even (v / u)) * u - v\<bar> \<le> u / 2"
proof -
  have "of_int (round_half_even (v / u)) * u - v = (of_int (round_half_even (v / u)) - v / u) * u"
    using assms by (simp add: algebra_simps)
  then have "\<bar>of_int (round_half_even (v / u)) * u - v\<bar> = \<bar>of_int (round_half_even (v / u)) - v / u\<bar> * u"
    using assms by (simp add: abs_mult)
  also have "\<dots> \<le> 1 / 2 * u"
    using round_half_even_error [of "v / u"] assms by (intro mult_right_mono) auto
  finally show ?thesis by simp
qed

lemma quantize_error: "0 < q \<Longrightarrow> \<bar>quantize v q - v\<bar> \<le> q / 2"
  unfolding quantize_def by (rule scaled_error)

lemma ctx_round_ulp:
  assumes "v \<noteq> 0" "u = adjusted v - int prec + 1"
  shows "ctx_round prec v = of_int (round_half_even (v / 10 powi u)) * 10 powi u"
  using assms(1) unfolding ctx_round_def quantize_def assms(2) by (rule if_not_P)

lemma ctx_round_error:
  assumes "\<bar>v\<bar> < 10 powi e"
  shows "\<bar>ctx_round prec v - v\<bar> \<le> 10 powi (e - int prec) / 2"
proof (cases "v = 0")
  case False
  define u where "u = adjusted v - int prec + 1"
  have "10 powi adjusted v < (10::rat) powi e" by (rule le_less_trans [OF adjusted_bounds(1) [OF False] assms])
  then have "u \<le> e - int prec" by (simp add: u_def)
  then have "(10::rat) powi u \<le> 10 powi (e - int prec)" by (simp only: powi_le_iff)
  moreover have "\<bar>ctx_round prec v - v\<bar> \<le> 10 powi u / 2"
    unfolding ctx_round_ulp [OF False u_def] by (rule scaled_error) simp
  ultimately show ?thesis by linarith
qed simp

lemma ctx_round_exact:
  assumes "v = of_int k * 10 powi i" "\<bar>v\<bar> < 10 powi (i + int prec)"
  shows "ctx_round prec v = v"
proof (cases "v = 0")
  case False
  define u where "u = adjusted v - int prec + 1"
  have "10 powi adjusted v < (10::rat) powi (i + int prec)" by (rule le_less_trans [OF adjusted_bounds(1) [OF False] assms(2)])
  then have "u \<le> i" by (simp add: u_def)
  then obtain n where n: "i = u + int n" by (metis zle_iff_zadd)
  have "v / 10 powi u = of_int (k * 10 ^ n)" unfolding assms(1) n powi_add by simp
  then have "round_half_even (v / 10 powi u) = k * 10 ^ n" by (metis round_half_even_int)
  moreover have "of_int (k * 10 ^ n) * 10 powi u = v" unfolding assms(1) n powi_add by simp
  ultimately show ?thesis unfolding ctx_round_ulp [OF False u_def] by simp
qed simp

lemma isqrt_spec: "0 \<le> n \<Longrightarrow> isqrt n * isqrt n \<le> n \<and> n < (isqrt n + 1) * (isqrt n + 1) \<and> 0 \<le> isqrt n"
proof (induction n rule: isqrt.induct)
  case (1 n)
  show ?case
  proof (cases "n = 0")
    case False
    define s where "s = isqrt (n div 4)"
    have s: "s * s \<le> n div 4" "n div 4 < (s + 1) * (s + 1)" "0 \<le> s"
      using 1 False by (simp_all add: s_def)
    have "4 * (s * s) \<le> n" "n < 4 * ((s + 1) * (s + 1))" using s(1,2) by linarith+
    then have "2 * s * (2 * s) \<le> n" "n < (2 * s + 1 + 1) * (2 * s + 1 + 1)" by (simp_all add: algebra_simps)
    with s(3) 1(2) False show ?thesis
      by (subst (1 2 3 4 5) isqrt.simps) (auto simp: root_digit_def s_def [symmetric])
  qed (simp add: isqrt.simps)
qed

end
