(* ===== verification/Composite_Engine.thy ===== *)
theory Composite_Engine
  imports Decimal_Context "HOL-Library.Product_Lexorder"
begin

text \<open>
  The asset-weighted composite return (src/engine/composites.py): persisted member facts are
  grouped by period, each period is either calculated or blocked by the first policy that
  refuses it, and calculated periods are linked geometrically. \<open>prec\<close> is the precision of the
  ambient decimal context, which the service's configuration sets. The \<open>observer\<close> callback,
  which only records the arithmetic, is left out.
\<close>

section \<open>Facts and results\<close>

definition COMPOSITE_MEMBER_READY_STATUS :: string where "COMPOSITE_MEMBER_READY_STATUS = ''READY''"
definition COMPOSITE_RETURN_QUANTUM :: rat where "COMPOSITE_RETURN_QUANTUM = 1 / 1000000000000"
definition COMPOSITE_ASSET_QUANTUM :: rat where "COMPOSITE_ASSET_QUANTUM = 1 / 1000000"

record composite_member_return_fact =
  mf_composite_id :: string
  mf_portfolio_id :: string
  mf_period_start :: date
  mf_period_end :: date
  mf_return_value :: rat
  mf_return_view :: string
  mf_beginning_market_value :: rat
  mf_ending_market_value :: "rat option"
  mf_reporting_currency :: string
  mf_calculation_id :: "string option"
  mf_source_snapshot_id :: string
  mf_source_fingerprint :: string
  mf_restatement_version :: string
  mf_restatement_sequence :: int
  mf_status :: string
  mf_reason_codes :: "string list"
  mf_source_authority_identity :: "string option"

record composite_member_contribution =
  mc_portfolio_id :: string
  mc_period_start :: date
  mc_period_end :: date
  mc_return_value :: rat
  mc_beginning_market_value :: rat
  mc_weight :: rat
  mc_contribution :: rat
  mc_source_snapshot_id :: string
  mc_source_fingerprint :: string
  mc_restatement_version :: string
  mc_restatement_sequence :: int
  mc_calculation_id :: "string option"
  mc_source_authority_identity :: "string option"

record composite_period_result =
  pr_period_start :: date
  pr_period_end :: date
  pr_status :: string
  pr_return_value :: "rat option"
  pr_cumulative_return :: "rat option"
  pr_beginning_market_value :: rat
  pr_ending_market_value :: rat
  pr_member_count :: nat
  pr_excluded_member_count :: nat
  pr_dispersion_equal_weight :: "rat option"
  pr_return_view :: "string option"
  pr_reporting_currency :: "string option"
  pr_source_fingerprints :: "string list"
  pr_restatement_versions :: "string list"
  pr_reason_codes :: "string list"
  pr_member_contributions :: "composite_member_contribution list"
  pr_restatement_sequence :: "int option"

record composite_calculation_result =
  cr_composite_id :: string
  cr_status :: string
  cr_period_results :: "composite_period_result list"
  cr_cumulative_return :: "rat option"
  cr_reason_codes :: "string list"

record period_fact_metadata =
  md_reason_codes :: "string list"
  md_beginning_assets :: rat
  md_ending_assets :: rat
  md_ready_return_views :: "string list"
  md_ready_reporting_currencies :: "string list"
  md_ready_source_fingerprints :: "string list"
  md_ready_restatement_versions :: "string list"

record composite_period_fact_set =
  fs_period_start :: date
  fs_period_end :: date
  fs_ready_facts :: "composite_member_return_fact list"
  fs_excluded_facts :: "composite_member_return_fact list"
  fs_reason_codes :: "string list"
  fs_beginning_assets :: rat
  fs_ending_assets :: rat
  fs_ready_return_views :: "string list"
  fs_ready_reporting_currencies :: "string list"
  fs_ready_source_fingerprints :: "string list"
  fs_ready_restatement_versions :: "string list"

record composite_period_calculation =
  pc_period_result :: composite_period_result
  pc_cumulative_growth :: rat
  pc_aggregate_reason_codes :: "string list"

section \<open>Numbers\<close>

text \<open>The context precision it chooses leaves room for every digit of the quantum.\<close>

definition quantize_decimal :: "rat \<Rightarrow> rat \<Rightarrow> rat" where
  "quantize_decimal value quantum = (if value = 0 then 0 else quantize value quantum)"

definition squared_deviation :: "nat \<Rightarrow> rat \<Rightarrow> rat \<Rightarrow> rat" where
  "squared_deviation prec mean value = dec_square prec (dec_sub prec value mean)"

definition sample_variance :: "nat \<Rightarrow> rat list \<Rightarrow> rat \<Rightarrow> rat" where
  "sample_variance prec values mean =
     dec_div prec (dec_sum prec (List.map (squared_deviation prec mean) values)) (of_nat (length values - 1))"

definition sample_standard_deviation :: "nat \<Rightarrow> rat list \<Rightarrow> rat option" where
  "sample_standard_deviation prec values =
     (if length values < 2 then None
      else Some (quantize_decimal (dec_sqrt prec
             (sample_variance prec values (dec_div prec (dec_sum prec values) (of_nat (length values)))))
           COMPOSITE_RETURN_QUANTUM))"

section \<open>Blocked periods\<close>

text \<open>\<open>sorted({...})\<close>.\<close>

definition sorted_unique :: "string list \<Rightarrow> string list" where
  "sorted_unique xs = sort (remdups xs)"

definition selected_restatement_sequence ::
    "composite_member_return_fact list \<Rightarrow> composite_member_return_fact list \<Rightarrow> int option" where
  "selected_restatement_sequence ready_facts excluded_facts =
     (case remdups (List.map mf_restatement_sequence (ready_facts @ excluded_facts)) of [s] \<Rightarrow> Some s | _ \<Rightarrow> None)"

definition blocked_composite_period_result ::
    "composite_period_fact_set \<Rightarrow> rat \<Rightarrow> rat \<Rightarrow> string list \<Rightarrow> string option \<Rightarrow> string option \<Rightarrow> string list
      \<Rightarrow> string list \<Rightarrow> composite_period_result" where
  "blocked_composite_period_result context beginning_assets ending_assets reason_codes return_view
       reporting_currency source_fingerprints restatement_versions =
     \<lparr>pr_period_start = fs_period_start context, pr_period_end = fs_period_end context, pr_status = ''BLOCKED'',
      pr_return_value = None, pr_cumulative_return = None,
      pr_beginning_market_value = quantize_decimal beginning_assets COMPOSITE_ASSET_QUANTUM,
      pr_ending_market_value = quantize_decimal ending_assets COMPOSITE_ASSET_QUANTUM,
      pr_member_count = length (fs_ready_facts context),
      pr_excluded_member_count = length (fs_excluded_facts context),
      pr_dispersion_equal_weight = None, pr_return_view = return_view, pr_reporting_currency = reporting_currency,
      pr_source_fingerprints = source_fingerprints, pr_restatement_versions = restatement_versions,
      pr_reason_codes = reason_codes, pr_member_contributions = [],
      pr_restatement_sequence = selected_restatement_sequence (fs_ready_facts context) (fs_excluded_facts context)\<rparr>"

definition single_composite_metadata_value :: "string list \<Rightarrow> string option" where
  "single_composite_metadata_value values = (case values of [v] \<Rightarrow> Some v | _ \<Rightarrow> None)"

definition no_ready_member_return_facts_block :: "composite_period_fact_set \<Rightarrow> (composite_period_result \<times> string) option" where
  "no_ready_member_return_facts_block inputs =
     (if fs_ready_facts inputs \<noteq> [] then None
      else Some (blocked_composite_period_result inputs 0 0
          (if fs_reason_codes inputs \<noteq> [] then fs_reason_codes inputs else [''no_ready_member_return_facts''])
          None None [] [], ''no_ready_member_return_facts''))"

definition nonpositive_composite_beginning_assets_block ::
    "composite_period_fact_set \<Rightarrow> (composite_period_result \<times> string) option" where
  "nonpositive_composite_beginning_assets_block inputs =
     (if 0 < fs_beginning_assets inputs then None
      else Some (blocked_composite_period_result inputs (fs_beginning_assets inputs) (fs_ending_assets inputs)
          (fs_reason_codes inputs @ [''nonpositive_composite_beginning_assets''])
          (single_composite_metadata_value (fs_ready_return_views inputs))
          (single_composite_metadata_value (fs_ready_reporting_currencies inputs))
          (fs_ready_source_fingerprints inputs) (fs_ready_restatement_versions inputs),
        ''nonpositive_composite_beginning_assets''))"

definition mixed_member_return_views_block :: "composite_period_fact_set \<Rightarrow> (composite_period_result \<times> string) option" where
  "mixed_member_return_views_block inputs =
     (if length (fs_ready_return_views inputs) \<le> 1 then None
      else Some (blocked_composite_period_result inputs (fs_beginning_assets inputs) (fs_ending_assets inputs)
          (fs_reason_codes inputs @ [''mixed_member_return_views'']) None
          (single_composite_metadata_value (fs_ready_reporting_currencies inputs))
          (fs_ready_source_fingerprints inputs) (fs_ready_restatement_versions inputs), ''mixed_member_return_views''))"

text \<open>It runs when there is a ready fact and a single view, so the list of views has a head.\<close>

definition mixed_member_reporting_currencies_block ::
    "composite_period_fact_set \<Rightarrow> (composite_period_result \<times> string) option" where
  "mixed_member_reporting_currencies_block inputs =
     (if length (fs_ready_reporting_currencies inputs) \<le> 1 then None
      else Some (blocked_composite_period_result inputs (fs_beginning_assets inputs) (fs_ending_assets inputs)
          (fs_reason_codes inputs @ [''mixed_member_reporting_currencies'']) (Some (hd (fs_ready_return_views inputs)))
          None (fs_ready_source_fingerprints inputs) (fs_ready_restatement_versions inputs),
        ''mixed_member_reporting_currencies''))"

definition block_policies :: "(composite_period_fact_set \<Rightarrow> (composite_period_result \<times> string) option) list" where
  "block_policies = [no_ready_member_return_facts_block, nonpositive_composite_beginning_assets_block,
     mixed_member_return_views_block, mixed_member_reporting_currencies_block]"

fun first_block :: "('a \<Rightarrow> 'b option) list \<Rightarrow> 'a \<Rightarrow> 'b option" where
  "first_block [] inputs = None"
| "first_block (policy # policies) inputs =
     (case policy inputs of Some b \<Rightarrow> Some b | None \<Rightarrow> first_block policies inputs)"

definition blocked_invalid_ready_period_result :: "composite_period_fact_set \<Rightarrow> (composite_period_result \<times> string) option" where
  "blocked_invalid_ready_period_result inputs = first_block block_policies inputs"

section \<open>The facts of a period\<close>

definition member_ready :: "composite_member_return_fact \<Rightarrow> bool" where
  "member_ready mf \<longleftrightarrow> mf_status mf = COMPOSITE_MEMBER_READY_STATUS"

fun classify_composite_period_facts ::
    "composite_member_return_fact list \<Rightarrow> composite_member_return_fact list \<times> composite_member_return_fact list" where
  "classify_composite_period_facts [] = ([], [])"
| "classify_composite_period_facts (mf # facts) =
     (let (ready, excluded) = classify_composite_period_facts facts
      in if member_ready mf then (mf # ready, excluded) else (ready, mf # excluded))"

definition sum_composite_member_assets ::
    "nat \<Rightarrow> composite_member_return_fact list \<Rightarrow> (composite_member_return_fact \<Rightarrow> rat option) \<Rightarrow> string + rat" where
  "sum_composite_member_assets prec ready_facts asset_value =
     (let values = List.map asset_value ready_facts in
      if None \<in> set values then Inl ''COMPOSITE_ENDING_ASSETS_UNAVAILABLE''
      else Inr (dec_sum prec (List.map the values)))"

definition sorted_unique_composite_values ::
    "composite_member_return_fact list \<Rightarrow> (composite_member_return_fact \<Rightarrow> string) \<Rightarrow> string list" where
  "sorted_unique_composite_values facts v = sorted_unique (List.map v facts)"

definition sorted_excluded_composite_reason_codes :: "composite_member_return_fact list \<Rightarrow> string list" where
  "sorted_excluded_composite_reason_codes excluded_facts = sorted_unique (concat (List.map mf_reason_codes excluded_facts))"

definition composite_period_fact_metadata ::
    "nat \<Rightarrow> composite_member_return_fact list \<Rightarrow> composite_member_return_fact list
      \<Rightarrow> string + period_fact_metadata" where
  "composite_period_fact_metadata prec ready_facts excluded_facts =
     bind_res (sum_composite_member_assets prec ready_facts (\<lambda>f. Some (mf_beginning_market_value f))) (\<lambda>beginning.
     bind_res (sum_composite_member_assets prec ready_facts mf_ending_market_value) (\<lambda>ending.
     Inr \<lparr>md_reason_codes = sorted_excluded_composite_reason_codes excluded_facts,
          md_beginning_assets = beginning, md_ending_assets = ending,
          md_ready_return_views = sorted_unique_composite_values ready_facts mf_return_view,
          md_ready_reporting_currencies = sorted_unique_composite_values ready_facts mf_reporting_currency,
          md_ready_source_fingerprints = sorted_unique_composite_values ready_facts mf_source_fingerprint,
          md_ready_restatement_versions = sorted_unique_composite_values ready_facts mf_restatement_version\<rparr>))"

definition build_composite_period_fact_set ::
    "nat \<Rightarrow> date \<Rightarrow> date \<Rightarrow> composite_member_return_fact list \<Rightarrow> string + composite_period_fact_set" where
  "build_composite_period_fact_set prec period_start period_end facts =
     (let (ready_facts, excluded_facts) = classify_composite_period_facts facts in
      bind_res (composite_period_fact_metadata prec ready_facts excluded_facts) (\<lambda>metadata.
      Inr \<lparr>fs_period_start = period_start, fs_period_end = period_end,
           fs_ready_facts = ready_facts, fs_excluded_facts = excluded_facts,
           fs_reason_codes = md_reason_codes metadata, fs_beginning_assets = md_beginning_assets metadata,
           fs_ending_assets = md_ending_assets metadata, fs_ready_return_views = md_ready_return_views metadata,
           fs_ready_reporting_currencies = md_ready_reporting_currencies metadata,
           fs_ready_source_fingerprints = md_ready_source_fingerprints metadata,
           fs_ready_restatement_versions = md_ready_restatement_versions metadata\<rparr>))"

section \<open>Calculated periods\<close>

definition member_contribution_of ::
    "composite_member_return_fact \<Rightarrow> rat \<Rightarrow> rat \<Rightarrow> composite_member_contribution" where
  "member_contribution_of mf weight contribution =
     \<lparr>mc_portfolio_id = mf_portfolio_id mf, mc_period_start = mf_period_start mf,
      mc_period_end = mf_period_end mf,
      mc_return_value = quantize_decimal (mf_return_value mf) COMPOSITE_RETURN_QUANTUM,
      mc_beginning_market_value = quantize_decimal (mf_beginning_market_value mf) COMPOSITE_ASSET_QUANTUM,
      mc_weight = quantize_decimal weight COMPOSITE_RETURN_QUANTUM,
      mc_contribution = quantize_decimal contribution COMPOSITE_RETURN_QUANTUM,
      mc_source_snapshot_id = mf_source_snapshot_id mf, mc_source_fingerprint = mf_source_fingerprint mf,
      mc_restatement_version = mf_restatement_version mf, mc_restatement_sequence = mf_restatement_sequence mf,
      mc_calculation_id = mf_calculation_id mf, mc_source_authority_identity = mf_source_authority_identity mf\<rparr>"

definition member_weight :: "nat \<Rightarrow> rat \<Rightarrow> composite_member_return_fact \<Rightarrow> rat" where
  "member_weight prec beginning_assets mf = dec_div prec (mf_beginning_market_value mf) beginning_assets"

definition member_contribution :: "nat \<Rightarrow> rat \<Rightarrow> composite_member_return_fact \<Rightarrow> rat" where
  "member_contribution prec beginning_assets mf = dec_mul prec (mf_return_value mf) (member_weight prec beginning_assets mf)"

fun add_member ::
    "composite_member_contribution \<Rightarrow> rat \<times> composite_member_contribution list \<Rightarrow> rat \<times> composite_member_contribution list" where
  "add_member c (weighted_return, cs) = (weighted_return, c # cs)"

text \<open>The loop over the members with the weighted return it adds up.\<close>

fun accumulate_contributions ::
    "nat \<Rightarrow> rat \<Rightarrow> rat \<Rightarrow> composite_member_return_fact list \<Rightarrow> rat \<times> composite_member_contribution list" where
  "accumulate_contributions prec beginning_assets weighted_return [] = (weighted_return, [])"
| "accumulate_contributions prec beginning_assets weighted_return (mf # facts) =
     add_member (member_contribution_of mf (member_weight prec beginning_assets mf) (member_contribution prec beginning_assets mf))
       (accumulate_contributions prec beginning_assets
          (dec_add prec weighted_return (member_contribution prec beginning_assets mf)) facts)"

definition build_ready_member_contributions ::
    "nat \<Rightarrow> composite_member_return_fact list \<Rightarrow> rat \<Rightarrow> rat \<times> composite_member_contribution list" where
  "build_ready_member_contributions prec ready_facts beginning_assets =
     accumulate_contributions prec beginning_assets 0 (sort_key mf_portfolio_id ready_facts)"

definition linked_growth :: "nat \<Rightarrow> rat \<Rightarrow> rat \<Rightarrow> rat" where
  "linked_growth prec cumulative_growth weighted_return = dec_mul prec cumulative_growth (dec_add prec 1 weighted_return)"

definition ready_period_result ::
    "nat \<Rightarrow> composite_period_fact_set \<Rightarrow> rat \<Rightarrow> composite_member_contribution list \<Rightarrow> rat \<Rightarrow> composite_period_result" where
  "ready_period_result prec fs weighted_return member_contributions next_cumulative_growth =
     \<lparr>pr_period_start = fs_period_start fs, pr_period_end = fs_period_end fs,
      pr_status = (if fs_excluded_facts fs = [] then ''READY'' else ''DEGRADED''),
      pr_return_value = Some (quantize_decimal weighted_return COMPOSITE_RETURN_QUANTUM),
      pr_cumulative_return = Some (quantize_decimal (dec_sub prec next_cumulative_growth 1) COMPOSITE_RETURN_QUANTUM),
      pr_beginning_market_value = quantize_decimal (fs_beginning_assets fs) COMPOSITE_ASSET_QUANTUM,
      pr_ending_market_value = quantize_decimal (fs_ending_assets fs) COMPOSITE_ASSET_QUANTUM,
      pr_member_count = length (fs_ready_facts fs), pr_excluded_member_count = length (fs_excluded_facts fs),
      pr_dispersion_equal_weight = sample_standard_deviation prec (List.map mf_return_value (fs_ready_facts fs)),
      pr_return_view = Some (hd (fs_ready_return_views fs)),
      pr_reporting_currency = Some (hd (fs_ready_reporting_currencies fs)),
      pr_source_fingerprints = fs_ready_source_fingerprints fs,
      pr_restatement_versions = fs_ready_restatement_versions fs, pr_reason_codes = fs_reason_codes fs,
      pr_member_contributions = member_contributions,
      pr_restatement_sequence = selected_restatement_sequence (fs_ready_facts fs) (fs_excluded_facts fs)\<rparr>"

fun link_period ::
    "nat \<Rightarrow> composite_period_fact_set \<Rightarrow> rat \<Rightarrow> rat \<times> composite_member_contribution list \<Rightarrow> composite_period_result \<times> rat" where
  "link_period prec fs cumulative_growth (weighted_return, member_contributions) =
     (ready_period_result prec fs weighted_return member_contributions (linked_growth prec cumulative_growth weighted_return),
      linked_growth prec cumulative_growth weighted_return)"

lemma link_period_alt: "link_period prec fs cumulative_growth x =
    (ready_period_result prec fs (fst x) (snd x) (linked_growth prec cumulative_growth (fst x)),
     linked_growth prec cumulative_growth (fst x))"
  by (cases x) simp

definition build_ready_composite_period_result ::
    "nat \<Rightarrow> composite_period_fact_set \<Rightarrow> rat \<Rightarrow> composite_period_result \<times> rat" where
  "build_ready_composite_period_result prec fs cumulative_growth =
     link_period prec fs cumulative_growth (build_ready_member_contributions prec (fs_ready_facts fs) (fs_beginning_assets fs))"

definition calculate_composite_period_result ::
    "nat \<Rightarrow> composite_period_fact_set \<Rightarrow> rat \<Rightarrow> composite_period_calculation" where
  "calculate_composite_period_result prec fs cumulative_growth =
     (case blocked_invalid_ready_period_result fs of
        Some (period_result, aggregate_reason_code) \<Rightarrow>
          \<lparr>pc_period_result = period_result, pc_cumulative_growth = cumulative_growth,
           pc_aggregate_reason_codes = [aggregate_reason_code]\<rparr>
      | None \<Rightarrow>
          let (period_result, next_cumulative_growth) = build_ready_composite_period_result prec fs cumulative_growth
          in \<lparr>pc_period_result = period_result, pc_cumulative_growth = next_cumulative_growth,
              pc_aggregate_reason_codes = []\<rparr>)"

section \<open>The composite\<close>

definition fact_period :: "composite_member_return_fact \<Rightarrow> date \<times> date" where
  "fact_period mf = (mf_period_start mf, mf_period_end mf)"

definition group_composite_member_return_facts ::
    "string \<Rightarrow> composite_member_return_fact list \<Rightarrow> ((date \<times> date) \<times> composite_member_return_fact list) list" where
  "group_composite_member_return_facts composite_id member_return_facts =
     (let own = filter (\<lambda>f. mf_composite_id f = composite_id) member_return_facts
      in List.map (\<lambda>p. (p, filter (\<lambda>f. fact_period f = p) own)) (sort (remdups (List.map fact_period own))))"

definition is_calculated_composite_period :: "composite_period_result \<Rightarrow> bool" where
  "is_calculated_composite_period period \<longleftrightarrow> pr_status period \<in> {''READY'', ''DEGRADED''}"

definition composite_calculation_status :: "composite_period_result list \<Rightarrow> string" where
  "composite_calculation_status period_results =
     (if \<forall>p \<in> set period_results. pr_status p = ''READY'' then ''READY''
      else if \<exists>p \<in> set period_results. is_calculated_composite_period p then ''DEGRADED'' else ''BLOCKED'')"

text \<open>The loop over the periods: their results and the reason codes it collects.\<close>

fun add_period ::
    "composite_period_fact_set \<Rightarrow> composite_period_calculation \<Rightarrow> composite_period_result list \<times> string list
      \<Rightarrow> composite_period_result list \<times> string list" where
  "add_period fs calculation (period_results, codes) =
     (pc_period_result calculation # period_results,
      fs_reason_codes fs @ pc_aggregate_reason_codes calculation @ codes)"

fun calculate_periods ::
    "nat \<Rightarrow> rat \<Rightarrow> ((date \<times> date) \<times> composite_member_return_fact list) list
      \<Rightarrow> string + composite_period_result list \<times> string list" where
  "calculate_periods prec cumulative_growth [] = Inr ([], [])"
| "calculate_periods prec cumulative_growth (((period_start, period_end), facts) # groups) =
     (case build_composite_period_fact_set prec period_start period_end facts of
        Inl m \<Rightarrow> Inl m
      | Inr fs \<Rightarrow> map_sum id (add_period fs (calculate_composite_period_result prec fs cumulative_growth))
          (calculate_periods prec (pc_cumulative_growth (calculate_composite_period_result prec fs cumulative_growth)) groups))"

definition terminal_cumulative :: "composite_period_result list \<Rightarrow> rat option" where
  "terminal_cumulative period_results =
     (case rev (List.map_filter pr_cumulative_return period_results) of [] \<Rightarrow> None | c # _ \<Rightarrow> Some c)"

definition calculate_asset_weighted_composite_twr ::
    "nat \<Rightarrow> string \<Rightarrow> composite_member_return_fact list \<Rightarrow> string + composite_calculation_result" where
  "calculate_asset_weighted_composite_twr prec composite_id member_return_facts =
     bind_res (calculate_periods prec 1 (group_composite_member_return_facts composite_id member_return_facts))
       (\<lambda>(period_results, aggregate_reason_codes).
     if period_results = []
     then Inr \<lparr>cr_composite_id = composite_id, cr_status = ''BLOCKED'', cr_period_results = [],
               cr_cumulative_return = None, cr_reason_codes = [''no_member_return_facts'']\<rparr>
     else Inr \<lparr>cr_composite_id = composite_id, cr_status = composite_calculation_status period_results,
               cr_period_results = period_results, cr_cumulative_return = terminal_cumulative period_results,
               cr_reason_codes = sorted_unique aggregate_reason_codes\<rparr>)"

end
