(* ===== verification/Composite_Safety.thy ===== *)
theory Composite_Safety
  imports Composite_Engine
begin

text \<open>
  What the composite calculation guarantees: when it refuses, when a period is calculated and
  with which status, that excluded facts and blocked periods never enter a number, and how
  close the reported weights and contributions are to the totals they are parts of.
\<close>

section \<open>The facts of a period\<close>

lemma classify_filter:
  "classify_composite_period_facts facts = (filter member_ready facts, filter (\<lambda>f. \<not> member_ready f) facts)"
  by (induction facts) auto

definition ending_known :: "composite_member_return_fact list \<Rightarrow> bool" where
  "ending_known facts \<longleftrightarrow> (\<forall>f \<in> set facts. member_ready f \<longrightarrow> mf_ending_market_value f \<noteq> None)"

lemma sum_assets_Inr: "(\<And>f. f \<in> set facts \<Longrightarrow> v f \<noteq> None) \<Longrightarrow>
    sum_composite_member_assets prec facts v = Inr (dec_sum prec (List.map (\<lambda>f. the (v f)) facts))"
  by (auto simp: sum_composite_member_assets_def comp_def) force

lemma sum_assets_Inl: "sum_composite_member_assets prec facts v = Inl m \<longleftrightarrow>
    None \<in> v ` set facts \<and> m = ''COMPOSITE_ENDING_ASSETS_UNAVAILABLE''"
  by (auto simp: sum_composite_member_assets_def)

text \<open>The fact set of a period whose ready facts all have ending assets.\<close>

definition fact_set :: "nat \<Rightarrow> date \<times> date \<Rightarrow> composite_member_return_fact list \<Rightarrow> composite_period_fact_set" where
  "fact_set prec p facts = (let ready = filter member_ready facts; excluded = filter (\<lambda>f. \<not> member_ready f) facts in
     \<lparr>fs_period_start = fst p, fs_period_end = snd p, fs_ready_facts = ready, fs_excluded_facts = excluded,
      fs_reason_codes = sorted_excluded_composite_reason_codes excluded,
      fs_beginning_assets = dec_sum prec (List.map mf_beginning_market_value ready),
      fs_ending_assets = dec_sum prec (List.map (\<lambda>f. the (mf_ending_market_value f)) ready),
      fs_ready_return_views = sorted_unique_composite_values ready mf_return_view,
      fs_ready_reporting_currencies = sorted_unique_composite_values ready mf_reporting_currency,
      fs_ready_source_fingerprints = sorted_unique_composite_values ready mf_source_fingerprint,
      fs_ready_restatement_versions = sorted_unique_composite_values ready mf_restatement_version\<rparr>)"

lemma build_fact_set: "build_composite_period_fact_set prec s e facts =
    (if ending_known facts then Inr (fact_set prec (s, e) facts) else Inl ''COMPOSITE_ENDING_ASSETS_UNAVAILABLE'')"
proof -
  have b: "sum_composite_member_assets prec (filter member_ready facts) (\<lambda>f. Some (mf_beginning_market_value f))
      = Inr (dec_sum prec (List.map mf_beginning_market_value (filter member_ready facts)))"
    by (subst sum_assets_Inr) simp_all
  have e: "sum_composite_member_assets prec (filter member_ready facts) mf_ending_market_value
      = (if ending_known facts then Inr (dec_sum prec (List.map (\<lambda>f. the (mf_ending_market_value f)) (filter member_ready facts)))
         else Inl ''COMPOSITE_ENDING_ASSETS_UNAVAILABLE'')"
  proof (cases "ending_known facts")
    case True
    then show ?thesis by (subst sum_assets_Inr) (auto simp: ending_known_def)
  next
    case False
    then show ?thesis by (auto simp: sum_assets_Inl ending_known_def image_iff)
  qed
  show ?thesis
    by (simp add: build_composite_period_fact_set_def composite_period_fact_metadata_def classify_filter b e fact_set_def Let_def)
qed

lemmas fact_set_simps [simp] = fact_set_def [unfolded Let_def, THEN arg_cong [where f = fs_ready_facts], simplified]
  fact_set_def [unfolded Let_def, THEN arg_cong [where f = fs_excluded_facts], simplified]
  fact_set_def [unfolded Let_def, THEN arg_cong [where f = fs_beginning_assets], simplified]
  fact_set_def [unfolded Let_def, THEN arg_cong [where f = fs_period_start], simplified]
  fact_set_def [unfolded Let_def, THEN arg_cong [where f = fs_period_end], simplified]

section \<open>When a period is calculated\<close>

lemma sorted_unique_le1: "length (sorted_unique xs) \<le> Suc 0 \<longleftrightarrow> (\<forall>x \<in> set xs. \<forall>y \<in> set xs. x = y)"
proof -
  have "length (sorted_unique xs) = card (set xs)"
    by (simp add: sorted_unique_def length_remdups_card_conv)
  then show ?thesis by (simp add: card_le_Suc0_iff_eq)
qed

definition agree :: "(composite_member_return_fact \<Rightarrow> string) \<Rightarrow> composite_member_return_fact list \<Rightarrow> bool" where
  "agree v facts \<longleftrightarrow> (\<forall>f \<in> set facts. \<forall>g \<in> set facts. v f = v g)"

text \<open>A period links when it has ready facts with positive assets, one view and one currency.\<close>

definition linkable :: "nat \<Rightarrow> composite_member_return_fact list \<Rightarrow> bool" where
  "linkable prec facts \<longleftrightarrow> (let ready = filter member_ready facts in
     ready \<noteq> [] \<and> 0 < dec_sum prec (List.map mf_beginning_market_value ready)
     \<and> agree mf_return_view ready \<and> agree mf_reporting_currency ready)"

lemma views_le1: "length (sorted_unique_composite_values facts v) \<le> Suc 0 \<longleftrightarrow> agree v facts"
  by (simp add: sorted_unique_composite_values_def sorted_unique_le1 agree_def)

lemma blocked_iff: "blocked_invalid_ready_period_result (fact_set prec p facts) = None \<longleftrightarrow> linkable prec facts"
  by (auto simp: blocked_invalid_ready_period_result_def block_policies_def no_ready_member_return_facts_block_def
      nonpositive_composite_beginning_assets_block_def mixed_member_return_views_block_def
      mixed_member_reporting_currencies_block_def linkable_def Let_def fact_set_def views_le1 split: option.splits if_splits)

lemma blocked_result_status:
  "blocked_invalid_ready_period_result fs = Some (r, code) \<Longrightarrow>
     pr_status r = ''BLOCKED'' \<and> pr_period_start r = fs_period_start fs \<and> pr_period_end r = fs_period_end fs
     \<and> pr_cumulative_return r = None \<and> pr_return_value r = None"
  by (auto simp: blocked_invalid_ready_period_result_def block_policies_def no_ready_member_return_facts_block_def
      nonpositive_composite_beginning_assets_block_def mixed_member_return_views_block_def
      mixed_member_reporting_currencies_block_def blocked_composite_period_result_def split: if_splits)

lemma is_calculated_blocked: "pr_status r = ''BLOCKED'' \<Longrightarrow> \<not> is_calculated_composite_period r"
  by (simp add: is_calculated_composite_period_def)

definition period_of :: "composite_period_result \<Rightarrow> date \<times> date" where
  "period_of r = (pr_period_start r, pr_period_end r)"

text \<open>How the result of a period relates to its facts.\<close>

definition outcome_ok :: "nat \<Rightarrow> date \<times> date \<Rightarrow> composite_member_return_fact list \<Rightarrow> composite_period_result \<Rightarrow> bool" where
  "outcome_ok prec p facts r \<longleftrightarrow> period_of r = p
     \<and> pr_status r = (if \<not> linkable prec facts then ''BLOCKED'' else if list_all member_ready facts then ''READY'' else ''DEGRADED'')
     \<and> (pr_cumulative_return r = None \<longleftrightarrow> \<not> linkable prec facts)"

lemma outcome_calculated: "outcome_ok prec p facts r \<Longrightarrow> is_calculated_composite_period r \<longleftrightarrow> linkable prec facts"
  by (auto simp: outcome_ok_def is_calculated_composite_period_def split: if_splits)

lemma calculate_period_outcome:
  assumes "calculate_composite_period_result prec (fact_set prec p facts) g = c"
  shows "outcome_ok prec p facts (pc_period_result c)" "\<not> linkable prec facts \<Longrightarrow> pc_cumulative_growth c = g"
proof (atomize (full), cases "blocked_invalid_ready_period_result (fact_set prec p facts)")
  case None
  then have "linkable prec facts" by (simp add: blocked_iff)
  with None assms show "outcome_ok prec p facts (pc_period_result c) \<and> (\<not> linkable prec facts \<longrightarrow> pc_cumulative_growth c = g)"
    by (auto simp: calculate_composite_period_result_def build_ready_composite_period_result_def link_period_alt ready_period_result_def outcome_ok_def period_of_def
        list_all_iff filter_empty_conv Let_def split: prod.splits)
next
  case (Some b)
  obtain r code where b: "b = (r, code)" by force
  from Some have "\<not> linkable prec facts" using blocked_iff [of prec p facts] by simp
  with Some assms b blocked_result_status [of "fact_set prec p facts" r code]
  show "outcome_ok prec p facts (pc_period_result c) \<and> (\<not> linkable prec facts \<longrightarrow> pc_cumulative_growth c = g)"
    by (auto simp: calculate_composite_period_result_def outcome_ok_def period_of_def)
qed

section \<open>The loop over the periods\<close>

lemma calculate_periods_Cons: "calculate_periods prec g ((p, facts) # groups) =
    (if \<not> ending_known facts then Inl ''COMPOSITE_ENDING_ASSETS_UNAVAILABLE''
     else let c = calculate_composite_period_result prec (fact_set prec p facts) g in
       map_sum id (add_period (fact_set prec p facts) c) (calculate_periods prec (pc_cumulative_growth c) groups))"
  by (cases p) (simp add: build_fact_set Let_def)

declare calculate_periods.simps(2) [simp del]

lemma calculate_periods_total: "(\<exists>x. calculate_periods prec g groups = Inr x) \<longleftrightarrow> (\<forall>(p, facts) \<in> set groups. ending_known facts)"
proof (induction groups arbitrary: g)
  case (Cons pf groups)
  obtain p facts where pf: "pf = (p, facts)" by (cases pf)
  show ?case
  proof (cases "ending_known facts")
    case True
    define c where "c = calculate_composite_period_result prec (fact_set prec p facts) g"
    have "(\<exists>x. calculate_periods prec g (pf # groups) = Inr x) \<longleftrightarrow> (\<exists>x. calculate_periods prec (pc_cumulative_growth c) groups = Inr x)"
      using True by (cases "calculate_periods prec (pc_cumulative_growth c) groups") (auto simp: pf calculate_periods_Cons Let_def c_def)
    then show ?thesis using True by (simp add: Cons.IH pf del: split_paired_Ex)
  qed (simp add: pf calculate_periods_Cons)
qed simp

lemma calculate_periods_error: "calculate_periods prec g groups = Inl m \<Longrightarrow> m = ''COMPOSITE_ENDING_ASSETS_UNAVAILABLE''"
proof (induction groups arbitrary: g)
  case (Cons pf groups)
  obtain p facts where pf: "pf = (p, facts)" by (cases pf)
  define c where "c = calculate_composite_period_result prec (fact_set prec p facts) g"
  show ?case
    using Cons.prems Cons.IH [of "pc_cumulative_growth c"]
    by (cases "calculate_periods prec (pc_cumulative_growth c) groups")
      (auto simp: pf calculate_periods_Cons Let_def c_def [symmetric] split: if_splits)
qed simp

lemma calculate_periods_step:
  assumes "calculate_periods prec g ((p, facts) # groups) = Inr (rs, codes)"
  obtains c rs' codes' where "ending_known facts" "c = calculate_composite_period_result prec (fact_set prec p facts) g"
    "calculate_periods prec (pc_cumulative_growth c) groups = Inr (rs', codes')" "rs = pc_period_result c # rs'"
proof -
  define c where "c = calculate_composite_period_result prec (fact_set prec p facts) g"
  have k: "ending_known facts" using assms by (auto simp: calculate_periods_Cons split: if_splits)
  with assms obtain rs' codes' where "calculate_periods prec (pc_cumulative_growth c) groups = Inr (rs', codes')"
      "rs = pc_period_result c # rs'"
    by (cases "calculate_periods prec (pc_cumulative_growth c) groups") (auto simp: calculate_periods_Cons Let_def c_def)
  with k show thesis by (intro that [of c]) (simp_all add: c_def)
qed

lemma periods_aligned:
  "calculate_periods prec g groups = Inr (rs, codes) \<Longrightarrow> list_all2 (\<lambda>(p, facts) r. outcome_ok prec p facts r) groups rs"
proof (induction groups arbitrary: g rs codes)
  case (Cons pf groups)
  obtain p facts where pf: "pf = (p, facts)" by (cases pf)
  from Cons.prems [unfolded pf] show ?case
  proof (cases rule: calculate_periods_step)
    case (1 c rs' codes')
    then show ?thesis using calculate_period_outcome(1) [of prec p facts g c] Cons.IH pf by simp
  qed
qed simp

lemma periods_skip_blocked:
  "calculate_periods prec g groups = Inr (rs, codes) \<Longrightarrow> \<exists>codes'.
     calculate_periods prec g (filter (\<lambda>(p, facts). linkable prec facts) groups) = Inr (filter is_calculated_composite_period rs, codes')"
proof (induction groups arbitrary: g rs codes)
  case (Cons pf groups)
  obtain p facts where pf: "pf = (p, facts)" by (cases pf)
  from Cons.prems [unfolded pf] show ?case
  proof (cases rule: calculate_periods_step)
    case (1 c rs' codes')
    note out = calculate_period_outcome [OF 1(2) [symmetric]]
    from Cons.IH [OF 1(3)] obtain codes'' where ih: "calculate_periods prec (pc_cumulative_growth c)
        (filter (\<lambda>(p, facts). linkable prec facts) groups) = Inr (filter is_calculated_composite_period rs', codes'')" by blast
    show ?thesis
    proof (cases "linkable prec facts")
      case True
      then show ?thesis using ih 1(1) outcome_calculated [OF out(1)]
        by (simp add: pf 1(4) calculate_periods_Cons Let_def 1(2) [symmetric])
    next
      case False
      then show ?thesis using ih out(2) outcome_calculated [OF out(1)] by (simp add: pf 1(4))
    qed
  qed
qed simp

text \<open>The same loop over the ready facts only: every number of every period stays the same.\<close>

definition numbers where
  "numbers r = (period_of r, pr_return_value r, pr_cumulative_return r, pr_beginning_market_value r,
     pr_ending_market_value r, pr_member_count r, pr_dispersion_equal_weight r, pr_member_contributions r,
     pr_return_view r, pr_reporting_currency r)"

lemma ready_ready: "filter member_ready (filter member_ready facts) = filter member_ready facts"
  by simp

lemma linkable_ready: "linkable prec (filter member_ready facts) = linkable prec facts"
  by (simp add: linkable_def)

lemma calculate_period_ready:
  assumes "linkable prec facts"
  shows "pc_cumulative_growth (calculate_composite_period_result prec (fact_set prec p (filter member_ready facts)) g)
      = pc_cumulative_growth (calculate_composite_period_result prec (fact_set prec p facts) g)"
    "numbers (pc_period_result (calculate_composite_period_result prec (fact_set prec p (filter member_ready facts)) g))
      = numbers (pc_period_result (calculate_composite_period_result prec (fact_set prec p facts) g))"
proof -
  have "blocked_invalid_ready_period_result (fact_set prec p facts) = None"
    "blocked_invalid_ready_period_result (fact_set prec p (filter member_ready facts)) = None"
    using assms by (simp_all add: blocked_iff linkable_ready)
  then show "pc_cumulative_growth (calculate_composite_period_result prec (fact_set prec p (filter member_ready facts)) g)
      = pc_cumulative_growth (calculate_composite_period_result prec (fact_set prec p facts) g)"
    "numbers (pc_period_result (calculate_composite_period_result prec (fact_set prec p (filter member_ready facts)) g))
      = numbers (pc_period_result (calculate_composite_period_result prec (fact_set prec p facts) g))"
    by (simp_all add: calculate_composite_period_result_def build_ready_composite_period_result_def link_period_alt ready_period_result_def fact_set_def Let_def
        numbers_def period_of_def split: prod.splits)
qed

definition ready_only :: "(date \<times> date) \<times> composite_member_return_fact list \<Rightarrow> (date \<times> date) \<times> composite_member_return_fact list" where
  "ready_only pf = (fst pf, filter member_ready (snd pf))"

lemma ready_only_pair: "ready_only (p, facts) = (p, filter member_ready facts)"
  by (simp add: ready_only_def)

lemma linked_ready_only:
  "calculate_periods prec g groups = Inr (rs, codes) \<Longrightarrow> list_all (\<lambda>(p, facts). linkable prec facts) groups \<Longrightarrow>
     \<exists>rs' codes'. calculate_periods prec g (List.map ready_only groups) = Inr (rs', codes') \<and> List.map numbers rs' = List.map numbers rs"
proof (induction groups arbitrary: g rs codes)
  case (Cons pf groups)
  obtain p facts where pf: "pf = (p, facts)" by (cases pf)
  from Cons.prems(1) [unfolded pf] show ?case
  proof (cases rule: calculate_periods_step)
    case (1 c rs' codes')
    define c' where "c' = calculate_composite_period_result prec (fact_set prec p (filter member_ready facts)) g"
    have same: "pc_cumulative_growth c' = pc_cumulative_growth c" "numbers (pc_period_result c') = numbers (pc_period_result c)"
      using calculate_period_ready [of prec facts p g] Cons.prems(2) by (simp_all add: pf 1(2) c'_def)
    have k: "ending_known (filter member_ready facts)" using 1(1) by (simp add: ending_known_def)
    from Cons.IH [OF 1(3)] Cons.prems(2) obtain rs'' codes'' where
      "calculate_periods prec (pc_cumulative_growth c) (List.map ready_only groups) = Inr (rs'', codes'')"
      "List.map numbers rs'' = List.map numbers rs'" by auto
    then show ?thesis
      using k same by (simp add: pf ready_only_pair calculate_periods_Cons Let_def c'_def [symmetric] 1(4))
  qed
qed simp

section \<open>Grouping\<close>

lemma group_eq: "group_composite_member_return_facts cid facts =
    List.map (\<lambda>p. (p, filter (\<lambda>f. mf_composite_id f = cid \<and> fact_period f = p) facts))
      (sort (remdups (List.map fact_period (filter (\<lambda>f. mf_composite_id f = cid) facts))))"
  by (simp add: group_composite_member_return_facts_def Let_def conj_commute cong: filter_cong)

lemma group_filter:
  "group_composite_member_return_facts cid (filter P facts) =
     List.map (\<lambda>(p, fs). (p, filter P fs))
       (filter (\<lambda>(p, fs). \<exists>f \<in> set fs. P f) (group_composite_member_return_facts cid facts))"
proof -
  define own where "own = filter (\<lambda>f. mf_composite_id f = cid) facts"
  define Q where "Q = (\<lambda>p. \<exists>f \<in> set own. fact_period f = p \<and> P f)"
  have periods: "fact_period ` {f \<in> set own. P f} = {p \<in> fact_period ` set own. Q p}"
    by (rule set_eqI) (unfold Q_def image_iff mem_Collect_eq bex_simps, metis)
  have keys: "sort (remdups (List.map fact_period (filter P own))) = filter Q (sort (remdups (List.map fact_period own)))"
    by (rule sorted_distinct_set_unique)
      (simp_all only: set_sort set_remdups set_map set_filter periods distinct_sort distinct_remdups distinct_filter
        sorted_sort sorted_wrt_filter)
  define G where "G = (\<lambda>p. filter (\<lambda>f. mf_composite_id f = cid \<and> fact_period f = p) facts)"
  have own': "filter (\<lambda>f. mf_composite_id f = cid) (filter P facts) = filter P own"
    by (simp add: own_def conj_commute)
  have G': "filter (\<lambda>f. mf_composite_id f = cid \<and> fact_period f = p) (filter P facts) = filter P (G p)" for p
    by (simp add: G_def conj_ac)
  have q: "(\<exists>f \<in> set (G p). P f) = Q p" for p
    by (auto simp: Q_def own_def G_def)
  have "filter (\<lambda>(p, fs). \<exists>f \<in> set fs. P f) (List.map (\<lambda>p. (p, G p)) ps) = List.map (\<lambda>p. (p, G p)) (filter Q ps)" for ps
    by (simp add: filter_map comp_def q)
  moreover have "group_composite_member_return_facts cid facts = List.map (\<lambda>p. (p, G p)) (sort (remdups (List.map fact_period own)))"
    by (simp add: group_eq G_def own_def)
  ultimately show ?thesis
    unfolding group_eq [of cid "filter P facts"] own' G' keys by simp
qed

lemma group_facts: "(p, fs) \<in> set (group_composite_member_return_facts cid facts) \<Longrightarrow>
    fs = filter (\<lambda>f. mf_composite_id f = cid \<and> fact_period f = p) facts \<and> fs \<noteq> []"
  by (auto simp: group_eq filter_empty_conv)

lemma group_keys: "List.map fst (group_composite_member_return_facts cid facts)
    = sort (remdups (List.map fact_period (filter (\<lambda>f. mf_composite_id f = cid) facts)))"
  by (simp add: group_eq comp_def)

section \<open>The composite\<close>

lemma calculate_Inr: "calculate_asset_weighted_composite_twr prec cid facts = Inr r \<longleftrightarrow>
    (\<exists>codes. calculate_periods prec 1 (group_composite_member_return_facts cid facts) = Inr (cr_period_results r, codes)
       \<and> cr_composite_id r = cid
       \<and> cr_status r = (if cr_period_results r = [] then ''BLOCKED'' else composite_calculation_status (cr_period_results r))
       \<and> cr_cumulative_return r = terminal_cumulative (cr_period_results r)
       \<and> cr_reason_codes r = (if cr_period_results r = [] then [''no_member_return_facts''] else sorted_unique codes))"
proof (cases "calculate_periods prec 1 (group_composite_member_return_facts cid facts)")
  case (Inr x)
  obtain rs codes where "x = (rs, codes)" by (cases x)
  with Inr show ?thesis
    by (cases r) (auto simp: calculate_asset_weighted_composite_twr_def terminal_cumulative_def)
qed (simp add: calculate_asset_weighted_composite_twr_def)

text \<open>
  The calculation is refused exactly when a ready member fact of the composite lacks its
  ending assets, with the one error code for it; otherwise it answers. Facts of other composites
  and facts that are not ready never cause a refusal.\<close>

theorem composite_refused_iff:
  "calculate_asset_weighted_composite_twr prec cid facts = Inl m \<longleftrightarrow>
     m = ''COMPOSITE_ENDING_ASSETS_UNAVAILABLE'' \<and>
     (\<exists>f \<in> set facts. mf_composite_id f = cid \<and> mf_status f = ''READY'' \<and> mf_ending_market_value f = None)"
proof -
  have known: "(\<forall>(p, fs) \<in> set (group_composite_member_return_facts cid facts). ending_known fs) \<longleftrightarrow>
      (\<forall>f \<in> set facts. mf_composite_id f = cid \<longrightarrow> mf_status f = ''READY'' \<longrightarrow> mf_ending_market_value f \<noteq> None)"
    by (auto simp: group_eq ending_known_def member_ready_def COMPOSITE_MEMBER_READY_STATUS_def)
  show ?thesis
  proof (cases "calculate_periods prec 1 (group_composite_member_return_facts cid facts)")
    case (Inl m')
    then have "\<not> (\<exists>x. calculate_periods prec 1 (group_composite_member_return_facts cid facts) = Inr x)" by simp
    then show ?thesis using calculate_periods_error [OF Inl] Inl
      unfolding calculate_periods_total known by (auto simp: calculate_asset_weighted_composite_twr_def)
  next
    case (Inr x)
    then have "\<exists>x. calculate_periods prec 1 (group_composite_member_return_facts cid facts) = Inr x" by simp
    then show ?thesis using Inr unfolding calculate_periods_total known
      by (cases x) (auto simp: calculate_asset_weighted_composite_twr_def)
  qed
qed

definition facts_of :: "string \<Rightarrow> date \<times> date \<Rightarrow> composite_member_return_fact list \<Rightarrow> composite_member_return_fact list" where
  "facts_of cid p facts = filter (\<lambda>f. mf_composite_id f = cid \<and> fact_period f = p) facts"

lemma list_all2_right: "list_all2 P xs ys \<Longrightarrow> y \<in> set ys \<Longrightarrow> \<exists>x \<in> set xs. P x y"
  by (induction rule: list_all2_induct) auto

lemma results_aligned:
  assumes "calculate_asset_weighted_composite_twr prec cid facts = Inr r"
  shows "List.map period_of (cr_period_results r) = List.map fst (group_composite_member_return_facts cid facts)"
    "q \<in> set (cr_period_results r) \<Longrightarrow> outcome_ok prec (period_of q) (facts_of cid (period_of q) facts) q"
proof -
  from assms obtain codes where
    "calculate_periods prec 1 (group_composite_member_return_facts cid facts) = Inr (cr_period_results r, codes)"
    by (auto simp: calculate_Inr)
  then have al: "list_all2 (\<lambda>(p, fs) r. outcome_ok prec p fs r) (group_composite_member_return_facts cid facts) (cr_period_results r)"
    by (rule periods_aligned)
  then have "list_all2 (\<lambda>pf r. period_of r = fst pf) (group_composite_member_return_facts cid facts) (cr_period_results r)"
    by (rule list_all2_mono) (auto simp: outcome_ok_def)
  then show "List.map period_of (cr_period_results r) = List.map fst (group_composite_member_return_facts cid facts)"
    by (induction rule: list_all2_induct) auto
  assume "q \<in> set (cr_period_results r)"
  from list_all2_right [OF al this] obtain p fs where
    "(p, fs) \<in> set (group_composite_member_return_facts cid facts)" "outcome_ok prec p fs q"
    by (elim bexE) (simp only: split_paired_all prod.case)
  then show "outcome_ok prec (period_of q) (facts_of cid (period_of q) facts) q"
    using group_facts [of p fs cid facts] by (simp add: facts_of_def outcome_ok_def)
qed

lemma terminal_None: "terminal_cumulative rs = None \<longleftrightarrow> (\<forall>q \<in> set rs. pr_cumulative_return q = None)"
proof -
  have "terminal_cumulative rs = None \<longleftrightarrow> List.map_filter pr_cumulative_return rs = []"
    by (auto simp: terminal_cumulative_def split: list.splits)
  also have "\<dots> \<longleftrightarrow> (\<forall>q \<in> set rs. pr_cumulative_return q = None)"
    by (induction rs) (auto simp: List.map_filter_simps split: option.splits)
  finally show ?thesis .
qed

text \<open>
  The answer holds one result per period of the composite's facts, in chronological order. A
  period is blocked when it has no ready fact, its ready beginning assets do not add up to a
  positive amount, or its ready facts mix return views or reporting currencies; otherwise it is
  ready when every fact of the period is, and degraded when some are excluded. The composite is
  ready when every period is, and blocked exactly when it reports no cumulative return.\<close>

theorem composite_period_outcomes:
  assumes "calculate_asset_weighted_composite_twr prec cid facts = Inr r"
  shows "(List.map (\<lambda>q. (pr_period_start q, pr_period_end q)) (cr_period_results r)
      = sort (remdups (List.map fact_period (filter (\<lambda>f. mf_composite_id f = cid) facts))))
    \<and> (\<forall>q \<in> set (cr_period_results r). \<forall>ready.
       ready = filter (\<lambda>f. mf_status f = ''READY'') (facts_of cid (pr_period_start q, pr_period_end q) facts) \<longrightarrow>
       pr_status q = (if ready = [] \<or> dec_sum prec (List.map mf_beginning_market_value ready) \<le> 0
            \<or> (\<exists>f \<in> set ready. \<exists>g \<in> set ready. mf_return_view f \<noteq> mf_return_view g \<or> mf_reporting_currency f \<noteq> mf_reporting_currency g)
          then ''BLOCKED''
          else if ready = facts_of cid (pr_period_start q, pr_period_end q) facts then ''READY'' else ''DEGRADED''))
    \<and> (cr_status r = ''READY'' \<longleftrightarrow> cr_period_results r \<noteq> [] \<and> (\<forall>q \<in> set (cr_period_results r). pr_status q = ''READY''))
    \<and> (cr_status r = ''BLOCKED'' \<longleftrightarrow> cr_cumulative_return r = None)"
proof (rule conj4I)
  note al = results_aligned [OF assms]
  show "List.map (\<lambda>q. (pr_period_start q, pr_period_end q)) (cr_period_results r)
      = sort (remdups (List.map fact_period (filter (\<lambda>f. mf_composite_id f = cid) facts)))"
    using al(1) unfolding group_keys period_of_def .
  have ready: "member_ready = (\<lambda>f. mf_status f = ''READY'')"
    by (auto simp: member_ready_def COMPOSITE_MEMBER_READY_STATUS_def)
  have all: "list_all member_ready fs \<longleftrightarrow> filter (\<lambda>f. mf_status f = ''READY'') fs = fs" for fs
    by (simp add: ready list_all_iff filter_id_conv)
  have link: "linkable prec fs \<longleftrightarrow> \<not> (rs = [] \<or> dec_sum prec (List.map mf_beginning_market_value rs) \<le> 0
      \<or> (\<exists>f \<in> set rs. \<exists>g \<in> set rs. mf_return_view f \<noteq> mf_return_view g \<or> mf_reporting_currency f \<noteq> mf_reporting_currency g))"
    if "rs = filter (\<lambda>f. mf_status f = ''READY'') fs" for rs fs
    unfolding linkable_def Let_def ready that [symmetric] agree_def by (auto simp: not_less)
  show "\<forall>q \<in> set (cr_period_results r). \<forall>ready.
       ready = filter (\<lambda>f. mf_status f = ''READY'') (facts_of cid (pr_period_start q, pr_period_end q) facts) \<longrightarrow>
       pr_status q = (if ready = [] \<or> dec_sum prec (List.map mf_beginning_market_value ready) \<le> 0
            \<or> (\<exists>f \<in> set ready. \<exists>g \<in> set ready. mf_return_view f \<noteq> mf_return_view g \<or> mf_reporting_currency f \<noteq> mf_reporting_currency g)
          then ''BLOCKED''
          else if ready = facts_of cid (pr_period_start q, pr_period_end q) facts then ''READY'' else ''DEGRADED'')"
  proof (intro ballI allI impI)
    fix q ready
    assume q: "q \<in> set (cr_period_results r)"
      and r: "ready = filter (\<lambda>f. mf_status f = ''READY'') (facts_of cid (pr_period_start q, pr_period_end q) facts)"
    have "pr_status q = (if \<not> linkable prec (facts_of cid (pr_period_start q, pr_period_end q) facts) then ''BLOCKED''
        else if list_all member_ready (facts_of cid (pr_period_start q, pr_period_end q) facts) then ''READY'' else ''DEGRADED'')"
      using al(2) [OF q] by (simp add: outcome_ok_def period_of_def)
    then show "pr_status q = (if ready = [] \<or> dec_sum prec (List.map mf_beginning_market_value ready) \<le> 0
            \<or> (\<exists>f \<in> set ready. \<exists>g \<in> set ready. mf_return_view f \<noteq> mf_return_view g \<or> mf_reporting_currency f \<noteq> mf_reporting_currency g)
          then ''BLOCKED''
          else if ready = facts_of cid (pr_period_start q, pr_period_end q) facts then ''READY'' else ''DEGRADED'')"
      unfolding link [OF r] all r [symmetric] not_not .
  qed
  have cum: "pr_cumulative_return q = None \<longleftrightarrow> \<not> is_calculated_composite_period q" if "q \<in> set (cr_period_results r)" for q
    using outcome_calculated [OF al(2) [OF that]] al(2) [OF that] by (simp add: outcome_ok_def)
  have status: "cr_status r = (if cr_period_results r = [] then ''BLOCKED'' else composite_calculation_status (cr_period_results r))"
    and cumul: "cr_cumulative_return r = terminal_cumulative (cr_period_results r)"
    using assms by (auto simp: calculate_Inr)
  show "cr_status r = ''READY'' \<longleftrightarrow> cr_period_results r \<noteq> [] \<and> (\<forall>q \<in> set (cr_period_results r). pr_status q = ''READY'')"
    by (auto simp: status composite_calculation_status_def)
  show "cr_status r = ''BLOCKED'' \<longleftrightarrow> cr_cumulative_return r = None"
    unfolding status cumul terminal_None composite_calculation_status_def
    using cum by (auto simp: is_calculated_composite_period_def neq_Nil_conv)
qed

section \<open>Blocked periods and excluded facts\<close>

lemma uncalculated_no_return:
  assumes "calculate_periods prec g groups = Inr (rs, codes)" "q \<in> set rs" "\<not> is_calculated_composite_period q"
  shows "pr_cumulative_return q = None"
proof -
  from list_all2_right [OF periods_aligned [OF assms(1)] assms(2)] obtain p fs where "outcome_ok prec p fs q"
    by (elim bexE) (simp only: split_paired_all prod.case)
  then show ?thesis using assms(3) outcome_calculated [of prec p fs q] by (simp add: outcome_ok_def)
qed

lemma terminal_skips_blocked:
  assumes "calculate_periods prec g groups = Inr (rs, codes)"
  shows "terminal_cumulative (filter is_calculated_composite_period rs) = terminal_cumulative rs"
proof -
  have "List.map_filter pr_cumulative_return (filter is_calculated_composite_period xs) = List.map_filter pr_cumulative_return xs"
    if "set xs \<subseteq> set rs" for xs
    using that uncalculated_no_return [OF assms] by (induction xs) (auto simp: List.map_filter_simps split: option.splits)
  then show ?thesis by (simp add: terminal_cumulative_def)
qed

lemma calculate_from_periods:
  "calculate_periods prec 1 (group_composite_member_return_facts cid facts) = Inr (rs, codes) \<Longrightarrow>
     \<exists>r. calculate_asset_weighted_composite_twr prec cid facts = Inr r \<and> cr_period_results r = rs
       \<and> cr_cumulative_return r = terminal_cumulative rs"
  by (auto simp: calculate_asset_weighted_composite_twr_def terminal_cumulative_def)

text \<open>C37: A blocked period leaves no trace in the numbers: dropping all facts of the blocked periods
  gives exactly the results of the calculated periods, unchanged and in order, and the same
  cumulative return.\<close>

theorem blocked_periods_do_not_link:
  assumes "calculate_asset_weighted_composite_twr prec cid facts = Inr r"
  shows "\<exists>r'. calculate_asset_weighted_composite_twr prec cid
        (filter (\<lambda>f. \<forall>q \<in> set (cr_period_results r). pr_status q = ''BLOCKED'' \<longrightarrow> period_of q \<noteq> fact_period f) facts) = Inr r'
     \<and> cr_period_results r' = filter is_calculated_composite_period (cr_period_results r)
     \<and> cr_cumulative_return r' = cr_cumulative_return r"
proof -
  define P where "P = (\<lambda>f. \<forall>q \<in> set (cr_period_results r). pr_status q = ''BLOCKED'' \<longrightarrow> period_of q \<noteq> fact_period f)"
  let ?G = "group_composite_member_return_facts cid facts"
  from assms obtain codes where run: "calculate_periods prec 1 ?G = Inr (cr_period_results r, codes)"
    and cumul: "cr_cumulative_return r = terminal_cumulative (cr_period_results r)" by (auto simp: calculate_Inr)
  have P: "P f \<longleftrightarrow> linkable prec fs" if "(p, fs) \<in> set ?G" "f \<in> set fs" for p fs f
  proof -
    have fs: "fs = facts_of cid p facts" and f: "fact_period f = p"
      using group_facts [OF that(1)] that(2) by (simp_all add: facts_of_def)
    have "p \<in> set (List.map period_of (cr_period_results r))"
      unfolding results_aligned(1) [OF assms] using that(1) by force
    then obtain q where q: "q \<in> set (cr_period_results r)" "period_of q = p" by auto
    have status: "pr_status q' = ''BLOCKED'' \<longleftrightarrow> \<not> linkable prec fs"
      if "q' \<in> set (cr_period_results r)" "period_of q' = p" for q'
      using results_aligned(2) [OF assms that(1)] that(2) by (simp add: outcome_ok_def fs)
    show ?thesis unfolding P_def f using q status by blast
  qed
  have "group_composite_member_return_facts cid (filter P facts) = List.map id (filter (\<lambda>(p, fs). linkable prec fs) ?G)"
    unfolding group_filter
  proof (rule map_cong)
    show "filter (\<lambda>(p, fs). \<exists>f \<in> set fs. P f) ?G = filter (\<lambda>(p, fs). linkable prec fs) ?G"
    proof (rule filter_cong [OF refl], clarify)
      fix p1 p2 fs assume G: "((p1, p2), fs) \<in> set ?G"
      then have "fs \<noteq> []" using group_facts by blast
      then show "(\<exists>f \<in> set fs. P f) = linkable prec fs" using P [OF G] by (auto simp: neq_Nil_conv)
    qed
    show "(case x of (p, fs) \<Rightarrow> (p, filter P fs)) = id x" if "x \<in> set (filter (\<lambda>(p, fs). linkable prec fs) ?G)" for x
      using that P by (auto simp: filter_id_conv)
  qed
  then obtain codes' where "calculate_periods prec 1 (group_composite_member_return_facts cid (filter P facts))
      = Inr (filter is_calculated_composite_period (cr_period_results r), codes')"
    using periods_skip_blocked [OF run] by auto
  from calculate_from_periods [OF this] show ?thesis
    unfolding P_def [symmetric] cumul terminal_skips_blocked [OF run] .
qed

lemma terminal_numbers: "List.map numbers rs = List.map numbers rs' \<Longrightarrow> terminal_cumulative rs = terminal_cumulative rs'"
proof -
  assume "List.map numbers rs = List.map numbers rs'"
  then have "List.map (fst \<circ> snd \<circ> snd) (List.map numbers rs) = List.map (fst \<circ> snd \<circ> snd) (List.map numbers rs')" by simp
  then have m: "List.map pr_cumulative_return rs = List.map pr_cumulative_return rs'" by (simp add: numbers_def comp_def)
  have mf: "List.map_filter pr_cumulative_return xs = List.map_filter id (List.map pr_cumulative_return xs)" for xs
    by (induction xs) (auto simp: List.map_filter_simps split: option.splits)
  show ?thesis unfolding terminal_cumulative_def mf m ..
qed

text \<open>
  Facts that are not ready enter no number: calculating from the ready facts alone gives the
  same calculated periods with the same returns, assets, dispersion, contributions, view and
  currency, and the same cumulative return.\<close>

theorem excluded_facts_carry_no_numbers:
  assumes "calculate_asset_weighted_composite_twr prec cid facts = Inr r"
  shows "\<exists>r'. calculate_asset_weighted_composite_twr prec cid (filter (\<lambda>f. mf_status f = ''READY'') facts) = Inr r'
     \<and> List.map numbers (filter is_calculated_composite_period (cr_period_results r'))
         = List.map numbers (filter is_calculated_composite_period (cr_period_results r))
     \<and> cr_cumulative_return r' = cr_cumulative_return r"
proof -
  let ?G = "group_composite_member_return_facts cid facts"
  let ?H = "group_composite_member_return_facts cid (filter member_ready facts)"
  have ready: "(\<lambda>f. mf_status f = ''READY'') = member_ready"
    by (auto simp: member_ready_def COMPOSITE_MEMBER_READY_STATUS_def)
  from assms obtain codes where run: "calculate_periods prec 1 ?G = Inr (cr_period_results r, codes)"
    and cumul: "cr_cumulative_return r = terminal_cumulative (cr_period_results r)" by (auto simp: calculate_Inr)
  obtain codes1 where "calculate_periods prec 1 (filter (\<lambda>(p, fs). linkable prec fs) ?G)
      = Inr (filter is_calculated_composite_period (cr_period_results r), codes1)"
    using periods_skip_blocked [OF run] by blast
  from linked_ready_only [OF this] obtain rs1 codes2 where
    run1: "calculate_periods prec 1 (List.map ready_only (filter (\<lambda>(p, fs). linkable prec fs) ?G)) = Inr (rs1, codes2)"
      "List.map numbers rs1 = List.map numbers (filter is_calculated_composite_period (cr_period_results r))"
    by (auto simp: list_all_iff)
  have H: "?H = List.map ready_only (filter (\<lambda>(p, fs). \<exists>f \<in> set fs. member_ready f) ?G)"
    unfolding group_filter by (rule map_cong) (auto simp: ready_only_pair)
  have "filter (\<lambda>(p, fs). linkable prec fs) ?H = List.map ready_only (filter (\<lambda>(p, fs). linkable prec fs) ?G)"
  proof -
    have link: "linkable prec (snd (ready_only x)) = linkable prec (snd x)" for x
      by (simp add: ready_only_def linkable_ready)
    have has: "linkable prec fs \<Longrightarrow> \<exists>f \<in> set fs. member_ready f" for fs
      by (auto simp: linkable_def Let_def filter_empty_conv)
    show ?thesis unfolding H filter_map comp_def case_prod_unfold link filter_filter
      by (rule arg_cong [where f = "List.map ready_only"], rule filter_cong) (use has in auto)
  qed
  moreover have "\<exists>x. calculate_periods prec 1 ?H = Inr x"
  proof -
    have "\<forall>(p, fs) \<in> set ?G. ending_known fs" using run calculate_periods_total by blast
    then show ?thesis unfolding calculate_periods_total H by (auto simp: ready_only_pair ending_known_def)
  qed
  then obtain rs' codes' where run': "calculate_periods prec 1 ?H = Inr (rs', codes')" by auto
  ultimately have rs1: "filter is_calculated_composite_period rs' = rs1"
    using periods_skip_blocked [OF run'] run1(1) by auto
  have "terminal_cumulative rs' = cr_cumulative_return r"
    using terminal_numbers [OF run1(2)] terminal_skips_blocked [OF run] terminal_skips_blocked [OF run']
    by (simp add: cumul rs1)
  with calculate_from_periods [OF run'] run1(2) rs1 show ?thesis unfolding ready by auto
qed

end
