(* ===== verification/Composite_Accuracy.thy ===== *)
theory Composite_Accuracy
  imports Composite_Safety "HOL-Library.Multiset"
begin

text \<open>
  How accurate the composite's decimal arithmetic is: with assets in millionths the assets of a
  period add up exactly, and the reported weights and contributions add up to their totals within
  one quantum per member.
\<close>

section \<open>Sums of rounded values\<close>

definition in_millionths :: "rat \<Rightarrow> bool" where
  "in_millionths v \<longleftrightarrow> (\<exists>k. v = of_int k * 10 powi (- 6))"

lemma in_millionths_add: "in_millionths a \<Longrightarrow> in_millionths b \<Longrightarrow> in_millionths (a + b)"
  unfolding in_millionths_def by (metis distrib_right of_int_add)

lemma precision_powi: "28 \<le> prec \<Longrightarrow> i \<le> j + int prec - 28 \<Longrightarrow> (10::rat) powi i \<le> 10 powi (j + int prec - 28)"
  by simp

lemma foldl_dec_add_exact:
  assumes "28 \<le> prec"
  shows "0 \<le> acc \<Longrightarrow> in_millionths acc \<Longrightarrow> list_all (\<lambda>v. 0 \<le> v \<and> in_millionths v) vs \<Longrightarrow> acc + sum_list vs < 10 powi 22 \<Longrightarrow>
    foldl (dec_add prec) acc vs = acc + sum_list vs"
proof (induction vs arbitrary: acc)
  case (Cons v vs)
  have nonneg: "0 \<le> sum_list vs" using Cons.prems(3) by (intro sum_list_nonneg) (auto simp: list_all_iff)
  obtain k where k: "acc + v = of_int k * 10 powi (- 6)"
    using in_millionths_add [of acc v] Cons.prems(2,3) by (auto simp: in_millionths_def)
  have "\<bar>acc + v\<bar> < 10 powi 22" using Cons.prems nonneg by simp
  also have "(10::rat) powi 22 \<le> 10 powi (- 6 + int prec)" using assms by (simp only: powi_le_iff)
  finally have "dec_add prec acc v = acc + v"
    unfolding dec_add_def by (rule ctx_round_exact [OF k])
  then show ?case using Cons.IH [of "acc + v"] Cons.prems by (simp add: in_millionths_add add.assoc)
qed simp

lemma dec_sum_exact:
  assumes "28 \<le> prec" "list_all (\<lambda>v. 0 \<le> v \<and> in_millionths v) vs" "sum_list vs < 10 powi 22"
  shows "dec_sum prec vs = sum_list vs"
proof -
  have "in_millionths 0" by (auto simp: in_millionths_def)
  with assms show ?thesis unfolding dec_sum_def by (subst foldl_dec_add_exact) auto
qed

lemma quantize_decimal_error: "0 < q \<Longrightarrow> \<bar>quantize_decimal v q - v\<bar> \<le> q / 2"
  using quantize_error [of q v] by (auto simp: quantize_decimal_def)

lemma triangle: "\<bar>b - c\<bar> \<le> x \<Longrightarrow> \<bar>a - b\<bar> \<le> y \<Longrightarrow> x + y \<le> z \<Longrightarrow> \<bar>a - c\<bar> \<le> (z::rat)"
  by linarith

lemma three_errors: "\<bar>p - s\<bar> \<le> a \<Longrightarrow> \<bar>f - s\<bar> \<le> b \<Longrightarrow> \<bar>q - f\<bar> \<le> c \<Longrightarrow> a + b + c \<le> d \<Longrightarrow> \<bar>p - q\<bar> \<le> (d::rat)"
  by linarith

lemma abs_step: "\<bar>d - (a + c)\<bar> \<le> e \<Longrightarrow> \<bar>c\<bar> \<le> b \<Longrightarrow> \<bar>a\<bar> + (b + 1) + r < m \<Longrightarrow> e \<le> 1 \<Longrightarrow> \<bar>d\<bar> + r < (m::rat)"
  by linarith

lemma fold_step: "\<bar>d - (a + c)\<bar> \<le> e \<Longrightarrow> \<bar>x - (d + s)\<bar> \<le> m \<Longrightarrow> m + e \<le> k \<Longrightarrow> \<bar>x - (a + (c + s))\<bar> \<le> (k::rat)"
  by linarith

lemma sum_list_divide: "sum_list (List.map (\<lambda>x. f x / c) xs) = sum_list (List.map f xs) / (c::rat)"
  by (induction xs) (simp_all add: add_divide_distrib)

lemma sum_error:
  fixes f g :: "'a \<Rightarrow> rat"
  assumes "\<And>x. x \<in> set xs \<Longrightarrow> \<bar>f x - g x\<bar> \<le> e"
  shows "\<bar>sum_list (List.map f xs) - sum_list (List.map g xs)\<bar> \<le> of_nat (length xs) * e"
  using assms
proof (induction xs)
  case (Cons x xs)
  have "\<bar>f x - g x\<bar> \<le> e" "\<bar>sum_list (List.map f xs) - sum_list (List.map g xs)\<bar> \<le> of_nat (length xs) * e"
    using Cons by auto
  then show ?case by (simp add: algebra_simps abs_le_iff)
qed simp

section \<open>Weights\<close>

lemma accumulate_contributions_eq:
  "accumulate_contributions prec assets w facts =
     (foldl (dec_add prec) w (List.map (member_contribution prec assets) facts),
      List.map (\<lambda>mf. member_contribution_of mf (member_weight prec assets mf) (member_contribution prec assets mf)) facts)"
  by (induction facts arbitrary: w) simp_all

lemma weight_error:
  assumes "28 \<le> prec" "0 < assets" "0 \<le> v" "v \<le> assets"
  shows "\<bar>dec_div prec v assets - v / assets\<bar> \<le> 1 / 10 ^ 27"
proof -
  have "\<bar>v / assets\<bar> \<le> 1" using assms by (simp add: divide_le_eq_1)
  also have "(1::rat) < 10 powi 1" by simp
  finally have "\<bar>dec_div prec v assets - v / assets\<bar> \<le> 10 powi (1 - int prec) / 2"
    unfolding dec_div_def by (rule ctx_round_error)
  also have "\<dots> \<le> 10 powi (- 27) / 2"
  proof -
    have "(10::rat) powi (1 - int prec) \<le> 10 powi (- 27)" using assms(1) by (simp only: powi_le_iff)
    then show ?thesis by simp
  qed
  also have "\<dots> \<le> (1::rat) / 10 ^ 27" by (simp add: power_int_def power_divide)
  finally show ?thesis .
qed

lemma sum_list_member_le:
  fixes f :: "'a \<Rightarrow> rat"
  assumes "\<And>x. x \<in> set xs \<Longrightarrow> 0 \<le> f x" "y \<in> set xs"
  shows "f y \<le> sum_list (List.map f xs)"
  using assms
proof (induction xs)
  case (Cons x xs)
  have "0 \<le> sum_list (List.map f xs)" using Cons.prems(1) by (intro sum_list_nonneg) auto
  then show ?case using Cons by fastforce
qed simp

lemma weights_add_up:
  assumes "28 \<le> prec" "\<And>mf. mf \<in> set ready \<Longrightarrow> 0 \<le> mf_beginning_market_value mf"
    and assets: "assets = sum_list (List.map mf_beginning_market_value ready)" "0 < assets"
  shows "\<bar>sum_list (List.map (\<lambda>mf. quantize_decimal (member_weight prec assets mf) COMPOSITE_RETURN_QUANTUM) ready) - 1\<bar>
    \<le> of_nat (length ready) / 10 ^ 12"
proof -
  have "\<bar>quantize_decimal (member_weight prec assets mf) COMPOSITE_RETURN_QUANTUM - mf_beginning_market_value mf / assets\<bar> \<le> 1 / 10 ^ 12"
    if "mf \<in> set ready" for mf
  proof -
    have "mf_beginning_market_value mf \<le> assets"
      unfolding assets(1) by (rule sum_list_member_le [OF assms(2) that])
    then have weight: "\<bar>member_weight prec assets mf - mf_beginning_market_value mf / assets\<bar> \<le> 1 / 10 ^ 27"
      unfolding member_weight_def using assms(1,2) that assets(2) by (intro weight_error) auto
    have quantum: "\<bar>quantize_decimal (member_weight prec assets mf) COMPOSITE_RETURN_QUANTUM - member_weight prec assets mf\<bar>
        \<le> COMPOSITE_RETURN_QUANTUM / 2"
      by (rule quantize_decimal_error) (simp add: COMPOSITE_RETURN_QUANTUM_def)
    show ?thesis by (rule triangle [OF weight quantum]) (simp add: COMPOSITE_RETURN_QUANTUM_def)
  qed
  then have "\<bar>sum_list (List.map (\<lambda>mf. quantize_decimal (member_weight prec assets mf) COMPOSITE_RETURN_QUANTUM) ready)
      - sum_list (List.map (\<lambda>mf. mf_beginning_market_value mf / assets) ready)\<bar> \<le> of_nat (length ready) * (1 / 10 ^ 12)"
    by (rule sum_error)
  moreover have "sum_list (List.map (\<lambda>mf. mf_beginning_market_value mf / assets) ready) = 1"
    using assets by (simp add: sum_list_divide)
  ultimately show ?thesis by simp
qed

section \<open>Contributions\<close>

lemma contribution_bound:
  assumes "28 \<le> prec" "\<bar>mf_return_value mf\<bar> \<le> 10 ^ 4" "\<bar>member_weight prec assets mf\<bar> \<le> 2"
  shows "\<bar>member_contribution prec assets mf\<bar> \<le> 10 ^ 5"
proof -
  have "\<bar>mf_return_value mf * member_weight prec assets mf\<bar> \<le> 10 ^ 4 * 2"
    unfolding abs_mult using assms(2,3) by (intro mult_mono) auto
  moreover have "\<bar>member_contribution prec assets mf - mf_return_value mf * member_weight prec assets mf\<bar> \<le> 10 powi (5 - int prec) / 2"
    unfolding member_contribution_def dec_mul_def
    by (rule ctx_round_error) (use calculation in simp)
  moreover have "(10::rat) powi (5 - int prec) \<le> 10 powi 0" using assms(1) by (simp only: powi_le_iff)
  ultimately show ?thesis by (simp, linarith)
qed

lemma foldl_dec_add_error:
  assumes "28 \<le> prec"
  shows "(\<And>c. c \<in> set cs \<Longrightarrow> \<bar>c\<bar> \<le> 10 ^ 5) \<Longrightarrow> \<bar>acc\<bar> + of_nat (length cs) * (10 ^ 5 + 1) < 10 ^ 12 \<Longrightarrow>
    \<bar>foldl (dec_add prec) acc cs - (acc + sum_list cs)\<bar> \<le> of_nat (length cs) * (1 / 10 ^ 16)"
proof (induction cs arbitrary: acc)
  case (Cons c cs)
  have c: "\<bar>c\<bar> \<le> 10 ^ 5" using Cons.prems(1) by simp
  have small: "\<bar>acc + c\<bar> < 10 powi 12"
    using c Cons.prems(2) by (simp add: algebra_simps)
  have "\<bar>dec_add prec acc c - (acc + c)\<bar> \<le> 10 powi (12 - int prec) / 2"
    unfolding dec_add_def by (rule ctx_round_error [OF small])
  also have "\<dots> \<le> 10 powi (- 16) / 2"
  proof -
    have "(10::rat) powi (12 - int prec) \<le> 10 powi (- 16)" using assms by (simp only: powi_le_iff)
    then show ?thesis by simp
  qed
  also have "\<dots> \<le> (1::rat) / 10 ^ 16" by (simp add: power_int_def power_divide)
  finally have step: "\<bar>dec_add prec acc c - (acc + c)\<bar> \<le> 1 / 10 ^ 16" .
  have "\<bar>dec_add prec acc c\<bar> + of_nat (length cs) * (10 ^ 5 + 1) < 10 ^ 12"
    by (rule abs_step [OF step c]) (use Cons.prems(2) in \<open>simp_all add: algebra_simps\<close>)
  with Cons.prems(1) have "\<bar>foldl (dec_add prec) (dec_add prec acc c) cs - (dec_add prec acc c + sum_list cs)\<bar>
      \<le> of_nat (length cs) * (1 / 10 ^ 16)"
    by (intro Cons.IH) auto
  from step this show ?case
    unfolding foldl.simps sum_list.Cons by (rule fold_step) (simp add: algebra_simps)
qed simp

lemma contributions_add_up:
  assumes "28 \<le> prec" "length facts \<le> 10 ^ 6"
    and bounds: "\<And>mf. mf \<in> set facts \<Longrightarrow> \<bar>mf_return_value mf\<bar> \<le> 10 ^ 4 \<and> \<bar>member_weight prec assets mf\<bar> \<le> 2"
  shows "\<bar>sum_list (List.map (\<lambda>mf. quantize_decimal (member_contribution prec assets mf) COMPOSITE_RETURN_QUANTUM) facts)
      - quantize_decimal (foldl (dec_add prec) 0 (List.map (member_contribution prec assets) facts)) COMPOSITE_RETURN_QUANTUM\<bar>
    \<le> of_nat (length facts + 1) / 10 ^ 12"
proof -
  let ?n = "of_nat (length facts) :: rat" and ?q = "COMPOSITE_RETURN_QUANTUM"
  let ?cs = "List.map (member_contribution prec assets) facts"
  have q: "0 < ?q" "?q = 1 / 10 ^ 12" by (simp_all add: COMPOSITE_RETURN_QUANTUM_def)
  have n: "?n \<le> 10 ^ 6" using assms(2) by (metis of_nat_le_iff of_nat_numeral of_nat_power)
  have parts: "\<bar>sum_list (List.map (\<lambda>mf. quantize_decimal (member_contribution prec assets mf) ?q) facts) - sum_list ?cs\<bar> \<le> ?n * (?q / 2)"
    by (rule sum_error) (rule quantize_decimal_error [OF q(1)])
  have small: "\<bar>c\<bar> \<le> 10 ^ 5" if "c \<in> set ?cs" for c
  proof -
    from that obtain mf where "mf \<in> set facts" "c = member_contribution prec assets mf" by auto
    then show ?thesis using contribution_bound [OF assms(1), of mf assets] bounds by blast
  qed
  have "\<bar>foldl (dec_add prec) 0 ?cs - (0 + sum_list ?cs)\<bar> \<le> of_nat (length ?cs) * (1 / 10 ^ 16)"
    by (rule foldl_dec_add_error [OF assms(1) small]) (use n in \<open>auto\<close>)
  then have whole: "\<bar>foldl (dec_add prec) 0 ?cs - sum_list ?cs\<bar> \<le> ?n * (1 / 10 ^ 16)" by simp
  have last: "\<bar>quantize_decimal (foldl (dec_add prec) 0 ?cs) ?q - foldl (dec_add prec) 0 ?cs\<bar> \<le> ?q / 2"
    by (rule quantize_decimal_error [OF q(1)])
  show ?thesis by (rule three_errors [OF parts whole last]) (simp add: q(2) field_simps)
qed

section \<open>The reported parts of a period\<close>

lemma periods_computed:
  "calculate_periods prec g groups = Inr (rs, codes) \<Longrightarrow>
     list_all2 (\<lambda>(p, facts) r. \<exists>g. r = pc_period_result (calculate_composite_period_result prec (fact_set prec p facts) g)) groups rs"
proof (induction groups arbitrary: g rs codes)
  case (Cons pf groups)
  obtain p facts where pf: "pf = (p, facts)" by (cases pf)
  from Cons.prems [unfolded pf] show ?case
    by (cases rule: calculate_periods_step) (auto simp: pf Cons.IH)
qed simp

lemma period_parts:
  assumes "calculate_asset_weighted_composite_twr prec cid facts = Inr r"
    "q \<in> set (cr_period_results r)" "is_calculated_composite_period q"
  defines "ready \<equiv> filter member_ready (facts_of cid (period_of q) facts)"
  defines "assets \<equiv> dec_sum prec (List.map mf_beginning_market_value ready)"
  shows "pr_member_count q = length ready" "0 < assets"
    "List.map mc_weight (pr_member_contributions q)
       = List.map (\<lambda>mf. quantize_decimal (member_weight prec assets mf) COMPOSITE_RETURN_QUANTUM) (sort_key mf_portfolio_id ready)"
    "List.map mc_contribution (pr_member_contributions q)
       = List.map (\<lambda>mf. quantize_decimal (member_contribution prec assets mf) COMPOSITE_RETURN_QUANTUM) (sort_key mf_portfolio_id ready)"
    "pr_return_value q = Some (quantize_decimal
        (foldl (dec_add prec) 0 (List.map (member_contribution prec assets) (sort_key mf_portfolio_id ready))) COMPOSITE_RETURN_QUANTUM)"
proof -
  from assms(1) obtain codes where
    "calculate_periods prec 1 (group_composite_member_return_facts cid facts) = Inr (cr_period_results r, codes)"
    by (auto simp: calculate_Inr)
  from list_all2_right [OF periods_computed [OF this] assms(2)] obtain p fs g where
    G: "(p, fs) \<in> set (group_composite_member_return_facts cid facts)"
    and q: "q = pc_period_result (calculate_composite_period_result prec (fact_set prec p fs) g)"
    by (elim bexE) (simp only: split_paired_all prod.case, blast)
  have p: "period_of q = p" using calculate_period_outcome(1) [OF refl, of prec p fs g] by (simp add: q outcome_ok_def)
  have fs: "facts_of cid (period_of q) facts = fs" using group_facts [OF G] by (simp add: p facts_of_def)
  have link: "linkable prec fs"
    using assms(3) outcome_calculated [OF calculate_period_outcome(1) [OF refl, of prec p fs g]] by (simp add: q)
  then have none: "blocked_invalid_ready_period_result (fact_set prec p fs) = None" by (simp add: blocked_iff)
  have ready: "ready = filter member_ready fs" unfolding ready_def fs ..
  then show "0 < assets" using link by (simp add: linkable_def Let_def assets_def)
  note unfold = q none link_period_alt calculate_composite_period_result_def build_ready_composite_period_result_def
    build_ready_member_contributions_def accumulate_contributions_eq ready_period_result_def member_contribution_of_def Let_def ready assets_def
  show "pr_member_count q = length ready"
    "List.map mc_weight (pr_member_contributions q)
       = List.map (\<lambda>mf. quantize_decimal (member_weight prec assets mf) COMPOSITE_RETURN_QUANTUM) (sort_key mf_portfolio_id ready)"
    "List.map mc_contribution (pr_member_contributions q)
       = List.map (\<lambda>mf. quantize_decimal (member_contribution prec assets mf) COMPOSITE_RETURN_QUANTUM) (sort_key mf_portfolio_id ready)"
    "pr_return_value q = Some (quantize_decimal
        (foldl (dec_add prec) 0 (List.map (member_contribution prec assets) (sort_key mf_portfolio_id ready))) COMPOSITE_RETURN_QUANTUM)"
    by (simp_all add: unfold)
qed

text \<open>With the default precision of 28 digits or more, member assets in millionths
  that total less than 10 to the 22, returns of at most 10000 in size and at most a million members,
  the reported weights of a calculated period add up to one, and its reported contributions to its
  reported return, within one quantum (10 to the -12) per member and one more for the return.\<close>

theorem parts_add_up:
  assumes run: "calculate_asset_weighted_composite_twr prec cid facts = Inr r"
    and q: "q \<in> set (cr_period_results r)" "is_calculated_composite_period q"
    and prec: "28 \<le> prec" and facts: "\<forall>f \<in> set facts. 0 \<le> mf_beginning_market_value f
        \<and> in_millionths (mf_beginning_market_value f) \<and> \<bar>mf_return_value f\<bar> \<le> 10 ^ 4"
    and size: "pr_member_count q \<le> 10 ^ 6" "sum_list (List.map mf_beginning_market_value facts) < 10 ^ 22"
  shows "(\<bar>sum_list (List.map mc_weight (pr_member_contributions q)) - 1\<bar> \<le> of_nat (pr_member_count q) / 10 ^ 12)
    \<and> (\<bar>sum_list (List.map mc_contribution (pr_member_contributions q)) - the (pr_return_value q)\<bar>
       \<le> of_nat (pr_member_count q + 1) / 10 ^ 12)"
proof (rule conjI)
  define ready where "ready = filter member_ready (facts_of cid (period_of q) facts)"
  define assets where "assets = dec_sum prec (List.map mf_beginning_market_value ready)"
  define members where "members = sort_key mf_portfolio_id ready"
  note parts = period_parts [OF run q, folded ready_def, folded assets_def, folded members_def]
  have sub: "set ready \<subseteq> set facts" by (auto simp: ready_def facts_of_def)
  have len: "length members = pr_member_count q" by (simp add: parts(1) members_def)
  have part: "sum_list (List.map mf_beginning_market_value (filter P xs)) \<le> sum_list (List.map mf_beginning_market_value xs)"
    if "set xs \<subseteq> set facts" for P xs
    using that facts by (induction xs) (auto simp: add_increasing)
  have "sum_list (List.map mf_beginning_market_value ready) \<le> sum_list (List.map mf_beginning_market_value facts)"
    unfolding ready_def facts_of_def filter_filter by (rule part) simp
  then have small: "sum_list (List.map mf_beginning_market_value ready) < 10 powi 22" using size(2) by simp
  have assets: "assets = sum_list (List.map mf_beginning_market_value members)"
    unfolding assets_def
  proof (subst dec_sum_exact [OF prec _ small])
    show "list_all (\<lambda>v. 0 \<le> v \<and> in_millionths v) (List.map mf_beginning_market_value ready)"
      using facts sub by (auto simp: list_all_iff)
    have "mset (List.map mf_beginning_market_value ready) = mset (List.map mf_beginning_market_value members)"
      by (simp add: members_def)
    then show "sum_list (List.map mf_beginning_market_value ready) = sum_list (List.map mf_beginning_market_value members)"
      by (metis sum_mset_sum_list)
  qed
  have members: "set members \<subseteq> set facts" using sub by (simp add: members_def)
  have nonneg: "0 \<le> mf_beginning_market_value mf" if "mf \<in> set members" for mf
    using that members facts by auto
  show "\<bar>sum_list (List.map mc_weight (pr_member_contributions q)) - 1\<bar> \<le> of_nat (pr_member_count q) / 10 ^ 12"
    unfolding parts(3) len [symmetric] by (rule weights_add_up [OF prec nonneg assets parts(2)])
  have weight: "\<bar>member_weight prec assets mf\<bar> \<le> 2" if mf: "mf \<in> set members" for mf
  proof -
    have le: "mf_beginning_market_value mf \<le> assets" unfolding assets by (rule sum_list_member_le [OF nonneg mf])
    then have "\<bar>member_weight prec assets mf - mf_beginning_market_value mf / assets\<bar> \<le> 1 / 10 ^ 27"
      unfolding member_weight_def by (rule weight_error [OF prec parts(2) nonneg [OF mf]])
    moreover have "0 \<le> mf_beginning_market_value mf / assets" "mf_beginning_market_value mf / assets \<le> 1"
      using le nonneg [OF mf] parts(2) by (simp_all add: divide_le_eq_1)
    moreover have "(1::rat) / 10 ^ 27 \<le> 1" by simp
    ultimately show ?thesis by linarith
  qed
  have "\<bar>sum_list (List.map (\<lambda>mf. quantize_decimal (member_contribution prec assets mf) COMPOSITE_RETURN_QUANTUM) members)
      - quantize_decimal (foldl (dec_add prec) 0 (List.map (member_contribution prec assets) members)) COMPOSITE_RETURN_QUANTUM\<bar>
    \<le> of_nat (length members + 1) / 10 ^ 12"
    by (rule contributions_add_up [OF prec]) (use size(1) len weight members facts in auto)
  then show "\<bar>sum_list (List.map mc_contribution (pr_member_contributions q)) - the (pr_return_value q)\<bar>
       \<le> of_nat (pr_member_count q + 1) / 10 ^ 12"
    unfolding parts(4,5) len option.sel .
qed

end
