(* ===== verification/Composite_Witnesses.thy ===== *)
theory Composite_Witnesses
  imports Composite_Accuracy
begin

text \<open>
  The properties of the composite calculation on concrete facts: two ready members and an
  excluded one in January, an excluded one alone in February, and one ready member in March.
\<close>

definition demo_fact :: "string \<Rightarrow> int \<Rightarrow> int \<Rightarrow> rat \<Rightarrow> rat \<Rightarrow> string \<Rightarrow> composite_member_return_fact" where
  "demo_fact portfolio m last_day ret assets status =
     \<lparr>mf_composite_id = ''C'', mf_portfolio_id = portfolio, mf_period_start = Date 2026 m 1,
      mf_period_end = Date 2026 m last_day, mf_return_value = ret, mf_return_view = ''GROSS'',
      mf_beginning_market_value = assets, mf_ending_market_value = Some assets, mf_reporting_currency = ''USD'',
      mf_calculation_id = None, mf_source_snapshot_id = portfolio, mf_source_fingerprint = portfolio,
      mf_restatement_version = ''v1'', mf_restatement_sequence = 1, mf_status = status,
      mf_reason_codes = (if status = ''READY'' then [] else [''stale'']), mf_source_authority_identity = None\<rparr>"

definition demo_facts_list :: "composite_member_return_fact list" where
  "demo_facts_list = [demo_fact ''B'' 1 31 (1 / 50) 300 ''READY'', demo_fact ''A'' 1 31 (1 / 50) 100 ''READY'',
     demo_fact ''X'' 1 31 (1 / 2) 900 ''STALE'', demo_fact ''A'' 2 28 (1 / 100) 100 ''STALE'',
     demo_fact ''A'' 3 31 (- 1 / 100) 300 ''READY'']"

definition january :: composite_period_fact_set where
  "january = projr (build_composite_period_fact_set 6 (Date 2026 1 1) (Date 2026 1 31) (take 3 demo_facts_list))"

definition february :: composite_period_fact_set where
  "february = projr (build_composite_period_fact_set 6 (Date 2026 2 1) (Date 2026 2 28) [demo_facts_list ! 3])"

definition march :: composite_period_fact_set where
  "march = projr (build_composite_period_fact_set 6 (Date 2026 3 1) (Date 2026 3 31) [demo_facts_list ! 4])"

lemma demo_groups: "group_composite_member_return_facts ''C'' demo_facts_list =
    [((Date 2026 1 1, Date 2026 1 31), take 3 demo_facts_list), ((Date 2026 2 1, Date 2026 2 28), [demo_facts_list ! 3]),
     ((Date 2026 3 1, Date 2026 3 31), [demo_facts_list ! 4])]"
  by code_simp

lemma demo_fact_sets:
  "build_composite_period_fact_set 6 (Date 2026 1 1) (Date 2026 1 31) (take 3 demo_facts_list) = Inr january"
  "build_composite_period_fact_set 6 (Date 2026 2 1) (Date 2026 2 28) [demo_facts_list ! 3] = Inr february"
  "build_composite_period_fact_set 6 (Date 2026 3 1) (Date 2026 3 31) [demo_facts_list ! 4] = Inr march"
  by code_simp+

lemma demo_growth:
  "pc_cumulative_growth (calculate_composite_period_result 6 january 1) = 51 / 50"
  "pc_cumulative_growth (calculate_composite_period_result 6 february (51 / 50)) = 51 / 50"
  by code_simp+

definition january_result :: composite_period_result where
  "january_result = pc_period_result (calculate_composite_period_result 6 january 1)"

definition february_result :: composite_period_result where
  "february_result = pc_period_result (calculate_composite_period_result 6 february (51 / 50))"

definition march_result :: composite_period_result where
  "march_result = pc_period_result (calculate_composite_period_result 6 march (51 / 50))"

lemma demo_statuses: "pr_status january_result = ''DEGRADED''" "pr_status february_result = ''BLOCKED''" "pr_status march_result = ''READY''"
  by code_simp+

lemma demo_periods: "period_of january_result = (Date 2026 1 1, Date 2026 1 31)"
    "period_of february_result = (Date 2026 2 1, Date 2026 2 28)" "period_of march_result = (Date 2026 3 1, Date 2026 3 31)"
  by code_simp+

lemma demo_cumulative: "pr_cumulative_return january_result = Some (1 / 50)"
    "pr_cumulative_return february_result = None" "pr_cumulative_return march_result = Some (49 / 5000)"
  by code_simp+

definition demo_results :: "composite_period_result list" where
  "demo_results = [january_result, february_result, march_result]"

lemma demo_result_values:
  "List.map pr_status demo_results = [''DEGRADED'', ''BLOCKED'', ''READY'']"
  "List.map period_of demo_results = [(Date 2026 1 1, Date 2026 1 31), (Date 2026 2 1, Date 2026 2 28), (Date 2026 3 1, Date 2026 3 31)]"
  "terminal_cumulative demo_results = Some (49 / 5000)"
  by (simp_all add: demo_results_def demo_statuses demo_periods demo_cumulative terminal_cumulative_def List.map_filter_simps)

definition demo_composite :: composite_calculation_result where
  "demo_composite = projr (calculate_asset_weighted_composite_twr 6 ''C'' demo_facts_list)"

lemma demo_run: "\<exists>codes. calculate_periods 6 1 (group_composite_member_return_facts ''C'' demo_facts_list) = Inr (demo_results, codes)"
  unfolding demo_groups calculate_periods.simps demo_fact_sets sum.case demo_growth
  by (simp add: demo_results_def january_result_def february_result_def march_result_def)

lemma demo_composite:
  "calculate_asset_weighted_composite_twr 6 ''C'' demo_facts_list = Inr demo_composite"
  "cr_period_results demo_composite = demo_results"
  "cr_cumulative_return demo_composite = Some (49 / 5000)"
proof -
  obtain codes where run: "calculate_periods 6 1 (group_composite_member_return_facts ''C'' demo_facts_list) = Inr (demo_results, codes)"
    using demo_run by blast
  have "demo_results \<noteq> []" by (simp add: demo_results_def)
  then show "calculate_asset_weighted_composite_twr 6 ''C'' demo_facts_list = Inr demo_composite"
    "cr_period_results demo_composite = demo_results" "cr_cumulative_return demo_composite = Some (49 / 5000)"
    by (simp_all add: demo_composite_def calculate_asset_weighted_composite_twr_def run demo_result_values)
qed

lemmas demo_values = demo_result_values [folded demo_composite(2)]

theorem composite_period_outcomes_witness:
  "calculate_asset_weighted_composite_twr 6 ''C'' demo_facts_list = Inr demo_composite
   \<and> List.map (\<lambda>q. (pr_period_start q, pr_period_end q)) (cr_period_results demo_composite)
      = [(Date 2026 1 1, Date 2026 1 31), (Date 2026 2 1, Date 2026 2 28), (Date 2026 3 1, Date 2026 3 31)]
   \<and> cr_status demo_composite \<noteq> ''BLOCKED''"
proof -
  have "sort (remdups (List.map fact_period (filter (\<lambda>f. mf_composite_id f = ''C'') demo_facts_list)))
      = [(Date 2026 1 1, Date 2026 1 31), (Date 2026 2 1, Date 2026 2 28), (Date 2026 3 1, Date 2026 3 31)]" by code_simp
  with composite_period_outcomes [OF demo_composite(1)] demo_composite(1,3) show ?thesis by simp
qed

theorem blocked_periods_do_not_link_witness:
  "\<exists>r'. calculate_asset_weighted_composite_twr 6 ''C''
        (filter (\<lambda>f. fact_period f \<noteq> (Date 2026 2 1, Date 2026 2 28)) demo_facts_list) = Inr r'
     \<and> List.map pr_status (cr_period_results r') = [''DEGRADED'', ''READY''] \<and> cr_cumulative_return r' = Some (49 / 5000)"
proof -
  have q: "\<exists>q1 q2 q3. cr_period_results demo_composite = [q1, q2, q3]
      \<and> pr_status q1 = ''DEGRADED'' \<and> pr_status q2 = ''BLOCKED'' \<and> pr_status q3 = ''READY''"
    using demo_values(1) by (auto simp: Cons_eq_map_conv map_eq_Cons_conv)
  from q demo_values(2) show ?thesis using blocked_periods_do_not_link [OF demo_composite(1)] demo_composite(3)
    by (force simp: is_calculated_composite_period_def eq_commute)
qed

theorem excluded_facts_carry_no_numbers_witness:
  "\<exists>r'. calculate_asset_weighted_composite_twr 6 ''C'' (filter (\<lambda>f. mf_status f = ''READY'') demo_facts_list) = Inr r'
     \<and> cr_cumulative_return r' = Some (49 / 5000)"
  using excluded_facts_carry_no_numbers [OF demo_composite(1)] demo_composite(3) by auto

text \<open>With the default precision the two ready members of January are divided.\<close>

lemma january_default:
  obtains r q where "calculate_asset_weighted_composite_twr 28 ''C'' demo_facts_list = Inr r"
    "q \<in> set (cr_period_results r)" "is_calculated_composite_period q" "pr_member_count q = 2"
proof -
  have "\<forall>(p, facts) \<in> set (group_composite_member_return_facts ''C'' demo_facts_list). ending_known facts"
    unfolding demo_groups by code_simp
  then obtain rs codes where "calculate_periods 28 1 (group_composite_member_return_facts ''C'' demo_facts_list) = Inr (rs, codes)"
    unfolding calculate_periods_total [symmetric, of _ 28 1] by force
  from calculate_from_periods [OF this] obtain r where r: "calculate_asset_weighted_composite_twr 28 ''C'' demo_facts_list = Inr r" by blast
  have "(Date 2026 1 1, Date 2026 1 31) \<in> set (List.map period_of (cr_period_results r))"
    unfolding results_aligned(1) [OF r] demo_groups by simp
  then obtain q where q: "q \<in> set (cr_period_results r)" "period_of q = (Date 2026 1 1, Date 2026 1 31)" by auto
  have "linkable 28 (facts_of ''C'' (Date 2026 1 1, Date 2026 1 31) demo_facts_list)" by code_simp
  then have calc: "is_calculated_composite_period q"
    using results_aligned(2) [OF r q(1)] by (simp add: outcome_calculated q(2))
  have "length (filter member_ready (facts_of ''C'' (Date 2026 1 1, Date 2026 1 31) demo_facts_list)) = 2" by code_simp
  then have "pr_member_count q = 2" using period_parts(1) [OF r q(1) calc] by (simp add: q(2))
  with that r q(1) calc show thesis by blast
qed

theorem parts_add_up_witness:
  "\<exists>r q. calculate_asset_weighted_composite_twr 28 ''C'' demo_facts_list = Inr r \<and> q \<in> set (cr_period_results r)
     \<and> \<bar>sum_list (List.map mc_weight (pr_member_contributions q)) - 1\<bar> \<le> 2 / 10 ^ 12"
proof -
  obtain r q where r: "calculate_asset_weighted_composite_twr 28 ''C'' demo_facts_list = Inr r"
    and q: "q \<in> set (cr_period_results r)" "is_calculated_composite_period q" "pr_member_count q = 2"
    by (rule january_default)
  have "in_millionths 100" "in_millionths 300" "in_millionths 900"
    unfolding in_millionths_def
    by (rule exI [of _ "100 * 10 ^ 6"] exI [of _ "300 * 10 ^ 6"] exI [of _ "900 * 10 ^ 6"], simp add: power_int_minus)+
  then have "\<forall>f \<in> set demo_facts_list. 0 \<le> mf_beginning_market_value f
      \<and> in_millionths (mf_beginning_market_value f) \<and> \<bar>mf_return_value f\<bar> \<le> 10 ^ 4"
    by (auto simp: demo_facts_list_def demo_fact_def)
  moreover have "sum_list (List.map mf_beginning_market_value demo_facts_list) < 10 ^ 22"
    by (simp add: demo_facts_list_def demo_fact_def)
  ultimately show ?thesis using parts_add_up [THEN conjunct1, OF r q(1,2)] r q by fastforce
qed

end
