(* ===== verification/Async_Results.thy ===== *)
theory Async_Results
  imports Compute_Jobs
begin

text \<open>
  The asynchronous result store (src/app/services/async_result_store.py) with the triggers that
  guard composite originals (src/app/adapters/composite_result_custody_schema.py): publication of
  results and failures, the immutable composite originals, retention and reading.
\<close>

section \<open>The table and its guards\<close>

definition get_result_row :: "uuid \<Rightarrow> database \<Rightarrow> result_row option" where
  "get_result_row k db = tbl_get ar_calculation_id k (db_results db)"

definition add_result :: "result_row \<Rightarrow> database \<Rightarrow> database" where
  "add_result r db = db\<lparr>db_results := tbl_add r (db_results db)\<rparr>"

definition update_result :: "uuid \<Rightarrow> (result_row \<Rightarrow> result_row) \<Rightarrow> database \<Rightarrow> database" where
  "update_result k f db = db\<lparr>db_results := tbl_upd ar_calculation_id k f (db_results db)\<rparr>"

definition drop_result_row :: "uuid \<Rightarrow> database \<Rightarrow> database" where
  "drop_result_row k db = db\<lparr>db_results := tbl_del ar_calculation_id k (db_results db)\<rparr>"

lemmas result_ops = get_result_row_def add_result_def update_result_def drop_result_row_def

interpretation results: keyed_store ar_calculation_id get_result_row add_result update_result drop_result_row
  "\<lambda>db. tbl_ok ar_calculation_id (db_results db)"
  unfolding result_ops [abs_def]
  by (rule keyed_store_in_state [where put = "\<lambda>t db. db\<lparr>db_results := t\<rparr>"]) simp

definition COMPOSITE_CAPTURE_ANALYTICS_TYPE :: string where
  "COMPOSITE_CAPTURE_ANALYTICS_TYPE = ''COMPOSITE_TWR_CANDIDATE''"

definition COMPOSITE_POOLED_ANALYTICS_TYPE :: string where
  "COMPOSITE_POOLED_ANALYTICS_TYPE = ''COMPOSITE_POOLED_MWR''"

definition COMPOSITE_ATTRIBUTION_ANALYTICS_TYPE :: string where
  "COMPOSITE_ATTRIBUTION_ANALYTICS_TYPE = ''COMPOSITE_ATTRIBUTION''"

definition COMPOSITE_PROTECTED_RESULT_TYPES :: "string list" where
  "COMPOSITE_PROTECTED_RESULT_TYPES =
     [COMPOSITE_CAPTURE_ANALYTICS_TYPE, COMPOSITE_POOLED_ANALYTICS_TYPE, COMPOSITE_ATTRIBUTION_ANALYTICS_TYPE]"

definition protected_row :: "result_row \<Rightarrow> bool" where
  "protected_row r \<longleftrightarrow> ar_analytics_type r \<in> set COMPOSITE_PROTECTED_RESULT_TYPES"

text \<open>The triggers: an update from or to a protected row, and its deletion, abort the statement.\<close>

definition composite_result_custody_guard :: "result_row \<Rightarrow> result_row option \<Rightarrow> store_error + unit" where
  "composite_result_custody_guard old new =
     ensure (\<not> protected_row old \<and> (case new of None \<Rightarrow> True | Some r \<Rightarrow> \<not> protected_row r)) IntegrityError"

definition merge_result :: "result_row \<Rightarrow> database \<Rightarrow> store_error + database" where
  "merge_result row db =
     (case get_result_row (ar_calculation_id row) db of
        None \<Rightarrow> Inr (add_result row db)
      | Some old \<Rightarrow> bind_res (composite_result_custody_guard old (Some row)) (\<lambda>_.
          Inr (update_result (ar_calculation_id row) (\<lambda>_. row) db)))"

section \<open>Publication\<close>

definition require_generic_result_purpose :: "string \<Rightarrow> store_error + unit" where
  "require_generic_result_purpose analytics_type =
     (if analytics_type \<in> {COMPOSITE_POOLED_ANALYTICS_TYPE, COMPOSITE_ATTRIBUTION_ANALYTICS_TYPE}
        then Inl (CaptureAdmissionRequired (''Composite analytical originals require active-claim '' @
          ''transactional publication; operational failures remain in the job registry.''))
      else if analytics_type = COMPOSITE_CAPTURE_ANALYTICS_TYPE
        then Inl (CaptureAdmissionRequired ''Composite originals require atomic candidate capture admission.'')
      else Inr ())"

definition require_matching_existing_tenant :: "uuid \<Rightarrow> string option \<Rightarrow> database \<Rightarrow> store_error + unit" where
  "require_matching_existing_tenant calculation_id tenant db =
     (case get_result_row calculation_id db of
        None \<Rightarrow> Inr ()
      | Some existing \<Rightarrow> ensure (ar_tenant_id existing = tenant)
          (ResultTenantConflict (''Async result '' @ calculation_id @ '' belongs to a different tenant authority.'')))"

definition success_row :: "uuid \<Rightarrow> string option \<Rightarrow> string \<Rightarrow> json_dict \<Rightarrow> instant \<Rightarrow> result_row" where
  "success_row calculation_id tenant analytics_type response_payload now =
     \<lparr>ar_calculation_id = calculation_id, ar_tenant_id = tenant, ar_analytics_type = analytics_type,
      ar_result_status = RComplete, ar_response_json = Some (dumps_dict response_payload),
      ar_error_message = None, ar_error_type = None, ar_failure_json = None,
      ar_created_at_utc = now, ar_updated_at_utc = now\<rparr>"

definition record_success ::
    "uuid \<Rightarrow> string \<Rightarrow> json_dict \<Rightarrow> string option \<Rightarrow> instant \<Rightarrow> database \<Rightarrow> store_error + unit \<times> database" where
  "record_success calculation_id analytics_type response_payload tenant now db =
     bind_res (require_generic_result_purpose analytics_type) (\<lambda>_.
     let canonical_tenant_id = map_option strip tenant in
     bind_res (require_matching_existing_tenant calculation_id canonical_tenant_id db) (\<lambda>_.
     bind_res (merge_result (success_row calculation_id canonical_tenant_id analytics_type response_payload now) db)
       (\<lambda>db'. Inr ((), db'))))"

definition failure_row ::
    "uuid \<Rightarrow> string option \<Rightarrow> string \<Rightarrow> string \<Rightarrow> string option \<Rightarrow> durable_failure_classification option
      \<Rightarrow> instant \<Rightarrow> instant \<Rightarrow> result_row" where
  "failure_row calculation_id tenant analytics_type error_message error_type failure created_at now =
     \<lparr>ar_calculation_id = calculation_id, ar_tenant_id = tenant, ar_analytics_type = analytics_type,
      ar_result_status = RFailed, ar_response_json = None, ar_error_message = Some error_message,
      ar_error_type = error_type, ar_failure_json = map_option to_json failure,
      ar_created_at_utc = created_at, ar_updated_at_utc = now\<rparr>"

definition record_failure ::
    "uuid \<Rightarrow> string \<Rightarrow> string \<Rightarrow> string option \<Rightarrow> string option \<Rightarrow> durable_failure_classification option
      \<Rightarrow> instant \<Rightarrow> database \<Rightarrow> store_error + unit \<times> database" where
  "record_failure calculation_id analytics_type error_message error_type tenant failure now db =
     bind_res (require_generic_result_purpose analytics_type) (\<lambda>_.
     let canonical_tenant_id = map_option strip tenant; existing = get_result_row calculation_id db in
     bind_res (require_matching_existing_tenant calculation_id canonical_tenant_id db) (\<lambda>_.
     if (case existing of None \<Rightarrow> False | Some r \<Rightarrow> ar_result_status r = RComplete) then Inr ((), db)
     else bind_res (merge_result (failure_row calculation_id canonical_tenant_id analytics_type error_message error_type
                      failure (case existing of None \<Rightarrow> now | Some r \<Rightarrow> ar_created_at_utc r) now) db)
            (\<lambda>db'. Inr ((), db'))))"

section \<open>Composite originals\<close>

definition composite_tenant :: "string \<Rightarrow> store_error + string" where
  "composite_tenant presented =
     (case admitted_tenant_authority presented of
        Inl (Inl e) \<Rightarrow> Inl (APIRefusal e)
      | Inl (Inr m) \<Rightarrow> Inl (ValueError m)
      | Inr a \<Rightarrow> (case require_composite_tenant_authority a of
            Inl e \<Rightarrow> Inl (APIRefusal e) | Inr authority \<Rightarrow> Inr (tenant_id authority)))"

text \<open>
  \<open>inputs\<close> is the retained input table of the workflow: the manifest digest by tenant and
  calculation. The insert is \<open>ON CONFLICT DO NOTHING\<close>; the row then read is the original.
\<close>

definition insert_original :: "result_row \<Rightarrow> database \<Rightarrow> database" where
  "insert_original row db =
     (case get_result_row (ar_calculation_id row) db of None \<Rightarrow> add_result row db | Some _ \<Rightarrow> db)"

definition result_identity :: "result_row \<Rightarrow> string option \<times> string \<times> async_result_status \<times> json_text option" where
  "result_identity r = (ar_tenant_id r, ar_analytics_type r, ar_result_status r, ar_response_json r)"

definition record_composite_success_in_transaction ::
    "(string \<Rightarrow> uuid \<Rightarrow> string option) \<Rightarrow> string \<Rightarrow> uuid \<Rightarrow> string \<Rightarrow> string \<Rightarrow> json_dict \<Rightarrow> instant \<Rightarrow> database
      \<Rightarrow> store_error + unit \<times> database" where
  "record_composite_success_in_transaction inputs analytics_type calculation_id tenant input_manifest_digest
       response_payload now db =
     bind_res (composite_tenant tenant) (\<lambda>t.
     bind_res (ensure (inputs t calculation_id = Some input_manifest_digest
                 \<and> dict_get response_payload ''calculation_id'' = Some (JStr calculation_id)
                 \<and> dict_get response_payload ''input_manifest_digest'' = Some (JStr input_manifest_digest))
                 (OriginalConflict ''Composite result does not bind the retained tenant/calculation input.'')) (\<lambda>_.
     bind_res (ensure (db_dialect_name db \<in> {''postgresql'', ''sqlite''})
                 (ValueError ''Composite result custody requires PostgreSQL or SQLite.'')) (\<lambda>_.
     let expected = success_row calculation_id (Some t) analytics_type response_payload now;
         db' = insert_original expected db
     in bind_res (ensure (map_option result_identity (get_result_row calculation_id db') = Some (result_identity expected))
                    (OriginalConflict ''Calculation already retains a different original result.'')) (\<lambda>_.
        Inr ((), db')))))"

definition record_pooled_success_in_transaction ::
    "(string \<Rightarrow> uuid \<Rightarrow> string option) \<Rightarrow> uuid \<Rightarrow> string \<Rightarrow> string \<Rightarrow> json_dict \<Rightarrow> instant \<Rightarrow> database
      \<Rightarrow> store_error + unit \<times> database" where
  "record_pooled_success_in_transaction pooled_inputs =
     record_composite_success_in_transaction pooled_inputs COMPOSITE_POOLED_ANALYTICS_TYPE"

definition record_attribution_success_in_transaction ::
    "(string \<Rightarrow> uuid \<Rightarrow> string option) \<Rightarrow> uuid \<Rightarrow> string \<Rightarrow> string \<Rightarrow> json_dict \<Rightarrow> instant \<Rightarrow> database
      \<Rightarrow> store_error + unit \<times> database" where
  "record_attribution_success_in_transaction attribution_inputs =
     record_composite_success_in_transaction attribution_inputs COMPOSITE_ATTRIBUTION_ANALYTICS_TYPE"

section \<open>Retention\<close>

definition result_retention_filter :: "instant \<Rightarrow> result_row \<Rightarrow> bool" where
  "result_retention_filter cutoff r \<longleftrightarrow> ar_updated_at_utc r \<le> cutoff \<and> \<not> protected_row r"

definition list_result_ids_older_than :: "datetime \<Rightarrow> database \<Rightarrow> uuid list" where
  "list_result_ids_older_than older_than db =
     List.map ar_calculation_id (sort_key ar_updated_at_utc (sort_key ar_created_at_utc
       (filter (result_retention_filter (cutoff_of older_than db)) (db_results db))))"

definition prune_results_older_than ::
    "datetime \<Rightarrow> bool \<Rightarrow> uuid list option \<Rightarrow> database \<Rightarrow> nat \<times> database" where
  "prune_results_older_than older_than dry_run exclude_calculation_ids db =
     (let excluded = (case exclude_calculation_ids of None \<Rightarrow> [] | Some ids \<Rightarrow> ids);
          retention_filter = (\<lambda>r. result_retention_filter (cutoff_of older_than db) r
                                  \<and> ar_calculation_id r \<notin> set excluded);
          matched = length (filter retention_filter (db_results db))
      in if dry_run then (matched, db)
         else (matched, db\<lparr>db_results := filter (\<lambda>r. \<not> retention_filter r) (db_results db)\<rparr>))"

definition clear_all_result_records :: "database \<Rightarrow> store_error + unit \<times> database" where
  "clear_all_result_records db =
     bind_res (ensure (\<not> list_ex protected_row (db_results db)) IntegrityError) (\<lambda>_.
     Inr ((), db\<lparr>db_results := []\<rparr>))"

section \<open>Reading\<close>

definition INVALID_ASYNC_RESULT_PAYLOAD_ERROR_TYPE :: string where
  "INVALID_ASYNC_RESULT_PAYLOAD_ERROR_TYPE = ''InvalidAsyncResultPayload''"

definition INVALID_ASYNC_RESULT_PAYLOAD_MESSAGE :: string where
  "INVALID_ASYNC_RESULT_PAYLOAD_MESSAGE = ''Stored async result response payload is invalid.''"

record async_result_record =
  res_calculation_id :: uuid
  res_analytics_type :: string
  res_result_status :: async_result_status
  res_response_payload :: "json_dict option"
  res_error_message :: "string option"
  res_error_type :: "string option"
  res_created_at_utc :: string
  res_updated_at_utc :: string
  res_tenant_id :: "string option"
  res_failure :: "durable_failure_classification option"

definition load_result_payload :: "result_row \<Rightarrow> json_dict option" where
  "load_result_payload row = load_json_object_or_none (ar_response_json row) False"

definition has_invalid_response_payload :: "result_row \<Rightarrow> json_dict option \<Rightarrow> bool" where
  "has_invalid_response_payload row response_payload \<longleftrightarrow> text_truthy (ar_response_json row) \<and> response_payload = None"

definition async_result_record_from_row :: "result_row \<Rightarrow> async_result_record" where
  "async_result_record_from_row row =
     (let payload = load_result_payload row; invalid = has_invalid_response_payload row payload in
      \<lparr>res_calculation_id = ar_calculation_id row, res_analytics_type = ar_analytics_type row,
       res_result_status = (if invalid then RFailed else ar_result_status row), res_response_payload = payload,
       res_error_message = (if invalid then Some (stored_or_default (ar_error_message row) INVALID_ASYNC_RESULT_PAYLOAD_MESSAGE)
                            else ar_error_message row),
       res_error_type = (if invalid then Some (stored_or_default (ar_error_type row) INVALID_ASYNC_RESULT_PAYLOAD_ERROR_TYPE)
                         else ar_error_type row),
       res_created_at_utc = or_empty (stamp (Some (ar_created_at_utc row))),
       res_updated_at_utc = or_empty (stamp (Some (ar_updated_at_utc row))),
       res_tenant_id = ar_tenant_id row, res_failure = load_durable_failure (ar_failure_json row)\<rparr>)"

definition get_result :: "uuid \<Rightarrow> database \<Rightarrow> async_result_record option" where
  "get_result calculation_id db = map_option async_result_record_from_row (get_result_row calculation_id db)"

definition get_result_for_tenant :: "uuid \<Rightarrow> string \<Rightarrow> database \<Rightarrow> async_result_record option" where
  "get_result_for_tenant calculation_id tenant db =
     (case get_result_row calculation_id db of
        None \<Rightarrow> None
      | Some row \<Rightarrow> if ar_tenant_id row = Some tenant then Some (async_result_record_from_row row) else None)"

end
