(* ===== verification/Compute_Worker.thy ===== *)
theory Compute_Worker
  imports Async_Results Execution_Registry
begin

text \<open>
  The compute executor worker (src/app/workers/compute_executor_worker.py): one pass reconciles
  stale jobs, leases pending ones and runs each of them, over the job store, the execution
  registry and the result store, which commit separately. The calculators, the inline lineage
  materializer and the publication of composite originals are parameters. Between two calls of
  the worker other processes may commit; \<open>we_others\<close> is what they did before a call and \<open>we_clock\<close>
  the time the call reads.
\<close>

section \<open>Exceptions\<close>

text \<open>
  An exception a calculation or a store raises: an \<open>APIError\<close>, an instance of another class that
  the worker does not retry, any other exception, each with its class name, or a store's.
\<close>

datatype worker_exn =
    ApiFailure string api_error
  | Refused string
  | Unexpected string
  | StoreFailure store_error

fun store_error_name :: "store_error \<Rightarrow> string" where
  "store_error_name (LeaseOwnershipError m) = ''ComputeJobLeaseOwnershipError''"
| "store_error_name (LineageOwnershipError m) = ''LineagePayloadLeaseOwnershipError''"
| "store_error_name (SourceCustodyConflict m) = ''SourceCustodyConflict''"
| "store_error_name (KeyError m) = ''KeyError''"
| "store_error_name (ValueError m) = ''ValueError''"
| "store_error_name (RuntimeError m) = ''RuntimeError''"
| "store_error_name IntegrityError = ''IntegrityError''"
| "store_error_name IndexError = ''IndexError''"
| "store_error_name (APIRefusal e) = ''APIError''"
| "store_error_name (ResultTenantConflict m) = ''AsyncResultTenantConflictError''"
| "store_error_name (CaptureAdmissionRequired m) = ''AsyncResultCaptureAdmissionRequiredError''"
| "store_error_name (OriginalConflict m) = ''AsyncResultOriginalConflictError''"

fun exception_name :: "worker_exn \<Rightarrow> string" where
  "exception_name (ApiFailure name e) = name"
| "exception_name (Refused name) = name"
| "exception_name (Unexpected name) = name"
| "exception_name (StoreFailure e) = store_error_name e"

fun exception_of :: "worker_exn \<Rightarrow> exn" where
  "exception_of (ApiFailure name e) = APIError e"
| "exception_of (StoreFailure (APIRefusal e)) = APIError e"
| "exception_of _ = OtherException"

text \<open>Instances of \<open>ValueError\<close> and \<open>KeyError\<close> are final; the ownership and custody errors are \<open>ValueError\<close>s.\<close>

fun is_retryable_exception :: "worker_exn \<Rightarrow> bool" where
  "is_retryable_exception (ApiFailure name e) = dfc_retryable (classify_durable_failure (APIError e) None)"
| "is_retryable_exception (Refused name) = False"
| "is_retryable_exception (Unexpected name) = True"
| "is_retryable_exception (StoreFailure (APIRefusal e)) = dfc_retryable (classify_durable_failure (APIError e) None)"
| "is_retryable_exception (StoreFailure e) = (e \<in> {IntegrityError, IndexError}
     \<or> (case e of RuntimeError m \<Rightarrow> True | ResultTenantConflict m \<Rightarrow> True | CaptureAdmissionRequired m \<Rightarrow> True | _ \<Rightarrow> False))"

section \<open>The environment of a pass\<close>

datatype worker_call =
    AcquireCall | ExecuteCall | RenewBeforeCall | MaterializeCall | RenewAfterCall
  | CheckCall | PublishCall | CompleteCall | FailCall | ResultFailureCall | StagesFailCall | ExecutionFailCall
  | ReadResultCall | RecoverCall

record worker_env =
  we_clock :: "worker_call \<Rightarrow> instant"
  we_others :: "worker_call \<Rightarrow> database \<Rightarrow> database"
  we_fresh :: string
  we_inline_fresh :: string

text \<open>A call of a store, after what the others committed; an exception leaves the database as it was.\<close>

definition store_call ::
    "worker_env \<Rightarrow> worker_call \<Rightarrow> (instant \<Rightarrow> database \<Rightarrow> store_error + 'a \<times> database) \<Rightarrow> database
      \<Rightarrow> (store_error + 'a) \<times> database" where
  "store_call env c op db =
     (let db1 = we_others env c db in
      case op (we_clock env c) db1 of Inl e \<Rightarrow> (Inl e, db1) | Inr (a, db2) \<Rightarrow> (Inr a, db2))"

definition reading :: "(instant \<Rightarrow> database \<Rightarrow> store_error + 'a) \<Rightarrow> instant \<Rightarrow> database \<Rightarrow> store_error + 'a \<times> database" where
  "reading op now db = bind_res (op now db) (\<lambda>a. Inr (a, db))"

type_synonym 'a outcome = "(worker_exn + 'a) \<times> database"

definition raise_store :: "(store_error + 'a) \<times> database \<Rightarrow> 'a outcome" where
  "raise_store r = (case r of (Inl e, db) \<Rightarrow> (Inl (StoreFailure e), db) | (Inr a, db) \<Rightarrow> (Inr a, db))"

record compute_context =
  cx_execute :: "string \<Rightarrow> compute_job_record \<Rightarrow> database \<Rightarrow> json_dict outcome"
  cx_materialize :: "uuid \<Rightarrow> string \<Rightarrow> database \<Rightarrow> bool outcome"
  cx_publish_original :: "compute_job_record \<Rightarrow> json_dict \<Rightarrow> database \<Rightarrow> unit outcome"

record compute_runtime =
  rt_worker_id :: string
  rt_lease_seconds :: int
  rt_batch_size :: nat
  rt_context :: compute_context

definition own_call :: "worker_env \<Rightarrow> worker_call \<Rightarrow> (database \<Rightarrow> 'a outcome) \<Rightarrow> database \<Rightarrow> 'a outcome" where
  "own_call env c op db = op (we_others env c db)"

section \<open>Failure\<close>

definition ANALYTICS_WORKFLOW_WORKSPACE_SUMMARY :: string where
  "ANALYTICS_WORKFLOW_WORKSPACE_SUMMARY = ''WORKSPACE_SUMMARY''"

definition keeps_no_failure_result :: "string \<Rightarrow> bool" where
  "keeps_no_failure_result analytics_type \<longleftrightarrow>
     analytics_type \<in> {COMPOSITE_POOLED_ANALYTICS_TYPE, COMPOSITE_ATTRIBUTION_ANALYTICS_TYPE}"

text \<open>\<open>except KeyError\<close> around the two registry calls.\<close>

definition swallow_key_error :: "(store_error + unit) \<times> database \<Rightarrow> (database \<Rightarrow> unit outcome) \<Rightarrow> unit outcome" where
  "swallow_key_error r k = (case r of
     (Inl (KeyError m), db) \<Rightarrow> (Inr (), db)
   | (Inl e, db) \<Rightarrow> (Inl (StoreFailure e), db)
   | (Inr _, db) \<Rightarrow> k db)"

definition record_terminal_failure ::
    "worker_env \<Rightarrow> uuid \<Rightarrow> string \<Rightarrow> string option \<Rightarrow> string \<Rightarrow> string \<Rightarrow> durable_failure_classification
      \<Rightarrow> database \<Rightarrow> unit outcome" where
  "record_terminal_failure env calculation_id analytics_type tenant error_message error_type failure db =
     (case (if keeps_no_failure_result analytics_type then (Inr (), db)
            else store_call env ResultFailureCall
              (record_failure calculation_id analytics_type error_message (Some error_type) tenant (Some failure)) db) of
        (Inl e, db1) \<Rightarrow> (Inl (StoreFailure e), db1)
      | (Inr _, db1) \<Rightarrow>
          swallow_key_error (store_call env StagesFailCall (fail_in_progress_stages calculation_id error_message) db1) (\<lambda>db2.
          swallow_key_error (store_call env ExecutionFailCall
            (mark_execution_failed calculation_id error_message (Some failure)) db2) (\<lambda>db3. (Inr (), db3))))"

definition handle_compute_job_failure :: "worker_env \<Rightarrow> compute_job_record \<Rightarrow> worker_exn \<Rightarrow> database \<Rightarrow> unit outcome" where
  "handle_compute_job_failure env job exc db =
     (let retryable = is_retryable_exception exc;
          failure = classify_durable_failure (exception_of exc) (Some retryable);
          terminal = record_terminal_failure env (rec_calculation_id job) (rec_analytics_type job)
            (map_option strip (rec_tenant_id job)) (dfc_message failure) (exception_name exc) failure
      in if retryable
         then (case store_call env FailCall
                 (mark_retryable_failure (rec_calculation_id job) (dfc_message failure) (Some (exception_name exc))
                    (rec_worker_id job) (Some failure)) db of
                 (Inl (LeaseOwnershipError m), db1) \<Rightarrow> (Inr (), db1)
               | (Inl e, db1) \<Rightarrow> (Inl (StoreFailure e), db1)
               | (Inr will_retry, db1) \<Rightarrow> if will_retry then (Inr (), db1) else terminal db1)
         else (case store_call env FailCall
                 (mark_failed (rec_calculation_id job) (dfc_message failure) (Some (exception_name exc))
                    (rec_worker_id job) (Some failure)) db of
                 (Inl (LeaseOwnershipError m), db1) \<Rightarrow> (Inr (), db1)
               | (Inl e, db1) \<Rightarrow> (Inl (StoreFailure e), db1)
               | (Inr _, db1) \<Rightarrow> terminal db1))"

section \<open>Execution\<close>

definition COMPUTE_JOB_EXECUTORS :: "string list" where
  "COMPUTE_JOB_EXECUTORS = [''COMPOSITE_ATTRIBUTION'', ''COMPOSITE_POOLED_MWR'', ''COMPOSITE_MATERIALIZATION'',
     ''ReturnsSeries'', ''Attribution'', ''Contribution'', ''BENCHMARK'', ''TWR'', ''WORKSPACE_SUMMARY'',
     ''TWR_INSPECTION'']"

text \<open>The executor runs under the tenant the job was admitted with, or not at all.\<close>

definition execute_compute_job :: "worker_env \<Rightarrow> compute_context \<Rightarrow> compute_job_record \<Rightarrow> database \<Rightarrow> json_dict outcome" where
  "execute_compute_job env cx job db =
     (if rec_analytics_type job \<notin> set COMPUTE_JOB_EXECUTORS then (Inl (Refused ''ValueError''), db)
      else case rec_tenant_id job of
          None \<Rightarrow> (Inl (Refused ''ComputeJobAuthorityUnavailableError''), db)
        | Some tenant \<Rightarrow> own_call env ExecuteCall (cx_execute cx (strip tenant) job) db)"

definition uuid_hex :: "uuid \<Rightarrow> string" where
  "uuid_hex u = filter (\<lambda>c. c \<noteq> CHR ''-'') u"

definition compute_job_acquisition_worker_id :: "uuid \<Rightarrow> string \<Rightarrow> string" where
  "compute_job_acquisition_worker_id calculation_id fresh = ''cj:'' @ take 12 (uuid_hex calculation_id) @ '':'' @ fresh"

definition workspace_summary_inline_lineage_worker_id :: "uuid \<Rightarrow> string \<Rightarrow> string" where
  "workspace_summary_inline_lineage_worker_id calculation_id fresh = ''inline-ws:'' @ take 12 (uuid_hex calculation_id) @ '':'' @ fresh"

definition materialize_workspace_summary_lineage_before_success_publication ::
    "worker_env \<Rightarrow> compute_runtime \<Rightarrow> compute_job_record \<Rightarrow> database \<Rightarrow> unit outcome" where
  "materialize_workspace_summary_lineage_before_success_publication env rt job db =
     (if rec_analytics_type job \<noteq> ANALYTICS_WORKFLOW_WORKSPACE_SUMMARY then (Inr (), db)
      else case store_call env RenewBeforeCall
                (renew_lease (rec_calculation_id job) (Some (rt_worker_id rt)) (rt_lease_seconds rt)) db of
          (Inl e, db1) \<Rightarrow> (Inl (StoreFailure e), db1)
        | (Inr _, db1) \<Rightarrow>
            (case own_call env MaterializeCall (cx_materialize (rt_context rt) (rec_calculation_id job)
                    (workspace_summary_inline_lineage_worker_id (rec_calculation_id job) (we_inline_fresh env))) db1 of
               (Inl e, db2) \<Rightarrow> (Inl e, db2)
             | (Inr False, db2) \<Rightarrow> (Inl (Unexpected ''WorkspaceSummaryLineageNotReadyError''), db2)
             | (Inr True, db2) \<Rightarrow>
                 raise_store (store_call env RenewAfterCall
                   (renew_lease (rec_calculation_id job) (Some (rt_worker_id rt)) (rt_lease_seconds rt)) db2)))"

section \<open>Publication\<close>

definition publish_response :: "worker_env \<Rightarrow> compute_context \<Rightarrow> compute_job_record \<Rightarrow> json_dict \<Rightarrow> database \<Rightarrow> unit outcome" where
  "publish_response env cx job response_payload db =
     (if keeps_no_failure_result (rec_analytics_type job)
      then own_call env PublishCall (cx_publish_original cx job response_payload) db
      else raise_store (store_call env PublishCall
        (record_success (rec_calculation_id job) (rec_analytics_type job) response_payload
          (map_option strip (rec_tenant_id job))) db))"

definition publish_compute_job_success ::
    "worker_env \<Rightarrow> compute_runtime \<Rightarrow> compute_job_record \<Rightarrow> json_dict \<Rightarrow> database \<Rightarrow> unit outcome" where
  "publish_compute_job_success env rt job response_payload db =
     (case store_call env CheckCall
             (reading (ensure_active_lease_owner (rec_calculation_id job) (Some (rt_worker_id rt)))) db of
        (Inl (LeaseOwnershipError m), db1) \<Rightarrow> (Inr (), db1)
      | (Inl e, db1) \<Rightarrow> (Inl (StoreFailure e), db1)
      | (Inr _, db1) \<Rightarrow>
          (case publish_response env (rt_context rt) job response_payload db1 of
             (Inl exc, db2) \<Rightarrow> handle_compute_job_failure env job exc db2
           | (Inr _, db2) \<Rightarrow>
               (Inr (), snd (store_call env CompleteCall
                 (mark_complete (rec_calculation_id job) response_payload (Some (rt_worker_id rt))) db2))))"

definition process_leased_compute_job ::
    "worker_env \<Rightarrow> compute_runtime \<Rightarrow> compute_job_record \<Rightarrow> database \<Rightarrow> bool outcome" where
  "process_leased_compute_job env rt job db =
     (let acquisition = compute_job_acquisition_worker_id (rec_calculation_id job) (we_fresh env);
          active_rt = rt\<lparr>rt_worker_id := acquisition\<rparr>;
          active_job = job\<lparr>rec_worker_id := Some acquisition\<rparr>;
          done = (\<lambda>r. case r of (Inl e, db') \<Rightarrow> (Inl e, db') | (Inr _, db') \<Rightarrow> (Inr True, db'))
      in case store_call env AcquireCall
             (mark_running_acquired (rec_calculation_id job) (rt_worker_id rt) acquisition (rt_lease_seconds rt)) db of
           (Inl (LeaseOwnershipError m), db1) \<Rightarrow> (Inr False, db1)
         | (Inl e, db1) \<Rightarrow> (Inl (StoreFailure e), db1)
         | (Inr _, db1) \<Rightarrow>
             (case execute_compute_job env (rt_context rt) active_job db1 of
                (Inl exc, db2) \<Rightarrow> done (handle_compute_job_failure env active_job exc db2)
              | (Inr response_payload, db2) \<Rightarrow>
                  (case materialize_workspace_summary_lineage_before_success_publication env active_rt active_job db2 of
                     (Inl exc, db3) \<Rightarrow> done (handle_compute_job_failure env active_job exc db3)
                   | (Inr _, db3) \<Rightarrow> done (publish_compute_job_success env active_rt active_job response_payload db3))))"

section \<open>Stale jobs\<close>

definition recover_reconciled_job_from_success_result ::
    "worker_env \<Rightarrow> reconciled_job_record \<Rightarrow> database \<Rightarrow> bool outcome" where
  "recover_reconciled_job_from_success_result env rj db =
     (let db1 = we_others env ReadResultCall db in
      case get_result (rj_calculation_id rj) db1 of
        None \<Rightarrow> (Inr False, db1)
      | Some result \<Rightarrow>
          (case res_response_payload result of
             None \<Rightarrow> (Inr False, db1)
           | Some payload \<Rightarrow>
               if res_result_status result \<noteq> RComplete \<or> res_analytics_type result \<noteq> rj_analytics_type rj then (Inr False, db1)
               else (case store_call env RecoverCall (mark_complete (rj_calculation_id rj) payload None) db1 of
                   (Inl e, db2) \<Rightarrow> (Inl (StoreFailure e), db2) | (Inr _, db2) \<Rightarrow> (Inr True, db2))))"

definition handle_reconciled_stale_job :: "worker_env \<Rightarrow> reconciled_job_record \<Rightarrow> database \<Rightarrow> unit outcome" where
  "handle_reconciled_stale_job env rj db =
     (case recover_reconciled_job_from_success_result env rj db of
        (Inl e, db1) \<Rightarrow> (Inl e, db1)
      | (Inr True, db1) \<Rightarrow> (Inr (), db1)
      | (Inr False, db1) \<Rightarrow>
          if rj_reconciled_status rj = JFailed
          then record_terminal_failure env (rj_calculation_id rj) (rj_analytics_type rj) (map_option strip (rj_tenant_id rj))
                 (rj_error_message rj) (rj_error_type rj) (generic_durable_failure False) db1
          else (Inr (), db1))"

fun handle_reconciled_jobs :: "(uuid \<Rightarrow> worker_env) \<Rightarrow> reconciled_job_record list \<Rightarrow> database \<Rightarrow> unit outcome" where
  "handle_reconciled_jobs envs [] db = (Inr (), db)"
| "handle_reconciled_jobs envs (rj # rjs) db =
     (case handle_reconciled_stale_job (envs (rj_calculation_id rj)) rj db of
        (Inl e, db1) \<Rightarrow> (Inl e, db1)
      | (Inr _, db1) \<Rightarrow> handle_reconciled_jobs envs rjs db1)"

fun process_leased_jobs :: "(uuid \<Rightarrow> worker_env) \<Rightarrow> compute_runtime \<Rightarrow> compute_job_record list \<Rightarrow> database \<Rightarrow> nat outcome" where
  "process_leased_jobs envs rt [] db = (Inr 0, db)"
| "process_leased_jobs envs rt (job # jobs) db =
     (case process_leased_compute_job (envs (rec_calculation_id job)) rt job db of
        (Inl e, db1) \<Rightarrow> (Inl e, db1)
      | (Inr processed, db1) \<Rightarrow>
          (case process_leased_jobs envs rt jobs db1 of
             (Inl e, db2) \<Rightarrow> (Inl e, db2)
           | (Inr n, db2) \<Rightarrow> (Inr ((if processed then 1 else 0) + n), db2)))"

record pass_env =
  pe_locked :: "uuid \<Rightarrow> bool"
  pe_reconcile_clock :: instant
  pe_reconciled :: "uuid \<Rightarrow> worker_env"
  pe_before_lease :: "database \<Rightarrow> database"
  pe_lease_clock :: instant
  pe_jobs :: "uuid \<Rightarrow> worker_env"

definition process_pending_jobs :: "pass_env \<Rightarrow> compute_runtime \<Rightarrow> database \<Rightarrow> nat outcome" where
  "process_pending_jobs pe rt db =
     (let (stale, db1) = reconcile_stale_jobs (pe_locked pe) (pe_reconcile_clock pe) db in
      case handle_reconciled_jobs (pe_reconciled pe) stale db1 of
        (Inl e, db2) \<Rightarrow> (Inl e, db2)
      | (Inr _, db2) \<Rightarrow>
          let db3 = pe_before_lease pe db2 in
          (case lease_pending_jobs (rt_worker_id rt) (rt_batch_size rt) (rt_lease_seconds rt) None (pe_locked pe)
                  (pe_lease_clock pe) db3 of
             Inl e \<Rightarrow> (Inl (StoreFailure e), db3)
           | Inr (pending, db4) \<Rightarrow> process_leased_jobs (pe_jobs pe) rt pending db4))"

end
