(* ===== verification/Results_Safety.thy ===== *)
theory Results_Safety
  imports Async_Results Job_Machine
begin

text \<open>
  What the result store guarantees: composite originals are immutable, a published success is
  never overwritten by a failure, a result stays with its tenant, and originals are published
  once.
\<close>

datatype result_event =
    RSuccess uuid string json_dict "string option" instant
  | RFailure uuid string string "string option" "string option" "durable_failure_classification option" instant
  | RPooled "string \<Rightarrow> uuid \<Rightarrow> string option" uuid string string json_dict instant
  | RAttribution "string \<Rightarrow> uuid \<Rightarrow> string option" uuid string string json_dict instant
  | RPrune datetime "uuid list option"
  | RClear

fun result_step :: "database \<Rightarrow> result_event \<Rightarrow> store_error + database" where
  "result_step db (RSuccess k ty payload tenant now) = bind_res (record_success k ty payload tenant now db) (\<lambda>(_, db'). Inr db')"
| "result_step db (RFailure k ty msg et tenant failure now) =
     bind_res (record_failure k ty msg et tenant failure now db) (\<lambda>(_, db'). Inr db')"
| "result_step db (RPooled inputs k tenant digest payload now) =
     bind_res (record_pooled_success_in_transaction inputs k tenant digest payload now db) (\<lambda>(_, db'). Inr db')"
| "result_step db (RAttribution inputs k tenant digest payload now) =
     bind_res (record_attribution_success_in_transaction inputs k tenant digest payload now db) (\<lambda>(_, db'). Inr db')"
| "result_step db (RPrune older_than excl) = Inr (snd (prune_results_older_than older_than False excl db))"
| "result_step db RClear = bind_res (clear_all_result_records db) (\<lambda>(_, db'). Inr db')"

section \<open>One event and one row\<close>

text \<open>The specification: what an event may do to the row of a calculation, \<open>x\<close> being the row after it.\<close>

fun result_move :: "uuid \<Rightarrow> result_event \<Rightarrow> result_row \<Rightarrow> result_row option \<Rightarrow> bool" where
  "result_move k (RSuccess i ty payload tenant now) r x \<longleftrightarrow> x = Some r
     \<or> i = k \<and> \<not> protected_row r \<and> map_option strip tenant = ar_tenant_id r
       \<and> x = Some (success_row k (ar_tenant_id r) ty payload now)"
| "result_move k (RFailure i ty msg et tenant failure now) r x \<longleftrightarrow> x = Some r
     \<or> i = k \<and> \<not> protected_row r \<and> map_option strip tenant = ar_tenant_id r \<and> ar_result_status r = RFailed
       \<and> x = Some (failure_row k (ar_tenant_id r) ty msg et failure (ar_created_at_utc r) now)"
| "result_move k (RPrune older_than excl) r x \<longleftrightarrow> x = Some r
     \<or> \<not> protected_row r \<and> k \<notin> set (case excl of None \<Rightarrow> [] | Some ids \<Rightarrow> ids) \<and> x = None"
| "result_move k RClear r x \<longleftrightarrow> \<not> protected_row r \<and> x = None"
| "result_move k e r x \<longleftrightarrow> x = Some r"

lemma tbl_get_filter_kept: "tbl_get key k t = Some r \<Longrightarrow> p r \<Longrightarrow> tbl_get key k (filter p t) = Some r"
  by (induction t) (auto simp: tbl_get_def split: if_splits)

lemma tbl_get_filter_gone: "tbl_ok key t \<Longrightarrow> tbl_get key k t = Some r \<Longrightarrow> \<not> p r \<Longrightarrow> tbl_get key k (filter p t) = None"
  by (simp add: tbl_get_filter)

lemma guard_Inr: "composite_result_custody_guard old (Some new) = Inr u \<longleftrightarrow> \<not> protected_row old \<and> \<not> protected_row new"
  by (simp add: composite_result_custody_guard_def)

lemma get_update_result:
  "get_result_row k (update_result (ar_calculation_id row) (\<lambda>_. row) db)
   = (if k = ar_calculation_id row then map_option (\<lambda>_. row) (get_result_row k db) else get_result_row k db)"
  by (simp add: result_ops tbl_get_replace)

lemma merge_result_get:
  assumes "merge_result row db = Inr db'" "get_result_row k db = Some r"
  shows "get_result_row k db' = Some r \<or> k = ar_calculation_id row \<and> \<not> protected_row r \<and> get_result_row k db' = Some row"
proof (cases "get_result_row (ar_calculation_id row) db")
  case None
  with assms results.add_frame [OF None] show ?thesis by (simp add: merge_result_def)
next
  case (Some old)
  with assms(1) have "\<not> protected_row old" "db' = update_result (ar_calculation_id row) (\<lambda>_. row) db"
    by (auto simp: merge_result_def guard_Inr)
  with Some assms(2) show ?thesis by (cases "k = ar_calculation_id row") (auto simp: get_update_result)
qed

lemma merge_result_new: "merge_result row db = Inr db' \<Longrightarrow> get_result_row (ar_calculation_id row) db' = Some row"
  by (cases "get_result_row (ar_calculation_id row) db")
    (auto simp: merge_result_def results.get_add get_update_result)

lemma insert_original_get: "get_result_row k db = Some r \<Longrightarrow> get_result_row k (insert_original row db) = Some r"
  by (auto simp: insert_original_def results.add_frame split: option.splits)

lemma tenant_check_Inr:
  "require_matching_existing_tenant k t db = Inr u \<longleftrightarrow> (\<forall>r. get_result_row k db = Some r \<longrightarrow> ar_tenant_id r = t)"
  by (auto simp: require_matching_existing_tenant_def split: option.splits)

lemma original_effect:
  "record_composite_success_in_transaction inputs ty i tenant digest payload now db = Inr (u, db') \<Longrightarrow>
   \<exists>t. composite_tenant tenant = Inr t \<and> db' = insert_original (success_row i (Some t) ty payload now) db
     \<and> map_option result_identity (get_result_row i db') = Some (result_identity (success_row i (Some t) ty payload now))"
  by (auto simp: record_composite_success_in_transaction_def Let_def)

lemma success_row_id [simp]: "ar_calculation_id (success_row k t ty payload now) = k"
  by (simp add: success_row_def)

lemma failure_row_id [simp]: "ar_calculation_id (failure_row k t ty msg et failure c now) = k"
  by (simp add: failure_row_def)

lemma success_moves:
  assumes "record_success i ty payload tenant now db = Inr (u, db')" "get_result_row k db = Some r"
  shows "result_move k (RSuccess i ty payload tenant now) r (get_result_row k db')"
proof -
  from assms(1) have check: "\<forall>q. get_result_row i db = Some q \<longrightarrow> ar_tenant_id q = map_option strip tenant"
    and merge: "merge_result (success_row i (map_option strip tenant) ty payload now) db = Inr db'"
    by (auto simp: record_success_def Let_def tenant_check_Inr)
  from merge_result_get [OF merge assms(2)] check assms(2) show ?thesis by auto
qed

lemma failure_moves:
  assumes "record_failure i ty msg et tenant failure now db = Inr (u, db')" "get_result_row k db = Some r"
  shows "result_move k (RFailure i ty msg et tenant failure now) r (get_result_row k db')"
proof -
  from assms(1) have check: "\<forall>q. get_result_row i db = Some q \<longrightarrow> ar_tenant_id q = map_option strip tenant"
    by (auto simp: record_failure_def Let_def tenant_check_Inr)
  show ?thesis
  proof (cases "\<exists>q. get_result_row i db = Some q \<and> ar_result_status q = RComplete")
    case True
    then have "db' = db" using assms(1) by (auto simp: record_failure_def Let_def)
    then show ?thesis using assms(2) by simp
  next
    case False
    then have status: "\<forall>q. get_result_row i db = Some q \<longrightarrow> ar_result_status q = RFailed"
      using async_result_status.exhaust by blast
    have merge: "merge_result (failure_row i (map_option strip tenant) ty msg et failure
        (case get_result_row i db of None \<Rightarrow> now | Some q \<Rightarrow> ar_created_at_utc q) now) db = Inr db'"
      using assms(1) status by (auto simp: record_failure_def Let_def split: option.splits if_splits)
    from merge_result_get [OF merge assms(2)] check status assms(2) show ?thesis by auto
  qed
qed

lemma prune_moves:
  assumes "tbl_ok ar_calculation_id (db_results db)" "get_result_row k db = Some r"
  shows "result_move k (RPrune older_than excl) r (get_result_row k (snd (prune_results_older_than older_than False excl db)))"
proof -
  let ?p = "\<lambda>r. result_retention_filter (cutoff_of older_than db) r \<and> ar_calculation_id r \<notin> set (case excl of None \<Rightarrow> [] | Some ids \<Rightarrow> ids)"
  have row: "tbl_get ar_calculation_id k (db_results db) = Some r" "ar_calculation_id r = k"
    using assms(2) by (auto simp: get_result_row_def dest: tbl_get_Some)
  show ?thesis
  proof (cases "?p r")
    case True
    then have "\<not> protected_row r" "k \<notin> set (case excl of None \<Rightarrow> [] | Some ids \<Rightarrow> ids)"
      using row(2) by (auto simp: result_retention_filter_def)
    moreover have "tbl_get ar_calculation_id k (filter (\<lambda>r. \<not> ?p r) (db_results db)) = None"
      by (rule tbl_get_filter_gone [OF assms(1) row(1)]) (use True in simp)
    ultimately show ?thesis by (simp add: prune_results_older_than_def Let_def get_result_row_def)
  next
    case False
    then have "tbl_get ar_calculation_id k (filter (\<lambda>r. \<not> ?p r) (db_results db)) = Some r"
      by (intro tbl_get_filter_kept [OF row(1)]) simp
    then show ?thesis by (simp add: prune_results_older_than_def Let_def get_result_row_def)
  qed
qed

lemma clear_moves:
  "clear_all_result_records db = Inr (u, db') \<Longrightarrow> get_result_row k db = Some r \<Longrightarrow> result_move k RClear r (get_result_row k db')"
  by (auto simp: clear_all_result_records_def get_result_row_def list_ex_iff tbl_get_def dest: find_Some_iff [THEN iffD1])

section \<open>Refinement\<close>

definition results_ok :: "database \<Rightarrow> bool" where
  "results_ok db \<longleftrightarrow> tbl_ok ar_calculation_id (db_results db)"

lemma results_ok_empty [simp]: "results_ok (empty_database dialect)"
  by (simp add: results_ok_def empty_database_def tbl_ok_def)

lemma tbl_ok_replace: "tbl_ok key t \<Longrightarrow> tbl_ok key (tbl_upd key (key row) (\<lambda>_. row) t)"
proof -
  have "List.map key (tbl_upd key (key row) (\<lambda>_. row) t) = List.map key t" by (induction t) (auto simp: tbl_upd_def)
  then show "tbl_ok key t \<Longrightarrow> tbl_ok key (tbl_upd key (key row) (\<lambda>_. row) t)" by (simp add: tbl_ok_def)
qed

lemma merge_result_ok: "results_ok db \<Longrightarrow> merge_result row db = Inr db' \<Longrightarrow> results_ok db'"
  using results.ok_add [of db row] tbl_ok_upd [of ar_calculation_id "\<lambda>_. row"]
  by (auto simp: results_ok_def merge_result_def guard_Inr tbl_ok_replace update_result_def split: option.splits)

lemma insert_original_ok: "results_ok db \<Longrightarrow> results_ok (insert_original row db)"
  by (auto simp: results_ok_def insert_original_def add_result_def get_result_row_def tbl_ok_add split: option.splits)

lemma result_step_ok:
  assumes "results_ok db" "result_step db e = Inr db'"
  shows "results_ok db'"
proof (cases e)
  case (RPrune older_than excl)
  with assms show ?thesis
    by (auto simp: prune_results_older_than_def Let_def results_ok_def tbl_ok_def distinct_map_filterI)
next
  case RClear
  with assms show ?thesis by (auto simp: clear_all_result_records_def results_ok_def tbl_ok_def)
qed (use assms in \<open>auto simp: record_success_def record_failure_def record_pooled_success_in_transaction_def
    record_attribution_success_in_transaction_def Let_def split: if_splits
    intro: merge_result_ok insert_original_ok dest!: original_effect\<close>)

text \<open>Every operation of the result store refines the specification of one row: it
  replaces a row only for its own tenant, a failure only replaces a failure, and a composite
  original is neither replaced nor removed.\<close>

lemma result_step_refines:
  assumes "results_ok db" "result_step db e = Inr db'" "get_result_row k db = Some r"
  shows "result_move k e r (get_result_row k db')"
proof (cases e)
  case (RSuccess i ty payload tenant now)
  with assms success_moves show ?thesis by auto
next
  case (RFailure i ty msg et tenant failure now)
  with assms failure_moves show ?thesis by auto
next
  case (RPrune older_than excl)
  with assms prune_moves [of db k r older_than excl] show ?thesis by (simp add: results_ok_def)
next
  case RClear
  with assms clear_moves show ?thesis by auto
qed (use assms in \<open>auto simp: record_pooled_success_in_transaction_def record_attribution_success_in_transaction_def
    insert_original_get dest!: original_effect\<close>)

section \<open>Runs\<close>

lemma merge_result_dialect: "merge_result row db = Inr db' \<Longrightarrow> db_dialect_name db' = db_dialect_name db"
  by (auto simp: merge_result_def add_result_def update_result_def split: option.splits)

lemma insert_original_dialect: "db_dialect_name (insert_original row db) = db_dialect_name db"
  by (simp add: insert_original_def add_result_def split: option.splits)

lemma result_step_dialect: "result_step db e = Inr db' \<Longrightarrow> db_dialect_name db' = db_dialect_name db"
  by (cases e)
    (auto simp: record_success_def record_failure_def record_pooled_success_in_transaction_def
      record_attribution_success_in_transaction_def prune_results_older_than_def clear_all_result_records_def Let_def
      insert_original_dialect merge_result_dialect split: if_splits dest!: original_effect)

lemma run_dialect: "db_dialect_name (run_ops result_step db es) = db_dialect_name db"
  by (induction es arbitrary: db) (auto simp: result_step_dialect split: sum.splits)

locale result_invariant =
  fixes k :: uuid and allowed :: "result_event \<Rightarrow> bool" and I :: "result_row \<Rightarrow> bool"
  assumes keep: "I r \<Longrightarrow> allowed e \<Longrightarrow> result_move k e r x \<Longrightarrow> \<exists>r'. x = Some r' \<and> I r'"

sublocale result_invariant \<subseteq> run: guarded_machine result_step allowed
  "\<lambda>db. results_ok db \<and> (\<exists>r. get_result_row k db = Some r \<and> I r)"
proof
  fix db e db'
  assume "results_ok db \<and> (\<exists>r. get_result_row k db = Some r \<and> I r)" "allowed e" "result_step db e = Inr db'"
  then show "results_ok db' \<and> (\<exists>r. get_result_row k db' = Some r \<and> I r)"
    using result_step_ok result_step_refines keep by blast
qed

interpretation original: result_invariant k "\<lambda>_. True" "\<lambda>q. q = r \<and> protected_row q" for k r
proof
  fix q e x
  assume "q = r \<and> protected_row q" "result_move k e q x"
  then show "\<exists>r'. x = Some r' \<and> r' = r \<and> protected_row r'" by (cases e) auto
qed

text \<open>Events that neither publish anew for \<open>k\<close> nor delete it.\<close>

fun keeps_success :: "uuid \<Rightarrow> result_event \<Rightarrow> bool" where
  "keeps_success k (RSuccess i ty payload tenant now) = (i \<noteq> k)"
| "keeps_success k (RPrune older_than excl) = (k \<in> set (case excl of None \<Rightarrow> [] | Some ids \<Rightarrow> ids))"
| "keeps_success k RClear = False"
| "keeps_success k e = True"

interpretation success: result_invariant k "keeps_success k" "\<lambda>q. q = r \<and> ar_result_status q = RComplete" for k r
proof
  fix q e x
  assume "q = r \<and> ar_result_status q = RComplete" "keeps_success k e" "result_move k e q x"
  then show "\<exists>r'. x = Some r' \<and> r' = r \<and> ar_result_status r' = RComplete" by (cases e) auto
qed

fun keeps_row :: "uuid \<Rightarrow> result_event \<Rightarrow> bool" where
  "keeps_row k (RPrune older_than excl) = (k \<in> set (case excl of None \<Rightarrow> [] | Some ids \<Rightarrow> ids))"
| "keeps_row k RClear = False"
| "keeps_row k e = True"

interpretation owned: result_invariant k "keeps_row k" "\<lambda>q. ar_tenant_id q = t" for k t
proof
  fix q e x
  assume "ar_tenant_id q = t" "keeps_row k e" "result_move k e q x"
  then show "\<exists>r'. x = Some r' \<and> ar_tenant_id r' = t" by (cases e) (auto simp: success_row_def failure_row_def)
qed

text \<open>C11: Whatever the result store is asked to do: a composite original stays as published;
  a success stays as published unless the same calculation publishes again or retention deletes
  it (failures never overwrite it); and no row ever passes to another tenant.\<close>

theorem results_endure:
  assumes "results_ok db" "get_result_row k db = Some r"
  shows "(protected_row r \<longrightarrow> get_result_row k (run_ops result_step db es) = Some r)
    \<and> (ar_result_status r = RComplete \<and> list_all (keeps_success k) es \<longrightarrow> get_result_row k (run_ops result_step db es) = Some r)
    \<and> (list_all (keeps_row k) es \<longrightarrow>
        (\<exists>r'. get_result_row k (run_ops result_step db es) = Some r' \<and> ar_tenant_id r' = ar_tenant_id r))"
  using original.run.run_inv [of db k r es] success.run.run_inv [of db k r es] owned.run.run_inv [of db k "ar_tenant_id r" es] assms
  by (auto simp: list_all_iff)

text \<open>C25: A composite original is published once: publishing it again, by any worker
  and after any other events, succeeds without a change, and a different response for the
  calculation is refused.\<close>

theorem original_published_once:
  assumes "results_ok db" "ty \<in> {COMPOSITE_POOLED_ANALYTICS_TYPE, COMPOSITE_ATTRIBUTION_ANALYTICS_TYPE}"
    "record_composite_success_in_transaction inputs ty k tenant digest payload now db = Inr ((), db1)"
  shows "record_composite_success_in_transaction inputs ty k tenant digest payload later (run_ops result_step db1 es)
        = Inr ((), run_ops result_step db1 es)
    \<and> (dumps_dict payload' \<noteq> dumps_dict payload \<longrightarrow> (\<exists>msg.
        record_composite_success_in_transaction inputs ty k tenant digest payload' later (run_ops result_step db1 es)
        = Inl (OriginalConflict msg)))"
proof -
  let ?db2 = "run_ops result_step db1 es"
  obtain t where t: "composite_tenant tenant = Inr t" and db1: "db1 = insert_original (success_row k (Some t) ty payload now) db"
    and id: "map_option result_identity (get_result_row k db1) = Some (result_identity (success_row k (Some t) ty payload now))"
    using original_effect [OF assms(3)] by auto
  from id obtain r where r: "get_result_row k db1 = Some r" "result_identity r = result_identity (success_row k (Some t) ty payload now)"
    by auto
  then have "protected_row r"
    using assms(2) by (auto simp: result_identity_def success_row_def protected_row_def COMPOSITE_PROTECTED_RESULT_TYPES_def)
  then have kept: "get_result_row k ?db2 = Some r"
    using original.run.run_inv [of db1 k r es] r(1) insert_original_ok [OF assms(1)] by (auto simp: db1 list_all_iff)
  then have idle: "insert_original (success_row k (Some t) ty p later) ?db2 = ?db2" for p by (simp add: insert_original_def)
  have dialect: "db_dialect_name ?db2 \<in> {''postgresql'', ''sqlite''}"
    unfolding run_dialect db1 insert_original_dialect
    using assms(3) by (simp add: record_composite_success_in_transaction_def) blast
  have bound: "inputs t k = Some digest" "dict_get payload ''calculation_id'' = Some (JStr k)"
    "dict_get payload ''input_manifest_digest'' = Some (JStr digest)"
    using assms(3) t by (auto simp: record_composite_success_in_transaction_def)
  define db2 where "db2 = ?db2"
  have same: "result_identity r = result_identity (success_row k (Some t) ty p later) \<longleftrightarrow> dumps_dict p = dumps_dict payload" for p
    using r(2) by (auto simp: result_identity_def success_row_def)
  have again: "record_composite_success_in_transaction inputs ty k tenant digest p later db2
    = (if dict_get p ''calculation_id'' = Some (JStr k) \<and> dict_get p ''input_manifest_digest'' = Some (JStr digest)
       then if dumps_dict p = dumps_dict payload then Inr ((), db2)
            else Inl (OriginalConflict ''Calculation already retains a different original result.'')
       else Inl (OriginalConflict ''Composite result does not bind the retained tenant/calculation input.''))" for p
    using dialect kept idle [of p] unfolding db2_def [symmetric]
    by (auto simp: record_composite_success_in_transaction_def t bound(1) Let_def ensure_def same)
  show ?thesis unfolding db2_def [symmetric] again using bound(2,3) by auto
qed

text \<open>
  A published response is read back as it was given, up to the order of its keys, and
  only by its tenant; a published failure is read back with its classification.\<close>

theorem result_roundtrip:
  assumes "record_success k ty payload (Some tenant) now db = Inr ((), db')"
  shows "get_result_row k db' = Some (success_row k (Some (strip tenant)) ty payload now)
    \<and> (\<exists>rec. get_result_for_tenant k (strip tenant) db' = Some rec \<and> res_result_status rec = RComplete
         \<and> res_analytics_type rec = ty \<and> res_failure rec = None
         \<and> res_response_payload rec = Some (sort_key fst (List.map (map_prod id sort_keys) payload)))
    \<and> (\<forall>other. other \<noteq> strip tenant \<longrightarrow> get_result_for_tenant k other db' = None)"
proof -
  have "get_result_row k db' = Some (success_row k (Some (strip tenant)) ty payload now)"
    using assms merge_result_new [of "success_row k (Some (strip tenant)) ty payload now" db]
    by (auto simp: record_success_def Let_def)
  then show ?thesis
    by (auto simp: get_result_for_tenant_def async_result_record_from_row_def success_row_def load_result_payload_def
        has_invalid_response_payload_def Let_def load_durable_failure_def)
qed

end
