(* ===== verification/Worker_Machine.thy ===== *)
theory Worker_Machine
  imports Compute_Worker Results_Safety Lineage_Leases
begin

text \<open>
  The compute worker over the machines of the stores: what a worker pass leaves in the database is
  what some sequence of store events leaves there, so it keeps the invariant of every store.
\<close>

section \<open>Events of the platform\<close>

text \<open>An event of the queue, custody, registry and lineage stores, or of the result store.\<close>

datatype platform_event = Stores system_event | Results result_event

fun platform_step :: "database \<Rightarrow> platform_event \<Rightarrow> store_error + database" where
  "platform_step db (Stores e) = system_step db e"
| "platform_step db (Results e) = result_step db e"

section \<open>Frames\<close>

abbreviation foreign_tables :: "database \<Rightarrow> compute_job_row list \<times> execution_row list \<times> result_row list" where
  "foreign_tables db \<equiv> (db_jobs db, db_executions db, db_results db)"

lemma mark_invalid_foreign: "foreign_tables (mark_invalid_payload_details k now db) = foreign_tables db"
  by (simp add: mark_invalid_payload_details_def update_payload_def update_lineage_def)

lemma payloads_from_rows_foreign: "foreign_tables (snd (payloads_from_rows now rows db)) = foreign_tables db"
  by (induction rows arbitrary: db) (auto simp: case_prod_beta mark_invalid_foreign [simplified] split: option.splits)

lemma lease_payload_rows_foreign: "foreign_tables (snd (lease_payload_rows w now x rows db)) = foreign_tables db"
  by (induction rows arbitrary: db)
    (auto simp: case_prod_beta mark_invalid_foreign [simplified] update_payload_def split: option.splits)

lemma merge_pending_foreign: "foreign_tables (merge_pending_record k ty now db) = foreign_tables db"
  by (auto simp: merge_pending_record_def add_lineage_def update_lineage_def split: option.splits)

lemma merge_payload_foreign: "foreign_tables (merge_payload p db) = foreign_tables db"
  by (auto simp: merge_payload_def add_payload_def update_payload_def split: option.splits)

lemmas lineage_foreign = mark_invalid_foreign [simplified] payloads_from_rows_foreign [simplified]
  lease_payload_rows_foreign [simplified] merge_pending_foreign [simplified] merge_payload_foreign [simplified]

lemma lineage_step_foreign: "lineage_step db e = Inr db' \<Longrightarrow> foreign_tables db' = foreign_tables db"
  by (cases e)
    (auto simp: lineage_foreign create_pending_record_def enqueue_lineage_payload_def mark_pending_def
      mark_lineage_complete_def mark_failed_if_present_def mark_failed_in_session_def retry_source_materialization_def
      lease_pending_payloads_def lease_pending_payloads_postgresql_def claim_payloads_def lease_pending_payload_def
      list_pending_payloads_def get_lineage_payload_def increment_attempt_count_def delete_payload_def
      reconcile_stranded_candidate_def terminalize_stranded_source_def delete_calculation_ids_def tbl_update_where_def
      update_lineage_def update_payload_def drop_payload_def Let_def
      split: option.splits if_splits)

lemma custody_step_frame: "custody_step db e = Inr db' \<Longrightarrow> same_stores db db'"
  by (cases e) (auto simp: same_stores_def dest: select_source_root_frame)

lemma insert_snapshot_results: "insert_snapshot row db = Some db' \<Longrightarrow> db_results db' = db_results db"
  by (auto simp: insert_snapshot_def split: option.splits)

lemma record_missing_loop_results: "db_results (record_missing_loop k ps now seen db) = db_results db"
proof (induction ps arbitrary: seen db)
  case (Cons p ps)
  have "db_results (snd (snd (record_missing_upstream_snapshot k p now seen db))) = db_results db"
    using insert_snapshot_results by (auto simp: record_missing_upstream_snapshot_def split: option.splits)
  with Cons show ?case by (simp add: case_prod_beta)
qed simp

lemma exec_step_results: "exec_step db e = Inr db' \<Longrightarrow> db_results db' = db_results db"
  by (cases e)
    (auto simp: registry_ops drop_result_def db_ops tbl_update_where_def Let_def record_missing_loop_results
      dest: insert_snapshot_results split: option.splits if_splits prod.splits)

lemma exec_step_jobs: "exec_step db e = Inr db' \<Longrightarrow> db_jobs db' = db_jobs db"
proof (cases e)
  case (XFail k msg failure now)
  assume "exec_step db e = Inr db'"
  then show ?thesis unfolding XFail by (auto simp: mark_execution_failed_def update_execution_def)
qed (use exec_step_other in fastforce)+

lemma merge_result_frame: "merge_result row db = Inr db' \<Longrightarrow> \<exists>rs. db' = db\<lparr>db_results := rs\<rparr>"
  by (auto simp: merge_result_def add_result_def update_result_def split: option.splits)

lemma insert_original_frame: "\<exists>rs. insert_original row db = db\<lparr>db_results := rs\<rparr>"
  by (cases "get_result_row (ar_calculation_id row) db")
    (auto simp: insert_original_def add_result_def intro: exI [of _ "db_results db"])

lemma result_step_frame: "result_step db e = Inr db' \<Longrightarrow> \<exists>rs. db' = db\<lparr>db_results := rs\<rparr>"
  by (cases e)
    (auto simp: record_success_def record_failure_def record_pooled_success_in_transaction_def
      record_attribution_success_in_transaction_def prune_results_older_than_def clear_all_result_records_def Let_def
      insert_original_frame merge_result_frame split: if_splits dest!: original_effect intro: exI [of _ "db_results db"])

section \<open>The invariant of the platform\<close>

interpretation registry_jobs: jobs_closed registry_ok
proof
  show "registry_ok db \<Longrightarrow> custody_step db e = Inr db' \<Longrightarrow> registry_ok db'" for db e db'
    using custody_step_frame by (simp add: registry_ok_def same_stores_def del: custody_step.simps)
qed (simp add: registry_ok_def)

interpretation results_jobs: jobs_closed results_ok
proof
  show "results_ok db \<Longrightarrow> custody_step db e = Inr db' \<Longrightarrow> results_ok db'" for db e db'
    using custody_step_frame by (simp add: results_ok_def same_stores_def del: custody_step.simps)
qed (simp add: results_ok_def)

definition platform_ok :: "database \<Rightarrow> bool" where
  "platform_ok db \<longleftrightarrow> jobs_ok db \<and> registry_ok db \<and> lineage_ok db \<and> custody_inv db \<and> results_ok db"

lemma platform_jobs_ok: "jobs_ok db \<Longrightarrow> platform_step db e = Inr db' \<Longrightarrow> jobs_ok db'"
proof (cases e)
  case (Stores s)
  assume "jobs_ok db" "platform_step db e = Inr db'"
  then show ?thesis unfolding Stores
    using job_table.step_inv custody_step_frame exec_step_jobs lineage_step_foreign
    by (cases s) (auto simp: jobs_ok_def same_stores_def simp del: job_step.simps exec_step.simps custody_step.simps lineage_step.simps)
next
  case (Results r)
  assume "jobs_ok db" "platform_step db e = Inr db'"
  then show ?thesis unfolding Results using result_step_frame [of db r db'] by (auto simp: jobs_ok_def simp del: result_step.simps)
qed

lemma system_registry_ok: "registry_ok db \<Longrightarrow> system_step db s = Inr db' \<Longrightarrow> registry_ok db'"
proof (cases s)
  case (Queue e)
  assume "registry_ok db" "system_step db s = Inr db'"
  then show ?thesis unfolding Queue system_step.simps by (rule registry_jobs.job_event_keeps_Q)
next
  case (Custody e)
  assume "registry_ok db" "system_step db s = Inr db'"
  then show ?thesis unfolding Custody system_step.simps by (rule registry_jobs.closed_event)
next
  case (Registry e)
  assume "registry_ok db" "system_step db s = Inr db'"
  then show ?thesis unfolding Registry system_step.simps by (rule registry.step_inv [OF _ TrueI])
next
  case (Lineage e)
  assume "registry_ok db" "system_step db s = Inr db'"
  then show ?thesis unfolding Lineage system_step.simps using lineage_step_foreign [of db e db'] by (simp add: registry_ok_def)
qed

lemma system_results_ok: "results_ok db \<Longrightarrow> system_step db s = Inr db' \<Longrightarrow> results_ok db'"
proof (cases s)
  case (Queue e)
  assume "results_ok db" "system_step db s = Inr db'"
  then show ?thesis unfolding Queue system_step.simps by (rule results_jobs.job_event_keeps_Q)
next
  case (Custody e)
  assume "results_ok db" "system_step db s = Inr db'"
  then show ?thesis unfolding Custody system_step.simps by (rule results_jobs.closed_event)
next
  case (Registry e)
  assume "results_ok db" "system_step db s = Inr db'"
  then show ?thesis unfolding Registry system_step.simps using exec_step_results [of db e db'] by (simp add: results_ok_def)
next
  case (Lineage e)
  assume "results_ok db" "system_step db s = Inr db'"
  then show ?thesis unfolding Lineage system_step.simps using lineage_step_foreign [of db e db'] by (simp add: results_ok_def)
qed

lemma platform_registry_ok: "registry_ok db \<Longrightarrow> platform_step db e = Inr db' \<Longrightarrow> registry_ok db'"
proof (cases e)
  case (Stores s)
  assume "registry_ok db" "platform_step db e = Inr db'"
  then show ?thesis unfolding Stores platform_step.simps by (rule system_registry_ok)
next
  case (Results r)
  assume "registry_ok db" "platform_step db e = Inr db'"
  then show ?thesis unfolding Results using result_step_frame [of db r db'] by (auto simp: registry_ok_def simp del: result_step.simps)
qed

lemma platform_results_ok: "results_ok db \<Longrightarrow> platform_step db e = Inr db' \<Longrightarrow> results_ok db'"
proof (cases e)
  case (Stores s)
  assume "results_ok db" "platform_step db e = Inr db'"
  then show ?thesis unfolding Stores platform_step.simps by (rule system_results_ok)
next
  case (Results r)
  assume "results_ok db" "platform_step db e = Inr db'"
  then show ?thesis unfolding Results using result_step_ok by simp
qed

text \<open>What the system events keep of the lineage tables, every platform event keeps.\<close>

context source_contract
begin

definition kept_platform_event :: "platform_event \<Rightarrow> bool" where
  "kept_platform_event e = (case e of Stores s \<Rightarrow> kept_event s | _ \<Rightarrow> True)"

lemma platform_keeps_Q:
  assumes "Q db" "kept_platform_event e" "platform_step db e = Inr db'"
  shows "Q db'"
proof (cases e)
  case (Stores s)
  with assms show ?thesis using system_event_keeps_Q by (simp add: kept_platform_event_def)
next
  case (Results r)
  with assms result_step_frame [of db r db'] show ?thesis
    using lineage_only [of db' db] by (auto simp del: result_step.simps)
qed

end

lemma platform_step_ok: "platform_ok db \<Longrightarrow> platform_step db e = Inr db' \<Longrightarrow> platform_ok db'"
  using platform_jobs_ok platform_registry_ok platform_results_ok
    system_ok.platform_keeps_Q [of db e db'] system_inv.platform_keeps_Q [of db e db']
  by (auto simp: platform_ok_def system_ok.kept_platform_event_def system_inv.kept_platform_event_def
      system_ok.kept_event_def system_inv.kept_event_def simp del: platform_step.simps split: platform_event.split system_event.split)

interpretation platform: guarded_machine platform_step "\<lambda>_. True" platform_ok
  by unfold_locales (rule platform_step_ok)

lemma platform_ok_empty: "platform_ok (empty_database dialect)"
proof -
  have "registry_ok (empty_database dialect)"
    by (simp add: registry_ok_def empty_database_def tbl_ok_def idempotency_index_def)
  then show ?thesis by (simp add: platform_ok_def lineage_ok_empty custody_inv_empty)
qed

section \<open>Refinement of the worker\<close>

definition reaches :: "database \<Rightarrow> database \<Rightarrow> bool" where
  "reaches db db' \<longleftrightarrow> (\<exists>es. db' = run_ops platform_step db es)"

lemma reaches_refl [simp]: "reaches db db"
  unfolding reaches_def by (rule exI [of _ "[]"]) simp

lemma reaches_trans: "reaches a b \<Longrightarrow> reaches b c \<Longrightarrow> reaches a c"
  unfolding reaches_def using platform.run_append by metis

lemma reaches_step: "platform_step db e = Inr db' \<Longrightarrow> reaches db db'"
  unfolding reaches_def by (rule exI [of _ "[e]"]) simp

text \<open>Other processes and the parameters act on the database through the stores.\<close>

definition env_acts :: "worker_env \<Rightarrow> bool" where
  "env_acts env \<longleftrightarrow> (\<forall>c db. reaches db (we_others env c db))"

definition context_acts :: "compute_context \<Rightarrow> bool" where
  "context_acts cx \<longleftrightarrow> (\<forall>t job db. reaches db (snd (cx_execute cx t job db)))
     \<and> (\<forall>k w db. reaches db (snd (cx_materialize cx k w db)))
     \<and> (\<forall>job payload db. reaches db (snd (cx_publish_original cx job payload db)))"

definition pass_acts :: "pass_env \<Rightarrow> compute_runtime \<Rightarrow> bool" where
  "pass_acts pe rt \<longleftrightarrow> (\<forall>k. env_acts (pe_reconciled pe k) \<and> env_acts (pe_jobs pe k))
     \<and> (\<forall>db. reaches db (pe_before_lease pe db)) \<and> context_acts (rt_context rt)"

definition refines_event :: "(instant \<Rightarrow> database \<Rightarrow> store_error + 'a \<times> database) \<Rightarrow> bool" where
  "refines_event op \<longleftrightarrow> (\<forall>now db a db'. op now db = Inr (a, db') \<longrightarrow> reaches db db')"

lemma store_call_reaches:
  assumes "env_acts env" "refines_event op"
  shows "reaches db (snd (store_call env c op db))"
proof -
  have "reaches db (we_others env c db)" using assms(1) by (simp add: env_acts_def)
  then show ?thesis using assms(2)
    by (auto simp: store_call_def Let_def refines_event_def split: sum.split intro: reaches_trans)
qed

lemma own_call_reaches:
  "env_acts env \<Longrightarrow> (\<And>db. reaches db (snd (op db))) \<Longrightarrow> reaches db (snd (own_call env c op db))"
  unfolding own_call_def env_acts_def using reaches_trans by blast

lemma refines_reading [simp]: "refines_event (reading op)"
  by (auto simp: refines_event_def reading_def)

text \<open>Every call of the worker is an event of the platform.\<close>

lemma worker_calls [simp]:
  "refines_event (mark_running_acquired k w acq secs)"
  "refines_event (renew_lease k (Some w) secs)"
  "refines_event (mark_complete k payload (Some w))"
  "refines_event (mark_complete k payload None)"
  "refines_event (mark_retryable_failure k msg ty (Some w) failure)"
  "refines_event (mark_failed k msg ty (Some w) failure)"
  "refines_event (record_success k aty payload tenant)"
  "refines_event (record_failure k aty msg ty tenant failure)"
  "refines_event (fail_in_progress_stages k msg)"
  "refines_event (mark_execution_failed k msg failure)"
  unfolding refines_event_def
  using reaches_step [of _ "Stores (Queue (Acquire k w acq secs n))" for n]
    reaches_step [of _ "Stores (Queue (Renew k (Some w) secs n))" for n]
    reaches_step [of _ "Stores (Queue (Finish k payload (Some w) n))" for n]
    reaches_step [of _ "Stores (Queue (Finish k payload None n))" for n]
    reaches_step [of _ "Stores (Queue (Retry k msg ty (Some w) failure n))" for n]
    reaches_step [of _ "Stores (Queue (Fail k msg ty (Some w) failure n))" for n]
    reaches_step [of _ "Results (RSuccess k aty payload tenant n)" for n]
    reaches_step [of _ "Results (RFailure k aty msg ty tenant failure n)" for n]
    reaches_step [of _ "Stores (Registry (XFailInProgress k msg n))" for n]
    reaches_step [of _ "Stores (Registry (XFail k msg failure n))" for n]
  by fastforce+

lemma raise_store_snd [simp]: "snd (raise_store r) = snd r"
  by (cases r) (simp add: raise_store_def split: sum.split)

lemma terminal_failure_reaches:
  assumes "env_acts env"
  shows "reaches db (snd (record_terminal_failure env k ty tenant msg et failure db))"
proof -
  note call = store_call_reaches [OF assms]
  have swallow: "reaches a (snd (swallow_key_error r f))" if "reaches a (snd r)" "\<And>b. reaches b (snd (f b))" for a r f
    using that by (cases r) (auto simp: swallow_key_error_def split: sum.split store_error.split intro: reaches_trans)
  have rest: "reaches a (snd (swallow_key_error (store_call env StagesFailCall (fail_in_progress_stages k msg) a) (\<lambda>b.
      swallow_key_error (store_call env ExecutionFailCall (mark_execution_failed k msg (Some failure)) b) (\<lambda>c. (Inr (), c)))))" for a
    by (intro swallow call) simp_all
  show ?thesis
  proof (cases "keeps_no_failure_result ty")
    case True
    with rest show ?thesis by (simp add: record_terminal_failure_def)
  next
    case False
    obtain r db1 where r: "store_call env ResultFailureCall (record_failure k ty msg (Some et) tenant (Some failure)) db = (r, db1)"
      by fastforce
    with call [of "record_failure k ty msg (Some et) tenant (Some failure)" db ResultFailureCall] have "reaches db db1" by simp
    with False r rest [of db1] show ?thesis
      by (cases r) (auto simp: record_terminal_failure_def intro: reaches_trans)
  qed
qed

lemma failure_reaches:
  assumes "env_acts env" "rec_worker_id job = Some w"
  shows "reaches db (snd (handle_compute_job_failure env job exc db))"
proof -
  let ?b = "is_retryable_exception exc"
  let ?f = "classify_durable_failure (exception_of exc) (Some ?b)"
  note terminal = terminal_failure_reaches [OF assms(1)]
  obtain r db1 where r: "store_call env FailCall (mark_retryable_failure (rec_calculation_id job) (dfc_message ?f)
      (Some (exception_name exc)) (Some w) (Some ?f)) db = (r, db1)" by fastforce
  obtain q db2 where q: "store_call env FailCall (mark_failed (rec_calculation_id job) (dfc_message ?f)
      (Some (exception_name exc)) (Some w) (Some ?f)) db = (q, db2)" by fastforce
  have "reaches db db1" "reaches db db2"
    using store_call_reaches [OF assms(1) worker_calls(5)] store_call_reaches [OF assms(1) worker_calls(6)] r q by (metis snd_conv)+
  then show ?thesis using r q terminal
    by (auto simp: handle_compute_job_failure_def Let_def assms(2) split: sum.split store_error.split intro: reaches_trans)
qed

lemma publish_reaches:
  assumes "env_acts env" "context_acts (rt_context rt)" "rec_worker_id job = Some w"
  shows "reaches db (snd (publish_compute_job_success env rt job payload db))"
proof -
  obtain r db1 where r: "store_call env CheckCall
      (reading (ensure_active_lease_owner (rec_calculation_id job) (Some (rt_worker_id rt)))) db = (r, db1)" by fastforce
  have db1: "reaches db db1"
    using store_call_reaches [OF assms(1) refines_reading] r by (metis snd_conv)
  have original: "reaches b (snd (own_call env PublishCall (cx_publish_original (rt_context rt) job payload) b))" for b
    by (rule own_call_reaches [OF assms(1)]) (use assms(2) in \<open>simp add: context_acts_def\<close>)
  have published: "reaches a (snd (publish_response env (rt_context rt) job payload a))" for a
    using original store_call_reaches [OF assms(1) worker_calls(7)] by (auto simp: publish_response_def)
  have completed: "reaches a (snd (store_call env CompleteCall (mark_complete k payload (Some v)) a))" for a k v
    by (rule store_call_reaches [OF assms(1)]) simp
  obtain q db2 where q: "publish_response env (rt_context rt) job payload db1 = (q, db2)" by fastforce
  then have "reaches db db2" using reaches_trans [OF db1 published] by (metis snd_conv)
  then show ?thesis using r q db1 completed failure_reaches [OF assms(1,3)]
    by (auto simp: publish_compute_job_success_def split: sum.split store_error.split intro: reaches_trans)
qed

lemma materialize_reaches:
  assumes "env_acts env" "context_acts (rt_context rt)"
  shows "reaches db (snd (materialize_workspace_summary_lineage_before_success_publication env rt job db))"
proof (cases "rec_analytics_type job = ANALYTICS_WORKFLOW_WORKSPACE_SUMMARY")
  case True
  let ?renew = "\<lambda>c. store_call env c (renew_lease (rec_calculation_id job) (Some (rt_worker_id rt)) (rt_lease_seconds rt))"
  have renew: "reaches a (snd (?renew c a))" for a c by (rule store_call_reaches [OF assms(1)]) simp
  let ?m = "\<lambda>a. own_call env MaterializeCall (cx_materialize (rt_context rt) (rec_calculation_id job)
      (workspace_summary_inline_lineage_worker_id (rec_calculation_id job) (we_inline_fresh env))) a"
  have m: "reaches a (snd (?m a))" for a
    by (rule own_call_reaches [OF assms(1)]) (use assms(2) in \<open>simp add: context_acts_def\<close>)
  obtain r db1 where r: "?renew RenewBeforeCall db = (r, db1)" by fastforce
  obtain q db2 where q: "?m db1 = (q, db2)" by fastforce
  have "reaches db db1" "reaches db1 db2" using renew [of db RenewBeforeCall] m [of db1] r q by simp_all
  then show ?thesis using True r q renew [of db2 RenewAfterCall]
    by (auto simp: materialize_workspace_summary_lineage_before_success_publication_def split: sum.split bool.split
        intro: reaches_trans)
qed (simp add: materialize_workspace_summary_lineage_before_success_publication_def)

lemma execute_reaches:
  "env_acts env \<Longrightarrow> context_acts cx \<Longrightarrow> reaches db (snd (execute_compute_job env cx job db))"
  by (auto simp: execute_compute_job_def context_acts_def split: option.split intro: own_call_reaches)

lemma snd_sum_done: "snd (case x of (Inl e, d) \<Rightarrow> (Inl e, d) | (Inr u, d) \<Rightarrow> (Inr c, d)) = snd x"
  by (cases x) (simp split: sum.split)

lemma process_job_reaches:
  assumes "env_acts env" "context_acts (rt_context rt)"
  shows "reaches db (snd (process_leased_compute_job env rt job db))"
proof -
  define acq where "acq = compute_job_acquisition_worker_id (rec_calculation_id job) (we_fresh env)"
  define rt' where "rt' = rt\<lparr>rt_worker_id := acq\<rparr>"
  define job' where "job' = job\<lparr>rec_worker_id := Some acq\<rparr>"
  have job': "rec_worker_id job' = Some acq" "rt_context rt' = rt_context rt" by (simp_all add: job'_def rt'_def)
  obtain r db1 where r: "store_call env AcquireCall
      (mark_running_acquired (rec_calculation_id job) (rt_worker_id rt) acq (rt_lease_seconds rt)) db = (r, db1)" by fastforce
  obtain q db2 where q: "execute_compute_job env (rt_context rt) job' db1 = (q, db2)" by fastforce
  obtain p db3 where p: "materialize_workspace_summary_lineage_before_success_publication env rt' job' db2 = (p, db3)" by fastforce
  have db1: "reaches db db1" using store_call_reaches [OF assms(1) worker_calls(1)] r by (metis snd_conv)
  have "reaches db1 db2" using execute_reaches [OF assms, of db1 job'] q by simp
  with db1 have db2: "reaches db db2" by (rule reaches_trans)
  have "reaches db2 db3" using materialize_reaches [OF assms(1), of rt' db2 job'] assms(2) p job' by simp
  with db2 have db3: "reaches db db3" by (rule reaches_trans)
  note fail = failure_reaches [OF assms(1) job'(1)] and publish = publish_reaches [OF assms(1) _ job'(1), of rt']
  show ?thesis
    unfolding process_leased_compute_job_def Let_def acq_def [symmetric] rt'_def [symmetric] job'_def [symmetric] r
    using q p db1 db2 db3 fail publish assms(2) job'(2)
    by (auto simp: snd_sum_done split: sum.split store_error.split intro: reaches_trans)
qed

lemma recover_reaches:
  assumes "env_acts env"
  shows "reaches db (snd (recover_reconciled_job_from_success_result env rj db))"
proof -
  have "reaches db (we_others env ReadResultCall db)" using assms by (simp add: env_acts_def)
  moreover have "reaches a (snd (store_call env RecoverCall (mark_complete k payload None) a))" for a k payload
    by (rule store_call_reaches [OF assms]) simp
  ultimately show ?thesis
    by (auto simp: recover_reconciled_job_from_success_result_def Let_def snd_sum_done split: option.split sum.split prod.split
        intro: reaches_trans) (metis reaches_trans snd_conv)+
qed

lemma reconciled_reaches:
  assumes "env_acts env"
  shows "reaches db (snd (handle_reconciled_stale_job env rj db))"
proof -
  obtain r db1 where r: "recover_reconciled_job_from_success_result env rj db = (r, db1)" by fastforce
  then have "reaches db db1" using recover_reaches [OF assms, of db rj] by simp
  then show ?thesis using r terminal_failure_reaches [OF assms]
    by (auto simp: handle_reconciled_stale_job_def split: sum.split bool.split intro: reaches_trans)
qed

lemma reconciled_all_reach:
  assumes "\<forall>k. env_acts (envs k)"
  shows "reaches db (snd (handle_reconciled_jobs envs rjs db))"
proof (induction rjs arbitrary: db)
  case (Cons rj rjs)
  obtain r db1 where r: "handle_reconciled_stale_job (envs (rj_calculation_id rj)) rj db = (r, db1)" by fastforce
  then have "reaches db db1" using reconciled_reaches assms by (metis snd_conv)
  with r Cons show ?case by (cases r) (auto intro: reaches_trans)
qed simp

lemma leased_all_reach:
  assumes "\<forall>k. env_acts (envs k)" "context_acts (rt_context rt)"
  shows "reaches db (snd (process_leased_jobs envs rt jobs db))"
proof (induction jobs arbitrary: db)
  case (Cons job jobs)
  obtain r db1 where r: "process_leased_compute_job (envs (rec_calculation_id job)) rt job db = (r, db1)" by fastforce
  obtain q db2 where q: "process_leased_jobs envs rt jobs db1 = (q, db2)" by fastforce
  have "reaches db db1" using process_job_reaches assms r by (metis snd_conv)
  moreover have "reaches db1 db2" using Cons [of db1] q by simp
  ultimately show ?case using r q by (auto split: sum.split intro: reaches_trans)
qed simp

lemma pass_reaches:
  assumes "pass_acts pe rt"
  shows "reaches db (snd (process_pending_jobs pe rt db))"
proof -
  obtain stale db1 where s: "reconcile_stale_jobs (pe_locked pe) (pe_reconcile_clock pe) db = (stale, db1)" by fastforce
  obtain r db2 where r: "handle_reconciled_jobs (pe_reconciled pe) stale db1 = (r, db2)" by fastforce
  define db3 where "db3 = pe_before_lease pe db2"
  define lease where "lease = lease_pending_jobs (rt_worker_id rt) (rt_batch_size rt) (rt_lease_seconds rt) None (pe_locked pe)
    (pe_lease_clock pe) db3"
  have "platform_step db (Stores (Queue (Reconcile (pe_locked pe) (pe_reconcile_clock pe)))) = Inr db1" using s by simp
  then have "reaches db db1" by (rule reaches_step)
  moreover have "reaches db1 db2" using reconciled_all_reach [of "pe_reconciled pe" db1 stale] assms r by (simp add: pass_acts_def)
  ultimately have db2: "reaches db db2" by (rule reaches_trans)
  moreover have "reaches db2 db3" using assms by (simp add: pass_acts_def db3_def)
  ultimately have db3: "reaches db db3" by (rule reaches_trans)
  have leased: "reaches db (snd (process_leased_jobs (pe_jobs pe) rt jobs db4))" if "lease = Inr (jobs, db4)" for jobs db4
  proof -
    have "platform_step db3 (Stores (Queue (Lease (rt_worker_id rt) (rt_batch_size rt) (rt_lease_seconds rt) None
        (pe_locked pe) (pe_lease_clock pe)))) = Inr db4" using that by (simp add: lease_def)
    then have "reaches db db4" using reaches_step db3 reaches_trans by blast
    moreover have "reaches db4 (snd (process_leased_jobs (pe_jobs pe) rt jobs db4))"
      by (rule leased_all_reach) (use assms in \<open>simp_all add: pass_acts_def\<close>)
    ultimately show ?thesis by (rule reaches_trans)
  qed
  show ?thesis
    unfolding process_pending_jobs_def s Let_def prod.case r db3_def [symmetric] lease_def [symmetric]
    using leased db2 db3 by (auto split: sum.split)
qed

text \<open>A pass of the worker refines the machines of the stores: whatever the calculations return
  or raise and whatever other processes commit between its calls, the database it leaves is one
  that a sequence of store events leaves, and it keeps the invariant of the job table, the
  execution registry, the lineage tables, source custody and the result table.\<close>

theorem worker_pass_refines:
  assumes "pass_acts pe rt"
  shows "(\<exists>es. snd (process_pending_jobs pe rt db) = run_ops platform_step db es)
    \<and> (platform_ok db \<longrightarrow> platform_ok (snd (process_pending_jobs pe rt db)))"
proof -
  obtain es where es: "snd (process_pending_jobs pe rt db) = run_ops platform_step db es"
    using pass_reaches [OF assms] unfolding reaches_def by blast
  then show ?thesis using platform.run_inv [of db es] by (auto simp: list_all_iff)
qed

end
