(* ===== verification/Worker_Safety.thy ===== *)
theory Worker_Safety
  imports Compute_Worker Results_Safety Execution_Safety Job_Safety
begin

text \<open>
  What the compute worker does with one job: the outcome of a success and of a failure, what a
  worker that lost its lease may still write, how a publication after the job was failed diverges from
  it, and that a job whose worker stopped after it published is completed from the published result.
\<close>

section \<open>Calls by the holder of the lease\<close>

definition alone :: "worker_env \<Rightarrow> bool" where
  "alone env \<longleftrightarrow> (\<forall>c db. we_others env c db = db)"

lemma store_call_alone: "alone env \<Longrightarrow> store_call env c op db = (case op (we_clock env c) db of Inl e \<Rightarrow> (Inl e, db) | Inr (a, db2) \<Rightarrow> (Inr a, db2))"
  by (simp add: store_call_def alone_def)

lemma own_call_alone: "alone env \<Longrightarrow> own_call env c op db = op db"
  by (simp add: own_call_def alone_def)

lemma owner_Inr: "holds_lease w now r \<Longrightarrow> ensure_compute_job_active_lease_owner r k (Some w) t now = Inr ()"
  by (simp add: ensure_owner_iff)

lemma owner_Inl:
  "\<not> holds_lease w now r \<Longrightarrow> \<exists>m. ensure_compute_job_active_lease_owner r k (Some w) t now = Inl (LeaseOwnershipError m)"
  by (auto simp: ensure_compute_job_active_lease_owner_def holds_lease_def not_less split: option.splits)

text \<open>The calls as the holder makes them, and as anyone else does.\<close>

lemma holder_calls:
  assumes "get_job k db = Some r" "holds_lease w now r"
  shows "mark_running_acquired k w acq secs now db
      = Inr ((), update_job k (running_row (Some acq) (Some (now + timedelta_seconds secs)) now) db)"
    "ensure_active_lease_owner k (Some w) now db = Inr ()"
    "mark_complete k payload (Some w) now db = Inr ((), update_job k (complete_row payload now) db)"
    "mark_retryable_failure k msg ty (Some w) failure now db
      = (let db' = update_job k (retryable_row msg ty failure now) db in
         if job_attempt_count r < job_max_attempts r then Inr (True, db')
         else Inr (False, fail_terminal_source_custody [k] (job_tenant_id r) (Some (job_analytics_type r)) now db'))"
    "mark_failed k msg ty (Some w) failure now db
      = Inr ((), fail_terminal_source_custody [k] (job_tenant_id r) (Some (job_analytics_type r)) now
               (update_job k (failed_row msg ty failure now) db))"
  using get_job_mem [OF assms(1)] assms
  by (simp_all add: mark_running_acquired_def ensure_active_lease_owner_def mark_complete_def retryable_failure_result
      mark_failed_def get_model_def owner_Inr of_option_def Let_def)

lemma foreign_calls:
  assumes "get_job k db = Some r" "\<not> holds_lease w now r"
  shows "\<exists>m. mark_running_acquired k w acq secs now db = Inl (LeaseOwnershipError m)"
    "\<exists>m. ensure_active_lease_owner k (Some w) now db = Inl (LeaseOwnershipError m)"
    "\<exists>m. mark_complete k payload (Some w) now db = Inl (LeaseOwnershipError m)"
    "\<exists>m. mark_retryable_failure k msg ty (Some w) failure now db = Inl (LeaseOwnershipError m)"
    "\<exists>m. mark_failed k msg ty (Some w) failure now db = Inl (LeaseOwnershipError m)"
  using owner_Inl [OF assms(2)] assms(1)
  by (auto simp: mark_running_acquired_def ensure_active_lease_owner_def mark_complete_def mark_retryable_failure_def
      mark_failed_def get_model_def bind_res_Inl)

lemma absent_calls:
  assumes "get_job k db = None"
  shows "\<exists>m. mark_running_acquired k w acq secs now db = Inl (KeyError m)"
    "\<exists>m. ensure_active_lease_owner k (Some w) now db = Inl (KeyError m)"
    "\<exists>m. mark_retryable_failure k msg ty (Some w) failure now db = Inl (KeyError m)"
    "\<exists>m. mark_failed k msg ty (Some w) failure now db = Inl (KeyError m)"
    "\<exists>m. mark_complete k payload (Some w) now db = Inl (KeyError m)"
  using assms
  by (auto simp: mark_running_acquired_def ensure_active_lease_owner_def mark_retryable_failure_def
      mark_failed_def mark_complete_def get_model_def of_option_def)

section \<open>A worker without its lease\<close>

definition has_lease :: "uuid \<Rightarrow> string \<Rightarrow> instant \<Rightarrow> database \<Rightarrow> bool" where
  "has_lease k w now db \<longleftrightarrow> (\<exists>r. get_job k db = Some r \<and> holds_lease w now r)"

lemma refused_calls:
  assumes "\<not> has_lease k w now db"
  shows "\<exists>e. mark_running_acquired k w acq secs now db = Inl e"
    "\<exists>e. ensure_active_lease_owner k (Some w) now db = Inl e"
    "\<exists>e. mark_retryable_failure k msg ty (Some w) failure now db = Inl e"
    "\<exists>e. mark_failed k msg ty (Some w) failure now db = Inl e"
    "\<exists>e. mark_complete k payload (Some w) now db = Inl e"
  using assms absent_calls [of k db] foreign_calls [of k db _ w now]
  by (cases "get_job k db"; fastforce simp: has_lease_def)+

lemma check_passes:
  assumes "has_lease k w (we_clock env CheckCall) (we_others env CheckCall db)"
  shows "store_call env CheckCall (reading (ensure_active_lease_owner k (Some w))) db = (Inr (), we_others env CheckCall db)"
  using assms holder_calls(2) by (auto simp: has_lease_def store_call_def reading_def)

lemma store_call_refused:
  "op (we_clock env c) (we_others env c db) = Inl e \<Longrightarrow> store_call env c op db = (Inl e, we_others env c db)"
  by (simp add: store_call_def)

lemma failure_without_lease:
  assumes "rec_worker_id job = Some w"
    "\<not> has_lease (rec_calculation_id job) w (we_clock env FailCall) (we_others env FailCall db)"
  shows "snd (handle_compute_job_failure env job exc db) = we_others env FailCall db"
proof -
  let ?b = "is_retryable_exception exc"
  let ?f = "classify_durable_failure (exception_of exc) (Some ?b)"
  obtain e where e: "store_call env FailCall (mark_retryable_failure (rec_calculation_id job) (dfc_message ?f)
      (Some (exception_name exc)) (Some w) (Some ?f)) db = (Inl e, we_others env FailCall db)"
    using refused_calls(3) [OF assms(2)] store_call_refused by blast
  obtain e' where e': "store_call env FailCall (mark_failed (rec_calculation_id job) (dfc_message ?f)
      (Some (exception_name exc)) (Some w) (Some ?f)) db = (Inl e', we_others env FailCall db)"
    using refused_calls(4) [OF assms(2)] store_call_refused by blast
  show ?thesis
    by (cases ?b) (use e e' assms(1) in \<open>simp_all add: handle_compute_job_failure_def Let_def split: store_error.split\<close>)
qed

text \<open>C7: Whatever other processes commit between the calls of a worker: one that no longer holds
  the lease when it starts a job, when it makes its check before publishing, or when it reports a
  failure, leaves the database as the others left it. One that loses the lease only after that check
  has passed publishes its response to the result store, as its own transaction, but not to the job:
  if the publication succeeded, the completion is refused, the pass ends without an error and what
  the others left before the completion stays; if the publication was refused, so is the report of
  that failure. (Property \<open>late_publication_diverges\<close> says what the published response then means.)\<close>

theorem stale_worker_writes_nothing:
  assumes "rec_worker_id job = Some w"
  shows "(\<not> has_lease (rec_calculation_id job) (rt_worker_id rt) (we_clock env AcquireCall) (we_others env AcquireCall db) \<longrightarrow>
        snd (process_leased_compute_job env rt job db) = we_others env AcquireCall db)
    \<and> (\<not> has_lease (rec_calculation_id job) (rt_worker_id rt) (we_clock env CheckCall) (we_others env CheckCall db) \<longrightarrow>
        snd (publish_compute_job_success env rt job payload db) = we_others env CheckCall db)
    \<and> (\<not> has_lease (rec_calculation_id job) w (we_clock env FailCall) (we_others env FailCall db) \<longrightarrow>
        snd (handle_compute_job_failure env job exc db) = we_others env FailCall db)
    \<and> (\<forall>db2. publish_response env (rt_context rt) job payload (we_others env CheckCall db) = (Inr (), db2)
        \<and> has_lease (rec_calculation_id job) (rt_worker_id rt) (we_clock env CheckCall) (we_others env CheckCall db)
        \<and> \<not> has_lease (rec_calculation_id job) (rt_worker_id rt) (we_clock env CompleteCall) (we_others env CompleteCall db2) \<longrightarrow>
        publish_compute_job_success env rt job payload db = (Inr (), we_others env CompleteCall db2))
    \<and> (\<forall>exc' db2. publish_response env (rt_context rt) job payload (we_others env CheckCall db) = (Inl exc', db2)
        \<and> has_lease (rec_calculation_id job) (rt_worker_id rt) (we_clock env CheckCall) (we_others env CheckCall db)
        \<and> \<not> has_lease (rec_calculation_id job) w (we_clock env FailCall) (we_others env FailCall db2) \<longrightarrow>
        snd (publish_compute_job_success env rt job payload db) = we_others env FailCall db2)"
proof (intro conjI impI allI, goal_cases)
  case 1
  from refused_calls(1) [OF 1] obtain e where
    "store_call env AcquireCall (mark_running_acquired (rec_calculation_id job) (rt_worker_id rt)
       (compute_job_acquisition_worker_id (rec_calculation_id job) (we_fresh env)) (rt_lease_seconds rt)) db
     = (Inl e, we_others env AcquireCall db)" using store_call_refused by blast
  then show ?case by (simp add: process_leased_compute_job_def Let_def split: store_error.split)
next
  case 2
  from refused_calls(2) [OF 2] obtain e where
    "ensure_active_lease_owner (rec_calculation_id job) (Some (rt_worker_id rt)) (we_clock env CheckCall)
       (we_others env CheckCall db) = Inl e" by blast
  then have "store_call env CheckCall (reading (ensure_active_lease_owner (rec_calculation_id job) (Some (rt_worker_id rt)))) db
     = (Inl e, we_others env CheckCall db)" by (intro store_call_refused) (simp add: reading_def)
  then show ?case by (simp add: publish_compute_job_success_def split: store_error.split)
next
  case 3
  then show ?case by (rule failure_without_lease [OF assms])
next
  case (4 db2)
  then obtain e where "store_call env CompleteCall (mark_complete (rec_calculation_id job) payload (Some (rt_worker_id rt))) db2
      = (Inl e, we_others env CompleteCall db2)"
    using refused_calls(5) store_call_refused by blast
  then show ?case using 4 by (simp add: publish_compute_job_success_def check_passes)
next
  case (5 exc' db2)
  then show ?case using failure_without_lease [OF assms] by (simp add: publish_compute_job_success_def check_passes)
qed

section \<open>Failure\<close>

text \<open>A result store that takes the failure of a calculation: nothing there, or a row of the same tenant.\<close>

definition takes_failure :: "uuid \<Rightarrow> string \<Rightarrow> string option \<Rightarrow> database \<Rightarrow> bool" where
  "takes_failure k ty tenant db \<longleftrightarrow> ty \<in> set COMPUTE_JOB_EXECUTORS
     \<and> (\<forall>q. get_result_row k db = Some q \<longrightarrow> ar_tenant_id q = tenant \<and> (keeps_no_failure_result ty \<or> \<not> protected_row q))"

lemma executor_types:
  "ty \<in> set COMPUTE_JOB_EXECUTORS \<Longrightarrow> ty \<noteq> COMPOSITE_CAPTURE_ANALYTICS_TYPE"
  by (auto simp: COMPUTE_JOB_EXECUTORS_def COMPOSITE_CAPTURE_ANALYTICS_TYPE_def)

lemma generic_types:
  "ty \<in> set COMPUTE_JOB_EXECUTORS \<Longrightarrow> \<not> keeps_no_failure_result ty \<Longrightarrow> require_generic_result_purpose ty = Inr ()"
  using executor_types by (auto simp: require_generic_result_purpose_def keeps_no_failure_result_def)

lemma generic_unprotected:
  "ty \<in> set COMPUTE_JOB_EXECUTORS \<Longrightarrow> \<not> keeps_no_failure_result ty \<Longrightarrow> ar_analytics_type row = ty \<Longrightarrow> \<not> protected_row row"
  using executor_types by (auto simp: protected_row_def COMPOSITE_PROTECTED_RESULT_TYPES_def keeps_no_failure_result_def)

lemma record_failure_taken:
  assumes "takes_failure k ty tenant db" "\<not> keeps_no_failure_result ty" "map_option strip tenant = tenant"
  shows "\<exists>rs row. record_failure k ty msg et tenant failure now db = Inr ((), db\<lparr>db_results := rs\<rparr>)
    \<and> get_result_row k (db\<lparr>db_results := rs\<rparr>) = Some row
    \<and> (if \<exists>q. get_result_row k db = Some q \<and> ar_result_status q = RComplete then get_result_row k db = Some row
        else ar_result_status row = RFailed \<and> ar_error_message row = Some msg \<and> ar_error_type row = et \<and> ar_tenant_id row = tenant)"
proof (cases "get_result_row k db")
  case None
  let ?row = "failure_row k tenant ty msg et failure now now"
  have "record_failure k ty msg et tenant failure now db = Inr ((), add_result ?row db)"
    using assms None by (simp add: takes_failure_def generic_types record_failure_def require_matching_existing_tenant_def merge_result_def)
  moreover have "get_result_row k (add_result ?row db) = Some ?row" using results.get_add [of ?row db k] None by simp
  ultimately show ?thesis using None
    by (intro exI [of _ "tbl_add ?row (db_results db)"] exI [of _ ?row]) (simp add: add_result_def failure_row_def)
next
  case (Some q)
  let ?row = "failure_row k tenant ty msg et failure (ar_created_at_utc q) now"
  show ?thesis
  proof (cases "ar_result_status q = RComplete")
    case True
    then have "record_failure k ty msg et tenant failure now db = Inr ((), db)"
      using assms Some by (simp add: takes_failure_def generic_types record_failure_def require_matching_existing_tenant_def ensure_def)
    then show ?thesis using Some True by (intro exI [of _ "db_results db"] exI [of _ q]) simp
  next
    case False
    have q: "\<not> protected_row q" "ar_tenant_id q = tenant" "ty \<in> set COMPUTE_JOB_EXECUTORS"
      using assms Some by (auto simp: takes_failure_def)
    have "\<not> protected_row ?row" by (rule generic_unprotected [OF q(3) assms(2)]) (simp add: failure_row_def)
    then have "record_failure k ty msg et tenant failure now db = Inr ((), update_result k (\<lambda>_. ?row) db)"
      using assms(2,3) Some q False
      by (simp add: generic_types record_failure_def require_matching_existing_tenant_def ensure_def merge_result_def
          composite_result_custody_guard_def)
    moreover have "get_result_row k (update_result k (\<lambda>_. ?row) db) = Some ?row"
      using get_update_result [of k ?row db] Some by simp
    ultimately show ?thesis using Some False
      by (intro exI [of _ "tbl_upd ar_calculation_id k (\<lambda>_. ?row) (db_results db)"] exI [of _ ?row])
        (simp add: update_result_def failure_row_def)
  qed
qed

lemma get_execution_of_stages [simp]: "get_execution_row k (db\<lparr>db_stages := ss\<rparr>) = get_execution_row k db"
  "get_execution_row k (db\<lparr>db_results := rs\<rparr>) = get_execution_row k db"
  by (simp_all add: get_execution_row_def)

lemma get_job_of_others [simp]: "get_job k (db\<lparr>db_stages := ss\<rparr>) = get_job k db"
  "get_job k (db\<lparr>db_results := rs\<rparr>) = get_job k db" "get_job k (update_execution i f db) = get_job k db"
  by (simp_all add: get_job_def update_execution_def)

lemma get_result_of_others [simp]: "get_result_row k (db\<lparr>db_stages := ss\<rparr>) = get_result_row k db"
  "get_result_row k (update_execution i f db) = get_result_row k db"
  "get_result_row k (update_job i g db) = get_result_row k db"
  "get_result_row k (fail_terminal_source_custody ks t a now db) = get_result_row k db"
  by (simp_all add: get_result_row_def update_execution_def update_job_def)

text \<open>The registry's part of a terminal failure: the stages in progress and the execution fail.\<close>

lemma execution_fails:
  assumes "alone env" "get_execution_row k db = Some ex"
  shows "\<exists>db'. swallow_key_error (store_call env StagesFailCall (fail_in_progress_stages k msg) db) (\<lambda>db2.
      swallow_key_error (store_call env ExecutionFailCall (mark_execution_failed k msg (Some failure)) db2) (\<lambda>db3. (Inr (), db3)))
      = (Inr (), db')
    \<and> get_job k db' = get_job k db \<and> get_result_row k db' = get_result_row k db
    \<and> (\<exists>e. get_execution_row k db' = Some e \<and> ex_status e = EFailed \<and> ex_error_message e = Some msg)"
proof -
  have ex: "ex_calculation_id ex = k" using assms(2) by (auto simp: get_execution_row_def dest: tbl_get_Some)
  define ss where "ss = List.map (\<lambda>s. if st_calculation_id s = k \<and> st_status s = SInProgress
    then failed_stage msg (we_clock env StagesFailCall) s else s) (db_stages db)"
  define now where "now = we_clock env ExecutionFailCall"
  define db' where "db' = fail_terminal_source_custody [k] (ex_tenant_id ex)
    (if ex_execution_mode ex = ''sync'' then Some (ex_analytics_type ex) else None) now
    (update_execution k (execution_failed msg (Some failure) now) (db\<lparr>db_stages := ss\<rparr>))"
  have "store_call env StagesFailCall (fail_in_progress_stages k msg) db = (Inr (), db\<lparr>db_stages := ss\<rparr>)"
    using assms by (simp add: store_call_alone fail_in_progress_stages_def get_execution_model_def of_option_def ss_def)
  moreover have "store_call env ExecutionFailCall (mark_execution_failed k msg (Some failure)) (db\<lparr>db_stages := ss\<rparr>) = (Inr (), db')"
    using assms ex by (simp add: store_call_alone mark_execution_failed_def get_execution_model_def of_option_def db'_def now_def)
  moreover have "get_execution_row k db' = Some (execution_failed msg (Some failure) now ex)"
    using assms(2) tbl_get_upd [of ex_calculation_id "execution_failed msg (Some failure) now" k k "db_executions db"]
    by (simp add: db'_def get_execution_row_def update_execution_def execution_failed_def)
  ultimately show ?thesis by (simp add: swallow_key_error_def db'_def execution_failed_def)
qed

lemma terminal_failure_taken:
  assumes "alone env" "get_execution_row k db = Some ex" "takes_failure k ty tenant db" "map_option strip tenant = tenant"
  shows "\<exists>db'. record_terminal_failure env k ty tenant msg et failure db = (Inr (), db') \<and> get_job k db' = get_job k db
    \<and> (\<exists>e. get_execution_row k db' = Some e \<and> ex_status e = EFailed \<and> ex_error_message e = Some msg)
    \<and> (if keeps_no_failure_result ty \<or> (\<exists>q. get_result_row k db = Some q \<and> ar_result_status q = RComplete)
       then get_result_row k db' = get_result_row k db
       else \<exists>row. get_result_row k db' = Some row \<and> ar_result_status row = RFailed \<and> ar_error_message row = Some msg
         \<and> ar_error_type row = Some et \<and> ar_tenant_id row = tenant)"
proof (cases "keeps_no_failure_result ty")
  case True
  then show ?thesis using execution_fails [OF assms(1,2), of msg failure] by (auto simp: record_terminal_failure_def)
next
  case False
  obtain rs row where rec: "record_failure k ty msg (Some et) tenant (Some failure) (we_clock env ResultFailureCall) db
      = Inr ((), db\<lparr>db_results := rs\<rparr>)" "get_result_row k (db\<lparr>db_results := rs\<rparr>) = Some row"
    and row: "if \<exists>q. get_result_row k db = Some q \<and> ar_result_status q = RComplete then get_result_row k db = Some row
        else ar_result_status row = RFailed \<and> ar_error_message row = Some msg \<and> ar_error_type row = Some et \<and> ar_tenant_id row = tenant"
    using record_failure_taken [OF assms(3) False assms(4)] by blast
  have call: "store_call env ResultFailureCall (record_failure k ty msg (Some et) tenant (Some failure)) db = (Inr (), db\<lparr>db_results := rs\<rparr>)"
    using rec(1) by (simp add: store_call_alone [OF assms(1)])
  obtain db' where db': "swallow_key_error (store_call env StagesFailCall (fail_in_progress_stages k msg) (db\<lparr>db_results := rs\<rparr>)) (\<lambda>db2.
      swallow_key_error (store_call env ExecutionFailCall (mark_execution_failed k msg (Some failure)) db2) (\<lambda>db3. (Inr (), db3)))
      = (Inr (), db')" "get_job k db' = get_job k db" "get_result_row k db' = Some row"
      "\<exists>e. get_execution_row k db' = Some e \<and> ex_status e = EFailed \<and> ex_error_message e = Some msg"
    using execution_fails [OF assms(1), of k "db\<lparr>db_results := rs\<rparr>" ex msg failure] assms(2) rec(2) by auto
  show ?thesis
    by (intro exI [of _ db']) (use False call db' row in \<open>simp add: record_terminal_failure_def split: if_splits\<close>)
qed

text \<open>When the calculation of a leased job raises: a retryable exception with
  attempts left sends the job back to the queue and touches nothing else; any other exception,
  or the last attempt, fails the job and its execution with the classified message and stores
  the failure for the tenant, unless a success is already published or the workflow keeps
  failures out of the result store.\<close>

theorem failed_attempt_outcome:
  fixes exc :: worker_exn
  assumes "alone env" "get_job (rec_calculation_id job) db = Some r" "rec_worker_id job = Some w"
    "holds_lease w (we_clock env FailCall) r" "get_execution_row (rec_calculation_id job) db = Some ex"
    "takes_failure (rec_calculation_id job) (rec_analytics_type job) (map_option strip (rec_tenant_id job)) db"
  defines "k \<equiv> rec_calculation_id job"
    and "failure \<equiv> classify_durable_failure (exception_of exc) (Some (is_retryable_exception exc))"
  shows "if is_retryable_exception exc \<and> job_attempt_count r < job_max_attempts r
    then handle_compute_job_failure env job exc db = (Inr (), update_job k
      (retryable_row (dfc_message failure) (Some (exception_name exc)) (Some failure) (we_clock env FailCall)) db)
    else \<exists>db'. handle_compute_job_failure env job exc db = (Inr (), db')
      \<and> (\<exists>r'. get_job k db' = Some r' \<and> job_status r' = JFailed \<and> job_lease_owner_id r' = None
           \<and> job_error_message r' = Some (dfc_message failure) \<and> job_error_type r' = Some (exception_name exc))
      \<and> (\<exists>e. get_execution_row k db' = Some e \<and> ex_status e = EFailed \<and> ex_error_message e = Some (dfc_message failure))
      \<and> (if keeps_no_failure_result (rec_analytics_type job) \<or> (\<exists>q. get_result_row k db = Some q \<and> ar_result_status q = RComplete)
         then get_result_row k db' = get_result_row k db
         else \<exists>row. get_result_row k db' = Some row \<and> ar_result_status row = RFailed
           \<and> ar_error_message row = Some (dfc_message failure) \<and> ar_error_type row = Some (exception_name exc)
           \<and> ar_tenant_id row = map_option strip (rec_tenant_id job))"
proof -
  let ?now = "we_clock env FailCall" and ?ty = "Some (exception_name exc)"
  have k: "get_job k db = Some r" "get_execution_row k db = Some ex"
    "takes_failure k (rec_analytics_type job) (map_option strip (rec_tenant_id job)) db"
    using assms by simp_all
  note holder = holder_calls [OF k(1) assms(4)]
  have strip: "map_option strip (map_option strip (rec_tenant_id job)) = map_option strip (rec_tenant_id job)"
    by (cases "rec_tenant_id job") simp_all
  define closed where "closed f = fail_terminal_source_custody [k] (job_tenant_id r) (Some (job_analytics_type r)) ?now (update_job k f db)" for f
  have same: "get_execution_row k (closed f) = Some ex" "get_result_row k (closed f) = get_result_row k db"
    "takes_failure k (rec_analytics_type job) (map_option strip (rec_tenant_id job)) (closed f)" for f
    using k by (simp_all add: closed_def takes_failure_def) (simp add: get_execution_row_def update_job_def)
  have job: "get_job k (closed (retryable_row m t f ?now)) = Some (retryable_row m t f ?now r)"
    "get_job k (closed (failed_row m t f ?now)) = Some (failed_row m t f ?now r)" for m t f
    using k(1) by (simp_all add: closed_def)
  note terminal = terminal_failure_taken [OF assms(1) same(1) same(3) strip, of "dfc_message failure" "exception_name exc" failure]
  consider (again) "is_retryable_exception exc" "job_attempt_count r < job_max_attempts r"
    | (last) "is_retryable_exception exc" "\<not> job_attempt_count r < job_max_attempts r" | (final) "\<not> is_retryable_exception exc"
    by blast
  then show ?thesis
  proof cases
    case again
    then show ?thesis using holder(4)
      by (simp add: handle_compute_job_failure_def Let_def k_def [symmetric] failure_def [symmetric] assms(3)
          store_call_alone [OF assms(1)]) (simp add: failure_def)
  next
    case last
    have "handle_compute_job_failure env job exc db = record_terminal_failure env k (rec_analytics_type job)
        (map_option strip (rec_tenant_id job)) (dfc_message failure) (exception_name exc) failure
        (closed (retryable_row (dfc_message failure) ?ty (Some failure) ?now))"
      using last holder(4) by (simp add: handle_compute_job_failure_def Let_def k_def [symmetric] assms(3)
          store_call_alone [OF assms(1)] failure_def closed_def)
    with terminal [of "retryable_row (dfc_message failure) ?ty (Some failure) ?now"] last show ?thesis
      by (auto simp: job same(2) retryable_row_def Let_def)
  next
    case final
    have "handle_compute_job_failure env job exc db = record_terminal_failure env k (rec_analytics_type job)
        (map_option strip (rec_tenant_id job)) (dfc_message failure) (exception_name exc) failure
        (closed (failed_row (dfc_message failure) ?ty (Some failure) ?now))"
      using final holder(5) by (simp add: handle_compute_job_failure_def Let_def k_def [symmetric] assms(3)
          store_call_alone [OF assms(1)] failure_def closed_def)
    with terminal [of "failed_row (dfc_message failure) ?ty (Some failure) ?now"] final show ?thesis
      by (auto simp: job same(2) failed_row_def)
  qed
qed

section \<open>Success\<close>

definition takes_success :: "uuid \<Rightarrow> string \<Rightarrow> string option \<Rightarrow> database \<Rightarrow> bool" where
  "takes_success k ty tenant db \<longleftrightarrow> ty \<in> set COMPUTE_JOB_EXECUTORS \<and> \<not> keeps_no_failure_result ty
     \<and> (\<forall>q. get_result_row k db = Some q \<longrightarrow> ar_tenant_id q = tenant \<and> \<not> protected_row q)"

lemma record_success_taken:
  assumes "takes_success k ty tenant db" "map_option strip tenant = tenant"
  shows "\<exists>rs. record_success k ty payload tenant now db = Inr ((), db\<lparr>db_results := rs\<rparr>)
    \<and> get_result_row k (db\<lparr>db_results := rs\<rparr>) = Some (success_row k tenant ty payload now)"
proof -
  let ?row = "success_row k tenant ty payload now"
  have ty: "ty \<in> set COMPUTE_JOB_EXECUTORS" "\<not> keeps_no_failure_result ty" using assms(1) by (simp_all add: takes_success_def)
  have "require_matching_existing_tenant k tenant db = Inr ()"
    using assms(1) by (auto simp: tenant_check_Inr takes_success_def)
  moreover have "\<not> protected_row ?row" by (rule generic_unprotected [OF ty]) (simp add: success_row_def)
  then have "\<exists>db'. merge_result ?row db = Inr db'"
    using assms(1) by (auto simp: merge_result_def takes_success_def composite_result_custody_guard_def ensure_def split: option.split)
  then obtain db' where db': "merge_result ?row db = Inr db'" by blast
  then obtain rs where "db' = db\<lparr>db_results := rs\<rparr>"
    by (auto simp: merge_result_def add_result_def update_result_def split: option.splits)
  with db' calculation assms(2) merge_result_new [OF db'] show ?thesis
    by (auto simp: record_success_def generic_types [OF ty])
qed

lemma running_row_holds:
  "now' \<le> now + timedelta_seconds secs \<Longrightarrow> acq \<noteq> [] \<Longrightarrow>
   holds_lease acq now' (running_row (Some acq) (Some (now + timedelta_seconds secs)) now r)"
  by (simp add: holds_lease_def running_row_def active_owner_def)

lemma published_completes:
  assumes "alone env" "get_job k db = Some r" "rec_calculation_id job = k" "rec_analytics_type job = ty"
    "takes_success k ty (map_option strip (rec_tenant_id job)) db"
    "holds_lease (rt_worker_id rt) (we_clock env CheckCall) r" "holds_lease (rt_worker_id rt) (we_clock env CompleteCall) r"
  shows "\<exists>db'. publish_compute_job_success env rt job payload db = (Inr (), db')
    \<and> get_job k db' = Some (complete_row payload (we_clock env CompleteCall) r)
    \<and> get_result_row k db' = Some (success_row k (map_option strip (rec_tenant_id job)) ty payload (we_clock env PublishCall))"
proof -
  have strip: "map_option strip (map_option strip (rec_tenant_id job)) = map_option strip (rec_tenant_id job)"
    by (cases "rec_tenant_id job") simp_all
  obtain rs where rs: "record_success k ty payload (map_option strip (rec_tenant_id job)) (we_clock env PublishCall) db = Inr ((), db\<lparr>db_results := rs\<rparr>)"
    "get_result_row k (db\<lparr>db_results := rs\<rparr>) = Some (success_row k (map_option strip (rec_tenant_id job)) ty payload (we_clock env PublishCall))"
    using record_success_taken [OF assms(5) strip] by blast
  let ?db1 = "db\<lparr>db_results := rs\<rparr>"
  have "publish_response env (rt_context rt) job payload db = (Inr (), ?db1)"
    using assms(3-5) rs(1) by (simp add: publish_response_def takes_success_def store_call_alone [OF assms(1)] raise_store_def)
  moreover have "mark_complete k payload (Some (rt_worker_id rt)) (we_clock env CompleteCall) ?db1
      = Inr ((), update_job k (complete_row payload (we_clock env CompleteCall)) ?db1)"
    by (rule holder_calls(3)) (use assms(2,7) in simp_all)
  ultimately show ?thesis
    using holder_calls(2) [OF assms(2,6)] assms(2,3) rs(2)
    by (auto simp: publish_compute_job_success_def store_call_alone [OF assms(1)] reading_def)
qed

text \<open>C29: A leased job of a workflow whose response goes straight to the generic result store
  (any but workspace summaries, whose lineage is materialized first, and composite attribution and
  pooled money-weighted returns, whose originals are published in their own transaction) and whose
  calculation returns a response while the lease lasts, the job's row being left alone meanwhile, no
  other process interfering and no result of another tenant or of a protected kind standing under
  its id, ends complete with that response, one attempt later and with no owner, and the response
  is published for the tenant the job was admitted with.\<close>

theorem successful_job_published:
  fixes payload :: json_dict
  assumes "alone env" "get_job (rec_calculation_id job) db = Some r" "holds_lease (rt_worker_id rt) (we_clock env AcquireCall) r"
    "rec_tenant_id job = Some t" "rec_analytics_type job \<noteq> ANALYTICS_WORKFLOW_WORKSPACE_SUMMARY"
  defines "k \<equiv> rec_calculation_id job" and "acq \<equiv> compute_job_acquisition_worker_id (rec_calculation_id job) (we_fresh env)"
    and "expiry \<equiv> we_clock env AcquireCall + timedelta_seconds (rt_lease_seconds rt)"
  defines "db1 \<equiv> update_job k (running_row (Some acq) (Some expiry) (we_clock env AcquireCall)) db"
  assumes "cx_execute (rt_context rt) (strip t) (job\<lparr>rec_worker_id := Some acq\<rparr>) db1 = (Inr payload, db2)"
    "get_job k db2 = get_job k db1" "takes_success k (rec_analytics_type job) (Some (strip t)) db2"
    "we_clock env CheckCall \<le> expiry" "we_clock env CompleteCall \<le> expiry"
  shows "\<exists>db' r'. process_leased_compute_job env rt job db = (Inr True, db')
    \<and> get_job k db' = Some r' \<and> job_status r' = JComplete \<and> job_response_json r' = Some (dumps_dict payload)
    \<and> job_attempt_count r' = job_attempt_count r + 1 \<and> job_lease_owner_id r' = None
    \<and> get_result_row k db' = Some (success_row k (Some (strip t)) (rec_analytics_type job) payload (we_clock env PublishCall))"
proof -
  let ?job = "job\<lparr>rec_worker_id := Some acq\<rparr>" and ?rt = "rt\<lparr>rt_worker_id := acq\<rparr>"
  let ?row = "running_row (Some acq) (Some expiry) (we_clock env AcquireCall) r"
  have acq: "acq \<noteq> []" by (simp add: acq_def compute_job_acquisition_worker_id_def)
  have row: "get_job k db2 = Some ?row" using assms(2) assms(11) by (simp add: k_def [symmetric] db1_def)
  have acquired: "store_call env AcquireCall (mark_running_acquired k (rt_worker_id rt) acq (rt_lease_seconds rt)) db = (Inr (), db1)"
    using holder_calls(1) [OF assms(2,3)] by (simp add: store_call_alone [OF assms(1)] db1_def expiry_def k_def)
  have executed: "execute_compute_job env (rt_context rt) ?job db1 = (Inr payload, db2)"
    using assms(4,10,12) by (simp add: execute_compute_job_def own_call_alone [OF assms(1)] takes_success_def)
  have lease: "holds_lease (rt_worker_id ?rt) (we_clock env c) ?row" if "we_clock env c \<le> expiry" for c
    using running_row_holds [OF _ acq] that by (simp add: expiry_def)
  obtain db' where "publish_compute_job_success env ?rt ?job payload db2 = (Inr (), db')"
    "get_job k db' = Some (complete_row payload (we_clock env CompleteCall) ?row)"
    "get_result_row k db' = Some (success_row k (map_option strip (rec_tenant_id ?job)) (rec_analytics_type job) payload (we_clock env PublishCall))"
    using published_completes [OF assms(1) row, of ?job "rec_analytics_type job" ?rt payload] assms(4,12-14) lease
    by (auto simp: k_def)
  moreover have "compute_job_acquisition_worker_id k (we_fresh env) = acq" by (simp add: acq_def k_def)
  ultimately show ?thesis using acquired executed assms(4,5)
    by (simp add: process_leased_compute_job_def Let_def k_def [symmetric]
        materialize_workspace_summary_lineage_before_success_publication_def complete_row_def running_row_def)
qed

section \<open>A late publication\<close>

text \<open>C39: The check of the lease and the publication are two transactions. Whenever a worker's
  check passes and, before its publication, the job and its execution are failed by others (as the
  reconciliation of an expired last attempt does) and the failure published as the calculation's
  result, the worker's response still replaces that failure: the pass ends without an error, the job
  and the execution stay failed exactly as they were left, and the result reads complete with the
  response. (For workflows that publish through the generic result store.)\<close>

theorem late_publication_diverges:
  fixes payload :: json_dict
  assumes "has_lease (rec_calculation_id job) (rt_worker_id rt) (we_clock env CheckCall) (we_others env CheckCall db)"
    "we_others env PublishCall (we_others env CheckCall db) = db1" "we_others env CompleteCall = id"
    "get_job (rec_calculation_id job) db1 = Some r" "job_status r = JFailed"
    "get_execution_row (rec_calculation_id job) db1 = Some e" "ex_status e = EFailed"
    "get_result_row (rec_calculation_id job) db1 = Some q" "ar_result_status q = RFailed"
    "takes_success (rec_calculation_id job) (rec_analytics_type job) (map_option strip (rec_tenant_id job)) db1"
  shows "\<exists>db' row. publish_compute_job_success env rt job payload db = (Inr (), db')
    \<and> get_job (rec_calculation_id job) db' = Some r
    \<and> get_execution_row (rec_calculation_id job) db' = Some e
    \<and> get_result_row (rec_calculation_id job) db' = Some row
    \<and> ar_result_status row = RComplete \<and> ar_response_json row = Some (dumps_dict payload)"
proof -
  let ?k = "rec_calculation_id job" and ?t = "map_option strip (rec_tenant_id job)"
  let ?row = "success_row ?k ?t (rec_analytics_type job) payload (we_clock env PublishCall)"
  have strip: "map_option strip ?t = ?t" by (cases "rec_tenant_id job") simp_all
  obtain rs where rs: "record_success ?k (rec_analytics_type job) payload ?t (we_clock env PublishCall) db1
      = Inr ((), db1\<lparr>db_results := rs\<rparr>)" "get_result_row ?k (db1\<lparr>db_results := rs\<rparr>) = Some ?row"
    using record_success_taken [OF assms(10) strip] by blast
  let ?db2 = "db1\<lparr>db_results := rs\<rparr>"
  have "publish_response env (rt_context rt) job payload (we_others env CheckCall db) = (Inr (), ?db2)"
    using assms(2,10) rs(1) by (simp add: publish_response_def takes_success_def store_call_def raise_store_def Let_def)
  moreover have "\<not> has_lease ?k (rt_worker_id rt) (we_clock env CompleteCall) (we_others env CompleteCall ?db2)"
    using assms(3-5) by (simp add: has_lease_def holds_lease_def)
  then obtain err where "store_call env CompleteCall (mark_complete ?k payload (Some (rt_worker_id rt))) ?db2 = (Inl err, ?db2)"
    using refused_calls(5) store_call_refused assms(3) by (metis id_apply)
  ultimately have "publish_compute_job_success env rt job payload db = (Inr (), ?db2)"
    by (simp add: publish_compute_job_success_def check_passes [OF assms(1)])
  then show ?thesis using assms(4,6) rs(2)
    by (intro exI [of _ ?db2] exI [of _ ?row]) (simp add: success_row_def)
qed

section \<open>Recovery\<close>

text \<open>A stale job whose worker published its response and stopped is completed from
  the published result and not run again; a stale job with no published success is failed
  everywhere when its attempts are used up and otherwise left in the queue as it is.\<close>

theorem stale_job_recovered:
  assumes "alone env" "get_job (rj_calculation_id rj) db = Some r" "get_execution_row (rj_calculation_id rj) db = Some ex"
    "takes_failure (rj_calculation_id rj) (rj_analytics_type rj) (map_option strip (rj_tenant_id rj)) db"
  defines "k \<equiv> rj_calculation_id rj"
    and "published \<equiv> (\<lambda>p. \<exists>q. get_result (rj_calculation_id rj) db = Some q \<and> res_result_status q = RComplete
          \<and> res_analytics_type q = rj_analytics_type rj \<and> res_response_payload q = Some p)"
  shows "(\<forall>p. published p \<longrightarrow> handle_reconciled_stale_job env rj db
        = (Inr (), update_job k (complete_row p (we_clock env RecoverCall)) db))
    \<and> ((\<nexists>p. published p) \<longrightarrow> (if rj_reconciled_status rj = JFailed
        then \<exists>db'. handle_reconciled_stale_job env rj db = (Inr (), db') \<and> get_job k db' = Some r
          \<and> (\<exists>e. get_execution_row k db' = Some e \<and> ex_status e = EFailed \<and> ex_error_message e = Some (rj_error_message rj))
        else handle_reconciled_stale_job env rj db = (Inr (), db)))"
proof (rule conjI)
  have complete: "mark_complete k p None now db = Inr ((), update_job k (complete_row p now) db)" for p now
    using assms(2) by (simp add: mark_complete_def get_model_def of_option_def ensure_compute_job_active_lease_owner_def k_def)
  show "\<forall>p. published p \<longrightarrow> handle_reconciled_stale_job env rj db
      = (Inr (), update_job k (complete_row p (we_clock env RecoverCall)) db)"
    using complete assms(1)
    by (auto simp: published_def handle_reconciled_stale_job_def recover_reconciled_job_from_success_result_def Let_def
        store_call_alone k_def [symmetric] alone_def)
  show "(\<nexists>p. published p) \<longrightarrow> (if rj_reconciled_status rj = JFailed
        then \<exists>db'. handle_reconciled_stale_job env rj db = (Inr (), db') \<and> get_job k db' = Some r
          \<and> (\<exists>e. get_execution_row k db' = Some e \<and> ex_status e = EFailed \<and> ex_error_message e = Some (rj_error_message rj))
        else handle_reconciled_stale_job env rj db = (Inr (), db))"
  proof
    assume none: "\<nexists>p. published p"
    then have "recover_reconciled_job_from_success_result env rj db = (Inr False, db)"
      using assms(1) by (auto simp: published_def recover_reconciled_job_from_success_result_def Let_def alone_def split: option.split)
    moreover have "map_option strip (map_option strip (rj_tenant_id rj)) = map_option strip (rj_tenant_id rj)"
      by (cases "rj_tenant_id rj") simp_all
    note terminal_failure_taken [OF assms(1,3,4) this, of "rj_error_message rj" "rj_error_type rj" "generic_durable_failure False"]
    ultimately show "if rj_reconciled_status rj = JFailed
        then \<exists>db'. handle_reconciled_stale_job env rj db = (Inr (), db') \<and> get_job k db' = Some r
          \<and> (\<exists>e. get_execution_row k db' = Some e \<and> ex_status e = EFailed \<and> ex_error_message e = Some (rj_error_message rj))
        else handle_reconciled_stale_job env rj db = (Inr (), db)"
      using assms(2) by (auto simp: handle_reconciled_stale_job_def k_def)
  qed
qed

end
