(* ===== verification/Worker_Witnesses.thy ===== *)
theory Worker_Witnesses
  imports Worker_Machine Worker_Safety
begin

text \<open>
  The properties of the result store and of the compute worker on concrete databases: each
  witness applies a property where its hypotheses hold. The last section is about a worker that
  publishes after another worker's pass has reconciled and failed its job.
\<close>

section \<open>Results\<close>

definition wd_payload :: json_dict where "wd_payload = [(''ok'', JBool True), (''n'', JInt 3)]"

definition wd_results :: "result_event list" where
  "wd_results = [RSuccess ''k1'' ''TWR'' wd_payload (Some '' acme '') 10, RFailure ''k2'' ''TWR'' ''boom'' None (Some ''acme'') None 11]"

definition wd_empty :: database where "wd_empty = empty_database ''sqlite''"

definition wd_published :: database where "wd_published = run_ops result_step wd_empty wd_results"

lemma wd_results_ok: "results_ok wd_published" "results_ok wd_empty"
  by code_simp+

theorem results_endure_witness:
  "get_result_row ''k1'' (run_ops result_step wd_published [RFailure ''k1'' ''TWR'' ''late'' None (Some ''acme'') None 20])
     = Some (the (get_result_row ''k1'' wd_published))"
  by (rule results_endure [THEN conjunct2, THEN conjunct1, rule_format, OF wd_results_ok(1)]) code_simp+

definition wd_original :: json_dict where
  "wd_original = [(''calculation_id'', JStr ''k3''), (''input_manifest_digest'', JStr ''d'')]"

definition wd_inputs :: "string \<Rightarrow> uuid \<Rightarrow> string option" where
  "wd_inputs t k = (if k = ''k3'' then Some ''d'' else None)"

definition wd_captured :: database where
  "wd_captured = snd (projr (record_composite_success_in_transaction wd_inputs COMPOSITE_POOLED_ANALYTICS_TYPE ''k3'' ''acme'' ''d''
     wd_original 12 wd_published))"

theorem original_published_once_witness:
  "record_composite_success_in_transaction wd_inputs COMPOSITE_POOLED_ANALYTICS_TYPE ''k3'' ''acme'' ''d'' wd_original 30
        (run_ops result_step wd_captured [RPrune (Naive 99) None])
    = Inr ((), run_ops result_step wd_captured [RPrune (Naive 99) None])"
  by (rule original_published_once [where now = 12 and db = wd_published and ty = COMPOSITE_POOLED_ANALYTICS_TYPE, THEN conjunct1,
        OF wd_results_ok(1)]) code_simp+

theorem result_roundtrip_witness:
  "get_result_row ''k9'' (snd (projr (record_success ''k9'' ''TWR'' wd_payload (Some '' acme '') 10 wd_empty)))
     = Some (success_row ''k9'' (Some (strip '' acme '')) ''TWR'' wd_payload 10)"
  by (rule result_roundtrip [THEN conjunct1, of _ _ _ _ _ wd_empty]) code_simp

section \<open>A leased job and its worker\<close>

definition wd_request :: "string \<Rightarrow> execution_request" where
  "wd_request k = \<lparr>rq_calculation_id = k, rq_tenant_id = '' acme'', rq_analytics_type = ''TWR'',
     rq_portfolio_id = Some ''P1'', rq_execution_mode = ''async'', rq_requested_window = None,
     rq_input_fingerprint = Some ''f'', rq_calculation_hash = None, rq_request_payload = None,
     rq_submission_idempotency_key_hash = None, rq_submission_identity_fingerprint = None,
     rq_submission_contract_version = None\<rparr>"

text \<open>One execution and its job, leased by \<open>w1\<close> at 20 for a minute, with the given number of attempts.\<close>

definition wd_row :: "int \<Rightarrow> compute_job_row" where
  "wd_row attempts = leased_row ''w1'' 20 60000020 (new_job ''k1'' ''TWR'' ''acme'' [(''a'', JInt 1)] attempts 11)"

definition wd_queued :: "int \<Rightarrow> database" where
  "wd_queued attempts = wd_empty\<lparr>db_jobs := [wd_row attempts],
     db_executions := [execution_model_for_registration (wd_request ''k1'') 10]\<rparr>"

definition wd_leased :: database where "wd_leased = wd_queued 2"

definition wd_job :: compute_job_record where
  "wd_job = projr (to_record (wd_row 2))"

definition wd_env :: worker_env where
  "wd_env = \<lparr>we_clock = (\<lambda>_. 30), we_others = (\<lambda>_ d. d), we_fresh = ''f1'', we_inline_fresh = ''f2''\<rparr>"

definition wd_context :: compute_context where
  "wd_context = \<lparr>cx_execute = (\<lambda>_ _ d. (Inr wd_payload, d)), cx_materialize = (\<lambda>_ _ d. (Inr True, d)),
     cx_publish_original = (\<lambda>_ _ d. (Inr (), d))\<rparr>"

definition wd_runtime :: compute_runtime where
  "wd_runtime = \<lparr>rt_worker_id = ''w1'', rt_lease_seconds = 60, rt_batch_size = 5, rt_context = wd_context\<rparr>"

definition wd_pass :: pass_env where
  "wd_pass = \<lparr>pe_locked = (\<lambda>_. False), pe_reconcile_clock = 15, pe_reconciled = (\<lambda>_. wd_env), pe_before_lease = id,
     pe_lease_clock = 20, pe_jobs = (\<lambda>_. wd_env)\<rparr>"

lemma holds_lease_code [code]:
  "holds_lease w now row \<longleftrightarrow> job_status row \<in> {JLeased, JRunning} \<and> active_owner row = Some w
     \<and> (case job_lease_expires_at_utc row of None \<Rightarrow> False | Some e \<Rightarrow> now \<le> e)"
  by (auto simp: holds_lease_def split: option.split)

lemma has_lease_code [code]:
  "has_lease k w now db \<longleftrightarrow> (case get_job k db of None \<Rightarrow> False | Some r \<Rightarrow> holds_lease w now r)"
  by (auto simp: has_lease_def split: option.split)

lemma takes_code [code]:
  "takes_success k ty tenant db \<longleftrightarrow> ty \<in> set COMPUTE_JOB_EXECUTORS \<and> \<not> keeps_no_failure_result ty
     \<and> (case get_result_row k db of None \<Rightarrow> True | Some q \<Rightarrow> ar_tenant_id q = tenant \<and> \<not> protected_row q)"
  "takes_failure k ty tenant db \<longleftrightarrow> ty \<in> set COMPUTE_JOB_EXECUTORS
     \<and> (case get_result_row k db of None \<Rightarrow> True
         | Some q \<Rightarrow> ar_tenant_id q = tenant \<and> (keeps_no_failure_result ty \<or> \<not> protected_row q))"
  by (auto simp: takes_success_def takes_failure_def split: option.split)

lemma wd_alone: "alone wd_env"
  by (simp add: alone_def wd_env_def)

lemma wd_clock: "we_clock wd_env c = 30"
  by (simp add: wd_env_def)

lemma wd_queued_rows: "get_job ''k1'' (wd_queued n) = Some (wd_row n)"
  "get_execution_row ''k1'' (wd_queued n) = Some (execution_model_for_registration (wd_request ''k1'') 10)"
  by (simp_all add: wd_queued_def get_job_def tbl_get_def get_execution_row_def execution_model_for_registration_def
      wd_request_def wd_row_def leased_row_def new_job_def)

lemma wd_job_facts: "rec_calculation_id wd_job = ''k1''" "rec_tenant_id wd_job = Some ''acme''" "rec_analytics_type wd_job = ''TWR''"
  by code_simp+

theorem worker_pass_refines_witness: "platform_ok (snd (process_pending_jobs wd_pass wd_runtime wd_empty))"
proof (rule worker_pass_refines [THEN conjunct2, rule_format])
  show "pass_acts wd_pass wd_runtime"
    by (simp add: pass_acts_def env_acts_def context_acts_def wd_pass_def wd_env_def wd_runtime_def wd_context_def)
  show "platform_ok wd_empty" unfolding wd_empty_def by (rule platform_ok_empty)
qed

theorem stale_worker_writes_nothing_witness:
  "snd (publish_compute_job_success (wd_env\<lparr>we_clock := (\<lambda>_. 99000000)\<rparr>) wd_runtime (wd_job\<lparr>rec_worker_id := Some ''w1''\<rparr>) wd_payload wd_leased)
     = we_others wd_env CheckCall wd_leased"
proof -
  let ?env = "wd_env\<lparr>we_clock := (\<lambda>_. 99000000)\<rparr>"
  have "\<not> has_lease ''k1'' ''w1'' 99000000 wd_leased" by code_simp
  then have "snd (publish_compute_job_success ?env wd_runtime (wd_job\<lparr>rec_worker_id := Some ''w1''\<rparr>) wd_payload wd_leased)
      = we_others ?env CheckCall wd_leased"
    by (intro stale_worker_writes_nothing [THEN conjunct2, THEN conjunct1, rule_format, where w = "''w1''"])
      (simp_all add: wd_job_facts wd_env_def wd_runtime_def)
  then show ?thesis by (simp add: wd_env_def)
qed

definition wd_acq :: string where "wd_acq = compute_job_acquisition_worker_id (rec_calculation_id wd_job) (we_fresh wd_env)"

definition wd_running :: database where
  "wd_running = update_job (rec_calculation_id wd_job) (running_row (Some wd_acq) (Some (we_clock wd_env AcquireCall +
     timedelta_seconds (rt_lease_seconds wd_runtime))) (we_clock wd_env AcquireCall)) wd_leased"

theorem successful_job_published_witness:
  "\<exists>db' r'. process_leased_compute_job wd_env wd_runtime wd_job wd_leased = (Inr True, db')
    \<and> get_job ''k1'' db' = Some r' \<and> job_status r' = JComplete \<and> job_response_json r' = Some (dumps_dict wd_payload)
    \<and> job_attempt_count r' = 1 \<and> job_lease_owner_id r' = None
    \<and> get_result_row ''k1'' db' = Some (success_row ''k1'' (Some ''acme'') ''TWR'' wd_payload 30)"
proof -
  have count: "job_attempt_count (wd_row 2) = 0" "strip ''acme'' = ''acme''" by code_simp+
  have "\<exists>db' r'. process_leased_compute_job wd_env wd_runtime wd_job wd_leased = (Inr True, db')
    \<and> get_job (rec_calculation_id wd_job) db' = Some r' \<and> job_status r' = JComplete \<and> job_response_json r' = Some (dumps_dict wd_payload)
    \<and> job_attempt_count r' = job_attempt_count (wd_row 2) + 1 \<and> job_lease_owner_id r' = None
    \<and> get_result_row (rec_calculation_id wd_job) db' = Some (success_row (rec_calculation_id wd_job) (Some (strip ''acme''))
        (rec_analytics_type wd_job) wd_payload (we_clock wd_env PublishCall))"
  proof (rule successful_job_published [OF wd_alone])
    show "get_job (rec_calculation_id wd_job) wd_leased = Some (wd_row 2)"
      using wd_job_facts wd_queued_rows by (simp add: wd_leased_def)
    show "holds_lease (rt_worker_id wd_runtime) (we_clock wd_env AcquireCall) (wd_row 2)" by code_simp
    show "rec_tenant_id wd_job = Some ''acme''" by (rule wd_job_facts)
    show "rec_analytics_type wd_job \<noteq> ANALYTICS_WORKFLOW_WORKSPACE_SUMMARY" by code_simp
    show "cx_execute (rt_context wd_runtime) (strip ''acme'')
       (wd_job\<lparr>rec_worker_id := Some (compute_job_acquisition_worker_id (rec_calculation_id wd_job) (we_fresh wd_env))\<rparr>)
       (update_job (rec_calculation_id wd_job)
         (running_row (Some (compute_job_acquisition_worker_id (rec_calculation_id wd_job) (we_fresh wd_env)))
           (Some (we_clock wd_env AcquireCall + timedelta_seconds (rt_lease_seconds wd_runtime))) (we_clock wd_env AcquireCall)) wd_leased)
       = (Inr wd_payload, wd_running)" by (simp add: wd_runtime_def wd_context_def wd_running_def wd_acq_def)
    show "takes_success (rec_calculation_id wd_job) (rec_analytics_type wd_job) (Some (strip ''acme'')) wd_running"
      by code_simp
  qed (simp_all add: wd_running_def wd_acq_def wd_clock wd_runtime_def timedelta_seconds_def)
  then show ?thesis using wd_job_facts count by (simp add: wd_clock)
qed

definition wd_active_job :: compute_job_record where "wd_active_job = wd_job\<lparr>rec_worker_id := Some wd_acq\<rparr>"

definition wd_view :: "database \<Rightarrow> bool" where
  "wd_view db \<longleftrightarrow> get_job ''k1'' db \<noteq> None \<and> get_execution_row ''k1'' db \<noteq> None
     \<and> takes_failure ''k1'' ''TWR'' (Some ''acme'') db"

definition wd_view_job :: "compute_job_row option \<Rightarrow> bool" where
  "wd_view_job j = (case j of None \<Rightarrow> False
     | Some r \<Rightarrow> holds_lease wd_acq 30 r \<and> job_attempt_count r < job_max_attempts r)"

lemma wd_running_facts:
  "get_job ''k1'' wd_running = Some (the (get_job ''k1'' wd_running))"
  "get_execution_row ''k1'' wd_running = Some (the (get_execution_row ''k1'' wd_running))"
  "takes_failure ''k1'' ''TWR'' (Some ''acme'') wd_running"
  "holds_lease wd_acq 30 (the (get_job ''k1'' wd_running))"
  "job_attempt_count (the (get_job ''k1'' wd_running)) < job_max_attempts (the (get_job ''k1'' wd_running))"
proof -
  have view: "wd_view wd_running" "wd_view_job (get_job ''k1'' wd_running)" by code_simp+
  from view(1) show "get_job ''k1'' wd_running = Some (the (get_job ''k1'' wd_running))"
    "get_execution_row ''k1'' wd_running = Some (the (get_execution_row ''k1'' wd_running))"
    "takes_failure ''k1'' ''TWR'' (Some ''acme'') wd_running" by (simp_all add: wd_view_def)
  from view(2) show "holds_lease wd_acq 30 (the (get_job ''k1'' wd_running))"
    "job_attempt_count (the (get_job ''k1'' wd_running)) < job_max_attempts (the (get_job ''k1'' wd_running))"
    by (auto simp: wd_view_job_def split: option.splits)
qed

theorem failed_attempt_outcome_witness:
  "handle_compute_job_failure wd_env wd_active_job (Unexpected ''Timeout'') wd_running
     = (Inr (), update_job ''k1'' (retryable_row (dfc_message (classify_durable_failure OtherException (Some True)))
          (Some ''Timeout'') (Some (classify_durable_failure OtherException (Some True))) 30) wd_running)"
proof -
  have strip: "strip ''acme'' = ''acme''" by code_simp
  have job: "rec_calculation_id wd_active_job = ''k1''" "rec_tenant_id wd_active_job = Some ''acme''"
    "rec_analytics_type wd_active_job = ''TWR''" "rec_worker_id wd_active_job = Some wd_acq"
    by (simp_all add: wd_active_job_def wd_job_facts)
  have taken: "takes_failure (rec_calculation_id wd_active_job) (rec_analytics_type wd_active_job)
      (map_option strip (rec_tenant_id wd_active_job)) wd_running"
    by (simp only: job option.map strip) (rule wd_running_facts(3))
  note outcome = failed_attempt_outcome [OF wd_alone _ job(4) _ _ taken, of _ _ "Unexpected ''Timeout''", unfolded job wd_clock,
      OF wd_running_facts(1,4,2)]
  show ?thesis using outcome wd_running_facts(5) by (simp only: is_retryable_exception.simps exception_of.simps exception_name.simps simp_thms if_True)
qed

text \<open>The worker stops after it published: the job's lease runs out and it is reconciled.\<close>

definition wd_abandoned :: "reconciled_job_record list \<times> database" where
  "wd_abandoned = reconcile_stale_jobs (\<lambda>_. False) 95000000
     (snd (projr (record_success ''k1'' ''TWR'' wd_payload (Some ''acme'') 40 wd_running)))"

definition wd_stale :: reconciled_job_record where "wd_stale = hd (fst wd_abandoned)"

definition wd_abandoned_view :: "reconciled_job_record list \<times> database \<Rightarrow> bool" where
  "wd_abandoned_view x = (case x of (rjs, db) \<Rightarrow> wd_view db \<and> rj_calculation_id (hd rjs) = ''k1'' \<and> rj_analytics_type (hd rjs) = ''TWR''
     \<and> map_option strip (rj_tenant_id (hd rjs)) = Some ''acme''
     \<and> map_option (\<lambda>q. (res_result_status q, res_analytics_type q, res_response_payload q)) (get_result ''k1'' db)
         = Some (RComplete, ''TWR'', Some (sort_key fst wd_payload)))"

theorem stale_job_recovered_witness:
  "handle_reconciled_stale_job wd_env wd_stale (snd wd_abandoned) = (Inr (), update_job (rj_calculation_id wd_stale)
      (complete_row (sort_key fst wd_payload) (we_clock wd_env RecoverCall)) (snd wd_abandoned))"
proof (rule stale_job_recovered [THEN conjunct1, rule_format, OF wd_alone])
  have "wd_abandoned_view wd_abandoned" by code_simp
  then have view: "wd_view (snd wd_abandoned)" "rj_calculation_id wd_stale = ''k1''" "rj_analytics_type wd_stale = ''TWR''"
    "map_option strip (rj_tenant_id wd_stale) = Some ''acme''"
    "map_option (\<lambda>q. (res_result_status q, res_analytics_type q, res_response_payload q)) (get_result ''k1'' (snd wd_abandoned))
       = Some (RComplete, ''TWR'', Some (sort_key fst wd_payload))"
    by (simp_all add: wd_abandoned_view_def wd_stale_def case_prod_beta)
  then show "get_job (rj_calculation_id wd_stale) (snd wd_abandoned) = Some (the (get_job ''k1'' (snd wd_abandoned)))"
    "get_execution_row (rj_calculation_id wd_stale) (snd wd_abandoned) = Some (the (get_execution_row ''k1'' (snd wd_abandoned)))"
    "takes_failure (rj_calculation_id wd_stale) (rj_analytics_type wd_stale) (map_option strip (rj_tenant_id wd_stale)) (snd wd_abandoned)"
    by (auto simp: wd_view_def)
  from view show "\<exists>q. get_result (rj_calculation_id wd_stale) (snd wd_abandoned) = Some q \<and> res_result_status q = RComplete
      \<and> res_analytics_type q = rj_analytics_type wd_stale \<and> res_response_payload q = Some (sort_key fst wd_payload)"
    by auto
qed

section \<open>A late publication\<close>

text \<open>
  The last attempt of a job is still running when its lease runs out; between the worker's check
  of the lease and its publication another worker reconciles the job.
\<close>

definition wd_last_running :: database where
  "wd_last_running = update_job ''k1'' (running_row (Some wd_acq) (Some 60000030) 30) (wd_queued 1)"

definition wd_last_job :: compute_job_record where
  "wd_last_job = projr (to_record (wd_row 1))"

definition wd_other_pass :: "database \<Rightarrow> database" where
  "wd_other_pass db = (let (stale, db1) = reconcile_stale_jobs (\<lambda>_. False) 95000000 db in
     snd (handle_reconciled_jobs (\<lambda>_. wd_env\<lparr>we_clock := (\<lambda>_. 95000001)\<rparr>) stale db1))"

definition wd_late :: worker_env where
  "wd_late = wd_env\<lparr>we_clock := (\<lambda>c. if c \<in> {PublishCall, CompleteCall} then 96000000 else 30),
     we_others := (\<lambda>c. if c = PublishCall then wd_other_pass else id)\<rparr>"

lemma wd_other_pass_acts: "reaches db (wd_other_pass db)"
proof -
  obtain stale db1 where r: "reconcile_stale_jobs (\<lambda>_. False) 95000000 db = (stale, db1)" by fastforce
  have "platform_step db (Stores (Queue (Reconcile (\<lambda>_. False) 95000000))) = Inr db1" using r by simp
  then have "reaches db db1" by (rule reaches_step)
  moreover have "reaches db1 (snd (handle_reconciled_jobs (\<lambda>_. wd_env\<lparr>we_clock := (\<lambda>_. 95000001)\<rparr>) stale db1))"
    by (rule reconciled_all_reach) (simp add: env_acts_def wd_env_def)
  ultimately show ?thesis using r by (auto simp: wd_other_pass_def intro: reaches_trans)
qed

definition wd_reconciled :: database where "wd_reconciled = wd_other_pass wd_last_running"

definition wd_failed_view :: "database \<Rightarrow> bool" where
  "wd_failed_view db \<longleftrightarrow> map_option job_status (get_job ''k1'' db) = Some JFailed
     \<and> map_option ex_status (get_execution_row ''k1'' db) = Some EFailed
     \<and> map_option ar_result_status (get_result_row ''k1'' db) = Some RFailed
     \<and> takes_success ''k1'' ''TWR'' (Some ''acme'') db"

theorem late_publication_diverges_witness:
  "env_acts wd_late \<and> (\<exists>db' r e row.
      publish_compute_job_success wd_late (wd_runtime\<lparr>rt_worker_id := wd_acq\<rparr>) wd_last_job wd_payload wd_last_running = (Inr (), db')
      \<and> get_job ''k1'' db' = Some r \<and> job_status r = JFailed
      \<and> get_execution_row ''k1'' db' = Some e \<and> ex_status e = EFailed
      \<and> get_result_row ''k1'' db' = Some row \<and> ar_result_status row = RComplete)"
proof
  show "env_acts wd_late" using wd_other_pass_acts by (simp add: env_acts_def wd_late_def)
  have job: "rec_calculation_id wd_last_job = ''k1''" "rec_analytics_type wd_last_job = ''TWR''"
    "rec_tenant_id wd_last_job = Some ''acme''" "strip ''acme'' = ''acme''" by code_simp+
  have lease: "has_lease ''k1'' wd_acq 30 wd_last_running" by code_simp
  have "wd_failed_view wd_reconciled" by code_simp
  then obtain r e q where view: "get_job ''k1'' wd_reconciled = Some r" "job_status r = JFailed"
    "get_execution_row ''k1'' wd_reconciled = Some e" "ex_status e = EFailed"
    "get_result_row ''k1'' wd_reconciled = Some q" "ar_result_status q = RFailed"
    "takes_success ''k1'' ''TWR'' (Some ''acme'') wd_reconciled"
    by (auto simp: wd_failed_view_def)
  have env: "we_clock wd_late CheckCall = 30" "we_others wd_late CheckCall = id" "we_others wd_late CompleteCall = id"
    "we_others wd_late PublishCall = wd_other_pass" by (simp_all add: wd_late_def)
  have "\<exists>db' row. publish_compute_job_success wd_late (wd_runtime\<lparr>rt_worker_id := wd_acq\<rparr>) wd_last_job wd_payload wd_last_running = (Inr (), db')
    \<and> get_job (rec_calculation_id wd_last_job) db' = Some r
    \<and> get_execution_row (rec_calculation_id wd_last_job) db' = Some e
    \<and> get_result_row (rec_calculation_id wd_last_job) db' = Some row
    \<and> ar_result_status row = RComplete \<and> ar_response_json row = Some (dumps_dict wd_payload)"
    by (rule late_publication_diverges [where ?db1.0 = wd_reconciled, OF _ _ env(3)])
      (use lease view job env in \<open>simp_all add: wd_reconciled_def\<close>)
  then show "\<exists>db' r e row.
      publish_compute_job_success wd_late (wd_runtime\<lparr>rt_worker_id := wd_acq\<rparr>) wd_last_job wd_payload wd_last_running = (Inr (), db')
      \<and> get_job ''k1'' db' = Some r \<and> job_status r = JFailed
      \<and> get_execution_row ''k1'' db' = Some e \<and> ex_status e = EFailed
      \<and> get_result_row ''k1'' db' = Some row \<and> ar_result_status row = RComplete"
    using view(2,4) unfolding job by blast
qed

end
