(* ===== verification/Enterprise_Access.thy ===== *)
theory Enterprise_Access
  imports Tenant_Authority Complex_Main
begin

text \<open>
  The access layer in front of the API: the enterprise switches and their validation
  (src/app/enterprise_runtime_config.py), the request context
  (src/app/enterprise_request_context.py), the capability rules
  (src/app/enterprise_capability_rules.py), authorization (src/app/enterprise_authorization.py),
  payload limits (src/app/enterprise_payload_limits.py), redaction
  (src/app/enterprise_audit_redaction.py) and feature flags
  (src/app/enterprise_feature_flags.py). The process environment is an argument: its variables,
  and for the JSON ones what their text parses to.
\<close>

section \<open>Text\<close>

text \<open>\<open>int(\<dots>)\<close> of a text: surrounding space, a sign, digits with single underscores, 4300 digits at most.\<close>

definition digit_value :: "char \<Rightarrow> int option" where
  "digit_value c = (let n = (of_char c :: nat) in if 48 \<le> n \<and> n \<le> 57 then Some (int n - 48) else None)"

fun digits_value :: "bool \<Rightarrow> int \<Rightarrow> string \<Rightarrow> int option" where
  "digits_value after_digit acc [] = (if after_digit then Some acc else None)"
| "digits_value after_digit acc (c # cs) =
     (case digit_value c of
        Some d \<Rightarrow> digits_value True (10 * acc + d) cs
      | None \<Rightarrow> if c = CHR ''_'' \<and> after_digit then digits_value False acc cs else None)"

definition python_int :: "string \<Rightarrow> int option" where
  "python_int text =
     (if length (filter (\<lambda>c. digit_value c \<noteq> None) text) > 4300 then None
      else case strip text of
          [] \<Rightarrow> None
        | c # cs \<Rightarrow> if c = CHR ''-'' then map_option uminus (digits_value False 0 cs)
            else if c = CHR ''+'' then digits_value False 0 cs else digits_value False 0 (c # cs))"

section \<open>Switches\<close>

record enterprise_env =
  env_text :: "string \<Rightarrow> string option"
  env_json :: "string \<Rightarrow> json_text option"

definition env_value :: "enterprise_env \<Rightarrow> string \<Rightarrow> string \<Rightarrow> string" where
  "env_value env name fallback = (case env_text env name of None \<Rightarrow> fallback | Some v \<Rightarrow> v)"

definition env_enabled :: "enterprise_env \<Rightarrow> string \<Rightarrow> string \<Rightarrow> bool" where
  "env_enabled env name fallback \<longleftrightarrow> lower (strip (env_value env name fallback)) \<in> {''1'', ''true'', ''yes'', ''on''}"

definition runtime_profile :: "enterprise_env \<Rightarrow> string" where
  "runtime_profile env = lower (strip (env_value env ''ENTERPRISE_RUNTIME_PROFILE'' ''local''))"

definition production_like_runtime_profile_enabled :: "enterprise_env \<Rightarrow> bool" where
  "production_like_runtime_profile_enabled env \<longleftrightarrow> runtime_profile env \<in> {''prod'', ''production'', ''staging''}"

definition privileged_read_authz_enabled :: "enterprise_env \<Rightarrow> bool" where
  "privileged_read_authz_enabled env = env_enabled env ''ENTERPRISE_ENFORCE_PRIVILEGED_READ_AUTHZ'' ''false''"

definition write_authz_enabled :: "enterprise_env \<Rightarrow> bool" where
  "write_authz_enabled env = env_enabled env ''ENTERPRISE_ENFORCE_AUTHZ'' ''false''"

definition runtime_config_enforcement_enabled :: "enterprise_env \<Rightarrow> bool" where
  "runtime_config_enforcement_enabled env = env_enabled env ''ENTERPRISE_ENFORCE_RUNTIME_CONFIG'' ''false''"

definition primary_key_configured :: "enterprise_env \<Rightarrow> bool" where
  "primary_key_configured env \<longleftrightarrow> strip (env_value env ''ENTERPRISE_PRIMARY_KEY_ID'' []) \<noteq> []"

definition parse_int_or_default :: "string \<Rightarrow> int \<Rightarrow> int" where
  "parse_int_or_default value fallback = (case python_int value of None \<Rightarrow> fallback | Some n \<Rightarrow> n)"

text \<open>The default is an integer, and its own text parses to it.\<close>

definition env_int :: "enterprise_env \<Rightarrow> string \<Rightarrow> int \<Rightarrow> int" where
  "env_int env name fallback = (case env_text env name of None \<Rightarrow> fallback | Some v \<Rightarrow> parse_int_or_default v fallback)"

definition max_write_payload_bytes :: "enterprise_env \<Rightarrow> int" where
  "max_write_payload_bytes env = env_int env ''ENTERPRISE_MAX_WRITE_PAYLOAD_BYTES'' 1048576"

definition load_json_map :: "enterprise_env \<Rightarrow> string \<Rightarrow> json_dict" where
  "load_json_map env name =
     (case json_loads (case env_json env name of None \<Rightarrow> Doc (JObj []) | Some t \<Rightarrow> t) of
        Some (JObj kvs) \<Rightarrow> kvs | _ \<Rightarrow> [])"

definition enterprise_policy_version :: "enterprise_env \<Rightarrow> string" where
  "enterprise_policy_version env =
     (let v = strip (env_value env ''ENTERPRISE_POLICY_VERSION'' ''1.0.0'') in if v = [] then ''1.0.0'' else v)"

definition secret_rotation_days_valid :: "int \<Rightarrow> bool" where
  "secret_rotation_days_valid rotation_days \<longleftrightarrow> 0 < rotation_days \<and> rotation_days \<le> 90"

definition write_authz_primary_key_config_valid :: "enterprise_env \<Rightarrow> bool" where
  "write_authz_primary_key_config_valid env \<longleftrightarrow> \<not> write_authz_enabled env \<or> primary_key_configured env"

definition production_primary_key_config_valid :: "enterprise_env \<Rightarrow> bool" where
  "production_primary_key_config_valid env \<longleftrightarrow>
     \<not> production_like_runtime_profile_enabled env \<or> primary_key_configured env"

definition runtime_config_issues_should_raise :: "enterprise_env \<Rightarrow> string list \<Rightarrow> bool" where
  "runtime_config_issues_should_raise env issues \<longleftrightarrow>
     issues \<noteq> [] \<and> (runtime_config_enforcement_enabled env \<or> production_like_runtime_profile_enabled env)"

definition production_primary_key_issue_needed :: "enterprise_env \<Rightarrow> string list \<Rightarrow> bool" where
  "production_primary_key_issue_needed env existing_issues \<longleftrightarrow>
     \<not> production_primary_key_config_valid env \<and> ''missing_primary_key_id'' \<notin> set existing_issues"

definition production_runtime_profile_requirements :: "enterprise_env \<Rightarrow> string list \<Rightarrow> (string \<times> bool) list" where
  "production_runtime_profile_requirements env existing_issues =
     [(''production_write_authz_disabled'', write_authz_enabled env),
      (''production_privileged_read_authz_disabled'', privileged_read_authz_enabled env),
      (''production_runtime_config_enforcement_disabled'', runtime_config_enforcement_enabled env),
      (''missing_primary_key_id'', \<not> production_primary_key_issue_needed env existing_issues)]"

definition production_runtime_profile_issues :: "enterprise_env \<Rightarrow> string list \<Rightarrow> string list" where
  "production_runtime_profile_issues env existing_issues =
     (if \<not> production_like_runtime_profile_enabled env then []
      else List.map fst (filter (\<lambda>(issue, satisfied). \<not> satisfied) (production_runtime_profile_requirements env existing_issues)))"

definition PRODUCTION_RUNTIME_THRESHOLD_FIELDS :: "string list" where
  "PRODUCTION_RUNTIME_THRESHOLD_FIELDS =
     [''RUNTIME_STATUS_COMPUTE_PENDING_AGE_DEGRADE_SECONDS'', ''RUNTIME_STATUS_COMPUTE_LEASED_AGE_DEGRADE_SECONDS'',
      ''RUNTIME_STATUS_COMPUTE_RUNNING_AGE_DEGRADE_SECONDS'', ''RUNTIME_STATUS_COMPUTE_RETRY_BACKLOG_DEGRADE_COUNT'',
      ''RUNTIME_STATUS_COMPUTE_LEASE_EXPIRY_DEGRADE_COUNT'', ''RUNTIME_STATUS_COMPUTE_TERMINAL_FAILURE_DEGRADE_COUNT'',
      ''RUNTIME_STATUS_LINEAGE_PENDING_AGE_DEGRADE_SECONDS'', ''RUNTIME_STATUS_LINEAGE_LEASED_AGE_DEGRADE_SECONDS'',
      ''RUNTIME_STATUS_LINEAGE_RETRY_BACKLOG_DEGRADE_COUNT'', ''RUNTIME_STATUS_LINEAGE_TERMINAL_FAILURE_DEGRADE_COUNT'',
      ''RUNTIME_STATUS_LINEAGE_STORAGE_MIN_FREE_BYTES'', ''RUNTIME_STATUS_LINEAGE_STORAGE_MIN_FREE_RATIO'',
      ''RUNTIME_STATUS_RECOVERY_DRILL_MAX_AGE_SECONDS'', ''RUNTIME_STATUS_RECOVERY_DRILL_ACTIVE_RUN_AGE_DEGRADE_SECONDS'',
      ''RUNTIME_STATUS_RECOVERY_DRILL_RECLAIM_DEGRADE_COUNT'', ''RUNTIME_STATUS_RUNTIME_RETENTION_MAX_AGE_SECONDS'',
      ''RUNTIME_STATUS_RUNTIME_RETENTION_ACTIVE_RUN_AGE_DEGRADE_SECONDS'', ''RUNTIME_STATUS_RUNTIME_RETENTION_RECLAIM_DEGRADE_COUNT'']"

text \<open>A setting that is not a number is \<open>None\<close>; an absent one reads as 0.\<close>

type_synonym threshold_settings = "string \<Rightarrow> rat option"

definition runtime_threshold_disabled :: "threshold_settings \<Rightarrow> string \<Rightarrow> bool" where
  "runtime_threshold_disabled settings field_name = (case settings field_name of None \<Rightarrow> True | Some value \<Rightarrow> value \<le> 0)"

definition production_runtime_threshold_issues :: "enterprise_env \<Rightarrow> threshold_settings \<Rightarrow> string list" where
  "production_runtime_threshold_issues env settings =
     (if \<not> production_like_runtime_profile_enabled env then []
      else List.map (\<lambda>f. ''production_runtime_threshold_disabled:'' @ f)
             (filter (runtime_threshold_disabled settings) PRODUCTION_RUNTIME_THRESHOLD_FIELDS))"

definition enterprise_runtime_config_issues :: "enterprise_env \<Rightarrow> threshold_settings \<Rightarrow> string list" where
  "enterprise_runtime_config_issues env settings =
     (let issues0 = (if strip (env_value env ''ENTERPRISE_POLICY_VERSION'' ''1.0.0'') = [] then [''missing_policy_version''] else []);
          issues1 = issues0 @ (if secret_rotation_days_valid (env_int env ''ENTERPRISE_SECRET_ROTATION_DAYS'' 90) then []
                               else [''secret_rotation_days_out_of_range'']);
          issues2 = issues1 @ (if write_authz_primary_key_config_valid env then [] else [''missing_primary_key_id'']);
          issues3 = issues2 @ production_runtime_profile_issues env issues2
      in issues3 @ production_runtime_threshold_issues env settings)"

text \<open>The \<open>Inl\<close> is the \<open>RuntimeError\<close> that stops the process.\<close>

definition validate_enterprise_runtime_config :: "enterprise_env \<Rightarrow> threshold_settings \<Rightarrow> string + string list" where
  "validate_enterprise_runtime_config env settings =
     (let issues = enterprise_runtime_config_issues env settings in
      if runtime_config_issues_should_raise env issues
      then Inl (''enterprise_runtime_config_invalid:'' @ join_with '','' issues) else Inr issues)"

section \<open>The request\<close>

text \<open>Headers in the order of the mapping; of two names that agree in lower case the later one stays.\<close>

type_synonym headers = "(string \<times> string) list"
type_synonym normalized = "string \<Rightarrow> string option"

definition normalized_headers :: "headers \<Rightarrow> normalized" where
  "normalized_headers hs = map_of (rev (List.map (\<lambda>(k, v). (lower k, strip v)) hs))"

definition header_or :: "normalized \<Rightarrow> string \<Rightarrow> string \<Rightarrow> string" where
  "header_or h name fallback = (case h name of None \<Rightarrow> fallback | Some v \<Rightarrow> v)"

definition header_capabilities :: "normalized \<Rightarrow> string set" where
  "header_capabilities h = set (filter (\<lambda>p. p \<noteq> []) (List.map strip (split_on CHR '','' (header_or h ''x-capabilities'' []))))"

definition has_required_capability :: "normalized \<Rightarrow> string option \<Rightarrow> bool" where
  "has_required_capability h required = (case required of None \<Rightarrow> True | Some c \<Rightarrow> c \<in> header_capabilities h)"

definition REQUIRED_HEADERS :: "string list" where
  "REQUIRED_HEADERS = [''x-actor-id'', ''x-correlation-id'', ''x-role'', ''x-tenant-id'']"

definition missing_required_headers :: "normalized \<Rightarrow> string list" where
  "missing_required_headers h = sort (filter (\<lambda>name. h name \<in> {None, Some []}) REQUIRED_HEADERS)"

definition has_service_identity :: "normalized \<Rightarrow> bool" where
  "has_service_identity h \<longleftrightarrow> header_or h ''x-service-identity'' [] \<noteq> [] \<or> header_or h ''authorization'' [] \<noteq> []"

text \<open>
  \<open>presented\<close> is what the mapping's \<open>getlist\<close> gives for the tenant header, when it has one;
  an admission that fails is the malformed authority, since its value is never blank.
\<close>

definition audit_tenant_id :: "string list option \<Rightarrow> normalized \<Rightarrow> string" where
  "audit_tenant_id presented h =
     (let presented_values = (case presented of
            Some vs \<Rightarrow> vs | None \<Rightarrow> if header_or h ''x-tenant-id'' [] \<noteq> [] then [header_or h ''x-tenant-id'' []] else [])
      in case admitted_tenant_authority_from_header_values presented_values of
           Inl _ \<Rightarrow> ''default''
         | Inr None \<Rightarrow> ''default''
         | Inr (Some a) \<Rightarrow> tenant_id a)"

record audit_identity =
  au_actor_id :: string
  au_tenant_id :: string
  au_role :: string
  au_correlation_id :: string

definition nonempty_or :: "string \<Rightarrow> string \<Rightarrow> string" where
  "nonempty_or s fallback = (if s = [] then fallback else s)"

definition audit_identity_from_headers :: "string list option \<Rightarrow> headers \<Rightarrow> audit_identity" where
  "audit_identity_from_headers presented hs =
     (let h = normalized_headers hs in
      \<lparr>au_actor_id = nonempty_or (header_or h ''x-actor-id'' []) ''unknown'', au_tenant_id = audit_tenant_id presented h,
       au_role = nonempty_or (header_or h ''x-role'' []) ''unknown'', au_correlation_id = header_or h ''x-correlation-id'' []\<rparr>)"

section \<open>Capability rules\<close>

definition CAPABILITY_OPERATIONS_RUNTIME_MANAGE :: string where
  "CAPABILITY_OPERATIONS_RUNTIME_MANAGE = ''operations.runtime.manage''"

definition CAPABILITY_OPERATIONS_RUNTIME_READ :: string where
  "CAPABILITY_OPERATIONS_RUNTIME_READ = ''operations.runtime.read''"

definition verified_composite_required_capability :: "string \<Rightarrow> string \<Rightarrow> string" where
  "verified_composite_required_capability http_method path =
     (if (upper_ascii http_method, path) = (''POST'', ''/performance/composites/twr'') \<or> upper_ascii http_method \<in> {''GET'', ''HEAD''}
      then CAPABILITY_OPERATIONS_RUNTIME_READ else CAPABILITY_OPERATIONS_RUNTIME_MANAGE)"

type_synonym capability_rules = "(string \<times> string) list"

definition DEFAULT_CAPABILITY_RULES :: capability_rules where
  "DEFAULT_CAPABILITY_RULES =
     [(''POST /performance/composites/result-candidates'', CAPABILITY_OPERATIONS_RUNTIME_MANAGE),
      (''POST /performance/composites/model-fee-profiles'', CAPABILITY_OPERATIONS_RUNTIME_MANAGE),
      (''POST /performance/composites/materializations'', CAPABILITY_OPERATIONS_RUNTIME_MANAGE),
      (''POST /integration/runtime-retention-cleanups/run'', CAPABILITY_OPERATIONS_RUNTIME_MANAGE),
      (''POST /integration/recovery-drills/run'', CAPABILITY_OPERATIONS_RUNTIME_MANAGE)]"

definition DEFAULT_PRIVILEGED_READ_RULES :: capability_rules where
  "DEFAULT_PRIVILEGED_READ_RULES =
     [(''GET /performance/composites/result-candidates'', CAPABILITY_OPERATIONS_RUNTIME_READ),
      (''GET /performance/composites/model-fee-profiles'', CAPABILITY_OPERATIONS_RUNTIME_READ),
      (''GET /performance/composites/materializations'', CAPABILITY_OPERATIONS_RUNTIME_READ),
      (''GET /integration/runtime-status'', CAPABILITY_OPERATIONS_RUNTIME_READ),
      (''GET /integration/runtime-work-items'', CAPABILITY_OPERATIONS_RUNTIME_READ),
      (''GET /integration/runtime-recoveries'', CAPABILITY_OPERATIONS_RUNTIME_READ),
      (''GET /integration/recovery-drills'', CAPABILITY_OPERATIONS_RUNTIME_READ),
      (''GET /integration/runtime-retention-cleanups'', CAPABILITY_OPERATIONS_RUNTIME_READ),
      (''GET /performance/lineage'', CAPABILITY_OPERATIONS_RUNTIME_READ),
      (''GET /performance/inspections'', CAPABILITY_OPERATIONS_RUNTIME_READ)]"

definition is_write_method :: "string \<Rightarrow> bool" where
  "is_write_method http_method \<longleftrightarrow> upper_ascii http_method \<in> {''POST'', ''PUT'', ''PATCH'', ''DELETE''}"

definition is_privileged_read_method :: "string \<Rightarrow> bool" where
  "is_privileged_read_method http_method \<longleftrightarrow> upper_ascii http_method = ''GET''"

fun non_blank_rule_string :: "json \<Rightarrow> string option" where
  "non_blank_rule_string (JStr s) = (if strip s = [] then None else Some (strip s))"
| "non_blank_rule_string _ = None"

definition normalized_capability_rule_override :: "string \<Rightarrow> json \<Rightarrow> (string \<times> string) option" where
  "normalized_capability_rule_override key value =
     (case (non_blank_rule_string (JStr key), non_blank_rule_string value) of
        (Some rule_key, Some capability) \<Rightarrow> Some (rule_key, capability)
      | _ \<Rightarrow> None)"

definition normalized_capability_rule_overrides :: "json_dict \<Rightarrow> capability_rules" where
  "normalized_capability_rule_overrides configured =
     dict_update [] (List.map_filter (\<lambda>(key, value). normalized_capability_rule_override key value) configured)"

definition rstrip_slash :: "string \<Rightarrow> string" where
  "rstrip_slash s = rev (dropWhile (\<lambda>c. c = CHR ''/'') (rev s))"

definition path_matches_rule :: "string \<Rightarrow> string \<Rightarrow> bool" where
  "path_matches_rule path rule_path =
     (let normalized_rule_path = nonempty_or (rstrip_slash rule_path) ''/'' in
      path = normalized_rule_path \<or> starts_with path (normalized_rule_path @ ''/''))"

definition capability_rule_path_for_method :: "string \<Rightarrow> string \<Rightarrow> string option" where
  "capability_rule_path_for_method rule_key http_method =
     (let prefix = upper_ascii http_method @ '' '' in
      if starts_with (upper_ascii rule_key) prefix then Some (drop (length prefix) rule_key) else None)"

definition load_capability_rule_family :: "enterprise_env \<Rightarrow> string \<Rightarrow> capability_rules \<Rightarrow> capability_rules" where
  "load_capability_rule_family env env_name defaults =
     dict_update defaults (normalized_capability_rule_overrides (load_json_map env env_name))"

definition load_capability_rules :: "enterprise_env \<Rightarrow> capability_rules" where
  "load_capability_rules env = load_capability_rule_family env ''ENTERPRISE_CAPABILITY_RULES_JSON'' DEFAULT_CAPABILITY_RULES"

definition load_privileged_read_rules :: "enterprise_env \<Rightarrow> capability_rules" where
  "load_privileged_read_rules env =
     load_capability_rule_family env ''ENTERPRISE_PRIVILEGED_READ_RULES_JSON'' DEFAULT_PRIVILEGED_READ_RULES"

definition rule_governs :: "string \<Rightarrow> string \<Rightarrow> string \<Rightarrow> bool" where
  "rule_governs http_method path key =
     (case capability_rule_path_for_method key http_method of None \<Rightarrow> False | Some rule_path \<Rightarrow> path_matches_rule path rule_path)"

definition required_capability_from_rules :: "string \<Rightarrow> string \<Rightarrow> capability_rules \<Rightarrow> string option" where
  "required_capability_from_rules http_method path rules =
     map_option snd (find (\<lambda>(key, capability). rule_governs http_method path key) rules)"

definition required_capability :: "enterprise_env \<Rightarrow> string \<Rightarrow> string \<Rightarrow> string option" where
  "required_capability env http_method path = required_capability_from_rules http_method path (load_capability_rules env)"

definition required_privileged_read_capability :: "enterprise_env \<Rightarrow> string \<Rightarrow> string \<Rightarrow> string option" where
  "required_privileged_read_capability env http_method path =
     required_capability_from_rules http_method path (load_privileged_read_rules env)"

section \<open>Authorization\<close>

text \<open>The answer is whether the request is allowed and, when it is not, why.\<close>

type_synonym authorization = "bool \<times> string option"

definition missing_headers_reason :: "string list \<Rightarrow> string" where
  "missing_headers_reason missing = ''missing_headers:'' @ join_with '','' missing"

text \<open>An f-string of an optional capability; it is only built for one that is there.\<close>

definition missing_capability_reason :: "string option \<Rightarrow> string" where
  "missing_capability_reason required = ''missing_capability:'' @ (case required of None \<Rightarrow> ''None'' | Some c \<Rightarrow> c)"

definition authorize_with_required_capability :: "headers \<Rightarrow> string option \<Rightarrow> authorization" where
  "authorize_with_required_capability hs required =
     (let h = normalized_headers hs; missing = missing_required_headers h in
      if missing \<noteq> [] then (False, Some (missing_headers_reason missing))
      else if \<not> has_service_identity h then (False, Some ''missing_service_identity'')
      else if \<not> has_required_capability h required then (False, Some (missing_capability_reason required))
      else (True, None))"

definition authorize_write_request :: "enterprise_env \<Rightarrow> string \<Rightarrow> string \<Rightarrow> headers \<Rightarrow> authorization" where
  "authorize_write_request env http_method path hs =
     (if \<not> is_write_method http_method \<or> \<not> write_authz_enabled env then (True, None)
      else authorize_with_required_capability hs (required_capability env http_method path))"

definition authorize_required_capability_request :: "enterprise_env \<Rightarrow> string \<Rightarrow> string \<Rightarrow> headers \<Rightarrow> authorization" where
  "authorize_required_capability_request env http_method path hs =
     (case (if is_write_method http_method then required_capability env http_method path
            else required_privileged_read_capability env http_method path) of
        None \<Rightarrow> (False, Some ''missing_governed_capability_rule'')
      | Some required \<Rightarrow> authorize_with_required_capability hs (Some required))"

definition authorize_privileged_read_request :: "enterprise_env \<Rightarrow> string \<Rightarrow> string \<Rightarrow> headers \<Rightarrow> authorization" where
  "authorize_privileged_read_request env http_method path hs =
     (if \<not> is_privileged_read_method http_method \<or> \<not> privileged_read_authz_enabled env then (True, None)
      else case required_privileged_read_capability env http_method path of
          None \<Rightarrow> (True, None)
        | Some required \<Rightarrow> authorize_with_required_capability hs (Some required))"

definition authorize_enterprise_request :: "enterprise_env \<Rightarrow> string \<Rightarrow> string \<Rightarrow> headers \<Rightarrow> authorization" where
  "authorize_enterprise_request env http_method path hs =
     (let (authorized, reason) = authorize_write_request env http_method path hs in
      if \<not> authorized then (authorized, reason) else authorize_privileged_read_request env http_method path hs)"

section \<open>Payload limits\<close>

definition content_length :: "headers \<Rightarrow> int" where
  "content_length hs = parse_int_or_default (case map_of hs ''content-length'' of None \<Rightarrow> ''0'' | Some v \<Rightarrow> v) 0"

definition write_payload_too_large :: "string \<Rightarrow> headers \<Rightarrow> int \<Rightarrow> bool" where
  "write_payload_too_large http_method hs bound \<longleftrightarrow> is_write_method http_method \<and> content_length hs > bound"

text \<open>
  The messages the server delivers, and what the wrapped \<open>receive\<close> of a write request lets
  through: the counter is its \<open>nonlocal\<close>; the \<open>Inl\<close> is \<open>PayloadTooLargeError\<close>.
\<close>

datatype message = HttpRequest nat | OtherMessage

definition limited_receive :: "int \<Rightarrow> message \<Rightarrow> nat \<Rightarrow> unit + message \<times> nat" where
  "limited_receive bound message received_body_bytes =
     (case message of
        HttpRequest n \<Rightarrow> if int (received_body_bytes + n) > bound then Inl () else Inr (message, received_body_bytes + n)
      | OtherMessage \<Rightarrow> Inr (message, received_body_bytes))"

fun receive_all :: "int \<Rightarrow> message list \<Rightarrow> nat \<Rightarrow> message list \<times> bool" where
  "receive_all bound [] received = ([], True)"
| "receive_all bound (m # ms) received =
     (case limited_receive bound m received of
        Inl _ \<Rightarrow> ([], False)
      | Inr (m', received') \<Rightarrow> let (rest, whole) = receive_all bound ms received' in (m' # rest, whole))"

definition write_payload_limited_request :: "string \<Rightarrow> int \<Rightarrow> message list \<Rightarrow> message list \<times> bool" where
  "write_payload_limited_request http_method bound messages =
     (if \<not> is_write_method http_method then (messages, True) else receive_all bound messages 0)"

section \<open>Redaction\<close>

definition REDACTED_VALUE :: string where "REDACTED_VALUE = ''***REDACTED***''"

definition REDACT_FIELDS :: "string list" where
  "REDACT_FIELDS = [''password'', ''secret'', ''token'', ''authorization'', ''ssn'', ''account_number'', ''client_email'']"

definition should_redact_field :: "string \<Rightarrow> bool" where
  "should_redact_field field \<longleftrightarrow> lower field \<in> set REDACT_FIELDS"

primrec redact_sensitive :: "json \<Rightarrow> json" where
  "redact_sensitive JNull = JNull"
| "redact_sensitive (JBool b) = JBool b"
| "redact_sensitive (JInt n) = JInt n"
| "redact_sensitive (JFloat s) = JFloat s"
| "redact_sensitive (JStr s) = JStr s"
| "redact_sensitive (JList js) = JList (List.map redact_sensitive js)"
| "redact_sensitive (JObj kvs) =
     JObj (List.map (\<lambda>(k, v). (k, if should_redact_field k then JStr REDACTED_VALUE else v)) (List.map (map_prod id redact_sensitive) kvs))"

section \<open>Feature flags\<close>

fun dict_value :: "json option \<Rightarrow> json_dict" where
  "dict_value (Some (JObj kvs)) = kvs"
| "dict_value _ = []"

definition feature_flag_enabled :: "json_dict \<Rightarrow> string \<Rightarrow> string \<Rightarrow> string \<Rightarrow> bool" where
  "feature_flag_enabled flags feature_key tenant role =
     (let feature = dict_value (dict_get flags feature_key);
          tenant_flags = dict_value (dict_get feature tenant)
      in case dict_get tenant_flags role of
           Some (JBool b) \<Rightarrow> b
         | _ \<Rightarrow> (case dict_get tenant_flags ''*'' of
              Some (JBool b) \<Rightarrow> b
            | _ \<Rightarrow> (case dict_get (dict_value (dict_get feature ''*'')) ''*'' of Some (JBool b) \<Rightarrow> b | _ \<Rightarrow> False)))"

definition is_feature_enabled :: "enterprise_env \<Rightarrow> string \<Rightarrow> string \<Rightarrow> string \<Rightarrow> bool" where
  "is_feature_enabled env feature_key tenant role =
     feature_flag_enabled (load_json_map env ''ENTERPRISE_FEATURE_FLAGS_JSON'') feature_key tenant role"

end
