(* ===== verification/Async_Resolution.thy ===== *)
theory Async_Resolution
  imports Async_Results Execution_Registry Enterprise_Access
begin

text \<open>
  Polling for a result (src/app/services/async_result_service.py) and who may read one
  (src/app/services/calculation_result_access.py). The response model, the upgrader of old
  payloads and the body of the accepted answer are parameters; the stores are read one after
  another, each as it is at its own reading.
\<close>

section \<open>Answers\<close>

record application_response =
  ap_status :: int
  ap_content :: json
  ap_headers :: "(string \<times> string) list option"

definition authorization_denied_application_response :: "string \<Rightarrow> application_response" where
  "authorization_denied_application_response reason =
     \<lparr>ap_status = 403, ap_content = JObj [(''detail'', JStr ''authorization_policy_denied''), (''reason'', JStr reason)],
      ap_headers = None\<rparr>"

text \<open>\<open>True\<close> and \<open>False\<close> are instances of \<open>int\<close>.\<close>

definition accepted_response_headers :: "json \<Rightarrow> (string \<times> string) list option" where
  "accepted_response_headers content =
     (case content of
        JObj kvs \<Rightarrow> (case dict_get kvs ''recommended_poll_after_seconds'' of
            Some (JInt n) \<Rightarrow> Some [(''Retry-After'', int_text n)]
          | Some (JBool b) \<Rightarrow> Some [(''Retry-After'', if b then ''True'' else ''False'')]
          | _ \<Rightarrow> None)
      | _ \<Rightarrow> None)"

definition accepted_application_response :: "json \<Rightarrow> application_response" where
  "accepted_application_response content =
     \<lparr>ap_status = 202, ap_content = content, ap_headers = accepted_response_headers content\<rparr>"

definition APINotFoundError :: "string \<Rightarrow> store_error" where
  "APINotFoundError d = APIRefusal \<lparr>status_code = 404, detail = JStr d, error_code = None, retryable = None, remediation_hint = None\<rparr>"

definition conflict_refusal :: "string \<Rightarrow> string option \<Rightarrow> store_error" where
  "conflict_refusal d code = APIRefusal \<lparr>status_code = 409, detail = JStr d, error_code = code, retryable = None, remediation_hint = None\<rparr>"

section \<open>Access\<close>

definition tenant_access_denial_reason :: "execution_record \<Rightarrow> normalized \<Rightarrow> string option" where
  "tenant_access_denial_reason execution h =
     (case er_tenant_id execution of
        None \<Rightarrow> Some ''result_tenant_authority_unavailable''
      | Some t \<Rightarrow> if t = [] then None
          else if h ''x-tenant-id'' \<noteq> Some t then Some ''result_tenant_authority_mismatch'' else None)"

definition has_privileged_result_read :: "normalized \<Rightarrow> bool" where
  "has_privileged_result_read h \<longleftrightarrow> CAPABILITY_OPERATIONS_RUNTIME_READ \<in> header_capabilities h"

definition has_matching_portfolio_entitlement :: "execution_record \<Rightarrow> normalized \<Rightarrow> bool" where
  "has_matching_portfolio_entitlement execution h \<longleftrightarrow>
     (let portfolio_id = strip (case er_portfolio_id execution of None \<Rightarrow> [] | Some p \<Rightarrow> p);
          requested_portfolio_id = header_or h ''x-portfolio-id'' []
      in portfolio_id \<noteq> [] \<and> requested_portfolio_id \<noteq> [] \<and> requested_portfolio_id = portfolio_id)"

definition has_calculation_result_access :: "execution_record \<Rightarrow> normalized \<Rightarrow> bool" where
  "has_calculation_result_access execution h \<longleftrightarrow>
     has_privileged_result_read h \<or> has_matching_portfolio_entitlement execution h"

definition calculation_result_access_denial_reason :: "execution_record \<Rightarrow> normalized \<Rightarrow> string option" where
  "calculation_result_access_denial_reason execution h =
     (let missing = missing_required_headers h in
      if missing \<noteq> [] then Some (missing_headers_reason missing)
      else if \<not> has_service_identity h then Some ''missing_service_identity''
      else case tenant_access_denial_reason execution h of
          Some reason \<Rightarrow> Some reason
        | None \<Rightarrow> if has_calculation_result_access execution h then None
            else Some ''missing_result_access:operations.runtime.read_or_matching_portfolio_id'')"

definition authorize_calculation_result_access :: "enterprise_env \<Rightarrow> execution_record \<Rightarrow> headers \<Rightarrow> application_response option" where
  "authorize_calculation_result_access env execution hs =
     (let h = normalized_headers hs in
      map_option authorization_denied_application_response
        (if privileged_read_authz_enabled env then calculation_result_access_denial_reason execution h
         else tenant_access_denial_reason execution h))"

definition authorize_persisted_calculation_resource_access ::
    "enterprise_env \<Rightarrow> uuid \<Rightarrow> headers \<Rightarrow> string \<Rightarrow> database \<Rightarrow> store_error + application_response option" where
  "authorize_persisted_calculation_resource_access env calculation_id hs not_found_detail db =
     (case get_execution calculation_id db of
        None \<Rightarrow> if \<not> privileged_read_authz_enabled env then Inr None else Inl (APINotFoundError not_found_detail)
      | Some execution \<Rightarrow>
          if privileged_read_authz_enabled env \<and> er_tenant_id execution \<in> {None, Some []}
          then Inr (Some (authorization_denied_application_response ''result_tenant_authority_unavailable''))
          else Inr (authorize_calculation_result_access env execution hs))"

definition lineage_operator_access_denial :: "headers \<Rightarrow> application_response option" where
  "lineage_operator_access_denial hs =
     (let h = normalized_headers hs; missing = missing_required_headers h in
      map_option authorization_denied_application_response
        (if missing \<noteq> [] then Some (missing_headers_reason missing)
         else if \<not> has_service_identity h then Some ''missing_service_identity''
         else if \<not> has_privileged_result_read h then Some ''missing_lineage_artifact_access:operations.runtime.read''
         else None))"

section \<open>Resolution\<close>

text \<open>
  What the caller of the endpoint passes: the workflow it serves, its response model (\<open>None\<close> is
  \<open>ValidationError\<close>), the upgrader, the accepted body and the text of a 404.
\<close>

record 'm poll_contract =
  pc_expected_analytics_type :: string
  pc_response_model :: "json_dict option \<Rightarrow> 'm option"
  pc_upgrader :: "(json_dict option \<Rightarrow> json_dict option) option"
  pc_accepted :: "uuid \<Rightarrow> json"
  pc_not_found_detail :: string

datatype 'm resolution = Resolved 'm | HttpResponse application_response

definition ensure_expected_analytics_type :: "string \<Rightarrow> string \<Rightarrow> string \<Rightarrow> store_error + unit" where
  "ensure_expected_analytics_type actual expected not_found_detail = ensure (actual = expected) (APINotFoundError not_found_detail)"

definition upgraded :: "'m poll_contract \<Rightarrow> json_dict option \<Rightarrow> json_dict option" where
  "upgraded pc payload = (case pc_upgrader pc of None \<Rightarrow> payload | Some u \<Rightarrow> u payload)"

definition validate_response_payload :: "'m poll_contract \<Rightarrow> json_dict option \<Rightarrow> store_error + 'm resolution" where
  "validate_response_payload pc payload =
     (case pc_response_model pc (upgraded pc payload) of
        None \<Rightarrow> Inl (conflict_refusal ''Async result payload failed response contract validation.'' None)
      | Some m \<Rightarrow> Inr (Resolved m))"

definition raise_failure :: "durable_failure_classification option \<Rightarrow> store_error" where
  "raise_failure failure =
     (case failure of
        Some f \<Rightarrow> APIRefusal (to_api_error f)
      | None \<Rightarrow> conflict_refusal GENERIC_ASYNC_FAILURE_MESSAGE (Some GENERIC_ASYNC_FAILURE_CODE))"

definition resolve_stored_async_result :: "'m poll_contract \<Rightarrow> async_result_record \<Rightarrow> store_error + 'm resolution" where
  "resolve_stored_async_result pc async_result =
     bind_res (ensure_expected_analytics_type (res_analytics_type async_result) (pc_expected_analytics_type pc)
                 (pc_not_found_detail pc)) (\<lambda>_.
     if res_result_status async_result = RFailed then Inl (raise_failure (res_failure async_result))
     else validate_response_payload pc (res_response_payload async_result))"

definition ACTIVE_ASYNC_JOB_STATUSES :: "compute_job_status list" where
  "ACTIVE_ASYNC_JOB_STATUSES = [JPending, JLeased, JRunning]"

definition resolve_compute_job_result :: "'m poll_contract \<Rightarrow> uuid \<Rightarrow> compute_job_record \<Rightarrow> store_error + 'm resolution" where
  "resolve_compute_job_result pc calculation_id job =
     bind_res (ensure_expected_analytics_type (rec_analytics_type job) (pc_expected_analytics_type pc)
                 (pc_not_found_detail pc)) (\<lambda>_.
     if rec_job_status job \<in> set ACTIVE_ASYNC_JOB_STATUSES
       then Inr (HttpResponse (accepted_application_response (pc_accepted pc calculation_id)))
     else if rec_job_status job = JFailed then Inl (raise_failure (rec_failure job))
     else validate_response_payload pc (rec_response_payload job))"

definition resolve_retained_execution_result :: "'m poll_contract \<Rightarrow> execution_record option \<Rightarrow> store_error + 'm resolution" where
  "resolve_retained_execution_result pc execution =
     bind_res (of_option (APINotFoundError (pc_not_found_detail pc)) execution) (\<lambda>e.
     bind_res (ensure_expected_analytics_type (er_analytics_type e) (pc_expected_analytics_type pc)
                 (pc_not_found_detail pc)) (\<lambda>_.
     if er_status e = EFailed then Inl (raise_failure (er_failure e))
     else if er_response_payload e = None then Inl (APINotFoundError (pc_not_found_detail pc))
     else validate_response_payload pc (er_response_payload e)))"

definition authorize_async_result_access ::
    "enterprise_env \<Rightarrow> uuid \<Rightarrow> headers option \<Rightarrow> string \<Rightarrow> database
      \<Rightarrow> store_error + application_response option \<times> execution_record option" where
  "authorize_async_result_access env calculation_id request_headers not_found_detail db =
     (case request_headers of
        None \<Rightarrow> Inr (None, None)
      | Some hs \<Rightarrow> bind_res (of_option (APINotFoundError not_found_detail) (get_execution calculation_id db)) (\<lambda>execution.
          Inr (authorize_calculation_result_access env execution hs, Some execution)))"

text \<open>\<open>request_tenant\<close> is the tenant of the request's context; the four databases are the four readings.\<close>

definition resolve_async_result ::
    "enterprise_env \<Rightarrow> 'm poll_contract \<Rightarrow> uuid \<Rightarrow> headers option \<Rightarrow> string
      \<Rightarrow> database \<Rightarrow> database \<Rightarrow> database \<Rightarrow> database \<Rightarrow> store_error + 'm resolution" where
  "resolve_async_result env pc calculation_id request_headers request_tenant db_access db_result db_job db_execution =
     bind_res (authorize_async_result_access env calculation_id request_headers (pc_not_found_detail pc) db_access)
       (\<lambda>(access_denial, authorized_execution).
     case access_denial of
       Some denial \<Rightarrow> Inr (HttpResponse denial)
     | None \<Rightarrow>
         (let admitted_tenant_id = (case Option.bind authorized_execution er_tenant_id of
                None \<Rightarrow> request_tenant | Some t \<Rightarrow> t)
          in case get_result_for_tenant calculation_id admitted_tenant_id db_result of
               Some async_result \<Rightarrow> resolve_stored_async_result pc async_result
             | None \<Rightarrow> bind_res (get_job_for_tenant calculation_id admitted_tenant_id db_job) (\<lambda>job.
                 case job of
                   Some j \<Rightarrow> resolve_compute_job_result pc calculation_id j
                 | None \<Rightarrow> resolve_retained_execution_result pc
                     (case authorized_execution of
                        Some e \<Rightarrow> Some e
                      | None \<Rightarrow> get_execution_for_tenant calculation_id admitted_tenant_id db_execution))))"

end
