(* ===== verification/Enterprise_Middleware.thy ===== *)
theory Enterprise_Middleware
  imports Enterprise_Access
begin

text \<open>
  The audit middleware around every request (src/app/enterprise_audit_middleware.py), the events
  it emits (src/app/enterprise_audit_events.py, src/app/enterprise_audit_emission.py), the
  composite surfaces it recognises (src/app/composite_principal_admission.py) and the denial it
  answers with (src/app/enterprise_response_envelopes.py). The application behind it is a
  parameter: it is given the messages it may receive and answers, raises
  \<open>PayloadTooLargeError\<close>, or raises something else.
\<close>

record verified_composite_principal =
  principal_kind :: string
  subject :: string
  principal_tenant_id :: string
  delegated_actor :: "string option"

text \<open>
  A request as the middleware sees it. \<open>hr_tenant_values\<close> is \<open>getlist\<close> of the tenant header; the
  surface marker and the principal are what the outer admission middleware put on its state.
\<close>

record http_request =
  hr_method :: string
  hr_path :: string
  hr_headers :: headers
  hr_tenant_values :: "string list"
  hr_surface_marker :: "string option"
  hr_principal :: "verified_composite_principal option"
  hr_messages :: "message list"

section \<open>Composite surfaces\<close>

definition under_path :: "string \<Rightarrow> string \<Rightarrow> bool" where
  "under_path base path \<longleftrightarrow> path = base \<or> starts_with path (base @ ''/'')"

definition is_candidate_path :: "string \<Rightarrow> bool" where
  "is_candidate_path path = under_path ''/performance/composites/result-candidates'' path"

definition is_authority_path :: "string \<Rightarrow> bool" where
  "is_authority_path path = under_path ''/performance/composites/result-authorities'' path"

definition verified_composite_surface :: "http_request \<Rightarrow> string option" where
  "verified_composite_surface request =
     (if is_authority_path (hr_path request) then Some ''composite_result_authority''
      else if is_candidate_path (hr_path request) then Some ''composite_result_candidates''
      else if hr_surface_marker request \<in> {Some ''composite_attribution'', Some ''composite_twr''} then hr_surface_marker request
      else if hr_surface_marker request \<in> {Some ''composite_pooled_mwr'', Some ''composite_pooled_dispatch''}
        then Some ''composite_pooled_mwr''
      else None)"

definition trusted_request_principal :: "http_request \<Rightarrow> verified_composite_principal option" where
  "trusted_request_principal request = hr_principal request"

section \<open>Audit events\<close>

record audit_event =
  ae_service :: string
  ae_action :: string
  ae_identity :: audit_identity
  ae_timestamp_utc :: string
  ae_policy_version :: string
  ae_metadata :: json

definition audit_event_payload :: "enterprise_env \<Rightarrow> string \<Rightarrow> string \<Rightarrow> audit_identity \<Rightarrow> json_dict \<Rightarrow> audit_event" where
  "audit_event_payload env timestamp action identity metadata =
     \<lparr>ae_service = ''lotus-performance'', ae_action = action, ae_identity = identity, ae_timestamp_utc = timestamp,
      ae_policy_version = enterprise_policy_version env, ae_metadata = redact_sensitive (JObj metadata)\<rparr>"

definition should_emit_allowed_audit_metadata :: "enterprise_env \<Rightarrow> string \<Rightarrow> string option \<Rightarrow> bool" where
  "should_emit_allowed_audit_metadata env http_method privileged_read_capability \<longleftrightarrow>
     is_write_method http_method
     \<or> is_privileged_read_method http_method \<and> privileged_read_authz_enabled env \<and> privileged_read_capability \<noteq> None"

definition allowed_audit_metadata :: "enterprise_env \<Rightarrow> string \<Rightarrow> string \<Rightarrow> int \<Rightarrow> json_dict option" where
  "allowed_audit_metadata env http_method path status =
     (let write_capability = required_capability env http_method path;
          privileged_read_capability = required_privileged_read_capability env http_method path;
          is_privileged_read = is_privileged_read_method http_method;
          needed = (if is_privileged_read then privileged_read_capability else write_capability)
      in if \<not> should_emit_allowed_audit_metadata env http_method privileged_read_capability then None
         else Some [(''status_code'', JInt status),
                (''access_mode'', JStr (if is_privileged_read then ''privileged_read'' else ''write'')),
                (''required_capability'', json_opt needed),
                (''governed_surface'', if needed = None then JNull else JStr path)])"

definition candidate_audit_metadata :: "http_request \<Rightarrow> int \<Rightarrow> json_dict" where
  "candidate_audit_metadata request status =
     (let capability = verified_composite_required_capability (hr_method request) (hr_path request) in
      [(''status_code'', JInt status),
       (''access_mode'', JStr (if capability = CAPABILITY_OPERATIONS_RUNTIME_READ then ''privileged_read'' else ''write'')),
       (''required_capability'', JStr capability),
       (''governed_surface'', json_opt (verified_composite_surface request)),
       (''delegated_actor'', json_opt (case trusted_request_principal request of None \<Rightarrow> None | Some p \<Rightarrow> delegated_actor p))])"

definition request_audit_metadata :: "enterprise_env \<Rightarrow> http_request \<Rightarrow> int \<Rightarrow> json_dict option" where
  "request_audit_metadata env request status =
     (if verified_composite_surface request \<noteq> None then Some (candidate_audit_metadata request status)
      else allowed_audit_metadata env (hr_method request) (hr_path request) status)"

definition request_action :: "string \<Rightarrow> string \<Rightarrow> string" where
  "request_action http_method path = http_method @ '' '' @ path"

definition denied_request_action :: "string \<Rightarrow> string \<Rightarrow> string" where
  "denied_request_action http_method path = ''DENY '' @ request_action http_method path"

section \<open>The middleware\<close>

datatype app_outcome = Answered int | BodyTooLarge | Raised

text \<open>What the caller gets: an answer with its policy header, a denial, or the size refusal.\<close>

datatype http_response = Answer int string | AuthorizationDenied "string option" | PayloadTooLarge

definition composite_audit_identity :: "http_request \<Rightarrow> audit_identity" where
  "composite_audit_identity request =
     (let p = trusted_request_principal request;
          get = (\<lambda>f. case p of None \<Rightarrow> ''unresolved'' | Some q \<Rightarrow> f q)
      in \<lparr>au_actor_id = get subject, au_tenant_id = get principal_tenant_id, au_role = get principal_kind,
          au_correlation_id = (case map_of (hr_headers request) ''x-correlation-id'' of None \<Rightarrow> [] | Some v \<Rightarrow> v)\<rparr>)"

text \<open>
  \<open>dict(request.headers)\<close>: each key once, with the first of its values. The keys of a request are in
  lower case, as the server interface delivers them.
\<close>

definition headers_dict :: "headers \<Rightarrow> headers" where
  "headers_dict hs = dict_update [] (List.map (\<lambda>(k, v). (k, the (map_of hs k))) hs)"

definition admit_request :: "enterprise_env \<Rightarrow> http_request \<Rightarrow> audit_identity \<times> authorization" where
  "admit_request env request =
     (if verified_composite_surface request \<noteq> None
      then (composite_audit_identity request, trusted_request_principal request \<noteq> None, Some ''verified_principal_required'')
      else (audit_identity_from_headers (Some (hr_tenant_values request)) (hr_headers request),
            authorize_enterprise_request env (hr_method request) (hr_path request) (headers_dict (hr_headers request))))"

definition middleware ::
    "enterprise_env \<Rightarrow> string \<Rightarrow> (message list \<times> bool \<Rightarrow> app_outcome) \<Rightarrow> http_request \<Rightarrow> http_response option \<times> audit_event list" where
  "middleware env timestamp call_next request =
     (let bound = max_write_payload_bytes env in
      if write_payload_too_large (hr_method request) (hr_headers request) bound then (Some PayloadTooLarge, [])
      else let (identity, authorized, reason) = admit_request env request in
        if \<not> authorized
        then (Some (AuthorizationDenied reason),
              [audit_event_payload env timestamp (denied_request_action (hr_method request) (hr_path request)) identity
                 [(''reason'', json_opt reason)]])
        else (case call_next (write_payload_limited_request (hr_method request) bound (hr_messages request)) of
            BodyTooLarge \<Rightarrow> (Some PayloadTooLarge, [])
          | Raised \<Rightarrow> (None, [])
          | Answered status \<Rightarrow>
              (Some (Answer status (enterprise_policy_version env)),
               case request_audit_metadata env request status of
                 None \<Rightarrow> []
               | Some metadata \<Rightarrow> [audit_event_payload env timestamp (request_action (hr_method request) (hr_path request))
                                     identity metadata])))"

end
