(* ===== verification/Enterprise_Safety.thy ===== *)
theory Enterprise_Safety
  imports Enterprise_Middleware
begin

text \<open>
  What the access layer guarantees: configuration cannot open a governed surface, a production
  process that started enforces authority on writes and governed reads, a denied request never
  reaches the application and is audited, bodies are bounded, and audit metadata is redacted.
\<close>

section \<open>Rules\<close>

lemma family_rule:
  assumes "find (\<lambda>(key, capability). rule_governs m path key) defaults = Some (key, capability)"
  shows "required_capability_from_rules m path (load_capability_rule_family env name defaults)
    = Some (case map_of (normalized_capability_rule_overrides (load_json_map env name)) key of None \<Rightarrow> capability | Some c \<Rightarrow> c)"
proof -
  let ?o = "normalized_capability_rule_overrides (load_json_map env name)"
  have "distinct (List.map fst ?o)"
    unfolding normalized_capability_rule_overrides_def by (rule dict_update_distinct) simp
  then have "map_of (rev ?o) = map_of ?o" by (rule map_of_rev)
  then show ?thesis using find_dict_update [OF assms, of ?o]
    by (simp add: required_capability_from_rules_def load_capability_rule_family_def)
qed

text \<open>
  Configuration cannot open a governed surface: a request that a
  built-in rule governs stays governed under every configuration, by the first built-in rule
  that matches it, with the capability configured for exactly that rule if there is one; a
  configured rule for a narrower path below it is never reached.\<close>

theorem configured_rules_only_replace:
  fixes env :: enterprise_env
  shows "(find (\<lambda>(key, capability). rule_governs m path key) DEFAULT_CAPABILITY_RULES = Some (key, capability) \<longrightarrow>
       required_capability env m path = Some (case map_of (normalized_capability_rule_overrides
         (load_json_map env ''ENTERPRISE_CAPABILITY_RULES_JSON'')) key of None \<Rightarrow> capability | Some c \<Rightarrow> c))
    \<and> (find (\<lambda>(key, capability). rule_governs m path key) DEFAULT_PRIVILEGED_READ_RULES = Some (key, capability) \<longrightarrow>
       required_privileged_read_capability env m path = Some (case map_of (normalized_capability_rule_overrides
         (load_json_map env ''ENTERPRISE_PRIVILEGED_READ_RULES_JSON'')) key of None \<Rightarrow> capability | Some c \<Rightarrow> c))"
  by (simp add: required_capability_def load_capability_rules_def required_privileged_read_capability_def
      load_privileged_read_rules_def family_rule)

section \<open>Production\<close>

definition holds_authority :: "headers \<Rightarrow> string option \<Rightarrow> bool" where
  "holds_authority hs required \<longleftrightarrow>
     (\<forall>name \<in> set REQUIRED_HEADERS. header_or (normalized_headers hs) name [] \<noteq> [])
     \<and> has_service_identity (normalized_headers hs) \<and> has_required_capability (normalized_headers hs) required"

lemma no_missing_headers:
  "missing_required_headers h = [] \<longleftrightarrow> (\<forall>name \<in> set REQUIRED_HEADERS. header_or h name [] \<noteq> [])"
proof -
  have "missing_required_headers h = [] \<longleftrightarrow> (\<forall>name \<in> set REQUIRED_HEADERS. h name \<notin> {None, Some []})"
    unfolding missing_required_headers_def set_empty [symmetric] set_sort set_filter by blast
  then show ?thesis by (auto simp: header_or_def split: option.split)
qed

lemma authorized_iff: "fst (authorize_with_required_capability hs required) \<longleftrightarrow> holds_authority hs required"
  by (auto simp: authorize_with_required_capability_def Let_def holds_authority_def no_missing_headers)

lemma production_issues_none:
  assumes "production_like_runtime_profile_enabled env" "enterprise_runtime_config_issues env settings = []"
  shows "write_authz_enabled env \<and> privileged_read_authz_enabled env \<and> runtime_config_enforcement_enabled env
    \<and> primary_key_configured env \<and> secret_rotation_days_valid (env_int env ''ENTERPRISE_SECRET_ROTATION_DAYS'' 90)
    \<and> (\<forall>f \<in> set PRODUCTION_RUNTIME_THRESHOLD_FIELDS. \<not> runtime_threshold_disabled settings f)"
proof -
  let ?i = "[]"
  have "production_runtime_profile_issues env [] = []" "production_runtime_threshold_issues env settings = []"
    "secret_rotation_days_valid (env_int env ''ENTERPRISE_SECRET_ROTATION_DAYS'' 90)"
    using assms(2) by (auto simp: enterprise_runtime_config_issues_def Let_def split: if_splits)
  with assms(1) show ?thesis
    by (auto simp: production_runtime_profile_issues_def production_runtime_profile_requirements_def filter_empty_conv
        production_primary_key_issue_needed_def production_primary_key_config_valid_def production_runtime_threshold_issues_def
        split: if_splits)
qed

text \<open>
  A production or staging process that passed validation at start has
  every switch on, a primary key, a valid rotation period and every runtime threshold set, and
  allows a write, or a read of a governed surface, only to a caller with all four identity
  headers, a service identity and the required capability.\<close>

theorem production_enforces_authority:
  assumes "production_like_runtime_profile_enabled env" "validate_enterprise_runtime_config env settings = Inr issues"
  shows "issues = [] \<and> write_authz_enabled env \<and> privileged_read_authz_enabled env \<and> runtime_config_enforcement_enabled env
    \<and> primary_key_configured env \<and> (\<forall>f \<in> set PRODUCTION_RUNTIME_THRESHOLD_FIELDS. \<exists>v. settings f = Some v \<and> 0 < v)
    \<and> (\<forall>m path hs. fst (authorize_enterprise_request env m path hs) \<longleftrightarrow>
        (is_write_method m \<longrightarrow> holds_authority hs (required_capability env m path))
        \<and> (\<forall>c. is_privileged_read_method m \<and> required_privileged_read_capability env m path = Some c \<longrightarrow> holds_authority hs (Some c)))"
proof -
  have none: "enterprise_runtime_config_issues env settings = []" "issues = []"
    using assms by (auto simp: validate_enterprise_runtime_config_def Let_def runtime_config_issues_should_raise_def split: if_splits)
  note on = production_issues_none [OF assms(1) none(1)]
  have "\<forall>f \<in> set PRODUCTION_RUNTIME_THRESHOLD_FIELDS. \<exists>v. settings f = Some v \<and> 0 < v"
    using on by (auto simp: runtime_threshold_disabled_def not_le split: option.splits)
  moreover have "fst (authorize_enterprise_request env m path hs) \<longleftrightarrow>
        (is_write_method m \<longrightarrow> holds_authority hs (required_capability env m path))
        \<and> (\<forall>c. is_privileged_read_method m \<and> required_privileged_read_capability env m path = Some c \<longrightarrow> holds_authority hs (Some c))"
    for m path hs
    using on authorized_iff
    by (auto simp: authorize_enterprise_request_def authorize_write_request_def authorize_privileged_read_request_def Let_def
        case_prod_beta split: option.split)
  ultimately show ?thesis using on none(2) by blast
qed

section \<open>The gate\<close>

text \<open>C32: A request whose admission fails gets the same answer from the
  middleware whatever application stands behind it, a refusal that names the reason, and leaves
  exactly one audit event, a denial; on a composite surface admission is a verified principal.\<close>

theorem denied_never_reaches_application:
  assumes "\<not> write_payload_too_large (hr_method rq) (hr_headers rq) (max_write_payload_bytes env)" "\<not> fst (snd (admit_request env rq))"
  shows "\<exists>ev reason. (\<forall>app. middleware env ts app rq = (Some (AuthorizationDenied reason), [ev]))
    \<and> ae_action ev = ''DENY '' @ hr_method rq @ '' '' @ hr_path rq \<and> ae_metadata ev = JObj [(''reason'', json_opt reason)]
    \<and> (verified_composite_surface rq \<noteq> None \<longleftrightarrow> reason = Some ''verified_principal_required'')
    \<and> (verified_composite_surface rq \<noteq> None \<longrightarrow> trusted_request_principal rq = None)"
proof -
  obtain identity reason where a: "admit_request env rq = (identity, False, reason)"
    using assms(2) by (metis (full_types) prod.collapse)
  define ev where "ev = audit_event_payload env ts (denied_request_action (hr_method rq) (hr_path rq)) identity [(''reason'', json_opt reason)]"
  have "middleware env ts app rq = (Some (AuthorizationDenied reason), [ev])" for app
    using assms(1) by (simp add: middleware_def Let_def a ev_def)
  moreover have "\<not> should_redact_field ''reason''" by code_simp
  then have "ae_metadata ev = JObj [(''reason'', json_opt reason)]"
    by (simp add: ev_def audit_event_payload_def json_opt_def split: option.split)
  moreover have "ae_action ev = ''DENY '' @ hr_method rq @ '' '' @ hr_path rq"
    by (simp add: ev_def audit_event_payload_def denied_request_action_def request_action_def)
  moreover have "verified_composite_surface rq \<noteq> None \<longleftrightarrow> reason = Some ''verified_principal_required''"
    using a by (auto simp: admit_request_def authorize_enterprise_request_def authorize_write_request_def
        authorize_privileged_read_request_def authorize_with_required_capability_def Let_def missing_headers_reason_def
        missing_capability_reason_def split: if_splits option.splits prod.splits)
  moreover have "verified_composite_surface rq \<noteq> None \<longrightarrow> trusted_request_principal rq = None"
    using a by (auto simp: admit_request_def)
  ultimately show ?thesis by blast
qed

section \<open>Bodies\<close>

fun body_bytes :: "message list \<Rightarrow> nat" where
  "body_bytes [] = 0"
| "body_bytes (HttpRequest n # ms) = n + body_bytes ms"
| "body_bytes (OtherMessage # ms) = body_bytes ms"

lemma receive_all_bounded:
  "receive_all bound ms received = (got, whole) \<Longrightarrow>
   (int (received + body_bytes ms) \<le> bound \<longrightarrow> got = ms \<and> whole) \<and> (int received \<le> bound \<longrightarrow> int (received + body_bytes got) \<le> bound)
   \<and> (whole \<longrightarrow> got = ms) \<and> (\<exists>rest. ms = got @ rest)"
proof (induction ms arbitrary: received got whole)
  case (Cons m ms)
  show ?case
  proof (cases m)
    case (HttpRequest n)
    show ?thesis
    proof (cases "int (received + n) > bound")
      case True
      then show ?thesis using Cons.prems HttpRequest by (auto simp: limited_receive_def)
    next
      case False
      obtain rest w where r: "receive_all bound ms (received + n) = (rest, w)" by fastforce
      then have "got = m # rest" "whole = w" using Cons.prems HttpRequest False by (auto simp: limited_receive_def)
      with Cons.IH [OF r] HttpRequest False show ?thesis by (auto simp: add.assoc)
    qed
  next
    case OtherMessage
    obtain rest w where r: "receive_all bound ms received = (rest, w)" by fastforce
    then have "got = m # rest" "whole = w" using Cons.prems OtherMessage by (auto simp: limited_receive_def)
    with Cons.IH [OF r] OtherMessage show ?thesis by auto
  qed
qed auto

text \<open>A write never delivers more body bytes to the application than the limit,
  whatever its content-length said and however the body is split; a body within the limit
  arrives whole and unchanged, and what is delivered is always a prefix of what was sent.\<close>

theorem write_body_bounded:
  assumes "is_write_method m" "0 \<le> bound" "write_payload_limited_request m bound ms = (got, whole)"
  shows "int (body_bytes got) \<le> bound \<and> (int (body_bytes ms) \<le> bound \<longrightarrow> got = ms \<and> whole)
    \<and> (\<exists>rest. ms = got @ rest) \<and> (\<not> whole \<longrightarrow> int (body_bytes ms) > bound)"
  using receive_all_bounded [of bound ms 0 got whole] assms by (auto simp: write_payload_limited_request_def)

section \<open>Redaction\<close>

text \<open>
  The names that are sensitive, spelled out, and equality of a name with one of them up to the case
  of its letters.
\<close>

definition same_letter :: "char \<Rightarrow> char \<Rightarrow> bool" where
  "same_letter c d \<longleftrightarrow> c = d \<or> ((of_char c :: nat) \<in> {65..90} \<and> (of_char d :: nat) = of_char c + 32)"

definition sensitive_name :: "string \<Rightarrow> bool" where
  "sensitive_name k \<longleftrightarrow> list_ex (list_all2 same_letter k)
     [''password'', ''secret'', ''token'', ''authorization'', ''ssn'', ''account_number'', ''client_email'']"

definition small_letter :: "char \<Rightarrow> bool" where
  "small_letter d \<longleftrightarrow> (of_char d :: nat) = 95 \<or> (of_char d :: nat) \<in> {97..122}"

lemma lower_char_letter:
  assumes "small_letter d"
  shows "lower_char c = d \<longleftrightarrow> same_letter c d"
proof -
  let ?n = "of_char c :: nat" and ?m = "of_char d :: nat"
  have m: "?m = 95 \<or> 97 \<le> ?m \<and> ?m \<le> 122" using assms by (simp add: small_letter_def)
  consider (upper) "65 \<le> ?n" "?n \<le> 90" | (latin) "192 \<le> ?n" "?n \<le> 222" "?n \<noteq> 215"
    | (other) "\<not> (65 \<le> ?n \<and> ?n \<le> 90)" "\<not> (192 \<le> ?n \<and> ?n \<le> 222 \<and> ?n \<noteq> 215)" by blast
  then show ?thesis
  proof cases
    case upper
    then have "(of_char (lower_char c) :: nat) = ?n + 32" by (simp add: lower_char_def)
    moreover have "lower_char c = d \<longleftrightarrow> (of_char (lower_char c) :: nat) = ?m" by simp
    ultimately have "lower_char c = d \<longleftrightarrow> ?n + 32 = ?m" by presburger
    moreover have "c \<noteq> d" using upper m by auto
    ultimately show ?thesis using upper by (auto simp: same_letter_def)
  next
    case latin
    then have "of_char (lower_char c) = (?n + 32) mod 256" by (simp add: lower_char_def)
    then have "lower_char c \<noteq> d" using latin m by auto
    moreover have "c \<noteq> d" using latin m by auto
    ultimately show ?thesis using latin by (simp add: same_letter_def)
  next
    case other
    then show ?thesis by (auto simp: lower_char_def same_letter_def)
  qed
qed

lemma lower_letters: "list_all small_letter w \<Longrightarrow> lower k = w \<longleftrightarrow> list_all2 same_letter k w"
proof (induction k arbitrary: w)
  case Nil
  then show ?case by (cases w) (simp_all add: lower_def)
next
  case (Cons c k)
  then show ?case by (cases w) (simp_all add: lower_def lower_char_letter)
qed

lemma redacts_sensitive: "should_redact_field k = sensitive_name k"
proof -
  have "list_all (list_all small_letter) REDACT_FIELDS" by code_simp
  then show ?thesis
    unfolding should_redact_field_def sensitive_name_def REDACT_FIELDS_def by (simp add: lower_letters)
qed

text \<open>A value in which every sensitive field, at any depth, holds the redaction mark.\<close>

fun redacted :: "json \<Rightarrow> bool" where
  "redacted (JList js) = (\<forall>j \<in> set js. redacted j)"
| "redacted (JObj kvs) = (\<forall>(k, v) \<in> set kvs. if sensitive_name k then v = JStr ''***REDACTED***'' else redacted v)"
| "redacted j = True"

lemma redacted_fixed: "redacted j \<Longrightarrow> redact_sensitive j = j"
proof (induction j)
  case (JList js)
  then show ?case by (auto intro!: map_idI)
next
  case (JObj kvs)
  have "(\<lambda>(k, v). (k, if sensitive_name k then JStr ''***REDACTED***'' else v)) (map_prod id redact_sensitive kv) = kv"
    if "kv \<in> set kvs" for kv
  proof -
    obtain k v where kv: "kv = (k, v)" by (cases kv)
    then have "if sensitive_name k then v = JStr ''***REDACTED***'' else redacted v" using JObj.prems that by auto
    moreover have "redacted v \<Longrightarrow> redact_sensitive v = v" by (rule JObj.IH [of kv v]) (use that kv in simp_all)
    ultimately show ?thesis by (simp add: kv)
  qed
  then have "List.map (\<lambda>(k, v). (k, if sensitive_name k then JStr ''***REDACTED***'' else v))
      (List.map (map_prod id redact_sensitive) kvs) = kvs"
    unfolding map_map by (intro map_idI) (simp only: comp_apply)
  then show ?case by (simp only: redact_sensitive.simps redacts_sensitive REDACTED_VALUE_def)
qed simp_all

text \<open>C33: Redaction leaves no field named \<open>password\<close>, \<open>secret\<close>, \<open>token\<close>, \<open>authorization\<close>, \<open>ssn\<close>,
  \<open>account_number\<close> or \<open>client_email\<close>, in any letter case and at any depth, with its value; it keeps
  every key and its order, changes nothing in a value without such fields, and redacting twice is
  redacting once. So the metadata of every audit event, whatever it was built from, and of every
  event the middleware emits, is redacted.\<close>

theorem redaction_complete:
  fixes j :: json
  shows "redacted (redact_sensitive j) \<and> redact_sensitive (redact_sensitive j) = redact_sensitive j
    \<and> (redacted j \<longrightarrow> redact_sensitive j = j)
    \<and> (\<forall>kvs. j = JObj kvs \<longrightarrow> (\<exists>kvs'. redact_sensitive j = JObj kvs' \<and> List.map fst kvs' = List.map fst kvs))
    \<and> redacted (ae_metadata (audit_event_payload env timestamp action identity metadata))
    \<and> (redacted (JObj metadata) \<longrightarrow>
         ae_metadata (audit_event_payload env timestamp action identity metadata) = JObj metadata)
    \<and> (\<forall>ev \<in> set (snd (middleware env timestamp app rq)). redacted (ae_metadata ev))"
proof -
  have red: "redacted (redact_sensitive j)" for j
    by (induction j) (auto simp: redacts_sensitive REDACTED_VALUE_def split: if_splits)
  have event: "ae_metadata (audit_event_payload env timestamp action identity metadata) = redact_sensitive (JObj metadata)"
    for action identity metadata by (simp add: audit_event_payload_def)
  have "\<forall>ev \<in> set (snd (middleware env timestamp app rq)). redacted (ae_metadata ev)"
    by (auto simp: middleware_def Let_def event red split: prod.splits option.splits app_outcome.splits
        simp del: redact_sensitive.simps)
  moreover have "\<forall>kvs. j = JObj kvs \<longrightarrow> (\<exists>kvs'. redact_sensitive j = JObj kvs' \<and> List.map fst kvs' = List.map fst kvs)"
    by (auto simp: comp_def case_prod_beta)
  ultimately show ?thesis using redacted_fixed [of j] redacted_fixed [OF red, of j] redacted_fixed [of "JObj metadata"]
      red [of j] red [of "JObj metadata"] unfolding event by (intro conjI impI) assumption+
qed

end
