(* ===== verification/Resolution_Safety.thy ===== *)
theory Resolution_Safety
  imports Async_Resolution Enterprise_Safety Results_Safety Execution_Safety
begin

text \<open>
  What polling guarantees: a caller only ever reads a response of the tenant of the calculation,
  under the authority the access rules ask for, and a published success is what every later poll
  of its owner returns.
\<close>

section \<open>Whose response it is\<close>

text \<open>A response \<open>p\<close> that one of the three stores holds for the calculation and the tenant.\<close>

definition held_for_tenant :: "uuid \<Rightarrow> string \<Rightarrow> string \<Rightarrow> json_dict option \<Rightarrow> database \<Rightarrow> database \<Rightarrow> execution_row \<Rightarrow> bool" where
  "held_for_tenant k t ty p db_result db_job e \<longleftrightarrow>
     (\<exists>r. get_result_row k db_result = Some r \<and> ar_tenant_id r = Some t \<and> ar_analytics_type r = ty
        \<and> ar_result_status r = RComplete \<and> p = load_result_payload r)
   \<or> (\<exists>r rec. r \<in> set (db_jobs db_job) \<and> job_calculation_id r = k \<and> job_tenant_id r = Some t \<and> job_analytics_type r = ty
        \<and> to_record r = Inr rec \<and> rec_job_status rec = JComplete \<and> p = rec_response_payload rec)
   \<or> ex_analytics_type e = ty \<and> ex_status e \<noteq> EFailed \<and> p = load_object (ex_response_json e) \<and> p \<noteq> None"

lemma validated: "validate_response_payload pc p = Inr (Resolved m) \<Longrightarrow> pc_response_model pc (upgraded pc p) = Some m"
  by (auto simp: validate_response_payload_def split: option.splits)

lemma stored_resolved:
  assumes "get_result_for_tenant k t db = Some rec" "resolve_stored_async_result pc rec = Inr (Resolved m)"
  shows "\<exists>r. get_result_row k db = Some r \<and> ar_tenant_id r = Some t \<and> ar_analytics_type r = pc_expected_analytics_type pc
    \<and> ar_result_status r = RComplete \<and> pc_response_model pc (upgraded pc (load_result_payload r)) = Some m"
proof -
  obtain r where r: "get_result_row k db = Some r" "ar_tenant_id r = Some t" "rec = async_result_record_from_row r"
    using assms(1) by (auto simp: get_result_for_tenant_def split: option.splits if_splits)
  have "ar_analytics_type r = pc_expected_analytics_type pc" "res_result_status rec \<noteq> RFailed"
    "pc_response_model pc (upgraded pc (load_result_payload r)) = Some m"
    using assms(2) validated r(3)
    by (auto simp: resolve_stored_async_result_def ensure_expected_analytics_type_def async_result_record_from_row_def Let_def split: if_splits)
  moreover have "ar_result_status r = RComplete"
    using calculation(2) r(3) by (cases "ar_result_status r") (auto simp: async_result_record_from_row_def Let_def split: if_splits)
  ultimately show ?thesis using r by blast
qed

lemma job_resolved:
  assumes "get_job_for_tenant k t db = Inr (Some rec)" "resolve_compute_job_result pc k rec = Inr (Resolved m)"
  shows "\<exists>r. r \<in> set (db_jobs db) \<and> job_calculation_id r = k \<and> job_tenant_id r = Some t
    \<and> job_analytics_type r = pc_expected_analytics_type pc \<and> to_record r = Inr rec \<and> rec_job_status rec = JComplete
    \<and> pc_response_model pc (upgraded pc (rec_response_payload rec)) = Some m"
proof -
  obtain r where "find (\<lambda>r. job_calculation_id r = k \<and> job_tenant_id r = Some t) (db_jobs db) = Some r" "to_record r = Inr rec"
    using assms(1) by (auto simp: get_job_for_tenant_def split: option.splits)
  then have r: "r \<in> set (db_jobs db)" "job_calculation_id r = k" "job_tenant_id r = Some t" "to_record r = Inr rec"
    by (auto simp: find_Some_iff)
  have "rec_analytics_type rec = job_analytics_type r"
    using r(4) by (auto simp: to_record_def Let_def)
  moreover have "rec_job_status rec \<in> {JComplete}"
    using assms(2) by (cases "rec_job_status rec")
      (auto simp: resolve_compute_job_result_def ACTIVE_ASYNC_JOB_STATUSES_def split: if_splits)
  moreover have "rec_analytics_type rec = pc_expected_analytics_type pc" "pc_response_model pc (upgraded pc (rec_response_payload rec)) = Some m"
    using assms(2) validated
    by (auto simp: resolve_compute_job_result_def ensure_expected_analytics_type_def split: if_splits)
  ultimately show ?thesis using r by auto
qed

lemma access_granted:
  assumes "authorize_calculation_result_access env e hs = None"
  shows "\<exists>t. er_tenant_id e = Some t \<and> (t \<noteq> [] \<longrightarrow> normalized_headers hs ''x-tenant-id'' = Some t)
    \<and> (privileged_read_authz_enabled env \<longrightarrow> holds_authority hs None
        \<and> (has_required_capability (normalized_headers hs) (Some CAPABILITY_OPERATIONS_RUNTIME_READ)
           \<or> has_matching_portfolio_entitlement e (normalized_headers hs)))"
proof -
  let ?h = "normalized_headers hs"
  have tenant: "tenant_access_denial_reason e ?h = None"
    using assms by (auto simp: authorize_calculation_result_access_def Let_def calculation_result_access_denial_reason_def
        split: if_splits option.splits)
  then obtain t where t: "er_tenant_id e = Some t" "t \<noteq> [] \<longrightarrow> ?h ''x-tenant-id'' = Some t"
    by (auto simp: tenant_access_denial_reason_def split: option.splits if_splits)
  have "holds_authority hs None \<and> has_calculation_result_access e ?h" if "privileged_read_authz_enabled env"
    using assms that tenant
    by (auto simp: authorize_calculation_result_access_def Let_def calculation_result_access_denial_reason_def
        holds_authority_def no_missing_headers [symmetric] has_required_capability_def split: if_splits)
  then show ?thesis using t
    by (auto simp: has_calculation_result_access_def has_privileged_result_read_def has_required_capability_def)
qed

text \<open>C17: A poll that returns a response read it for the tenant the calculation was
  admitted with, from a complete result or job or from the retained execution of that workflow;
  the caller presented that tenant (unless the calculation was admitted without one) and, where
  privileged reads are enforced, all identity headers, a service identity and either the runtime
  read capability or the portfolio of the calculation.\<close>

theorem poll_tenant_isolated:
  assumes "resolve_async_result env pc k (Some hs) tenant db_access db_result db_job db_execution = Inr (Resolved m)"
  shows "\<exists>e t p. get_execution_row k db_access = Some e \<and> ex_tenant_id e = Some t
    \<and> (t \<noteq> [] \<longrightarrow> normalized_headers hs ''x-tenant-id'' = Some t)
    \<and> (privileged_read_authz_enabled env \<longrightarrow> holds_authority hs None
        \<and> (has_required_capability (normalized_headers hs) (Some CAPABILITY_OPERATIONS_RUNTIME_READ)
           \<or> (\<exists>portfolio. ex_portfolio_id e = Some portfolio \<and> strip portfolio \<noteq> []
               \<and> normalized_headers hs ''x-portfolio-id'' = Some (strip portfolio))))
    \<and> held_for_tenant k t (pc_expected_analytics_type pc) p db_result db_job e
    \<and> pc_response_model pc (upgraded pc p) = Some m"
proof -
  obtain er where er: "get_execution k db_access = Some er" "authorize_calculation_result_access env er hs = None"
    using assms by (cases "get_execution k db_access")
      (auto simp: resolve_async_result_def authorize_async_result_access_def of_option_def split: option.splits)
  obtain e where e: "get_execution_row k db_access = Some e" "er_tenant_id er = ex_tenant_id e" "er_portfolio_id er = ex_portfolio_id e"
    "er_analytics_type er = ex_analytics_type e" "er_status er = ex_status e" "er_response_payload er = load_object (ex_response_json e)"
    using er(1) by (auto simp: get_execution_def execution_record_from_model_def)
  obtain t where t: "ex_tenant_id e = Some t" "t \<noteq> [] \<longrightarrow> normalized_headers hs ''x-tenant-id'' = Some t"
    and auth: "privileged_read_authz_enabled env \<longrightarrow> holds_authority hs None
        \<and> (has_required_capability (normalized_headers hs) (Some CAPABILITY_OPERATIONS_RUNTIME_READ)
           \<or> has_matching_portfolio_entitlement er (normalized_headers hs))"
    using access_granted [OF er(2)] e(2) by auto
  have portfolio: "\<exists>portfolio. ex_portfolio_id e = Some portfolio \<and> strip portfolio \<noteq> []
      \<and> normalized_headers hs ''x-portfolio-id'' = Some (strip portfolio)"
    if "has_matching_portfolio_entitlement er (normalized_headers hs)"
    using that e(3) by (auto simp: has_matching_portfolio_entitlement_def Let_def header_or_def strip_def lstrip_Nil split: option.splits)
  have rest: "(case get_result_for_tenant k t db_result of
       Some r \<Rightarrow> resolve_stored_async_result pc r
     | None \<Rightarrow> bind_res (get_job_for_tenant k t db_job) (\<lambda>job. case job of
           Some j \<Rightarrow> resolve_compute_job_result pc k j | None \<Rightarrow> resolve_retained_execution_result pc (Some er))) = Inr (Resolved m)"
    using assms er e(2) t(1)
    by (simp add: resolve_async_result_def authorize_async_result_access_def of_option_def cong: option.case_cong)
  have "\<exists>p. held_for_tenant k t (pc_expected_analytics_type pc) p db_result db_job e \<and> pc_response_model pc (upgraded pc p) = Some m"
  proof (cases "get_result_for_tenant k t db_result")
    case (Some r)
    then obtain q where "get_result_row k db_result = Some q" "ar_tenant_id q = Some t"
      "ar_analytics_type q = pc_expected_analytics_type pc" "ar_result_status q = RComplete"
      "pc_response_model pc (upgraded pc (load_result_payload q)) = Some m"
      using rest stored_resolved [OF Some, of pc m] by auto
    then show ?thesis unfolding held_for_tenant_def by blast
  next
    case None
    then obtain job where job: "get_job_for_tenant k t db_job = Inr job"
      and resolved: "(case job of Some j \<Rightarrow> resolve_compute_job_result pc k j
        | None \<Rightarrow> resolve_retained_execution_result pc (Some er)) = Inr (Resolved m)" using rest by auto
    show ?thesis
    proof (cases job)
      case (Some j)
      then show ?thesis using job_resolved [of k t db_job j pc m] job resolved by (fastforce simp: held_for_tenant_def)
    next
      case None
      then have "ex_analytics_type e = pc_expected_analytics_type pc" "ex_status e \<noteq> EFailed" "er_response_payload er \<noteq> None"
        "pc_response_model pc (upgraded pc (er_response_payload er)) = Some m"
        using resolved e validated
        by (auto simp: resolve_retained_execution_result_def ensure_expected_analytics_type_def split: if_splits)
      then show ?thesis using e(6) by (auto simp: held_for_tenant_def)
    qed
  qed
  then show ?thesis using e t auth portfolio by blast
qed

text \<open>Once a success is published for a tenant, every later poll of its owner
  through the endpoint of its workflow returns it, up to the order of its keys, or reports that
  it does not meet the response contract, whatever else happens to the result store, to the job
  and to the execution, until the calculation is published again or retention deletes it.\<close>

theorem published_result_polled:
  assumes "record_success k ty payload (Some tenant) now db = Inr ((), db1)" "results_ok db" "list_all (keeps_success k) es"
    "get_execution k db_access = Some e" "er_tenant_id e = Some (strip tenant)"
    "authorize_calculation_result_access env e hs = None" "pc_expected_analytics_type pc = ty"
  shows "resolve_async_result env pc k (Some hs) request_tenant db_access (run_ops result_step db1 es) db_job db_execution
    = (case pc_response_model pc (upgraded pc (Some (sort_key fst (List.map (map_prod id sort_keys) payload)))) of
         None \<Rightarrow> Inl (conflict_refusal ''Async result payload failed response contract validation.'' None)
       | Some m \<Rightarrow> Inr (Resolved m))"
proof -
  let ?row = "success_row k (Some (strip tenant)) ty payload now"
  have "result_step db (RSuccess k ty payload (Some tenant) now) = Inr db1" using assms(1) by simp
  then have ok: "results_ok db1" by (rule result_step_ok [OF assms(2)])
  have "get_result_row k db1 = Some ?row"
    using assms(1) merge_result_new [of ?row db] by (auto simp: record_success_def Let_def)
  then have kept: "get_result_row k (run_ops result_step db1 es) = Some ?row"
    using success.run.run_inv [of db1 k ?row es] assms(3) ok by (auto simp: success_row_def)
  let ?rec = "async_result_record_from_row ?row"
  have "get_result_for_tenant k (strip tenant) (run_ops result_step db1 es) = Some ?rec"
    using kept by (simp add: get_result_for_tenant_def success_row_def)
  moreover have "res_analytics_type ?rec = ty" "res_result_status ?rec = RComplete"
    "res_response_payload ?rec = Some (sort_key fst (List.map (map_prod id sort_keys) payload))"
    by (simp_all add: async_result_record_from_row_def success_row_def load_result_payload_def has_invalid_response_payload_def Let_def)
  ultimately show ?thesis
    using assms(4-7)
    by (simp add: resolve_async_result_def authorize_async_result_access_def of_option_def resolve_stored_async_result_def
        ensure_expected_analytics_type_def ensure_def validate_response_payload_def)
qed

end
