(* ===== verification/Runtime_Retention.thy ===== *)
theory Runtime_Retention
  imports Async_Results Execution_Registry Lineage_Store
begin

text \<open>
  Runtime retention (src/app/services/runtime_retention_service.py) with its legal holds
  (src/app/services/runtime_retention_legal_hold.py): which rows of the durable stores and which
  artifact directories a cleanup may delete, which are protected and why, and the phases of the
  deletion. The file system and the failures of the database driver are parameters.
\<close>

section \<open>Legal holds\<close>

record legal_hold =
  lh_calculation_id :: string
  lh_reason_code :: string
  lh_source :: "string option"

type_synonym legal_hold_index = "(string \<times> legal_hold) list"

definition protected_ids_for :: "legal_hold_index \<Rightarrow> uuid list \<Rightarrow> uuid list" where
  "protected_ids_for index calculation_ids = sort (filter (\<lambda>k. map_of index k \<noteq> None) calculation_ids)"

definition reason_counts_for :: "legal_hold_index \<Rightarrow> uuid list \<Rightarrow> (string \<times> nat) list" where
  "reason_counts_for index calculation_ids =
     (let reasons = List.map_filter (\<lambda>k. map_option lh_reason_code (map_of index k)) calculation_ids
      in List.map (\<lambda>r. (r, count_list reasons r)) (sorted_set reasons))"

text \<open>A refusal to load the holds, with its message; a missing key of an object reads as \<open>null\<close>.\<close>

definition optional_hold_string :: "json option \<Rightarrow> string + string option" where
  "optional_hold_string value =
     (case value of
        None \<Rightarrow> Inr None
      | Some JNull \<Rightarrow> Inr None
      | Some (JStr s) \<Rightarrow> Inr (if strip s = [] then None else Some (strip s))
      | Some _ \<Rightarrow> Inl ''runtime retention legal hold string fields must be strings'')"

definition required_hold_string :: "json_dict \<Rightarrow> string \<Rightarrow> string + string" where
  "required_hold_string payload field_name =
     bind_res (optional_hold_string (dict_get payload field_name)) (\<lambda>normalized.
     of_option (''runtime retention legal hold '' @ field_name @ '' must be a nonblank string'') normalized)"

definition runtime_retention_legal_hold_from_payload :: "json \<Rightarrow> string + legal_hold" where
  "runtime_retention_legal_hold_from_payload payload =
     (case payload of
        JObj d \<Rightarrow>
          bind_res (required_hold_string d ''calculation_id'') (\<lambda>calculation_id.
          bind_res (required_hold_string d ''reason_code'') (\<lambda>reason_code.
          bind_res (optional_hold_string (dict_get d ''source'')) (\<lambda>source.
          Inr \<lparr>lh_calculation_id = calculation_id, lh_reason_code = reason_code, lh_source = source\<rparr>)))
      | _ \<Rightarrow> Inl ''runtime retention legal hold entries must be objects'')"

fun runtime_retention_legal_holds_from_list :: "json list \<Rightarrow> string + legal_hold list" where
  "runtime_retention_legal_holds_from_list [] = Inr []"
| "runtime_retention_legal_holds_from_list (raw # raws) =
     bind_res (runtime_retention_legal_hold_from_payload raw) (\<lambda>hold.
     bind_res (runtime_retention_legal_holds_from_list raws) (\<lambda>holds. Inr (hold # holds)))"

definition runtime_retention_legal_holds_from_payload :: "json_dict \<Rightarrow> string + legal_hold list" where
  "runtime_retention_legal_holds_from_payload payload =
     (case dict_get payload ''holds'' of
        Some (JList raws) \<Rightarrow> runtime_retention_legal_holds_from_list raws
      | _ \<Rightarrow> Inl ''runtime retention legal hold payload must contain a holds list'')"

text \<open>The hold file, when it exists; a later hold of a calculation replaces an earlier one.\<close>

definition load_runtime_retention_legal_hold_index :: "json_text option \<Rightarrow> string + legal_hold_index" where
  "load_runtime_retention_legal_hold_index hold_file =
     (case hold_file of
        None \<Rightarrow> Inr []
      | Some text \<Rightarrow>
          (case json_loads text of
             None \<Rightarrow> Inl ''JSONDecodeError''
           | Some (JObj payload) \<Rightarrow> bind_res (runtime_retention_legal_holds_from_payload payload) (\<lambda>holds.
               Inr (dict_update [] (List.map (\<lambda>h. (lh_calculation_id h, h)) holds)))
           | Some _ \<Rightarrow> Inl ''runtime retention legal hold payload must be an object''))"

section \<open>Corrections\<close>

text \<open>
  \<open>referenced_calculation_ids\<close> of src/app/services/source_correction_store.py, over the stored
  impact columns.
\<close>

definition impact_ids :: "json \<Rightarrow> uuid list" where
  "impact_ids impact =
     (case impact of
        JObj d \<Rightarrow> List.map_filter (\<lambda>f. case dict_get d f of Some (JStr s) \<Rightarrow> Some s | _ \<Rightarrow> None)
                    [''original_calculation_id'', ''corrected_calculation_id'']
      | _ \<Rightarrow> [])"

fun referenced_calculation_ids :: "json_text list \<Rightarrow> string + uuid list" where
  "referenced_calculation_ids [] = Inr []"
| "referenced_calculation_ids (raw_impacts # rows) =
     bind_res (of_option ''JSONDecodeError'' (json_loads raw_impacts)) (\<lambda>impacts.
     bind_res (referenced_calculation_ids rows) (\<lambda>ids.
     Inr ((case impacts of JList is \<Rightarrow> concat (List.map impact_ids is) | _ \<Rightarrow> []) @ ids)))"

section \<open>Artifact directories\<close>

text \<open>
  The directory an id resolves to, when it lies under the storage root, whether it is there, and
  whether deleting it fails.
\<close>

record artifact_files =
  af_directory :: "uuid \<Rightarrow> string option"
  af_is_dir :: "string \<Rightarrow> bool"
  af_rmtree_fails :: "string \<Rightarrow> bool"

definition has_artifact_directory :: "artifact_files \<Rightarrow> uuid \<Rightarrow> bool" where
  "has_artifact_directory fs k = (case af_directory fs k of None \<Rightarrow> False | Some d \<Rightarrow> af_is_dir fs d)"

definition count_lineage_artifact_directories :: "artifact_files \<Rightarrow> uuid list \<Rightarrow> nat" where
  "count_lineage_artifact_directories fs calculation_ids = length (filter (has_artifact_directory fs) calculation_ids)"

definition lineage_artifact_paths :: "artifact_files \<Rightarrow> uuid list \<Rightarrow> string list" where
  "lineage_artifact_paths fs calculation_ids = List.map (\<lambda>k. the (af_directory fs k)) (filter (has_artifact_directory fs) calculation_ids)"

text \<open>The counts of deleted and skipped directories, whether a deletion failed, and the files left.\<close>

fun delete_lineage_artifact_directories_result ::
    "uuid list \<Rightarrow> nat \<Rightarrow> nat \<Rightarrow> artifact_files \<Rightarrow> nat \<times> nat \<times> bool \<times> artifact_files" where
  "delete_lineage_artifact_directories_result [] deleted skipped fs = (deleted, skipped, True, fs)"
| "delete_lineage_artifact_directories_result (k # ks) deleted skipped fs =
     (if \<not> has_artifact_directory fs k then delete_lineage_artifact_directories_result ks deleted (skipped + 1) fs
      else if af_rmtree_fails fs (the (af_directory fs k)) then (deleted, skipped, False, fs)
      else delete_lineage_artifact_directories_result ks (deleted + 1) skipped
             (fs\<lparr>af_is_dir := (af_is_dir fs)(the (af_directory fs k) := False)\<rparr>))"

section \<open>What may be deleted\<close>

record prunable_items =
  pi_execution_ids :: "uuid list"
  pi_lineage_ids :: "uuid list"
  pi_compute_job_ids :: "uuid list"
  pi_async_result_ids :: "uuid list"
  pi_lineage_artifact_count :: nat
  pi_protected_execution_ids :: "uuid list"
  pi_protected_compute_job_ids :: "uuid list"
  pi_protected_async_result_ids :: "uuid list"
  pi_protected_lineage_ids :: "uuid list"
  pi_protected_lineage_artifact_count :: nat
  pi_protected_reason_counts :: "(string \<times> nat) list"

definition exclude_protected_ids :: "uuid list \<Rightarrow> uuid list \<Rightarrow> uuid list" where
  "exclude_protected_ids candidate_ids protected_ids = sort (filter (\<lambda>k. k \<notin> set protected_ids) candidate_ids)"

definition protected_reason_counts ::
    "(string \<times> nat) list \<Rightarrow> uuid list \<Rightarrow> uuid list \<Rightarrow> uuid list \<Rightarrow> (string \<times> nat) list" where
  "protected_reason_counts legal_hold_counts correction_ids protected_ids custody_ids =
     (let correction_count = card (set correction_ids \<inter> set protected_ids);
          custody_count = card (set custody_ids \<inter> set protected_ids);
          counts = (if correction_count \<noteq> 0 then dict_put legal_hold_counts ''source_correction_reproducibility'' correction_count
                    else legal_hold_counts)
      in if custody_count \<noteq> 0 then dict_put counts ''retained_source_authority'' custody_count else counts)"

text \<open>\<open>sorted(set(protected) | (set(candidates) & ids))\<close>.\<close>

definition also_protect :: "uuid list \<Rightarrow> uuid list \<Rightarrow> uuid list \<Rightarrow> uuid list" where
  "also_protect candidates ids protected = sorted_set (protected @ filter (\<lambda>k. k \<in> set ids) candidates)"

definition collect_prunable_items ::
    "legal_hold_index \<Rightarrow> uuid list \<Rightarrow> artifact_files \<Rightarrow> datetime \<Rightarrow> instant \<Rightarrow> database \<Rightarrow> prunable_items" where
  "collect_prunable_items holds correction_ids fs cutoff clock db =
     (let executions = list_terminal_execution_ids_older_than cutoff db;
          lineage = list_terminal_lineage_ids_older_than cutoff db;
          compute = list_terminal_job_ids_older_than cutoff db;
          results = list_result_ids_older_than cutoff db;
          held = protected_ids_for holds;
          custody_ids = source_retention_protection executions lineage compute results clock db;
          custody_protection = custody_ids @ held executions @ held lineage @ held compute @ held results;
          protect = (\<lambda>candidates. also_protect candidates correction_ids
                       (also_protect candidates custody_protection (held candidates)));
          protected_ids = sorted_set (protect executions @ protect lineage @ protect compute @ protect results)
      in \<lparr>pi_execution_ids = exclude_protected_ids executions (protect executions),
          pi_lineage_ids = exclude_protected_ids lineage (protect lineage),
          pi_compute_job_ids = exclude_protected_ids compute (protect compute),
          pi_async_result_ids = exclude_protected_ids results (protect results),
          pi_lineage_artifact_count = count_lineage_artifact_directories fs (exclude_protected_ids lineage (protect lineage)),
          pi_protected_execution_ids = protect executions, pi_protected_compute_job_ids = protect compute,
          pi_protected_async_result_ids = protect results, pi_protected_lineage_ids = protect lineage,
          pi_protected_lineage_artifact_count = count_lineage_artifact_directories fs (protect lineage),
          pi_protected_reason_counts = protected_reason_counts (reason_counts_for holds protected_ids) correction_ids
            protected_ids custody_ids\<rparr>)"

section \<open>Deletion\<close>

record phase_result =
  ph_phase :: string
  ph_status :: string
  ph_target_count :: nat
  ph_deleted_count :: nat
  ph_skipped_count :: nat
  ph_failed_count :: nat
  ph_failure_message :: "string option"

text \<open>
  The phases so far, whether all of them were applied (otherwise \<open>_RuntimeRetentionPhaseFailed\<close>
  was raised), the database and the files. \<open>fault\<close> says in which phase the driver raises.
\<close>

type_synonym cleanup_state = "phase_result list \<times> bool \<times> database \<times> artifact_files"

definition append_count_phase_result ::
    "(string \<Rightarrow> bool) \<Rightarrow> string \<Rightarrow> nat \<Rightarrow> (database \<Rightarrow> nat \<times> database) \<Rightarrow> cleanup_state \<Rightarrow> cleanup_state" where
  "append_count_phase_result fault phase target_count delete s =
     (case s of (phases, ok, db, fs) \<Rightarrow>
        if \<not> ok then s
        else if fault phase
        then (phases @ [\<lparr>ph_phase = phase, ph_status = ''failed'', ph_target_count = target_count, ph_deleted_count = 0,
                ph_skipped_count = 0, ph_failed_count = target_count, ph_failure_message = Some (phase @ '' phase failed'')\<rparr>],
              False, db, fs)
        else let (deleted_count, db') = delete db in
          (phases @ [\<lparr>ph_phase = phase, ph_status = ''applied'', ph_target_count = target_count, ph_deleted_count = deleted_count,
                ph_skipped_count = target_count - deleted_count, ph_failed_count = 0, ph_failure_message = None\<rparr>],
           True, db', fs))"

definition append_artifact_phase_result :: "uuid list \<Rightarrow> cleanup_state \<Rightarrow> cleanup_state" where
  "append_artifact_phase_result lineage_ids s =
     (case s of (phases, ok, db, fs) \<Rightarrow>
        if \<not> ok then s
        else let target_count = length lineage_ids;
                 (deleted, skipped, whole, fs') = delete_lineage_artifact_directories_result lineage_ids 0 0 fs
          in if \<not> whole
             then (phases @ [\<lparr>ph_phase = ''lineage_artifacts'', ph_status = ''failed'', ph_target_count = target_count,
                     ph_deleted_count = deleted, ph_skipped_count = skipped,
                     ph_failed_count = max (target_count - deleted - skipped) 1,
                     ph_failure_message = Some ''lineage_artifacts phase failed''\<rparr>], False, db, fs')
             else (phases @ [\<lparr>ph_phase = ''lineage_artifacts'', ph_status = ''applied'', ph_target_count = target_count,
                     ph_deleted_count = deleted, ph_skipped_count = skipped, ph_failed_count = 0,
                     ph_failure_message = None\<rparr>], True, db, fs'))"

definition delete_prunable_items ::
    "(string \<Rightarrow> bool) \<Rightarrow> datetime \<Rightarrow> prunable_items \<Rightarrow> database \<Rightarrow> artifact_files \<Rightarrow> cleanup_state" where
  "delete_prunable_items fault cutoff items db fs =
     append_count_phase_result fault ''executions'' (length (pi_execution_ids items)) (delete_executions (pi_execution_ids items))
      (append_count_phase_result fault ''lineage_records'' (length (pi_lineage_ids items)) (delete_calculation_ids (pi_lineage_ids items))
       (append_artifact_phase_result (pi_lineage_ids items)
        (append_count_phase_result fault ''async_results'' (length (pi_async_result_ids items))
           (prune_results_older_than cutoff False (Some (pi_protected_async_result_ids items)))
         (append_count_phase_result fault ''compute_jobs'' (length (pi_compute_job_ids items))
            (prune_terminal_jobs_older_than cutoff False (Some (pi_protected_compute_job_ids items)))
          ([], True, db, fs)))))"

section \<open>The cleanup\<close>

record target_manifest =
  tm_execution_ids :: "uuid list"
  tm_lineage_ids :: "uuid list"
  tm_lineage_artifact_paths :: "string list"
  tm_compute_job_count :: nat
  tm_async_result_count :: nat
  tm_protected_execution_ids :: "uuid list"
  tm_protected_compute_job_ids :: "uuid list"
  tm_protected_async_result_ids :: "uuid list"
  tm_protected_lineage_ids :: "uuid list"
  tm_protected_lineage_artifact_paths :: "string list"
  tm_protected_reason_counts :: "(string \<times> nat) list"

record cleanup_summary =
  cs_retention_days :: int
  cs_cutoff_utc :: string
  cs_dry_run :: bool
  cs_items :: prunable_items
  cs_target_manifest :: target_manifest
  cs_phase_results :: "phase_result list"
  cs_failure_message :: "string option"

definition build_target_manifest :: "artifact_files \<Rightarrow> prunable_items \<Rightarrow> target_manifest" where
  "build_target_manifest fs items =
     \<lparr>tm_execution_ids = sort (pi_execution_ids items), tm_lineage_ids = sort (pi_lineage_ids items),
      tm_lineage_artifact_paths = sort (lineage_artifact_paths fs (pi_lineage_ids items)),
      tm_compute_job_count = length (pi_compute_job_ids items), tm_async_result_count = length (pi_async_result_ids items),
      tm_protected_execution_ids = sort (pi_protected_execution_ids items),
      tm_protected_compute_job_ids = sort (pi_protected_compute_job_ids items),
      tm_protected_async_result_ids = sort (pi_protected_async_result_ids items),
      tm_protected_lineage_ids = sort (pi_protected_lineage_ids items),
      tm_protected_lineage_artifact_paths = sort (lineage_artifact_paths fs (pi_protected_lineage_ids items)),
      tm_protected_reason_counts = pi_protected_reason_counts items\<rparr>"

text \<open>The counts of the summary are the lengths of the lists of \<open>cs_items\<close>.\<close>

definition build_cleanup_summary ::
    "int \<Rightarrow> datetime \<Rightarrow> bool \<Rightarrow> prunable_items \<Rightarrow> phase_result list \<Rightarrow> string option \<Rightarrow> target_manifest \<Rightarrow> cleanup_summary" where
  "build_cleanup_summary retention_days cutoff dry_run items phases failure manifest =
     \<lparr>cs_retention_days = retention_days, cs_cutoff_utc = or_empty (format_timestamp (Some cutoff)), cs_dry_run = dry_run,
      cs_items = items, cs_target_manifest = manifest, cs_phase_results = phases, cs_failure_message = failure\<rparr>"

text \<open>
  \<open>effective_days\<close> is the given retention or the configured one; \<open>now\<close> the aware time of the
  run. The flag says whether the cleanup returned (otherwise \<open>RuntimeRetentionCleanupFailed\<close>
  carries the summary); the \<open>Inl\<close> is a hold file or correction column that does not load. The
  observer called before the deletion is left out: it is given the summary and no store.
\<close>

definition run_runtime_retention_cleanup ::
    "int option \<Rightarrow> int \<Rightarrow> instant \<Rightarrow> bool \<Rightarrow> json_text option \<Rightarrow> json_text list \<Rightarrow> instant \<Rightarrow> (string \<Rightarrow> bool)
      \<Rightarrow> database \<Rightarrow> artifact_files \<Rightarrow> string + (cleanup_summary \<times> bool) \<times> database \<times> artifact_files" where
  "run_runtime_retention_cleanup retention_days configured_days now dry_run hold_file corrections clock fault db fs =
     (let effective_days = (case retention_days of None \<Rightarrow> configured_days | Some d \<Rightarrow> d);
          cutoff = utc (now - effective_days * 86400000000)
      in bind_res (load_runtime_retention_legal_hold_index hold_file) (\<lambda>holds.
         bind_res (referenced_calculation_ids corrections) (\<lambda>correction_ids.
         let items = collect_prunable_items holds correction_ids fs cutoff clock db;
             manifest = build_target_manifest fs items
         in if dry_run then Inr ((build_cleanup_summary effective_days cutoff True items [] None manifest, True), db, fs)
            else let (phases, ok, db', fs') = delete_prunable_items fault cutoff items db fs in
              Inr ((build_cleanup_summary effective_days cutoff False items phases
                      (if ok then None else ph_failure_message (last phases)) manifest, ok), db', fs'))))"

end
