(* ===== verification/Retention_Safety.thy ===== *)
theory Retention_Safety
  imports Runtime_Retention Results_Safety
begin

text \<open>
  What a retention cleanup guarantees: it deletes nothing that is held, referenced by a correction
  or part of a source authority group that is still in use; it deletes such a group as a whole or
  not at all; and it deletes exactly what its plan, and a dry run, announced.
\<close>

section \<open>Candidates and protection\<close>

lemma candidate_sets:
  "set (list_terminal_job_ids_older_than c db) = job_calculation_id ` {r \<in> set (db_jobs db). terminal_retention_filter (cutoff_of c db) r}"
  "set (list_result_ids_older_than c db) = ar_calculation_id ` {r \<in> set (db_results db). result_retention_filter (cutoff_of c db) r}"
  "set (list_terminal_lineage_ids_older_than c db)
     = lr_calculation_id ` {r \<in> set (db_lineage db). lr_status r \<in> {LComplete, LFailed} \<and> lr_timestamp_utc r \<le> cutoff_of c db}"
  "set (list_terminal_execution_ids_older_than c db) = ex_calculation_id ` {e \<in> set (db_executions db). ex_status e \<in> {EComplete, EFailed}
     \<and> (case ex_completed_at_utc e of None \<Rightarrow> False | Some t \<Rightarrow> t \<le> cutoff_of c db)}"
  by (simp_all add: list_terminal_job_ids_older_than_def list_result_ids_older_than_def list_terminal_lineage_ids_older_than_def
      list_terminal_execution_ids_older_than_def)

text \<open>An id the cleanup may not touch: legally held, referenced by a correction, or of a group in use.\<close>

definition guarded :: "legal_hold_index \<Rightarrow> uuid list \<Rightarrow> datetime \<Rightarrow> instant \<Rightarrow> database \<Rightarrow> uuid \<Rightarrow> bool" where
  "guarded holds corrections cutoff clock db k \<longleftrightarrow> map_of holds k \<noteq> None \<or> k \<in> set corrections
     \<or> k \<in> set (source_retention_protection (list_terminal_execution_ids_older_than cutoff db)
          (list_terminal_lineage_ids_older_than cutoff db) (list_terminal_job_ids_older_than cutoff db)
          (list_result_ids_older_than cutoff db) clock db)"

lemma also_protect_set: "set (also_protect candidates ids protected) = set protected \<union> (set candidates \<inter> set ids)"
  by (auto simp: also_protect_def sorted_set_def)

lemma held_set: "set (protected_ids_for holds ks) = {k \<in> set ks. map_of holds k \<noteq> None}"
  by (simp add: protected_ids_for_def)

lemma plan_sets:
  assumes "items = collect_prunable_items holds corrections fs cutoff clock db"
  shows "set (pi_compute_job_ids items) = {k \<in> set (list_terminal_job_ids_older_than cutoff db). \<not> guarded holds corrections cutoff clock db k}"
    "set (pi_async_result_ids items) = {k \<in> set (list_result_ids_older_than cutoff db). \<not> guarded holds corrections cutoff clock db k}"
    "set (pi_lineage_ids items) = {k \<in> set (list_terminal_lineage_ids_older_than cutoff db). \<not> guarded holds corrections cutoff clock db k}"
    "set (pi_execution_ids items) = {k \<in> set (list_terminal_execution_ids_older_than cutoff db). \<not> guarded holds corrections cutoff clock db k}"
    "set (pi_protected_compute_job_ids items) = {k \<in> set (list_terminal_job_ids_older_than cutoff db). guarded holds corrections cutoff clock db k}"
    "set (pi_protected_async_result_ids items) = {k \<in> set (list_result_ids_older_than cutoff db). guarded holds corrections cutoff clock db k}"
  unfolding assms
  by (auto simp: collect_prunable_items_def Let_def exclude_protected_ids_def also_protect_set held_set guarded_def)

lemma plan_lists:
  assumes "items = collect_prunable_items holds corrections fs cutoff clock db"
  shows "pi_execution_ids items = sort (filter (\<lambda>k. \<not> guarded holds corrections cutoff clock db k) (list_terminal_execution_ids_older_than cutoff db))"
    "pi_lineage_ids items = sort (filter (\<lambda>k. \<not> guarded holds corrections cutoff clock db k) (list_terminal_lineage_ids_older_than cutoff db))"
    "pi_compute_job_ids items = sort (filter (\<lambda>k. \<not> guarded holds corrections cutoff clock db k) (list_terminal_job_ids_older_than cutoff db))"
    "pi_async_result_ids items = sort (filter (\<lambda>k. \<not> guarded holds corrections cutoff clock db k) (list_result_ids_older_than cutoff db))"
  unfolding assms
  by (auto simp: collect_prunable_items_def Let_def exclude_protected_ids_def also_protect_set held_set guarded_def
      intro!: arg_cong [where f = sort] filter_cong)

section \<open>What is left\<close>

definition applied_phase :: "string \<Rightarrow> nat \<Rightarrow> nat \<Rightarrow> nat \<Rightarrow> phase_result" where
  "applied_phase phase target deleted skipped = \<lparr>ph_phase = phase, ph_status = ''applied'', ph_target_count = target,
     ph_deleted_count = deleted, ph_skipped_count = skipped, ph_failed_count = 0, ph_failure_message = None\<rparr>"

lemma count_phase_applied:
  "append_count_phase_result fault phase target delete s = (phases, True, db', fs') \<Longrightarrow>
   \<exists>phases0 db0. s = (phases0, True, db0, fs') \<and> db' = snd (delete db0)
     \<and> phases = phases0 @ [applied_phase phase target (fst (delete db0)) (target - fst (delete db0))]"
  by (cases s) (auto simp: append_count_phase_result_def applied_phase_def case_prod_beta split: if_splits)

lemma artifact_phase_applied:
  "append_artifact_phase_result ids s = (phases, True, db', fs') \<Longrightarrow>
   \<exists>phases0 fs0 d k. s = (phases0, True, db', fs0) \<and> phases = phases0 @ [applied_phase ''lineage_artifacts'' (length ids) d k]
     \<and> delete_lineage_artifact_directories_result ids 0 0 fs0 = (d, k, True, fs')"
  by (cases s) (auto simp: append_artifact_phase_result_def applied_phase_def Let_def case_prod_beta prod_eq_iff split: if_splits)

text \<open>Without faults every phase is applied and the cleanup returns.\<close>

lemma artifacts_deleted:
  "(\<And>d. \<not> af_rmtree_fails fs d) \<Longrightarrow> fst (snd (snd (delete_lineage_artifact_directories_result ids n m fs)))"
  by (induction ids n m fs rule: delete_lineage_artifact_directories_result.induct) auto

lemma faultless_completes:
  assumes "\<And>phase. \<not> fault phase" "\<And>d. \<not> af_rmtree_fails fs d" "load_runtime_retention_legal_hold_index hold_file = Inr holds"
    "referenced_calculation_ids corrections = Inr ids"
  shows "\<exists>summary db' fs'. run_runtime_retention_cleanup days configured now False hold_file corrections clock fault db fs
    = Inr ((summary, True), db', fs')"
proof -
  have "fst (snd (delete_prunable_items fault cutoff items db fs))" for cutoff items
    using assms(1) artifacts_deleted [OF assms(2), of "pi_lineage_ids items" 0 0]
    by (simp add: delete_prunable_items_def append_count_phase_result_def append_artifact_phase_result_def Let_def case_prod_beta)
  then show ?thesis using assms(3,4)
    by (simp add: run_runtime_retention_cleanup_def Let_def case_prod_beta)
qed

text \<open>The database and the phases when every phase was applied.\<close>

lemma deletion_applied:
  assumes "delete_prunable_items fault cutoff items db fs = (phases, True, db', fs')"
  shows "\<exists>db1 db2 db3 d k. db1 = snd (prune_terminal_jobs_older_than cutoff False (Some (pi_protected_compute_job_ids items)) db)
    \<and> db2 = snd (prune_results_older_than cutoff False (Some (pi_protected_async_result_ids items)) db1)
    \<and> db3 = snd (delete_calculation_ids (pi_lineage_ids items) db2)
    \<and> db' = snd (delete_executions (pi_execution_ids items) db3)
    \<and> phases = (let n1 = fst (prune_terminal_jobs_older_than cutoff False (Some (pi_protected_compute_job_ids items)) db);
          n2 = fst (prune_results_older_than cutoff False (Some (pi_protected_async_result_ids items)) db1);
          n3 = fst (delete_calculation_ids (pi_lineage_ids items) db2); n4 = fst (delete_executions (pi_execution_ids items) db3)
        in [applied_phase ''compute_jobs'' (length (pi_compute_job_ids items)) n1 (length (pi_compute_job_ids items) - n1),
          applied_phase ''async_results'' (length (pi_async_result_ids items)) n2 (length (pi_async_result_ids items) - n2),
          applied_phase ''lineage_artifacts'' (length (pi_lineage_ids items)) d k,
          applied_phase ''lineage_records'' (length (pi_lineage_ids items)) n3 (length (pi_lineage_ids items) - n3),
          applied_phase ''executions'' (length (pi_execution_ids items)) n4 (length (pi_execution_ids items) - n4)])
    \<and> delete_lineage_artifact_directories_result (pi_lineage_ids items) 0 0 fs = (d, k, True, fs')"
  using assms unfolding delete_prunable_items_def Let_def
  by (fastforce dest!: count_phase_applied artifact_phase_applied)

lemma pruned_tables:
  "db_jobs (snd (prune_terminal_jobs_older_than c False (Some ids) db))
     = filter (\<lambda>r. \<not> (terminal_retention_filter (cutoff_of c db) r \<and> job_calculation_id r \<notin> set ids)) (db_jobs db)"
  "db_results (snd (prune_results_older_than c False (Some ids) db))
     = filter (\<lambda>r. \<not> (result_retention_filter (cutoff_of c db) r \<and> ar_calculation_id r \<notin> set ids)) (db_results db)"
  "db_lineage (snd (delete_calculation_ids ks db)) = filter (\<lambda>r. lr_calculation_id r \<notin> set ks) (db_lineage db)"
  "db_payloads (snd (delete_calculation_ids ks db)) = filter (\<lambda>r. lp_calculation_id r \<notin> set ks) (db_payloads db)"
  "db_executions (snd (delete_executions ks db)) = filter (\<lambda>r. ex_calculation_id r \<notin> set ks) (db_executions db)"
  "db_stages (snd (delete_executions ks db)) = filter (\<lambda>r. st_calculation_id r \<notin> set ks) (db_stages db)"
  "db_snapshots (snd (delete_executions ks db)) = filter (\<lambda>r. sn_calculation_id r \<notin> set ks) (db_snapshots db)"
  by (simp_all add: prune_terminal_jobs_older_than_def prune_results_older_than_def delete_calculation_ids_def delete_executions_def Let_def)

lemma pruned_frames:
  "snd (prune_terminal_jobs_older_than c False x db) = db\<lparr>db_jobs := db_jobs (snd (prune_terminal_jobs_older_than c False x db))\<rparr>"
  "snd (prune_results_older_than c False x db) = db\<lparr>db_results := db_results (snd (prune_results_older_than c False x db))\<rparr>"
  "snd (delete_calculation_ids ks db) = db\<lparr>db_lineage := db_lineage (snd (delete_calculation_ids ks db)),
     db_payloads := db_payloads (snd (delete_calculation_ids ks db))\<rparr>"
  "snd (delete_executions ks db) = db\<lparr>db_executions := db_executions (snd (delete_executions ks db)),
     db_stages := db_stages (snd (delete_executions ks db)), db_snapshots := db_snapshots (snd (delete_executions ks db))\<rparr>"
  by (simp_all add: prune_terminal_jobs_older_than_def prune_results_older_than_def delete_calculation_ids_def delete_executions_def Let_def)

lemma cutoff_frame: "db_dialect_name db' = db_dialect_name db \<Longrightarrow> cutoff_of c db' = cutoff_of c db"
  by (simp add: cutoff_of_def)

lemma applied_tables:
  assumes "delete_prunable_items fault cutoff items db fs = (phases, True, db', fs')"
    "items = collect_prunable_items holds corrections fs cutoff clock db"
  defines "G \<equiv> guarded holds corrections cutoff clock db"
  shows "db_jobs db' = filter (\<lambda>r. \<not> (terminal_retention_filter (cutoff_of cutoff db) r \<and> \<not> G (job_calculation_id r))) (db_jobs db)"
    "db_results db' = filter (\<lambda>r. \<not> (result_retention_filter (cutoff_of cutoff db) r \<and> \<not> G (ar_calculation_id r))) (db_results db)"
    "db_lineage db' = filter (\<lambda>r. lr_calculation_id r \<notin> set (pi_lineage_ids items)) (db_lineage db)"
    "db_payloads db' = filter (\<lambda>p. lp_calculation_id p \<notin> set (pi_lineage_ids items)) (db_payloads db)"
    "db_executions db' = filter (\<lambda>e. ex_calculation_id e \<notin> set (pi_execution_ids items)) (db_executions db)"
    "db_stages db' = filter (\<lambda>s. st_calculation_id s \<notin> set (pi_execution_ids items)) (db_stages db)"
    "db_snapshots db' = filter (\<lambda>s. sn_calculation_id s \<notin> set (pi_execution_ids items)) (db_snapshots db)"
proof -
  note sets = plan_sets [OF assms(2), folded G_def]
  define db1 where "db1 = snd (prune_terminal_jobs_older_than cutoff False (Some (pi_protected_compute_job_ids items)) db)"
  define db2 where "db2 = snd (prune_results_older_than cutoff False (Some (pi_protected_async_result_ids items)) db1)"
  define db3 where "db3 = snd (delete_calculation_ids (pi_lineage_ids items) db2)"
  have db': "db' = snd (delete_executions (pi_execution_ids items) db3)"
    using deletion_applied [OF assms(1)] unfolding db1_def db2_def db3_def by blast
  have f1: "db1 = db\<lparr>db_jobs := db_jobs db1\<rparr>" unfolding db1_def by (rule pruned_frames)
  have f2: "db2 = db1\<lparr>db_results := db_results db2\<rparr>" unfolding db2_def by (rule pruned_frames)
  have f3: "db3 = db2\<lparr>db_lineage := db_lineage db3, db_payloads := db_payloads db3\<rparr>" unfolding db3_def by (rule pruned_frames)
  have f4: "db' = db3\<lparr>db_executions := db_executions db', db_stages := db_stages db', db_snapshots := db_snapshots db'\<rparr>"
    unfolding db' by (rule pruned_frames)
  have frames: "db_jobs db' = db_jobs db1" "db_results db' = db_results db2" "db_lineage db' = db_lineage db3" "db_payloads db' = db_payloads db3"
    "db_results db1 = db_results db" "db_lineage db2 = db_lineage db" "db_payloads db2 = db_payloads db"
    "db_executions db3 = db_executions db" "db_stages db3 = db_stages db" "db_snapshots db3 = db_snapshots db" "db_dialect_name db1 = db_dialect_name db"
    by (subst f4 f3 f2 f1, simp)+
  have cut: "cutoff_of cutoff db1 = cutoff_of cutoff db" by (rule cutoff_frame [OF frames(11)])
  show "db_jobs db' = filter (\<lambda>r. \<not> (terminal_retention_filter (cutoff_of cutoff db) r \<and> \<not> G (job_calculation_id r))) (db_jobs db)"
    unfolding frames(1) unfolding db1_def pruned_tables by (rule filter_cong) (auto simp: sets candidate_sets)
  show "db_results db' = filter (\<lambda>r. \<not> (result_retention_filter (cutoff_of cutoff db) r \<and> \<not> G (ar_calculation_id r))) (db_results db)"
    unfolding frames(2) unfolding db2_def pruned_tables frames cut by (rule filter_cong) (auto simp: sets candidate_sets)
  show "db_lineage db' = filter (\<lambda>r. lr_calculation_id r \<notin> set (pi_lineage_ids items)) (db_lineage db)"
    "db_payloads db' = filter (\<lambda>p. lp_calculation_id p \<notin> set (pi_lineage_ids items)) (db_payloads db)"
    unfolding frames(3,4) unfolding db3_def pruned_tables frames by simp_all
  show "db_executions db' = filter (\<lambda>e. ex_calculation_id e \<notin> set (pi_execution_ids items)) (db_executions db)"
    "db_stages db' = filter (\<lambda>s. st_calculation_id s \<notin> set (pi_execution_ids items)) (db_stages db)"
    "db_snapshots db' = filter (\<lambda>s. sn_calculation_id s \<notin> set (pi_execution_ids items)) (db_snapshots db)"
    unfolding db' pruned_tables frames by simp_all
qed

section \<open>Groups\<close>

text \<open>Everything the stores hold of a calculation.\<close>

definition group_rows :: "uuid \<Rightarrow> database \<Rightarrow> compute_job_row list \<times> execution_row list \<times> lineage_row list \<times> payload_row list \<times> result_row list" where
  "group_rows k db = (filter (\<lambda>r. job_calculation_id r = k) (db_jobs db), filter (\<lambda>e. ex_calculation_id e = k) (db_executions db),
     filter (\<lambda>r. lr_calculation_id r = k) (db_lineage db), filter (\<lambda>p. lp_calculation_id p = k) (db_payloads db),
     filter (\<lambda>r. ar_calculation_id r = k) (db_results db))"

definition detail_rows :: "uuid \<Rightarrow> database \<Rightarrow> stage_row list \<times> snapshot_row list" where
  "detail_rows k db = (filter (\<lambda>s. st_calculation_id s = k) (db_stages db), filter (\<lambda>s. sn_calculation_id s = k) (db_snapshots db))"

lemma key_eligible: "tbl_ok key t \<Longrightarrow> r \<in> set t \<Longrightarrow> key r \<in> key ` {q \<in> set t. P q} \<longleftrightarrow> P r"
  by (auto simp: tbl_ok_def distinct_map inj_on_def)

text \<open>A source group that is not guarded has only eligible members.\<close>

lemma unguarded_group:
  assumes "k \<in> set (source_ids db)" "\<not> guarded holds corrections cutoff clock db k"
  shows "k \<in> set (list_terminal_lineage_ids_older_than cutoff db)"
    "k \<in> ex_calculation_id ` set (db_executions db) \<Longrightarrow> k \<in> set (list_terminal_execution_ids_older_than cutoff db)"
    "k \<in> job_calculation_id ` set (db_jobs db) \<Longrightarrow> k \<in> set (list_terminal_job_ids_older_than cutoff db)"
    "k \<in> ar_calculation_id ` set (db_results db) \<Longrightarrow> k \<in> set (list_result_ids_older_than cutoff db)"
  using assms unfolding guarded_def source_retention_protection_def present_not_eligible_def Let_def by auto

lemma cleanup_run:
  assumes "run_runtime_retention_cleanup days configured now False hold_file corrections clock fault db fs = Inr ((summary, True), db', fs')"
    "load_runtime_retention_legal_hold_index hold_file = Inr holds" "referenced_calculation_ids corrections = Inr ids"
  defines "cutoff \<equiv> utc (now - (case days of None \<Rightarrow> configured | Some d \<Rightarrow> d) * 86400000000)"
  shows "delete_prunable_items fault cutoff (cs_items summary) db fs = (cs_phase_results summary, True, db', fs')"
    "cs_items summary = collect_prunable_items holds ids fs cutoff clock db"
  using assms(1-3) unfolding cutoff_def
  by (auto simp: run_runtime_retention_cleanup_def Let_def build_cleanup_summary_def split: prod.splits)

text \<open>C19: A cleanup that completes leaves every calculation that is legally held,
  referenced by a correction or in a source authority group still in use exactly as it was, in
  every table; any other source authority group it removes as a whole, from every table.\<close>

theorem retention_whole_groups:
  assumes "run_runtime_retention_cleanup days configured now False hold_file corrections clock fault db fs = Inr ((summary, True), db', fs')"
    "load_runtime_retention_legal_hold_index hold_file = Inr holds" "referenced_calculation_ids corrections = Inr ids"
    "tbl_ok job_calculation_id (db_jobs db)" "tbl_ok ar_calculation_id (db_results db)"
  defines "cutoff \<equiv> utc (now - (case days of None \<Rightarrow> configured | Some d \<Rightarrow> d) * 86400000000)"
  shows "if guarded holds ids cutoff clock db k then group_rows k db' = group_rows k db \<and> detail_rows k db' = detail_rows k db
    else k \<in> set (source_ids db) \<longrightarrow> group_rows k db' = ([], [], [], [], [])"
proof -
  note run = cleanup_run [OF assms(1-3), folded cutoff_def]
  note tables = applied_tables [OF run] and sets = plan_sets [OF run(2)]
  show ?thesis
  proof (cases "guarded holds ids cutoff clock db k")
    case True
    then show ?thesis
      by (auto simp: group_rows_def detail_rows_def tables sets intro!: filter_cong)
  next
    case False
    have gone: "group_rows k db' = ([], [], [], [], [])" if source: "k \<in> set (source_ids db)"
    proof -
      note eligible = unguarded_group [OF source False]
      have "\<forall>r \<in> set (db_jobs db). job_calculation_id r = k \<longrightarrow> terminal_retention_filter (cutoff_of cutoff db) r"
        using eligible(3) key_eligible [OF assms(4), where P = "terminal_retention_filter (cutoff_of cutoff db)"]
        unfolding candidate_sets by blast
      moreover have "\<forall>r \<in> set (db_results db). ar_calculation_id r = k \<longrightarrow> result_retention_filter (cutoff_of cutoff db) r"
        using eligible(4) key_eligible [OF assms(5), where P = "result_retention_filter (cutoff_of cutoff db)"]
        unfolding candidate_sets by blast
      moreover have "k \<in> set (pi_lineage_ids (cs_items summary))" using eligible(1) False by (simp add: sets)
      moreover have "\<forall>e \<in> set (db_executions db). ex_calculation_id e = k \<longrightarrow> k \<in> set (pi_execution_ids (cs_items summary))"
        using eligible(2) False by (auto simp: sets(4))
      ultimately show ?thesis using False by (auto simp: group_rows_def tables filter_empty_conv)
    qed
    show ?thesis unfolding if_not_P [OF False] using gone by blast
  qed
qed

section \<open>The plan\<close>

lemma length_filter_sorted: "length (filter p (sort_key g xs)) = length (filter p xs)"
  by (rule mset_eq_length) (simp add: mset_filter)

lemma planned_counts:
  assumes "items = collect_prunable_items holds corrections fs cutoff clock db"
  defines "G \<equiv> guarded holds corrections cutoff clock db"
  shows "length (pi_compute_job_ids items) = length (filter (\<lambda>r. terminal_retention_filter (cutoff_of cutoff db) r \<and> \<not> G (job_calculation_id r)) (db_jobs db))"
    "length (pi_async_result_ids items) = length (filter (\<lambda>r. result_retention_filter (cutoff_of cutoff db) r \<and> \<not> G (ar_calculation_id r)) (db_results db))"
    "tbl_ok lr_calculation_id (db_lineage db) \<Longrightarrow>
       length (pi_lineage_ids items) = length (filter (\<lambda>r. lr_calculation_id r \<in> set (pi_lineage_ids items)) (db_lineage db))"
    "tbl_ok ex_calculation_id (db_executions db) \<Longrightarrow>
       length (pi_execution_ids items) = length (filter (\<lambda>e. ex_calculation_id e \<in> set (pi_execution_ids items)) (db_executions db))"
proof -
  note lists = plan_lists [OF assms(1), folded G_def] and sets = plan_sets [OF assms(1), folded G_def]
  show "length (pi_compute_job_ids items) = length (filter (\<lambda>r. terminal_retention_filter (cutoff_of cutoff db) r \<and> \<not> G (job_calculation_id r)) (db_jobs db))"
    unfolding lists by (simp add: list_terminal_job_ids_older_than_def length_filter_sorted conj_commute filter_map)
  show "length (pi_async_result_ids items) = length (filter (\<lambda>r. result_retention_filter (cutoff_of cutoff db) r \<and> \<not> G (ar_calculation_id r)) (db_results db))"
    unfolding lists by (simp add: list_result_ids_older_than_def length_filter_sorted conj_commute filter_map)
  assume ok: "tbl_ok lr_calculation_id (db_lineage db)"
  let ?P = "\<lambda>r. lr_status r \<in> {LComplete, LFailed} \<and> lr_timestamp_utc r \<le> cutoff_of cutoff db"
  have "length (pi_lineage_ids items) = length (filter (\<lambda>r. ?P r \<and> \<not> G (lr_calculation_id r)) (db_lineage db))"
    unfolding lists by (simp add: list_terminal_lineage_ids_older_than_def length_filter_sorted conj_commute filter_map)
  also have "\<dots> = length (filter (\<lambda>r. lr_calculation_id r \<in> set (pi_lineage_ids items)) (db_lineage db))"
    unfolding sets candidate_sets mem_Collect_eq
    by (intro arg_cong [where f = length] filter_cong refl) (simp only: key_eligible [OF ok, where P = ?P])
  finally show "length (pi_lineage_ids items) = length (filter (\<lambda>r. lr_calculation_id r \<in> set (pi_lineage_ids items)) (db_lineage db))" .
next
  note lists = plan_lists [OF assms(1), folded G_def] and sets = plan_sets [OF assms(1), folded G_def]
  assume ok: "tbl_ok ex_calculation_id (db_executions db)"
  let ?P = "\<lambda>e. ex_status e \<in> {EComplete, EFailed} \<and> (case ex_completed_at_utc e of None \<Rightarrow> False | Some t \<Rightarrow> t \<le> cutoff_of cutoff db)"
  have "length (pi_execution_ids items) = length (filter (\<lambda>e. ?P e \<and> \<not> G (ex_calculation_id e)) (db_executions db))"
    unfolding lists by (simp add: list_terminal_execution_ids_older_than_def length_filter_sorted conj_commute filter_map)
  also have "\<dots> = length (filter (\<lambda>e. ex_calculation_id e \<in> set (pi_execution_ids items)) (db_executions db))"
    unfolding sets candidate_sets mem_Collect_eq
    by (intro arg_cong [where f = length] filter_cong refl) (simp only: key_eligible [OF ok, where P = ?P])
  finally show "length (pi_execution_ids items) = length (filter (\<lambda>e. ex_calculation_id e \<in> set (pi_execution_ids items)) (db_executions db))" .
qed

lemma pruned_counts:
  "fst (prune_terminal_jobs_older_than c False (Some ids) db)
     = length (filter (\<lambda>r. terminal_retention_filter (cutoff_of c db) r \<and> job_calculation_id r \<notin> set ids) (db_jobs db))"
  "fst (prune_results_older_than c False (Some ids) db)
     = length (filter (\<lambda>r. result_retention_filter (cutoff_of c db) r \<and> ar_calculation_id r \<notin> set ids) (db_results db))"
  "fst (delete_calculation_ids ks db) = length (filter (\<lambda>r. lr_calculation_id r \<in> set ks) (db_lineage db))"
  "fst (delete_executions ks db) = length (filter (\<lambda>r. ex_calculation_id r \<in> set ks) (db_executions db))"
  by (simp_all add: prune_terminal_jobs_older_than_def prune_results_older_than_def delete_calculation_ids_def delete_executions_def Let_def)

lemma planned_phases:
  assumes "delete_prunable_items fault cutoff items db fs = (phases, True, db', fs')"
    "items = collect_prunable_items holds corrections fs cutoff clock db"
    "tbl_ok lr_calculation_id (db_lineage db)" "tbl_ok ex_calculation_id (db_executions db)"
  shows "\<exists>d k. phases = [applied_phase ''compute_jobs'' (length (pi_compute_job_ids items)) (length (pi_compute_job_ids items)) 0,
    applied_phase ''async_results'' (length (pi_async_result_ids items)) (length (pi_async_result_ids items)) 0,
    applied_phase ''lineage_artifacts'' (length (pi_lineage_ids items)) d k,
    applied_phase ''lineage_records'' (length (pi_lineage_ids items)) (length (pi_lineage_ids items)) 0,
    applied_phase ''executions'' (length (pi_execution_ids items)) (length (pi_execution_ids items)) 0]"
proof -
  note sets = plan_sets [OF assms(2)] and counts = planned_counts [OF assms(2)]
  define db1 where "db1 = snd (prune_terminal_jobs_older_than cutoff False (Some (pi_protected_compute_job_ids items)) db)"
  define db2 where "db2 = snd (prune_results_older_than cutoff False (Some (pi_protected_async_result_ids items)) db1)"
  define db3 where "db3 = snd (delete_calculation_ids (pi_lineage_ids items) db2)"
  have f1: "db1 = db\<lparr>db_jobs := db_jobs db1\<rparr>" unfolding db1_def by (rule pruned_frames)
  have f2: "db2 = db1\<lparr>db_results := db_results db2\<rparr>" unfolding db2_def by (rule pruned_frames)
  have f3: "db3 = db2\<lparr>db_lineage := db_lineage db3, db_payloads := db_payloads db3\<rparr>" unfolding db3_def by (rule pruned_frames)
  have frames: "db_results db1 = db_results db" "db_lineage db2 = db_lineage db" "db_executions db3 = db_executions db"
    "db_dialect_name db1 = db_dialect_name db"
    by (subst f3 f2 f1, simp)+
  have cut: "cutoff_of cutoff db1 = cutoff_of cutoff db" by (rule cutoff_frame [OF frames(4)])
  have n1: "fst (prune_terminal_jobs_older_than cutoff False (Some (pi_protected_compute_job_ids items)) db) = length (pi_compute_job_ids items)"
    unfolding pruned_counts counts(1) by (intro arg_cong [where f = length] filter_cong) (auto simp: sets(5) candidate_sets)
  have n2: "fst (prune_results_older_than cutoff False (Some (pi_protected_async_result_ids items)) db1) = length (pi_async_result_ids items)"
    unfolding pruned_counts counts(2) frames cut by (intro arg_cong [where f = length] filter_cong) (auto simp: sets(6) candidate_sets)
  have n3: "fst (delete_calculation_ids (pi_lineage_ids items) db2) = length (pi_lineage_ids items)"
    unfolding pruned_counts frames by (rule counts(3) [OF assms(3), symmetric])
  have n4: "fst (delete_executions (pi_execution_ids items) db3) = length (pi_execution_ids items)"
    unfolding pruned_counts frames by (rule counts(4) [OF assms(4), symmetric])
  show ?thesis
    using deletion_applied [OF assms(1)] unfolding db1_def [symmetric] Let_def
    unfolding n1 db2_def [symmetric] n2 db3_def [symmetric] n3 n4
    by (auto simp: db2_def [symmetric] db3_def [symmetric] n2 n3 n4)
qed

text \<open>What a dry run announces is what the cleanup does: run on the same stores,
  it deletes in every table as many rows as were planned, none is skipped, the rows gone from the
  job, result, lineage and execution tables are those of the planned ids, and the dry run itself
  changes nothing.\<close>

theorem retention_plan_exact:
  assumes "run_runtime_retention_cleanup days configured now False hold_file corrections clock fault db fs = Inr ((summary, True), db', fs')"
    "tbl_ok lr_calculation_id (db_lineage db)" "tbl_ok ex_calculation_id (db_executions db)"
    "tbl_ok job_calculation_id (db_jobs db)" "tbl_ok ar_calculation_id (db_results db)"
  shows "run_runtime_retention_cleanup days configured now True hold_file corrections clock fault db fs
      = Inr ((summary\<lparr>cs_dry_run := True, cs_phase_results := []\<rparr>, True), db, fs)
    \<and> (\<forall>ph \<in> set (cs_phase_results summary). ph_status ph = ''applied''
        \<and> (ph_phase ph \<noteq> ''lineage_artifacts'' \<longrightarrow> ph_deleted_count ph = ph_target_count ph \<and> ph_skipped_count ph = 0))
    \<and> db_jobs db' = filter (\<lambda>r. job_calculation_id r \<notin> set (pi_compute_job_ids (cs_items summary))) (db_jobs db)
    \<and> db_results db' = filter (\<lambda>r. ar_calculation_id r \<notin> set (pi_async_result_ids (cs_items summary))) (db_results db)
    \<and> db_lineage db' = filter (\<lambda>r. lr_calculation_id r \<notin> set (pi_lineage_ids (cs_items summary))) (db_lineage db)
    \<and> db_executions db' = filter (\<lambda>e. ex_calculation_id e \<notin> set (pi_execution_ids (cs_items summary))) (db_executions db)"
proof -
  obtain holds ids where loaded: "load_runtime_retention_legal_hold_index hold_file = Inr holds" "referenced_calculation_ids corrections = Inr ids"
    using assms(1) by (auto simp: run_runtime_retention_cleanup_def Let_def)
  define cutoff where "cutoff = utc (now - (case days of None \<Rightarrow> configured | Some d \<Rightarrow> d) * 86400000000)"
  define items where "items = cs_items summary"
  note run = cleanup_run [OF assms(1) loaded, folded cutoff_def items_def]
  note tables = applied_tables [OF run] and sets = plan_sets [OF run(2)] and counts = planned_counts [OF run(2)]
  have dry: "run_runtime_retention_cleanup days configured now True hold_file corrections clock fault db fs
      = Inr ((summary\<lparr>cs_dry_run := True, cs_phase_results := []\<rparr>, True), db, fs)"
    using assms(1) loaded by (auto simp: run_runtime_retention_cleanup_def Let_def build_cleanup_summary_def split: prod.splits)
  have jobs: "db_jobs db' = filter (\<lambda>r. job_calculation_id r \<notin> set (pi_compute_job_ids items)) (db_jobs db)"
    unfolding tables(1) sets(1) candidate_sets(1) mem_Collect_eq
    by (rule filter_cong) (simp_all only: key_eligible [OF assms(4), where P = "terminal_retention_filter (cutoff_of cutoff db)"])
  have results: "db_results db' = filter (\<lambda>r. ar_calculation_id r \<notin> set (pi_async_result_ids items)) (db_results db)"
    unfolding tables(2) sets(2) candidate_sets(2) mem_Collect_eq
    by (rule filter_cong) (simp_all only: key_eligible [OF assms(5), where P = "result_retention_filter (cutoff_of cutoff db)"])
  have phases: "\<forall>ph \<in> set (cs_phase_results summary). ph_status ph = ''applied''
        \<and> (ph_phase ph \<noteq> ''lineage_artifacts'' \<longrightarrow> ph_deleted_count ph = ph_target_count ph \<and> ph_skipped_count ph = 0)"
    using planned_phases [OF run assms(2,3)] by (auto simp: applied_phase_def)
  show ?thesis unfolding items_def [symmetric] using dry phases jobs results tables(3,5) by simp
qed

end
