(* ===== verification/Access_Witnesses.thy ===== *)
theory Access_Witnesses
  imports Resolution_Safety Retention_Safety
begin

text \<open>
  The properties of the access layer, of polling and of retention at concrete inputs: each witness
  applies a property where its hypotheses hold.
\<close>

section \<open>The access layer\<close>

definition ad_overrides :: json_text where
  "ad_overrides = Doc (JObj [(''POST /performance/composites/materializations'', JStr '' ops.custom ''),
     (''POST /performance/composites/materializations/run'', JStr ''anyone'')])"

definition ad_env :: enterprise_env where
  "ad_env = \<lparr>env_text = map_of [(''ENTERPRISE_RUNTIME_PROFILE'', '' Production''), (''ENTERPRISE_ENFORCE_AUTHZ'', ''1''),
       (''ENTERPRISE_ENFORCE_PRIVILEGED_READ_AUTHZ'', ''true''), (''ENTERPRISE_ENFORCE_RUNTIME_CONFIG'', ''on''),
       (''ENTERPRISE_PRIMARY_KEY_ID'', ''key-1''), (''ENTERPRISE_SECRET_ROTATION_DAYS'', ''30'')],
     env_json = map_of [(''ENTERPRISE_CAPABILITY_RULES_JSON'', ad_overrides)]\<rparr>"

theorem configured_rules_only_replace_witness:
  "required_capability ad_env ''POST'' ''/performance/composites/materializations/run'' = Some ''ops.custom''"
proof -
  let ?o = "normalized_capability_rule_overrides (load_json_map ad_env ''ENTERPRISE_CAPABILITY_RULES_JSON'')"
  have "find (\<lambda>(key, capability). rule_governs ''POST'' ''/performance/composites/materializations/run'' key) DEFAULT_CAPABILITY_RULES
      = Some (''POST /performance/composites/materializations'', CAPABILITY_OPERATIONS_RUNTIME_MANAGE)" by code_simp
  from configured_rules_only_replace [THEN conjunct1, rule_format, OF this, of ad_env]
  have "required_capability ad_env ''POST'' ''/performance/composites/materializations/run''
      = Some (case map_of ?o ''POST /performance/composites/materializations'' of None \<Rightarrow> CAPABILITY_OPERATIONS_RUNTIME_MANAGE | Some c \<Rightarrow> c)" .
  moreover have "map_of ?o ''POST /performance/composites/materializations'' = Some ''ops.custom''" by code_simp
  ultimately show ?thesis by simp
qed

definition ad_settings :: threshold_settings where "ad_settings f = Some 1"

lemma ad_production: "production_like_runtime_profile_enabled ad_env"
  by code_simp

lemma ad_validated: "validate_enterprise_runtime_config ad_env ad_settings = Inr []"
proof -
  have "runtime_threshold_disabled ad_settings f = False" for f
    by (simp add: runtime_threshold_disabled_def ad_settings_def)
  then have thresholds: "production_runtime_threshold_issues ad_env ad_settings = []"
    by (simp add: production_runtime_threshold_issues_def)
  have "strip (env_value ad_env ''ENTERPRISE_POLICY_VERSION'' ''1.0.0'') \<noteq> []"
    "secret_rotation_days_valid (env_int ad_env ''ENTERPRISE_SECRET_ROTATION_DAYS'' 90)"
    "write_authz_primary_key_config_valid ad_env" "production_runtime_profile_issues ad_env [] = []" by code_simp+
  then have "enterprise_runtime_config_issues ad_env ad_settings = []"
    by (simp add: enterprise_runtime_config_issues_def thresholds)
  then show ?thesis by (simp add: validate_enterprise_runtime_config_def runtime_config_issues_should_raise_def)
qed

theorem production_enforces_authority_witness: "write_authz_enabled ad_env \<and> privileged_read_authz_enabled ad_env"
  using production_enforces_authority [OF ad_production ad_validated] by (intro conjI) (elim conjE, assumption)+

definition ad_request :: http_request where
  "ad_request = \<lparr>hr_method = ''POST'', hr_path = ''/performance/composites/materializations'', hr_headers = [(''X-Role'', ''ops'')],
     hr_tenant_values = [], hr_surface_marker = None, hr_principal = None, hr_messages = [HttpRequest 3]\<rparr>"

theorem denied_never_reaches_application_witness:
  "\<exists>ev reason. (\<forall>app. middleware ad_env ''now'' app ad_request = (Some (AuthorizationDenied reason), [ev]))
    \<and> ae_action ev = ''DENY '' @ hr_method ad_request @ '' '' @ hr_path ad_request \<and> ae_metadata ev = JObj [(''reason'', json_opt reason)]
    \<and> (verified_composite_surface ad_request \<noteq> None \<longleftrightarrow> reason = Some ''verified_principal_required'')
    \<and> (verified_composite_surface ad_request \<noteq> None \<longrightarrow> trusted_request_principal ad_request = None)"
  by (rule denied_never_reaches_application) code_simp+

theorem write_body_bounded_witness: "int (body_bytes (fst (write_payload_limited_request ''post'' 5 [HttpRequest 3, HttpRequest 3]))) \<le> 5"
  by (rule write_body_bounded [THEN conjunct1, of "''post''" _ "[HttpRequest 3, HttpRequest 3]" _
        "snd (write_payload_limited_request ''post'' 5 [HttpRequest 3, HttpRequest 3])"]) (code_simp, simp_all)

theorem redaction_complete_witness:
  "redact_sensitive (JObj [(''a'', JList [JInt 1])]) = JObj [(''a'', JList [JInt 1])]"
  by (rule redaction_complete [where metadata = "[]", THEN conjunct2, THEN conjunct2, THEN conjunct1, rule_format]) code_simp

section \<open>Polling\<close>

definition ad_payload :: json_dict where "ad_payload = [(''value'', JInt 7)]"

definition ad_execution :: execution_row where
  "ad_execution = execution_model_for_registration
     \<lparr>rq_calculation_id = ''k1'', rq_tenant_id = ''acme'', rq_analytics_type = ''TWR'', rq_portfolio_id = Some ''P1'',
      rq_execution_mode = ''async'', rq_requested_window = None, rq_input_fingerprint = None, rq_calculation_hash = None,
      rq_request_payload = None, rq_submission_idempotency_key_hash = None, rq_submission_identity_fingerprint = None,
      rq_submission_contract_version = None\<rparr> 10"

definition ad_db :: database where
  "ad_db = (empty_database ''sqlite'')\<lparr>db_executions := [ad_execution]\<rparr>"

definition ad_published :: database where
  "ad_published = snd (projr (record_success ''k1'' ''TWR'' ad_payload (Some ''acme'') 20 ad_db))"

definition ad_contract :: "int poll_contract" where
  "ad_contract = \<lparr>pc_expected_analytics_type = ''TWR'',
     pc_response_model = (\<lambda>p. case Option.bind p (\<lambda>d. dict_get d ''value'') of Some (JInt n) \<Rightarrow> Some n | _ \<Rightarrow> None),
     pc_upgrader = None, pc_accepted = (\<lambda>k. JObj []), pc_not_found_detail = ''not found''\<rparr>"

definition ad_headers :: headers where
  "ad_headers = [(''X-Actor-Id'', ''u1''), (''X-Tenant-Id'', '' acme ''), (''X-Role'', ''advisor''), (''X-Correlation-Id'', ''c1''),
     (''Authorization'', ''Bearer t''), (''X-Portfolio-Id'', ''P1'')]"

lemma ad_row: "get_execution_row ''k1'' ad_db = Some ad_execution"
  by (simp add: ad_db_def get_execution_row_def tbl_get_def ad_execution_def execution_model_for_registration_def)

lemma ad_tenant: "strip ''acme'' = ''acme''" "strip ''P1'' = ''P1''"
  by code_simp+

lemma ad_identity: "privileged_read_authz_enabled ad_env" "missing_required_headers (normalized_headers ad_headers) = []"
  "has_service_identity (normalized_headers ad_headers)" "normalized_headers ad_headers ''x-tenant-id'' = Some ''acme''"
  "normalized_headers ad_headers ''x-portfolio-id'' = Some ''P1''"
  by code_simp+

lemma ad_access:
  assumes "get_execution ''k1'' ad_db = Some e"
  shows "er_tenant_id e = Some (strip ''acme'')" "authorize_calculation_result_access ad_env e ad_headers = None"
proof -
  have e: "er_tenant_id e = Some ''acme''" "er_portfolio_id e = Some ''P1''"
    using assms ad_tenant by (auto simp: get_execution_def ad_row execution_record_from_model_def ad_execution_def execution_model_for_registration_def)
  then show "er_tenant_id e = Some (strip ''acme'')" by (simp add: ad_tenant)
  show "authorize_calculation_result_access ad_env e ad_headers = None"
    using e ad_identity ad_tenant
    by (simp add: authorize_calculation_result_access_def calculation_result_access_denial_reason_def tenant_access_denial_reason_def
        has_calculation_result_access_def has_matching_portfolio_entitlement_def header_or_def)
qed

lemma ad_record_success: "record_success ''k1'' ''TWR'' ad_payload (Some ''acme'') 20 ad_db = Inr ((), ad_published)"
proof -
  have "require_generic_result_purpose ''TWR'' = Inr ()" by code_simp
  moreover have "get_result_row ''k1'' ad_db = None" by (simp add: ad_db_def get_result_row_def tbl_get_def empty_database_def)
  ultimately show ?thesis
    by (simp add: ad_published_def record_success_def require_matching_existing_tenant_def merge_result_def success_row_def Let_def)
qed

theorem published_result_polled_witness:
  "resolve_async_result ad_env ad_contract ''k1'' (Some ad_headers) [] ad_db
      (run_ops result_step ad_published [RFailure ''k1'' ''TWR'' ''late'' None (Some ''acme'') None 30]) ad_db ad_db = Inr (Resolved 7)"
proof -
  obtain e where e: "get_execution ''k1'' ad_db = Some e" by (simp add: get_execution_def ad_row)
  have poll: "resolve_async_result ad_env ad_contract ''k1'' (Some ad_headers) [] ad_db
      (run_ops result_step ad_published [RFailure ''k1'' ''TWR'' ''late'' None (Some ''acme'') None 30]) ad_db ad_db
    = (case pc_response_model ad_contract (upgraded ad_contract (Some (sort_key fst (List.map (map_prod id sort_keys) ad_payload)))) of
         None \<Rightarrow> Inl (conflict_refusal ''Async result payload failed response contract validation.'' None)
       | Some m \<Rightarrow> Inr (Resolved m))"
  proof (rule published_result_polled [OF _ _ _ e])
    show "record_success ''k1'' ''TWR'' ad_payload (Some ''acme'') 20 ad_db = Inr ((), ad_published)" by (rule ad_record_success)
    show "results_ok ad_db" by (simp add: results_ok_def ad_db_def empty_database_def tbl_ok_def)
    show "er_tenant_id e = Some (strip ''acme'')" by (rule ad_access(1) [OF e])
    show "authorize_calculation_result_access ad_env e ad_headers = None" by (rule ad_access(2) [OF e])
  qed (simp_all add: ad_contract_def)
  have "pc_response_model ad_contract (upgraded ad_contract (Some (sort_key fst (List.map (map_prod id sort_keys) ad_payload)))) = Some 7"
    by code_simp
  with poll show ?thesis by simp
qed

lemma ad_polled: "resolve_async_result ad_env ad_contract ''k1'' (Some ad_headers) [] ad_db ad_published ad_db ad_db = Inr (Resolved 7)"
proof -
  obtain e where e: "get_execution ''k1'' ad_db = Some e" by (simp add: get_execution_def ad_row)
  have "get_result_row ''k1'' ad_published = Some (success_row ''k1'' (Some ''acme'') ''TWR'' ad_payload 20)"
    using ad_record_success merge_result_new [of "success_row ''k1'' (Some ''acme'') ''TWR'' ad_payload 20" ad_db] ad_tenant
    by (auto simp: record_success_def Let_def)
  moreover have "pc_response_model ad_contract (upgraded ad_contract (Some (sort_key fst (List.map (map_prod id sort_keys) ad_payload)))) = Some 7"
    by code_simp
  ultimately show ?thesis using ad_access [OF e] ad_tenant e
    by (simp add: resolve_async_result_def authorize_async_result_access_def of_option_def get_result_for_tenant_def success_row_def
        resolve_stored_async_result_def async_result_record_from_row_def load_result_payload_def has_invalid_response_payload_def Let_def
        ensure_expected_analytics_type_def ensure_def validate_response_payload_def) (simp add: ad_contract_def)
qed

theorem poll_tenant_isolated_witness:
  "\<exists>e t p. get_execution_row ''k1'' ad_db = Some e \<and> ex_tenant_id e = Some t
    \<and> (t \<noteq> [] \<longrightarrow> normalized_headers ad_headers ''x-tenant-id'' = Some t)
    \<and> (privileged_read_authz_enabled ad_env \<longrightarrow> holds_authority ad_headers None
        \<and> (has_required_capability (normalized_headers ad_headers) (Some CAPABILITY_OPERATIONS_RUNTIME_READ)
           \<or> (\<exists>portfolio. ex_portfolio_id e = Some portfolio \<and> strip portfolio \<noteq> []
               \<and> normalized_headers ad_headers ''x-portfolio-id'' = Some (strip portfolio))))
    \<and> held_for_tenant ''k1'' t (pc_expected_analytics_type ad_contract) p ad_published ad_db e
    \<and> pc_response_model ad_contract (upgraded ad_contract p) = Some 7"
proof (rule poll_tenant_isolated)
  show "resolve_async_result ad_env ad_contract ''k1'' (Some ad_headers) [] ad_db ad_published ad_db ad_db = Inr (Resolved 7)"
    by (rule ad_polled)
qed

section \<open>Retention\<close>

text \<open>Two finished jobs from long ago; the second one is on legal hold.\<close>

definition ad_old :: database where
  "ad_old = (empty_database ''sqlite'')\<lparr>db_jobs :=
     [complete_row ad_payload 10 (new_job ''k1'' ''TWR'' ''acme'' [] 3 5), complete_row ad_payload 10 (new_job ''k2'' ''TWR'' ''acme'' [] 3 5)]\<rparr>"

definition ad_holds :: json_text where
  "ad_holds = Doc (JObj [(''holds'', JList [JObj [(''calculation_id'', JStr ''k2''), (''reason_code'', JStr ''dispute'')]])])"

definition ad_index :: legal_hold_index where
  "ad_index = [(''k2'', \<lparr>lh_calculation_id = ''k2'', lh_reason_code = ''dispute'', lh_source = None\<rparr>)]"

definition ad_files :: artifact_files where
  "ad_files = \<lparr>af_directory = Some, af_is_dir = (\<lambda>_. False), af_rmtree_fails = (\<lambda>_. False)\<rparr>"

definition ad_cleanup :: "string + (cleanup_summary \<times> bool) \<times> database \<times> artifact_files" where
  "ad_cleanup = run_runtime_retention_cleanup None 30 (99 * 86400000000) False (Some ad_holds) [] 0 (\<lambda>_. False) ad_old ad_files"

lemma ad_loaded: "load_runtime_retention_legal_hold_index (Some ad_holds) = Inr ad_index" "referenced_calculation_ids [] = Inr []"
  by code_simp+

lemma ad_cleanup_run:
  "run_runtime_retention_cleanup None 30 (99 * 86400000000) False (Some ad_holds) [] 0 (\<lambda>_. False) ad_old ad_files
     = Inr ((fst (fst (projr ad_cleanup)), True), fst (snd (projr ad_cleanup)), snd (snd (projr ad_cleanup)))"
proof -
  obtain summary db' fs' where "ad_cleanup = Inr ((summary, True), db', fs')"
    unfolding ad_cleanup_def using faultless_completes [OF _ _ ad_loaded] by (metis ad_files_def artifact_files.select_convs(3))
  then have "ad_cleanup = Inr ((fst (fst (projr ad_cleanup)), True), fst (snd (projr ad_cleanup)), snd (snd (projr ad_cleanup)))"
    by (metis fst_conv snd_conv sum.sel(2))
  then show ?thesis unfolding ad_cleanup_def .
qed

lemma ad_keys: "tbl_ok job_calculation_id (db_jobs ad_old)" "tbl_ok ar_calculation_id (db_results ad_old)"
  "tbl_ok lr_calculation_id (db_lineage ad_old)" "tbl_ok ex_calculation_id (db_executions ad_old)"
  by code_simp+

theorem retention_whole_groups_witness:
  "group_rows ''k2'' (fst (snd (projr ad_cleanup))) = group_rows ''k2'' ad_old"
proof -
  have "guarded ad_index [] cutoff 0 ad_old ''k2''" for cutoff by (simp add: guarded_def ad_index_def)
  with retention_whole_groups [OF ad_cleanup_run ad_loaded ad_keys(1,2), of "''k2''"] show ?thesis by simp
qed

theorem retention_plan_exact_witness:
  "run_runtime_retention_cleanup None 30 (99 * 86400000000) True (Some ad_holds) [] 0 (\<lambda>_. False) ad_old ad_files
     = Inr (((fst (fst (projr ad_cleanup)))\<lparr>cs_dry_run := True, cs_phase_results := []\<rparr>, True), ad_old, ad_files)"
  by (rule retention_plan_exact [THEN conjunct1, OF ad_cleanup_run ad_keys(3,4,1,2)])

end
