(* ===== verification/Stateful_Inputs.thy ===== *)
theory Stateful_Inputs
  imports Execution_Registry
begin

text \<open>
  Retrieval of stateful inputs from the upstream services
  (src/app/services/stateful_input_service.py): a window is planned in chunks, a chunk is read page
  by page under a bound on its pages, every answer leaves a snapshot on the execution, and the
  chunks are merged. The upstream is a parameter that may answer anything, a function of the chunk,
  of the number of requests it has answered for the chunk and of the cursor asked for. A loop over
  pages is a partial function: \<open>None\<close> is a loop that does not end. Floats of a decoded payload
  are kept as the text Python prints for them.
\<close>

type_synonym response = "int \<times> json_dict"

section \<open>Chunks\<close>

record date_chunk =
  dc_start_date :: date
  dc_end_date :: date

definition MAXORDINAL :: int where
  "MAXORDINAL = 3652059"

text \<open>What may be raised: the \<open>OverflowError\<close> of a date past the year 9999, the \<open>TypeError\<close> of iterating over a
  value that has no items, or a store's exception.\<close>

datatype retrieval_error = OverflowError | TypeError | SnapshotFailure store_error

text \<open>The cursor over the window is an ordinal; \<open>date + timedelta\<close> overflows past \<open>MAXORDINAL\<close>.\<close>

function plan_from :: "int \<Rightarrow> int \<Rightarrow> int \<Rightarrow> retrieval_error + date_chunk list" where
  "plan_from chunk_days cursor end_ordinal =
     (let bounded_chunk_days = max 1 chunk_days; chunk_end = min (cursor + (bounded_chunk_days - 1)) end_ordinal in
      if end_ordinal < cursor then Inr []
      else if MAXORDINAL < cursor + (bounded_chunk_days - 1) \<or> MAXORDINAL < chunk_end + 1 then Inl OverflowError
      else (case plan_from chunk_days (chunk_end + 1) end_ordinal of
          Inl e \<Rightarrow> Inl e
        | Inr chunks \<Rightarrow> Inr (\<lparr>dc_start_date = fromordinal cursor, dc_end_date = fromordinal chunk_end\<rparr> # chunks)))"
  by pat_completeness auto
termination
  by (relation "measure (\<lambda>(n, c, e). nat (e + 1 - c))") auto

declare plan_from.simps [simp del]

definition plan_chunks :: "date \<Rightarrow> date \<Rightarrow> int \<Rightarrow> retrieval_error + date_chunk list" where
  "plan_chunks start_date end_date chunk_days = plan_from chunk_days (toordinal start_date) (toordinal end_date)"

section \<open>The service and its snapshots\<close>

text \<open>
  \<open>core_answer\<close> is \<open>upstream kind chunk n cursor\<close>: what the upstream of an endpoint answers to request number
  \<open>n\<close> of a chunk. The digests are those of \<open>hashlib\<close>; \<open>ss_same_number\<close> is Python's \<open>==\<close> on two decoded
  numbers, and \<open>ss_clock\<close> the time at which the snapshots of a chunk are stored.
\<close>

record stateful_service =
  ss_portfolio_chunk_days :: int
  ss_reference_chunk_days :: int
  ss_max_pages_per_chunk :: int
  ss_sha256_json :: "json_text \<Rightarrow> string"
  ss_sha256 :: "string \<Rightarrow> string"
  ss_same_number :: "json \<Rightarrow> json \<Rightarrow> bool"
  ss_clock :: instant

text \<open>\<open>__init__\<close>: every bound is at least one.\<close>

definition configured_service :: "stateful_service \<Rightarrow> stateful_service" where
  "configured_service s =
     s\<lparr>ss_portfolio_chunk_days := max 1 (ss_portfolio_chunk_days s),
       ss_reference_chunk_days := max 1 (ss_reference_chunk_days s),
       ss_max_pages_per_chunk := max 1 (ss_max_pages_per_chunk s)\<rparr>"

text \<open>The durable stores and, per calculation, the cached set of snapshot ids that calls share and update.\<close>

record retrieval_state =
  rv_db :: database
  rv_cache :: "uuid \<Rightarrow> string set option"

definition existing_snapshot_ids :: "uuid option \<Rightarrow> retrieval_state \<Rightarrow> string set \<times> retrieval_state" where
  "existing_snapshot_ids calculation_id st =
     (case calculation_id of
        None \<Rightarrow> ({}, st)
      | Some k \<Rightarrow>
          (case rv_cache st k of
             Some ids \<Rightarrow> (ids, st)
           | None \<Rightarrow> let ids = list_upstream_snapshot_ids k (rv_db st)
                     in (ids, st\<lparr>rv_cache := (rv_cache st)(k \<mapsto> ids)\<rparr>)))"

definition build_snapshot_identity :: "stateful_service \<Rightarrow> uuid \<Rightarrow> string \<Rightarrow> string \<Rightarrow> json_dict \<Rightarrow> string \<times> string" where
  "build_snapshot_identity s calculation_id upstream_endpoint source_identifier request_payload =
     (let request_fingerprint = ss_sha256_json s (dumps_dict request_payload)
      in (ss_sha256 s (calculation_id @ '':'' @ upstream_endpoint @ '':'' @ source_identifier @ '':'' @ request_fingerprint),
          request_fingerprint))"

definition build_snapshot ::
    "stateful_service \<Rightarrow> uuid \<Rightarrow> string \<Rightarrow> string \<Rightarrow> date \<Rightarrow> json_dict \<Rightarrow> response \<Rightarrow> snapshot_payload" where
  "build_snapshot s calculation_id upstream_endpoint source_identifier as_of_date request_payload response =
     (let (snapshot_id, request_fingerprint) =
            build_snapshot_identity s calculation_id upstream_endpoint source_identifier request_payload
      in \<lparr>sp_snapshot_id = snapshot_id, sp_upstream_endpoint = upstream_endpoint,
          sp_source_identifier = source_identifier, sp_as_of_date = str_date as_of_date,
          sp_request_fingerprint = request_fingerprint,
          sp_response_fingerprint = ss_sha256_json s (dumps_dict (snd response)),
          sp_retrieval_status = int_text (fst response), sp_paging_metadata = Some request_payload\<rparr>)"

text \<open>The batch under construction and the ids that need no snapshot; both are mutated by the code.\<close>

type_synonym snapshot_batch = "snapshot_payload list \<times> string set"

definition append_timeseries_snapshot_if_new ::
    "stateful_service \<Rightarrow> uuid option \<Rightarrow> string \<Rightarrow> string \<Rightarrow> date \<Rightarrow> json_dict \<Rightarrow> response \<Rightarrow> snapshot_batch \<Rightarrow> snapshot_batch" where
  "append_timeseries_snapshot_if_new s calculation_id upstream_endpoint source_identifier as_of_date request_payload response sb =
     (case calculation_id of
        None \<Rightarrow> sb
      | Some k \<Rightarrow>
          let snapshot_id = fst (build_snapshot_identity s k upstream_endpoint source_identifier request_payload) in
          if snapshot_id \<in> snd sb then sb
          else (fst sb @ [build_snapshot s k upstream_endpoint source_identifier as_of_date request_payload response],
                insert snapshot_id (snd sb)))"

text \<open>
  Storing a batch. The set of ids is the cached one, so ids of a batch stay in the cache even when
  storing it raises.
\<close>

definition record_upstream_snapshot_batch ::
    "stateful_service \<Rightarrow> uuid option \<Rightarrow> snapshot_batch \<Rightarrow> retrieval_state \<Rightarrow> (retrieval_error + unit) \<times> retrieval_state" where
  "record_upstream_snapshot_batch s calculation_id sb st =
     (case calculation_id of
        None \<Rightarrow> (Inr (), st)
      | Some k \<Rightarrow>
          let cached = st\<lparr>rv_cache := (rv_cache st)(k \<mapsto> snd sb)\<rparr> in
          (case record_upstream_snapshots k (fst sb) (ss_clock s) (rv_db st) of
             Inl e \<Rightarrow> (Inl (SnapshotFailure e), cached)
           | Inr (_, db) \<Rightarrow> (Inr (), cached\<lparr>rv_db := db\<rparr>)))"

section \<open>Reading payloads\<close>

definition dict_items :: "json list \<Rightarrow> json_dict list" where
  "dict_items items = List.map_filter (\<lambda>i. case i of JObj d \<Rightarrow> Some d | _ \<Rightarrow> None) items"

definition dict_list_payload_items_from_payload :: "json_dict \<Rightarrow> string \<Rightarrow> json_dict list" where
  "dict_list_payload_items_from_payload payload field_name =
     (case dict_get payload field_name of Some (JList items) \<Rightarrow> dict_items items | _ \<Rightarrow> [])"

definition dict_list_payload_items :: "response list \<Rightarrow> string \<Rightarrow> json_dict list" where
  "dict_list_payload_items responses field_name =
     concat (List.map (\<lambda>r. dict_list_payload_items_from_payload (snd r) field_name) responses)"

definition string_value_of :: "json_dict \<Rightarrow> string \<Rightarrow> string option" where
  "string_value_of d field_name = (case dict_get d field_name of Some (JStr v) \<Rightarrow> Some v | _ \<Rightarrow> None)"

definition string_or_none :: "json_dict \<Rightarrow> string \<Rightarrow> string option" where
  "string_or_none d field_name =
     (case string_value_of d field_name of None \<Rightarrow> None | Some v \<Rightarrow> if v = [] then None else Some v)"

definition string_list :: "json option \<Rightarrow> string list" where
  "string_list value =
     (case value of
        Some (JList items) \<Rightarrow> List.map_filter nonempty_string_of items
      | _ \<Rightarrow> [])"

definition non_negative_int :: "json option \<Rightarrow> int" where
  "non_negative_int value = (case value of Some (JInt n) \<Rightarrow> if n > 0 then n else 0 | _ \<Rightarrow> 0)"

definition string_payload_values :: "response list \<Rightarrow> string \<Rightarrow> string list" where
  "string_payload_values responses field_name = List.map_filter (\<lambda>r. string_value_of (snd r) field_name) responses"

definition single_value_or_none :: "string list \<Rightarrow> string option" where
  "single_value_or_none values = (case remdups values of [v] \<Rightarrow> Some v | _ \<Rightarrow> None)"

text \<open>Only payloads built here are counted, where the count is an integer.\<close>

definition retrieval_page_count :: "json_dict \<Rightarrow> int" where
  "retrieval_page_count payload =
     (case dict_get payload ''retrieval_metadata'' of
        Some (JObj metadata) \<Rightarrow> (case dict_get metadata ''page_count'' of Some (JInt n) \<Rightarrow> n | _ \<Rightarrow> 0)
      | _ \<Rightarrow> 0)"

definition total_retrieval_page_count :: "response list \<Rightarrow> int" where
  "total_retrieval_page_count responses = sum_list (List.map (\<lambda>r. retrieval_page_count (snd r)) responses)"

definition first_failure :: "response list \<Rightarrow> response option" where
  "first_failure responses = find (\<lambda>r. fst r \<ge> 400) responses"

definition json_strings :: "string list \<Rightarrow> json" where
  "json_strings xs = JList (List.map JStr xs)"

section \<open>Pages\<close>

definition next_page_token :: "json_dict \<Rightarrow> string option" where
  "next_page_token payload =
     (let token_of = (\<lambda>d. case dict_get d ''next_page_token'' of
            Some (JStr token) \<Rightarrow> if strip token \<noteq> [] then Some token else None
          | _ \<Rightarrow> None)
      in case token_of payload of
           Some token \<Rightarrow> Some token
         | None \<Rightarrow> (case dict_get payload ''page'' of Some (JObj page) \<Rightarrow> token_of page | _ \<Rightarrow> None))"

definition STATEFUL_UPSTREAM_PAGE_LIMIT_EXCEEDED_REASON :: string where
  "STATEFUL_UPSTREAM_PAGE_LIMIT_EXCEEDED_REASON = ''stateful_upstream_page_limit_exceeded''"

definition STATEFUL_UPSTREAM_REPEATED_PAGE_CURSOR_REASON :: string where
  "STATEFUL_UPSTREAM_REPEATED_PAGE_CURSOR_REASON = ''stateful_upstream_repeated_page_cursor''"

definition page_traversal_failure_payload ::
    "stateful_service \<Rightarrow> date_chunk \<Rightarrow> int \<Rightarrow> string \<Rightarrow> string set \<Rightarrow> json_dict option" where
  "page_traversal_failure_payload s chunk page_count next_token seen_page_tokens =
     (let failure = (\<lambda>reason. Some
            [(''error'', JStr ''Stateful upstream pagination is unhealthy.''), (''reason'', JStr reason),
             (''retrieval_metadata'', JObj
                [(''chunk_start_date'', JStr (str_date (dc_start_date chunk))),
                 (''chunk_end_date'', JStr (str_date (dc_end_date chunk))),
                 (''page_count'', JInt page_count), (''max_pages_per_chunk'', JInt (ss_max_pages_per_chunk s))])])
      in if next_token \<in> seen_page_tokens then failure STATEFUL_UPSTREAM_REPEATED_PAGE_CURSOR_REASON
         else if page_count \<ge> ss_max_pages_per_chunk s then failure STATEFUL_UPSTREAM_PAGE_LIMIT_EXCEEDED_REASON
         else None)"

text \<open>
  The \<open>while True\<close> of a chunk, with what differs between the three sources as parameters: \<open>note\<close> appends
  the snapshot of an answer, \<open>refuse\<close> rejects a page, \<open>record_page\<close> accumulates it. The cursors asked
  for are kept as a log. The loop ends with an answer that stops the chunk, with an unhealthy
  cursor, or with everything read.
\<close>

datatype 'a page_end = Stopped response | Unhealthy string json_dict | Complete 'a

partial_function (option) fetch_pages ::
    "stateful_service \<Rightarrow> date_chunk \<Rightarrow> (nat \<Rightarrow> string option \<Rightarrow> response)
      \<Rightarrow> (string option \<Rightarrow> response \<Rightarrow> snapshot_batch \<Rightarrow> snapshot_batch) \<Rightarrow> ('a \<Rightarrow> json_dict \<Rightarrow> response option)
      \<Rightarrow> ('a \<Rightarrow> json_dict \<Rightarrow> 'a) \<Rightarrow> ('a \<Rightarrow> int) \<Rightarrow> string option \<Rightarrow> string set \<Rightarrow> 'a \<Rightarrow> string option list \<Rightarrow> snapshot_batch
      \<Rightarrow> ('a page_end \<times> string option list \<times> snapshot_batch) option" where
  "fetch_pages s chunk ask note refuse record_page page_count page_token seen_page_tokens acc asked sb =
     (let response = ask (length asked) page_token;
          sb1 = note page_token response sb;
          asked1 = asked @ [page_token];
          acc1 = record_page acc (snd response)
      in if fst response \<ge> 400 then Some (Stopped response, asked1, sb1)
         else if refuse acc (snd response) \<noteq> None then Some (Stopped (the (refuse acc (snd response))), asked1, sb1)
         else if next_page_token (snd response) = None then Some (Complete acc1, asked1, sb1)
         else let token = the (next_page_token (snd response));
                  failure = page_traversal_failure_payload s chunk (page_count acc1) token seen_page_tokens
              in if failure \<noteq> None then Some (Unhealthy token (the failure), asked1, sb1)
                 else fetch_pages s chunk ask note refuse record_page page_count (Some token)
                        (insert token seen_page_tokens) acc1 asked1 sb1)"

declare fetch_pages.simps [code]

definition record_pagination_failure_snapshot ::
    "stateful_service \<Rightarrow> uuid option \<Rightarrow> string \<Rightarrow> string \<Rightarrow> date \<Rightarrow> json_dict \<Rightarrow> json_dict \<Rightarrow> snapshot_batch
      \<Rightarrow> retrieval_state \<Rightarrow> (retrieval_error + unit) \<times> retrieval_state" where
  "record_pagination_failure_snapshot s calculation_id upstream_endpoint source_identifier as_of_date request_payload
       pagination_failure sb st =
     (let guarded_payload = dict_put request_payload ''pagination_guard_reason''
            (case dict_get pagination_failure ''reason'' of Some r \<Rightarrow> r | None \<Rightarrow> JNull)
      in record_upstream_snapshot_batch s calculation_id
           (append_timeseries_snapshot_if_new s calculation_id upstream_endpoint source_identifier as_of_date
              guarded_payload (503, pagination_failure) sb) st)"

text \<open>How a chunk ends: its snapshots are stored, then it answers; an exception of the store replaces the answer.\<close>

type_synonym 'a retrieval = "(retrieval_error + 'a) \<times> retrieval_state"

definition answer_after :: "(retrieval_error + unit) \<times> retrieval_state \<Rightarrow> response \<Rightarrow> response retrieval" where
  "answer_after stored response = (case stored of (Inl e, st) \<Rightarrow> (Inl e, st) | (Inr _, st) \<Rightarrow> (Inr response, st))"

definition finish_chunk ::
    "stateful_service \<Rightarrow> uuid option \<Rightarrow> string \<Rightarrow> string \<Rightarrow> date \<Rightarrow> (string option \<Rightarrow> json_dict) \<Rightarrow> ('a \<Rightarrow> json_dict)
      \<Rightarrow> retrieval_state \<Rightarrow> 'a page_end \<times> string option list \<times> snapshot_batch \<Rightarrow> response retrieval" where
  "finish_chunk s calculation_id upstream_endpoint source_identifier as_of_date request_payload build st r =
     (case r of (page_end, asked, sb) \<Rightarrow>
       (case page_end of
          Stopped response \<Rightarrow> answer_after (record_upstream_snapshot_batch s calculation_id sb st) response
        | Unhealthy token failure \<Rightarrow>
            answer_after (record_pagination_failure_snapshot s calculation_id upstream_endpoint source_identifier
              as_of_date (request_payload (Some token)) failure sb st) (503, failure)
        | Complete acc \<Rightarrow> answer_after (record_upstream_snapshot_batch s calculation_id sb st) (200, build acc)))"

section \<open>All chunks\<close>

text \<open>
  \<open>asyncio.gather\<close> over the chunks. The answers of a chunk depend on no other chunk; the model runs the
  chunks one after the other, and an exception ends the gathering at once.
\<close>

fun gather_chunked ::
    "(date_chunk \<Rightarrow> retrieval_state \<Rightarrow> response retrieval option) \<Rightarrow> date_chunk list \<Rightarrow> retrieval_state
      \<Rightarrow> response list retrieval option" where
  "gather_chunked fetcher [] st = Some (Inr [], st)"
| "gather_chunked fetcher (chunk # chunks) st =
     (case fetcher chunk st of
        None \<Rightarrow> None
      | Some (Inl e, st1) \<Rightarrow> Some (Inl e, st1)
      | Some (Inr response, st1) \<Rightarrow>
          (case gather_chunked fetcher chunks st1 of
             None \<Rightarrow> None
           | Some (Inl e, st2) \<Rightarrow> Some (Inl e, st2)
           | Some (Inr responses, st2) \<Rightarrow> Some (Inr (response # responses), st2)))"

text \<open>A window read in chunks: the first failed chunk is the answer, else the merged payload.\<close>

definition retrieve_window ::
    "retrieval_error + date_chunk list \<Rightarrow> (date_chunk \<Rightarrow> retrieval_state \<Rightarrow> response retrieval option)
      \<Rightarrow> (response list \<Rightarrow> int \<Rightarrow> json_dict) \<Rightarrow> retrieval_state \<Rightarrow> response retrieval option" where
  "retrieve_window plan fetcher build st =
     (case plan of
        Inl e \<Rightarrow> Some (Inl e, st)
      | Inr chunks \<Rightarrow>
          map_option (\<lambda>(gathered, st1).
            (case gathered of
               Inl e \<Rightarrow> Inl e
             | Inr responses \<Rightarrow>
                 (case first_failure responses of
                    Some failure \<Rightarrow> Inr failure
                  | None \<Rightarrow> Inr (200, build responses (int (length chunks)))), st1))
            (gather_chunked fetcher chunks st))"

section \<open>Portfolio timeseries\<close>

record portfolio_chunk_accumulator =
  pca_observations :: "json_dict list"
  pca_portfolio_open_date :: "string option"
  pca_portfolio_currency :: "string option"
  pca_reporting_currency :: "string option"
  pca_page_count :: int

definition payload_string_identity_value :: "json_dict \<Rightarrow> string \<Rightarrow> string option \<Rightarrow> string option" where
  "payload_string_identity_value payload field_name current_value =
     (case current_value of Some v \<Rightarrow> Some v | None \<Rightarrow> string_value_of payload field_name)"

definition record_portfolio_chunk_payload :: "portfolio_chunk_accumulator \<Rightarrow> json_dict \<Rightarrow> portfolio_chunk_accumulator" where
  "record_portfolio_chunk_payload acc payload =
     \<lparr>pca_observations = pca_observations acc @ dict_list_payload_items_from_payload payload ''observations'',
      pca_portfolio_open_date = payload_string_identity_value payload ''portfolio_open_date'' (pca_portfolio_open_date acc),
      pca_portfolio_currency = payload_string_identity_value payload ''portfolio_currency'' (pca_portfolio_currency acc),
      pca_reporting_currency = payload_string_identity_value payload ''reporting_currency'' (pca_reporting_currency acc),
      pca_page_count = pca_page_count acc + 1\<rparr>"

definition valuation_date_of :: "json_dict \<Rightarrow> string option" where
  "valuation_date_of row = string_value_of row ''valuation_date''"

text \<open>\<open>unique\<close> is keyed by the sorted text of a row; a later row with the same text takes its place.\<close>

definition merge_portfolio_observations :: "json_dict list \<Rightarrow> json_dict list" where
  "merge_portfolio_observations observations =
     (let dated = filter (\<lambda>row. valuation_date_of row \<noteq> None) observations;
          unique = dict_update [] (List.map (\<lambda>row. (dumps_dict row, row)) dated)
      in sort_key (\<lambda>row. the (valuation_date_of row)) (List.map snd unique))"

definition json_objects :: "json_dict list \<Rightarrow> json" where
  "json_objects rows = JList (List.map JObj rows)"

definition build_portfolio_chunk_payload :: "portfolio_chunk_accumulator \<Rightarrow> json_dict" where
  "build_portfolio_chunk_payload acc =
     [(''portfolio_open_date'', json_opt (pca_portfolio_open_date acc)),
      (''portfolio_currency'', json_opt (pca_portfolio_currency acc)),
      (''reporting_currency'', json_opt (pca_reporting_currency acc)),
      (''observations'', json_objects (merge_portfolio_observations (pca_observations acc))),
      (''retrieval_metadata'', JObj [(''page_count'', JInt (pca_page_count acc))])]"

definition portfolio_timeseries_request_payload ::
    "string \<Rightarrow> date_chunk \<Rightarrow> string option \<Rightarrow> string \<Rightarrow> string option \<Rightarrow> json_dict" where
  "portfolio_timeseries_request_payload portfolio_id chunk reporting_currency consumer_system page_token =
     [(''portfolio_id'', JStr portfolio_id), (''start_date'', JStr (str_date (dc_start_date chunk))),
      (''end_date'', JStr (str_date (dc_end_date chunk))), (''reporting_currency'', json_opt reporting_currency),
      (''consumer_system'', JStr consumer_system), (''page_token'', json_opt page_token)]"

definition fetch_portfolio_chunk ::
    "stateful_service \<Rightarrow> (date_chunk \<Rightarrow> nat \<Rightarrow> string option \<Rightarrow> response) \<Rightarrow> string \<Rightarrow> date \<Rightarrow> string option \<Rightarrow> string
      \<Rightarrow> uuid option \<Rightarrow> date_chunk \<Rightarrow> retrieval_state \<Rightarrow> response retrieval option" where
  "fetch_portfolio_chunk s upstream portfolio_id as_of_date reporting_currency consumer_system calculation_id chunk st =
     (let (existing, st1) = existing_snapshot_ids calculation_id st;
          request_payload = portfolio_timeseries_request_payload portfolio_id chunk reporting_currency consumer_system;
          note = (\<lambda>token. append_timeseries_snapshot_if_new s calculation_id ''portfolio_timeseries'' portfolio_id
                            as_of_date (request_payload token))
      in map_option
           (finish_chunk s calculation_id ''portfolio_timeseries'' portfolio_id as_of_date request_payload
              build_portfolio_chunk_payload st1)
           (fetch_pages s chunk (upstream chunk) note (\<lambda>acc payload. None) record_portfolio_chunk_payload pca_page_count
              None {} \<lparr>pca_observations = [], pca_portfolio_open_date = None, pca_portfolio_currency = None,
                        pca_reporting_currency = None, pca_page_count = 0\<rparr> [] ([], existing)))"

definition min_text :: "string list \<Rightarrow> string option" where
  "min_text xs = (case xs of [] \<Rightarrow> None | y # ys \<Rightarrow> Some (fold min ys y))"

definition build_portfolio_timeseries_payload :: "response list \<Rightarrow> int \<Rightarrow> json_dict" where
  "build_portfolio_timeseries_payload responses chunk_count =
     [(''portfolio_open_date'', json_opt (min_text (string_payload_values responses ''portfolio_open_date''))),
      (''portfolio_currency'', json_opt (single_value_or_none (string_payload_values responses ''portfolio_currency''))),
      (''reporting_currency'', json_opt (single_value_or_none (string_payload_values responses ''reporting_currency''))),
      (''observations'', json_objects (merge_portfolio_observations (dict_list_payload_items responses ''observations''))),
      (''retrieval_metadata'', JObj [(''chunk_count'', JInt chunk_count),
         (''page_count'', JInt (total_retrieval_page_count responses))])]"

definition get_portfolio_timeseries ::
    "stateful_service \<Rightarrow> (date_chunk \<Rightarrow> nat \<Rightarrow> string option \<Rightarrow> response) \<Rightarrow> string \<Rightarrow> date \<Rightarrow> date \<Rightarrow> date \<Rightarrow> string option \<Rightarrow> string
      \<Rightarrow> uuid option \<Rightarrow> retrieval_state \<Rightarrow> response retrieval option" where
  "get_portfolio_timeseries s upstream portfolio_id as_of_date start_date end_date reporting_currency consumer_system
       calculation_id st =
     retrieve_window (plan_chunks start_date end_date (ss_portfolio_chunk_days s))
       (fetch_portfolio_chunk s upstream portfolio_id as_of_date reporting_currency consumer_system calculation_id)
       build_portfolio_timeseries_payload st"

section \<open>Merging keyed records\<close>

text \<open>Python's \<open>==\<close> on decoded values: numbers by \<open>num\<close>, dictionaries without their order.\<close>

definition is_number :: "json \<Rightarrow> bool" where
  "is_number j \<longleftrightarrow> (case j of JBool b \<Rightarrow> True | JInt n \<Rightarrow> True | JFloat f \<Rightarrow> True | _ \<Rightarrow> False)"

primrec json_eq :: "(json \<Rightarrow> json \<Rightarrow> bool) \<Rightarrow> json \<Rightarrow> json \<Rightarrow> bool" where
  "json_eq num JNull = (\<lambda>w. w = JNull)"
| "json_eq num (JBool b) = (\<lambda>w. is_number w \<and> num (JBool b) w)"
| "json_eq num (JInt n) = (\<lambda>w. is_number w \<and> num (JInt n) w)"
| "json_eq num (JFloat f) = (\<lambda>w. is_number w \<and> num (JFloat f) w)"
| "json_eq num (JStr t) = (\<lambda>w. w = JStr t)"
| "json_eq num (JList js) = (\<lambda>w. case w of JList ws \<Rightarrow> list_all2 (\<lambda>same v. same v) (List.map (json_eq num) js) ws | _ \<Rightarrow> False)"
| "json_eq num (JObj kvs) = (\<lambda>w. case w of
      JObj ws \<Rightarrow> length kvs = length ws
        \<and> list_all (\<lambda>(k, same). case map_of ws k of None \<Rightarrow> False | Some v \<Rightarrow> same v) (List.map (map_prod id (json_eq num)) kvs)
    | _ \<Rightarrow> False)"

fun record_key_by_fields :: "json_dict \<Rightarrow> string list \<Rightarrow> string list option" where
  "record_key_by_fields record [] = Some []"
| "record_key_by_fields record (field # rest) =
     (case string_value_of record field of
        None \<Rightarrow> None
      | Some value \<Rightarrow> map_option ((#) value) (record_key_by_fields record rest))"

fun merge_record ::
    "(json \<Rightarrow> json \<Rightarrow> bool) \<Rightarrow> string list \<Rightarrow> json_dict \<Rightarrow> (string list \<times> json_dict) list \<times> int
      \<Rightarrow> (string list \<times> json_dict) list \<times> int" where
  "merge_record num key_fields record (deduped, conflicts) =
     (case record_key_by_fields record key_fields of
        None \<Rightarrow> (deduped, conflicts)
      | Some key \<Rightarrow>
          (dict_put deduped key record,
           case map_of deduped key of
             None \<Rightarrow> conflicts
           | Some previous \<Rightarrow> if json_eq num (JObj previous) (JObj record) then conflicts else conflicts + 1))"

definition merge_dedup_records_with_conflict_count ::
    "(json \<Rightarrow> json \<Rightarrow> bool) \<Rightarrow> json_dict list \<Rightarrow> string list \<Rightarrow> json_dict list \<times> int" where
  "merge_dedup_records_with_conflict_count num records key_fields =
     (let (deduped, conflicts) = fold (merge_record num key_fields) records ([], 0)
      in (List.map snd (sort_key fst deduped), conflicts))"

definition merge_dedup_records_by_fields :: "(json \<Rightarrow> json \<Rightarrow> bool) \<Rightarrow> json_dict list \<Rightarrow> string list \<Rightarrow> json_dict list" where
  "merge_dedup_records_by_fields num records key_fields =
     fst (merge_dedup_records_with_conflict_count num records key_fields)"

definition merge_dedup_records :: "json_dict list \<Rightarrow> string \<Rightarrow> json_dict list" where
  "merge_dedup_records records date_key =
     List.map snd (sort_key fst (dict_update []
       (List.map_filter (\<lambda>record. map_option (\<lambda>d. (d, record)) (string_value_of record date_key)) records)))"

section \<open>Position timeseries\<close>

record position_chunk_accumulator =
  poa_rows :: "json list"
  poa_page_count :: int
  poa_source_row_count :: int
  poa_discarded_source_row_count :: int

definition record_position_chunk_payload :: "position_chunk_accumulator \<Rightarrow> json_dict \<Rightarrow> position_chunk_accumulator" where
  "record_position_chunk_payload acc payload =
     (case dict_get payload ''rows'' of
        Some (JList rows) \<Rightarrow>
          acc\<lparr>poa_rows := poa_rows acc @ rows, poa_source_row_count := poa_source_row_count acc + int (length rows),
              poa_page_count := poa_page_count acc + 1\<rparr>
      | _ \<Rightarrow>
          acc\<lparr>poa_source_row_count := poa_source_row_count acc + 1,
              poa_discarded_source_row_count := poa_discarded_source_row_count acc + 1,
              poa_page_count := poa_page_count acc + 1\<rparr>)"

definition POSITION_SOURCE_GRAIN_FIELDS :: "string list" where
  "POSITION_SOURCE_GRAIN_FIELDS =
     [''account_id'', ''sub_account_id'', ''custody_account_id'', ''book_id'', ''strategy_id'', ''mandate_id'', ''sleeve_id'',
      ''tax_lot_id'', ''lot_id'']"

definition source_position_key :: "json_dict \<Rightarrow> string option" where
  "source_position_key row =
     (case string_or_none row ''source_position_key'' of
        Some explicit \<Rightarrow> Some explicit
      | None \<Rightarrow>
          (case string_or_none row ''position_grain_id'' of
             Some grain \<Rightarrow> Some grain
           | None \<Rightarrow>
               (case string_or_none row ''position_id'' of
                  None \<Rightarrow> None
                | Some position_id \<Rightarrow>
                    let grain_parts = List.map_filter (\<lambda>field. map_option (\<lambda>v. field @ ''='' @ v) (string_or_none row field))
                          POSITION_SOURCE_GRAIN_FIELDS
                    in Some (if grain_parts = [] then position_id
                             else join_with ''|'' ((''position_id='' @ position_id) # grain_parts)))))"

definition position_row_with_source_key :: "json_dict \<Rightarrow> json_dict" where
  "position_row_with_source_key row =
     (case source_position_key row of
        None \<Rightarrow> row
      | Some key \<Rightarrow> if dict_get row ''source_position_key'' = Some (JStr key) then row
                    else dict_put row ''source_position_key'' (JStr key))"

definition position_rows_with_source_keys :: "json list \<Rightarrow> json_dict list" where
  "position_rows_with_source_keys rows = List.map position_row_with_source_key (dict_items rows)"

definition POSITION_KEY_FIELDS :: "string list" where
  "POSITION_KEY_FIELDS = [''valuation_date'', ''position_id'', ''source_position_key'']"

definition build_position_chunk_payload :: "(json \<Rightarrow> json \<Rightarrow> bool) \<Rightarrow> position_chunk_accumulator \<Rightarrow> json_dict" where
  "build_position_chunk_payload num acc =
     (let source_rows = position_rows_with_source_keys (poa_rows acc);
          keyed_rows = filter (\<lambda>row. record_key_by_fields row POSITION_KEY_FIELDS \<noteq> None) source_rows;
          (rows, conflicting_duplicate_count) = merge_dedup_records_with_conflict_count num keyed_rows POSITION_KEY_FIELDS;
          discarded = poa_discarded_source_row_count acc + int (length (poa_rows acc)) - int (length keyed_rows)
                        + conflicting_duplicate_count
      in [(''rows'', json_objects rows),
          (''retrieval_metadata'', JObj
             [(''page_count'', JInt (poa_page_count acc)), (''source_row_count'', JInt (poa_source_row_count acc)),
              (''retained_row_count'', JInt (int (length rows))), (''discarded_source_row_count'', JInt discarded)])])"

definition position_timeseries_request_payload ::
    "string \<Rightarrow> date_chunk \<Rightarrow> string option \<Rightarrow> string \<Rightarrow> string list \<Rightarrow> bool \<Rightarrow> json_dict \<Rightarrow> string option \<Rightarrow> json_dict" where
  "position_timeseries_request_payload portfolio_id chunk reporting_currency consumer_system dimensions include_cash_flows
       filters page_token =
     [(''portfolio_id'', JStr portfolio_id), (''start_date'', JStr (str_date (dc_start_date chunk))),
      (''end_date'', JStr (str_date (dc_end_date chunk))), (''reporting_currency'', json_opt reporting_currency),
      (''consumer_system'', JStr consumer_system), (''dimensions'', json_strings dimensions),
      (''include_cash_flows'', JBool include_cash_flows), (''filters'', JObj filters), (''page_token'', json_opt page_token)]"

text \<open>\<open>query\<close> holds what is asked besides the window: dimensions, cash flows, filters.\<close>

definition fetch_position_chunk ::
    "stateful_service \<Rightarrow> (date_chunk \<Rightarrow> nat \<Rightarrow> string option \<Rightarrow> response) \<Rightarrow> string \<Rightarrow> date \<Rightarrow> string option \<Rightarrow> string
      \<Rightarrow> string list \<times> bool \<times> json_dict \<Rightarrow> uuid option \<Rightarrow> date_chunk \<Rightarrow> retrieval_state \<Rightarrow> response retrieval option" where
  "fetch_position_chunk s upstream portfolio_id as_of_date reporting_currency consumer_system query calculation_id chunk st =
     (let (dimensions, include_cash_flows, filters) = query;
          (existing, st1) = existing_snapshot_ids calculation_id st;
          request_payload = position_timeseries_request_payload portfolio_id chunk reporting_currency consumer_system
            dimensions include_cash_flows filters;
          note = (\<lambda>token. append_timeseries_snapshot_if_new s calculation_id ''position_timeseries'' portfolio_id
                            as_of_date (request_payload token))
      in map_option
           (finish_chunk s calculation_id ''position_timeseries'' portfolio_id as_of_date request_payload
              (build_position_chunk_payload (ss_same_number s)) st1)
           (fetch_pages s chunk (upstream chunk) note (\<lambda>acc payload. None) record_position_chunk_payload poa_page_count
              None {} \<lparr>poa_rows = [], poa_page_count = 0, poa_source_row_count = 0, poa_discarded_source_row_count = 0\<rparr>
              [] ([], existing)))"

definition position_rows_from_payload :: "json_dict \<Rightarrow> json_dict list" where
  "position_rows_from_payload payload =
     (case dict_get payload ''rows'' of Some (JList rows) \<Rightarrow> position_rows_with_source_keys rows | _ \<Rightarrow> [])"

definition position_rows_from_responses :: "response list \<Rightarrow> json_dict list" where
  "position_rows_from_responses responses = concat (List.map (\<lambda>r. position_rows_from_payload (snd r)) responses)"

definition retrieval_count :: "json_dict \<Rightarrow> string \<Rightarrow> int option" where
  "retrieval_count payload field_name =
     (case dict_get payload ''retrieval_metadata'' of
        Some (JObj metadata) \<Rightarrow>
          (case dict_get metadata field_name of Some (JInt n) \<Rightarrow> if n < 0 then None else Some n | _ \<Rightarrow> None)
      | _ \<Rightarrow> None)"

fun position_retrieval_count_total :: "response list \<Rightarrow> string \<Rightarrow> int option" where
  "position_retrieval_count_total [] field_name = Some 0"
| "position_retrieval_count_total (r # rs) field_name =
     (case retrieval_count (snd r) field_name of
        None \<Rightarrow> None
      | Some n \<Rightarrow> map_option ((+) n) (position_retrieval_count_total rs field_name))"

definition json_count :: "int option \<Rightarrow> json" where
  "json_count n = (case n of None \<Rightarrow> JNull | Some k \<Rightarrow> JInt k)"

definition build_position_timeseries_payload :: "(json \<Rightarrow> json \<Rightarrow> bool) \<Rightarrow> response list \<Rightarrow> int \<Rightarrow> json_dict" where
  "build_position_timeseries_payload num responses chunk_count =
     (let (rows, conflicting_duplicate_count) =
            merge_dedup_records_with_conflict_count num (position_rows_from_responses responses) POSITION_KEY_FIELDS;
          discarded = map_option (\<lambda>n. n + conflicting_duplicate_count)
            (position_retrieval_count_total responses ''discarded_source_row_count'')
      in [(''rows'', json_objects rows),
          (''retrieval_metadata'', JObj
             [(''chunk_count'', JInt chunk_count), (''page_count'', JInt (total_retrieval_page_count responses)),
              (''source_row_count'', json_count (position_retrieval_count_total responses ''source_row_count'')),
              (''retained_row_count'', JInt (int (length rows))), (''discarded_source_row_count'', json_count discarded)])])"

definition get_position_timeseries ::
    "stateful_service \<Rightarrow> (date_chunk \<Rightarrow> nat \<Rightarrow> string option \<Rightarrow> response) \<Rightarrow> string \<Rightarrow> date \<Rightarrow> date \<Rightarrow> date \<Rightarrow> string option \<Rightarrow> string
      \<Rightarrow> string list \<times> bool \<times> json_dict \<Rightarrow> uuid option \<Rightarrow> retrieval_state \<Rightarrow> response retrieval option" where
  "get_position_timeseries s upstream portfolio_id as_of_date start_date end_date reporting_currency consumer_system query
       calculation_id st =
     retrieve_window (plan_chunks start_date end_date (ss_portfolio_chunk_days s))
       (fetch_position_chunk s upstream portfolio_id as_of_date reporting_currency consumer_system query calculation_id)
       (build_position_timeseries_payload (ss_same_number s)) st"

section \<open>Performance component economics\<close>

text \<open>A verdict of the source: its state and its reason. Sets of families are lists without order.\<close>

type_synonym verdict = "string \<times> string"

record economics_accumulator =
  pea_observed_component_families :: "string list"
  pea_supported_component_families :: "string list"
  pea_missing_component_families :: "string list"
  pea_rows :: "json_dict list"
  pea_lineage_values :: "json_dict list"
  pea_request_fingerprints :: "string list"
  pea_source_verdicts :: "verdict list"
  pea_source_row_count :: int
  pea_ready_chunk_count :: int
  pea_unavailable_chunk_count :: int
  pea_page_count :: int

definition empty_economics :: economics_accumulator where
  "empty_economics =
     \<lparr>pea_observed_component_families = [], pea_supported_component_families = [], pea_missing_component_families = [],
      pea_rows = [], pea_lineage_values = [], pea_request_fingerprints = [], pea_source_verdicts = [],
      pea_source_row_count = 0, pea_ready_chunk_count = 0, pea_unavailable_chunk_count = 0, pea_page_count = 0\<rparr>"

definition PERFORMANCE_COMPONENT_ECONOMICS_SCOPE_MISMATCH_REASON :: string where
  "PERFORMANCE_COMPONENT_ECONOMICS_SCOPE_MISMATCH_REASON = ''performance_component_economics_source_scope_mismatch''"

definition PERFORMANCE_COMPONENT_ECONOMICS_SOURCE_CONTRACT :: string where
  "PERFORMANCE_COMPONENT_ECONOMICS_SOURCE_CONTRACT = ''PerformanceComponentEconomics:v1''"

definition performance_component_window_matches :: "json option \<Rightarrow> json_dict \<Rightarrow> bool" where
  "performance_component_window_matches value expected_window =
     (case value of
        Some (JObj window) \<Rightarrow> list_all (\<lambda>(field_name, field_value). dict_get window field_name = Some field_value) expected_window
      | _ \<Rightarrow> False)"

definition performance_component_rows_match :: "json option \<Rightarrow> string \<Rightarrow> bool" where
  "performance_component_rows_match value portfolio_id =
     (case value of
        Some (JList rows) \<Rightarrow>
          list_all (\<lambda>row. case row of JObj d \<Rightarrow> dict_get d ''portfolio_id'' = Some (JStr portfolio_id) | _ \<Rightarrow> False) rows
      | _ \<Rightarrow> False)"

definition window_payload :: "date_chunk \<Rightarrow> json_dict" where
  "window_payload chunk =
     [(''start_date'', JStr (str_date (dc_start_date chunk))), (''end_date'', JStr (str_date (dc_end_date chunk)))]"

definition performance_component_economics_rejected_scope_fields ::
    "json_dict \<Rightarrow> string \<Rightarrow> date \<Rightarrow> json_dict \<Rightarrow> string list" where
  "performance_component_economics_rejected_scope_fields payload portfolio_id as_of_date expected_window =
     (let scope_checks =
           [(''portfolio_id'', dict_get payload ''portfolio_id'' = Some (JStr portfolio_id)),
            (''as_of_date'', dict_get payload ''as_of_date'' = Some (JStr (str_date as_of_date))),
            (''window'', performance_component_window_matches (dict_get payload ''window'') expected_window),
            (''rows.portfolio_id'', performance_component_rows_match (dict_get payload ''rows'') portfolio_id)]
      in List.map fst (filter (\<lambda>(field_name, matches). \<not> matches) scope_checks))"

definition performance_component_economics_scope_failure ::
    "json_dict \<Rightarrow> string \<Rightarrow> date \<Rightarrow> date_chunk \<Rightarrow> int \<Rightarrow> json_dict option" where
  "performance_component_economics_scope_failure payload portfolio_id as_of_date chunk page_ordinal =
     (let rejected_fields =
            performance_component_economics_rejected_scope_fields payload portfolio_id as_of_date (window_payload chunk)
      in if rejected_fields = [] then None
         else Some
           [(''error'', JStr ''Core PerformanceComponentEconomics response scope is inconsistent with the request.''),
            (''reason'', JStr PERFORMANCE_COMPONENT_ECONOMICS_SCOPE_MISMATCH_REASON),
            (''source_contract'', JStr PERFORMANCE_COMPONENT_ECONOMICS_SOURCE_CONTRACT),
            (''rejected_fields'', json_strings rejected_fields),
            (''retrieval_metadata'', JObj
               [(''requested_portfolio_id'', JStr portfolio_id), (''requested_as_of_date'', JStr (str_date as_of_date)),
                (''requested_window'', JObj (window_payload chunk)), (''page_ordinal'', JInt page_ordinal)])])"

definition record_performance_component_economics_payload ::
    "economics_accumulator \<Rightarrow> json_dict \<Rightarrow> economics_accumulator" where
  "record_performance_component_economics_payload acc payload =
     (let rows = dict_list_payload_items_from_payload payload ''rows'';
          base = acc\<lparr>pea_page_count := pea_page_count acc + 1, pea_rows := pea_rows acc @ rows,
            pea_lineage_values := pea_lineage_values acc
              @ (case dict_get payload ''lineage'' of Some (JObj lineage) \<Rightarrow> [lineage] | _ \<Rightarrow> []),
            pea_request_fingerprints := pea_request_fingerprints acc
              @ (case string_or_none payload ''request_fingerprint'' of Some f \<Rightarrow> [f] | None \<Rightarrow> [])\<rparr>;
          unavailable = base\<lparr>pea_unavailable_chunk_count := pea_unavailable_chunk_count acc + 1\<rparr>
      in case dict_get payload ''supportability'' of
           Some (JObj supportability) \<Rightarrow>
             (case (string_or_none supportability ''state'', string_or_none supportability ''reason'') of
                (Some state, Some reason) \<Rightarrow>
                  base\<lparr>pea_source_verdicts := pea_source_verdicts acc @ [(state, reason)],
                       pea_source_row_count := pea_source_row_count acc + int (length rows),
                       pea_observed_component_families := pea_observed_component_families acc
                         @ string_list (dict_get supportability ''observed_component_families''),
                       pea_supported_component_families := pea_supported_component_families acc
                         @ string_list (dict_get supportability ''supported_component_families''),
                       pea_missing_component_families := pea_missing_component_families acc
                         @ string_list (dict_get supportability ''missing_component_families'')\<rparr>
              | _ \<Rightarrow> unavailable)
         | _ \<Rightarrow> unavailable)"

definition PAGE_PARTIAL :: verdict where
  "PAGE_PARTIAL = (''DEGRADED'', ''PERFORMANCE_COMPONENT_ECONOMICS_PAGE_PARTIAL'')"

definition performance_component_economics_chunk_state_reason :: "economics_accumulator \<Rightarrow> verdict" where
  "performance_component_economics_chunk_state_reason acc =
     (let verdicts = pea_source_verdicts acc in
      if verdicts = [] then (''UNAVAILABLE'', ''PERFORMANCE_COMPONENT_ECONOMICS_UNAVAILABLE'')
      else case find (\<lambda>v. fst v = ''UNAVAILABLE'') verdicts of
          Some v \<Rightarrow> (''UNAVAILABLE'', snd v)
        | None \<Rightarrow>
            if fst (last verdicts) = ''READY'' \<and> list_all (\<lambda>v. v = PAGE_PARTIAL) (butlast verdicts)
              then (''READY'', snd (last verdicts))
            else if fst (last verdicts) = ''DEGRADED'' then (''UNAVAILABLE'', snd (last verdicts))
            else (''UNAVAILABLE'', ''PERFORMANCE_COMPONENT_ECONOMICS_UNAVAILABLE''))"

definition performance_component_economics_missing_families :: "economics_accumulator \<Rightarrow> string list" where
  "performance_component_economics_missing_families acc =
     (if pea_supported_component_families acc \<noteq> []
      then sorted_set (filter (\<lambda>f. f \<notin> set (pea_observed_component_families acc)) (pea_supported_component_families acc))
      else sorted_set (pea_missing_component_families acc))"

definition ECONOMICS_KEY_FIELDS :: "string list" where
  "ECONOMICS_KEY_FIELDS = [''security_id'', ''transaction_date'', ''transaction_id'']"

definition performance_component_economics_row_key :: "json_dict \<Rightarrow> (string \<times> string \<times> string) option" where
  "performance_component_economics_row_key row =
     (case (string_or_none row ''security_id'', string_or_none row ''transaction_date'', string_or_none row ''transaction_id'') of
        (Some security_id, Some transaction_date, Some transaction_id) \<Rightarrow> Some (security_id, transaction_date, transaction_id)
      | _ \<Rightarrow> None)"

definition dedup_performance_component_economics_rows :: "json_dict list \<Rightarrow> json_dict list" where
  "dedup_performance_component_economics_rows rows =
     List.map snd (sort_key (\<lambda>((a, b, c), row). [a, b, c]) (dict_update []
       (List.map_filter (\<lambda>row. map_option (\<lambda>k. (k, row)) (performance_component_economics_row_key row)) rows)))"

definition merge_performance_component_economics_lineage :: "json_dict list \<Rightarrow> json_dict" where
  "merge_performance_component_economics_lineage lineage_values =
     (let items = concat (List.map (List.map_filter (\<lambda>(key, value). map_option (Pair key) (nonempty_string_of value))) lineage_values)
      in List.map (\<lambda>key. (key, JStr (join_with '','' (sorted_set (List.map snd (filter (\<lambda>(k, v). k = key) items))))))
           (sorted_set (List.map fst items)))"

definition supportability_payload :: "verdict \<Rightarrow> economics_accumulator \<Rightarrow> int \<Rightarrow> int \<Rightarrow> json_dict" where
  "supportability_payload verdict acc ready_chunk_count unavailable_chunk_count =
     [(''state'', JStr (fst verdict)), (''reason'', JStr (snd verdict)), (''source_owner'', JStr ''lotus-core''),
      (''downstream_consumer'', JStr ''lotus-performance''), (''source_row_count'', JInt (pea_source_row_count acc)),
      (''ready_chunk_count'', JInt ready_chunk_count), (''unavailable_chunk_count'', JInt unavailable_chunk_count),
      (''supported_component_families'', json_strings (sorted_set (pea_supported_component_families acc))),
      (''observed_component_families'', json_strings (sorted_set (pea_observed_component_families acc))),
      (''missing_component_families'', json_strings (performance_component_economics_missing_families acc)),
      (''source_verdicts'', JList (List.map (\<lambda>(state, reason). JObj [(''state'', JStr state), (''reason'', JStr reason)])
         (pea_source_verdicts acc)))]"

definition build_performance_component_economics_chunk_payload ::
    "string \<Rightarrow> date \<Rightarrow> date_chunk \<Rightarrow> economics_accumulator \<Rightarrow> json_dict" where
  "build_performance_component_economics_chunk_payload portfolio_id as_of_date chunk acc =
     (let verdict = performance_component_economics_chunk_state_reason acc;
          ready = (fst verdict = ''READY'')
      in [(''product_name'', JStr ''PerformanceComponentEconomics''), (''product_version'', JStr ''v1''),
          (''portfolio_id'', JStr portfolio_id), (''as_of_date'', JStr (str_date as_of_date)),
          (''window'', JObj (window_payload chunk)),
          (''rows'', json_objects (dedup_performance_component_economics_rows (pea_rows acc))),
          (''lineage'', JObj (merge_performance_component_economics_lineage (pea_lineage_values acc))),
          (''request_fingerprints'', json_strings (sorted_set (pea_request_fingerprints acc))),
          (''supportability'', JObj (supportability_payload verdict acc (if ready then 1 else 0) (if ready then 0 else 1))),
          (''retrieval_metadata'', JObj [(''page_count'', JInt (pea_page_count acc))])])"

definition fetch_performance_component_economics_chunk ::
    "stateful_service \<Rightarrow> (date_chunk \<Rightarrow> nat \<Rightarrow> string option \<Rightarrow> response) \<Rightarrow> string \<Rightarrow> date \<Rightarrow> date_chunk \<Rightarrow> retrieval_state
      \<Rightarrow> response retrieval option" where
  "fetch_performance_component_economics_chunk s upstream portfolio_id as_of_date chunk st =
     map_option
       (\<lambda>(page_end, asked, sb).
          (Inr (case page_end of
                  Stopped response \<Rightarrow> response
                | Unhealthy token failure \<Rightarrow> (503, failure)
                | Complete acc \<Rightarrow> (200, build_performance_component_economics_chunk_payload portfolio_id as_of_date chunk acc)),
           st))
       (fetch_pages s chunk (upstream chunk) (\<lambda>token response sb. sb)
          (\<lambda>acc payload. map_option (Pair 502)
             (performance_component_economics_scope_failure payload portfolio_id as_of_date chunk (pea_page_count acc + 1)))
          record_performance_component_economics_payload pea_page_count None {} empty_economics [] ([], {}))"

section \<open>Series read once per chunk\<close>

text \<open>The snapshots of a gathered window, one per chunk, stored before its failures are looked at.\<close>

definition record_chunked_series_snapshots ::
    "stateful_service \<Rightarrow> uuid option \<Rightarrow> string \<Rightarrow> string \<Rightarrow> date \<Rightarrow> (date_chunk \<Rightarrow> json_dict) \<Rightarrow> date_chunk list
      \<Rightarrow> response list \<Rightarrow> string set \<Rightarrow> retrieval_state \<Rightarrow> (retrieval_error + unit) \<times> retrieval_state" where
  "record_chunked_series_snapshots s calculation_id upstream_endpoint source_identifier as_of_date request_payload chunks
       responses existing st =
     record_upstream_snapshot_batch s calculation_id
       (fold (\<lambda>(chunk, response). append_timeseries_snapshot_if_new s calculation_id upstream_endpoint source_identifier
                as_of_date (request_payload chunk) response)
          (zip chunks responses) ([], existing)) st"

definition retrieve_series ::
    "stateful_service \<Rightarrow> uuid option \<Rightarrow> string \<Rightarrow> string \<Rightarrow> date \<Rightarrow> (date_chunk \<Rightarrow> json_dict)
      \<Rightarrow> retrieval_error + date_chunk list \<Rightarrow> (date_chunk \<Rightarrow> retrieval_state \<Rightarrow> response retrieval option)
      \<Rightarrow> (response list \<Rightarrow> int \<Rightarrow> retrieval_error + json_dict) \<Rightarrow> retrieval_state \<Rightarrow> response retrieval option" where
  "retrieve_series s calculation_id upstream_endpoint source_identifier as_of_date request_payload plan fetcher build st =
     (let (existing, st1) = existing_snapshot_ids calculation_id st in
      case plan of
        Inl e \<Rightarrow> Some (Inl e, st1)
      | Inr chunks \<Rightarrow>
          map_option (\<lambda>(gathered, st2).
            (case gathered of
               Inl e \<Rightarrow> (Inl e, st2)
             | Inr responses \<Rightarrow>
                 (case record_chunked_series_snapshots s calculation_id upstream_endpoint source_identifier as_of_date
                         request_payload chunks responses existing st2 of
                    (Inl e, st3) \<Rightarrow> (Inl e, st3)
                  | (Inr _, st3) \<Rightarrow>
                      (case first_failure responses of
                         Some failure \<Rightarrow> Inr failure
                       | None \<Rightarrow> bind_res (build responses (int (length chunks))) (\<lambda>payload. Inr (200, payload)), st3))))
            (gather_chunked fetcher chunks st1))"

definition one_call :: "(date_chunk \<Rightarrow> response) \<Rightarrow> date_chunk \<Rightarrow> retrieval_state \<Rightarrow> response retrieval option" where
  "one_call core chunk st = Some (Inr (core chunk), st)"

definition chunk_metadata :: "int \<Rightarrow> json" where
  "chunk_metadata n = JObj [(''chunk_count'', JInt n), (''page_count'', JInt n)]"

text \<open>
  \<open>for item in payload.get(field, [])\<close> with the dictionaries kept: a text or an object has no dictionary
  among its items, and a null, a number or a truth value cannot be iterated.
\<close>

definition iterated_items :: "json_dict \<Rightarrow> string \<Rightarrow> retrieval_error + json_dict list" where
  "iterated_items payload field_name =
     (case dict_get payload field_name of
        None \<Rightarrow> Inr []
      | Some (JList items) \<Rightarrow> Inr (dict_items items)
      | Some (JStr t) \<Rightarrow> Inr []
      | Some (JObj d) \<Rightarrow> Inr []
      | Some _ \<Rightarrow> Inl TypeError)"

fun iterated_response_items :: "response list \<Rightarrow> string \<Rightarrow> retrieval_error + json_dict list" where
  "iterated_response_items [] field_name = Inr []"
| "iterated_response_items (r # rs) field_name =
     bind_res (iterated_items (snd r) field_name) (\<lambda>items.
     bind_res (iterated_response_items rs field_name) (\<lambda>more. Inr (items @ more)))"

definition merge_dedup_points_from_responses :: "response list \<Rightarrow> retrieval_error + json_dict list" where
  "merge_dedup_points_from_responses responses =
     bind_res (iterated_response_items responses ''points'') (\<lambda>points. Inr (merge_dedup_records points ''series_date''))"

definition points_payload :: "response list \<Rightarrow> int \<Rightarrow> retrieval_error + json_dict" where
  "points_payload responses n =
     bind_res (merge_dedup_points_from_responses responses) (\<lambda>points.
     Inr [(''points'', json_objects points), (''retrieval_metadata'', chunk_metadata n)])"

definition benchmark_return_series_request_payload :: "string \<Rightarrow> string \<Rightarrow> date_chunk \<Rightarrow> json_dict" where
  "benchmark_return_series_request_payload benchmark_id frequency chunk =
     (''benchmark_id'', JStr benchmark_id) # window_payload chunk @ [(''frequency'', JStr frequency)]"

definition get_benchmark_return_series ::
    "stateful_service \<Rightarrow> (date_chunk \<Rightarrow> response) \<Rightarrow> string \<Rightarrow> date \<Rightarrow> date \<Rightarrow> date \<Rightarrow> string \<Rightarrow> uuid option \<Rightarrow> retrieval_state
      \<Rightarrow> response retrieval option" where
  "get_benchmark_return_series s core benchmark_id as_of_date start_date end_date frequency calculation_id st =
     retrieve_series s calculation_id ''benchmark_return_series'' benchmark_id as_of_date
       (benchmark_return_series_request_payload benchmark_id frequency)
       (plan_chunks start_date end_date (ss_reference_chunk_days s)) (one_call core) points_payload st"

datatype points_request =
    IndexPriceSeries (ps_index_id: string) (ps_target_currency: "string option")
  | RiskFreeSeries (ps_currency: string) (ps_series_mode: string)

fun points_endpoint :: "points_request \<Rightarrow> string \<times> string" where
  "points_endpoint (IndexPriceSeries index_id target_currency) = (''index_price_series'', index_id)"
| "points_endpoint (RiskFreeSeries currency series_mode) = (''risk_free_series'', currency)"

fun points_request_payload :: "points_request \<Rightarrow> string \<Rightarrow> date_chunk \<Rightarrow> json_dict" where
  "points_request_payload (IndexPriceSeries index_id target_currency) frequency chunk =
     (''index_id'', JStr index_id) # window_payload chunk
       @ [(''frequency'', JStr frequency), (''target_currency'', json_opt target_currency)]"
| "points_request_payload (RiskFreeSeries currency series_mode) frequency chunk =
     (''currency'', JStr currency) # window_payload chunk
       @ [(''frequency'', JStr frequency), (''series_mode'', JStr series_mode)]"

definition get_chunked_points_series ::
    "stateful_service \<Rightarrow> (date_chunk \<Rightarrow> response) \<Rightarrow> points_request \<Rightarrow> date \<Rightarrow> date \<Rightarrow> date \<Rightarrow> string \<Rightarrow> uuid option
      \<Rightarrow> retrieval_state \<Rightarrow> response retrieval option" where
  "get_chunked_points_series s core request as_of_date start_date end_date frequency calculation_id st =
     retrieve_series s calculation_id (fst (points_endpoint request)) (snd (points_endpoint request)) as_of_date
       (points_request_payload request frequency) (plan_chunks start_date end_date (ss_reference_chunk_days s))
       (one_call core) points_payload st"

definition fx_point :: "json_dict \<Rightarrow> json_dict" where
  "fx_point rate =
     [(''series_date'', case dict_get rate ''rate_date'' of Some v \<Rightarrow> v | None \<Rightarrow> JNull),
      (''fx_rate'', case dict_get rate ''rate'' of Some v \<Rightarrow> v | None \<Rightarrow> JNull)]"

definition merge_dedup_fx_rates_from_responses :: "response list \<Rightarrow> retrieval_error + json_dict list" where
  "merge_dedup_fx_rates_from_responses responses =
     bind_res (iterated_response_items responses ''rates'') (\<lambda>rates.
     Inr (merge_dedup_records (List.map fx_point rates) ''series_date''))"

definition fx_rates_payload :: "response list \<Rightarrow> int \<Rightarrow> retrieval_error + json_dict" where
  "fx_rates_payload responses n =
     bind_res (merge_dedup_fx_rates_from_responses responses) (\<lambda>points.
     Inr [(''points'', json_objects points), (''retrieval_metadata'', chunk_metadata n)])"

definition fx_rates_request_payload :: "string \<Rightarrow> string \<Rightarrow> date_chunk \<Rightarrow> json_dict" where
  "fx_rates_request_payload from_currency to_currency chunk =
     [(''from_currency'', JStr from_currency), (''to_currency'', JStr to_currency)] @ window_payload chunk"

definition get_fx_rates ::
    "stateful_service \<Rightarrow> (date_chunk \<Rightarrow> response) \<Rightarrow> string \<Rightarrow> string \<Rightarrow> date \<Rightarrow> date \<Rightarrow> uuid option \<Rightarrow> retrieval_state
      \<Rightarrow> response retrieval option" where
  "get_fx_rates s core from_currency to_currency start_date end_date calculation_id st =
     retrieve_series s calculation_id ''fx_rates'' (from_currency @ ''/'' @ to_currency) end_date
       (fx_rates_request_payload from_currency to_currency)
       (plan_chunks start_date end_date (ss_reference_chunk_days s)) (one_call core) fx_rates_payload st"

section \<open>Benchmark market series\<close>

definition component_index_points :: "json \<Rightarrow> (string \<times> json_dict list) option" where
  "component_index_points component =
     (case component of
        JObj d \<Rightarrow> map_option (\<lambda>index_id. (index_id, dict_list_payload_items_from_payload d ''points'')) (string_value_of d ''index_id'')
      | _ \<Rightarrow> None)"

definition component_points_by_index :: "json_dict list \<Rightarrow> (string \<times> json_dict list) list" where
  "component_points_by_index payloads =
     fold (\<lambda>(index_id, points) merged.
             dict_put merged index_id ((case map_of merged index_id of Some ps \<Rightarrow> ps | None \<Rightarrow> []) @ points))
       (concat (List.map (\<lambda>payload. case dict_get payload ''component_series'' of
            Some (JList components) \<Rightarrow> List.map_filter component_index_points components | _ \<Rightarrow> []) payloads))
       []"

definition merge_component_series :: "json_dict list \<Rightarrow> json_dict list" where
  "merge_component_series payloads =
     List.map (\<lambda>(index_id, points).
         [(''index_id'', JStr index_id), (''points'', json_objects (merge_dedup_records points ''series_date''))])
       (sort_key fst (component_points_by_index payloads))"

definition benchmark_market_series_response_payload :: "response list \<Rightarrow> int \<Rightarrow> json_dict" where
  "benchmark_market_series_response_payload responses n =
     [(''component_series'', json_objects (merge_component_series (List.map snd responses))),
      (''retrieval_metadata'', chunk_metadata n)]"

definition benchmark_market_series_request_payload ::
    "string \<Rightarrow> string \<Rightarrow> string option \<Rightarrow> string list \<Rightarrow> date_chunk \<Rightarrow> json_dict" where
  "benchmark_market_series_request_payload benchmark_id frequency target_currency series_fields chunk =
     (''benchmark_id'', JStr benchmark_id) # window_payload chunk
       @ [(''frequency'', JStr frequency), (''target_currency'', json_opt target_currency),
          (''series_fields'', json_strings series_fields)]"

definition get_benchmark_market_series ::
    "stateful_service \<Rightarrow> (date_chunk \<Rightarrow> response) \<Rightarrow> string \<Rightarrow> date \<Rightarrow> date \<Rightarrow> date \<Rightarrow> string \<Rightarrow> string option
      \<Rightarrow> string list option \<Rightarrow> uuid option \<Rightarrow> retrieval_state \<Rightarrow> response retrieval option" where
  "get_benchmark_market_series s core benchmark_id as_of_date start_date end_date frequency target_currency series_fields
       calculation_id st =
     (let requested_fields = (case series_fields of
            Some (f # fs) \<Rightarrow> f # fs | _ \<Rightarrow> [''index_return'', ''component_weight''])
      in retrieve_series s calculation_id ''benchmark_market_series'' benchmark_id as_of_date
           (benchmark_market_series_request_payload benchmark_id frequency target_currency requested_fields)
           (plan_chunks start_date end_date (ss_reference_chunk_days s)) (one_call core)
           (\<lambda>responses n. Inr (benchmark_market_series_response_payload responses n)) st)"

section \<open>The economics of a window\<close>

definition verdict_items :: "json_dict list \<Rightarrow> verdict list" where
  "verdict_items verdicts =
     List.map_filter (\<lambda>v. case (string_or_none v ''state'', string_or_none v ''reason'') of
        (Some state, Some reason) \<Rightarrow> Some (state, reason) | _ \<Rightarrow> None) verdicts"

definition accumulate_chunk :: "economics_accumulator \<Rightarrow> response \<Rightarrow> economics_accumulator" where
  "accumulate_chunk acc response =
     (let payload = snd response;
          unavailable = acc\<lparr>pea_unavailable_chunk_count := pea_unavailable_chunk_count acc + 1\<rparr>
      in if fst response \<noteq> 200 then unavailable
         else case dict_get payload ''supportability'' of
           Some (JObj supportability) \<Rightarrow>
             (let is_ready = (dict_get supportability ''state'' = Some (JStr ''READY'')) in
              acc\<lparr>pea_source_verdicts := pea_source_verdicts acc
                    @ verdict_items (dict_list_payload_items_from_payload supportability ''source_verdicts''),
                  pea_ready_chunk_count := pea_ready_chunk_count acc + (if is_ready then 1 else 0),
                  pea_unavailable_chunk_count := pea_unavailable_chunk_count acc + (if is_ready then 0 else 1),
                  pea_source_row_count := pea_source_row_count acc
                    + (if is_ready then non_negative_int (dict_get supportability ''source_row_count'') else 0),
                  pea_observed_component_families := pea_observed_component_families acc
                    @ (if is_ready then string_list (dict_get supportability ''observed_component_families'') else []),
                  pea_supported_component_families := pea_supported_component_families acc
                    @ string_list (dict_get supportability ''supported_component_families''),
                  pea_missing_component_families := pea_missing_component_families acc
                    @ string_list (dict_get supportability ''missing_component_families''),
                  pea_rows := pea_rows acc @ dict_list_payload_items_from_payload payload ''rows'',
                  pea_page_count := pea_page_count acc + retrieval_page_count payload\<rparr>)
         | _ \<Rightarrow> unavailable)"

definition performance_component_economics_accumulator :: "response list \<Rightarrow> economics_accumulator" where
  "performance_component_economics_accumulator responses = foldl accumulate_chunk empty_economics responses"

definition performance_component_economics_supportability_state_reason :: "economics_accumulator \<Rightarrow> int \<Rightarrow> verdict" where
  "performance_component_economics_supportability_state_reason acc chunk_count =
     (let verdicts = pea_source_verdicts acc;
          changed_reason = ''PERFORMANCE_COMPONENT_ECONOMICS_PAGE_EVIDENCE_CHANGED''
      in if chunk_count > 0 \<and> pea_ready_chunk_count acc = chunk_count
         then (''READY'', if verdicts \<noteq> [] \<and> list_all (\<lambda>v. snd v = ''PERFORMANCE_COMPONENT_ECONOMICS_NO_ACTIVITY'') verdicts
                         then ''PERFORMANCE_COMPONENT_ECONOMICS_NO_ACTIVITY'' else ''PERFORMANCE_COMPONENT_ECONOMICS_READY'')
         else (''UNAVAILABLE'',
               if list_ex (\<lambda>v. snd v = changed_reason) verdicts then changed_reason
               else if pea_ready_chunk_count acc > 0 then ''PERFORMANCE_COMPONENT_ECONOMICS_PARTIAL''
               else ''PERFORMANCE_COMPONENT_ECONOMICS_UNAVAILABLE''))"

definition performance_component_economics_rows_from_responses :: "response list \<Rightarrow> json_dict list" where
  "performance_component_economics_rows_from_responses responses =
     dict_list_payload_items (filter (\<lambda>r. fst r = 200) responses) ''rows''"

definition performance_component_economics_lineage_from_responses :: "response list \<Rightarrow> json_dict" where
  "performance_component_economics_lineage_from_responses responses =
     merge_performance_component_economics_lineage
       (List.map_filter (\<lambda>r. if fst r \<noteq> 200 then None
          else case dict_get (snd r) ''lineage'' of Some (JObj lineage) \<Rightarrow> Some lineage | _ \<Rightarrow> None) responses)"

definition performance_component_economics_request_fingerprints :: "response list \<Rightarrow> string list" where
  "performance_component_economics_request_fingerprints responses =
     sorted_set (concat (List.map (\<lambda>r. string_list (dict_get (snd r) ''request_fingerprints'')
         @ (case string_or_none (snd r) ''request_fingerprint'' of Some f \<Rightarrow> [f] | None \<Rightarrow> []))
       (filter (\<lambda>r. fst r = 200) responses)))"

text \<open>The payload of a window, but for its \<open>component_totals\<close>.\<close>

definition build_performance_component_economics_payload ::
    "(json \<Rightarrow> json \<Rightarrow> bool) \<Rightarrow> string \<Rightarrow> date \<Rightarrow> date \<Rightarrow> date \<Rightarrow> response list \<Rightarrow> int \<Rightarrow> json_dict" where
  "build_performance_component_economics_payload num portfolio_id as_of_date start_date end_date responses chunk_count =
     (let acc = performance_component_economics_accumulator responses in
      [(''product_name'', JStr ''PerformanceComponentEconomics''), (''product_version'', JStr ''v1''),
       (''portfolio_id'', JStr portfolio_id), (''as_of_date'', JStr (str_date as_of_date)),
       (''window'', JObj (window_payload \<lparr>dc_start_date = start_date, dc_end_date = end_date\<rparr>)),
       (''rows'', json_objects (merge_dedup_records_by_fields num
          (performance_component_economics_rows_from_responses responses) ECONOMICS_KEY_FIELDS)),
       (''component_totals_scope'', JStr ''consumed_pages''),
       (''supportability'', JObj (supportability_payload
          (performance_component_economics_supportability_state_reason acc chunk_count) acc
          (pea_ready_chunk_count acc) (pea_unavailable_chunk_count acc))),
       (''lineage'', JObj (performance_component_economics_lineage_from_responses responses)),
       (''request_fingerprints'', json_strings (performance_component_economics_request_fingerprints responses)),
       (''retrieval_metadata'', JObj [(''chunk_count'', JInt chunk_count),
          (''page_count'', JInt (total_retrieval_page_count responses))])])"

definition performance_component_economics_request_payload ::
    "string \<Rightarrow> string list \<Rightarrow> string list \<Rightarrow> date_chunk \<Rightarrow> json_dict" where
  "performance_component_economics_request_payload portfolio_id security_ids transaction_types chunk =
     (''portfolio_id'', JStr portfolio_id) # window_payload chunk
       @ [(''security_ids'', json_strings (sorted_set security_ids)),
          (''transaction_types'', json_strings (sorted_set transaction_types))]"

definition get_performance_component_economics ::
    "stateful_service \<Rightarrow> (date_chunk \<Rightarrow> nat \<Rightarrow> string option \<Rightarrow> response) \<Rightarrow> string \<Rightarrow> date \<Rightarrow> date \<Rightarrow> date \<Rightarrow> string list
      \<Rightarrow> string list \<Rightarrow> uuid option \<Rightarrow> retrieval_state \<Rightarrow> response retrieval option" where
  "get_performance_component_economics s upstream portfolio_id as_of_date start_date end_date security_ids transaction_types
       calculation_id st =
     retrieve_series s calculation_id ''performance_component_economics'' portfolio_id as_of_date
       (performance_component_economics_request_payload portfolio_id security_ids transaction_types)
       (plan_chunks start_date end_date 366)
       (fetch_performance_component_economics_chunk s upstream portfolio_id as_of_date)
       (\<lambda>responses n. Inr (build_performance_component_economics_payload (ss_same_number s) portfolio_id as_of_date
          start_date end_date responses n)) st"

section \<open>Single answers\<close>

definition record_single_response_snapshot ::
    "stateful_service \<Rightarrow> uuid option \<Rightarrow> string \<Rightarrow> string \<Rightarrow> date \<Rightarrow> json_dict \<Rightarrow> response \<Rightarrow> retrieval_state
      \<Rightarrow> (retrieval_error + unit) \<times> retrieval_state" where
  "record_single_response_snapshot s calculation_id upstream_endpoint source_identifier as_of_date request_payload response st =
     (case calculation_id of
        None \<Rightarrow> (Inr (), st)
      | Some k \<Rightarrow>
          (let snapshot_id = fst (build_snapshot_identity s k upstream_endpoint source_identifier request_payload);
               (existing, st1) = existing_snapshot_ids calculation_id st
           in if snapshot_id \<in> existing then (Inr (), st1)
              else case record_upstream_snapshots k
                       [build_snapshot s k upstream_endpoint source_identifier as_of_date request_payload response]
                       (ss_clock s) (rv_db st1) of
                  Inl e \<Rightarrow> (Inl (SnapshotFailure e), st1)
                | Inr (_, db) \<Rightarrow>
                    (Inr (), st1\<lparr>rv_db := db, rv_cache := (rv_cache st1)(k \<mapsto> insert snapshot_id existing)\<rparr>)))"

datatype reference_request = PortfolioReference string | BenchmarkDefinition string

fun reference_endpoint :: "reference_request \<Rightarrow> string \<times> string \<times> string" where
  "reference_endpoint (PortfolioReference portfolio_id) = (''portfolio_reference'', portfolio_id, ''portfolio_id'')"
| "reference_endpoint (BenchmarkDefinition benchmark_id) = (''benchmark_definition'', benchmark_id, ''benchmark_id'')"

definition get_single_reference_payload ::
    "stateful_service \<Rightarrow> (reference_request \<Rightarrow> response) \<Rightarrow> reference_request \<Rightarrow> date \<Rightarrow> uuid option \<Rightarrow> retrieval_state
      \<Rightarrow> response retrieval" where
  "get_single_reference_payload s core request as_of_date calculation_id st =
     (let (upstream_endpoint, source_identifier, field_name) = reference_endpoint request in
      answer_after
        (record_single_response_snapshot s calculation_id upstream_endpoint source_identifier as_of_date
           [(field_name, JStr source_identifier), (''as_of_date'', JStr (str_date as_of_date))] (core request) st)
        (core request))"

definition get_benchmark_assignment ::
    "stateful_service \<Rightarrow> response \<Rightarrow> string \<Rightarrow> date \<Rightarrow> string option \<Rightarrow> uuid option \<Rightarrow> retrieval_state \<Rightarrow> response retrieval" where
  "get_benchmark_assignment s answer portfolio_id as_of_date reporting_currency calculation_id st =
     answer_after
       (record_single_response_snapshot s calculation_id ''benchmark_assignment'' portfolio_id as_of_date
          [(''portfolio_id'', JStr portfolio_id), (''reporting_currency'', json_opt reporting_currency)] answer st)
       answer"

definition get_benchmark_composition_window ::
    "stateful_service \<Rightarrow> response \<Rightarrow> string \<Rightarrow> date_chunk \<Rightarrow> uuid option \<Rightarrow> retrieval_state \<Rightarrow> response retrieval" where
  "get_benchmark_composition_window s answer benchmark_id window calculation_id st =
     answer_after
       (record_single_response_snapshot s calculation_id ''benchmark_composition_window'' benchmark_id (dc_end_date window)
          ((''benchmark_id'', JStr benchmark_id) # window_payload window) answer st)
       answer"

definition get_index_catalog ::
    "stateful_service \<Rightarrow> response \<Rightarrow> date \<Rightarrow> string list \<Rightarrow> uuid option \<Rightarrow> retrieval_state \<Rightarrow> response retrieval" where
  "get_index_catalog s answer as_of_date index_ids calculation_id st =
     (let sorted_index_ids = sorted_set index_ids;
          source_identifier = (if sorted_index_ids \<noteq> [] then join_with ''|'' sorted_index_ids else ''all_indices'')
      in answer_after
           (record_single_response_snapshot s calculation_id ''index_catalog'' source_identifier as_of_date
              [(''as_of_date'', JStr (str_date as_of_date)), (''index_ids'', json_strings sorted_index_ids)] answer st)
           answer)"

end
