(* ===== verification/Stateful_Safety.thy ===== *)
theory Stateful_Safety
  imports Stateful_Inputs
begin

text \<open>
  What retrieval guarantees whatever the upstream answers: it ends, asks for each cursor once and
  within its bound, covers the window, loses no observation it does not report, and lets in no
  row of another portfolio.
\<close>

section \<open>The loop over pages\<close>

lemma token_at_page_limit:
  "page_traversal_failure_payload s chunk n t seen = None \<longleftrightarrow> t \<notin> seen \<and> n < ss_max_pages_per_chunk s"
  by (auto simp: page_traversal_failure_payload_def Let_def)

text \<open>
  What a chunk holds: the pages that follow from the first cursor to the page without a cursor,
  answered without an error.
\<close>

fun page_chain :: "(nat \<Rightarrow> string option \<Rightarrow> response) \<Rightarrow> nat \<Rightarrow> string option \<Rightarrow> json_dict list \<Rightarrow> bool" where
  "page_chain ask n t [] = False"
| "page_chain ask n t (p # ps) =
     (snd (ask n t) = p \<and> fst (ask n t) < 400
      \<and> (if ps = [] then next_page_token p = None else next_page_token p \<noteq> None \<and> page_chain ask (Suc n) (next_page_token p) ps))"

fun admitted_pages :: "('a \<Rightarrow> json_dict \<Rightarrow> response option) \<Rightarrow> ('a \<Rightarrow> json_dict \<Rightarrow> 'a) \<Rightarrow> 'a \<Rightarrow> json_dict list \<Rightarrow> bool" where
  "admitted_pages refuse record_page acc [] = True"
| "admitted_pages refuse record_page acc (p # ps) = (refuse acc p = None \<and> admitted_pages refuse record_page (record_page acc p) ps)"

lemma page_chain_Nil: "page_chain ask n t ps \<Longrightarrow> ps \<noteq> []"
  by (cases ps) auto

text \<open>How one turn of the loop ends.\<close>

lemma fetch_pages_cases:
  assumes run: "fetch_pages s chunk ask note refuse record_page page_count t seen acc asked sb = Some (page_end, trace, sb')"
  obtains (halted) "trace = asked @ [t]" "\<And>acc'. page_end \<noteq> Complete acc'"
      "\<And>r. page_end = Stopped r \<Longrightarrow> 400 \<le> fst r \<or> (\<exists>a p. refuse a p = Some r)"
  | (complete) "fst (ask (length asked) t) < 400" "refuse acc (snd (ask (length asked) t)) = None"
      "next_page_token (snd (ask (length asked) t)) = None" "trace = asked @ [t]"
      "page_end = Complete (record_page acc (snd (ask (length asked) t)))"
  | (further) u where "fst (ask (length asked) t) < 400" "refuse acc (snd (ask (length asked) t)) = None"
      "next_page_token (snd (ask (length asked) t)) = Some u" "u \<notin> seen"
      "page_count (record_page acc (snd (ask (length asked) t))) < ss_max_pages_per_chunk s"
      "fetch_pages s chunk ask note refuse record_page page_count (Some u) (insert u seen)
         (record_page acc (snd (ask (length asked) t))) (asked @ [t]) (note t (ask (length asked) t) sb)
       = Some (page_end, trace, sb')"
proof -
  let ?r = "ask (length asked) t"
  let ?c = "page_count (record_page acc (snd ?r))"
  note turn = run [unfolded fetch_pages.simps [of s chunk ask "note" refuse record_page page_count t seen acc asked sb] Let_def]
  show ?thesis
  proof (cases "400 \<le> fst ?r \<or> refuse acc (snd ?r) \<noteq> None")
    case True
    then show ?thesis
      using turn option.collapse [of "refuse acc (snd ?r)"] by (intro halted) (auto simp del: not_None_eq split: if_splits)
  next
    case ok: False
    show ?thesis
    proof (cases "next_page_token (snd ?r)")
      case None
      then show ?thesis using turn ok by (intro complete) (auto simp del: not_None_eq)
    next
      case (Some u)
      show ?thesis
      proof (cases "page_traversal_failure_payload s chunk ?c u seen = None")
        case True
        then have free: "u \<notin> seen" "?c < ss_max_pages_per_chunk s" by (simp_all add: token_at_page_limit)
        show ?thesis using turn ok Some True by (intro further [OF _ _ Some free]) (auto simp del: not_None_eq)
      next
        case False
        then show ?thesis using turn ok Some by (intro halted) (auto simp del: not_None_eq)
      qed
    qed
  qed
qed

text \<open>What the three sources owe the loop: every page they record is counted.\<close>

locale page_source =
  fixes record_page :: "'a \<Rightarrow> json_dict \<Rightarrow> 'a" and page_count :: "'a \<Rightarrow> int"
  assumes count: "page_count (record_page acc p) = page_count acc + 1"
begin

lemma fetch_pages_returns:
  "\<exists>r. fetch_pages s chunk ask note refuse record_page page_count t seen acc asked sb = Some r"
proof (induction "nat (ss_max_pages_per_chunk s - page_count acc)" arbitrary: t seen acc asked sb)
  case 0
  then have "ss_max_pages_per_chunk s \<le> page_count acc" by simp
  then show ?case by (subst fetch_pages.simps) (auto simp: Let_def token_at_page_limit count)
next
  case (Suc n)
  then have step: "n = nat (ss_max_pages_per_chunk s - page_count (record_page acc p))" for p by (simp add: count)
  note ih = Suc.hyps(1) [OF step]
  show ?case
    by (subst fetch_pages.simps) (auto simp: Let_def simp del: split_paired_Ex intro: ih)
qed

lemma fetch_pages_log:
  assumes run: "fetch_pages s chunk ask note refuse record_page page_count t seen acc asked sb = Some (page_end, trace, sb')"
  shows "\<exists>more. trace = asked @ t # more \<and> int (length more) < max 1 (ss_max_pages_per_chunk s - page_count acc)
           \<and> distinct more \<and> set more \<inter> Some ` seen = {} \<and> None \<notin> set more
           \<and> (\<forall>acc'. page_end = Complete acc' \<longrightarrow>
                (\<exists>pages. page_chain ask (length asked) t pages \<and> acc' = foldl record_page acc pages
                   \<and> admitted_pages refuse record_page acc pages \<and> length pages = Suc (length more)))
           \<and> (\<forall>r. page_end = Stopped r \<longrightarrow> 400 \<le> fst r \<or> (\<exists>a p. refuse a p = Some r))"
  using run
proof (induction "nat (ss_max_pages_per_chunk s - page_count acc)" arbitrary: t seen acc asked sb rule: less_induct)
  case less
  let ?r = "ask (length asked) t"
  from less.prems show ?case
  proof (cases rule: fetch_pages_cases)
    case halted
    then show ?thesis by (intro exI [of _ "[]"]) auto
  next
    case complete
    then show ?thesis by (intro exI [of _ "[]"]) (auto intro!: exI [of _ "[snd ?r]"])
  next
    case (further u)
    have "nat (ss_max_pages_per_chunk s - page_count (record_page acc (snd ?r))) < nat (ss_max_pages_per_chunk s - page_count acc)"
      using further(5) by (simp add: count)
    from less.hyps [OF this further(6)] obtain more where m: "trace = (asked @ [t]) @ Some u # more"
        "int (length more) < max 1 (ss_max_pages_per_chunk s - (page_count acc + 1))" "distinct more"
        "set more \<inter> Some ` insert u seen = {}" "None \<notin> set more"
      and fin: "\<And>acc'. page_end = Complete acc' \<Longrightarrow>
            (\<exists>pages. page_chain ask (length (asked @ [t])) (Some u) pages \<and> acc' = foldl record_page (record_page acc (snd ?r)) pages
               \<and> admitted_pages refuse record_page (record_page acc (snd ?r)) pages \<and> length pages = Suc (length more))"
      and stop: "\<And>r. page_end = Stopped r \<Longrightarrow> 400 \<le> fst r \<or> (\<exists>a p. refuse a p = Some r)"
      unfolding count by blast
    have whole: "\<exists>pages. page_chain ask (length asked) t pages \<and> acc' = foldl record_page acc pages
           \<and> admitted_pages refuse record_page acc pages \<and> length pages = Suc (length (Some u # more))"
      if c: "page_end = Complete acc'" for acc'
    proof -
      from fin [OF c] obtain pages where p: "page_chain ask (Suc (length asked)) (Some u) pages"
          "acc' = foldl record_page (record_page acc (snd ?r)) pages"
          "admitted_pages refuse record_page (record_page acc (snd ?r)) pages" "length pages = Suc (length more)" by auto
      then show ?thesis using further(1-3) page_chain_Nil [OF p(1)] by (intro exI [of _ "snd ?r # pages"]) auto
    qed
    have "int (length (Some u # more)) < max 1 (ss_max_pages_per_chunk s - page_count acc)"
      using m(2) further(5) by (simp add: count)
    then show ?thesis using m further(4) whole stop by (intro exI [of _ "Some u # more"]) auto
  qed
qed

text \<open>
  The loop sees the upstream only through the requests of its log: with the same answers to those it
  takes the same course, whatever snapshots were there before.
\<close>

lemma fetch_pages_agrees:
  assumes run: "fetch_pages s chunk ask note refuse record_page page_count t seen acc asked sb = Some (page_end, trace, sb')"
    and agree: "\<forall>n < length trace. ask' n (trace ! n) = ask n (trace ! n)"
  shows "\<exists>sb2'. fetch_pages s chunk ask' note refuse record_page page_count t seen acc asked sb2 = Some (page_end, trace, sb2')
    \<and> (sb2 = sb \<longrightarrow> sb2' = sb')"
  using run
proof (induction "nat (ss_max_pages_per_chunk s - page_count acc)" arbitrary: t seen acc asked sb sb2 rule: less_induct)
  case less
  let ?r = "ask (length asked) t"
  obtain more where "trace = asked @ t # more" using fetch_pages_log [OF less.prems] by blast
  then have same: "ask' (length asked) t = ?r" using agree by (auto dest: spec [of _ "length asked"])
  let ?halts = "400 \<le> fst ?r \<or> refuse acc (snd ?r) \<noteq> None \<or> next_page_token (snd ?r) = None
    \<or> page_traversal_failure_payload s chunk (page_count (record_page acc (snd ?r))) (the (next_page_token (snd ?r))) seen \<noteq> None"
  note turn = less.prems [unfolded fetch_pages.simps [of s chunk ask "note" refuse record_page page_count t seen acc asked sb] Let_def]
  note turn' = fetch_pages.simps [of s chunk ask' "note" refuse record_page page_count t seen acc asked sb2, unfolded Let_def same]
  show ?case
  proof (cases ?halts)
    case True
    then show ?thesis using turn unfolding turn' by (auto simp del: not_None_eq split_paired_Ex split: if_splits)
  next
    case False
    let ?acc = "record_page acc (snd ?r)" and ?u = "the (next_page_token (snd ?r))"
    from False have "page_count acc < ss_max_pages_per_chunk s" by (simp add: token_at_page_limit count)
    then have smaller: "nat (ss_max_pages_per_chunk s - page_count ?acc) < nat (ss_max_pages_per_chunk s - page_count acc)"
      by (simp add: count)
    from False turn have "fetch_pages s chunk ask note refuse record_page page_count (Some ?u) (insert ?u seen) ?acc
        (asked @ [t]) (note t ?r sb) = Some (page_end, trace, sb')" by (simp del: not_None_eq)
    from less.hyps [OF smaller this] show ?thesis
      using False unfolding turn' by (simp del: not_None_eq) blast
  qed
qed

lemma loop_requests:
  assumes "page_count acc = 0"
  shows "\<exists>asked. distinct asked \<and> int (length asked) \<le> max 1 (ss_max_pages_per_chunk s)
    \<and> (\<forall>ask'. (\<forall>n < length asked. ask' n (asked ! n) = ask n (asked ! n)) \<longrightarrow>
         (\<forall>sb. fetch_pages s chunk ask' note refuse record_page page_count None {} acc [] sb
             = fetch_pages s chunk ask note refuse record_page page_count None {} acc [] sb))"
proof -
  obtain page_end asked sb' where run:
    "fetch_pages s chunk ask note refuse record_page page_count None {} acc [] ([], {}) = Some (page_end, asked, sb')"
    using fetch_pages_returns by (metis prod_cases3)
  from fetch_pages_log [OF run] assms have log: "distinct asked" "int (length asked) \<le> max 1 (ss_max_pages_per_chunk s)" by auto
  have "fetch_pages s chunk ask' note refuse record_page page_count None {} acc [] sb
      = fetch_pages s chunk ask note refuse record_page page_count None {} acc [] sb"
    if "\<forall>n < length asked. ask' n (asked ! n) = ask n (asked ! n)" for ask' sb
  proof -
    obtain sb2 where any: "fetch_pages s chunk ask note refuse record_page page_count None {} acc [] sb = Some (page_end, asked, sb2)"
      using fetch_pages_agrees [OF run, of ask] by blast
    from fetch_pages_agrees [where ask = ask and ask' = ask' and sb = sb, OF any that, of sb] any
    show ?thesis by auto
  qed
  with log show ?thesis by blast
qed

lemma chunk_requests:
  assumes "page_count acc = 0"
    and reads: "\<And>upstream. fetcher upstream = (\<lambda>st. finish st
        (fetch_pages s chunk (upstream chunk) remark refuse record_page page_count None {} acc [] (noted st)))"
  shows "\<exists>asked. distinct asked \<and> int (length asked) \<le> max 1 (ss_max_pages_per_chunk s)
    \<and> (\<forall>upstream'. (\<forall>n < length asked. upstream' chunk n (asked ! n) = upstream chunk n (asked ! n)) \<longrightarrow>
         fetcher upstream' = fetcher upstream)"
proof -
  from loop_requests [OF assms(1), of s "upstream chunk" chunk remark refuse] obtain asked where asked:
    "distinct asked" "int (length asked) \<le> max 1 (ss_max_pages_per_chunk s)"
    "\<And>ask' sb. \<forall>n < length asked. ask' n (asked ! n) = upstream chunk n (asked ! n) \<Longrightarrow>
       fetch_pages s chunk ask' remark refuse record_page page_count None {} acc [] sb
         = fetch_pages s chunk (upstream chunk) remark refuse record_page page_count None {} acc [] sb"
    by blast
  have "fetcher upstream' = fetcher upstream"
    if "\<forall>n < length asked. upstream' chunk n (asked ! n) = upstream chunk n (asked ! n)" for upstream'
    unfolding reads by (simp only: asked(3) [where ask' = "upstream' chunk", OF that])
  with asked(1,2) show ?thesis by (intro exI [of _ asked]) blast
qed

end

interpretation portfolio_pages: page_source record_portfolio_chunk_payload pca_page_count
  by unfold_locales (simp add: record_portfolio_chunk_payload_def)

interpretation position_pages: page_source record_position_chunk_payload poa_page_count
  by unfold_locales (simp add: record_position_chunk_payload_def split: option.splits json.splits)

interpretation economics_pages: page_source record_performance_component_economics_payload pea_page_count
  by unfold_locales (simp add: record_performance_component_economics_payload_def Let_def split: option.splits json.splits)

section \<open>Retrieval ends\<close>

lemma map_option_returns: "\<exists>r. x = Some r \<Longrightarrow> \<exists>r. map_option f x = Some r"
  by auto

lemma chunks_return:
  "\<exists>r. fetch_portfolio_chunk s upstream portfolio_id as_of_date rc consumer calculation_id chunk st = Some r"
  "\<exists>r. fetch_position_chunk s upstream portfolio_id as_of_date rc consumer query calculation_id chunk st = Some r"
  "\<exists>r. fetch_performance_component_economics_chunk s upstream portfolio_id as_of_date chunk st = Some r"
  unfolding fetch_portfolio_chunk_def fetch_position_chunk_def fetch_performance_component_economics_chunk_def
    Let_def case_prod_beta
  by (intro map_option_returns portfolio_pages.fetch_pages_returns position_pages.fetch_pages_returns
      economics_pages.fetch_pages_returns)+

lemma gather_returns: "(\<And>c st. \<exists>r. fetcher c st = Some r) \<Longrightarrow> \<exists>r. gather_chunked fetcher chunks st = Some r"
proof (induction chunks arbitrary: st)
  case (Cons c cs)
  obtain a st1 where r: "fetcher c st = Some (a, st1)" using Cons.prems [of c st] by auto
  obtain b st2 where "gather_chunked fetcher cs st1 = Some (b, st2)" using Cons.IH [OF Cons.prems, of st1] by auto
  then show ?case using r by (cases a; cases b) auto
qed simp

lemma window_returns: "(\<And>c st. \<exists>r. fetcher c st = Some r) \<Longrightarrow> \<exists>r. retrieve_window plan fetcher build st = Some r"
  using gather_returns [of fetcher] by (auto simp: retrieve_window_def split: sum.splits simp del: split_paired_Ex)

lemma series_returns:
  "(\<And>c st. \<exists>r. fetcher c st = Some r) \<Longrightarrow>
   \<exists>r. retrieve_series s calculation_id endpoint source as_of_date payload plan fetcher build st = Some r"
  using gather_returns [of fetcher]
  by (auto simp: retrieve_series_def Let_def case_prod_beta split: sum.splits simp del: split_paired_Ex)

text \<open>
  What reading costs, seen from the upstream: there is for every chunk a list of cursors, none of
  them twice and no more than the bound, such that the reading depends on nothing of the upstream but
  its answers to these cursors, asked in this order.
\<close>

definition bounded_requests ::
    "int \<Rightarrow> ((date_chunk \<Rightarrow> nat \<Rightarrow> string option \<Rightarrow> response) \<Rightarrow> 'r) \<Rightarrow> (date_chunk \<Rightarrow> nat \<Rightarrow> string option \<Rightarrow> response) \<Rightarrow> bool" where
  "bounded_requests bound read_with upstream \<longleftrightarrow>
     (\<exists>asked. (\<forall>chunk. distinct (asked chunk) \<and> int (length (asked chunk)) \<le> max 1 bound)
       \<and> (\<forall>upstream'. (\<forall>chunk. \<forall>n < length (asked chunk).
              upstream' chunk n (asked chunk ! n) = upstream chunk n (asked chunk ! n)) \<longrightarrow>
            read_with upstream' = read_with upstream))"

lemma bounded_requests_chunks:
  assumes chunks: "\<And>chunk. \<exists>asked. distinct asked \<and> int (length asked) \<le> max 1 bound
      \<and> (\<forall>upstream'. (\<forall>n < length asked. upstream' chunk n (asked ! n) = upstream chunk n (asked ! n)) \<longrightarrow>
           fetcher upstream' chunk = fetcher upstream chunk)"
    and whole: "\<And>upstream'. fetcher upstream' = fetcher upstream \<Longrightarrow> read_with upstream' = read_with upstream"
  shows "bounded_requests bound read_with upstream"
proof -
  from chunks obtain asked where asked: "\<And>chunk. distinct (asked chunk) \<and> int (length (asked chunk)) \<le> max 1 bound
      \<and> (\<forall>upstream'. (\<forall>n < length (asked chunk). upstream' chunk n (asked chunk ! n) = upstream chunk n (asked chunk ! n)) \<longrightarrow>
           fetcher upstream' chunk = fetcher upstream chunk)" by metis
  have "read_with upstream' = read_with upstream"
    if "\<forall>chunk. \<forall>n < length (asked chunk). upstream' chunk n (asked chunk ! n) = upstream chunk n (asked chunk ! n)" for upstream'
    using that asked by (intro whole ext [of "fetcher upstream'"]) blast
  with asked show ?thesis unfolding bounded_requests_def by (intro exI [of _ asked]) blast
qed

lemma portfolio_chunk_requests:
  "\<exists>asked. distinct asked \<and> int (length asked) \<le> max 1 (ss_max_pages_per_chunk s)
    \<and> (\<forall>upstream'. (\<forall>n < length asked. upstream' chunk n (asked ! n) = upstream chunk n (asked ! n)) \<longrightarrow>
         fetch_portfolio_chunk s upstream' portfolio_id as_of_date rc consumer calculation_id chunk = fetch_portfolio_chunk s upstream portfolio_id as_of_date rc consumer calculation_id chunk)"
  by (rule portfolio_pages.chunk_requests [where acc = "\<lparr>pca_observations = [], pca_portfolio_open_date = None,
             pca_portfolio_currency = None, pca_reporting_currency = None, pca_page_count = 0\<rparr>"
        and remark = "\<lambda>token. append_timeseries_snapshot_if_new s calculation_id ''portfolio_timeseries'' portfolio_id
             as_of_date (portfolio_timeseries_request_payload portfolio_id chunk rc consumer token)"
        and refuse = "\<lambda>acc payload. None" and fetcher = "\<lambda>upstream. fetch_portfolio_chunk s upstream portfolio_id as_of_date rc consumer calculation_id chunk" and noted = "\<lambda>st. ([], fst (existing_snapshot_ids calculation_id st))"
        and finish = "\<lambda>st. map_option (finish_chunk s calculation_id ''portfolio_timeseries'' portfolio_id as_of_date
             (portfolio_timeseries_request_payload portfolio_id chunk rc consumer) build_portfolio_chunk_payload
             (snd (existing_snapshot_ids calculation_id st)))"])
    (simp_all add: fetch_portfolio_chunk_def fun_eq_iff Let_def case_prod_beta)

lemma position_chunk_requests:
  "\<exists>asked. distinct asked \<and> int (length asked) \<le> max 1 (ss_max_pages_per_chunk s)
    \<and> (\<forall>upstream'. (\<forall>n < length asked. upstream' chunk n (asked ! n) = upstream chunk n (asked ! n)) \<longrightarrow>
         fetch_position_chunk s upstream' portfolio_id as_of_date rc consumer query calculation_id chunk = fetch_position_chunk s upstream portfolio_id as_of_date rc consumer query calculation_id chunk)"
  by (rule position_pages.chunk_requests [where acc = "\<lparr>poa_rows = [], poa_page_count = 0, poa_source_row_count = 0, poa_discarded_source_row_count = 0\<rparr>"
        and remark = "\<lambda>token. append_timeseries_snapshot_if_new s calculation_id ''position_timeseries'' portfolio_id
             as_of_date (position_timeseries_request_payload portfolio_id chunk rc consumer (fst query) (fst (snd query))
               (snd (snd query)) token)"
        and refuse = "\<lambda>acc payload. None" and fetcher = "\<lambda>upstream. fetch_position_chunk s upstream portfolio_id as_of_date rc consumer query calculation_id chunk" and noted = "\<lambda>st. ([], fst (existing_snapshot_ids calculation_id st))"
        and finish = "\<lambda>st. map_option (finish_chunk s calculation_id ''position_timeseries'' portfolio_id as_of_date
             (position_timeseries_request_payload portfolio_id chunk rc consumer (fst query) (fst (snd query)) (snd (snd query)))
             (build_position_chunk_payload (ss_same_number s)) (snd (existing_snapshot_ids calculation_id st)))"])
    (simp_all add: fetch_position_chunk_def fun_eq_iff Let_def case_prod_beta)

lemma economics_chunk_requests:
  "\<exists>asked. distinct asked \<and> int (length asked) \<le> max 1 (ss_max_pages_per_chunk s)
    \<and> (\<forall>upstream'. (\<forall>n < length asked. upstream' chunk n (asked ! n) = upstream chunk n (asked ! n)) \<longrightarrow>
         fetch_performance_component_economics_chunk s upstream' portfolio_id as_of_date chunk = fetch_performance_component_economics_chunk s upstream portfolio_id as_of_date chunk)"
  by (rule economics_pages.chunk_requests [where acc = "empty_economics"
        and remark = "\<lambda>token response sb. sb"
        and refuse = "\<lambda>acc payload. map_option (Pair 502)
             (performance_component_economics_scope_failure payload portfolio_id as_of_date chunk (pea_page_count acc + 1))" and fetcher = "\<lambda>upstream. fetch_performance_component_economics_chunk s upstream portfolio_id as_of_date chunk" and noted = "\<lambda>st. ([], {})"
        and finish = "\<lambda>st. map_option (\<lambda>(page_end, asked, sb). (Inr (case page_end of Stopped response \<Rightarrow> response
               | Unhealthy token failure \<Rightarrow> (503, failure)
               | Complete acc \<Rightarrow> (200, build_performance_component_economics_chunk_payload portfolio_id as_of_date chunk acc)), st))"])
    (simp_all add: fetch_performance_component_economics_chunk_def empty_economics_def fun_eq_iff Let_def case_prod_beta)

text \<open>C8: Whatever the upstream answers, reading a window ends: the timeseries of a portfolio, of
  its positions and its component economics return. Each of the three reads costs at most
  \<open>max_pages_per_chunk\<close> requests for a chunk (one, if the bound is not positive) and asks no cursor
  twice for it: what it returns and leaves in the stores depends only on the answers to that many
  different cursors.\<close>

theorem retrieval_terminates:
  "(\<exists>r. get_portfolio_timeseries s upstream portfolio_id as_of_date start_date end_date rc consumer calculation_id st = Some r)
   \<and> (\<exists>r. get_position_timeseries s upstream portfolio_id as_of_date start_date end_date rc consumer query calculation_id st = Some r)
   \<and> (\<exists>r. get_performance_component_economics s upstream portfolio_id as_of_date start_date end_date security_ids
          transaction_types calculation_id st = Some r)
   \<and> bounded_requests (ss_max_pages_per_chunk s) (\<lambda>upstream.
        get_portfolio_timeseries s upstream portfolio_id as_of_date start_date end_date rc consumer calculation_id st) upstream
   \<and> bounded_requests (ss_max_pages_per_chunk s) (\<lambda>upstream.
        get_position_timeseries s upstream portfolio_id as_of_date start_date end_date rc consumer query calculation_id st) upstream
   \<and> bounded_requests (ss_max_pages_per_chunk s) (\<lambda>upstream.
        get_performance_component_economics s upstream portfolio_id as_of_date start_date end_date security_ids
          transaction_types calculation_id st) upstream"
proof (intro conjI)
  show "\<exists>r. get_portfolio_timeseries s upstream portfolio_id as_of_date start_date end_date rc consumer calculation_id st = Some r"
    unfolding get_portfolio_timeseries_def by (rule window_returns) (rule chunks_return)
  show "\<exists>r. get_position_timeseries s upstream portfolio_id as_of_date start_date end_date rc consumer query calculation_id st
          = Some r"
    unfolding get_position_timeseries_def by (rule window_returns) (rule chunks_return)
  show "\<exists>r. get_performance_component_economics s upstream portfolio_id as_of_date start_date end_date security_ids
          transaction_types calculation_id st = Some r"
    unfolding get_performance_component_economics_def by (rule series_returns) (rule chunks_return)
  show "bounded_requests (ss_max_pages_per_chunk s) (\<lambda>upstream.
        get_portfolio_timeseries s upstream portfolio_id as_of_date start_date end_date rc consumer calculation_id st) upstream"
    by (rule bounded_requests_chunks [where fetcher = "\<lambda>upstream. fetch_portfolio_chunk s upstream portfolio_id as_of_date rc consumer calculation_id",
          OF portfolio_chunk_requests]) (simp add: get_portfolio_timeseries_def)
  show "bounded_requests (ss_max_pages_per_chunk s) (\<lambda>upstream.
        get_position_timeseries s upstream portfolio_id as_of_date start_date end_date rc consumer query calculation_id st) upstream"
    by (rule bounded_requests_chunks [where fetcher = "\<lambda>upstream. fetch_position_chunk s upstream portfolio_id as_of_date rc consumer query calculation_id",
          OF position_chunk_requests]) (simp add: get_position_timeseries_def)
  show "bounded_requests (ss_max_pages_per_chunk s) (\<lambda>upstream.
        get_performance_component_economics s upstream portfolio_id as_of_date start_date end_date security_ids
          transaction_types calculation_id st) upstream"
    by (rule bounded_requests_chunks [where fetcher = "\<lambda>upstream. fetch_performance_component_economics_chunk s upstream portfolio_id as_of_date",
          OF economics_chunk_requests]) (simp add: get_performance_component_economics_def)
qed

section \<open>The window\<close>

definition chunk_days :: "date_chunk \<Rightarrow> int list" where
  "chunk_days c = [toordinal (dc_start_date c)..toordinal (dc_end_date c)]"

lemma plan_from_partition:
  "case plan_from n c e of
     Inl err \<Rightarrow> err = OverflowError \<and> MAXORDINAL < e + max 1 n
   | Inr chunks \<Rightarrow> concat (List.map chunk_days chunks) = [c..e]
       \<and> list_all (\<lambda>d. 0 < length (chunk_days d) \<and> int (length (chunk_days d)) \<le> max 1 n) chunks"
proof (induction n c e rule: plan_from.induct)
  case (1 n c e)
  let ?b = "max 1 n" and ?l = "min (c + (max 1 n - 1)) e"
  show ?case
  proof (cases "e < c \<or> MAXORDINAL < c + (?b - 1) \<or> MAXORDINAL < ?l + 1")
    case True
    then show ?thesis by (subst plan_from.simps) (auto simp: Let_def split: sum.splits)
  next
    case False
    let ?d = "\<lparr>dc_start_date = fromordinal c, dc_end_date = fromordinal ?l\<rparr>"
    have d: "chunk_days ?d = [c..?l]" "0 < length [c..?l]" "int (length [c..?l]) \<le> ?b"
      using False by (auto simp: chunk_days_def)
    have whole: "[c..?l] @ [?l + 1..e] = [c..e]" using False by (intro upto_split2 [symmetric]) auto
    from False have "plan_from n c e = (case plan_from n (?l + 1) e of Inl err \<Rightarrow> Inl err | Inr chunks \<Rightarrow> Inr (?d # chunks))"
      by (subst plan_from.simps) (auto simp: Let_def split: sum.splits)
    then show ?thesis using "1.IH" [OF refl refl] False d whole
      by (cases "plan_from n (?l + 1) e") (simp_all add: d whole [symmetric] del: length_upto)
  qed
qed

text \<open>A planned window is read exactly once: the days of its chunks, in order, are the
  days of the window, and no chunk is empty or longer than the configured number of days. Planning
  raises only for a window that ends within one chunk of the last day of the calendar.
\<close>

theorem window_partitioned:
  "case plan_chunks start_date end_date n of
     Inl err \<Rightarrow> err = OverflowError \<and> MAXORDINAL < toordinal end_date + max 1 n
   | Inr chunks \<Rightarrow> concat (List.map chunk_days chunks) = [toordinal start_date..toordinal end_date]
       \<and> list_all (\<lambda>d. 0 < length (chunk_days d) \<and> int (length (chunk_days d)) \<le> max 1 n) chunks"
  unfolding plan_chunks_def by (rule plan_from_partition)

end
