(* ===== verification/Keyed_Merge.thy ===== *)
theory Keyed_Merge
  imports Durable_Json
begin

text \<open>
  Laws of dictionaries filled from a list: a key keeps the place of its first entry and takes the
  value of its last, so that filling from parts that were filled before is filling from the whole.
\<close>

section \<open>Filling twice\<close>

lemma dict_put_twice [simp]: "dict_put (dict_put d k v) k w = dict_put d k w"
  by (induction d k v rule: dict_put.induct) auto

lemma dict_put_swap: "k \<noteq> k' \<Longrightarrow> k \<in> fst ` set d \<Longrightarrow> dict_put (dict_put d k v) k' v' = dict_put (dict_put d k' v') k v"
  by (induction d k v rule: dict_put.induct) auto

lemma dict_update_Cons [simp]: "dict_update d ((k, v) # kvs) = dict_update (dict_put d k v) kvs"
  by (simp add: dict_update_def)

lemma dict_update_Nil [simp]: "dict_update d [] = d"
  by (simp add: dict_update_def)

lemma dict_update_append: "dict_update d (xs @ ys) = dict_update (dict_update d xs) ys"
  by (simp add: dict_update_def)

lemma dict_update_past:
  "k \<notin> fst ` set e \<Longrightarrow> k \<in> fst ` set d \<Longrightarrow> dict_put (dict_update d e) k v = dict_update (dict_put d k v) e"
proof (induction e arbitrary: d)
  case (Cons p e)
  then show ?case using dict_put_keys [of d "fst p" "snd p"] by (cases p) (auto simp: dict_put_swap)
qed simp

lemma dict_update_put:
  "distinct (List.map fst e) \<Longrightarrow> dict_update d (dict_put e k v) = dict_put (dict_update d e) k v"
proof (induction e k v arbitrary: d rule: dict_put.induct)
  case (2 k' v' kvs k v)
  show ?case
  proof (cases "k' = k")
    case True
    then have "dict_put (dict_update (dict_put d k v') kvs) k v = dict_update (dict_put (dict_put d k v') k v) kvs"
      using "2.prems" dict_put_keys [of d k v'] by (intro dict_update_past) (auto simp: image_iff)
    then show ?thesis using True by simp
  qed (use 2 in auto)
qed simp

lemma dict_update_absorb: "dict_update d (dict_update [] xs) = dict_update d xs"
proof (induction xs rule: rev_induct)
  case (snoc p xs)
  have "distinct (List.map fst (dict_update [] xs))" by (rule dict_update_distinct) simp
  then show ?case using snoc by (cases p) (simp add: dict_update_append dict_update_put)
qed simp

section \<open>Lists without repeated keys\<close>

definition uniq :: "('a \<Rightarrow> 'k) \<Rightarrow> 'a list \<Rightarrow> 'a list" where
  "uniq h xs = List.map snd (dict_update [] (List.map (\<lambda>x. (h x, x)) xs))"

definition keyed_by :: "('a \<Rightarrow> 'k) \<Rightarrow> ('k \<times> 'a) list \<Rightarrow> bool" where
  "keyed_by h d \<longleftrightarrow> list_all (\<lambda>(k, x). k = h x) d"

lemma keyed_by_put: "keyed_by h d \<Longrightarrow> keyed_by h (dict_put d (h x) x)"
  by (induction d "h x" x rule: dict_put.induct) (auto simp: keyed_by_def)

lemma keyed_by_update: "keyed_by h d \<Longrightarrow> keyed_by h (dict_update d (List.map (\<lambda>x. (h x, x)) xs))"
  by (induction xs arbitrary: d) (auto simp: keyed_by_put)

lemma uniq_pairs: "List.map (\<lambda>x. (h x, x)) (uniq h xs) = dict_update [] (List.map (\<lambda>x. (h x, x)) xs)"
proof -
  have "keyed_by h (dict_update [] (List.map (\<lambda>x. (h x, x)) xs))" by (rule keyed_by_update) (simp add: keyed_by_def)
  then show ?thesis unfolding uniq_def keyed_by_def list_all_iff by (auto intro!: map_idI)
qed

lemma uniq_keys: "List.map h (uniq h xs) = List.map fst (dict_update [] (List.map (\<lambda>x. (h x, x)) xs))"
  unfolding uniq_pairs [symmetric] by (simp add: comp_def)

lemma dict_update_keys: "fst ` set (dict_update d kvs) = fst ` set d \<union> fst ` set kvs"
proof (induction kvs arbitrary: d)
  case (Cons p kvs)
  show ?case by (cases p) (simp add: Cons.IH dict_put_keys)
qed simp

lemma uniq_distinct: "distinct (List.map h (uniq h xs))"
  unfolding uniq_keys by (rule dict_update_distinct) simp

lemma uniq_set: "h ` set (uniq h xs) = h ` set xs"
proof -
  have "h ` set (uniq h xs) = fst ` set (dict_update [] (List.map (\<lambda>x. (h x, x)) xs))"
    using arg_cong [OF uniq_keys [of h xs], of set] by simp
  then show ?thesis by (simp add: dict_update_keys image_image)
qed

lemma uniq_parts: "uniq h (concat (List.map (uniq h) xss)) = uniq h (concat xss)"
proof -
  have "dict_update d (List.map (\<lambda>x. (h x, x)) (concat (List.map (uniq h) xss)))
      = dict_update d (List.map (\<lambda>x. (h x, x)) (concat xss))" for d
    by (induction xss arbitrary: d) (simp_all add: dict_update_append uniq_pairs dict_update_absorb)
  then show ?thesis by (simp add: uniq_def)
qed

lemma filter_put:
  assumes "\<And>x y. h x = h y \<Longrightarrow> p x = p y" "keyed_by h d"
  shows "filter (\<lambda>e. p (snd e)) (dict_put d (h x) x)
    = (if p x then dict_put (filter (\<lambda>e. p (snd e)) d) (h x) x else filter (\<lambda>e. p (snd e)) d)"
  using assms(2) by (induction d) (auto simp: keyed_by_def dest: assms(1))

lemma filter_uniq:
  assumes p: "\<And>x y. h x = h y \<Longrightarrow> p x = p y"
  shows "filter p (uniq h xs) = uniq h (filter p xs)"
proof -
  have "filter (\<lambda>e. p (snd e)) (dict_update d (List.map (\<lambda>x. (h x, x)) xs))
      = dict_update (filter (\<lambda>e. p (snd e)) d) (List.map (\<lambda>x. (h x, x)) (filter p xs))" if "keyed_by h d" for d
    using that by (induction xs arbitrary: d) (auto simp: filter_put [of h p, OF p] keyed_by_put)
  from this [of "[]"] show ?thesis by (simp add: uniq_def filter_map comp_def keyed_by_def)
qed

section \<open>Stable sorting\<close>

lemma sort_key_cong_filter:
  assumes same: "\<And>k. filter (\<lambda>x. f x = k) xs = filter (\<lambda>x. f x = k) ys"
  shows "sort_key f xs = sort_key f ys"
proof (rule properties_for_sort_key)
  show "mset (sort_key f ys) = mset xs"
  proof (rule multiset_eqI)
    fix a
    have "count (mset zs) a = count (mset (filter (\<lambda>x. f x = f a) zs)) a" for zs by simp
    then show "count (mset (sort_key f ys)) a = count (mset xs) a" using same [of "f a"] by (metis mset_sort)
  qed
  show "filter (\<lambda>x. f k = f x) (sort_key f ys) = filter (\<lambda>x. f k = f x) xs" if "k \<in> set (sort_key f ys)" for k
    using same [of "f k"] sort_key_stable [of f "f k" ys] by (simp add: eq_commute)
  show "sorted (List.map f (sort_key f ys))" by simp
qed

text \<open>Merging: the rows with \<open>p\<close>, one per key, in the order of \<open>g\<close>.\<close>

lemma merge_parts:
  assumes p: "\<And>x y. h x = h y \<Longrightarrow> p x = p y" and g: "\<And>x y. h x = h y \<Longrightarrow> g x = g y"
  defines "merge \<equiv> \<lambda>xs. sort_key g (uniq h (filter p xs))"
  shows "merge (concat (List.map merge xss)) = merge (concat xss)"
proof -
  have merge: "merge xs = sort_key g (uniq h (filter p xs))" for xs by (simp add: merge_def)
  define q where "q k = (\<lambda>x. p x \<and> g x = k)" for k
  have q: "h x = h y \<Longrightarrow> q k x = q k y" for x y k
    using p [of x y] g [of x y] by (simp add: q_def)
  have split: "filter (\<lambda>x. g x = k) (uniq h (filter p xs)) = uniq h (filter (q k) xs)" for k xs
  proof -
    have "filter (\<lambda>x. g x = k) (uniq h (filter p xs)) = uniq h (filter (\<lambda>x. g x = k) (filter p xs))"
      by (rule filter_uniq) (drule g, simp)
    then show ?thesis by (simp add: q_def conj_commute)
  qed
  have part: "filter (q k) (merge xs) = uniq h (filter (q k) xs)" for k xs
  proof -
    have "filter (q k) (merge xs) = filter p (filter (\<lambda>x. g x = k) (merge xs))" by (simp add: q_def conj_commute)
    also have "\<dots> = filter p (uniq h (filter (q k) xs))" unfolding merge_def sort_key_stable split ..
    also have "\<dots> = uniq h (filter (q k) xs)" by (subst filter_uniq [OF p]) (auto simp: q_def intro!: arg_cong [where f = "uniq h"] filter_cong)
    finally show ?thesis .
  qed
  show ?thesis
    unfolding merge [of "concat _"]
  proof (rule sort_key_cong_filter)
    fix k
    have "filter (\<lambda>x. g x = k) (uniq h (filter p (concat (List.map merge xss))))
        = uniq h (concat (List.map (uniq h) (List.map (filter (q k)) xss)))"
      unfolding split unfolding filter_concat by (simp add: comp_def part)
    also have "\<dots> = filter (\<lambda>x. g x = k) (uniq h (filter p (concat xss)))"
      unfolding split uniq_parts unfolding filter_concat ..
    finally show "filter (\<lambda>x. g x = k) (uniq h (filter p (concat (List.map merge xss))))
        = filter (\<lambda>x. g x = k) (uniq h (filter p (concat xss)))" .
  qed
qed

section \<open>Fields of a text\<close>

lemma map_of_sort_key_fst: "map_of (sort_key fst xs) = map_of xs"
proof (induction xs)
  case (Cons x xs)
  have "map_of (insort_key fst x ys) = map_of (x # ys)" for ys
    by (induction ys) (auto simp: fun_eq_iff)
  then show ?case using Cons by simp
qed simp

text \<open>Rows with the same text have the same strings.\<close>

lemma same_text_field: "dumps_dict r = dumps_dict r' \<Longrightarrow> map_option sort_keys (dict_get r k) = map_option sort_keys (dict_get r' k)"
proof -
  assume "dumps_dict r = dumps_dict r'"
  then have "map_of (sort_key fst (List.map (map_prod id sort_keys) r)) k
      = map_of (sort_key fst (List.map (map_prod id sort_keys) r')) k"
    by (simp add: dumps_dict_def json_dumps_def)
  then show ?thesis by (simp add: map_of_sort_key_fst dict_get_def map_of_map map_prod_def id_def)
qed

end
