(* ===== verification/Stateful_Reading.thy ===== *)
theory Stateful_Reading
  imports Stateful_Safety Keyed_Merge
begin

text \<open>
  What an answered window was read from: the answer to a window is the merge of the pages that the
  upstream holds for its chunks, each followed to its last cursor.
\<close>

section \<open>What an answered window was read from\<close>

lemma list_all2_choose:
  "list_all2 (\<lambda>c r. \<exists>x. P c x \<and> r = f c x) cs rs \<Longrightarrow> \<exists>xs. list_all2 P cs xs \<and> rs = List.map2 f cs xs"
proof (induction rule: list_all2_induct)
  case (Cons c cs r rs)
  then obtain x xs where "P c x" "r = f c x" "list_all2 P cs xs" "rs = List.map2 f cs xs" by blast
  then show ?case by (intro exI [of _ "x # xs"]) simp
qed simp

lemma gathered_answers:
  "gather_chunked fetcher chunks st = Some (Inr rs, st') \<Longrightarrow>
   list_all2 (\<lambda>c r. \<exists>st1 st2. fetcher c st1 = Some (Inr r, st2)) chunks rs"
proof (induction chunks arbitrary: st rs)
  case (Cons c cs)
  then obtain r st1 rs1 where r: "fetcher c st = Some (Inr r, st1)" "gather_chunked fetcher cs st1 = Some (Inr rs1, st')"
      "rs = r # rs1"
    by (auto split: option.splits sum.splits prod.splits)
  then show ?case using Cons.IH by auto
qed simp

lemma first_failure_None: "first_failure rs = None \<longleftrightarrow> list_all (\<lambda>r. fst r < 400) rs"
  by (auto simp: first_failure_def find_None_iff list_all_iff not_le)

lemma first_failure_status: "first_failure rs = Some r \<Longrightarrow> 400 \<le> fst r"
  by (auto simp: first_failure_def find_Some_iff)

text \<open>A window that answers 200 was read from the pages of all its chunks.\<close>

lemma read_chunks:
  assumes answers: "list_all2 (\<lambda>c r. \<exists>st1 st2. fetcher c st1 = Some (Inr r, st2)) chunks rs"
    and ok: "first_failure rs = None"
    and chunk: "\<And>c st1 st2 r. fetcher c st1 = Some (Inr r, st2) \<Longrightarrow> fst r < 400 \<Longrightarrow> \<exists>pages. P c pages \<and> r = (200, F c pages)"
  shows "\<exists>pagess. list_all2 P chunks pagess \<and> rs = List.map2 (\<lambda>c pages. (200, F c pages)) chunks pagess"
proof (rule list_all2_choose)
  have "\<exists>pages. P (chunks ! i) pages \<and> rs ! i = (200, F (chunks ! i) pages)" if i: "i < length rs" for i
  proof -
    from answers i obtain st1 st2 where "fetcher (chunks ! i) st1 = Some (Inr (rs ! i), st2)"
      by (auto simp: list_all2_conv_all_nth)
    then show ?thesis by (rule chunk) (use ok i in \<open>auto simp: first_failure_None list_all_length\<close>)
  qed
  then show "list_all2 (\<lambda>c r. \<exists>pages. P c pages \<and> r = (200, F c pages)) chunks rs"
    using answers by (auto simp: list_all2_conv_all_nth)
qed

lemma window_read:
  assumes run: "retrieve_window plan fetcher build st = Some (Inr (200, payload), st')"
    and chunk: "\<And>c st1 st2 r. fetcher c st1 = Some (Inr r, st2) \<Longrightarrow> fst r < 400 \<Longrightarrow> \<exists>pages. P c pages \<and> r = (200, F c pages)"
  shows "\<exists>chunks pagess. plan = Inr chunks \<and> list_all2 P chunks pagess
           \<and> payload = build (List.map2 (\<lambda>c pages. (200, F c pages)) chunks pagess) (int (length chunks))"
proof -
  from run obtain chunks where plan: "plan = Inr chunks" by (cases plan) (auto simp: retrieve_window_def)
  with run obtain gathered st1 where g: "gather_chunked fetcher chunks st = Some (gathered, st1)"
    by (auto simp: retrieve_window_def)
  with run plan obtain rs where rs: "gathered = Inr rs" by (cases gathered) (auto simp: retrieve_window_def)
  have "retrieve_window plan fetcher build st = Some (case first_failure rs of Some failure \<Rightarrow> Inr failure
      | None \<Rightarrow> Inr (200, build rs (int (length chunks))), st1)" using plan g rs by (simp add: retrieve_window_def)
  with run have "(case first_failure rs of Some failure \<Rightarrow> Inr failure | None \<Rightarrow> Inr (200, build rs (int (length chunks))))
      = (Inr (200, payload) :: retrieval_error + response)" by simp
  then have ok: "first_failure rs = None" and p: "payload = build rs (int (length chunks))"
    by (auto split: option.splits dest: first_failure_status)
  have "\<exists>pagess. list_all2 P chunks pagess \<and> rs = List.map2 (\<lambda>c pages. (200, F c pages)) chunks pagess"
    by (rule read_chunks [OF gathered_answers [OF g [unfolded rs]] ok]) (erule (1) chunk)
  then obtain pagess where "list_all2 P chunks pagess" "rs = List.map2 (\<lambda>c pages. (200, F c pages)) chunks pagess" by blast
  then show ?thesis using plan p by (intro exI [of _ chunks] exI [of _ pagess]) simp
qed

lemma series_read:
  assumes run: "retrieve_series s calculation_id endpoint source as_of_date request_payload plan fetcher build st
             = Some (Inr (200, payload), st')"
    and chunk: "\<And>c st1 st2 r. fetcher c st1 = Some (Inr r, st2) \<Longrightarrow> fst r < 400 \<Longrightarrow> \<exists>pages. P c pages \<and> r = (200, F c pages)"
  shows "\<exists>chunks pagess. plan = Inr chunks \<and> list_all2 P chunks pagess
           \<and> build (List.map2 (\<lambda>c pages. (200, F c pages)) chunks pagess) (int (length chunks)) = Inr payload"
proof -
  obtain existing st1 where e: "existing_snapshot_ids calculation_id st = (existing, st1)" by fastforce
  from run e obtain chunks where plan: "plan = Inr chunks" by (cases plan) (auto simp: retrieve_series_def)
  with run e obtain gathered st2 where g: "gather_chunked fetcher chunks st1 = Some (gathered, st2)"
    by (auto simp: retrieve_series_def)
  with run plan e obtain rs where rs: "gathered = Inr rs" by (cases gathered) (auto simp: retrieve_series_def)
  obtain stored st3 where stored: "record_chunked_series_snapshots s calculation_id endpoint source as_of_date request_payload
      chunks rs existing st2 = (stored, st3)" by fastforce
  from run plan g rs e stored have "stored = Inr ()" by (cases stored) (auto simp: retrieve_series_def)
  with plan g rs e stored have "retrieve_series s calculation_id endpoint source as_of_date request_payload plan fetcher build st
      = Some (case first_failure rs of Some failure \<Rightarrow> Inr failure
          | None \<Rightarrow> bind_res (build rs (int (length chunks))) (\<lambda>payload. Inr (200, payload)), st3)"
    by (simp add: retrieve_series_def)
  with run have "(case first_failure rs of Some failure \<Rightarrow> Inr failure
      | None \<Rightarrow> bind_res (build rs (int (length chunks))) (\<lambda>payload. Inr (200, payload)))
      = (Inr (200, payload) :: retrieval_error + response)" by simp
  then have ok: "first_failure rs = None" and p: "build rs (int (length chunks)) = Inr payload"
    by (auto split: option.splits dest: first_failure_status)
  have "\<exists>pagess. list_all2 P chunks pagess \<and> rs = List.map2 (\<lambda>c pages. (200, F c pages)) chunks pagess"
    by (rule read_chunks [OF gathered_answers [OF g [unfolded rs]] ok]) (erule (1) chunk)
  then obtain pagess where "list_all2 P chunks pagess" "rs = List.map2 (\<lambda>c pages. (200, F c pages)) chunks pagess" by blast
  then show ?thesis using plan p by (intro exI [of _ chunks] exI [of _ pagess]) simp
qed

lemma finished_chunk:
  assumes "finish_chunk s calculation_id endpoint source as_of_date request_payload build st (page_end, asked, sb) = (Inr r, st')"
    and "fst r < 400" "\<And>r. page_end = Stopped r \<Longrightarrow> 400 \<le> fst r"
  shows "\<exists>acc. page_end = Complete acc \<and> r = (200, build acc)"
  using assms by (cases page_end) (auto simp: finish_chunk_def answer_after_def split: prod.splits sum.splits)

context page_source
begin

lemma chunk_read:
  assumes run: "map_option (finish_chunk s calculation_id endpoint source as_of_date request_payload build st)
      (fetch_pages s c ask note (\<lambda>acc payload. None) record_page page_count None {} acc0 [] sb0) = Some (Inr r, st')"
    and ok: "fst r < 400"
  shows "\<exists>pages. page_chain ask 0 None pages \<and> r = (200, build (foldl record_page acc0 pages))"
proof -
  from run obtain page_end asked sb
    where pages: "fetch_pages s c ask note (\<lambda>acc payload. None) record_page page_count None {} acc0 [] sb0 = Some (page_end, asked, sb)"
      and fin: "finish_chunk s calculation_id endpoint source as_of_date request_payload build st (page_end, asked, sb) = (Inr r, st')"
    unfolding map_option_eq_Some by (metis prod_cases3)
  note trace = fetch_pages_log [OF pages]
  from finished_chunk [OF fin ok] trace obtain acc where "page_end = Complete acc" "r = (200, build acc)" by auto
  with trace show ?thesis by auto
qed

end

lemma portfolio_chunk_read:
  assumes "fetch_portfolio_chunk s upstream portfolio_id as_of_date rc consumer calculation_id c st = Some (Inr r, st')" "fst r < 400"
  shows "\<exists>pages. page_chain (upstream c) 0 None pages
           \<and> r = (200, build_portfolio_chunk_payload (foldl record_portfolio_chunk_payload
               \<lparr>pca_observations = [], pca_portfolio_open_date = None, pca_portfolio_currency = None,
                pca_reporting_currency = None, pca_page_count = 0\<rparr> pages))"
  by (rule portfolio_pages.chunk_read [OF assms(1) [unfolded fetch_portfolio_chunk_def Let_def case_prod_beta] assms(2)])

lemma position_chunk_read:
  assumes "fetch_position_chunk s upstream portfolio_id as_of_date rc consumer query calculation_id c st = Some (Inr r, st')"
    "fst r < 400"
  shows "\<exists>pages. page_chain (upstream c) 0 None pages
           \<and> r = (200, build_position_chunk_payload (ss_same_number s) (foldl record_position_chunk_payload
               \<lparr>poa_rows = [], poa_page_count = 0, poa_source_row_count = 0, poa_discarded_source_row_count = 0\<rparr> pages))"
  by (rule position_pages.chunk_read [OF assms(1) [unfolded fetch_position_chunk_def Let_def case_prod_beta] assms(2)])

text \<open>A page of another scope ends the chunk with 502, so every page that is read is of the asked scope.\<close>

lemma economics_chunk_read:
  assumes "fetch_performance_component_economics_chunk s upstream portfolio_id as_of_date c st = Some (Inr r, st')" "fst r < 400"
  shows "\<exists>pages. (page_chain (upstream c) 0 None pages
             \<and> list_all (\<lambda>p. performance_component_economics_rejected_scope_fields p portfolio_id as_of_date (window_payload c) = []) pages)
           \<and> r = (200, build_performance_component_economics_chunk_payload portfolio_id as_of_date c
               (foldl record_performance_component_economics_payload empty_economics pages))"
proof -
  let ?refuse = "\<lambda>acc payload. map_option (Pair 502)
      (performance_component_economics_scope_failure payload portfolio_id as_of_date c (pea_page_count acc + 1))"
  from assms(1) obtain page_end asked sb
    where run: "fetch_pages s c (upstream c) (\<lambda>token response sb. sb) ?refuse record_performance_component_economics_payload
          pea_page_count None {} empty_economics [] ([], {}) = Some (page_end, asked, sb)"
      and r: "r = (case page_end of Stopped response \<Rightarrow> response | Unhealthy token failure \<Rightarrow> (503, failure)
          | Complete acc \<Rightarrow> (200, build_performance_component_economics_chunk_payload portfolio_id as_of_date c acc))"
    unfolding fetch_performance_component_economics_chunk_def map_option_eq_Some by auto
  note trace = economics_pages.fetch_pages_log [OF run]
  have "400 \<le> fst q" if "page_end = Stopped q" for q using trace that by auto
  with assms(2) r obtain acc where acc: "page_end = Complete acc" by (cases page_end) auto
  with trace obtain pages where pages: "page_chain (upstream c) 0 None pages"
      "acc = foldl record_performance_component_economics_payload empty_economics pages"
      "admitted_pages ?refuse record_performance_component_economics_payload empty_economics pages" by auto
  have "list_all (\<lambda>p. performance_component_economics_rejected_scope_fields p portfolio_id as_of_date (window_payload c) = []) ps"
    if "admitted_pages ?refuse record_performance_component_economics_payload a ps" for a ps
    using that by (induction ps arbitrary: a)
      (auto simp: performance_component_economics_scope_failure_def Let_def split: if_splits)
  from this [OF pages(3)] pages(1,2) r acc show ?thesis by auto
qed

section \<open>The observations of a portfolio\<close>

definition observations_of :: "json_dict list \<Rightarrow> json_dict list" where
  "observations_of pages = concat (List.map (\<lambda>p. dict_list_payload_items_from_payload p ''observations'') pages)"

lemma dict_items_objects [simp]: "dict_items (List.map JObj rows) = rows"
  by (induction rows) (simp_all add: dict_items_def List.map_filter_simps)

lemma valuation_date_text:
  assumes "dumps_dict r = dumps_dict r'"
  shows "valuation_date_of r = valuation_date_of r'"
proof -
  have date: "valuation_date_of q = (case map_option sort_keys (dict_get q ''valuation_date'') of Some (JStr v) \<Rightarrow> Some v | _ \<Rightarrow> None)" for q
    by (auto simp: valuation_date_of_def string_value_of_def split: option.splits json.splits)
  show ?thesis unfolding date same_text_field [OF assms] ..
qed

lemma merge_observations_uniq:
  "merge_portfolio_observations rows
     = sort_key (\<lambda>row. the (valuation_date_of row)) (uniq dumps_dict (filter (\<lambda>row. valuation_date_of row \<noteq> None) rows))"
  by (simp add: merge_portfolio_observations_def uniq_def)

lemma merge_observations_parts:
  "merge_portfolio_observations (concat (List.map merge_portfolio_observations rowss)) = merge_portfolio_observations (concat rowss)"
proof -
  have "valuation_date_of x = valuation_date_of y" if "dumps_dict x = dumps_dict y" for x y using that by (rule valuation_date_text)
  then show ?thesis unfolding merge_observations_uniq
    by (intro merge_parts) (metis+)
qed

lemma merge_observations_rows:
  "distinct (List.map dumps_dict (merge_portfolio_observations rows))"
  "dumps_dict ` set (merge_portfolio_observations rows) = dumps_dict ` {row \<in> set rows. valuation_date_of row \<noteq> None}"
  "sorted (List.map (\<lambda>row. the (valuation_date_of row)) (merge_portfolio_observations rows))"
proof -
  let ?u = "uniq dumps_dict (filter (\<lambda>row. valuation_date_of row \<noteq> None) rows)"
  have "distinct (List.map dumps_dict ?u)" by (rule uniq_distinct)
  then have "distinct ?u" "inj_on dumps_dict (set ?u)" by (simp_all add: distinct_map)
  then show "distinct (List.map dumps_dict (merge_portfolio_observations rows))"
    by (simp add: merge_observations_uniq distinct_map)
  show "dumps_dict ` set (merge_portfolio_observations rows) = dumps_dict ` {row \<in> set rows. valuation_date_of row \<noteq> None}"
    by (simp add: merge_observations_uniq uniq_set)
  show "sorted (List.map (\<lambda>row. the (valuation_date_of row)) (merge_portfolio_observations rows))"
    by (simp add: merge_observations_uniq)
qed

lemma recorded_pages:
  "pca_observations (foldl record_portfolio_chunk_payload acc pages) = pca_observations acc @ observations_of pages"
  "pca_page_count (foldl record_portfolio_chunk_payload acc pages) = pca_page_count acc + int (length pages)"
  by (induction pages arbitrary: acc) (simp_all add: record_portfolio_chunk_payload_def observations_of_def)

lemma chunk_observations:
  "dict_list_payload_items_from_payload (build_portfolio_chunk_payload acc) ''observations''
     = merge_portfolio_observations (pca_observations acc)"
  "retrieval_page_count (build_portfolio_chunk_payload acc) = pca_page_count acc"
  by (simp_all add: build_portfolio_chunk_payload_def dict_list_payload_items_from_payload_def dict_get_def json_objects_def
      retrieval_page_count_def)

lemma planned_days:
  "plan_chunks start_date end_date n = Inr chunks
   \<Longrightarrow> concat (List.map chunk_days chunks) = [toordinal start_date..toordinal end_date]"
  using plan_from_partition [where n = n and c = "toordinal start_date" and e = "toordinal end_date"] by (simp add: plan_chunks_def)

text \<open>C9: A portfolio timeseries that is answered was read to the end: the chunks are the
  days of the window, each once and in order, and every chunk was followed from its first page to the page without a cursor, and the
  observations of the answer are the dated observations of all these pages, each text once and in
  the order of their dates. How the upstream cuts the window into pages, and the service into
  chunks, does not matter.\<close>

theorem portfolio_read_exactly:
  assumes "get_portfolio_timeseries s upstream portfolio_id as_of_date start_date end_date rc consumer calculation_id st
             = Some (Inr (200, payload), st')"
  shows "\<exists>chunks pagess rows. plan_chunks start_date end_date (ss_portfolio_chunk_days s) = Inr chunks
           \<and> concat (List.map chunk_days chunks) = [toordinal start_date..toordinal end_date]
           \<and> list_all2 (\<lambda>c. page_chain (upstream c) 0 None) chunks pagess
           \<and> dict_get payload ''observations'' = Some (json_objects rows)
           \<and> rows = merge_portfolio_observations (observations_of (concat pagess))
           \<and> distinct (List.map dumps_dict rows) \<and> sorted (List.map (\<lambda>row. the (valuation_date_of row)) rows)
           \<and> dumps_dict ` set rows = dumps_dict ` {row \<in> set (observations_of (concat pagess)). valuation_date_of row \<noteq> None}
           \<and> retrieval_page_count payload = int (length (concat pagess))"
proof -
  define acc0 where "acc0 = \<lparr>pca_observations = [], pca_portfolio_open_date = None, pca_portfolio_currency = None,
      pca_reporting_currency = None, pca_page_count = 0\<rparr>"
  define F where "F c pages = build_portfolio_chunk_payload (foldl record_portfolio_chunk_payload acc0 pages)"
    for c :: date_chunk and pages
  have "\<exists>chunks pagess. plan_chunks start_date end_date (ss_portfolio_chunk_days s) = Inr chunks
      \<and> list_all2 (\<lambda>c. page_chain (upstream c) 0 None) chunks pagess
      \<and> payload = build_portfolio_timeseries_payload (List.map2 (\<lambda>c pages. (200, F c pages)) chunks pagess) (int (length chunks))"
    by (rule window_read [OF assms [unfolded get_portfolio_timeseries_def]])
      (unfold F_def acc0_def, rule portfolio_chunk_read)
  then obtain chunks pagess where w: "plan_chunks start_date end_date (ss_portfolio_chunk_days s) = Inr chunks"
      "list_all2 (\<lambda>c. page_chain (upstream c) 0 None) chunks pagess"
      "payload = build_portfolio_timeseries_payload (List.map2 (\<lambda>c pages. (200, F c pages)) chunks pagess) (int (length chunks))"
    by blast
  let ?responses = "List.map2 (\<lambda>c pages. (200 :: int, F c pages)) chunks pagess"
  have parts: "?responses = List.map (\<lambda>pages. (200, F undefined pages)) pagess"
    using list_all2_lengthD [OF w(2)] by (induction chunks pagess rule: list_induct2) (simp_all add: F_def)
  have "dict_list_payload_items ?responses ''observations''
      = concat (List.map merge_portfolio_observations (List.map observations_of pagess))"
    unfolding parts by (simp add: dict_list_payload_items_def F_def comp_def chunk_observations recorded_pages acc0_def)
  moreover have "concat (List.map observations_of pagess) = observations_of (concat pagess)"
    by (induction pagess) (simp_all add: observations_of_def)
  ultimately have rows: "merge_portfolio_observations (dict_list_payload_items ?responses ''observations'')
      = merge_portfolio_observations (observations_of (concat pagess))"
    by (simp only: merge_observations_parts)
  have "total_retrieval_page_count ?responses = int (length (concat pagess))"
    unfolding parts by (induction pagess)
      (simp_all add: total_retrieval_page_count_def F_def chunk_observations recorded_pages acc0_def)
  then have count: "retrieval_page_count payload = int (length (concat pagess))"
    by (simp add: w(3) build_portfolio_timeseries_payload_def retrieval_page_count_def dict_get_def)
  have observations: "dict_get payload ''observations'' = Some (json_objects (merge_portfolio_observations (observations_of (concat pagess))))"
    unfolding w(3) build_portfolio_timeseries_payload_def rows by (simp add: dict_get_def)
  show ?thesis
    by (intro exI conjI, rule w(1), rule planned_days [OF w(1)], rule w(2), rule observations, rule refl, rule merge_observations_rows(1),
        rule merge_observations_rows(3), rule merge_observations_rows(2), rule count)
qed

end
