(* ===== verification/Stateful_Accounts.thy ===== *)
theory Stateful_Accounts
  imports Stateful_Reading
begin

text \<open>
  What the answers of the position timeseries and of the component economics account for: the rows that
  were read, kept and reported as discarded, and the portfolio a row belongs to.
\<close>

section \<open>Keyed records\<close>

lemma dict_put_length: "length (dict_put d k v) = length d + (if map_of d k = None then 1 else 0)"
proof (induction d k v rule: dict_put.induct)
  case (2 k' v' kvs k v)
  then show ?case by (cases "k' = k") simp_all
qed simp

lemma merge_record_count:
  "merge_record num key_fields record (d, n) = (d', n') \<Longrightarrow> int (length d') + n' \<le> int (length d) + n + 1 \<and> n \<le> n'"
proof (cases "record_key_by_fields record key_fields")
  case (Some key)
  assume "merge_record num key_fields record (d, n) = (d', n')"
  then show ?thesis
    using Some by (cases "map_of d key") (auto simp: dict_put_length simp del: json_eq.simps map_of_eq_None_iff split: if_splits)
qed simp

lemma merge_fold_count:
  "fold (merge_record num key_fields) records (d, n) = (d', n')
   \<Longrightarrow> int (length d') + n' \<le> int (length d) + n + int (length records) \<and> n \<le> n'"
proof (induction records arbitrary: d n)
  case (Cons r rs)
  obtain d1 n1 where one: "merge_record num key_fields r (d, n) = (d1, n1)" by fastforce
  with Cons.prems have "fold (merge_record num key_fields) rs (d1, n1) = (d', n')" by simp
  from Cons.IH [OF this] merge_record_count [OF one] show ?case by simp
qed simp

lemma merge_count:
  "merge_dedup_records_with_conflict_count num records key_fields = (rows, n)
   \<Longrightarrow> int (length rows) + n \<le> int (length records) \<and> 0 \<le> n"
  using merge_fold_count [of num key_fields records "[]" 0]
  by (auto simp: merge_dedup_records_with_conflict_count_def split: prod.splits)

section \<open>The rows of the positions\<close>

text \<open>A page without a list of rows counts as one row, as the service counts it.\<close>

definition rows_sent :: "json_dict \<Rightarrow> int" where
  "rows_sent p = (case dict_get p ''rows'' of Some (JList rows) \<Rightarrow> int (length rows) | _ \<Rightarrow> 1)"

lemma recorded_positions:
  fixes acc :: position_chunk_accumulator
  defines "acc' pages \<equiv> foldl record_position_chunk_payload acc pages"
  shows "poa_source_row_count (acc' pages) = poa_source_row_count acc + sum_list (List.map rows_sent pages)"
    "poa_source_row_count acc = poa_discarded_source_row_count acc + int (length (poa_rows acc)) \<Longrightarrow>
     poa_source_row_count (acc' pages) = poa_discarded_source_row_count (acc' pages) + int (length (poa_rows (acc' pages)))"
    "poa_discarded_source_row_count acc \<le> poa_discarded_source_row_count (acc' pages)"
proof -
  have step: "poa_source_row_count (record_position_chunk_payload a p) = poa_source_row_count a + rows_sent p"
      "poa_source_row_count a = poa_discarded_source_row_count a + int (length (poa_rows a)) \<Longrightarrow>
       poa_source_row_count (record_position_chunk_payload a p)
         = poa_discarded_source_row_count (record_position_chunk_payload a p)
           + int (length (poa_rows (record_position_chunk_payload a p)))"
      "poa_discarded_source_row_count a \<le> poa_discarded_source_row_count (record_position_chunk_payload a p)" for a p
    by (simp_all add: record_position_chunk_payload_def rows_sent_def split: option.splits json.splits)
  show "poa_source_row_count (acc' pages) = poa_source_row_count acc + sum_list (List.map rows_sent pages)"
    unfolding acc'_def by (induction pages arbitrary: acc) (simp_all add: step)
  show "poa_source_row_count acc = poa_discarded_source_row_count acc + int (length (poa_rows acc)) \<Longrightarrow>
     poa_source_row_count (acc' pages) = poa_discarded_source_row_count (acc' pages) + int (length (poa_rows (acc' pages)))"
    unfolding acc'_def
  proof (induction pages arbitrary: acc)
    case (Cons p pages)
    show ?case using Cons.IH [of "record_position_chunk_payload acc p"] step(2) [OF Cons.prems] by simp
  qed simp
  show "poa_discarded_source_row_count acc \<le> poa_discarded_source_row_count (acc' pages)"
    unfolding acc'_def
  proof (induction pages arbitrary: acc)
    case (Cons p pages)
    show ?case using Cons.IH [of "record_position_chunk_payload acc p"] step(3) [of acc p] by simp
  qed simp
qed

lemma position_rows_objects:
  "dict_get payload ''rows'' = Some (json_objects rows) \<Longrightarrow> length (position_rows_from_payload payload) = length rows"
  by (simp add: position_rows_from_payload_def json_objects_def position_rows_with_source_keys_def)

text \<open>A chunk accounts for what it read.\<close>

lemma chunk_accounts:
  assumes acc: "poa_source_row_count acc = poa_discarded_source_row_count acc + int (length (poa_rows acc))"
      "0 \<le> poa_discarded_source_row_count acc"
  shows "\<exists>discarded. retrieval_count (build_position_chunk_payload num acc) ''discarded_source_row_count'' = Some discarded
      \<and> retrieval_count (build_position_chunk_payload num acc) ''source_row_count'' = Some (poa_source_row_count acc)
      \<and> 0 \<le> discarded
      \<and> int (length (position_rows_from_payload (build_position_chunk_payload num acc))) + discarded \<le> poa_source_row_count acc"
proof -
  let ?keyed = "filter (\<lambda>row. record_key_by_fields row POSITION_KEY_FIELDS \<noteq> None) (position_rows_with_source_keys (poa_rows acc))"
  obtain rows n where m: "merge_dedup_records_with_conflict_count num ?keyed POSITION_KEY_FIELDS = (rows, n)" by fastforce
  define discarded where
    "discarded = poa_discarded_source_row_count acc + int (length (poa_rows acc)) - int (length ?keyed) + n"
  have "length (dict_items js) \<le> length js" for js
    by (induction js) (auto simp: dict_items_def List.map_filter_simps split: json.splits option.splits)
  then have "length (position_rows_with_source_keys (poa_rows acc)) \<le> length (poa_rows acc)"
    by (simp add: position_rows_with_source_keys_def)
  then have "length ?keyed \<le> length (poa_rows acc)" by (rule order_trans [OF length_filter_le])
  with merge_count [OF m] acc have bounds: "0 \<le> discarded" "int (length rows) + discarded \<le> poa_source_row_count acc"
    by (simp_all add: discarded_def)
  have payload: "build_position_chunk_payload num acc = [(''rows'', json_objects rows), (''retrieval_metadata'', JObj
      [(''page_count'', JInt (poa_page_count acc)), (''source_row_count'', JInt (poa_source_row_count acc)),
       (''retained_row_count'', JInt (int (length rows))), (''discarded_source_row_count'', JInt discarded)])]"
    by (simp only: build_position_chunk_payload_def Let_def m discarded_def prod.case)
  show ?thesis
    using bounds acc position_rows_objects [of "build_position_chunk_payload num acc" rows]
    by (simp add: payload retrieval_count_def dict_get_def)
qed

section \<open>What an answer accounts for\<close>

lemma responses_account:
  "list_all2 (\<lambda>r n. \<exists>d. retrieval_count (snd r) ''discarded_source_row_count'' = Some d
      \<and> retrieval_count (snd r) ''source_row_count'' = Some n \<and> 0 \<le> d
      \<and> int (length (position_rows_from_payload (snd r))) + d \<le> n) rs ns
   \<Longrightarrow> \<exists>d. position_retrieval_count_total rs ''discarded_source_row_count'' = Some d
      \<and> position_retrieval_count_total rs ''source_row_count'' = Some (sum_list ns) \<and> 0 \<le> d
      \<and> int (length (position_rows_from_responses rs)) + d \<le> sum_list ns"
  by (induction rule: list_all2_induct) (auto simp: position_rows_from_responses_def)

lemma positions_account:
  assumes rs: "list_all2 (\<lambda>r n. \<exists>d. retrieval_count (snd r) ''discarded_source_row_count'' = Some d
      \<and> retrieval_count (snd r) ''source_row_count'' = Some n \<and> 0 \<le> d
      \<and> int (length (position_rows_from_payload (snd r))) + d \<le> n) rs ns"
    and payload: "payload = build_position_timeseries_payload num rs n"
  shows "\<exists>rows discarded. dict_get payload ''rows'' = Some (json_objects rows)
      \<and> retrieval_count payload ''source_row_count'' = Some (sum_list ns)
      \<and> retrieval_count payload ''retained_row_count'' = Some (int (length rows))
      \<and> retrieval_count payload ''discarded_source_row_count'' = Some discarded
      \<and> int (length rows) + discarded \<le> sum_list ns"
proof -
  from responses_account [OF rs] obtain d where d: "position_retrieval_count_total rs ''discarded_source_row_count'' = Some d"
      "position_retrieval_count_total rs ''source_row_count'' = Some (sum_list ns)" "0 \<le> d"
      "int (length (position_rows_from_responses rs)) + d \<le> sum_list ns" by blast
  obtain rows c where m: "merge_dedup_records_with_conflict_count num (position_rows_from_responses rs) POSITION_KEY_FIELDS = (rows, c)"
    by fastforce
  have fields: "payload = [(''rows'', json_objects rows), (''retrieval_metadata'', JObj
      [(''chunk_count'', JInt n), (''page_count'', JInt (total_retrieval_page_count rs)),
       (''source_row_count'', JInt (sum_list ns)), (''retained_row_count'', JInt (int (length rows))),
       (''discarded_source_row_count'', JInt (d + c))])]"
    by (simp only: payload build_position_timeseries_payload_def Let_def m prod.case d json_count_def option.map option.case)
  show ?thesis
    using merge_count [OF m] d by (intro exI [of _ rows] exI [of _ "d + c"]) (simp add: fields retrieval_count_def dict_get_def)
qed

text \<open>C26: The positions that are answered for a window account for what the upstream sent: the rows
  of the answer and the rows it reports as discarded are together no more than the rows of all
  pages of all chunks, and the metadata of the answer states these three numbers. No row of the
  answer is made up or counted as discarded as well.\<close>

theorem position_rows_accounted:
  assumes "get_position_timeseries s upstream portfolio_id as_of_date start_date end_date rc consumer query calculation_id st
             = Some (Inr (200, payload), st')"
  shows "\<exists>chunks pagess rows discarded. plan_chunks start_date end_date (ss_portfolio_chunk_days s) = Inr chunks
           \<and> list_all2 (\<lambda>c. page_chain (upstream c) 0 None) chunks pagess
           \<and> dict_get payload ''rows'' = Some (json_objects rows)
           \<and> retrieval_count payload ''source_row_count'' = Some (sum_list (List.map rows_sent (concat pagess)))
           \<and> retrieval_count payload ''retained_row_count'' = Some (int (length rows))
           \<and> retrieval_count payload ''discarded_source_row_count'' = Some discarded
           \<and> int (length rows) + discarded \<le> sum_list (List.map rows_sent (concat pagess))"
proof -
  define acc0 where "acc0 = \<lparr>poa_rows = [], poa_page_count = 0, poa_source_row_count = 0, poa_discarded_source_row_count = 0\<rparr>"
  define F where "F c pages = build_position_chunk_payload (ss_same_number s) (foldl record_position_chunk_payload acc0 pages)"
    for c :: date_chunk and pages
  have "\<exists>chunks pagess. plan_chunks start_date end_date (ss_portfolio_chunk_days s) = Inr chunks
      \<and> list_all2 (\<lambda>c. page_chain (upstream c) 0 None) chunks pagess
      \<and> payload = build_position_timeseries_payload (ss_same_number s)
          (List.map2 (\<lambda>c pages. (200, F c pages)) chunks pagess) (int (length chunks))"
    by (rule window_read [OF assms [unfolded get_position_timeseries_def]])
      (unfold F_def acc0_def, rule position_chunk_read)
  then obtain chunks pagess where w: "plan_chunks start_date end_date (ss_portfolio_chunk_days s) = Inr chunks"
      "list_all2 (\<lambda>c. page_chain (upstream c) 0 None) chunks pagess"
      "payload = build_position_timeseries_payload (ss_same_number s)
          (List.map2 (\<lambda>c pages. (200, F c pages)) chunks pagess) (int (length chunks))"
    by blast
  have part: "\<exists>d. retrieval_count (F c pages) ''discarded_source_row_count'' = Some d
      \<and> retrieval_count (F c pages) ''source_row_count'' = Some (sum_list (List.map rows_sent pages)) \<and> 0 \<le> d
      \<and> int (length (position_rows_from_payload (F c pages))) + d \<le> sum_list (List.map rows_sent pages)" for c pages
  proof -
    have "poa_source_row_count (foldl record_position_chunk_payload acc0 pages) = sum_list (List.map rows_sent pages)"
      by (simp add: recorded_positions acc0_def)
    then show ?thesis unfolding F_def
      using chunk_accounts [of "foldl record_position_chunk_payload acc0 pages" "ss_same_number s"]
        recorded_positions(2,3) [where pages = pages and acc = acc0] by (simp add: acc0_def)
  qed
  have "sum_list (List.map (\<lambda>pages. sum_list (List.map rows_sent pages)) pagess)
      = sum_list (List.map rows_sent (concat pagess))"
    by (induction pagess) simp_all
  moreover have parts: "list_all2 (\<lambda>r n. \<exists>d. retrieval_count (snd r) ''discarded_source_row_count'' = Some d
      \<and> retrieval_count (snd r) ''source_row_count'' = Some n \<and> 0 \<le> d
      \<and> int (length (position_rows_from_payload (snd r))) + d \<le> n)
      (List.map2 (\<lambda>c pages. (200, F c pages)) chunks pagess)
      (List.map (\<lambda>pages. sum_list (List.map rows_sent pages)) pagess)"
    using list_all2_lengthD [OF w(2)] by (auto simp: list_all2_conv_all_nth part)
  ultimately have "\<exists>rows discarded. dict_get payload ''rows'' = Some (json_objects rows)
      \<and> retrieval_count payload ''source_row_count'' = Some (sum_list (List.map rows_sent (concat pagess)))
      \<and> retrieval_count payload ''retained_row_count'' = Some (int (length rows))
      \<and> retrieval_count payload ''discarded_source_row_count'' = Some discarded
      \<and> int (length rows) + discarded \<le> sum_list (List.map rows_sent (concat pagess))"
    using positions_account [OF parts w(3)] by simp
  then show ?thesis using w(1,2) by blast
qed

section \<open>The portfolio of a row\<close>

lemma dict_put_values: "snd ` set (dict_put d k v) \<subseteq> insert v (snd ` set d)"
  by (induction d k v rule: dict_put.induct) auto

lemma dict_update_values: "snd ` set (dict_update d kvs) \<subseteq> snd ` set d \<union> snd ` set kvs"
proof (induction kvs arbitrary: d)
  case (Cons p kvs)
  show ?case using Cons [of "dict_put d (fst p) (snd p)"] dict_put_values [of d "fst p" "snd p"] by (cases p) auto
qed simp

lemma deduplicated_rows: "set (dedup_performance_component_economics_rows rows) \<subseteq> set rows"
proof -
  have "set (dedup_performance_component_economics_rows rows)
      \<subseteq> snd ` set (List.map_filter (\<lambda>row. map_option (\<lambda>k. (k, row)) (performance_component_economics_row_key row)) rows)"
    using dict_update_values [of "[]"] by (simp add: dedup_performance_component_economics_rows_def)
  also have "\<dots> \<subseteq> set rows" by (induction rows) (auto simp: List.map_filter_simps split: option.splits)
  finally show ?thesis .
qed

lemma merged_fold_rows:
  "fold (merge_record num key_fields) records (d, n) = (d', n') \<Longrightarrow> snd ` set d' \<subseteq> snd ` set d \<union> set records"
proof (induction records arbitrary: d n)
  case (Cons r rs)
  obtain d1 n1 where one: "merge_record num key_fields r (d, n) = (d1, n1)" by fastforce
  have "snd ` set d1 \<subseteq> insert r (snd ` set d)"
  proof (cases "record_key_by_fields r key_fields")
    case (Some key)
    with one have "d1 = dict_put d key r" by simp
    then show ?thesis using dict_put_values [of d key r] by simp
  qed (use one in auto)
  moreover have "fold (merge_record num key_fields) rs (d1, n1) = (d', n')" using Cons.prems one by simp
  ultimately have "snd ` set d' \<subseteq> snd ` set d1 \<union> set rs" by (intro Cons.IH)
  then show ?case using \<open>snd ` set d1 \<subseteq> _\<close> unfolding list.set by blast
qed simp

lemma merged_rows_sent: "set (merge_dedup_records_by_fields num records key_fields) \<subseteq> set records"
  using merged_fold_rows [of num key_fields records "[]" 0]
  by (fastforce simp: merge_dedup_records_by_fields_def merge_dedup_records_with_conflict_count_def split: prod.splits)

definition economics_rows_sent :: "json_dict list \<Rightarrow> json_dict list" where
  "economics_rows_sent pages = concat (List.map (\<lambda>p. dict_list_payload_items_from_payload p ''rows'') pages)"

lemma recorded_economics:
  "pea_rows (foldl record_performance_component_economics_payload acc pages) = pea_rows acc @ economics_rows_sent pages"
  by (induction pages arbitrary: acc)
    (simp_all add: record_performance_component_economics_payload_def economics_rows_sent_def Let_def
      split: option.splits json.splits)

lemma scope_rows:
  assumes "performance_component_economics_rejected_scope_fields p portfolio_id as_of_date w = []"
    and row: "row \<in> set (dict_list_payload_items_from_payload p ''rows'')"
  shows "dict_get row ''portfolio_id'' = Some (JStr portfolio_id)"
proof -
  from assms(1) have "performance_component_rows_match (dict_get p ''rows'') portfolio_id"
    by (simp add: performance_component_economics_rejected_scope_fields_def split: if_splits)
  moreover have "(\<exists>j \<in> set js. j = JObj r) = (r \<in> set (dict_items js))" for js r
    by (induction js) (auto simp: dict_items_def List.map_filter_simps split: json.splits option.splits)
  ultimately show ?thesis using row
    by (fastforce simp: performance_component_rows_match_def dict_list_payload_items_from_payload_def list_all_iff
        split: option.splits json.splits)
qed

lemma economics_chunk_rows:
  "dict_list_payload_items_from_payload (build_performance_component_economics_chunk_payload portfolio_id as_of_date c acc) ''rows''
     = dedup_performance_component_economics_rows (pea_rows acc)"
  by (simp add: build_performance_component_economics_chunk_payload_def dict_list_payload_items_from_payload_def dict_get_def
      json_objects_def Let_def)

text \<open>C20: The component economics that are answered for a portfolio are of that portfolio: every row of
  the answer was sent by the upstream on a page of a chunk of the window, every such page named the
  portfolio, the date and the window that were asked for, and every row carries the identifier of
  the portfolio. An upstream that mixes portfolios cannot get a row of another one into an answer.\<close>

theorem no_foreign_rows:
  assumes "get_performance_component_economics s upstream portfolio_id as_of_date start_date end_date security_ids
             transaction_types calculation_id st = Some (Inr (200, payload), st')"
  shows "\<exists>chunks pagess rows. plan_chunks start_date end_date 366 = Inr chunks
           \<and> list_all2 (\<lambda>c pages. page_chain (upstream c) 0 None pages
               \<and> list_all (\<lambda>p. performance_component_economics_rejected_scope_fields p portfolio_id as_of_date
                    (window_payload c) = []) pages) chunks pagess
           \<and> dict_get payload ''portfolio_id'' = Some (JStr portfolio_id)
           \<and> dict_get payload ''rows'' = Some (json_objects rows)
           \<and> set rows \<subseteq> set (economics_rows_sent (concat pagess))
           \<and> list_all (\<lambda>row. dict_get row ''portfolio_id'' = Some (JStr portfolio_id)) rows"
proof -
  define P where "P c pages \<longleftrightarrow> page_chain (upstream c) 0 None pages
      \<and> list_all (\<lambda>p. performance_component_economics_rejected_scope_fields p portfolio_id as_of_date (window_payload c) = []) pages"
    for c pages
  define F where "F c pages = build_performance_component_economics_chunk_payload portfolio_id as_of_date c
      (foldl record_performance_component_economics_payload empty_economics pages)" for c pages
  have "\<exists>chunks pagess. plan_chunks start_date end_date 366 = Inr chunks \<and> list_all2 P chunks pagess
      \<and> Inr (build_performance_component_economics_payload (ss_same_number s) portfolio_id as_of_date start_date end_date
          (List.map2 (\<lambda>c pages. (200, F c pages)) chunks pagess) (int (length chunks))) = (Inr payload :: retrieval_error + json_dict)"
    by (rule series_read [OF assms [unfolded get_performance_component_economics_def]])
      (unfold F_def P_def, rule economics_chunk_read)
  then obtain chunks pagess where w: "plan_chunks start_date end_date 366 = Inr chunks" "list_all2 P chunks pagess"
      "payload = build_performance_component_economics_payload (ss_same_number s) portfolio_id as_of_date start_date end_date
          (List.map2 (\<lambda>c pages. (200, F c pages)) chunks pagess) (int (length chunks))" by auto
  define rows where "rows = merge_dedup_records_by_fields (ss_same_number s)
      (performance_component_economics_rows_from_responses (List.map2 (\<lambda>c pages. (200, F c pages)) chunks pagess)) ECONOMICS_KEY_FIELDS"
  have chunk_rows: "set (dict_list_payload_items_from_payload (F c pages) ''rows'') \<subseteq> set (economics_rows_sent pages)" for c pages
    using deduplicated_rows by (fastforce simp: F_def economics_chunk_rows recorded_economics empty_economics_def)
  have "set (performance_component_economics_rows_from_responses (List.map2 (\<lambda>c pages. (200, F c pages)) chunks pagess))
      \<subseteq> set (economics_rows_sent (concat pagess))"
    using list_all2_lengthD [OF w(2)] chunk_rows
    by (induction chunks pagess rule: list_induct2)
      (fastforce simp: performance_component_economics_rows_from_responses_def dict_list_payload_items_def
        economics_rows_sent_def)+
  then have sent: "set rows \<subseteq> set (economics_rows_sent (concat pagess))" using merged_rows_sent by (fastforce simp: rows_def)
  have "dict_get row ''portfolio_id'' = Some (JStr portfolio_id)" if "row \<in> set (economics_rows_sent (concat pagess))" for row
  proof -
    from that obtain pages p where p: "pages \<in> set pagess" "p \<in> set pages"
        "row \<in> set (dict_list_payload_items_from_payload p ''rows'')" by (auto simp: economics_rows_sent_def)
    from p(1) w(2) obtain c where "P c pages" by (auto simp: list_all2_conv_all_nth in_set_conv_nth)
    with p(2) have "performance_component_economics_rejected_scope_fields p portfolio_id as_of_date (window_payload c) = []"
      by (auto simp: P_def list_all_iff)
    then show ?thesis using p(3) by (rule scope_rows)
  qed
  with sent have own: "list_all (\<lambda>row. dict_get row ''portfolio_id'' = Some (JStr portfolio_id)) rows"
    by (auto simp: list_all_iff)
  have "dict_get payload ''portfolio_id'' = Some (JStr portfolio_id)" "dict_get payload ''rows'' = Some (json_objects rows)"
    by (simp_all add: w(3) build_performance_component_economics_payload_def Let_def rows_def dict_get_def)
  then show ?thesis using w(1,2) sent own unfolding P_def by blast
qed

end
