(* ===== verification/Stateful_Witnesses.thy ===== *)
theory Stateful_Witnesses
  imports Stateful_Accounts
begin

text \<open>
  The properties of answered windows on a concrete upstream of two pages, under a service with one
  chunk for the window.
\<close>

section \<open>A service and an upstream\<close>

definition demo_service :: stateful_service where
  "demo_service = \<lparr>ss_portfolio_chunk_days = 31, ss_reference_chunk_days = 31, ss_max_pages_per_chunk = 25,
     ss_sha256_json = (\<lambda>t. ''digest''), ss_sha256 = id, ss_same_number = (=), ss_clock = 0\<rparr>"

definition demo_state :: retrieval_state where
  "demo_state = \<lparr>rv_db = empty_database ''sqlite'', rv_cache = Map.empty\<rparr>"

definition demo_row :: "string \<Rightarrow> json_dict" where
  "demo_row d = [(''valuation_date'', JStr d), (''position_id'', JStr ''AAPL'')]"

text \<open>Two pages: the second repeats a row of the first.\<close>

definition demo_upstream :: "string \<Rightarrow> date_chunk \<Rightarrow> nat \<Rightarrow> string option \<Rightarrow> response" where
  "demo_upstream field_name chunk n token =
     (200, if token = None
           then [(field_name, json_objects [demo_row ''2024-01-02'']), (''page'', JObj [(''next_page_token'', JStr ''p2'')])]
           else [(field_name, json_objects [demo_row ''2024-01-01'', demo_row ''2024-01-02''])])"

definition demo_economics :: "date_chunk \<Rightarrow> nat \<Rightarrow> string option \<Rightarrow> response" where
  "demo_economics chunk n token =
     (200, [(''portfolio_id'', JStr ''P1''), (''as_of_date'', JStr ''2024-01-31''), (''window'', JObj (window_payload chunk)),
            (''rows'', json_objects [[(''portfolio_id'', JStr ''P1''), (''security_id'', JStr ''AAPL''),
                (''transaction_date'', JStr ''2024-01-02''), (''transaction_id'', JStr ''T1'')]])])"

abbreviation "demo_portfolio \<equiv> get_portfolio_timeseries demo_service (demo_upstream ''observations'') ''P1''
  (Date 2024 1 31) (Date 2024 1 1) (Date 2024 1 31) None ''lotus'' None demo_state"

abbreviation "demo_positions \<equiv> get_position_timeseries demo_service (demo_upstream ''rows'') ''P1''
  (Date 2024 1 31) (Date 2024 1 1) (Date 2024 1 31) None ''lotus'' ([], False, []) None demo_state"

abbreviation "demo_components \<equiv> get_performance_component_economics demo_service demo_economics ''P1''
  (Date 2024 1 31) (Date 2024 1 1) (Date 2024 1 31) [] [] None demo_state"

section \<open>What they answer\<close>

text \<open>The view of an answer: its status and one of its fields.\<close>

definition answered :: "response retrieval option \<Rightarrow> string \<Rightarrow> json \<Rightarrow> bool" where
  "answered r field_name value =
     (case r of Some (Inr (status, payload), st) \<Rightarrow> status = 200 \<and> dict_get payload field_name = Some value | _ \<Rightarrow> False)"

lemma answeredE:
  assumes "answered r field_name value"
  obtains payload st where "r = Some (Inr (200, payload), st)" "dict_get payload field_name = Some value"
  using assms by (auto simp: answered_def split: option.splits sum.splits prod.splits)

lemma portfolio_answered:
  "answered demo_portfolio ''observations'' (json_objects [demo_row ''2024-01-01'', demo_row ''2024-01-02''])"
  by code_simp

lemma positions_answered:
  "answered demo_positions ''rows'' (json_objects (List.map position_row_with_source_key
     [demo_row ''2024-01-01'', demo_row ''2024-01-02'']))"
  by code_simp

lemma components_answered:
  "answered demo_components ''portfolio_id'' (JStr ''P1'')"
  by code_simp

section \<open>The properties, applied\<close>

lemma json_objects_eq [simp]: "json_objects rows = json_objects rows' \<longleftrightarrow> rows = rows'"
  by (simp add: json_objects_def inj_map_eq_map inj_def)

theorem portfolio_read_exactly_witness:
  "\<exists>payload st' chunks pagess. demo_portfolio = Some (Inr (200, payload), st')
     \<and> plan_chunks (Date 2024 1 1) (Date 2024 1 31) (ss_portfolio_chunk_days demo_service) = Inr chunks
     \<and> list_all2 (\<lambda>c. page_chain (demo_upstream ''observations'' c) 0 None) chunks pagess
     \<and> merge_portfolio_observations (observations_of (concat pagess)) = [demo_row ''2024-01-01'', demo_row ''2024-01-02'']
     \<and> retrieval_page_count payload = int (length (concat pagess))"
proof -
  obtain payload st' where run: "demo_portfolio = Some (Inr (200, payload), st')"
      "dict_get payload ''observations'' = Some (json_objects [demo_row ''2024-01-01'', demo_row ''2024-01-02''])"
    using portfolio_answered by (rule answeredE)
  from portfolio_read_exactly [OF run(1)] obtain chunks pagess rows
    where w: "plan_chunks (Date 2024 1 1) (Date 2024 1 31) (ss_portfolio_chunk_days demo_service) = Inr chunks"
      "list_all2 (\<lambda>c. page_chain (demo_upstream ''observations'' c) 0 None) chunks pagess"
      "dict_get payload ''observations'' = Some (json_objects rows)"
      "rows = merge_portfolio_observations (observations_of (concat pagess))"
      "retrieval_page_count payload = int (length (concat pagess))" by (elim exE conjE)
  have "rows = [demo_row ''2024-01-01'', demo_row ''2024-01-02'']" using run(2) w(3) by (simp only: option.inject json_objects_eq)
  then show ?thesis by (intro exI conjI) (rule run(1), rule w(1), rule w(2), simp only: w(4) [symmetric], rule w(5))
qed

theorem position_rows_accounted_witness:
  "\<exists>payload st' rows discarded. demo_positions = Some (Inr (200, payload), st')
     \<and> dict_get payload ''rows'' = Some (json_objects rows) \<and> length rows = 2
     \<and> retrieval_count payload ''retained_row_count'' = Some 2
     \<and> retrieval_count payload ''discarded_source_row_count'' = Some discarded"
proof -
  obtain payload st' where run: "demo_positions = Some (Inr (200, payload), st')"
      "dict_get payload ''rows'' = Some (json_objects (List.map position_row_with_source_key
         [demo_row ''2024-01-01'', demo_row ''2024-01-02'']))"
    using positions_answered by (rule answeredE)
  from position_rows_accounted [OF run(1)] obtain rows discarded
    where w: "dict_get payload ''rows'' = Some (json_objects rows)"
      "retrieval_count payload ''retained_row_count'' = Some (int (length rows))"
      "retrieval_count payload ''discarded_source_row_count'' = Some discarded" by (elim exE conjE)
  have "rows = List.map position_row_with_source_key [demo_row ''2024-01-01'', demo_row ''2024-01-02'']"
    using run(2) w(1) by (simp only: option.inject json_objects_eq)
  then have "length rows = 2" by (simp only: length_map list.size)
  then show ?thesis
    by (intro exI conjI) (rule run(1), rule w(1), assumption, simp only: w(2) of_nat_numeral, rule w(3))
qed

theorem no_foreign_rows_witness:
  "\<exists>payload st' rows. demo_components = Some (Inr (200, payload), st')
     \<and> dict_get payload ''rows'' = Some (json_objects rows)
     \<and> list_all (\<lambda>row. dict_get row ''portfolio_id'' = Some (JStr ''P1'')) rows"
proof -
  obtain payload st' where run: "demo_components = Some (Inr (200, payload), st')"
    using components_answered by (rule answeredE)
  from no_foreign_rows [OF run] obtain rows
    where w: "dict_get payload ''rows'' = Some (json_objects rows)"
      "list_all (\<lambda>row. dict_get row ''portfolio_id'' = Some (JStr ''P1'')) rows" by (elim exE conjE)
  show ?thesis by (intro exI conjI) (rule run, rule w(1), rule w(2))
qed

end
