(* ===== verification/Composite_Metadata.thy ===== *)
theory Composite_Metadata
  imports Durable_Time Durable_Json Tenant_Authority "HOL-Library.Product_Lexorder"
begin

text \<open>
  The store of composite metadata (src/app/services/composite_metadata_store.py): definitions,
  memberships, member-return facts and the publications that attest the exact set of facts of a
  restatement sequence, with the contract of a fact (src/app/models/composites.py), the constraints
  and triggers of the tables, and the retained member scope of a materialization
  (src/app/adapters/composite_result_candidate_scope.py). A text column of a decimal, of an
  enumeration or of a source identity holds the value it is read back as. \<open>digest\<close> is the SHA-256 of a
  canonical JSON text.
\<close>

section \<open>The contract of a fact\<close>

datatype composite_return_view = GROSS | NET_ACTUAL | NET_MODEL_FEE

fun return_view_value :: "composite_return_view \<Rightarrow> string" where
  "return_view_value GROSS = ''GROSS''"
| "return_view_value NET_ACTUAL = ''NET_ACTUAL''"
| "return_view_value NET_MODEL_FEE = ''NET_MODEL_FEE''"

datatype composite_member_return_status = FactReady | FactDegraded | FactBlocked | FactNotSupported

datatype composite_membership_status = Included | Excluded | PendingReview

record composite_fact_source_identity =
  si_source_kind :: string
  si_return_source_kind :: string
  si_provider_id :: string
  si_source_member_id :: string
  si_product_name :: string
  si_product_version :: string
  si_source_revision :: string
  si_source_digest :: string

record composite_fact =
  cf_composite_id :: string
  cf_portfolio_id :: string
  cf_period_start :: date
  cf_period_end :: date
  cf_return_value :: rat
  cf_return_view :: composite_return_view
  cf_beginning_market_value :: rat
  cf_ending_market_value :: "rat option"
  cf_reporting_currency :: string
  cf_calculation_id :: "string option"
  cf_source_authority_identity :: "composite_fact_source_identity option"
  cf_source_snapshot_id :: string
  cf_source_fingerprint :: string
  cf_restatement_version :: string
  cf_restatement_sequence :: int
  cf_status :: composite_member_return_status
  cf_reason_codes :: "string list"

definition is_upper_letter :: "char \<Rightarrow> bool" where
  "is_upper_letter c \<longleftrightarrow> 65 \<le> (of_char c :: nat) \<and> (of_char c :: nat) \<le> 90"

definition is_ascii_letter :: "char \<Rightarrow> bool" where
  "is_ascii_letter c \<longleftrightarrow> is_upper_letter (upper_char c)"

definition normalize_reporting_currency :: "string \<Rightarrow> string + string" where
  "normalize_reporting_currency value =
     (if value \<noteq> strip value then Inl ''reporting_currency must not contain leading or trailing whitespace''
      else if value = [] \<or> \<not> list_all is_ascii_letter value
        then Inl ''reporting_currency must contain exactly three ASCII letters''
      else Inr (upper_ascii value))"

text \<open>\<open>^[A-Z]{3}$\<close>, as the field, the checks of the tables and their triggers ask.\<close>

definition canonical_currency :: "string \<Rightarrow> bool" where
  "canonical_currency c \<longleftrightarrow> length c = 3 \<and> list_all is_upper_letter c"

definition validate_authority_kind :: "composite_fact_source_identity \<Rightarrow> string + unit" where
  "validate_authority_kind identity =
     (let expected_return_kind = map_of [(''INTERNAL'', ''LOTUS_PERFORMANCE''), (''EXTERNAL_PROVIDER'', ''EXTERNAL_PROVIDER'')]
            (si_source_kind identity)
      in ensure (expected_return_kind = None \<or> expected_return_kind = Some (si_return_source_kind identity))
           ''Selected authority mode conflicts with return ownership'')"

definition validate_source_identity :: "composite_fact \<Rightarrow> string + unit" where
  "validate_source_identity f =
     (case cf_source_authority_identity f of
        None \<Rightarrow> ensure (cf_ending_market_value f \<noteq> None \<and> nonblank_opt (cf_calculation_id f))
          ''Internal facts require genuine calculation identity and ending assets''
      | Some identity \<Rightarrow>
          bind_res (validate_authority_kind identity) (\<lambda>_.
            if si_return_source_kind identity = ''EXTERNAL_PROVIDER'' \<and> cf_calculation_id f \<noteq> None
            then Inl ''External facts cannot manufacture an internal calculation identity''
            else ensure (si_return_source_kind identity = ''LOTUS_PERFORMANCE'' \<longrightarrow> nonblank_opt (cf_calculation_id f))
              ''Internal-return authority requires genuine calculation identity''))"

definition composite_member_return_period_valid :: "date \<Rightarrow> date \<Rightarrow> bool" where
  "composite_member_return_period_valid period_start period_end \<longleftrightarrow> period_start \<le> period_end"

definition composite_member_return_status_reason_valid :: "composite_member_return_status \<Rightarrow> string list \<Rightarrow> bool" where
  "composite_member_return_status_reason_valid status reason_codes \<longleftrightarrow> status = FactReady \<or> reason_codes \<noteq> []"

definition validate_fact :: "composite_fact \<Rightarrow> string + composite_fact" where
  "validate_fact f =
     bind_res (validate_source_identity f) (\<lambda>_.
     bind_res (ensure (composite_member_return_period_valid (cf_period_start f) (cf_period_end f))
                 ''period_end cannot be before period_start'') (\<lambda>_.
     bind_res (ensure (composite_member_return_status_reason_valid (cf_status f) (cf_reason_codes f))
                 ''reason_codes are required when member return status is not READY'') (\<lambda>_. Inr f)))"

text \<open>The constructor: the fields first, then the model as a whole.\<close>

definition fact_fields_valid :: "composite_fact \<Rightarrow> bool" where
  "fact_fields_valid f \<longleftrightarrow> 0 \<le> cf_beginning_market_value f
     \<and> (case cf_ending_market_value f of None \<Rightarrow> True | Some v \<Rightarrow> 0 \<le> v)
     \<and> canonical_currency (cf_reporting_currency f)
     \<and> 1 \<le> length (cf_restatement_version f) \<and> length (cf_restatement_version f) \<le> 64
     \<and> strip (cf_restatement_version f) \<noteq> [] \<and> 1 \<le> cf_restatement_sequence f"

definition CompositeMemberReturnFact :: "composite_fact \<Rightarrow> string + composite_fact" where
  "CompositeMemberReturnFact f =
     bind_res (normalize_reporting_currency (cf_reporting_currency f)) (\<lambda>currency.
       let normalized = f\<lparr>cf_reporting_currency := currency\<rparr> in
       if fact_fields_valid normalized then validate_fact normalized else Inl ''A field of the fact is invalid'')"

section \<open>Rows\<close>

record composite_definition_row =
  cd_definition_key :: string
  cd_tenant_id :: string
  cd_composite_id :: string
  cd_display_name :: string
  cd_strategy_code :: string
  cd_reporting_currency :: string
  cd_inception_date :: date
  cd_termination_date :: "date option"
  cd_calculation_method :: string
  cd_source_authority_json :: json_text

record composite_membership_row =
  cm_membership_key :: string
  cm_tenant_id :: string
  cm_composite_id :: string
  cm_portfolio_id :: string
  cm_effective_from :: date
  cm_effective_to :: "date option"
  cm_status :: composite_membership_status
  cm_status_reason :: "string option"
  cm_discretionary :: string
  cm_source_snapshot_id :: string

record composite_fact_row =
  fr_fact_key :: string
  fr_tenant_id :: string
  fr_composite_id :: string
  fr_portfolio_id :: string
  fr_period_start :: date
  fr_period_end :: date
  fr_return_value :: rat
  fr_return_view :: composite_return_view
  fr_beginning_market_value :: rat
  fr_ending_market_value :: "rat option"
  fr_reporting_currency :: string
  fr_calculation_id :: "string option"
  fr_source_authority_identity_json :: "composite_fact_source_identity option"
  fr_source_snapshot_id :: string
  fr_source_fingerprint :: string
  fr_restatement_version :: string
  fr_restatement_sequence :: int
  fr_status :: composite_member_return_status
  fr_reason_codes_json :: json_text

record composite_publication_row =
  pb_publication_key :: string
  pb_tenant_id :: string
  pb_composite_id :: string
  pb_return_view :: composite_return_view
  pb_reporting_currency :: string
  pb_restatement_sequence :: int
  pb_period_start :: date
  pb_period_end :: date
  pb_expected_families_json :: json_text
  pb_source_fingerprint :: string

text \<open>What this store reads of a materialization; \<open>mz_member_scope\<close> is the projection of its source.\<close>

record composite_materialization_row =
  mz_tenant_id :: string
  mz_materialization_id :: string
  mz_composite_id :: string
  mz_return_view :: composite_return_view
  mz_reporting_currency :: string
  mz_restatement_sequence :: int
  mz_period_start :: date
  mz_period_end :: date
  mz_state :: string
  mz_member_scope :: "json_text option"

record composite_store =
  cs_definitions :: "composite_definition_row list"
  cs_memberships :: "composite_membership_row list"
  cs_facts :: "composite_fact_row list"
  cs_publications :: "composite_publication_row list"
  cs_materializations :: "composite_materialization_row list"

datatype metadata_error =
    TenantRefused "api_error + string"
  | FactConflict string
  | DefinitionIdentityConflict string
  | DefinitionOwnership string
  | FactSelection string
  | MaintenanceRequired string
  | InvalidRequest string
  | MetadataIntegrity
  | ScopeRefused api_error

text \<open>The dimensions that a restatement sequence belongs to, and the members and periods inside.\<close>

type_synonym publication_scope = "string \<times> string \<times> composite_return_view \<times> string \<times> int"
type_synonym fact_family = "string \<times> date \<times> date"

definition fact_scope :: "composite_fact_row \<Rightarrow> publication_scope" where
  "fact_scope r = (fr_tenant_id r, fr_composite_id r, fr_return_view r, fr_reporting_currency r, fr_restatement_sequence r)"

definition publication_scope_of :: "composite_publication_row \<Rightarrow> publication_scope" where
  "publication_scope_of p =
     (pb_tenant_id p, pb_composite_id p, pb_return_view p, pb_reporting_currency p, pb_restatement_sequence p)"

definition family_of :: "composite_fact_row \<Rightarrow> fact_family" where
  "family_of r = (fr_portfolio_id r, fr_period_start r, fr_period_end r)"

section \<open>Identities and keys\<close>

definition admitted_composite_tenant_id :: "string \<Rightarrow> string option \<Rightarrow> metadata_error + string" where
  "admitted_composite_tenant_id tenant_id_var presented =
     (case admitted_tenant_authority (case presented of None \<Rightarrow> tenant_id_var | Some t \<Rightarrow> t) of
        Inl refusal \<Rightarrow> Inl (TenantRefused refusal)
      | Inr authority \<Rightarrow>
          (case require_composite_tenant_authority authority of
             Inl e \<Rightarrow> Inl (TenantRefused (Inl e))
           | Inr a \<Rightarrow> Inr (tenant_id a)))"

definition scoped_key :: "(json_text \<Rightarrow> string) \<Rightarrow> json_dict \<Rightarrow> string" where
  "scoped_key digest values = ''sha256:'' @ digest (dumps_dict values)"

definition definition_key :: "(json_text \<Rightarrow> string) \<Rightarrow> string \<Rightarrow> string \<Rightarrow> string" where
  "definition_key digest tenant composite_id =
     scoped_key digest [(''tenant_id'', JStr tenant), (''composite_id'', JStr composite_id)]"

record composite_membership =
  ms_composite_id :: string
  ms_portfolio_id :: string
  ms_effective_from :: date
  ms_effective_to :: "date option"
  ms_status :: composite_membership_status
  ms_status_reason :: "string option"
  ms_discretionary :: bool
  ms_source_snapshot_id :: string

definition membership_key :: "(json_text \<Rightarrow> string) \<Rightarrow> composite_membership \<Rightarrow> string \<Rightarrow> string" where
  "membership_key digest m tenant =
     scoped_key digest
       [(''tenant_id'', JStr tenant), (''composite_id'', JStr (ms_composite_id m)),
        (''portfolio_id'', JStr (ms_portfolio_id m)), (''effective_from'', JStr (str_date (ms_effective_from m))),
        (''effective_to'', JStr (case ms_effective_to m of None \<Rightarrow> ''open'' | Some d \<Rightarrow> str_date d))]"

definition fact_identity_values :: "composite_fact \<Rightarrow> string \<Rightarrow> json_dict" where
  "fact_identity_values f tenant =
     [(''tenant_id'', JStr tenant), (''composite_id'', JStr (cf_composite_id f)),
      (''portfolio_id'', JStr (cf_portfolio_id f)), (''period_start'', JStr (str_date (cf_period_start f))),
      (''period_end'', JStr (str_date (cf_period_end f))), (''return_view'', JStr (return_view_value (cf_return_view f))),
      (''reporting_currency'', JStr (cf_reporting_currency f)),
      (''restatement_version'', JStr (cf_restatement_version f)),
      (''restatement_sequence'', JInt (cf_restatement_sequence f))]"

definition fact_key :: "(json_text \<Rightarrow> string) \<Rightarrow> composite_fact \<Rightarrow> string \<Rightarrow> string" where
  "fact_key digest f tenant = scoped_key digest (fact_identity_values f tenant)"

definition publication_key :: "(json_text \<Rightarrow> string) \<Rightarrow> publication_scope \<Rightarrow> string" where
  "publication_key digest scope =
     (case scope of (tenant, composite_id, return_view, reporting_currency, restatement_sequence) \<Rightarrow>
        scoped_key digest
          [(''tenant_id'', JStr tenant), (''composite_id'', JStr composite_id), (''reporting_currency'', JStr reporting_currency),
           (''restatement_sequence'', JInt restatement_sequence), (''return_view'', JStr (return_view_value return_view))])"

section \<open>The families of a publication\<close>

definition serialize_fact_families :: "fact_family set \<Rightarrow> json_text" where
  "serialize_fact_families families =
     json_dumps (JList (List.map (\<lambda>(portfolio_id, period_start, period_end).
        JObj [(''period_end'', JStr (str_date period_end)), (''period_start'', JStr (str_date period_start)),
              (''portfolio_id'', JStr portfolio_id)])
       (sorted_list_of_set families)))"

definition digit_of :: "char \<Rightarrow> int option" where
  "digit_of c = (let n = (of_char c :: nat) in if 48 \<le> n \<and> n \<le> 57 then Some (int n - 48) else None)"

fun digits_value :: "int \<Rightarrow> string \<Rightarrow> int option" where
  "digits_value acc [] = Some acc"
| "digits_value acc (c # cs) = (case digit_of c of None \<Rightarrow> None | Some d \<Rightarrow> digits_value (10 * acc + d) cs)"

text \<open>
  A date whose own text it is. Other texts that \<open>fromisoformat\<close> reads are refused by the comparison
  with the canonical text, as those it cannot read are by its \<open>ValueError\<close>.
\<close>

definition parse_canonical_family_date :: "json \<Rightarrow> string + date" where
  "parse_canonical_family_date raw_value =
     (case raw_value of
        JStr s \<Rightarrow>
          (case (digits_value 0 (take 4 s), digits_value 0 (take 2 (drop 5 s)), digits_value 0 (drop 8 s)) of
             (Some y, Some m, Some d) \<Rightarrow>
               if 1 \<le> y \<and> y \<le> 9999 \<and> valid_date (Date y m d) \<and> str_date (Date y m d) = s then Inr (Date y m d)
               else Inl ''publication family periods must use canonical ISO dates''
           | _ \<Rightarrow> Inl ''publication family periods must use canonical ISO dates'')
      | _ \<Rightarrow> Inl ''publication family periods must be ISO date strings'')"

definition parse_fact_family :: "json \<Rightarrow> string + fact_family" where
  "parse_fact_family item =
     (case item of
        JObj d \<Rightarrow>
          if fst ` set d \<noteq> {''portfolio_id'', ''period_start'', ''period_end''}
          then Inl ''publication families contain a malformed entry''
          else (case dict_get d ''portfolio_id'' of
              Some (JStr portfolio_id) \<Rightarrow>
                if strip portfolio_id = [] \<or> length portfolio_id > 128
                then Inl ''publication family portfolio_id must be nonblank''
                else bind_res (parse_canonical_family_date (the (dict_get d ''period_start''))) (\<lambda>period_start.
                     bind_res (parse_canonical_family_date (the (dict_get d ''period_end''))) (\<lambda>period_end.
                       if period_end < period_start then Inl ''publication family periods must be ordered''
                       else Inr (portfolio_id, period_start, period_end)))
            | _ \<Rightarrow> Inl ''publication family portfolio_id must be nonblank'')
      | _ \<Rightarrow> Inl ''publication families contain a malformed entry'')"

fun parse_all :: "('a \<Rightarrow> 'e + 'b) \<Rightarrow> 'a list \<Rightarrow> 'e + 'b list" where
  "parse_all f [] = Inr []"
| "parse_all f (x # xs) = bind_res (f x) (\<lambda>y. bind_res (parse_all f xs) (\<lambda>ys. Inr (y # ys)))"

definition parse_fact_families :: "json_text \<Rightarrow> string + fact_family set" where
  "parse_fact_families raw_payload =
     (case json_loads raw_payload of
        None \<Rightarrow> Inl ''JSONDecodeError''
      | Some (JList items) \<Rightarrow>
          bind_res (parse_all parse_fact_family items) (\<lambda>families.
            if card (set families) \<noteq> length items then Inl ''publication families must not contain duplicates''
            else Inr (set families))
      | Some _ \<Rightarrow> Inl ''publication families must be a list'')"

definition deserialize_fact_families :: "json_text \<Rightarrow> metadata_error + fact_family set" where
  "deserialize_fact_families raw_payload =
     (case parse_fact_families raw_payload of
        Inl _ \<Rightarrow> Inl (FactSelection ''Completed composite fact publication contains malformed family evidence'')
      | Inr families \<Rightarrow> Inr families)"

section \<open>Rows and facts\<close>

definition INVALID_COMPOSITE_REASON_CODES_PAYLOAD :: string where
  "INVALID_COMPOSITE_REASON_CODES_PAYLOAD = ''invalid_reason_codes_payload''"

definition load_reason_codes :: "json_text \<Rightarrow> string list" where
  "load_reason_codes raw_payload = load_json_string_list_or_default raw_payload [INVALID_COMPOSITE_REASON_CODES_PAYLOAD]"

definition member_return_fact_from_row :: "composite_fact_row \<Rightarrow> metadata_error + composite_fact" where
  "member_return_fact_from_row r =
     (case CompositeMemberReturnFact
        \<lparr>cf_composite_id = fr_composite_id r, cf_portfolio_id = fr_portfolio_id r, cf_period_start = fr_period_start r,
         cf_period_end = fr_period_end r, cf_return_value = fr_return_value r, cf_return_view = fr_return_view r,
         cf_beginning_market_value = fr_beginning_market_value r, cf_ending_market_value = fr_ending_market_value r,
         cf_reporting_currency = fr_reporting_currency r, cf_calculation_id = fr_calculation_id r,
         cf_source_authority_identity = fr_source_authority_identity_json r,
         cf_source_snapshot_id = fr_source_snapshot_id r, cf_source_fingerprint = fr_source_fingerprint r,
         cf_restatement_version = fr_restatement_version r, cf_restatement_sequence = fr_restatement_sequence r,
         cf_status = fr_status r, cf_reason_codes = load_reason_codes (fr_reason_codes_json r)\<rparr> of
        Inl m \<Rightarrow> Inl (InvalidRequest m)
      | Inr f \<Rightarrow> Inr f)"

definition member_return_fact_model :: "(json_text \<Rightarrow> string) \<Rightarrow> composite_fact \<Rightarrow> string \<Rightarrow> composite_fact_row" where
  "member_return_fact_model digest f tenant =
     \<lparr>fr_fact_key = fact_key digest f tenant, fr_tenant_id = tenant, fr_composite_id = cf_composite_id f,
      fr_portfolio_id = cf_portfolio_id f, fr_period_start = cf_period_start f, fr_period_end = cf_period_end f,
      fr_return_value = cf_return_value f, fr_return_view = cf_return_view f,
      fr_beginning_market_value = cf_beginning_market_value f, fr_ending_market_value = cf_ending_market_value f,
      fr_reporting_currency = cf_reporting_currency f, fr_calculation_id = cf_calculation_id f,
      fr_source_authority_identity_json = cf_source_authority_identity f,
      fr_source_snapshot_id = cf_source_snapshot_id f, fr_source_fingerprint = cf_source_fingerprint f,
      fr_restatement_version = cf_restatement_version f, fr_restatement_sequence = cf_restatement_sequence f,
      fr_status = cf_status f, fr_reason_codes_json = json_dumps (JList (List.map JStr (cf_reason_codes f)))\<rparr>"

section \<open>Constraints and triggers\<close>

definition tenant_id_valid :: "string \<Rightarrow> bool" where
  "tenant_id_valid t \<longleftrightarrow> 1 \<le> length t \<and> length t \<le> 128 \<and> t = strip t"

definition definition_exists :: "string \<Rightarrow> string \<Rightarrow> composite_store \<Rightarrow> bool" where
  "definition_exists tenant composite_id db \<longleftrightarrow>
     list_ex (\<lambda>r. cd_tenant_id r = tenant \<and> cd_composite_id r = composite_id) (cs_definitions db)"

text \<open>\<open>uq_composite_member_return_facts_sequence_identity\<close> and \<open>\<dots>_version_identity\<close>.\<close>

definition same_family_dimensions :: "composite_fact_row \<Rightarrow> composite_fact_row \<Rightarrow> bool" where
  "same_family_dimensions a b \<longleftrightarrow> fr_tenant_id a = fr_tenant_id b \<and> fr_composite_id a = fr_composite_id b
     \<and> family_of a = family_of b \<and> fr_return_view a = fr_return_view b \<and> fr_reporting_currency a = fr_reporting_currency b"

definition same_fact_identity :: "composite_fact_row \<Rightarrow> composite_fact_row \<Rightarrow> bool" where
  "same_fact_identity a b \<longleftrightarrow> same_family_dimensions a b
     \<and> (fr_restatement_sequence a = fr_restatement_sequence b \<or> fr_restatement_version a = fr_restatement_version b)"

definition fact_row_checks :: "composite_fact_row \<Rightarrow> bool" where
  "fact_row_checks r \<longleftrightarrow>
     (fr_source_authority_identity_json r \<noteq> None \<or> (fr_ending_market_value r \<noteq> None \<and> fr_calculation_id r \<noteq> None))
     \<and> tenant_id_valid (fr_tenant_id r) \<and> canonical_currency (fr_reporting_currency r) \<and> 1 \<le> fr_restatement_sequence r
     \<and> 1 \<le> length (fr_restatement_version r) \<and> length (fr_restatement_version r) \<le> 64
     \<and> strip (fr_restatement_version r) \<noteq> []"

text \<open>The trigger on the insert of a fact: its sequence may not be published.\<close>

definition completed_insert_guard :: "composite_fact_row \<Rightarrow> composite_store \<Rightarrow> bool" where
  "completed_insert_guard r db \<longleftrightarrow> list_all (\<lambda>p. publication_scope_of p \<noteq> fact_scope r) (cs_publications db)"

definition insert_fact :: "composite_fact_row \<Rightarrow> composite_store \<Rightarrow> composite_store option" where
  "insert_fact r db =
     (if fact_row_checks r \<and> definition_exists (fr_tenant_id r) (fr_composite_id r) db
         \<and> list_all (\<lambda>q. fr_fact_key q \<noteq> fr_fact_key r \<and> \<not> same_fact_identity q r) (cs_facts db)
         \<and> completed_insert_guard r db
      then Some (db\<lparr>cs_facts := tbl_add r (cs_facts db)\<rparr>) else None)"

text \<open>
  The trigger on the insert of a publication states in SQL the checks of \<open>parse_fact_families\<close>, the
  bounds of the period, and that the families are exactly those of the facts.
\<close>

definition publication_insert_guard :: "composite_publication_row \<Rightarrow> composite_store \<Rightarrow> bool" where
  "publication_insert_guard p db \<longleftrightarrow>
     strip (pb_source_fingerprint p) \<noteq> [] \<and> length (pb_source_fingerprint p) \<le> 256
     \<and> (case parse_fact_families (pb_expected_families_json p) of
          Inl m \<Rightarrow> False
        | Inr families \<Rightarrow>
            let facts = filter (\<lambda>r. fact_scope r = publication_scope_of p) (cs_facts db) in
            (\<forall>(portfolio_id, period_start, period_end) \<in> families.
                pb_period_start p \<le> period_start \<and> period_end \<le> pb_period_end p)
            \<and> length facts = card families \<and> families \<subseteq> family_of ` set facts)"

definition insert_publication :: "composite_publication_row \<Rightarrow> composite_store \<Rightarrow> composite_store option" where
  "insert_publication p db =
     (if tenant_id_valid (pb_tenant_id p) \<and> canonical_currency (pb_reporting_currency p) \<and> 1 \<le> pb_restatement_sequence p
         \<and> pb_period_start p \<le> pb_period_end p \<and> definition_exists (pb_tenant_id p) (pb_composite_id p) db
         \<and> list_all (\<lambda>q. pb_publication_key q \<noteq> pb_publication_key p \<and> publication_scope_of q \<noteq> publication_scope_of p)
              (cs_publications db)
         \<and> publication_insert_guard p db
      then Some (db\<lparr>cs_publications := tbl_add p (cs_publications db)\<rparr>) else None)"

section \<open>Definitions and memberships\<close>

text \<open>A retained definition; its authority is the JSON object that \<open>model_dump_json\<close> writes.\<close>

record composite_definition =
  df_composite_id :: string
  df_display_name :: string
  df_strategy_code :: string
  df_reporting_currency :: string
  df_inception_date :: date
  df_termination_date :: "date option"
  df_calculation_method :: string
  df_source_authority :: json_dict

definition definition_row :: "(json_text \<Rightarrow> string) \<Rightarrow> composite_definition \<Rightarrow> string \<Rightarrow> composite_definition_row" where
  "definition_row digest d tenant =
     \<lparr>cd_definition_key = definition_key digest tenant (df_composite_id d), cd_tenant_id = tenant,
      cd_composite_id = df_composite_id d, cd_display_name = df_display_name d, cd_strategy_code = df_strategy_code d,
      cd_reporting_currency = df_reporting_currency d, cd_inception_date = df_inception_date d,
      cd_termination_date = df_termination_date d, cd_calculation_method = df_calculation_method d,
      cd_source_authority_json = Doc (JObj (df_source_authority d))\<rparr>"

definition definition_row_checks :: "composite_definition_row \<Rightarrow> bool" where
  "definition_row_checks r \<longleftrightarrow> tenant_id_valid (cd_tenant_id r) \<and> canonical_currency (cd_reporting_currency r)"

text \<open>\<open>session.merge\<close> updates the row with the key or inserts one; the identity of a definition is unique.\<close>

definition merge_definition :: "composite_definition_row \<Rightarrow> composite_store \<Rightarrow> composite_store option" where
  "merge_definition row db =
     (if \<not> definition_row_checks row then None
      else if tbl_get cd_definition_key (cd_definition_key row) (cs_definitions db) \<noteq> None
        then Some (db\<lparr>cs_definitions := tbl_upd cd_definition_key (cd_definition_key row) (\<lambda>_. row) (cs_definitions db)\<rparr>)
      else if definition_exists (cd_tenant_id row) (cd_composite_id row) db then None
      else Some (db\<lparr>cs_definitions := tbl_add row (cs_definitions db)\<rparr>))"

definition upsert_definition ::
    "(json_text \<Rightarrow> string) \<Rightarrow> string \<Rightarrow> string option \<Rightarrow> composite_definition \<Rightarrow> composite_store
      \<Rightarrow> metadata_error + composite_store" where
  "upsert_definition digest tenant_id_var presented d db =
     bind_res (admitted_composite_tenant_id tenant_id_var presented) (\<lambda>tenant.
       let key = definition_key digest tenant (df_composite_id d);
           existing = tbl_get cd_definition_key key (cs_definitions db)
       in if (case existing of None \<Rightarrow> False
              | Some r \<Rightarrow> cd_tenant_id r \<noteq> tenant \<or> cd_composite_id r \<noteq> df_composite_id d)
          then Inl (DefinitionIdentityConflict
                 ''Composite definition key is already bound to a different tenant/composite identity'')
          else of_option MetadataIntegrity (merge_definition (definition_row digest d tenant) db))"

text \<open>The row behind \<open>get_definition\<close>; a source authority that is no JSON object hides the definition.\<close>

definition get_definition ::
    "(json_text \<Rightarrow> string) \<Rightarrow> string \<Rightarrow> string option \<Rightarrow> string \<Rightarrow> composite_store
      \<Rightarrow> metadata_error + composite_definition option" where
  "get_definition digest tenant_id_var presented composite_id db =
     bind_res (admitted_composite_tenant_id tenant_id_var presented) (\<lambda>tenant. Inr
       (case find (\<lambda>r. cd_definition_key r = definition_key digest tenant composite_id \<and> cd_tenant_id r = tenant
                     \<and> cd_composite_id r = composite_id) (cs_definitions db) of
          None \<Rightarrow> None
        | Some r \<Rightarrow>
            map_option (\<lambda>source_authority.
                \<lparr>df_composite_id = cd_composite_id r, df_display_name = cd_display_name r,
                 df_strategy_code = cd_strategy_code r, df_reporting_currency = cd_reporting_currency r,
                 df_inception_date = cd_inception_date r, df_termination_date = cd_termination_date r,
                 df_calculation_method = cd_calculation_method r, df_source_authority = source_authority\<rparr>)
              (load_json_object_or_none (Some (cd_source_authority_json r)) False)))"

definition require_composite_definition_for_write ::
    "(json_text \<Rightarrow> string) \<Rightarrow> string \<Rightarrow> string \<Rightarrow> composite_store \<Rightarrow> metadata_error + unit" where
  "require_composite_definition_for_write digest tenant composite_id db =
     ensure (list_ex (\<lambda>r. cd_definition_key r = definition_key digest tenant composite_id \<and> cd_tenant_id r = tenant
                        \<and> cd_composite_id r = composite_id) (cs_definitions db))
       (DefinitionOwnership ''Composite definition is unavailable for this tenant-scoped write'')"

definition membership_row :: "(json_text \<Rightarrow> string) \<Rightarrow> composite_membership \<Rightarrow> string \<Rightarrow> composite_membership_row" where
  "membership_row digest m tenant =
     \<lparr>cm_membership_key = membership_key digest m tenant, cm_tenant_id = tenant, cm_composite_id = ms_composite_id m,
      cm_portfolio_id = ms_portfolio_id m, cm_effective_from = ms_effective_from m, cm_effective_to = ms_effective_to m,
      cm_status = ms_status m, cm_status_reason = ms_status_reason m,
      cm_discretionary = (if ms_discretionary m then ''true'' else ''false''),
      cm_source_snapshot_id = ms_source_snapshot_id m\<rparr>"

definition upsert_membership ::
    "(json_text \<Rightarrow> string) \<Rightarrow> string \<Rightarrow> string option \<Rightarrow> composite_membership \<Rightarrow> composite_store
      \<Rightarrow> metadata_error + composite_store" where
  "upsert_membership digest tenant_id_var presented m db =
     bind_res (admitted_composite_tenant_id tenant_id_var presented) (\<lambda>tenant.
     bind_res (require_composite_definition_for_write digest tenant (ms_composite_id m) db) (\<lambda>_.
       let row = membership_row digest m tenant; key = cm_membership_key row in
       if \<not> tenant_id_valid tenant then Inl MetadataIntegrity
       else Inr (db\<lparr>cs_memberships :=
              (if tbl_get cm_membership_key key (cs_memberships db) \<noteq> None
               then tbl_upd cm_membership_key key (\<lambda>_. row) (cs_memberships db)
               else tbl_add row (cs_memberships db))\<rparr>)))"

definition list_memberships ::
    "string \<Rightarrow> string option \<Rightarrow> string \<Rightarrow> composite_store \<Rightarrow> metadata_error + composite_membership list" where
  "list_memberships tenant_id_var presented composite_id db =
     bind_res (admitted_composite_tenant_id tenant_id_var presented) (\<lambda>tenant.
       Inr (List.map (\<lambda>r.
              \<lparr>ms_composite_id = cm_composite_id r, ms_portfolio_id = cm_portfolio_id r,
               ms_effective_from = cm_effective_from r, ms_effective_to = cm_effective_to r, ms_status = cm_status r,
               ms_status_reason = cm_status_reason r, ms_discretionary = (cm_discretionary r = ''true''),
               ms_source_snapshot_id = cm_source_snapshot_id r\<rparr>)
         (sort_key (\<lambda>r. (cm_effective_from r, cm_portfolio_id r))
           (filter (\<lambda>r. cm_tenant_id r = tenant \<and> cm_composite_id r = composite_id) (cs_memberships db)))))"

section \<open>Writing facts\<close>

definition find_member_return_fact_identity_collision ::
    "composite_fact \<Rightarrow> string \<Rightarrow> composite_store \<Rightarrow> composite_fact_row option" where
  "find_member_return_fact_identity_collision f tenant db =
     find (\<lambda>r. fr_tenant_id r = tenant \<and> fr_composite_id r = cf_composite_id f
             \<and> fr_portfolio_id r = cf_portfolio_id f \<and> fr_period_start r = cf_period_start f
             \<and> fr_period_end r = cf_period_end f \<and> fr_return_view r = cf_return_view f
             \<and> fr_reporting_currency r = cf_reporting_currency f
             \<and> (fr_restatement_sequence r = cf_restatement_sequence f
                \<or> fr_restatement_version r = cf_restatement_version f))
       (cs_facts db)"

definition fact_conflict_message :: "composite_fact \<Rightarrow> string" where
  "fact_conflict_message f =
     ''Immutable composite member-return fact identity already exists with different payload: composite_id=''
       @ cf_composite_id f @ '', portfolio_id='' @ cf_portfolio_id f
       @ '', period='' @ str_date (cf_period_start f) @ ''..'' @ str_date (cf_period_end f)
       @ '', return_view='' @ return_view_value (cf_return_view f)
       @ '', reporting_currency='' @ cf_reporting_currency f
       @ '', restatement_version='' @ cf_restatement_version f
       @ '', restatement_sequence='' @ int_text (cf_restatement_sequence f)"

definition accept_idempotent_fact_or_raise_conflict ::
    "composite_fact_row \<Rightarrow> composite_fact \<Rightarrow> metadata_error + unit" where
  "accept_idempotent_fact_or_raise_conflict stored_row f =
     bind_res (member_return_fact_from_row stored_row) (\<lambda>stored.
       ensure (stored = f) (FactConflict (fact_conflict_message f)))"

definition find_member_return_fact_publication ::
    "publication_scope \<Rightarrow> composite_store \<Rightarrow> composite_publication_row option" where
  "find_member_return_fact_publication scope db = find (\<lambda>p. publication_scope_of p = scope) (cs_publications db)"

definition scope_of_fact :: "composite_fact \<Rightarrow> string \<Rightarrow> publication_scope" where
  "scope_of_fact f tenant =
     (tenant, cf_composite_id f, cf_return_view f, cf_reporting_currency f, cf_restatement_sequence f)"

text \<open>
  \<open>others\<close> is what other writers of facts commit between the reads of this one and its insert: the
  locks they share keep everything else out, and on SQLite there is no such moment.
\<close>

definition upsert_member_return_fact ::
    "(json_text \<Rightarrow> string) \<Rightarrow> string \<Rightarrow> string option \<Rightarrow> composite_fact \<Rightarrow> (composite_store \<Rightarrow> composite_store)
      \<Rightarrow> composite_store \<Rightarrow> (metadata_error + unit) \<times> composite_store" where
  "upsert_member_return_fact digest tenant_id_var presented f others db =
     (case admitted_composite_tenant_id tenant_id_var presented of
        Inl e \<Rightarrow> (Inl e, db)
      | Inr tenant \<Rightarrow>
          (case require_composite_definition_for_write digest tenant (cf_composite_id f) db of
             Inl e \<Rightarrow> (Inl e, db)
           | Inr _ \<Rightarrow>
               (case find_member_return_fact_identity_collision f tenant db of
                  Some collision \<Rightarrow> (accept_idempotent_fact_or_raise_conflict collision f, db)
                | None \<Rightarrow>
                    if find_member_return_fact_publication (scope_of_fact f tenant) db \<noteq> None
                    then (Inl (FactConflict
                            (''Completed composite fact publication is immutable; a new family cannot be added after completion: sequence=''
                               @ int_text (cf_restatement_sequence f))), db)
                    else (case insert_fact (member_return_fact_model digest f tenant) (others db) of
                        Some db1 \<Rightarrow> (Inr (), db1)
                      | None \<Rightarrow>
                          (case find_member_return_fact_identity_collision f tenant (others db) of
                             None \<Rightarrow> (Inl MetadataIntegrity, others db)
                           | Some collision \<Rightarrow> (accept_idempotent_fact_or_raise_conflict collision f, others db))))))"

section \<open>Completing a publication\<close>

definition validate_publication_identity_fields :: "string \<Rightarrow> int \<Rightarrow> string \<Rightarrow> string + unit" where
  "validate_publication_identity_fields reporting_currency restatement_sequence source_fingerprint =
     (if restatement_sequence < 1 then Inl ''restatement_sequence must be positive''
      else if strip source_fingerprint = [] then Inl ''source_fingerprint must not be blank''
      else ensure (canonical_currency reporting_currency) ''reporting_currency must be a canonical three-letter code'')"

definition validate_publication_periods :: "date \<Rightarrow> date \<Rightarrow> fact_family set \<Rightarrow> string + unit" where
  "validate_publication_periods period_start period_end expected_families =
     (if period_end < period_start then Inl ''publication period must be valid''
      else if \<exists>(portfolio_id, family_start, family_end) \<in> expected_families. family_end < family_start
        then Inl ''publication fact-family periods must be valid''
      else ensure (\<forall>(portfolio_id, family_start, family_end) \<in> expected_families.
                     period_start \<le> family_start \<and> family_end \<le> period_end)
        ''publication fact families must fall within its declared period'')"

definition validate_member_return_fact_publication_request ::
    "string \<Rightarrow> int \<Rightarrow> date \<Rightarrow> date \<Rightarrow> fact_family set \<Rightarrow> string \<Rightarrow> string + unit" where
  "validate_member_return_fact_publication_request reporting_currency restatement_sequence period_start period_end
       expected_families source_fingerprint =
     bind_res (validate_publication_identity_fields reporting_currency restatement_sequence source_fingerprint) (\<lambda>_.
       validate_publication_periods period_start period_end expected_families)"

definition require_exact_publication_families ::
    "fact_family set \<Rightarrow> fact_family set \<Rightarrow> int \<Rightarrow> metadata_error + unit" where
  "require_exact_publication_families actual_families expected_families restatement_sequence =
     ensure (actual_families = expected_families)
       (FactSelection (''Cannot complete composite fact publication before its exact source-declared universe is durable: sequence=''
          @ int_text restatement_sequence @ '', actual='' @ int_text (int (card actual_families))
          @ '', expected='' @ int_text (int (card expected_families))))"

definition accept_idempotent_publication_or_raise_conflict ::
    "composite_publication_row \<Rightarrow> json_text \<Rightarrow> string \<Rightarrow> date \<Rightarrow> date \<Rightarrow> int \<Rightarrow> metadata_error + unit" where
  "accept_idempotent_publication_or_raise_conflict existing expected_families_json source_fingerprint period_start
       period_end restatement_sequence =
     ensure (pb_expected_families_json existing = expected_families_json
             \<and> pb_source_fingerprint existing = source_fingerprint
             \<and> pb_period_start existing = period_start \<and> pb_period_end existing = period_end)
       (FactConflict (''Completed composite fact publication identity already exists with different universe or lineage: sequence=''
          @ int_text restatement_sequence))"

definition member_return_fact_families :: "(composite_fact_row \<Rightarrow> bool) \<Rightarrow> composite_store \<Rightarrow> fact_family set" where
  "member_return_fact_families filters db = family_of ` set (filter filters (cs_facts db))"

record publication_request =
  pq_composite_id :: string
  pq_return_view :: composite_return_view
  pq_reporting_currency :: string
  pq_restatement_sequence :: int
  pq_period_start :: date
  pq_period_end :: date
  pq_expected_families :: "fact_family set"
  pq_source_fingerprint :: string

definition scope_of_request :: "publication_request \<Rightarrow> string \<Rightarrow> publication_scope" where
  "scope_of_request q tenant =
     (tenant, pq_composite_id q, pq_return_view q, pq_reporting_currency q, pq_restatement_sequence q)"

definition publication_row :: "(json_text \<Rightarrow> string) \<Rightarrow> publication_request \<Rightarrow> string \<Rightarrow> composite_publication_row" where
  "publication_row digest q tenant =
     \<lparr>pb_publication_key = publication_key digest (scope_of_request q tenant), pb_tenant_id = tenant,
      pb_composite_id = pq_composite_id q, pb_return_view = pq_return_view q,
      pb_reporting_currency = pq_reporting_currency q, pb_restatement_sequence = pq_restatement_sequence q,
      pb_period_start = pq_period_start q, pb_period_end = pq_period_end q,
      pb_expected_families_json = serialize_fact_families (pq_expected_families q),
      pb_source_fingerprint = pq_source_fingerprint q\<rparr>"

text \<open>The exclusive lock of the publication keeps writers of its facts out, so nothing changes in between.\<close>

definition complete_member_return_fact_publication ::
    "(json_text \<Rightarrow> string) \<Rightarrow> string \<Rightarrow> string option \<Rightarrow> publication_request \<Rightarrow> composite_store
      \<Rightarrow> metadata_error + composite_store" where
  "complete_member_return_fact_publication digest tenant_id_var presented q db =
     bind_res (admitted_composite_tenant_id tenant_id_var presented) (\<lambda>tenant.
       case validate_member_return_fact_publication_request (pq_reporting_currency q) (pq_restatement_sequence q)
              (pq_period_start q) (pq_period_end q) (pq_expected_families q) (pq_source_fingerprint q) of
         Inl m \<Rightarrow> Inl (InvalidRequest m)
       | Inr _ \<Rightarrow>
           let scope = scope_of_request q tenant; row = publication_row digest q tenant in
           bind_res (require_composite_definition_for_write digest tenant (pq_composite_id q) db) (\<lambda>_.
           bind_res (require_exact_publication_families
                       (member_return_fact_families (\<lambda>r. fact_scope r = scope) db)
                       (pq_expected_families q) (pq_restatement_sequence q)) (\<lambda>_.
             case find_member_return_fact_publication scope db of
               Some existing \<Rightarrow>
                 bind_res (accept_idempotent_publication_or_raise_conflict existing (pb_expected_families_json row)
                             (pq_source_fingerprint q) (pq_period_start q) (pq_period_end q)
                             (pq_restatement_sequence q)) (\<lambda>_. Inr db)
             | None \<Rightarrow> of_option MetadataIntegrity (insert_publication row db))))"

section \<open>The member scope of a materialization\<close>

definition retained_scope_unavailable :: api_error where
  "retained_scope_unavailable = \<lparr>status_code = 503, detail = JStr ''Retained member scope is unavailable.'',
     error_code = Some ''COMPOSITE_RESULT_CUSTODY_REFUSED'', retryable = None, remediation_hint = None\<rparr>"

definition member_scope :: "json_text option \<Rightarrow> api_error + string set" where
  "member_scope scope_json =
     (case map_option json_loads scope_json of
        Some (Some (JList members)) \<Rightarrow>
          let ids = List.map_filter nonempty_string_of members in
          if members \<noteq> [] \<and> length ids = length members \<and> distinct ids then Inr (set ids)
          else Inl retained_scope_unavailable
      | _ \<Rightarrow> Inl retained_scope_unavailable)"

definition require_complete_window :: "composite_materialization_row option \<Rightarrow> string \<Rightarrow> api_error + composite_materialization_row" where
  "require_complete_window row code =
     (let refused = \<lparr>status_code = 409, detail = JStr ''A complete retained window is required.'',
            error_code = Some code, retryable = None, remediation_hint = None\<rparr>
      in case row of
           None \<Rightarrow> Inl refused
         | Some r \<Rightarrow> if mz_state r \<noteq> ''COMPLETE'' then Inl refused else Inr r)"

definition scope_row :: "string \<Rightarrow> string \<Rightarrow> composite_store \<Rightarrow> composite_materialization_row option" where
  "scope_row identity tenant db =
     find (\<lambda>z. mz_tenant_id z = tenant \<and> mz_materialization_id z = identity) (cs_materializations db)"

fun retained_materialization_members :: "string list \<Rightarrow> string \<Rightarrow> string \<Rightarrow> composite_store \<Rightarrow> api_error + string set" where
  "retained_materialization_members [] tenant unavailable_code db = Inr {}"
| "retained_materialization_members (identity # ids) tenant unavailable_code db =
     bind_res (require_complete_window (scope_row identity tenant db) unavailable_code) (\<lambda>row.
     bind_res (member_scope (mz_member_scope row)) (\<lambda>members.
     bind_res (retained_materialization_members ids tenant unavailable_code db) (\<lambda>rest. Inr (members \<union> rest))))"

definition require_composite_member_scope :: "string set \<Rightarrow> string set \<Rightarrow> api_error + unit" where
  "require_composite_member_scope portfolio_scope members =
     (if members = {} then Inl retained_scope_unavailable
      else ensure (members \<subseteq> portfolio_scope)
        \<lparr>status_code = 403, detail = JStr ''Retained member scope is refused.'',
         error_code = Some ''PORTFOLIO_OUTSIDE_SCOPE'', retryable = None, remediation_hint = None\<rparr>)"

section \<open>Reading facts\<close>

record fact_query =
  fq_composite_id :: string
  fq_period_start :: date
  fq_period_end :: date
  fq_return_view :: composite_return_view
  fq_reporting_currency :: "string option"
  fq_restatement_sequence :: "int option"

definition covering_publication_window_filters :: "fact_query \<Rightarrow> composite_publication_row \<Rightarrow> bool" where
  "covering_publication_window_filters q p \<longleftrightarrow>
     pb_period_start p \<le> fq_period_start q \<and> fq_period_end q \<le> pb_period_end p"

definition resolve_member_return_reporting_currency ::
    "string \<Rightarrow> fact_query \<Rightarrow> composite_store \<Rightarrow> metadata_error + string" where
  "resolve_member_return_reporting_currency tenant q db =
     (case fq_reporting_currency q of
        Some currency \<Rightarrow> Inr currency
      | None \<Rightarrow>
          (case remdups (List.map pb_reporting_currency (filter (\<lambda>p. pb_tenant_id p = tenant
                \<and> pb_composite_id p = fq_composite_id q \<and> pb_return_view p = fq_return_view q
                \<and> covering_publication_window_filters q p
                \<and> (case fq_restatement_sequence q of None \<Rightarrow> True | Some n \<Rightarrow> pb_restatement_sequence p = n))
              (cs_publications db))) of
             [currency] \<Rightarrow> Inr currency
           | [] \<Rightarrow>
               (case find (\<lambda>r. cd_tenant_id r = tenant \<and> cd_composite_id r = fq_composite_id q) (cs_definitions db) of
                  None \<Rightarrow> Inl (FactSelection ''Composite reporting definition is unavailable.'')
                | Some r \<Rightarrow> Inr (cd_reporting_currency r))
           | _ \<Rightarrow> Inl (FactSelection
               ''Reporting currency is required when the requested scope has multiple published projections.'')))"

definition fact_filters :: "string \<Rightarrow> fact_query \<Rightarrow> string \<Rightarrow> composite_fact_row \<Rightarrow> bool" where
  "fact_filters tenant q currency r \<longleftrightarrow> fr_tenant_id r = tenant \<and> fr_composite_id r = fq_composite_id q
     \<and> fq_period_start q \<le> fr_period_start r \<and> fr_period_end r \<le> fq_period_end q
     \<and> fr_return_view r = fq_return_view q \<and> fr_reporting_currency r = currency"

definition publication_identity_filters :: "string \<Rightarrow> fact_query \<Rightarrow> string \<Rightarrow> composite_publication_row \<Rightarrow> bool" where
  "publication_identity_filters tenant q currency p \<longleftrightarrow> pb_tenant_id p = tenant \<and> pb_composite_id p = fq_composite_id q
     \<and> pb_return_view p = fq_return_view q \<and> pb_reporting_currency p = currency"

fun max_of :: "int list \<Rightarrow> int option" where
  "max_of [] = None"
| "max_of (x # xs) = (case max_of xs of None \<Rightarrow> Some x | Some y \<Rightarrow> Some (max x y))"

definition resolve_member_return_fact_sequence ::
    "string \<Rightarrow> fact_query \<Rightarrow> string \<Rightarrow> composite_store \<Rightarrow> int option \<times> bool" where
  "resolve_member_return_fact_sequence tenant q currency db =
     (case fq_restatement_sequence q of
        Some n \<Rightarrow> (Some n, False)
      | None \<Rightarrow>
          (max_of (List.map fr_restatement_sequence (filter (fact_filters tenant q currency) (cs_facts db))
             @ List.map pb_restatement_sequence
                 (filter (\<lambda>p. publication_identity_filters tenant q currency p \<and> covering_publication_window_filters q p)
                    (cs_publications db))), True))"

definition unreleased :: "string \<Rightarrow> fact_query \<Rightarrow> string \<Rightarrow> int \<Rightarrow> bool \<Rightarrow> composite_store \<Rightarrow> bool" where
  "unreleased tenant q currency selected_sequence selecting_latest db \<longleftrightarrow>
     list_ex (\<lambda>z. mz_tenant_id z = tenant \<and> mz_composite_id z = fq_composite_id q \<and> mz_return_view z = fq_return_view q
         \<and> mz_reporting_currency z = currency
         \<and> (if selecting_latest then selected_sequence \<le> mz_restatement_sequence z
            else mz_restatement_sequence z = selected_sequence)
         \<and> mz_period_start z \<le> fq_period_end q \<and> fq_period_start q \<le> mz_period_end z \<and> mz_state z \<noteq> ''COMPLETE'')
       (cs_materializations db)"

definition completed_publication_families ::
    "string \<Rightarrow> fact_query \<Rightarrow> string \<Rightarrow> int \<Rightarrow> composite_store \<Rightarrow> metadata_error + fact_family set option" where
  "completed_publication_families tenant q currency selected_sequence db =
     (case find (\<lambda>p. publication_identity_filters tenant q currency p \<and> pb_restatement_sequence p = selected_sequence)
             (cs_publications db) of
        None \<Rightarrow> Inr None
      | Some p \<Rightarrow>
          if fq_period_start q < pb_period_start p \<or> pb_period_end p < fq_period_end q
          then Inl (FactSelection (''Completed restatement_sequence does not cover the requested window: sequence=''
                 @ int_text selected_sequence
                 @ '', publication='' @ str_date (pb_period_start p) @ ''..'' @ str_date (pb_period_end p)
                 @ '', requested='' @ str_date (fq_period_start q) @ ''..'' @ str_date (fq_period_end q)))
          else bind_res (deserialize_fact_families (pb_expected_families_json p)) (\<lambda>families.
            Inr (Some {family \<in> families. fq_period_start q \<le> fst (snd family) \<and> snd (snd family) \<le> fq_period_end q})))"

definition validate_completed_member_return_fact_selection ::
    "int \<Rightarrow> fact_family set \<Rightarrow> composite_fact_row list \<Rightarrow> metadata_error + unit" where
  "validate_completed_member_return_fact_selection selected_sequence expected_families selected_rows =
     ensure (family_of ` set selected_rows = expected_families)
       (FactSelection (''Selected restatement_sequence does not match its completed member-return fact universe in the requested window: sequence=''
          @ int_text selected_sequence @ '', selected='' @ int_text (int (card (family_of ` set selected_rows)))
          @ '', expected='' @ int_text (int (card expected_families))))"

definition validate_member_return_fact_selection ::
    "bool \<Rightarrow> int \<Rightarrow> fact_family set \<Rightarrow> bool \<Rightarrow> composite_fact_row list \<Rightarrow> metadata_error + unit" where
  "validate_member_return_fact_selection selecting_latest selected_sequence expected_families has_completed_publication
       selected_rows =
     (if selecting_latest \<and> \<not> has_completed_publication
      then Inl (FactSelection
        (''Latest restatement_sequence has no completed publication manifest in the requested window: sequence=''
           @ int_text selected_sequence))
      else if has_completed_publication
      then validate_completed_member_return_fact_selection selected_sequence expected_families selected_rows
      else ensure (selected_rows \<noteq> [])
        (FactSelection (''Explicit restatement_sequence is not retained for the requested fact set: sequence=''
           @ int_text selected_sequence)))"

text \<open>\<open>ORDER BY\<close> of the selection.\<close>

definition selected_fact_rows :: "(composite_fact_row \<Rightarrow> bool) \<Rightarrow> composite_store \<Rightarrow> composite_fact_row list" where
  "selected_fact_rows statement db =
     sort_key (\<lambda>r. (fr_period_start r, fr_period_end r, fr_portfolio_id r)) (filter statement (cs_facts db))"

definition authorize_fact_selection ::
    "(composite_fact_row \<Rightarrow> bool) \<Rightarrow> fact_family set \<Rightarrow> string \<Rightarrow> (string set \<Rightarrow> api_error + unit) \<Rightarrow> composite_store
      \<Rightarrow> metadata_error + fact_family set" where
  "authorize_fact_selection statement expected_families tenant authorize_scope db =
     (let families = member_return_fact_families statement db;
          selected_scopes = List.map (\<lambda>r. (fact_scope r, fr_period_start r, fr_period_end r)) (filter statement (cs_facts db));
          identities = List.map mz_materialization_id (filter (\<lambda>z.
            ((mz_tenant_id z, mz_composite_id z, mz_return_view z, mz_reporting_currency z, mz_restatement_sequence z),
              mz_period_start z, mz_period_end z) \<in> set selected_scopes) (cs_materializations db))
      in case retained_materialization_members identities tenant ''COMPOSITE_CAPTURE_EVIDENCE_INCOMPLETE'' db of
           Inl e \<Rightarrow> Inl (ScopeRefused e)
         | Inr retained_members \<Rightarrow>
             let members = fst ` (families \<union> expected_families) \<union> retained_members in
             if members = {} then Inr families
             else (case authorize_scope members of Inl e \<Rightarrow> Inl (ScopeRefused e) | Inr _ \<Rightarrow> Inr families))"

text \<open>
  Identities are authorized before any number is read. \<open>later_rows\<close> and \<open>later_families\<close> are the store
  when the numbers and when the identities are read again: other sessions may have committed.
\<close>

definition read_admitted_fact_rows ::
    "(composite_fact_row \<Rightarrow> bool) \<Rightarrow> fact_family set option \<Rightarrow> string \<Rightarrow> (string set \<Rightarrow> api_error + unit) option
      \<Rightarrow> composite_store \<times> composite_store \<Rightarrow> composite_store \<Rightarrow> metadata_error + composite_fact_row list" where
  "read_admitted_fact_rows statement completed_families tenant authorize_scope later db =
     (case authorize_scope of
        None \<Rightarrow> Inr (selected_fact_rows statement (fst later))
      | Some authorize \<Rightarrow>
          bind_res (authorize_fact_selection statement (case completed_families of None \<Rightarrow> {} | Some fs \<Rightarrow> fs) tenant authorize db)
            (\<lambda>admitted.
              if admitted \<noteq> member_return_fact_families statement (snd later)
              then Inl (FactSelection ''Selected member identities changed after authorization.'')
              else Inr (selected_fact_rows (\<lambda>r. statement r \<and> family_of r \<in> admitted) (fst later))))"

definition list_member_return_facts ::
    "string \<Rightarrow> string option \<Rightarrow> fact_query \<Rightarrow> (string set \<Rightarrow> api_error + unit) option \<Rightarrow> composite_store \<times> composite_store
      \<Rightarrow> composite_store \<Rightarrow> metadata_error + composite_fact list" where
  "list_member_return_facts tenant_id_var presented q authorize_scope later db =
     bind_res (admitted_composite_tenant_id tenant_id_var presented) (\<lambda>tenant.
     bind_res (resolve_member_return_reporting_currency tenant q db) (\<lambda>currency.
       case resolve_member_return_fact_sequence tenant q currency db of
         (None, selecting_latest) \<Rightarrow> Inr []
       | (Some selected_sequence, selecting_latest) \<Rightarrow>
           if unreleased tenant q currency selected_sequence selecting_latest db
           then Inl (FactSelection ''Composite materialization is not completely published.'')
           else
             let statement = (\<lambda>r. fact_filters tenant q currency r \<and> fr_restatement_sequence r = selected_sequence) in
             bind_res (completed_publication_families tenant q currency selected_sequence db) (\<lambda>completed.
             let expected_families = (case completed of Some families \<Rightarrow> families
                   | None \<Rightarrow> member_return_fact_families (fact_filters tenant q currency) db) in
             bind_res (read_admitted_fact_rows statement completed tenant authorize_scope later db) (\<lambda>rows.
             bind_res (validate_member_return_fact_selection selecting_latest selected_sequence expected_families
                         (completed \<noteq> None) rows) (\<lambda>_.
               parse_all member_return_fact_from_row rows)))))"

section \<open>Maintenance\<close>

definition require_materialization_safe_maintenance ::
    "string \<Rightarrow> string set option \<Rightarrow> composite_store \<Rightarrow> metadata_error + unit" where
  "require_materialization_safe_maintenance tenant composite_ids db =
     ensure (\<not> list_ex (\<lambda>z. mz_tenant_id z = tenant
          \<and> (case composite_ids of None \<Rightarrow> True | Some ids \<Rightarrow> mz_composite_id z \<in> ids)) (cs_materializations db))
       (MaintenanceRequired (''Governed materialization evidence requires coordinated retention maintenance; ''
          @ ''fact-only cleanup is refused without removing records.''))"

text \<open>The deletes of one scope, with the triggers dropped for the transaction; children go first.\<close>

definition delete_scope :: "string \<Rightarrow> (string \<Rightarrow> bool) \<Rightarrow> composite_store \<Rightarrow> composite_store" where
  "delete_scope tenant in_scope db =
     db\<lparr>cs_publications := filter (\<lambda>p. \<not> (pb_tenant_id p = tenant \<and> in_scope (pb_composite_id p))) (cs_publications db),
        cs_facts := filter (\<lambda>r. \<not> (fr_tenant_id r = tenant \<and> in_scope (fr_composite_id r))) (cs_facts db),
        cs_memberships := filter (\<lambda>r. \<not> (cm_tenant_id r = tenant \<and> in_scope (cm_composite_id r))) (cs_memberships db),
        cs_definitions := filter (\<lambda>r. \<not> (cd_tenant_id r = tenant \<and> in_scope (cd_composite_id r))) (cs_definitions db)\<rparr>"

definition clear_all_composite_records ::
    "string \<Rightarrow> string option \<Rightarrow> composite_store \<Rightarrow> metadata_error + composite_store" where
  "clear_all_composite_records tenant_id_var presented db =
     bind_res (admitted_composite_tenant_id tenant_id_var presented) (\<lambda>tenant.
     bind_res (require_materialization_safe_maintenance tenant None db) (\<lambda>_.
       Inr (delete_scope tenant (\<lambda>_. True) db)))"

definition clear_records_for_composites ::
    "string \<Rightarrow> string option \<Rightarrow> string set \<Rightarrow> composite_store \<Rightarrow> metadata_error + composite_store" where
  "clear_records_for_composites tenant_id_var presented composite_ids db =
     bind_res (admitted_composite_tenant_id tenant_id_var presented) (\<lambda>tenant.
       if composite_ids = {} then Inr db
       else bind_res (require_materialization_safe_maintenance tenant (Some composite_ids) db) (\<lambda>_.
         Inr (delete_scope tenant (\<lambda>k. k \<in> composite_ids) db)))"

record composite_metadata_counts =
  mc_definitions :: nat
  mc_memberships :: nat
  mc_member_return_facts :: nat

definition count_records ::
    "string \<Rightarrow> string option \<Rightarrow> composite_store \<Rightarrow> metadata_error + composite_metadata_counts" where
  "count_records tenant_id_var presented db =
     bind_res (admitted_composite_tenant_id tenant_id_var presented) (\<lambda>tenant.
       Inr \<lparr>mc_definitions = length (filter (\<lambda>r. cd_tenant_id r = tenant) (cs_definitions db)),
            mc_memberships = length (filter (\<lambda>r. cm_tenant_id r = tenant) (cs_memberships db)),
            mc_member_return_facts = length (filter (\<lambda>r. fr_tenant_id r = tenant) (cs_facts db))\<rparr>)"

end
