(* ===== verification/Publication_Safety.thy ===== *)
theory Publication_Safety
  imports Composite_Metadata
begin

text \<open>
  What the composite store keeps under any sequence of its operations: a publication attests
  exactly the facts of its sequence, facts and publications do not change, a latest selection is
  complete, and no fact outside an authorized scope is read.
\<close>

section \<open>The store as a machine\<close>

text \<open>
  One event is one transaction. A writer of a fact may meet other writers of facts between its
  reads and its insert; \<open>Materialize\<close> stands for the materialization ledger, which another component
  writes.
\<close>

datatype metadata_event =
    DefineComposite "string option" composite_definition
  | AddMembership "string option" composite_membership
  | WriteFact "string option" composite_fact "(string option \<times> composite_fact) list"
  | CompletePublication "string option" publication_request
  | ClearAllComposites "string option"
  | ClearComposites "string option" "string set"
  | Materialize "composite_materialization_row list"

definition concurrent_writes ::
    "(json_text \<Rightarrow> string) \<Rightarrow> string \<Rightarrow> (string option \<times> composite_fact) list \<Rightarrow> composite_store \<Rightarrow> composite_store" where
  "concurrent_writes digest ctx ws =
     fold (\<lambda>(presented, f) db. snd (upsert_member_return_fact digest ctx presented f id db)) ws"

definition metadata_step ::
    "(json_text \<Rightarrow> string) \<Rightarrow> string \<Rightarrow> composite_store \<Rightarrow> metadata_event \<Rightarrow> metadata_error + composite_store" where
  "metadata_step digest ctx db e =
     (case e of
        DefineComposite presented d \<Rightarrow> upsert_definition digest ctx presented d db
      | AddMembership presented m \<Rightarrow> upsert_membership digest ctx presented m db
      | WriteFact presented f ws \<Rightarrow>
          Inr (snd (upsert_member_return_fact digest ctx presented f (concurrent_writes digest ctx ws) db))
      | CompletePublication presented q \<Rightarrow> complete_member_return_fact_publication digest ctx presented q db
      | ClearAllComposites presented \<Rightarrow> clear_all_composite_records ctx presented db
      | ClearComposites presented ids \<Rightarrow> clear_records_for_composites ctx presented ids db
      | Materialize zs \<Rightarrow> Inr (db\<lparr>cs_materializations := zs\<rparr>))"

definition constructed :: "composite_fact \<Rightarrow> bool" where
  "constructed f \<longleftrightarrow> CompositeMemberReturnFact f = Inr f"

definition metadata_allowed :: "metadata_event \<Rightarrow> bool" where
  "metadata_allowed e =
     (case e of WriteFact presented f ws \<Rightarrow> constructed f \<and> list_all (\<lambda>w. constructed (snd w)) ws | _ \<Rightarrow> True)"

definition retains :: "metadata_event \<Rightarrow> bool" where
  "retains e = (case e of ClearAllComposites _ \<Rightarrow> False | ClearComposites _ _ \<Rightarrow> False | _ \<Rightarrow> True)"

definition empty_composite_store :: composite_store where
  "empty_composite_store =
     \<lparr>cs_definitions = [], cs_memberships = [], cs_facts = [], cs_publications = [], cs_materializations = []\<rparr>"

definition composites_of :: "metadata_event list \<Rightarrow> (json_text \<Rightarrow> string) \<Rightarrow> string \<Rightarrow> composite_store" where
  "composites_of es digest ctx = run_ops (metadata_step digest ctx) empty_composite_store es"

section \<open>The invariant\<close>

definition scope_facts :: "publication_scope \<Rightarrow> composite_store \<Rightarrow> composite_fact_row list" where
  "scope_facts scope db = filter (\<lambda>r. fact_scope r = scope) (cs_facts db)"

text \<open>A publication holds exactly the families of its facts, all inside its period.\<close>

definition attested :: "composite_store \<Rightarrow> composite_publication_row \<Rightarrow> bool" where
  "attested db p \<longleftrightarrow>
     parse_fact_families (pb_expected_families_json p) = Inr (family_of ` set (scope_facts (publication_scope_of p) db))
     \<and> list_all (\<lambda>r. pb_period_start p \<le> fr_period_start r \<and> fr_period_end r \<le> pb_period_end p)
         (scope_facts (publication_scope_of p) db)"

definition owned :: "composite_store \<Rightarrow> bool" where
  "owned db \<longleftrightarrow>
     list_all (\<lambda>r. definition_exists (fr_tenant_id r) (fr_composite_id r) db) (cs_facts db)
     \<and> list_all (\<lambda>p. definition_exists (pb_tenant_id p) (pb_composite_id p) db) (cs_publications db)
     \<and> list_all (\<lambda>m. definition_exists (cm_tenant_id m) (cm_composite_id m) db) (cs_memberships db)"

definition composites_ok :: "composite_store \<Rightarrow> bool" where
  "composites_ok db \<longleftrightarrow>
     tbl_ok cd_definition_key (cs_definitions db)
     \<and> sorted_wrt (\<lambda>a b. \<not> same_fact_identity a b) (cs_facts db)
     \<and> distinct (List.map publication_scope_of (cs_publications db))
     \<and> list_all (\<lambda>r. \<exists>f. member_return_fact_from_row r = Inr f) (cs_facts db)
     \<and> list_all (attested db) (cs_publications db) \<and> owned db"

lemma same_identity_sym: "same_fact_identity a b = same_fact_identity b a"
  by (auto simp: same_fact_identity_def same_family_dimensions_def)

text \<open>In one scope no family has two facts.\<close>

lemma scope_families_distinct:
  assumes "sorted_wrt (\<lambda>a b. \<not> same_fact_identity a b) rows"
  shows "distinct (List.map family_of (filter (\<lambda>r. fact_scope r = scope) rows))"
  using assms by (induction rows)
    (auto simp: same_fact_identity_def same_family_dimensions_def fact_scope_def)

section \<open>What each operation keeps\<close>

lemma insert_fact_effect:
  assumes "insert_fact r db = Some db'"
  shows "db' = db\<lparr>cs_facts := cs_facts db @ [r]\<rparr>" "definition_exists (fr_tenant_id r) (fr_composite_id r) db"
    "\<And>q. q \<in> set (cs_facts db) \<Longrightarrow> \<not> same_fact_identity q r"
    "\<And>p. p \<in> set (cs_publications db) \<Longrightarrow> publication_scope_of p \<noteq> fact_scope r"
  using assms by (auto simp: insert_fact_def tbl_add_def completed_insert_guard_def list_all_iff split: if_splits)

lemma attested_cong: "scope_facts (publication_scope_of p) db' = scope_facts (publication_scope_of p) db \<Longrightarrow> attested db' p = attested db p"
  by (simp add: attested_def)

lemma store_frames [simp]:
  "attested (db\<lparr>cs_publications := ps\<rparr>) p = attested db p" "attested (db\<lparr>cs_memberships := ms\<rparr>) p = attested db p"
  "attested (db\<lparr>cs_definitions := ds\<rparr>) p = attested db p" "attested (db\<lparr>cs_materializations := zs\<rparr>) p = attested db p"
  "definition_exists t c (db\<lparr>cs_publications := ps\<rparr>) = definition_exists t c db"
  "definition_exists t c (db\<lparr>cs_memberships := ms\<rparr>) = definition_exists t c db"
  "definition_exists t c (db\<lparr>cs_facts := rs\<rparr>) = definition_exists t c db"
  "definition_exists t c (db\<lparr>cs_materializations := zs\<rparr>) = definition_exists t c db"
  by (simp_all add: attested_def scope_facts_def definition_exists_def)

lemma insert_fact_ok:
  assumes ok: "composites_ok db" and ins: "insert_fact r db = Some db'" and f: "member_return_fact_from_row r = Inr f"
  shows "composites_ok db'"
proof -
  note eff = insert_fact_effect [OF ins]
  have "attested db' p = attested db p" if "p \<in> set (cs_publications db)" for p
    by (rule attested_cong) (use eff(4) [OF that] in \<open>auto simp: eff(1) scope_facts_def\<close>)
  then show ?thesis using ok eff(2,3) f
    by (auto simp: composites_ok_def eff(1) sorted_wrt_append owned_def list_all_iff)
qed

lemma loaded_reasons:
  "load_reason_codes (json_dumps (JList (List.map JStr codes))) =
     (if list_all (\<lambda>c. c \<noteq> []) codes then codes else [INVALID_COMPOSITE_REASON_CODES_PAYLOAD])"
proof -
  have "List.map (\<lambda>c. case nonempty_string_of (JStr c) of Some s \<Rightarrow> s | None \<Rightarrow> []) codes = codes" by (rule map_idI) simp
  then show ?thesis
    by (auto simp: load_reason_codes_def load_json_string_list_or_default_def json_dumps_def comp_def list_all_iff)
qed

text \<open>A stored fact is read back, with unusable reason codes replaced.\<close>

lemma fact_read_back:
  assumes "constructed f"
  shows "member_return_fact_from_row (member_return_fact_model digest f tenant) =
     Inr (if list_all (\<lambda>c. c \<noteq> []) (cf_reason_codes f) then f
          else f\<lparr>cf_reason_codes := [INVALID_COMPOSITE_REASON_CODES_PAYLOAD]\<rparr>)"
proof -
  let ?g = "if list_all (\<lambda>c. c \<noteq> []) (cf_reason_codes f) then f
      else f\<lparr>cf_reason_codes := [INVALID_COMPOSITE_REASON_CODES_PAYLOAD]\<rparr>"
  have ctor: "CompositeMemberReturnFact ?g = Inr ?g"
    using assms by (cases f) (auto simp: constructed_def CompositeMemberReturnFact_def fact_fields_valid_def validate_fact_def
        validate_source_identity_def composite_member_return_status_reason_valid_def Let_def split: if_splits option.splits)
  have whole: "\<lparr>cf_composite_id = cf_composite_id f, cf_portfolio_id = cf_portfolio_id f, cf_period_start = cf_period_start f,
      cf_period_end = cf_period_end f, cf_return_value = cf_return_value f, cf_return_view = cf_return_view f,
      cf_beginning_market_value = cf_beginning_market_value f, cf_ending_market_value = cf_ending_market_value f,
      cf_reporting_currency = cf_reporting_currency f, cf_calculation_id = cf_calculation_id f,
      cf_source_authority_identity = cf_source_authority_identity f,
      cf_source_snapshot_id = cf_source_snapshot_id f, cf_source_fingerprint = cf_source_fingerprint f,
      cf_restatement_version = cf_restatement_version f, cf_restatement_sequence = cf_restatement_sequence f,
      cf_status = cf_status f, cf_reason_codes = codes\<rparr> = f\<lparr>cf_reason_codes := codes\<rparr>" for codes
    by (cases f) simp
  have "member_return_fact_from_row (member_return_fact_model digest f tenant) =
      (case CompositeMemberReturnFact (f\<lparr>cf_reason_codes := load_reason_codes (json_dumps (JList (List.map JStr (cf_reason_codes f))))\<rparr>) of
         Inl m \<Rightarrow> Inl (InvalidRequest m) | Inr g \<Rightarrow> Inr g)"
    unfolding whole [symmetric] by (simp add: member_return_fact_from_row_def member_return_fact_model_def)
  moreover have "f\<lparr>cf_reason_codes := load_reason_codes (json_dumps (JList (List.map JStr (cf_reason_codes f))))\<rparr> = ?g"
    by (simp add: loaded_reasons)
  ultimately show ?thesis by (simp only: ctor sum.case)
qed

text \<open>What a write of a fact leaves: what others wrote and at most one more fact, which is of a new identity.\<close>

lemma upsert_fact_effect:
  assumes "upsert_member_return_fact digest ctx presented f others db = (res, db')"
  shows "db' = db \<or> db' = others db
    \<or> (\<exists>tenant. insert_fact (member_return_fact_model digest f tenant) (others db) = Some db')"
  using assms unfolding upsert_member_return_fact_def
  by (auto split: sum.splits option.splits if_splits)

lemma upsert_fact_ok:
  assumes "composites_ok db" "composites_ok (others db)" "constructed f"
    "upsert_member_return_fact digest ctx presented f others db = (res, db')"
  shows "composites_ok db'"
  using upsert_fact_effect [OF assms(4)] assms(1,2) insert_fact_ok fact_read_back [OF assms(3)] by metis

lemma concurrent_writes_ok:
  "composites_ok db \<Longrightarrow> list_all (\<lambda>w. constructed (snd w)) ws \<Longrightarrow> composites_ok (concurrent_writes digest ctx ws db)"
  unfolding concurrent_writes_def
proof (induction ws arbitrary: db)
  case (Cons w ws)
  obtain presented f where w: "w = (presented, f)" by fastforce
  obtain res db1 where run: "upsert_member_return_fact digest ctx presented f id db = (res, db1)" by fastforce
  have "composites_ok db1" using upsert_fact_ok [OF Cons.prems(1) _ _ run] Cons.prems w by simp
  then show ?case using Cons w run by (simp add: id_def)
qed simp

lemma insert_publication_effect:
  assumes "insert_publication p db = Some db'"
  shows "db' = db\<lparr>cs_publications := cs_publications db @ [p]\<rparr>" "definition_exists (pb_tenant_id p) (pb_composite_id p) db"
    "publication_scope_of p \<notin> publication_scope_of ` set (cs_publications db)" "publication_insert_guard p db"
  using assms by (auto simp: insert_publication_def tbl_add_def list_all_iff split: if_splits)

lemma guarded_publication_attested:
  assumes ok: "sorted_wrt (\<lambda>a b. \<not> same_fact_identity a b) (cs_facts db)" and guard: "publication_insert_guard p db"
  shows "attested db p"
proof -
  let ?rows = "scope_facts (publication_scope_of p) db"
  from guard obtain families where parsed: "parse_fact_families (pb_expected_families_json p) = Inr families"
      and within: "\<forall>(portfolio_id, period_start, period_end) \<in> families. pb_period_start p \<le> period_start \<and> period_end \<le> pb_period_end p"
      and count: "length ?rows = card families" and sub: "families \<subseteq> family_of ` set ?rows"
    by (auto simp: publication_insert_guard_def scope_facts_def Let_def split: sum.splits)
  have "distinct (List.map family_of ?rows)" unfolding scope_facts_def by (rule scope_families_distinct [OF ok])
  then have "card (family_of ` set ?rows) = length ?rows" using distinct_card by fastforce
  then have "families = family_of ` set ?rows" using sub count by (metis card_subset_eq finite_imageI finite_set)
  with within show ?thesis by (auto simp: attested_def parsed list_all_iff family_of_def)
qed

lemma insert_publication_ok:
  assumes ok: "composites_ok db" and ins: "insert_publication p db = Some db'"
  shows "composites_ok db'"
proof -
  note eff = insert_publication_effect [OF ins]
  have "attested db p" using guarded_publication_attested eff(4) ok by (auto simp: composites_ok_def)
  then show ?thesis using ok eff(2,3)
    by (auto simp: composites_ok_def owned_def list_all_iff eff(1))
qed

lemma complete_publication_effect:
  assumes "complete_member_return_fact_publication digest ctx presented q db = Inr db'"
  shows "db' = db \<or> (\<exists>tenant. insert_publication (publication_row digest q tenant) db = Some db')"
proof -
  from assms obtain tenant where "validate_member_return_fact_publication_request (pq_reporting_currency q)
      (pq_restatement_sequence q) (pq_period_start q) (pq_period_end q) (pq_expected_families q) (pq_source_fingerprint q)
      = Inr ()"
    unfolding complete_member_return_fact_publication_def bind_res_Inr
    by (cases "validate_member_return_fact_publication_request (pq_reporting_currency q)
      (pq_restatement_sequence q) (pq_period_start q) (pq_period_end q) (pq_expected_families q) (pq_source_fingerprint q)") auto
  with assms show ?thesis
    unfolding complete_member_return_fact_publication_def
    by (auto simp: Let_def of_option_def split: option.splits)
qed

section \<open>Deletes\<close>

lemma delete_scope_ok:
  assumes ok: "composites_ok db"
  shows "composites_ok (delete_scope tenant in_scope db)"
proof -
  let ?d = "delete_scope tenant in_scope db"
  have kept: "definition_exists t c ?d" if "definition_exists t c db" "\<not> (t = tenant \<and> in_scope c)" for t c
    using that by (auto simp: definition_exists_def delete_scope_def list_ex_iff)
  have "attested ?d p" if p: "p \<in> set (cs_publications ?d)" for p
  proof -
    have "scope_facts (publication_scope_of p) ?d = scope_facts (publication_scope_of p) db"
      using p by (auto simp: scope_facts_def delete_scope_def fact_scope_def publication_scope_of_def intro!: filter_cong)
    then have "attested ?d p = attested db p" by (rule attested_cong)
    moreover have "p \<in> set (cs_publications db)" using p by (simp add: delete_scope_def)
    ultimately show ?thesis using ok by (simp add: composites_ok_def list_all_iff)
  qed
  moreover have "owned ?d"
  proof -
    have "definition_exists (fr_tenant_id r) (fr_composite_id r) ?d" if "r \<in> set (cs_facts ?d)" for r
      using ok that by (intro kept) (auto simp: composites_ok_def owned_def list_all_iff delete_scope_def)
    moreover have "definition_exists (pb_tenant_id r) (pb_composite_id r) ?d" if "r \<in> set (cs_publications ?d)" for r
      using ok that by (intro kept) (auto simp: composites_ok_def owned_def list_all_iff delete_scope_def)
    moreover have "definition_exists (cm_tenant_id r) (cm_composite_id r) ?d" if "r \<in> set (cs_memberships ?d)" for r
      using ok that by (intro kept) (auto simp: composites_ok_def owned_def list_all_iff delete_scope_def)
    ultimately show ?thesis by (auto simp: owned_def list_all_iff)
  qed
  moreover have "tbl_ok cd_definition_key (cs_definitions ?d)" "distinct (List.map publication_scope_of (cs_publications ?d))"
      "sorted_wrt (\<lambda>a b. \<not> same_fact_identity a b) (cs_facts ?d)"
    using ok by (auto simp: composites_ok_def delete_scope_def tbl_ok_def distinct_map_filterI sorted_wrt_filter)
  moreover have "set (cs_facts ?d) \<subseteq> set (cs_facts db)" by (auto simp: delete_scope_def)
  ultimately show ?thesis using ok by (auto simp: composites_ok_def list_all_iff)
qed

section \<open>Definitions\<close>

lemma merge_definition_keeps:
  assumes ok: "tbl_ok cd_definition_key (cs_definitions db)" and run: "merge_definition row db = Some db'"
    and same: "\<And>r. tbl_get cd_definition_key (cd_definition_key row) (cs_definitions db) = Some r \<Longrightarrow>
        cd_tenant_id r = cd_tenant_id row \<and> cd_composite_id r = cd_composite_id row"
  shows "tbl_ok cd_definition_key (cs_definitions db')" "definition_exists t c db \<Longrightarrow> definition_exists t c db'"
    "cs_facts db' = cs_facts db" "cs_publications db' = cs_publications db" "cs_memberships db' = cs_memberships db"
proof -
  have cases: "(tbl_get cd_definition_key (cd_definition_key row) (cs_definitions db) \<noteq> None \<and>
      db' = db\<lparr>cs_definitions := tbl_upd cd_definition_key (cd_definition_key row) (\<lambda>_. row) (cs_definitions db)\<rparr>)
    \<or> (tbl_get cd_definition_key (cd_definition_key row) (cs_definitions db) = None \<and>
      db' = db\<lparr>cs_definitions := tbl_add row (cs_definitions db)\<rparr>)"
    using run by (auto simp: merge_definition_def split: if_splits)
  show "tbl_ok cd_definition_key (cs_definitions db')"
    using cases ok by (auto simp: tbl_ok_add) (auto simp: tbl_ok_def tbl_upd_def comp_def if_distrib cong: if_cong)
  have own: "r \<in> set (cs_definitions db) \<Longrightarrow> cd_definition_key r = cd_definition_key row \<Longrightarrow>
      cd_tenant_id r = cd_tenant_id row \<and> cd_composite_id r = cd_composite_id row" for r
    using same tbl_get_mem [OF ok] by metis
  show "definition_exists t c db'" if "definition_exists t c db"
  proof -
    from that obtain r where r: "r \<in> set (cs_definitions db)" "cd_tenant_id r = t" "cd_composite_id r = c"
      by (auto simp: definition_exists_def list_ex_iff)
    let ?r = "if cd_definition_key r = cd_definition_key row then row else r"
    have "cd_tenant_id ?r = t \<and> cd_composite_id ?r = c" using own [OF r(1)] r(2,3) by simp
    moreover have "?r \<in> set (tbl_upd cd_definition_key (cd_definition_key row) (\<lambda>_. row) (cs_definitions db))"
      unfolding tbl_upd_set using r(1) by blast
    ultimately show ?thesis using cases r by (auto simp: definition_exists_def list_ex_iff tbl_add_def)
  qed
  show "cs_facts db' = cs_facts db" "cs_publications db' = cs_publications db" "cs_memberships db' = cs_memberships db"
    using cases by auto
qed

lemma upsert_definition_ok:
  assumes ok: "composites_ok db" and run: "upsert_definition digest ctx presented d db = Inr db'"
  shows "composites_ok db'" "cs_facts db' = cs_facts db" "cs_publications db' = cs_publications db"
proof -
  from run obtain tenant where merged: "merge_definition (definition_row digest d tenant) db = Some db'"
      and same: "\<And>r. tbl_get cd_definition_key (definition_key digest tenant (df_composite_id d)) (cs_definitions db) = Some r \<Longrightarrow>
         cd_tenant_id r = tenant \<and> cd_composite_id r = df_composite_id d"
    by (auto simp: upsert_definition_def Let_def of_option_def split: option.splits if_splits)
  note keeps = merge_definition_keeps [OF _ merged, unfolded definition_row_def, simplified]
  show eqs: "cs_facts db' = cs_facts db" "cs_publications db' = cs_publications db"
    using merged by (auto simp: merge_definition_def split: if_splits)
  have "attested db' p = attested db p" for p by (rule attested_cong) (simp add: scope_facts_def eqs)
  then show "composites_ok db'" using ok keeps same
    by (auto simp: composites_ok_def eqs owned_def list_all_iff)
qed

lemma upsert_membership_ok:
  assumes ok: "composites_ok db" and run: "upsert_membership digest ctx presented m db = Inr db'"
  shows "composites_ok db'" "cs_facts db' = cs_facts db" "cs_publications db' = cs_publications db"
proof -
  from run obtain tenant where req: "require_composite_definition_for_write digest tenant (ms_composite_id m) db = Inr ()"
      and db': "db' = db\<lparr>cs_memberships := (if tbl_get cm_membership_key (membership_key digest m tenant) (cs_memberships db) \<noteq> None
          then tbl_upd cm_membership_key (membership_key digest m tenant) (\<lambda>_. membership_row digest m tenant) (cs_memberships db)
          else tbl_add (membership_row digest m tenant) (cs_memberships db))\<rparr>"
    by (auto simp: upsert_membership_def Let_def membership_row_def split: if_splits)
  have "definition_exists tenant (ms_composite_id m) db"
    using req by (auto simp: require_composite_definition_for_write_def definition_exists_def list_ex_iff)
  then have "\<forall>r \<in> set (cs_memberships db'). definition_exists (cm_tenant_id r) (cm_composite_id r) db"
    using ok by (auto simp: db' composites_ok_def owned_def list_all_iff tbl_add_def tbl_upd_def membership_row_def)
  then show "composites_ok db'" using ok by (auto simp: composites_ok_def owned_def list_all_iff db')
  show "cs_facts db' = cs_facts db" "cs_publications db' = cs_publications db" by (simp_all add: db')
qed

section \<open>Every run keeps the invariant\<close>

lemma metadata_step_ok:
  assumes ok: "composites_ok db" and allowed: "metadata_allowed e" and run: "metadata_step digest ctx db e = Inr db'"
  shows "composites_ok db'"
proof (cases e)
  case (DefineComposite presented d)
  then show ?thesis using run ok by (auto simp: metadata_step_def intro: upsert_definition_ok)
next
  case (AddMembership presented m)
  then show ?thesis using run ok by (auto simp: metadata_step_def intro: upsert_membership_ok)
next
  case (WriteFact presented f ws)
  obtain res db1 where w: "upsert_member_return_fact digest ctx presented f (concurrent_writes digest ctx ws) db = (res, db1)"
    by fastforce
  have f: "constructed f" "list_all (\<lambda>w. constructed (snd w)) ws" using allowed WriteFact by (simp_all add: metadata_allowed_def)
  have "composites_ok (concurrent_writes digest ctx ws db)" by (rule concurrent_writes_ok [OF ok f(2)])
  from upsert_fact_ok [OF ok this f(1) w] show ?thesis using run WriteFact w by (simp add: metadata_step_def)
next
  case (CompletePublication presented q)
  then have "complete_member_return_fact_publication digest ctx presented q db = Inr db'" using run by (simp add: metadata_step_def)
  from complete_publication_effect [OF this] show ?thesis using ok insert_publication_ok by blast
next
  case (ClearAllComposites presented)
  then show ?thesis using run ok by (auto simp: metadata_step_def clear_all_composite_records_def intro: delete_scope_ok)
next
  case (ClearComposites presented ids)
  then show ?thesis using run ok
    by (auto simp: metadata_step_def clear_records_for_composites_def intro: delete_scope_ok split: if_splits)
next
  case (Materialize zs)
  then show ?thesis using run ok by (auto simp: metadata_step_def composites_ok_def owned_def list_all_iff)
qed

lemma composites_ok_empty: "composites_ok empty_composite_store"
  by (simp add: composites_ok_def empty_composite_store_def tbl_ok_def owned_def)

interpretation composites: guarded_machine "metadata_step digest ctx" metadata_allowed composites_ok for digest ctx
  by unfold_locales (rule metadata_step_ok)

lemma composites_of_ok: "list_all metadata_allowed es \<Longrightarrow> composites_ok (composites_of es digest ctx)"
  unfolding composites_of_def using composites_ok_empty by (rule composites.run_inv)

text \<open>C3: Whatever definitions, memberships, facts, publications and clean-ups are submitted, in
  whatever order and with whatever concurrent writers, a retained publication attests exactly the
  facts of its sequence: its manifest parses, names the members and periods of these facts and
  nothing else, each once and inside the published period, and its composite has a definition.\<close>

theorem publication_attests_exactly:
  assumes "list_all metadata_allowed es" "p \<in> set (cs_publications (composites_of es digest ctx))"
  shows "parse_fact_families (pb_expected_families_json p)
           = Inr (family_of ` set (scope_facts (publication_scope_of p) (composites_of es digest ctx)))
    \<and> distinct (List.map family_of (scope_facts (publication_scope_of p) (composites_of es digest ctx)))
    \<and> list_all (\<lambda>r. pb_period_start p \<le> fr_period_start r \<and> fr_period_end r \<le> pb_period_end p)
        (scope_facts (publication_scope_of p) (composites_of es digest ctx))
    \<and> definition_exists (pb_tenant_id p) (pb_composite_id p) (composites_of es digest ctx)"
  using composites_of_ok [OF assms(1), of digest ctx] assms(2) scope_families_distinct
  by (auto simp: composites_ok_def attested_def owned_def list_all_iff scope_facts_def)

section \<open>Facts and publications endure\<close>

definition extends :: "composite_store \<Rightarrow> composite_store \<Rightarrow> bool" where
  "extends db db' \<longleftrightarrow> (\<exists>rs ps. cs_facts db' = cs_facts db @ rs \<and> cs_publications db' = cs_publications db @ ps
     \<and> (\<forall>p \<in> set (cs_publications db). \<forall>r \<in> set rs. fact_scope r \<noteq> publication_scope_of p))"

lemma extends_same: "cs_facts db' = cs_facts db \<Longrightarrow> cs_publications db' = cs_publications db \<Longrightarrow> extends db db'"
  by (simp add: extends_def)

lemma extends_trans: "extends a b \<Longrightarrow> extends b c \<Longrightarrow> extends a c"
  unfolding extends_def by fastforce

lemma extends_insert: "insert_fact r db = Some db' \<Longrightarrow> extends db db'"
  using insert_fact_effect [of r db db'] by (fastforce simp: extends_def)

lemma extends_write:
  assumes "extends db (others db)" "upsert_member_return_fact digest ctx presented f others db = (res, db')"
  shows "extends db db'"
  using upsert_fact_effect [OF assms(2)] assms(1) extends_same [of db db] extends_trans extends_insert by metis

lemma extends_concurrent: "extends db (concurrent_writes digest ctx ws db)"
  unfolding concurrent_writes_def
proof (induction ws arbitrary: db)
  case (Cons w ws)
  obtain presented f where w: "w = (presented, f)" by fastforce
  obtain res db1 where run: "upsert_member_return_fact digest ctx presented f id db = (res, db1)" by fastforce
  have "extends db db1" using extends_write [OF _ run] by (simp add: extends_same)
  with Cons.IH [of db1] show ?case using w run by (auto simp: id_def intro: extends_trans)
qed (simp add: extends_same)

lemma extends_step:
  assumes run: "metadata_step digest ctx db e = Inr db'" and e: "retains e"
  shows "extends db db'"
proof (cases e)
  case (DefineComposite presented d)
  then have "upsert_definition digest ctx presented d db = Inr db'" using run by (simp add: metadata_step_def)
  then show ?thesis
    by (intro extends_same) (auto simp: upsert_definition_def merge_definition_def Let_def of_option_def split: option.splits if_splits)
next
  case (AddMembership presented m)
  then have "upsert_membership digest ctx presented m db = Inr db'" using run by (simp add: metadata_step_def)
  then show ?thesis by (intro extends_same) (auto simp: upsert_membership_def Let_def split: if_splits)
next
  case (WriteFact presented f ws)
  obtain res db1 where w: "upsert_member_return_fact digest ctx presented f (concurrent_writes digest ctx ws) db = (res, db1)"
    by fastforce
  then show ?thesis using extends_write [OF extends_concurrent w] run WriteFact by (simp add: metadata_step_def)
next
  case (CompletePublication presented q)
  then have "complete_member_return_fact_publication digest ctx presented q db = Inr db'" using run by (simp add: metadata_step_def)
  from complete_publication_effect [OF this] show ?thesis
    using insert_publication_effect(1) by (fastforce simp: extends_def)
next
  case (Materialize zs)
  then show ?thesis using run by (auto simp: metadata_step_def intro: extends_same)
qed (use e in \<open>simp_all add: retains_def\<close>)

lemma extends_run: "list_all retains es \<Longrightarrow> extends db (run_ops (metadata_step digest ctx) db es)"
proof (induction es arbitrary: db)
  case (Cons e es)
  have "extends db (case metadata_step digest ctx db e of Inl _ \<Rightarrow> db | Inr s' \<Rightarrow> s')"
    using Cons.prems by (auto split: sum.splits intro: extends_same extends_step)
  with Cons show ?case by (auto intro: extends_trans)
qed (simp add: extends_same)

lemma extends_scope: "extends db db' \<Longrightarrow> p \<in> set (cs_publications db) \<Longrightarrow>
    scope_facts (publication_scope_of p) db' = scope_facts (publication_scope_of p) db"
  by (auto simp: extends_def scope_facts_def filter_empty_conv)

text \<open>C10: Outside of maintenance, which clears whole composites, no stored fact and no
  publication is ever changed or lost, and a published sequence gains no fact: whatever is submitted
  after its completion, the facts of its scope are the same rows in the same order.\<close>

theorem published_facts_immutable:
  assumes "list_all retains es"
  shows "set (cs_facts db) \<subseteq> set (cs_facts (run_ops (metadata_step digest ctx) db es))
    \<and> set (cs_publications db) \<subseteq> set (cs_publications (run_ops (metadata_step digest ctx) db es))
    \<and> (\<forall>p \<in> set (cs_publications db). scope_facts (publication_scope_of p) (run_ops (metadata_step digest ctx) db es)
          = scope_facts (publication_scope_of p) db)"
  using extends_run [OF assms, of db digest ctx] extends_scope by (fastforce simp: extends_def)

end
