(* ===== verification/Manifest_Safety.thy ===== *)
theory Manifest_Safety
  imports Publication_Safety
begin

text \<open>
  The manifest of a publication is read back as the families it was written from, so that a
  publication of the exact set of facts succeeds.
\<close>

section \<open>Dates as texts\<close>

lemma digits_value_snoc:
  "digits_value acc (xs @ [c]) = (case digits_value acc xs of None \<Rightarrow> None
     | Some n \<Rightarrow> (case digit_of c of None \<Rightarrow> None | Some d \<Rightarrow> Some (10 * n + d)))"
  by (induction acc xs rule: digits_value.induct) (auto split: option.splits)

lemma digit_of_digit: "0 \<le> n \<Longrightarrow> n < 10 \<Longrightarrow> digit_of (char_of (48 + nat n)) = Some n"
  by (simp add: digit_of_def)

lemma length_padded [simp]: "length (padded w n) = w"
  by (induction w arbitrary: n) simp_all

lemma padded_value: "0 \<le> n \<Longrightarrow> n < 10 ^ w \<Longrightarrow> digits_value 0 (padded w n) = Some n"
proof (induction w arbitrary: n)
  case (Suc w)
  then have "digits_value 0 (padded w (n div 10)) = Some (n div 10)" by (intro Suc.IH) auto
  then show ?case by (simp add: digits_value_snoc digit_of_digit)
qed simp

definition calendar_date :: "date \<Rightarrow> bool" where
  "calendar_date d \<longleftrightarrow> 1 \<le> year d \<and> year d \<le> 9999 \<and> valid_date d"

lemma date_read_back:
  assumes "calendar_date d"
  shows "parse_canonical_family_date (JStr (str_date d)) = Inr d"
proof -
  obtain y m x where d: "d = Date y m x" by (cases d)
  have bounds: "0 \<le> y" "y < 10 ^ 4" "0 \<le> m" "m < 10 ^ 2" "0 \<le> x" "x < 10 ^ 2"
    using assms days_in_month_bounds [of m y] by (auto simp: calendar_date_def valid_date_def d)
  let ?s = "str_date d"
  have "take 4 ?s = padded 4 y" "take 2 (drop 5 ?s) = padded 2 m" "drop 8 ?s = padded 2 x"
    by (simp_all add: str_date_def d del: padded.simps)
  then show ?thesis using padded_value bounds assms
    by (simp add: parse_canonical_family_date_def calendar_date_def d del: padded.simps)
qed

section \<open>Families as texts\<close>

definition family_valid :: "fact_family \<Rightarrow> bool" where
  "family_valid family = (case family of (portfolio_id, period_start, period_end) \<Rightarrow>
     strip portfolio_id \<noteq> [] \<and> length portfolio_id \<le> 128 \<and> calendar_date period_start \<and> calendar_date period_end
     \<and> period_start \<le> period_end)"

definition family_json :: "fact_family \<Rightarrow> json" where
  "family_json family = (case family of (portfolio_id, period_start, period_end) \<Rightarrow>
     JObj [(''period_end'', JStr (str_date period_end)), (''period_start'', JStr (str_date period_start)),
           (''portfolio_id'', JStr portfolio_id)])"

lemma manifest_keys:
  "''period_end'' \<le> ''period_start''" "''period_end'' \<le> ''portfolio_id''" "''period_start'' \<le> ''portfolio_id''"
  by code_simp+

lemma family_json_sorted [simp]: "sort_keys (family_json family) = family_json family"
  by (cases family) (simp only: family_json_def prod.case sort_keys.simps list.map map_prod_simp id_apply fst_conv
      sort_key_simps insort_key.simps manifest_keys if_True)

lemma manifest_lookups:
  "fst ` set [(''period_end'', a), (''period_start'', b), (''portfolio_id'', c)] = {''portfolio_id'', ''period_start'', ''period_end''}"
  "dict_get [(''period_end'', a), (''period_start'', b), (''portfolio_id'', c)] ''portfolio_id'' = Some c"
  "dict_get [(''period_end'', a), (''period_start'', b), (''portfolio_id'', c)] ''period_start'' = Some b"
  "dict_get [(''period_end'', a), (''period_start'', b), (''portfolio_id'', c)] ''period_end'' = Some a"
proof -
  show "fst ` set [(''period_end'', a), (''period_start'', b), (''portfolio_id'', c)] = {''portfolio_id'', ''period_start'', ''period_end''}"
    unfolding list.set image_insert image_empty fst_conv by (rule set_eqI) (unfold insert_iff empty_iff, blast)
qed (simp_all add: dict_get_def)

lemma family_read_back: "family_valid family \<Longrightarrow> parse_fact_family (family_json family) = Inr family"
proof (cases family)
  case (fields portfolio_id period_start period_end)
  assume "family_valid family"
  then have v: "strip portfolio_id \<noteq> []" "\<not> 128 < length portfolio_id" "\<not> period_end < period_start"
      "parse_canonical_family_date (JStr (str_date period_start)) = Inr period_start"
      "parse_canonical_family_date (JStr (str_date period_end)) = Inr period_end"
    by (simp_all add: fields family_valid_def date_read_back not_less)
  show ?thesis
    unfolding fields family_json_def prod.case parse_fact_family_def json.case manifest_lookups
    by (simp add: v)
qed

lemma parse_all_map: "(\<And>x. x \<in> set xs \<Longrightarrow> f (g x) = Inr x) \<Longrightarrow> parse_all f (List.map g xs) = Inr xs"
  by (induction xs) auto

lemma families_read_back:
  assumes "finite families" "\<And>family. family \<in> families \<Longrightarrow> family_valid family"
  shows "parse_fact_families (serialize_fact_families families) = Inr families"
proof -
  let ?xs = "sorted_list_of_set families"
  have "serialize_fact_families families = Doc (JList (List.map family_json ?xs))"
    unfolding serialize_fact_families_def family_json_def [abs_def, symmetric] by (simp add: json_dumps_def)
  moreover have "parse_all parse_fact_family (List.map family_json ?xs) = Inr ?xs"
    by (rule parse_all_map) (use assms family_read_back in auto)
  ultimately show ?thesis using assms(1) by (simp add: parse_fact_families_def)
qed

section \<open>Completing a publication\<close>

lemma admitted_tenant_valid: "admitted_composite_tenant_id ctx presented = Inr tenant \<Longrightarrow> tenant_id_valid tenant"
  by (auto simp: admitted_composite_tenant_id_def admitted_cases require_composite_tenant_authority_def tenant_id_valid_def
      MAX_TENANT_ID_LENGTH_def Suc_le_eq split: if_splits sum.splits option.splits)

lemma request_valid:
  assumes "validate_member_return_fact_publication_request currency n period_start period_end families fingerprint = Inr ()"
  shows "1 \<le> n" "strip fingerprint \<noteq> []" "canonical_currency currency" "period_start \<le> period_end"
    "\<forall>(portfolio_id, s, e) \<in> families. period_start \<le> s \<and> e \<le> period_end"
  using assms by (auto simp: validate_member_return_fact_publication_request_def validate_publication_identity_fields_def
      validate_publication_periods_def split: if_splits)

text \<open>C27: A publication succeeds exactly when its manifest is the set of facts that are durable: with
  a definition of the composite, a request whose fields are valid and a sequence that is not yet
  published, it appends one publication when the expected families are those of the facts of the
  scope, and is refused, changing nothing, when any fact is missing or one too many is stored. The
  key of the publication is assumed to be new, which a collision of digests would break.\<close>

theorem exact_universe_publishes:
  assumes es: "list_all metadata_allowed es" and db: "db = composites_of es digest ctx"
    and tenant: "admitted_composite_tenant_id ctx presented = Inr tenant"
    and request: "validate_member_return_fact_publication_request (pq_reporting_currency q) (pq_restatement_sequence q)
      (pq_period_start q) (pq_period_end q) (pq_expected_families q) (pq_source_fingerprint q) = Inr ()"
      "length (pq_source_fingerprint q) \<le> 256" "Ball (pq_expected_families q) family_valid"
    and owner: "require_composite_definition_for_write digest tenant (pq_composite_id q) db = Inr ()"
    and new: "find_member_return_fact_publication (scope_of_request q tenant) db = None"
      "list_all (\<lambda>p. pb_publication_key p \<noteq> publication_key digest (scope_of_request q tenant)) (cs_publications db)"
  shows "if pq_expected_families q = family_of ` set (scope_facts (scope_of_request q tenant) db)
    then complete_member_return_fact_publication digest ctx presented q db
      = Inr (db\<lparr>cs_publications := cs_publications db @ [publication_row digest q tenant]\<rparr>)
    else \<exists>m. complete_member_return_fact_publication digest ctx presented q db = Inl (FactSelection m)"
proof -
  let ?scope = "scope_of_request q tenant" and ?row = "publication_row digest q tenant"
  have actual: "member_return_fact_families (\<lambda>r. fact_scope r = ?scope) db = family_of ` set (scope_facts ?scope db)"
    by (simp add: member_return_fact_families_def scope_facts_def)
  have step: "complete_member_return_fact_publication digest ctx presented q db =
      bind_res (require_exact_publication_families (family_of ` set (scope_facts ?scope db)) (pq_expected_families q)
        (pq_restatement_sequence q)) (\<lambda>_. of_option MetadataIntegrity (insert_publication ?row db))"
    using tenant request(1) owner new(1) by (simp add: complete_member_return_fact_publication_def Let_def actual)
  show ?thesis
  proof (cases "pq_expected_families q = family_of ` set (scope_facts ?scope db)")
    case True
    have row: "publication_scope_of ?row = ?scope"
      by (simp add: publication_scope_of_def publication_row_def scope_of_request_def)
    have columns: "pb_source_fingerprint ?row = pq_source_fingerprint q" "pb_period_start ?row = pq_period_start q"
        "pb_period_end ?row = pq_period_end q" "pb_tenant_id ?row = tenant" "pb_composite_id ?row = pq_composite_id q"
        "pb_reporting_currency ?row = pq_reporting_currency q" "pb_restatement_sequence ?row = pq_restatement_sequence q"
        "pb_publication_key ?row = publication_key digest ?scope"
      by (simp_all add: publication_row_def)
    have families: "parse_fact_families (pb_expected_families_json ?row) = Inr (pq_expected_families q)"
      unfolding publication_row_def composite_publication_row.simps
      by (rule families_read_back) (use request(3) True in auto)
    have "distinct (List.map family_of (scope_facts ?scope db))"
      using composites_of_ok [OF es] by (auto simp: db composites_ok_def scope_facts_def intro: scope_families_distinct)
    then have "length (scope_facts ?scope db) = card (pq_expected_families q)" using True distinct_card by fastforce
    then have "publication_insert_guard ?row db"
      using families request_valid [OF request(1)] request(2) True
      by (auto simp: publication_insert_guard_def row Let_def scope_facts_def [symmetric] columns)
    moreover have "definition_exists tenant (pq_composite_id q) db"
      using owner by (auto simp: require_composite_definition_for_write_def definition_exists_def list_ex_iff)
    moreover have "list_all (\<lambda>p. publication_scope_of p \<noteq> ?scope) (cs_publications db)"
      using new(1) by (simp add: find_member_return_fact_publication_def find_None_iff list_all_iff)
    ultimately have "insert_publication ?row db = Some (db\<lparr>cs_publications := cs_publications db @ [?row]\<rparr>)"
      using new(2) request_valid [OF request(1)] admitted_tenant_valid [OF tenant] row
      by (simp add: insert_publication_def tbl_add_def list_all_iff columns)
    then show ?thesis using True step by (simp add: require_exact_publication_families_def ensure_def)
  next
    case False
    then show ?thesis using step by (auto simp: require_exact_publication_families_def ensure_def)
  qed
qed

end
