(* ===== verification/Selection_Safety.thy ===== *)
theory Selection_Safety
  imports Publication_Safety
begin

text \<open>
  What readers and writers of composite facts can rely on: a write may be repeated, a conflicting
  write is refused, a selection is complete and can be replayed, and numbers are read of authorized
  members only.
\<close>

section \<open>Repeating a write\<close>

lemma write_keeps_definitions:
  assumes "cs_definitions (others db) = cs_definitions db"
    "upsert_member_return_fact digest ctx presented f others db = (res, db')"
  shows "cs_definitions db' = cs_definitions db"
  using upsert_fact_effect [OF assms(2)] assms(1) insert_fact_effect(1) by fastforce

lemma concurrent_keeps_definitions: "cs_definitions (concurrent_writes digest ctx ws db) = cs_definitions db"
  unfolding concurrent_writes_def
proof (induction ws arbitrary: db)
  case (Cons w ws)
  obtain presented f where w: "w = (presented, f)" by fastforce
  obtain res db1 where run: "upsert_member_return_fact digest ctx presented f id db = (res, db1)" by fastforce
  have "cs_definitions db1 = cs_definitions db" using write_keeps_definitions [OF _ run] by simp
  then show ?case using Cons.IH [of db1] w run by (simp add: id_def)
qed simp

definition fact_identity :: "composite_fact \<Rightarrow> string \<times> fact_family \<times> composite_return_view \<times> string \<times> string \<times> int" where
  "fact_identity f =
     (cf_composite_id f, (cf_portfolio_id f, cf_period_start f, cf_period_end f), cf_return_view f, cf_reporting_currency f,
      cf_restatement_version f, cf_restatement_sequence f)"

text \<open>The row that decides about a fact: the first of its identity.\<close>

lemma collision_of_identity:
  "fact_identity g = fact_identity f \<Longrightarrow>
   find_member_return_fact_identity_collision g tenant db = find_member_return_fact_identity_collision f tenant db"
  by (simp add: find_member_return_fact_identity_collision_def fact_identity_def)

lemma collision_alt:
  "find_member_return_fact_identity_collision f tenant db
     = find (\<lambda>r. same_fact_identity r (member_return_fact_model digest f tenant)) (cs_facts db)"
  unfolding find_member_return_fact_identity_collision_def
  by (rule arg_cong [where f = "\<lambda>P. find P (cs_facts db)"])
    (auto simp: fun_eq_iff same_fact_identity_def same_family_dimensions_def family_of_def member_return_fact_model_def)

lemma find_appended: "(\<And>x. x \<in> set xs \<Longrightarrow> \<not> P x) \<Longrightarrow> P y \<Longrightarrow> find P (xs @ [y]) = Some y"
  by (induction xs) auto

lemma inserted_collision:
  assumes "insert_fact (member_return_fact_model digest f tenant) db = Some db'"
  shows "find_member_return_fact_identity_collision f tenant db' = Some (member_return_fact_model digest f tenant)"
proof -
  note eff = insert_fact_effect [OF assms]
  have "find (\<lambda>r. same_fact_identity r (member_return_fact_model digest f tenant))
      (cs_facts db @ [member_return_fact_model digest f tenant]) = Some (member_return_fact_model digest f tenant)"
    by (rule find_appended) (auto dest: eff(3) simp: same_fact_identity_def same_family_dimensions_def)
  then show ?thesis by (simp add: collision_alt [where digest = digest] eff(1))
qed

lemma accepted: "accept_idempotent_fact_or_raise_conflict r f = Inr () \<Longrightarrow> member_return_fact_from_row r = Inr f"
  by (auto simp: accept_idempotent_fact_or_raise_conflict_def)

text \<open>An accepted write leaves a row that decides, which either is read as the fact or is its own.\<close>

lemma accepted_write:
  assumes "upsert_member_return_fact digest ctx presented f others db = (Inr (), db')"
    and "cs_definitions (others db) = cs_definitions db"
  shows "\<exists>tenant r. admitted_composite_tenant_id ctx presented = Inr tenant
    \<and> require_composite_definition_for_write digest tenant (cf_composite_id f) db' = Inr ()
    \<and> find_member_return_fact_identity_collision f tenant db' = Some r
    \<and> (member_return_fact_from_row r = Inr f \<or> r = member_return_fact_model digest f tenant)"
proof -
  from assms(1) obtain tenant where tenant: "admitted_composite_tenant_id ctx presented = Inr tenant"
    by (auto simp: upsert_member_return_fact_def split: sum.splits)
  with assms(1) have req: "require_composite_definition_for_write digest tenant (cf_composite_id f) db = Inr ()"
    by (auto simp: upsert_member_return_fact_def split: sum.splits)
  have "require_composite_definition_for_write digest tenant (cf_composite_id f) db' = Inr ()"
    using req write_keeps_definitions [OF assms(2,1)] by (simp add: require_composite_definition_for_write_def)
  moreover have "\<exists>r. find_member_return_fact_identity_collision f tenant db' = Some r
      \<and> (member_return_fact_from_row r = Inr f \<or> r = member_return_fact_model digest f tenant)"
  proof (cases "find_member_return_fact_identity_collision f tenant db")
    case (Some r)
    then show ?thesis using assms(1) tenant req by (auto simp: upsert_member_return_fact_def dest: accepted)
  next
    case None
    show ?thesis
    proof (cases "insert_fact (member_return_fact_model digest f tenant) (others db)")
      case (Some db1)
      then have "db' = db1" using assms(1) tenant req None by (auto simp: upsert_member_return_fact_def split: if_splits)
      then show ?thesis using inserted_collision [OF Some] by blast
    next
      case ins: None
      then show ?thesis using assms(1) tenant req None
        by (auto simp: upsert_member_return_fact_def dest: accepted split: if_splits option.splits)
    qed
  qed
  ultimately show ?thesis using tenant by blast
qed

lemma decided_write:
  assumes "admitted_composite_tenant_id ctx presented = Inr tenant"
    "require_composite_definition_for_write digest tenant (cf_composite_id g) db = Inr ()"
    "find_member_return_fact_identity_collision g tenant db = Some r" "member_return_fact_from_row r = Inr f"
  shows "upsert_member_return_fact digest ctx presented g others db
    = (if g = f then Inr () else Inl (FactConflict (fact_conflict_message g)), db)"
  using assms by (auto simp: upsert_member_return_fact_def accept_idempotent_fact_or_raise_conflict_def)

text \<open>C31: A member-return fact that was accepted may be submitted again, however the first
  submission was decided and whoever wrote at the same time: it is accepted and changes nothing.
  Another fact under the same identity, with any other number, lineage or status, is refused as a
  conflict and changes nothing. This asks of the fact that no reason code is empty.\<close>

theorem fact_write_idempotent:
  assumes "upsert_member_return_fact digest ctx presented f (concurrent_writes digest ctx ws) db = (Inr (), db')"
    and f: "constructed f" "list_all (\<lambda>c. c \<noteq> []) (cf_reason_codes f)" and g: "fact_identity g = fact_identity f"
  shows "upsert_member_return_fact digest ctx presented g (concurrent_writes digest ctx ws') db'
    = (if g = f then Inr () else Inl (FactConflict (fact_conflict_message g)), db')"
proof -
  from accepted_write [OF assms(1) concurrent_keeps_definitions] fact_read_back [OF f(1)] f(2) obtain tenant r where
    "admitted_composite_tenant_id ctx presented = Inr tenant"
    "require_composite_definition_for_write digest tenant (cf_composite_id f) db' = Inr ()"
    "find_member_return_fact_identity_collision f tenant db' = Some r" "member_return_fact_from_row r = Inr f" by auto
  then show ?thesis using g collision_of_identity [OF g]
    by (intro decided_write [where r = r]) (auto simp: fact_identity_def)
qed

text \<open>Without it the second submission is refused, because the stored reason codes are not read back.\<close>

lemma blank_reason_code_refused:
  assumes "upsert_member_return_fact digest ctx presented f (concurrent_writes digest ctx ws) db = (Inr (), db')"
    and f: "constructed f" "\<not> list_all (\<lambda>c. c \<noteq> []) (cf_reason_codes f)"
    and new: "find_member_return_fact_identity_collision f tenant db' = Some (member_return_fact_model digest f tenant)"
      "admitted_composite_tenant_id ctx presented = Inr tenant"
  shows "upsert_member_return_fact digest ctx presented f (concurrent_writes digest ctx ws') db'
    = (Inl (FactConflict (fact_conflict_message f)), db')"
proof -
  from accepted_write [OF assms(1) concurrent_keeps_definitions] new(2)
  have req: "require_composite_definition_for_write digest tenant (cf_composite_id f) db' = Inr ()" by auto
  have "cf_reason_codes (f\<lparr>cf_reason_codes := [INVALID_COMPOSITE_REASON_CODES_PAYLOAD]\<rparr>) \<noteq> cf_reason_codes f"
  proof
    assume "cf_reason_codes (f\<lparr>cf_reason_codes := [INVALID_COMPOSITE_REASON_CODES_PAYLOAD]\<rparr>) = cf_reason_codes f"
    then have "cf_reason_codes f = [INVALID_COMPOSITE_REASON_CODES_PAYLOAD]" by simp
    with f(2) show False by (simp add: INVALID_COMPOSITE_REASON_CODES_PAYLOAD_def)
  qed
  then have "f \<noteq> f\<lparr>cf_reason_codes := [INVALID_COMPOSITE_REASON_CODES_PAYLOAD]\<rparr>" by metis
  then show ?thesis
    using decided_write [OF new(2) req new(1)] fact_read_back [OF f(1)] f(2) by auto
qed

section \<open>Selections\<close>

lemma max_of_spec:
  "(max_of xs = None \<longleftrightarrow> xs = []) \<and> (\<forall>m. max_of xs = Some m \<longrightarrow> m \<in> set xs \<and> (\<forall>x \<in> set xs. x \<le> m))"
proof (induction xs)
  case (Cons x xs)
  show ?case
  proof (cases "max_of xs")
    case (Some y)
    with Cons have "y \<in> set xs" "\<forall>z \<in> set xs. z \<le> y" by auto
    then show ?thesis using Some by (auto simp: max_def)
  qed (use Cons in auto)
qed simp

lemma find_unique:
  assumes "x \<in> set xs" "P x" and unique: "\<And>y. y \<in> set xs \<Longrightarrow> P y \<Longrightarrow> y = x"
  shows "find P xs = Some x"
proof (cases "find P xs")
  case (Some y)
  then have "y \<in> set xs" "P y" by (auto simp: find_Some_iff)
  then show ?thesis using Some unique by simp
next
  case None
  then have "\<not> P x" using assms(1) by (simp add: find_None_iff)
  then show ?thesis using assms(2) by simp
qed

lemma parse_all_total: "(\<And>x. x \<in> set xs \<Longrightarrow> \<exists>y. f x = Inr y) \<Longrightarrow> \<exists>ys. parse_all f xs = Inr ys"
  by (induction xs) auto

lemma parse_all_member: "parse_all f xs = Inr ys \<Longrightarrow> y \<in> set ys \<Longrightarrow> \<exists>x \<in> set xs. f x = Inr y"
  by (induction xs arbitrary: ys) auto

lemma set_selected [simp]: "set (selected_fact_rows statement db) = {r \<in> set (cs_facts db). statement r}"
  by (auto simp: selected_fact_rows_def)

text \<open>The selection of a sequence and the families its publication names in the window.\<close>

definition of_sequence :: "string \<Rightarrow> fact_query \<Rightarrow> string \<Rightarrow> int \<Rightarrow> composite_fact_row \<Rightarrow> bool" where
  "of_sequence tenant q currency n r \<longleftrightarrow> fact_filters tenant q currency r \<and> fr_restatement_sequence r = n"

definition in_window :: "fact_query \<Rightarrow> fact_family \<Rightarrow> bool" where
  "in_window q family \<longleftrightarrow> fq_period_start q \<le> fst (snd family) \<and> snd (snd family) \<le> fq_period_end q"

lemma listed:
  assumes "list_member_return_facts ctx presented q authorize later db = Inr facts"
  shows "\<exists>tenant currency. admitted_composite_tenant_id ctx presented = Inr tenant
    \<and> resolve_member_return_reporting_currency tenant q db = Inr currency
    \<and> (case resolve_member_return_fact_sequence tenant q currency db of
         (None, latest) \<Rightarrow> facts = []
       | (Some n, latest) \<Rightarrow> \<not> unreleased tenant q currency n latest db
           \<and> (\<exists>completed rows. completed_publication_families tenant q currency n db = Inr completed
               \<and> read_admitted_fact_rows (of_sequence tenant q currency n) completed tenant authorize later db = Inr rows
               \<and> (latest \<longrightarrow> completed \<noteq> None)
               \<and> (\<forall>families. completed = Some families \<longrightarrow> family_of ` set rows = families)
               \<and> parse_all member_return_fact_from_row rows = Inr facts))"
proof -
  from assms obtain tenant currency where scope: "admitted_composite_tenant_id ctx presented = Inr tenant"
      "resolve_member_return_reporting_currency tenant q db = Inr currency"
    by (auto simp: list_member_return_facts_def)
  obtain selected latest where seq: "resolve_member_return_fact_sequence tenant q currency db = (selected, latest)" by fastforce
  have "case selected of None \<Rightarrow> facts = [] | Some n \<Rightarrow> \<not> unreleased tenant q currency n latest db
      \<and> (\<exists>completed rows. completed_publication_families tenant q currency n db = Inr completed
          \<and> read_admitted_fact_rows (of_sequence tenant q currency n) completed tenant authorize later db = Inr rows
          \<and> (latest \<longrightarrow> completed \<noteq> None)
          \<and> (\<forall>families. completed = Some families \<longrightarrow> family_of ` set rows = families)
          \<and> parse_all member_return_fact_from_row rows = Inr facts)"
  proof (cases selected)
    case None
    then show ?thesis using assms scope seq by (simp add: list_member_return_facts_def)
  next
    case (Some n)
    have run: "(if unreleased tenant q currency n latest db
        then Inl (FactSelection ''Composite materialization is not completely published.'')
        else bind_res (completed_publication_families tenant q currency n db) (\<lambda>completed.
          bind_res (read_admitted_fact_rows (of_sequence tenant q currency n) completed tenant authorize later db) (\<lambda>rows.
          bind_res (validate_member_return_fact_selection latest n (case completed of Some families \<Rightarrow> families
              | None \<Rightarrow> member_return_fact_families (fact_filters tenant q currency) db) (completed \<noteq> None) rows) (\<lambda>_.
            parse_all member_return_fact_from_row rows)))) = Inr facts"
      using assms scope seq Some unfolding list_member_return_facts_def of_sequence_def [abs_def]
      by (cases "unreleased tenant q currency n latest db") (simp_all add: Let_def)
    then obtain completed rows where c: "completed_publication_families tenant q currency n db = Inr completed"
        "read_admitted_fact_rows (of_sequence tenant q currency n) completed tenant authorize later db = Inr rows"
        "validate_member_return_fact_selection latest n (case completed of Some families \<Rightarrow> families
              | None \<Rightarrow> member_return_fact_families (fact_filters tenant q currency) db) (completed \<noteq> None) rows = Inr ()"
        "parse_all member_return_fact_from_row rows = Inr facts"
      by (auto split: if_splits)
    have "latest \<longrightarrow> completed \<noteq> None" "\<forall>families. completed = Some families \<longrightarrow> family_of ` set rows = families"
      using c(3) by (auto simp: validate_member_return_fact_selection_def validate_completed_member_return_fact_selection_def
          split: if_splits)
    then show ?thesis using run Some c by (auto split: if_splits)
  qed
  then have "case resolve_member_return_fact_sequence tenant q currency db of
         (None, latest) \<Rightarrow> facts = []
       | (Some n, latest) \<Rightarrow> \<not> unreleased tenant q currency n latest db
           \<and> (\<exists>completed rows. completed_publication_families tenant q currency n db = Inr completed
               \<and> read_admitted_fact_rows (of_sequence tenant q currency n) completed tenant authorize later db = Inr rows
               \<and> (latest \<longrightarrow> completed \<noteq> None)
               \<and> (\<forall>families. completed = Some families \<longrightarrow> family_of ` set rows = families)
               \<and> parse_all member_return_fact_from_row rows = Inr facts)"
    unfolding seq prod.case .
  then show ?thesis using scope by (intro exI conjI)
qed

lemma completed_found:
  assumes "completed_publication_families tenant q currency n db = Inr (Some families)"
  shows "\<exists>p manifest. p \<in> set (cs_publications db) \<and> publication_identity_filters tenant q currency p
    \<and> pb_restatement_sequence p = n \<and> covering_publication_window_filters q p
    \<and> parse_fact_families (pb_expected_families_json p) = Inr manifest \<and> families = {family \<in> manifest. in_window q family}"
proof -
  from assms obtain p where p: "find (\<lambda>p. publication_identity_filters tenant q currency p \<and> pb_restatement_sequence p = n)
      (cs_publications db) = Some p" by (auto simp: completed_publication_families_def split: option.splits)
  with assms show ?thesis
    by (intro exI [of _ p])
      (auto simp: completed_publication_families_def covering_publication_window_filters_def deserialize_fact_families_def
        in_window_def find_Some_iff not_less split: if_splits sum.splits dest: nth_mem)
qed

text \<open>C15: A reader who names no sequence gets either nothing, when the scope holds no fact of the
  window and no publication covering it, or the facts of the greatest sequence that any fact of the window or
  any publication covering it carries; then this sequence is published, the publication covers the window, no
  materialization of it or of a later one is unreleased, and the facts are those of exactly the
  members and periods the publication names in the window. A newer, unpublished sequence is never
  skipped and never mixed in.\<close>

theorem latest_selection_complete:
  assumes "list_member_return_facts ctx presented q None (db, db) db = Inr facts" "fq_restatement_sequence q = None"
  shows "\<exists>tenant currency. admitted_composite_tenant_id ctx presented = Inr tenant
    \<and> resolve_member_return_reporting_currency tenant q db = Inr currency
    \<and> (facts = [] \<and> list_all (\<lambda>r. \<not> fact_filters tenant q currency r) (cs_facts db)
          \<and> list_all (\<lambda>p. \<not> (publication_identity_filters tenant q currency p \<and> covering_publication_window_filters q p))
                (cs_publications db)
       \<or> (\<exists>p manifest. p \<in> set (cs_publications db) \<and> publication_identity_filters tenant q currency p
           \<and> covering_publication_window_filters q p
           \<and> list_all (\<lambda>r. fact_filters tenant q currency r \<longrightarrow> fr_restatement_sequence r \<le> pb_restatement_sequence p) (cs_facts db)
           \<and> list_all (\<lambda>p'. publication_identity_filters tenant q currency p' \<and> covering_publication_window_filters q p'
                \<longrightarrow> pb_restatement_sequence p' \<le> pb_restatement_sequence p) (cs_publications db)
           \<and> \<not> unreleased tenant q currency (pb_restatement_sequence p) True db
           \<and> parse_fact_families (pb_expected_families_json p) = Inr manifest
           \<and> parse_all member_return_fact_from_row
               (selected_fact_rows (of_sequence tenant q currency (pb_restatement_sequence p)) db) = Inr facts
           \<and> family_of ` {r \<in> set (cs_facts db). of_sequence tenant q currency (pb_restatement_sequence p) r}
               = {family \<in> manifest. in_window q family}))"
proof -
  from listed [OF assms(1)] obtain tenant currency where scope: "admitted_composite_tenant_id ctx presented = Inr tenant"
      "resolve_member_return_reporting_currency tenant q db = Inr currency"
    and rest: "case resolve_member_return_fact_sequence tenant q currency db of
         (None, latest) \<Rightarrow> facts = []
       | (Some n, latest) \<Rightarrow> \<not> unreleased tenant q currency n latest db
           \<and> (\<exists>completed rows. completed_publication_families tenant q currency n db = Inr completed
               \<and> read_admitted_fact_rows (of_sequence tenant q currency n) completed tenant None (db, db) db = Inr rows
               \<and> (latest \<longrightarrow> completed \<noteq> None)
               \<and> (\<forall>families. completed = Some families \<longrightarrow> family_of ` set rows = families)
               \<and> parse_all member_return_fact_from_row rows = Inr facts)" by (elim exE conjE)
  let ?sequences = "List.map fr_restatement_sequence (filter (fact_filters tenant q currency) (cs_facts db))
      @ List.map pb_restatement_sequence
          (filter (\<lambda>p. publication_identity_filters tenant q currency p \<and> covering_publication_window_filters q p)
             (cs_publications db))"
  have sequence: "resolve_member_return_fact_sequence tenant q currency db = (max_of ?sequences, True)"
    by (simp add: resolve_member_return_fact_sequence_def assms(2))
  show ?thesis
  proof (cases "max_of ?sequences")
    case None
    then have "?sequences = []" using max_of_spec [of ?sequences] by blast
    then show ?thesis using scope rest None sequence by (auto simp: list_all_iff filter_empty_conv)
  next
    case (Some n)
    with rest sequence obtain families rows where n: "\<not> unreleased tenant q currency n True db"
        "completed_publication_families tenant q currency n db = Inr (Some families)"
        "rows = selected_fact_rows (of_sequence tenant q currency n) db" "family_of ` set rows = families"
        "parse_all member_return_fact_from_row rows = Inr facts" by (auto simp: read_admitted_fact_rows_def)
    from completed_found [OF n(2)] obtain p manifest where p: "p \<in> set (cs_publications db)"
        "publication_identity_filters tenant q currency p" "pb_restatement_sequence p = n"
        "covering_publication_window_filters q p" "parse_fact_families (pb_expected_families_json p) = Inr manifest"
        "families = {family \<in> manifest. in_window q family}" by blast
    have "fr_restatement_sequence r \<le> n" if "r \<in> set (cs_facts db)" "fact_filters tenant q currency r" for r
      using max_of_spec [of ?sequences] Some that by auto
    moreover have "pb_restatement_sequence p' \<le> n" if "p' \<in> set (cs_publications db)"
      "publication_identity_filters tenant q currency p'" "covering_publication_window_filters q p'" for p'
      using max_of_spec [of ?sequences] Some that by auto
    ultimately show ?thesis using scope n p
      by (intro exI [of _ tenant] exI [of _ currency] conjI disjI2 exI [of _ p] exI [of _ manifest]) (auto simp: list_all_iff)
  qed
qed

section \<open>Replaying a pinned sequence\<close>

lemma readable_rows:
  assumes "composites_ok db" "\<And>r. r \<in> set rows \<Longrightarrow> r \<in> set (cs_facts db)"
  shows "\<exists>facts. parse_all member_return_fact_from_row rows = Inr facts"
  by (rule parse_all_total) (use assms in \<open>auto simp: composites_ok_def list_all_iff\<close>)

text \<open>The query that pins a publication, and the rows it selects.\<close>

definition pins :: "fact_query \<Rightarrow> composite_publication_row \<Rightarrow> bool" where
  "pins q p \<longleftrightarrow> fq_composite_id q = pb_composite_id p \<and> fq_return_view q = pb_return_view p
     \<and> fq_reporting_currency q = Some (pb_reporting_currency p)
     \<and> fq_restatement_sequence q = Some (pb_restatement_sequence p) \<and> covering_publication_window_filters q p"

definition published_rows :: "fact_query \<Rightarrow> composite_publication_row \<Rightarrow> composite_store \<Rightarrow> composite_fact_row list" where
  "published_rows q p db = sort_key (\<lambda>r. (fr_period_start r, fr_period_end r, fr_portfolio_id r))
     (filter (\<lambda>r. in_window q (family_of r)) (scope_facts (publication_scope_of p) db))"

lemma selected_published:
  assumes "pins q p"
  shows "selected_fact_rows (of_sequence (pb_tenant_id p) q (pb_reporting_currency p) (pb_restatement_sequence p)) db
    = published_rows q p db"
  using assms by (auto simp: selected_fact_rows_def published_rows_def scope_facts_def pins_def of_sequence_def fact_filters_def
      fact_scope_def publication_scope_of_def in_window_def family_of_def
      intro!: arg_cong [where f = "sort_key (\<lambda>r. (fr_period_start r, fr_period_end r, fr_portfolio_id r))"] filter_cong)

lemma completed_pinned:
  assumes ok: "composites_ok db" and p: "p \<in> set (cs_publications db)" and q: "pins q p"
  shows "completed_publication_families (pb_tenant_id p) q (pb_reporting_currency p) (pb_restatement_sequence p) db
    = Inr (Some (family_of ` set (published_rows q p db)))"
proof -
  have "find (\<lambda>r. publication_identity_filters (pb_tenant_id p) q (pb_reporting_currency p) r
      \<and> pb_restatement_sequence r = pb_restatement_sequence p) (cs_publications db) = Some p"
  proof (rule find_unique [OF p])
    fix r
    assume r: "r \<in> set (cs_publications db)" "publication_identity_filters (pb_tenant_id p) q (pb_reporting_currency p) r
      \<and> pb_restatement_sequence r = pb_restatement_sequence p"
    then have "publication_scope_of r = publication_scope_of p"
      using q by (auto simp: publication_identity_filters_def pins_def publication_scope_of_def)
    then show "r = p" using ok p r(1) by (auto simp: composites_ok_def distinct_map dest: inj_onD)
  qed (use q in \<open>auto simp: publication_identity_filters_def pins_def\<close>)
  moreover have "\<not> fq_period_start q < pb_period_start p" "\<not> pb_period_end p < fq_period_end q"
    using q by (auto simp: pins_def covering_publication_window_filters_def)
  moreover have "parse_fact_families (pb_expected_families_json p) = Inr (family_of ` set (scope_facts (publication_scope_of p) db))"
    using ok p by (simp add: composites_ok_def attested_def list_all_iff)
  moreover have "{family \<in> family_of ` set (scope_facts (publication_scope_of p) db).
      fq_period_start q \<le> fst (snd family) \<and> snd (snd family) \<le> fq_period_end q} = family_of ` set (published_rows q p db)"
    by (auto simp: published_rows_def in_window_def)
  ultimately show ?thesis
    by (simp add: completed_publication_families_def deserialize_fact_families_def)
qed

lemma pinned_read:
  assumes ok: "composites_ok db" and p: "p \<in> set (cs_publications db)" and q: "pins q p"
    and tenant: "admitted_composite_tenant_id ctx presented = Inr (pb_tenant_id p)"
    and released: "\<not> unreleased (pb_tenant_id p) q (pb_reporting_currency p) (pb_restatement_sequence p) False db"
  shows "list_member_return_facts ctx presented q None (db, db) db
    = parse_all member_return_fact_from_row (published_rows q p db)"
proof -
  have "resolve_member_return_reporting_currency (pb_tenant_id p) q db = Inr (pb_reporting_currency p)"
    "resolve_member_return_fact_sequence (pb_tenant_id p) q (pb_reporting_currency p) db = (Some (pb_restatement_sequence p), False)"
    using q by (simp_all add: pins_def resolve_member_return_reporting_currency_def resolve_member_return_fact_sequence_def)
  then show ?thesis
    using tenant released completed_pinned [OF ok p q] selected_published [OF q]
    unfolding list_member_return_facts_def of_sequence_def [abs_def]
    by (simp add: read_admitted_fact_rows_def validate_member_return_fact_selection_def
        validate_completed_member_return_fact_selection_def ensure_def del: set_selected)
qed

text \<open>C24: A published sequence stays readable and reads the same forever: a reader who pins its
  scope and sequence, for a window inside its period, gets the facts that were published, all of them
  and in the same order, whatever was submitted since, as long as composites are not cleared and no
  materialization of the sequence is unreleased.\<close>

theorem pinned_selection_replays:
  assumes "list_all metadata_allowed es" "list_all metadata_allowed fs" "list_all retains fs"
    and p: "p \<in> set (cs_publications (composites_of es digest ctx))" and q: "pins q p"
    and tenant: "admitted_composite_tenant_id ctx presented = Inr (pb_tenant_id p)"
    and later: "db = composites_of (es @ fs) digest ctx"
    and released: "\<not> unreleased (pb_tenant_id p) q (pb_reporting_currency p) (pb_restatement_sequence p) False db"
  shows "\<exists>facts. list_member_return_facts ctx presented q None (db, db) db = Inr facts
    \<and> parse_all member_return_fact_from_row (published_rows q p (composites_of es digest ctx)) = Inr facts"
proof -
  let ?db = "composites_of es digest ctx"
  have ext: "extends ?db db" unfolding later composites_of_def composites.run_append by (rule extends_run [OF assms(3)])
  have "composites_ok db" unfolding later by (rule composites_of_ok) (simp add: assms(1,2))
  moreover have "p \<in> set (cs_publications db)" using ext p by (auto simp: extends_def)
  ultimately have "list_member_return_facts ctx presented q None (db, db) db
      = parse_all member_return_fact_from_row (published_rows q p db)" using q tenant released by (intro pinned_read)
  moreover have "published_rows q p db = published_rows q p ?db"
    unfolding published_rows_def extends_scope [OF ext p] ..
  moreover have "\<exists>facts. parse_all member_return_fact_from_row (published_rows q p ?db) = Inr facts"
    by (rule readable_rows [OF composites_of_ok [OF assms(1)]]) (auto simp: published_rows_def scope_facts_def)
  ultimately show ?thesis by metis
qed

section \<open>Authorized members\<close>

lemma fact_of_row_member: "member_return_fact_from_row r = Inr f \<Longrightarrow> cf_portfolio_id f = fr_portfolio_id r"
  by (auto simp: member_return_fact_from_row_def CompositeMemberReturnFact_def validate_fact_def Let_def
      split: sum.splits if_splits)

lemma admitted_members:
  assumes "authorize_fact_selection statement expected tenant (require_composite_member_scope scope) db = Inr families"
    "family \<in> families"
  shows "fst family \<in> scope"
  using assms by (auto simp: authorize_fact_selection_def require_composite_member_scope_def Let_def
      split: sum.splits if_splits)

text \<open>C18: A reader with a portfolio scope gets the facts of members inside that scope only. This holds
  although the store may change while it reads: whatever other sessions commit between the
  authorization of the identities and the reading of the numbers, no fact of a member that was not
  authorized is returned.\<close>

theorem facts_of_authorized_members:
  assumes "list_member_return_facts ctx presented q (Some (require_composite_member_scope scope)) later db = Inr facts"
  shows "list_all (\<lambda>f. cf_portfolio_id f \<in> scope) facts"
proof -
  from listed [OF assms] obtain tenant currency where
    rest: "case resolve_member_return_fact_sequence tenant q currency db of
         (None, latest) \<Rightarrow> facts = []
       | (Some n, latest) \<Rightarrow> \<not> unreleased tenant q currency n latest db
           \<and> (\<exists>completed rows. completed_publication_families tenant q currency n db = Inr completed
               \<and> read_admitted_fact_rows (of_sequence tenant q currency n) completed tenant
                   (Some (require_composite_member_scope scope)) later db = Inr rows
               \<and> (latest \<longrightarrow> completed \<noteq> None)
               \<and> (\<forall>families. completed = Some families \<longrightarrow> family_of ` set rows = families)
               \<and> parse_all member_return_fact_from_row rows = Inr facts)" by (elim exE conjE)
  obtain selected latest where seq: "resolve_member_return_fact_sequence tenant q currency db = (selected, latest)" by fastforce
  show ?thesis
  proof (cases selected)
    case None
    then show ?thesis using rest seq by simp
  next
    case (Some n)
    with rest seq obtain completed rows where r: "read_admitted_fact_rows (of_sequence tenant q currency n) completed tenant
        (Some (require_composite_member_scope scope)) later db = Inr rows"
        "parse_all member_return_fact_from_row rows = Inr facts" by auto
    from r(1) obtain families where families: "authorize_fact_selection (of_sequence tenant q currency n)
        (case completed of None \<Rightarrow> {} | Some fs \<Rightarrow> fs) tenant (require_composite_member_scope scope) db = Inr families"
        "\<And>row. row \<in> set rows \<Longrightarrow> family_of row \<in> families"
      by (auto simp: read_admitted_fact_rows_def split: if_splits)
    have "cf_portfolio_id f \<in> scope" if f: "f \<in> set facts" for f
    proof -
      from parse_all_member [OF r(2) f] obtain row where row: "row \<in> set rows" "member_return_fact_from_row row = Inr f" by blast
      from admitted_members [OF families(1) families(2) [OF row(1)]] fact_of_row_member [OF row(2)]
      show ?thesis by (simp add: family_of_def)
    qed
    then show ?thesis by (simp add: list_all_iff)
  qed
qed

end
