(* ===== verification/Publication_Witnesses.thy ===== *)
theory Publication_Witnesses
  imports Manifest_Safety Selection_Safety
begin

text \<open>
  The properties of the composite store on a store with one composite, the facts of two members
  written by two sessions at once, and their publication.
\<close>

section \<open>A store\<close>

definition demo_digest :: "json_text \<Rightarrow> string" where
  "demo_digest t = (case t of
     Doc (JObj kvs) \<Rightarrow> concat (List.map (\<lambda>(k, v). (case v of JStr s \<Rightarrow> s | JInt n \<Rightarrow> int_text n | _ \<Rightarrow> []) @ ''|'') kvs)
   | _ \<Rightarrow> [])"

definition demo_composite_definition :: composite_definition where
  "demo_composite_definition =
     \<lparr>df_composite_id = ''C'', df_display_name = ''Balanced'', df_strategy_code = ''B'', df_reporting_currency = ''USD'',
      df_inception_date = Date 2024 1 1, df_termination_date = None, df_calculation_method = ''ASSET_WEIGHTED'',
      df_source_authority = []\<rparr>"

definition demo_member_fact :: "string \<Rightarrow> composite_fact" where
  "demo_member_fact member =
     \<lparr>cf_composite_id = ''C'', cf_portfolio_id = member, cf_period_start = Date 2024 1 1, cf_period_end = Date 2024 1 31,
      cf_return_value = 1, cf_return_view = GROSS, cf_beginning_market_value = 100, cf_ending_market_value = Some 200,
      cf_reporting_currency = ''USD'', cf_calculation_id = Some ''k'', cf_source_authority_identity = None,
      cf_source_snapshot_id = ''s'', cf_source_fingerprint = ''f'', cf_restatement_version = ''v1'',
      cf_restatement_sequence = 1, cf_status = FactReady, cf_reason_codes = []\<rparr>"

definition demo_families :: "fact_family set" where
  "demo_families = {(''A'', Date 2024 1 1, Date 2024 1 31), (''B'', Date 2024 1 1, Date 2024 1 31)}"

definition demo_publication :: publication_request where
  "demo_publication =
     \<lparr>pq_composite_id = ''C'', pq_return_view = GROSS, pq_reporting_currency = ''USD'', pq_restatement_sequence = 1,
      pq_period_start = Date 2024 1 1, pq_period_end = Date 2024 1 31, pq_expected_families = demo_families,
      pq_source_fingerprint = ''f''\<rparr>"

definition demo_writes :: "metadata_event list" where
  "demo_writes = [DefineComposite (Some ''T'') demo_composite_definition,
     WriteFact (Some ''T'') (demo_member_fact ''A'') [(Some ''T'', demo_member_fact ''B'')]]"

definition demo_completion :: metadata_event where
  "demo_completion = CompletePublication (Some ''T'') demo_publication"

abbreviation "demo_store \<equiv> composites_of (demo_writes @ [demo_completion]) demo_digest []"

definition demo_row :: "string \<Rightarrow> composite_fact_row" where
  "demo_row member = member_return_fact_model demo_digest (demo_member_fact member) ''T''"

lemma demo_writes_facts: "cs_facts (composites_of demo_writes demo_digest []) = [demo_row ''B'', demo_row ''A'']"
  by code_simp

lemma demo_published: "cs_publications demo_store = [publication_row demo_digest demo_publication ''T'']"
  by code_simp

lemma demo_allowed: "list_all metadata_allowed (demo_writes @ [demo_completion])"
  by code_simp

lemma demo_tenant: "admitted_composite_tenant_id [] (Some ''T'') = Inr ''T''"
  by code_simp

text \<open>The same store, written out.\<close>

definition demo_fact_row :: "string \<Rightarrow> string \<Rightarrow> composite_fact_row" where
  "demo_fact_row key member =
     \<lparr>fr_fact_key = key, fr_tenant_id = ''T'', fr_composite_id = ''C'', fr_portfolio_id = member,
      fr_period_start = Date 2024 1 1, fr_period_end = Date 2024 1 31, fr_return_value = 1, fr_return_view = GROSS,
      fr_beginning_market_value = 100, fr_ending_market_value = Some 200, fr_reporting_currency = ''USD'',
      fr_calculation_id = Some ''k'', fr_source_authority_identity_json = None, fr_source_snapshot_id = ''s'',
      fr_source_fingerprint = ''f'', fr_restatement_version = ''v1'', fr_restatement_sequence = 1, fr_status = FactReady,
      fr_reason_codes_json = Doc (JList [])\<rparr>"

definition demo_publication_row :: composite_publication_row where
  "demo_publication_row =
     \<lparr>pb_publication_key = ''sha256:C|USD|1|GROSS|T|'', pb_tenant_id = ''T'', pb_composite_id = ''C'', pb_return_view = GROSS,
      pb_reporting_currency = ''USD'', pb_restatement_sequence = 1, pb_period_start = Date 2024 1 1,
      pb_period_end = Date 2024 1 31,
      pb_expected_families_json = Doc (JList
        [JObj [(''period_end'', JStr ''2024-01-31''), (''period_start'', JStr ''2024-01-01''), (''portfolio_id'', JStr ''A'')],
         JObj [(''period_end'', JStr ''2024-01-31''), (''period_start'', JStr ''2024-01-01''), (''portfolio_id'', JStr ''B'')]]),
      pb_source_fingerprint = ''f''\<rparr>"

definition demo_literal :: composite_store where
  "demo_literal =
     \<lparr>cs_definitions =
        [\<lparr>cd_definition_key = ''sha256:C|T|'', cd_tenant_id = ''T'', cd_composite_id = ''C'', cd_display_name = ''Balanced'',
          cd_strategy_code = ''B'', cd_reporting_currency = ''USD'', cd_inception_date = Date 2024 1 1,
          cd_termination_date = None, cd_calculation_method = ''ASSET_WEIGHTED'', cd_source_authority_json = Doc (JObj [])\<rparr>],
      cs_memberships = [],
      cs_facts = [demo_fact_row ''sha256:C|2024-01-31|2024-01-01|B|USD|1|v1|GROSS|T|'' ''B'',
                  demo_fact_row ''sha256:C|2024-01-31|2024-01-01|A|USD|1|v1|GROSS|T|'' ''A''],
      cs_publications = [demo_publication_row], cs_materializations = []\<rparr>"

lemma demo_store_literal: "demo_store = demo_literal"
  by code_simp

section \<open>The properties, applied\<close>

theorem publication_attests_exactly_witness:
  "parse_fact_families (pb_expected_families_json (publication_row demo_digest demo_publication ''T''))
     = Inr (family_of ` set (scope_facts (publication_scope_of (publication_row demo_digest demo_publication ''T'')) demo_store))"
proof -
  have "publication_row demo_digest demo_publication ''T'' \<in> set (cs_publications demo_store)"
    unfolding demo_published list.set by (rule insertI1)
  from publication_attests_exactly [OF demo_allowed this] show ?thesis by (rule conjunct1)
qed

text \<open>A third member, and another return of the first, both after the publication.\<close>

definition demo_late_writes :: "metadata_event list" where
  "demo_late_writes =
     [WriteFact (Some ''T'') (demo_member_fact ''C'') [],
      WriteFact (Some ''T'') (demo_member_fact ''A''\<lparr>cf_restatement_sequence := 2, cf_restatement_version := ''v2''\<rparr>) []]"

lemma demo_late: "list_all metadata_allowed demo_late_writes" "list_all retains demo_late_writes"
  by code_simp+

theorem published_facts_immutable_witness:
  "scope_facts (publication_scope_of (publication_row demo_digest demo_publication ''T''))
       (run_ops (metadata_step demo_digest []) demo_store demo_late_writes)
     = scope_facts (publication_scope_of (publication_row demo_digest demo_publication ''T'')) demo_store"
proof -
  have "publication_row demo_digest demo_publication ''T'' \<in> set (cs_publications demo_store)"
    unfolding demo_published list.set by (rule insertI1)
  then show ?thesis using published_facts_immutable [OF demo_late(2), of demo_store demo_digest "[]"] by blast
qed

definition demo_defined :: composite_store where
  "demo_defined = composites_of [DefineComposite (Some ''T'') demo_composite_definition] demo_digest []"

definition demo_written :: composite_store where
  "demo_written = snd (upsert_member_return_fact demo_digest [] (Some ''T'') (demo_member_fact ''A'')
     (concurrent_writes demo_digest [] [(Some ''T'', demo_member_fact ''B'')]) demo_defined)"

definition demo_revised :: composite_fact where
  "demo_revised = demo_member_fact ''A''\<lparr>cf_return_value := 2\<rparr>"

theorem fact_write_idempotent_witness:
  "upsert_member_return_fact demo_digest [] (Some ''T'') demo_revised (concurrent_writes demo_digest [] []) demo_written
     = (Inl (FactConflict (fact_conflict_message demo_revised)), demo_written)"
proof -
  have "fst (upsert_member_return_fact demo_digest [] (Some ''T'') (demo_member_fact ''A'')
      (concurrent_writes demo_digest [] [(Some ''T'', demo_member_fact ''B'')]) demo_defined) = Inr ()" by code_simp
  then have run: "upsert_member_return_fact demo_digest [] (Some ''T'') (demo_member_fact ''A'')
      (concurrent_writes demo_digest [] [(Some ''T'', demo_member_fact ''B'')]) demo_defined = (Inr (), demo_written)"
    unfolding demo_written_def by (metis prod.collapse)
  have f: "constructed (demo_member_fact ''A'')" "list_all (\<lambda>c. c \<noteq> []) (cf_reason_codes (demo_member_fact ''A''))"
      "fact_identity demo_revised = fact_identity (demo_member_fact ''A'')" "demo_revised \<noteq> demo_member_fact ''A''"
    by code_simp+
  from fact_write_idempotent [OF run f(1-3), of "[]"] f(4) show ?thesis by (simp only: if_False)
qed

definition demo_query :: "int option \<Rightarrow> fact_query" where
  "demo_query n =
     \<lparr>fq_composite_id = ''C'', fq_period_start = Date 2024 1 1, fq_period_end = Date 2024 1 31, fq_return_view = GROSS,
      fq_reporting_currency = Some ''USD'', fq_restatement_sequence = n\<rparr>"

definition answers :: "metadata_error + composite_fact list \<Rightarrow> nat \<Rightarrow> bool" where
  "answers r n = (case r of Inl _ \<Rightarrow> False | Inr facts \<Rightarrow> length facts = n)"

lemma answersE: "answers r n \<Longrightarrow> (\<And>facts. r = Inr facts \<Longrightarrow> length facts = n \<Longrightarrow> thesis) \<Longrightarrow> thesis"
  by (auto simp: answers_def split: sum.splits)

theorem latest_selection_complete_witness:
  "\<exists>facts p. list_member_return_facts [] (Some ''T'') (demo_query None) None (demo_store, demo_store) demo_store = Inr facts
     \<and> length facts = 2 \<and> p \<in> set (cs_publications demo_store)
     \<and> parse_all member_return_fact_from_row
         (selected_fact_rows (of_sequence ''T'' (demo_query None) ''USD'' (pb_restatement_sequence p)) demo_store) = Inr facts"
proof -
  have "answers (list_member_return_facts [] (Some ''T'') (demo_query None) None (demo_store, demo_store) demo_store) 2"
    unfolding demo_store_literal
    by code_simp
  then obtain facts where run: "list_member_return_facts [] (Some ''T'') (demo_query None) None (demo_store, demo_store) demo_store
      = Inr facts" "length facts = 2" by (rule answersE)
  have q: "fq_restatement_sequence (demo_query None) = None" by (simp add: demo_query_def)
  have "resolve_member_return_reporting_currency ''T'' (demo_query None) demo_store = Inr ''USD''"
    by (simp add: resolve_member_return_reporting_currency_def demo_query_def)
  with latest_selection_complete [OF run(1) q] demo_tenant obtain p where "p \<in> set (cs_publications demo_store)"
      "parse_all member_return_fact_from_row
         (selected_fact_rows (of_sequence ''T'' (demo_query None) ''USD'' (pb_restatement_sequence p)) demo_store) = Inr facts"
    using run(2) by fastforce
  then show ?thesis using run by blast
qed

lemma demo_pins: "pins (demo_query (Some 1)) (publication_row demo_digest demo_publication ''T'')"
  by code_simp

theorem pinned_selection_replays_witness:
  "\<exists>facts. list_member_return_facts [] (Some ''T'') (demo_query (Some 1)) None
       (composites_of ((demo_writes @ [demo_completion]) @ demo_late_writes) demo_digest [],
        composites_of ((demo_writes @ [demo_completion]) @ demo_late_writes) demo_digest [])
       (composites_of ((demo_writes @ [demo_completion]) @ demo_late_writes) demo_digest []) = Inr facts
     \<and> parse_all member_return_fact_from_row
         (published_rows (demo_query (Some 1)) (publication_row demo_digest demo_publication ''T'') demo_store) = Inr facts"
proof (rule pinned_selection_replays [OF demo_allowed demo_late _ demo_pins _ refl])
  show "publication_row demo_digest demo_publication ''T'' \<in> set (cs_publications demo_store)"
    unfolding demo_published list.set by (rule insertI1)
  show "admitted_composite_tenant_id [] (Some ''T'') = Inr (pb_tenant_id (publication_row demo_digest demo_publication ''T''))"
    by code_simp
  show "\<not> unreleased (pb_tenant_id (publication_row demo_digest demo_publication ''T'')) (demo_query (Some 1))
      (pb_reporting_currency (publication_row demo_digest demo_publication ''T''))
      (pb_restatement_sequence (publication_row demo_digest demo_publication ''T'')) False
      (composites_of ((demo_writes @ [demo_completion]) @ demo_late_writes) demo_digest [])"
    by code_simp
qed

theorem facts_of_authorized_members_witness:
  "\<exists>facts. list_member_return_facts [] (Some ''T'') (demo_query (Some 1)) (Some (require_composite_member_scope {''A'', ''B''}))
       (demo_store, demo_store) demo_store = Inr facts
     \<and> length facts = 2 \<and> list_all (\<lambda>f. cf_portfolio_id f \<in> {''A'', ''B''}) facts"
proof -
  have "answers (list_member_return_facts [] (Some ''T'') (demo_query (Some 1))
      (Some (require_composite_member_scope {''A'', ''B''})) (demo_store, demo_store) demo_store) 2"
    unfolding demo_store_literal by code_simp
  then obtain facts where run: "list_member_return_facts [] (Some ''T'') (demo_query (Some 1))
      (Some (require_composite_member_scope {''A'', ''B''})) (demo_store, demo_store) demo_store = Inr facts" "length facts = 2"
    by (rule answersE)
  from facts_of_authorized_members [OF run(1)] run show ?thesis by (intro exI conjI)
qed

theorem exact_universe_publishes_witness:
  "complete_member_return_fact_publication demo_digest [] (Some ''T'') demo_publication (composites_of demo_writes demo_digest [])
     = Inr ((composites_of demo_writes demo_digest [])\<lparr>cs_publications :=
         cs_publications (composites_of demo_writes demo_digest []) @ [publication_row demo_digest demo_publication ''T'']\<rparr>)"
proof -
  have allowed: "list_all metadata_allowed demo_writes" by code_simp
  have request: "validate_member_return_fact_publication_request (pq_reporting_currency demo_publication)
      (pq_restatement_sequence demo_publication) (pq_period_start demo_publication) (pq_period_end demo_publication)
      (pq_expected_families demo_publication) (pq_source_fingerprint demo_publication) = Inr ()"
      "length (pq_source_fingerprint demo_publication) \<le> 256" "Ball (pq_expected_families demo_publication) family_valid"
    by code_simp+
  have owner: "require_composite_definition_for_write demo_digest ''T'' (pq_composite_id demo_publication)
      (composites_of demo_writes demo_digest []) = Inr ()" by code_simp
  have new: "find_member_return_fact_publication (scope_of_request demo_publication ''T'') (composites_of demo_writes demo_digest []) = None"
      "list_all (\<lambda>p. pb_publication_key p \<noteq> publication_key demo_digest (scope_of_request demo_publication ''T''))
         (cs_publications (composites_of demo_writes demo_digest []))"
    by code_simp+
  have exact: "pq_expected_families demo_publication
      = family_of ` set (scope_facts (scope_of_request demo_publication ''T'') (composites_of demo_writes demo_digest []))"
    by code_simp
  from exact_universe_publishes [OF allowed refl demo_tenant request owner new] show ?thesis by (simp only: exact if_True)
qed

end
