(* ===== verification/Operator_Evidence.thy ===== *)
theory Operator_Evidence
  imports Durable_Time Tenant_Authority
begin

text \<open>
  The checks around governed operator actions, which are cleanups of the runtime state and recovery drills:
  evidence strings and identities (src/app/services/operator_action_evidence_strings.py,
  operator_action_identity.py, operator_action_evidence_paths.py), the cooldown and the preview that an
  action must respect (operator_action_guard_service.py), and the replay of the evidence of an action that
  already ran (operator_action_replay_service.py). The history of actions is a list of entries, the latest
  first. \<open>fromisoformat\<close> is the parser of the standard library, \<open>None\<close> its \<open>ValueError\<close>.
\<close>

section \<open>Evidence strings\<close>

text \<open>\<open>payload.get(key)\<close>.\<close>

definition payload_get :: "json_dict \<Rightarrow> string \<Rightarrow> json" where
  "payload_get payload key = (case dict_get payload key of None \<Rightarrow> JNull | Some j \<Rightarrow> j)"

fun is_required_evidence_string :: "json \<Rightarrow> bool" where
  "is_required_evidence_string (JStr s) = (strip s \<noteq> [])"
| "is_required_evidence_string _ = False"

definition is_optional_evidence_string :: "json \<Rightarrow> bool" where
  "is_optional_evidence_string v \<longleftrightarrow> v = JNull \<or> is_required_evidence_string v"

fun is_required_evidence_int :: "json \<Rightarrow> bool" where
  "is_required_evidence_int (JInt n) = True"
| "is_required_evidence_int _ = False"

fun is_required_evidence_number :: "json \<Rightarrow> bool" where
  "is_required_evidence_number (JInt n) = True"
| "is_required_evidence_number (JFloat s) = True"
| "is_required_evidence_number _ = False"

fun is_evidence_bool :: "json \<Rightarrow> bool" where
  "is_evidence_bool (JBool b) = True"
| "is_evidence_bool _ = False"

definition required_evidence_string_fields_present :: "json_dict \<Rightarrow> string list \<Rightarrow> bool" where
  "required_evidence_string_fields_present payload keys =
     list_all (\<lambda>key. is_required_evidence_string (payload_get payload key)) keys"

definition optional_evidence_string_fields_valid :: "json_dict \<Rightarrow> string list \<Rightarrow> bool" where
  "optional_evidence_string_fields_valid payload keys =
     list_all (\<lambda>key. is_optional_evidence_string (payload_get payload key)) keys"

definition required_evidence_int_fields_present :: "json_dict \<Rightarrow> string list \<Rightarrow> bool" where
  "required_evidence_int_fields_present payload keys =
     list_all (\<lambda>key. is_required_evidence_int (payload_get payload key)) keys"

definition required_evidence_bool_fields_present :: "json_dict \<Rightarrow> string list \<Rightarrow> bool" where
  "required_evidence_bool_fields_present payload keys =
     list_all (\<lambda>key. is_evidence_bool (payload_get payload key)) keys"

fun is_required_evidence_string_list :: "json \<Rightarrow> bool" where
  "is_required_evidence_string_list (JList items) = list_all is_required_evidence_string items"
| "is_required_evidence_string_list _ = False"

datatype operator_error =
    BlankIdentifier string
  | InvalidTimestamp string
  | ActionConflict api_error

definition normalize_required_evidence_identifier :: "string \<Rightarrow> string \<Rightarrow> operator_error + string" where
  "normalize_required_evidence_identifier value field_name =
     (let normalized = strip value in
      if normalized = [] then Inl (BlankIdentifier (field_name @ '' must not be blank'')) else Inr normalized)"

definition normalize_optional_evidence_identifier :: "string option \<Rightarrow> string option" where
  "normalize_optional_evidence_identifier value =
     (case value of None \<Rightarrow> None | Some s \<Rightarrow> (let normalized = strip s in if normalized = [] then None else Some normalized))"

section \<open>Identities\<close>

definition required_identity_matches :: "string \<Rightarrow> string \<Rightarrow> bool" where
  "required_identity_matches entry_value candidate_value =
     (case (normalize_required_evidence_identifier entry_value ''operator_action_identity'',
            normalize_required_evidence_identifier candidate_value ''operator_action_identity'') of
        (Inr entry, Inr candidate) \<Rightarrow> entry = candidate
      | _ \<Rightarrow> False)"

definition optional_identity_matches :: "string option \<Rightarrow> string option \<Rightarrow> bool" where
  "optional_identity_matches entry_value candidate_value \<longleftrightarrow>
     normalize_optional_evidence_identifier entry_value = normalize_optional_evidence_identifier candidate_value"

text \<open>An entry is matched by its operator and tenant, and by its correlation id.\<close>

definition operator_action_actor_matches :: "string \<times> string option \<Rightarrow> string \<Rightarrow> string option \<Rightarrow> bool" where
  "operator_action_actor_matches entry operator tenant \<longleftrightarrow>
     required_identity_matches (fst entry) operator \<and> optional_identity_matches (snd entry) tenant"

definition operator_action_correlation_matches ::
    "string \<times> string option \<Rightarrow> string option \<Rightarrow> string \<Rightarrow> string option \<Rightarrow> string \<Rightarrow> bool" where
  "operator_action_correlation_matches entry entry_correlation operator tenant correlation \<longleftrightarrow>
     operator_action_actor_matches entry operator tenant
     \<and> required_identity_matches (case entry_correlation of None \<Rightarrow> [] | Some c \<Rightarrow> c) correlation"

section \<open>Timestamps\<close>

text \<open>
  \<open>astimezone\<close> keeps the instant. An offset that moves a timestamp out of the years 1 to 9999 raises
  \<open>OverflowError\<close> there, which is left out.
\<close>

definition parse_utc_datetime :: "(string \<Rightarrow> datetime option) \<Rightarrow> string \<Rightarrow> operator_error + datetime" where
  "parse_utc_datetime fromisoformat timestamp_utc =
     (case fromisoformat (str_replace ''Z'' ''+00:00'' timestamp_utc) of
        None \<Rightarrow> Inl (InvalidTimestamp timestamp_utc)
      | Some parsed \<Rightarrow> Inr (coerce_utc_datetime parsed))"

section \<open>Histories\<close>

record retention_entry =
  rh_evidence_file_name :: string
  rh_generated_at_utc :: string
  rh_operator_id :: string
  rh_trigger_mode :: string
  rh_job_id :: "string option"
  rh_cleanup_mode :: string
  rh_status :: string
  rh_retention_days :: int
  rh_prunable_execution_count :: int
  rh_prunable_compute_job_count :: int
  rh_prunable_async_result_count :: int
  rh_prunable_lineage_record_count :: int
  rh_prunable_lineage_artifact_count :: int
  rh_tenant_id :: "string option"
  rh_correlation_id :: "string option"

record drill_entry =
  dh_evidence_file_name :: string
  dh_generated_at_utc :: string
  dh_operator_id :: string
  dh_backup_identifier :: string
  dh_status :: string
  dh_tenant_id :: "string option"
  dh_correlation_id :: "string option"

abbreviation retention_actor :: "retention_entry \<Rightarrow> string \<times> string option" where
  "retention_actor e \<equiv> (rh_operator_id e, rh_tenant_id e)"

abbreviation drill_actor :: "drill_entry \<Rightarrow> string \<times> string option" where
  "drill_actor e \<equiv> (dh_operator_id e, dh_tenant_id e)"

text \<open>Who asks for what.\<close>

record retention_request =
  rq_operator_id :: string
  rq_tenant_id :: "string option"
  rq_correlation_id :: "string option"
  rq_apply :: bool
  rq_retention_days :: "int option"
  rq_job_id :: "string option"

definition cleanup_mode_of :: "bool \<Rightarrow> string" where
  "cleanup_mode_of is_apply = (if is_apply then ''apply'' else ''dry_run'')"

section \<open>Guards\<close>

definition action_conflict :: "json_dict \<Rightarrow> operator_error" where
  "action_conflict d = ActionConflict
     \<lparr>status_code = 409, detail = JObj d, error_code = None, retryable = None, remediation_hint = None\<rparr>"

definition runtime_retention_history_entry_matches ::
    "retention_entry \<Rightarrow> bool \<Rightarrow> string \<Rightarrow> string option \<Rightarrow> int \<Rightarrow> string option \<Rightarrow> bool" where
  "runtime_retention_history_entry_matches entry is_apply operator tenant retention_days job_id \<longleftrightarrow>
     operator_action_actor_matches (retention_actor entry) operator tenant
     \<and> rh_cleanup_mode entry = cleanup_mode_of is_apply \<and> rh_retention_days entry = retention_days
     \<and> optional_identity_matches (rh_job_id entry) job_id"

definition find_latest_runtime_retention_entry ::
    "retention_entry list \<Rightarrow> bool \<Rightarrow> string \<Rightarrow> string option \<Rightarrow> int \<Rightarrow> string option \<Rightarrow> retention_entry option" where
  "find_latest_runtime_retention_entry entries is_apply operator tenant retention_days job_id =
     find (\<lambda>e. runtime_retention_history_entry_matches e is_apply operator tenant retention_days job_id) entries"

definition find_latest_recovery_drill_entry ::
    "drill_entry list \<Rightarrow> string \<Rightarrow> string option \<Rightarrow> string \<Rightarrow> drill_entry option" where
  "find_latest_recovery_drill_entry entries operator tenant backup_identifier =
     find (\<lambda>e. operator_action_actor_matches (drill_actor e) operator tenant
            \<and> required_identity_matches (dh_backup_identifier e) backup_identifier) entries"

definition manual_action_retry_after_seconds ::
    "(string \<Rightarrow> datetime option) \<Rightarrow> string option \<Rightarrow> rat \<Rightarrow> datetime \<Rightarrow> operator_error + int option" where
  "manual_action_retry_after_seconds fromisoformat latest_generated_at_utc cooldown_seconds now_utc =
     (case latest_generated_at_utc of
        None \<Rightarrow> Inr None
      | Some generated \<Rightarrow>
          if cooldown_seconds \<le> 0 then Inr None
          else bind_res (parse_utc_datetime fromisoformat generated) (\<lambda>parsed.
            let retry_after_seconds = \<lceil>cooldown_seconds - elapsed_seconds_since now_utc parsed\<rceil>
            in Inr (if 0 < retry_after_seconds then Some retry_after_seconds else None)))"

text \<open>The latest entry is given by the text of its time and its file. The header repeats the seconds of the detail.\<close>

definition enforce_manual_action_cooldown ::
    "(string \<Rightarrow> datetime option) \<Rightarrow> string \<Rightarrow> string \<Rightarrow> (string \<times> string) option \<Rightarrow> rat \<Rightarrow> datetime
      \<Rightarrow> operator_error + unit" where
  "enforce_manual_action_cooldown fromisoformat action_name detail_code latest cooldown_seconds now_utc =
     (case latest of
        None \<Rightarrow> Inr ()
      | Some (generated, file_name) \<Rightarrow>
          bind_res (manual_action_retry_after_seconds fromisoformat (Some generated) cooldown_seconds now_utc) (\<lambda>retry.
            case retry of
              None \<Rightarrow> Inr ()
            | Some seconds \<Rightarrow> Inl (action_conflict
                [(''code'', JStr detail_code),
                 (''message'', JStr (''A recent manual '' @ action_name
                    @ '' already completed inside the governed cooldown window. ''
                    @ ''Wait for the cooldown to expire before retrying.'')),
                 (''latest_generated_at_utc'', JStr generated), (''latest_evidence_file_name'', JStr file_name),
                 (''retry_after_seconds'', JInt seconds)])))"

definition enforce_runtime_retention_manual_run_cooldown ::
    "(string \<Rightarrow> datetime option) \<Rightarrow> retention_entry list \<Rightarrow> bool \<Rightarrow> string \<Rightarrow> string option \<Rightarrow> int \<Rightarrow> string option
      \<Rightarrow> rat \<Rightarrow> datetime \<Rightarrow> operator_error + unit" where
  "enforce_runtime_retention_manual_run_cooldown fromisoformat entries is_apply operator tenant retention_days job_id
       cooldown_seconds now_utc =
     enforce_manual_action_cooldown fromisoformat ''runtime_retention_cleanup'' ''runtime_retention_manual_run_cooldown_active''
       (map_option (\<lambda>e. (rh_generated_at_utc e, rh_evidence_file_name e))
          (find_latest_runtime_retention_entry entries is_apply operator tenant retention_days job_id))
       cooldown_seconds now_utc"

definition PREVIEW_REQUIRED :: json_dict where
  "PREVIEW_REQUIRED =
     [(''code'', JStr ''runtime_retention_apply_preview_required''),
      (''message'', JStr ''A recent matching runtime-retention dry run is required before apply can execute.'')]"

definition enforce_runtime_retention_apply_preview ::
    "(string \<Rightarrow> datetime option) \<Rightarrow> retention_entry list \<Rightarrow> string \<Rightarrow> string option \<Rightarrow> int \<Rightarrow> string option
      \<Rightarrow> rat \<Rightarrow> datetime \<Rightarrow> operator_error + unit" where
  "enforce_runtime_retention_apply_preview fromisoformat entries operator tenant retention_days job_id
       preview_max_age_seconds now_utc =
     (if preview_max_age_seconds \<le> 0 then Inr ()
      else case find_latest_runtime_retention_entry entries False operator tenant retention_days job_id of
        None \<Rightarrow> Inl (action_conflict (PREVIEW_REQUIRED
          @ [(''required_cleanup_mode'', JStr ''dry_run''), (''required_retention_days'', JInt retention_days)]))
      | Some preview \<Rightarrow>
          bind_res (parse_utc_datetime fromisoformat (rh_generated_at_utc preview)) (\<lambda>generated.
            if elapsed_seconds_since now_utc generated \<le> preview_max_age_seconds then Inr ()
            else Inl (action_conflict (PREVIEW_REQUIRED
              @ [(''latest_preview_generated_at_utc'', JStr (rh_generated_at_utc preview)),
                 (''latest_preview_evidence_file_name'', JStr (rh_evidence_file_name preview)),
                 (''preview_max_age_seconds'', JInt \<lfloor>preview_max_age_seconds\<rfloor>)]))))"

definition enforce_recovery_drill_manual_run_cooldown ::
    "(string \<Rightarrow> datetime option) \<Rightarrow> drill_entry list \<Rightarrow> string \<Rightarrow> string option \<Rightarrow> string \<Rightarrow> rat \<Rightarrow> datetime
      \<Rightarrow> operator_error + unit" where
  "enforce_recovery_drill_manual_run_cooldown fromisoformat entries operator tenant backup_identifier cooldown_seconds now_utc =
     enforce_manual_action_cooldown fromisoformat ''recovery_drill'' ''recovery_drill_manual_run_cooldown_active''
       (map_option (\<lambda>e. (dh_generated_at_utc e, dh_evidence_file_name e))
          (find_latest_recovery_drill_entry entries operator tenant backup_identifier))
       cooldown_seconds now_utc"

section \<open>Evidence files\<close>

text \<open>
  The last component of a path. A Windows path also splits at backslashes, after a drive; the name of a path
  with an UNC prefix differs from the path in any case.
\<close>

definition posix_name :: "string \<Rightarrow> string" where
  "posix_name s = (case rev (filter (\<lambda>p. p \<noteq> [] \<and> p \<noteq> ''.'') (split_on (CHR ''/'') s)) of [] \<Rightarrow> [] | p # _ \<Rightarrow> p)"

definition windows_name :: "string \<Rightarrow> string" where
  "windows_name s =
     (let relative = (if 2 \<le> length s \<and> s ! 1 = CHR '':'' then drop 2 s else s)
      in posix_name (List.map (\<lambda>c. if c = CHR 0x5C then CHR ''/'' else c) relative))"

definition is_safe_evidence_file_name :: "string \<Rightarrow> bool" where
  "is_safe_evidence_file_name evidence_file_name \<longleftrightarrow> evidence_file_name \<noteq> []
     \<and> posix_name evidence_file_name = evidence_file_name \<and> windows_name evidence_file_name = evidence_file_name"

text \<open>
  The directory of the evidence: where the file system resolves a name to, as a path below the directory or
  \<open>None\<close> outside of it, and what a file holds, \<open>None\<close> when it cannot be read.
\<close>

record artifact_directory =
  ad_resolve :: "string \<Rightarrow> string option"
  ad_read :: "string \<Rightarrow> json_text option"

definition resolve_evidence_file_path :: "artifact_directory \<Rightarrow> string \<Rightarrow> string option" where
  "resolve_evidence_file_path artifacts evidence_file_name =
     (if is_safe_evidence_file_name evidence_file_name then ad_resolve artifacts evidence_file_name else None)"

definition load_payload :: "artifact_directory \<Rightarrow> string \<Rightarrow> json_dict option" where
  "load_payload artifacts evidence_file_name =
     (case resolve_evidence_file_path artifacts evidence_file_name of
        None \<Rightarrow> None
      | Some path \<Rightarrow>
          (case ad_read artifacts path of
             None \<Rightarrow> None
           | Some text \<Rightarrow> (case json_loads text of Some (JObj payload) \<Rightarrow> Some payload | _ \<Rightarrow> None)))"

section \<open>Replays\<close>

record action_replay_result =
  ap_payload :: json_dict
  ap_evidence_file_name :: string

text \<open>\<open>getattr(entry, field_name)\<close> as the JSON value that it is compared with.\<close>

definition retention_fields :: "retention_entry \<Rightarrow> json_dict" where
  "retention_fields e =
     [(''evidence_file_name'', JStr (rh_evidence_file_name e)), (''generated_at_utc'', JStr (rh_generated_at_utc e)),
      (''operator_id'', JStr (rh_operator_id e)), (''trigger_mode'', JStr (rh_trigger_mode e)),
      (''job_id'', json_opt (rh_job_id e)), (''cleanup_mode'', JStr (rh_cleanup_mode e)), (''status'', JStr (rh_status e)),
      (''retention_days'', JInt (rh_retention_days e)),
      (''prunable_execution_count'', JInt (rh_prunable_execution_count e)),
      (''prunable_compute_job_count'', JInt (rh_prunable_compute_job_count e)),
      (''prunable_async_result_count'', JInt (rh_prunable_async_result_count e)),
      (''prunable_lineage_record_count'', JInt (rh_prunable_lineage_record_count e)),
      (''prunable_lineage_artifact_count'', JInt (rh_prunable_lineage_artifact_count e)),
      (''tenant_id'', json_opt (rh_tenant_id e)), (''correlation_id'', json_opt (rh_correlation_id e))]"

definition drill_fields :: "drill_entry \<Rightarrow> json_dict" where
  "drill_fields e =
     [(''evidence_file_name'', JStr (dh_evidence_file_name e)), (''generated_at_utc'', JStr (dh_generated_at_utc e)),
      (''operator_id'', JStr (dh_operator_id e)), (''backup_identifier'', JStr (dh_backup_identifier e)),
      (''status'', JStr (dh_status e)), (''tenant_id'', json_opt (dh_tenant_id e)),
      (''correlation_id'', json_opt (dh_correlation_id e))]"

definition RUNTIME_RETENTION_REQUIRED_STRING_FIELDS :: "string list" where
  "RUNTIME_RETENTION_REQUIRED_STRING_FIELDS =
     [''cleanup_name'', ''generated_at_utc'', ''evidence_file_name'', ''operator_id'', ''trigger_mode'', ''cleanup_mode'',
      ''status'', ''cutoff_utc'']"

definition RUNTIME_RETENTION_OPTIONAL_STRING_FIELDS :: "string list" where
  "RUNTIME_RETENTION_OPTIONAL_STRING_FIELDS = [''tenant_id'', ''correlation_id'', ''job_id'']"

definition RUNTIME_RETENTION_REQUIRED_IDENTITY_FIELDS :: "string list" where
  "RUNTIME_RETENTION_REQUIRED_IDENTITY_FIELDS =
     [''evidence_file_name'', ''generated_at_utc'', ''operator_id'', ''trigger_mode'', ''cleanup_mode'', ''status'']"

definition RUNTIME_RETENTION_OPTIONAL_IDENTITY_FIELDS :: "string list" where
  "RUNTIME_RETENTION_OPTIONAL_IDENTITY_FIELDS = [''tenant_id'', ''correlation_id'', ''job_id'']"

definition RUNTIME_RETENTION_REQUIRED_INT_FIELDS :: "string list" where
  "RUNTIME_RETENTION_REQUIRED_INT_FIELDS =
     [''retention_days'', ''prunable_execution_count'', ''prunable_compute_job_count'', ''prunable_async_result_count'',
      ''prunable_lineage_record_count'', ''prunable_lineage_artifact_count'']"

definition RECOVERY_DRILL_REQUIRED_STRING_FIELDS :: "string list" where
  "RECOVERY_DRILL_REQUIRED_STRING_FIELDS =
     [''drill_name'', ''generated_at_utc'', ''evidence_file_name'', ''operator_id'', ''backup_identifier'', ''status'',
      ''database_path'', ''restored_schema_mode'', ''compute_async_result_status'', ''compute_execution_status'',
      ''materialized_artifact_path'']"

definition RECOVERY_DRILL_OPTIONAL_STRING_FIELDS :: "string list" where
  "RECOVERY_DRILL_OPTIONAL_STRING_FIELDS = [''tenant_id'', ''correlation_id'']"

definition RECOVERY_DRILL_REQUIRED_INT_FIELDS :: "string list" where
  "RECOVERY_DRILL_REQUIRED_INT_FIELDS = [''compute_job_processed_count'', ''processed_payload_count'']"

definition RECOVERY_DRILL_REQUIRED_BOOL_FIELDS :: "string list" where
  "RECOVERY_DRILL_REQUIRED_BOOL_FIELDS = [''materialized_artifact_exists'']"

definition RECOVERY_DRILL_REQUIRED_IDENTITY_FIELDS :: "string list" where
  "RECOVERY_DRILL_REQUIRED_IDENTITY_FIELDS =
     [''evidence_file_name'', ''generated_at_utc'', ''operator_id'', ''backup_identifier'', ''status'']"

definition RECOVERY_DRILL_OPTIONAL_IDENTITY_FIELDS :: "string list" where
  "RECOVERY_DRILL_OPTIONAL_IDENTITY_FIELDS = [''tenant_id'', ''correlation_id'']"

text \<open>A required field is one that the shape of the payload already asks for, so that it is present.\<close>

definition payload_entry_required_fields_match :: "json_dict \<Rightarrow> json_dict \<Rightarrow> string list \<Rightarrow> bool" where
  "payload_entry_required_fields_match payload entry field_names =
     list_all (\<lambda>field_name. dict_get payload field_name = dict_get entry field_name) field_names"

definition payload_entry_optional_fields_match :: "json_dict \<Rightarrow> json_dict \<Rightarrow> string list \<Rightarrow> bool" where
  "payload_entry_optional_fields_match payload entry field_names =
     list_all (\<lambda>field_name. payload_get payload field_name = payload_get entry field_name) field_names"

definition runtime_retention_payload_has_required_shape :: "json_dict \<Rightarrow> bool" where
  "runtime_retention_payload_has_required_shape payload \<longleftrightarrow>
     required_evidence_string_fields_present payload RUNTIME_RETENTION_REQUIRED_STRING_FIELDS
     \<and> optional_evidence_string_fields_valid payload RUNTIME_RETENTION_OPTIONAL_STRING_FIELDS
     \<and> required_evidence_int_fields_present payload RUNTIME_RETENTION_REQUIRED_INT_FIELDS"

definition runtime_retention_payload_identity_matches :: "json_dict \<Rightarrow> retention_entry \<Rightarrow> bool" where
  "runtime_retention_payload_identity_matches payload entry \<longleftrightarrow>
     payload_entry_required_fields_match payload (retention_fields entry) RUNTIME_RETENTION_REQUIRED_IDENTITY_FIELDS
     \<and> payload_entry_optional_fields_match payload (retention_fields entry) RUNTIME_RETENTION_OPTIONAL_IDENTITY_FIELDS"

definition runtime_retention_payload_counts_match :: "json_dict \<Rightarrow> retention_entry \<Rightarrow> bool" where
  "runtime_retention_payload_counts_match payload entry =
     payload_entry_required_fields_match payload (retention_fields entry) RUNTIME_RETENTION_REQUIRED_INT_FIELDS"

definition runtime_retention_payload_matches_entry :: "json_dict \<Rightarrow> retention_entry \<Rightarrow> bool" where
  "runtime_retention_payload_matches_entry payload entry \<longleftrightarrow>
     runtime_retention_payload_has_required_shape payload \<and> runtime_retention_payload_identity_matches payload entry
     \<and> runtime_retention_payload_counts_match payload entry"

definition recovery_drill_payload_has_required_shape :: "json_dict \<Rightarrow> bool" where
  "recovery_drill_payload_has_required_shape payload \<longleftrightarrow>
     required_evidence_string_fields_present payload RECOVERY_DRILL_REQUIRED_STRING_FIELDS
     \<and> optional_evidence_string_fields_valid payload RECOVERY_DRILL_OPTIONAL_STRING_FIELDS
     \<and> required_evidence_int_fields_present payload RECOVERY_DRILL_REQUIRED_INT_FIELDS
     \<and> is_required_evidence_string_list (payload_get payload ''owned_tables_present'')
     \<and> required_evidence_bool_fields_present payload RECOVERY_DRILL_REQUIRED_BOOL_FIELDS"

definition recovery_drill_payload_identity_matches :: "json_dict \<Rightarrow> drill_entry \<Rightarrow> bool" where
  "recovery_drill_payload_identity_matches payload entry \<longleftrightarrow>
     payload_entry_required_fields_match payload (drill_fields entry) RECOVERY_DRILL_REQUIRED_IDENTITY_FIELDS
     \<and> payload_entry_optional_fields_match payload (drill_fields entry) RECOVERY_DRILL_OPTIONAL_IDENTITY_FIELDS"

definition recovery_drill_payload_matches_entry :: "json_dict \<Rightarrow> drill_entry \<Rightarrow> bool" where
  "recovery_drill_payload_matches_entry payload entry \<longleftrightarrow>
     recovery_drill_payload_has_required_shape payload \<and> recovery_drill_payload_identity_matches payload entry"

definition runtime_retention_request_filters_match :: "retention_entry \<Rightarrow> bool \<Rightarrow> int option \<Rightarrow> string option \<Rightarrow> bool" where
  "runtime_retention_request_filters_match entry is_apply retention_days job_id \<longleftrightarrow>
     rh_cleanup_mode entry = cleanup_mode_of is_apply
     \<and> (case retention_days of None \<Rightarrow> True | Some n \<Rightarrow> rh_retention_days entry = n)
     \<and> optional_identity_matches (rh_job_id entry) job_id"

definition runtime_retention_entry_matches :: "retention_entry \<Rightarrow> retention_request \<Rightarrow> string \<Rightarrow> bool" where
  "runtime_retention_entry_matches entry request correlation \<longleftrightarrow>
     rh_status entry = (if rq_apply request then ''applied'' else ''planned'')
     \<and> operator_action_correlation_matches (retention_actor entry) (rh_correlation_id entry)
         (rq_operator_id request) (rq_tenant_id request) correlation
     \<and> runtime_retention_request_filters_match entry (rq_apply request) (rq_retention_days request) (rq_job_id request)"

definition runtime_retention_replay_from_entry :: "artifact_directory \<Rightarrow> retention_entry \<Rightarrow> action_replay_result option" where
  "runtime_retention_replay_from_entry artifacts entry =
     (case load_payload artifacts (rh_evidence_file_name entry) of
        None \<Rightarrow> None
      | Some payload \<Rightarrow>
          if runtime_retention_payload_matches_entry payload entry
          then Some \<lparr>ap_payload = payload, ap_evidence_file_name = rh_evidence_file_name entry\<rparr> else None)"

text \<open>Only the latest entry that matches is tried.\<close>

definition resolve_runtime_retention_manual_replay ::
    "artifact_directory \<Rightarrow> retention_entry list \<Rightarrow> retention_request \<Rightarrow> action_replay_result option" where
  "resolve_runtime_retention_manual_replay artifacts entries request =
     (case rq_correlation_id request of
        None \<Rightarrow> None
      | Some correlation \<Rightarrow>
          if correlation = [] then None
          else case find (\<lambda>e. runtime_retention_entry_matches e request correlation) entries of
            None \<Rightarrow> None
          | Some entry \<Rightarrow> runtime_retention_replay_from_entry artifacts entry)"

definition recovery_drill_entry_matches ::
    "drill_entry \<Rightarrow> string \<Rightarrow> string option \<Rightarrow> string \<Rightarrow> string \<Rightarrow> bool" where
  "recovery_drill_entry_matches entry operator tenant correlation backup_identifier \<longleftrightarrow>
     operator_action_correlation_matches (drill_actor entry) (dh_correlation_id entry) operator tenant correlation
     \<and> required_identity_matches (dh_backup_identifier entry) backup_identifier"

definition recovery_drill_replay_from_entry :: "artifact_directory \<Rightarrow> drill_entry \<Rightarrow> action_replay_result option" where
  "recovery_drill_replay_from_entry artifacts entry =
     (case load_payload artifacts (dh_evidence_file_name entry) of
        None \<Rightarrow> None
      | Some payload \<Rightarrow>
          if recovery_drill_payload_matches_entry payload entry
          then Some \<lparr>ap_payload = payload, ap_evidence_file_name = dh_evidence_file_name entry\<rparr> else None)"

definition resolve_recovery_drill_manual_replay ::
    "artifact_directory \<Rightarrow> drill_entry list \<Rightarrow> string \<Rightarrow> string option \<Rightarrow> string option \<Rightarrow> string
      \<Rightarrow> action_replay_result option" where
  "resolve_recovery_drill_manual_replay artifacts entries operator tenant correlation_id backup_identifier =
     (case correlation_id of
        None \<Rightarrow> None
      | Some correlation \<Rightarrow>
          if correlation = [] then None
          else case find (\<lambda>e. recovery_drill_entry_matches e operator tenant correlation backup_identifier) entries of
            None \<Rightarrow> None
          | Some entry \<Rightarrow> recovery_drill_replay_from_entry artifacts entry)"

end
