(* ===== verification/Operator_Leases.thy ===== *)
theory Operator_Leases
  imports Operator_Evidence
begin

text \<open>
  The file lock of a governed operator action (src/app/services/operator_action_lease_service.py). The lock
  directory is a dictionary from file names to files. A file remembers which attempt created it, because a
  process that still has it open writes to that file and not to another one under the same name. An
  attempt is a process between two file operations; \<open>attempt_step\<close> does the next file operation of one
  attempt, so that a run of the system interleaves the attempts in any way. Texts are valid UTF-8.
\<close>

section \<open>Files and metadata\<close>

type_synonym attempt = nat
type_synonym lock_dir = "(string \<times> attempt \<times> json_text) list"

definition file_text :: "lock_dir \<Rightarrow> string \<Rightarrow> json_text option" where
  "file_text dir name = map_option snd (map_of dir name)"

text \<open>\<open>os.open\<close> with \<open>O_CREAT | O_EXCL\<close>: an empty file, unless the name exists.\<close>

definition create_exclusive :: "attempt \<Rightarrow> string \<Rightarrow> lock_dir \<Rightarrow> lock_dir option" where
  "create_exclusive me name dir =
     (if map_of dir name = None then Some (dict_put dir name (me, Malformed [])) else None)"

text \<open>The write of the file that this attempt has open; it may have lost its name.\<close>

definition write_opened :: "attempt \<Rightarrow> string \<Rightarrow> json_text \<Rightarrow> lock_dir \<Rightarrow> lock_dir" where
  "write_opened me name text dir =
     (case map_of dir name of
        None \<Rightarrow> dir
      | Some (creator, _) \<Rightarrow> if creator = me then dict_put dir name (me, text) else dir)"

definition unlink_file :: "string \<Rightarrow> lock_dir \<Rightarrow> lock_dir" where
  "unlink_file name dir = filter (\<lambda>(n, _). n \<noteq> name) dir"

text \<open>\<open>fromisoformat\<close>, and the literal of a float and its value.\<close>

record lease_runtime =
  lr_fromisoformat :: "string \<Rightarrow> datetime option"
  lr_float_literal :: "rat \<Rightarrow> string"
  lr_float_value :: "string \<Rightarrow> rat"

record lease_metadata =
  lm_action_name :: string
  lm_operator_id :: string
  lm_tenant_id :: "string option"
  lm_governed_target :: string
  lm_acquired_at_utc :: string

record active_lease =
  al_action_key :: string
  al_action_name :: string
  al_operator_id :: string
  al_tenant_id :: "string option"
  al_governed_target :: string
  al_acquired_at_utc :: string

record reclaimed_event =
  rv_action_key :: string
  rv_action_name :: string
  rv_operator_id :: string
  rv_tenant_id :: "string option"
  rv_governed_target :: string
  rv_acquired_at_utc :: string
  rv_reclaimed_at_utc :: string
  rv_stale_after_seconds :: rat
  rv_reclaim_count :: int

definition is_alphanumeric :: "char \<Rightarrow> bool" where
  "is_alphanumeric c \<longleftrightarrow> (let n = (of_char c :: nat) in
     (48 \<le> n \<and> n \<le> 57) \<or> (65 \<le> n \<and> n \<le> 90) \<or> (97 \<le> n \<and> n \<le> 122))"

text \<open>
  \<open>re.sub(r"[^0-9A-Za-z]+", "-", part).strip("-").lower()\<close>: the runs of letters and digits, joined with
  dashes; \<open>alphanumeric_runs\<close> collects them, the first in its argument.
\<close>

fun alphanumeric_runs :: "string \<Rightarrow> string \<Rightarrow> string list" where
  "alphanumeric_runs run [] = (if run = [] then [] else [run])"
| "alphanumeric_runs run (c # cs) =
     (if is_alphanumeric c then alphanumeric_runs (run @ [c]) cs
      else (if run = [] then [] else [run]) @ alphanumeric_runs [] cs)"

definition sanitize_key :: "string list \<Rightarrow> string" where
  "sanitize_key parts =
     (let sanitized = List.map (\<lambda>part. lower (join_with ''-'' (alphanumeric_runs [] part))) parts
      in join_with ''-'' (filter (\<lambda>part. part \<noteq> []) sanitized))"

definition build_runtime_retention_action_key ::
    "string \<Rightarrow> string option \<Rightarrow> bool \<Rightarrow> int \<Rightarrow> string option \<Rightarrow> operator_error + string" where
  "build_runtime_retention_action_key operator tenant is_apply retention_days job_id =
     bind_res (normalize_required_evidence_identifier operator ''operator_id'') (\<lambda>normalized_operator.
       Inr (sanitize_key [''runtime-retention'', normalized_operator,
         (case normalize_optional_evidence_identifier tenant of None \<Rightarrow> ''no-tenant'' | Some t \<Rightarrow> t),
         (if is_apply then ''apply'' else ''dry-run''), int_text retention_days,
         (case normalize_optional_evidence_identifier job_id of None \<Rightarrow> ''no-job'' | Some j \<Rightarrow> j)]))"

definition build_recovery_drill_action_key :: "string \<Rightarrow> string option \<Rightarrow> string \<Rightarrow> operator_error + string" where
  "build_recovery_drill_action_key operator tenant backup_identifier =
     bind_res (normalize_required_evidence_identifier operator ''operator_id'') (\<lambda>normalized_operator.
     bind_res (normalize_required_evidence_identifier backup_identifier ''backup_identifier'') (\<lambda>normalized_backup.
       Inr (sanitize_key [''recovery-drill'', normalized_operator,
         (case normalize_optional_evidence_identifier tenant of None \<Rightarrow> ''no-tenant'' | Some t \<Rightarrow> t), normalized_backup])))"

definition normalize_lease_metadata :: "lease_runtime \<Rightarrow> lease_metadata \<Rightarrow> operator_error + lease_metadata" where
  "normalize_lease_metadata rt m =
     bind_res (normalize_required_evidence_identifier (lm_acquired_at_utc m) ''acquired_at_utc'') (\<lambda>acquired.
     bind_res (parse_utc_datetime (lr_fromisoformat rt) acquired) (\<lambda>_.
     bind_res (normalize_required_evidence_identifier (lm_action_name m) ''action_name'') (\<lambda>action.
     bind_res (normalize_required_evidence_identifier (lm_operator_id m) ''operator_id'') (\<lambda>operator.
     bind_res (normalize_required_evidence_identifier (lm_governed_target m) ''governed_target'') (\<lambda>target.
       Inr \<lparr>lm_action_name = action, lm_operator_id = operator,
            lm_tenant_id = normalize_optional_evidence_identifier (lm_tenant_id m),
            lm_governed_target = target, lm_acquired_at_utc = acquired\<rparr>)))))"

text \<open>The payload of a lock: the metadata and a token of its own.\<close>

definition lock_payload_of :: "lease_metadata \<Rightarrow> string \<Rightarrow> json_dict" where
  "lock_payload_of m token =
     [(''action_name'', JStr (lm_action_name m)), (''operator_id'', JStr (lm_operator_id m)),
      (''tenant_id'', json_opt (lm_tenant_id m)), (''governed_target'', JStr (lm_governed_target m)),
      (''acquired_at_utc'', JStr (lm_acquired_at_utc m)), (''lease_token'', JStr token)]"

section \<open>Reading locks\<close>

text \<open>A file that is missing or does not parse is an invalid lease; \<open>None\<close> stands for it.\<close>

definition read_json_payload :: "json_text option \<Rightarrow> json option" where
  "read_json_payload content = (case content of None \<Rightarrow> None | Some text \<Rightarrow> json_loads text)"

definition active_lease_payload_fields :: "lease_runtime \<Rightarrow> json_dict \<Rightarrow> lease_metadata option" where
  "active_lease_payload_fields rt payload =
     (case (payload_get payload ''action_name'', payload_get payload ''operator_id'',
            payload_get payload ''governed_target'', payload_get payload ''acquired_at_utc'') of
        (JStr action, JStr operator, JStr target, JStr acquired) \<Rightarrow>
          if strip action = [] \<or> strip operator = [] \<or> strip target = [] \<or> strip acquired = [] then None
          else if \<not> is_optional_evidence_string (payload_get payload ''tenant_id'') then None
          else (case parse_utc_datetime (lr_fromisoformat rt) acquired of
                  Inl _ \<Rightarrow> None
                | Inr _ \<Rightarrow> Some \<lparr>lm_action_name = action, lm_operator_id = operator,
                    lm_tenant_id = (case payload_get payload ''tenant_id'' of JStr t \<Rightarrow> Some t | _ \<Rightarrow> None),
                    lm_governed_target = target, lm_acquired_at_utc = acquired\<rparr>)
      | _ \<Rightarrow> None)"

definition read_active_operator_action_lease :: "lease_runtime \<Rightarrow> string \<Rightarrow> json_text option \<Rightarrow> active_lease option" where
  "read_active_operator_action_lease rt action_key content =
     (case read_json_payload content of
        Some (JObj payload) \<Rightarrow>
          map_option (\<lambda>m. \<lparr>al_action_key = action_key, al_action_name = lm_action_name m,
              al_operator_id = lm_operator_id m, al_tenant_id = lm_tenant_id m,
              al_governed_target = lm_governed_target m, al_acquired_at_utc = lm_acquired_at_utc m\<rparr>)
            (active_lease_payload_fields rt payload)
      | _ \<Rightarrow> None)"

text \<open>Python compares dictionaries without their order. A lock holds texts and nulls.\<close>

definition lock_payload_matches :: "json_text option \<Rightarrow> json_dict \<Rightarrow> bool" where
  "lock_payload_matches content expected_payload =
     (case read_json_payload content of
        Some (JObj payload) \<Rightarrow> sort_keys (JObj payload) = sort_keys (JObj expected_payload)
      | _ \<Rightarrow> False)"

text \<open>
  The lock is removed by name when the content that was read before matches. What is removed may be
  another file by then.
\<close>

definition release_lock_if_owned :: "string \<Rightarrow> json_dict \<Rightarrow> json_text option \<Rightarrow> lock_dir \<Rightarrow> bool \<times> lock_dir" where
  "release_lock_if_owned name expected_payload content_read dir =
     (if lock_payload_matches content_read expected_payload then (True, unlink_file name dir) else (False, dir))"

record reclaim_candidate =
  rc_active_lease :: active_lease
  rc_lock_payload :: json_dict
  rc_current_time :: datetime

text \<open>The lock is read twice, once as a payload and once as a lease.\<close>

definition stale_lock_reclaim_candidate ::
    "lease_runtime \<Rightarrow> rat \<Rightarrow> datetime \<Rightarrow> string \<Rightarrow> json_text option \<Rightarrow> json_text option \<Rightarrow> reclaim_candidate option" where
  "stale_lock_reclaim_candidate rt stale_after_seconds now_utc action_key first_read second_read =
     (if stale_after_seconds \<le> 0 then None
      else case read_json_payload first_read of
        Some (JObj payload) \<Rightarrow>
          (case read_active_operator_action_lease rt action_key second_read of
             None \<Rightarrow> None
           | Some lease \<Rightarrow>
               (case parse_utc_datetime (lr_fromisoformat rt) (al_acquired_at_utc lease) of
                  Inl _ \<Rightarrow> None
                | Inr acquired_at \<Rightarrow>
                    if elapsed_seconds_since now_utc acquired_at \<le> stale_after_seconds then None
                    else Some \<lparr>rc_active_lease = lease, rc_lock_payload = payload, rc_current_time = now_utc\<rparr>))
      | _ \<Rightarrow> None)"

section \<open>Evidence of reclaims\<close>

definition matching_reclaimed_event_action_name :: "json_dict \<Rightarrow> string option \<Rightarrow> unit + string option" where
  "matching_reclaimed_event_action_name payload action_name =
     (case payload_get payload ''action_name'' of
        JStr candidate \<Rightarrow>
          if strip candidate = [] then Inl ()
          else if action_name \<noteq> None \<and> action_name \<noteq> Some candidate then Inr None
          else Inr (Some candidate)
      | _ \<Rightarrow> Inl ())"

definition reclaim_count_value :: "json_dict \<Rightarrow> json" where
  "reclaim_count_value payload = (case dict_get payload ''reclaim_count'' of None \<Rightarrow> JInt 1 | Some j \<Rightarrow> j)"

definition has_required_reclaimed_event_strings :: "json_dict \<Rightarrow> bool" where
  "has_required_reclaimed_event_strings payload =
     list_all (\<lambda>key. is_required_evidence_string (payload_get payload key))
       [''operator_id'', ''governed_target'', ''acquired_at_utc'', ''reclaimed_at_utc'', ''action_key'']"

definition has_valid_reclaimed_event_string_fields :: "json_dict \<Rightarrow> bool" where
  "has_valid_reclaimed_event_string_fields payload \<longleftrightarrow>
     has_required_reclaimed_event_strings payload \<and> is_optional_evidence_string (payload_get payload ''tenant_id'')"

definition has_valid_reclaimed_event_fields :: "json_dict \<Rightarrow> bool" where
  "has_valid_reclaimed_event_fields payload \<longleftrightarrow>
     has_valid_reclaimed_event_string_fields payload
     \<and> is_required_evidence_number (payload_get payload ''stale_after_seconds'')
     \<and> is_required_evidence_int (reclaim_count_value payload)"

definition reclaimed_event_timestamps_valid :: "lease_runtime \<Rightarrow> string \<Rightarrow> string \<Rightarrow> bool" where
  "reclaimed_event_timestamps_valid rt acquired_at_utc reclaimed_at_utc =
     (case (parse_utc_datetime (lr_fromisoformat rt) acquired_at_utc,
            parse_utc_datetime (lr_fromisoformat rt) reclaimed_at_utc) of
        (Inr _, Inr _) \<Rightarrow> True
      | _ \<Rightarrow> False)"

text \<open>The casts of fields that were checked to be texts and numbers.\<close>

definition text_field :: "json_dict \<Rightarrow> string \<Rightarrow> string" where
  "text_field payload key = (case payload_get payload key of JStr s \<Rightarrow> s | _ \<Rightarrow> [])"

definition number_field :: "lease_runtime \<Rightarrow> json \<Rightarrow> rat" where
  "number_field rt j = (case j of JInt n \<Rightarrow> of_int n | JFloat s \<Rightarrow> lr_float_value rt s | _ \<Rightarrow> 0)"

text \<open>\<open>Inl\<close> is an invalid payload and \<open>Inr None\<close> an event of another action.\<close>

definition parse_reclaimed_event_payload ::
    "lease_runtime \<Rightarrow> json \<Rightarrow> string option \<Rightarrow> unit + reclaimed_event option" where
  "parse_reclaimed_event_payload rt payload action_name =
     (case payload of
        JObj stored \<Rightarrow>
          bind_res (matching_reclaimed_event_action_name stored action_name) (\<lambda>matching. case matching of
            None \<Rightarrow> Inr None
          | Some candidate \<Rightarrow>
              if \<not> has_valid_reclaimed_event_fields stored then Inl ()
              else if \<not> reclaimed_event_timestamps_valid rt (text_field stored ''acquired_at_utc'')
                        (text_field stored ''reclaimed_at_utc'') then Inl ()
              else Inr (Some
                \<lparr>rv_action_key = text_field stored ''action_key'', rv_action_name = candidate,
                 rv_operator_id = text_field stored ''operator_id'',
                 rv_tenant_id = (case payload_get stored ''tenant_id'' of JStr t \<Rightarrow> Some t | _ \<Rightarrow> None),
                 rv_governed_target = text_field stored ''governed_target'',
                 rv_acquired_at_utc = text_field stored ''acquired_at_utc'',
                 rv_reclaimed_at_utc = text_field stored ''reclaimed_at_utc'',
                 rv_stale_after_seconds = number_field rt (payload_get stored ''stale_after_seconds''),
                 rv_reclaim_count = (case reclaim_count_value stored of JInt n \<Rightarrow> n | _ \<Rightarrow> 1)\<rparr>))
      | _ \<Rightarrow> Inl ())"

text \<open>\<open>asdict\<close> of an event.\<close>

definition event_payload :: "lease_runtime \<Rightarrow> reclaimed_event \<Rightarrow> json" where
  "event_payload rt e = JObj
     [(''action_key'', JStr (rv_action_key e)), (''action_name'', JStr (rv_action_name e)),
      (''operator_id'', JStr (rv_operator_id e)), (''tenant_id'', json_opt (rv_tenant_id e)),
      (''governed_target'', JStr (rv_governed_target e)), (''acquired_at_utc'', JStr (rv_acquired_at_utc e)),
      (''reclaimed_at_utc'', JStr (rv_reclaimed_at_utc e)),
      (''stale_after_seconds'', JFloat (lr_float_literal rt (rv_stale_after_seconds e))),
      (''reclaim_count'', JInt (rv_reclaim_count e))]"

definition LATEST_RECLAIM :: string where "LATEST_RECLAIM = ''latest-reclaim.json''"
definition RECLAIM_HISTORY :: string where "RECLAIM_HISTORY = ''reclaim-history.json''"
definition RECLAIM_HISTORY_LIMIT :: nat where "RECLAIM_HISTORY_LIMIT = 20"

definition read_latest_reclaimed_lease :: "lease_runtime \<Rightarrow> lock_dir \<Rightarrow> string option \<Rightarrow> unit + reclaimed_event option" where
  "read_latest_reclaimed_lease rt dir action_name =
     (case file_text dir LATEST_RECLAIM of
        None \<Rightarrow> Inr None
      | Some text \<Rightarrow>
          (case read_json_payload (Some text) of
             None \<Rightarrow> Inl ()
           | Some payload \<Rightarrow> parse_reclaimed_event_payload rt payload action_name))"

fun reclaimed_events_of :: "lease_runtime \<Rightarrow> string option \<Rightarrow> json list \<Rightarrow> unit + reclaimed_event list" where
  "reclaimed_events_of rt action_name [] = Inr []"
| "reclaimed_events_of rt action_name (item # items) =
     bind_res (parse_reclaimed_event_payload rt item action_name) (\<lambda>event.
     bind_res (reclaimed_events_of rt action_name items) (\<lambda>events.
       Inr (case event of None \<Rightarrow> events | Some e \<Rightarrow> e # events)))"

definition recent_reclaimed_lease_events_from_payload ::
    "lease_runtime \<Rightarrow> json \<Rightarrow> string option \<Rightarrow> unit + reclaimed_event list" where
  "recent_reclaimed_lease_events_from_payload rt payload action_name =
     (case payload of JList items \<Rightarrow> reclaimed_events_of rt action_name items | _ \<Rightarrow> Inl ())"

definition read_recent_reclaimed_leases :: "lease_runtime \<Rightarrow> lock_dir \<Rightarrow> string option \<Rightarrow> unit + reclaimed_event list" where
  "read_recent_reclaimed_leases rt dir action_name =
     (case file_text dir RECLAIM_HISTORY of
        None \<Rightarrow> Inr []
      | Some text \<Rightarrow>
          (case read_json_payload (Some text) of
             None \<Rightarrow> Inl ()
           | Some payload \<Rightarrow> recent_reclaimed_lease_events_from_payload rt payload action_name))"

text \<open>\<open>os.replace\<close> of a temporary file: the name has the new file at once.\<close>

definition replace_file :: "attempt \<Rightarrow> string \<Rightarrow> json \<Rightarrow> lock_dir \<Rightarrow> lock_dir" where
  "replace_file me name payload dir = dict_put dir name (me, Doc payload)"

definition write_reclaim_history :: "lease_runtime \<Rightarrow> attempt \<Rightarrow> reclaimed_event \<Rightarrow> lock_dir \<Rightarrow> lock_dir" where
  "write_reclaim_history rt me event dir =
     (let persisted_history = event # (case read_recent_reclaimed_leases rt dir None of Inl _ \<Rightarrow> [] | Inr prior \<Rightarrow> prior)
      in replace_file me RECLAIM_HISTORY
           (JList (List.map (event_payload rt) (take RECLAIM_HISTORY_LIMIT persisted_history))) dir)"

definition write_latest_reclaimed_lease :: "lease_runtime \<Rightarrow> attempt \<Rightarrow> reclaimed_event \<Rightarrow> lock_dir \<Rightarrow> lock_dir" where
  "write_latest_reclaimed_lease rt me event dir =
     (let prior_count = (case read_latest_reclaimed_lease rt dir (Some (rv_action_name event)) of
            Inr (Some existing) \<Rightarrow> rv_reclaim_count existing | _ \<Rightarrow> 0);
          updated_event = event\<lparr>rv_reclaim_count := prior_count + 1\<rparr>
      in write_reclaim_history rt me updated_event
           (replace_file me LATEST_RECLAIM (event_payload rt updated_event) dir))"

section \<open>The snapshot of the leases\<close>

record lease_snapshot =
  ls_status :: string
  ls_reason :: "string option"
  ls_active_leases :: "active_lease list"
  ls_latest_reclaimed_lease :: "reclaimed_event option"
  ls_recent_reclaimed_leases :: "reclaimed_event list"

definition available_operator_action_lease_snapshot ::
    "active_lease list \<Rightarrow> reclaimed_event option \<Rightarrow> reclaimed_event list \<Rightarrow> lease_snapshot" where
  "available_operator_action_lease_snapshot active latest recent =
     \<lparr>ls_status = ''available'', ls_reason = None, ls_active_leases = active,
      ls_latest_reclaimed_lease = latest, ls_recent_reclaimed_leases = recent\<rparr>"

definition unavailable_operator_action_lease_snapshot :: "string \<Rightarrow> lease_snapshot" where
  "unavailable_operator_action_lease_snapshot reason =
     \<lparr>ls_status = ''unavailable'', ls_reason = Some reason, ls_active_leases = [],
      ls_latest_reclaimed_lease = None, ls_recent_reclaimed_leases = []\<rparr>"

definition lock_name :: "string \<Rightarrow> string" where
  "lock_name action_key = action_key @ ''.lock''"

definition is_lock_name :: "string \<Rightarrow> bool" where
  "is_lock_name name \<longleftrightarrow> 5 \<le> length name \<and> drop (length name - 5) name = ''.lock''"

text \<open>\<open>Path.stem\<close> of a name that ends in \<open>.lock\<close>.\<close>

definition lock_stem :: "string \<Rightarrow> string" where
  "lock_stem name = (if name = ''.lock'' then name else take (length name - 5) name)"

definition matching_active_operator_action_lease ::
    "active_lease option \<Rightarrow> string option \<Rightarrow> string + active_lease option" where
  "matching_active_operator_action_lease lease_candidate action_name =
     (case lease_candidate of
        None \<Rightarrow> Inl ''operator_action_lease_invalid''
      | Some lease \<Rightarrow>
          if action_name \<noteq> None \<and> action_name \<noteq> Some (al_action_name lease) then Inr None else Inr (Some lease))"

fun matching_leases :: "lease_runtime \<Rightarrow> lock_dir \<Rightarrow> string option \<Rightarrow> string list \<Rightarrow> string + active_lease list" where
  "matching_leases rt dir action_name [] = Inr []"
| "matching_leases rt dir action_name (name # names) =
     bind_res (matching_active_operator_action_lease
                 (read_active_operator_action_lease rt (lock_stem name) (file_text dir name)) action_name) (\<lambda>lease.
     bind_res (matching_leases rt dir action_name names) (\<lambda>leases.
       Inr (case lease of None \<Rightarrow> leases | Some l \<Rightarrow> l # leases)))"

text \<open>\<open>listable\<close> is false when the directory cannot be read.\<close>

definition read_matching_active_operator_action_leases ::
    "lease_runtime \<Rightarrow> bool \<Rightarrow> lock_dir \<Rightarrow> string option \<Rightarrow> string + active_lease list" where
  "read_matching_active_operator_action_leases rt listable dir action_name =
     (if listable then matching_leases rt dir action_name (sort (filter is_lock_name (List.map fst dir)))
      else Inl ''operator_action_lease_directory_unreadable'')"

definition read_reclaimed_lease_snapshot_events ::
    "lease_runtime \<Rightarrow> lock_dir \<Rightarrow> string option \<Rightarrow> string + reclaimed_event option \<times> reclaimed_event list" where
  "read_reclaimed_lease_snapshot_events rt dir action_name =
     (case read_latest_reclaimed_lease rt dir action_name of
        Inl _ \<Rightarrow> Inl ''operator_action_reclaim_event_invalid''
      | Inr latest \<Rightarrow>
          (case read_recent_reclaimed_leases rt dir action_name of
             Inl _ \<Rightarrow> Inl ''operator_action_reclaim_history_invalid''
           | Inr recent \<Rightarrow> Inr (latest, recent)))"

definition acquired_instant :: "lease_runtime \<Rightarrow> active_lease \<Rightarrow> instant" where
  "acquired_instant rt l =
     (case parse_utc_datetime (lr_fromisoformat rt) (al_acquired_at_utc l) of Inl _ \<Rightarrow> 0 | Inr d \<Rightarrow> instant_of d)"

text \<open>\<open>None\<close> is a directory that does not exist yet.\<close>

definition build_operator_action_lease_snapshot ::
    "lease_runtime \<Rightarrow> bool \<Rightarrow> lock_dir option \<Rightarrow> string option \<Rightarrow> lease_snapshot" where
  "build_operator_action_lease_snapshot rt listable locks_dir action_name =
     (case locks_dir of
        None \<Rightarrow> available_operator_action_lease_snapshot [] None []
      | Some dir \<Rightarrow>
          (case read_matching_active_operator_action_leases rt listable dir action_name of
             Inl reason \<Rightarrow> unavailable_operator_action_lease_snapshot reason
           | Inr leases \<Rightarrow>
               (case read_reclaimed_lease_snapshot_events rt dir action_name of
                  Inl reason \<Rightarrow> unavailable_operator_action_lease_snapshot reason
                | Inr (latest, recent) \<Rightarrow>
                    available_operator_action_lease_snapshot (sort_key (acquired_instant rt) leases) latest recent)))"

section \<open>An attempt, one file operation at a time\<close>

record lease_request =
  lq_action_key :: string
  lq_metadata :: lease_metadata
  lq_token :: string
  lq_stale_after_seconds :: rat

text \<open>
  Where an attempt is: before it opens the lock, for the first time or again after a reclaim; with a lock in
  its way, read not at all or once; with an overdue lock that is still to be compared, that was compared, and
  that was removed; with a lock file of its own, empty or written; on its way out, its lock compared; and
  done, having held the lock or having been refused.
\<close>

datatype lease_place =
    Opening bool
  | Blocked
  | ReadOnce "json_text option"
  | Overdue reclaim_candidate
  | Compared reclaim_candidate "json_text option"
  | Removed reclaim_candidate
  | Created
  | Holding
  | Leaving "json_text option"
  | Done
  | RefusedLease operator_error

definition operator_action_already_running ::
    "lease_runtime \<Rightarrow> string \<Rightarrow> string \<Rightarrow> json_text option \<Rightarrow> operator_error" where
  "operator_action_already_running rt action_key action_name content =
     action_conflict
       ([(''code'', JStr (action_name @ ''_already_running'')),
         (''message'', JStr (''A governed '' @ action_name @ '' for this same risk unit is already running. ''
            @ ''Wait for the active action to complete before retrying.'')),
         (''action_key'', JStr action_key)]
        @ (case read_active_operator_action_lease rt action_key content of
             None \<Rightarrow> []
           | Some l \<Rightarrow> [(''active_operator_id'', JStr (al_operator_id l)), (''active_tenant_id'', json_opt (al_tenant_id l)),
               (''governed_target'', JStr (al_governed_target l)), (''active_acquired_at_utc'', JStr (al_acquired_at_utc l))]))"

definition reclaimed_event_of :: "lease_request \<Rightarrow> reclaim_candidate \<Rightarrow> reclaimed_event" where
  "reclaimed_event_of req c =
     (let l = rc_active_lease c in
      \<lparr>rv_action_key = lq_action_key req, rv_action_name = al_action_name l, rv_operator_id = al_operator_id l,
       rv_tenant_id = al_tenant_id l, rv_governed_target = al_governed_target l,
       rv_acquired_at_utc = al_acquired_at_utc l,
       rv_reclaimed_at_utc = (case format_timestamp (Some (rc_current_time c)) of None \<Rightarrow> [] | Some t \<Rightarrow> t),
       rv_stale_after_seconds = lq_stale_after_seconds req, rv_reclaim_count = 0\<rparr>)"

definition payload_of :: "lease_request \<Rightarrow> json_dict" where
  "payload_of req = lock_payload_of (lq_metadata req) (lq_token req)"

text \<open>
  The next file operation of attempt \<open>me\<close> at time \<open>now\<close>. \<open>writable\<close> is false when a write fails: the
  evidence of a reclaim is then lost, and an attempt that cannot write its payload leaves. What the caller
  does under the lease is the step from \<open>Holding\<close>.
\<close>

fun attempt_step ::
    "lease_runtime \<Rightarrow> lease_request \<Rightarrow> attempt \<Rightarrow> datetime \<Rightarrow> bool \<Rightarrow> lease_place \<Rightarrow> lock_dir \<Rightarrow> lease_place \<times> lock_dir" where
  "attempt_step rt req me now writable (Opening again) dir =
     (case create_exclusive me (lock_name (lq_action_key req)) dir of
        Some dir' \<Rightarrow> (Created, dir')
      | None \<Rightarrow>
          if again then (RefusedLease (operator_action_already_running rt (lq_action_key req) (lm_action_name (lq_metadata req))
                           (file_text dir (lock_name (lq_action_key req)))), dir)
          else (Blocked, dir))"
| "attempt_step rt req me now writable Blocked dir = (ReadOnce (file_text dir (lock_name (lq_action_key req))), dir)"
| "attempt_step rt req me now writable (ReadOnce first_read) dir =
     (case stale_lock_reclaim_candidate rt (lq_stale_after_seconds req) now (lq_action_key req) first_read
             (file_text dir (lock_name (lq_action_key req))) of
        None \<Rightarrow> (RefusedLease (operator_action_already_running rt (lq_action_key req) (lm_action_name (lq_metadata req))
                   (file_text dir (lock_name (lq_action_key req)))), dir)
      | Some c \<Rightarrow> (Overdue c, dir))"
| "attempt_step rt req me now writable (Overdue c) dir = (Compared c (file_text dir (lock_name (lq_action_key req))), dir)"
| "attempt_step rt req me now writable (Compared c content) dir =
     (case release_lock_if_owned (lock_name (lq_action_key req)) (rc_lock_payload c) content dir of
        (True, dir') \<Rightarrow> (Removed c, dir')
      | (False, dir') \<Rightarrow> (RefusedLease (operator_action_already_running rt (lq_action_key req)
            (lm_action_name (lq_metadata req)) (file_text dir' (lock_name (lq_action_key req)))), dir'))"
| "attempt_step rt req me now writable (Removed c) dir =
     (Opening True, if writable then write_latest_reclaimed_lease rt me (reclaimed_event_of req c) dir else dir)"
| "attempt_step rt req me now writable Created dir =
     (if writable
      then (Holding, write_opened me (lock_name (lq_action_key req)) (Doc (JObj (payload_of req))) dir)
      else (Leaving (file_text dir (lock_name (lq_action_key req))), dir))"
| "attempt_step rt req me now writable Holding dir = (Leaving (file_text dir (lock_name (lq_action_key req))), dir)"
| "attempt_step rt req me now writable (Leaving content) dir =
     (Done, snd (release_lock_if_owned (lock_name (lq_action_key req)) (payload_of req) content dir))"
| "attempt_step rt req me now writable Done dir = (Done, dir)"
| "attempt_step rt req me now writable (RefusedLease e) dir = (RefusedLease e, dir)"

text \<open>The entry: the arguments are normalised before the first file operation.\<close>

definition operator_action_lease ::
    "lease_runtime \<Rightarrow> string \<Rightarrow> lease_metadata \<Rightarrow> string \<Rightarrow> rat \<Rightarrow> operator_error + lease_request \<times> lease_place" where
  "operator_action_lease rt action_key metadata token stale_after_seconds =
     bind_res (normalize_required_evidence_identifier action_key ''action_key'') (\<lambda>normalized_action_key.
     bind_res (normalize_lease_metadata rt metadata) (\<lambda>normalized_metadata.
       Inr (\<lparr>lq_action_key = normalized_action_key, lq_metadata = normalized_metadata, lq_token = token,
             lq_stale_after_seconds = stale_after_seconds\<rparr>, Opening False)))"

section \<open>All attempts together\<close>

text \<open>An attempt starts, moves, or is killed; a killed attempt leaves its files as they are.\<close>

datatype lease_event =
    Start attempt lease_request
  | Turn attempt datetime bool
  | Kill attempt

type_synonym lease_system = "(attempt \<times> lease_request \<times> lease_place) list \<times> lock_dir"

fun attempt_event :: "lease_runtime \<Rightarrow> lease_event \<Rightarrow> lease_system \<Rightarrow> lease_system" where
  "attempt_event rt (Start me req) (attempts, dir) =
     (if map_of attempts me = None then ((me, req, Opening False) # attempts, dir) else (attempts, dir))"
| "attempt_event rt (Turn me now writable) (attempts, dir) =
     (case map_of attempts me of
        None \<Rightarrow> (attempts, dir)
      | Some (req, place) \<Rightarrow>
          (case attempt_step rt req me now writable place dir of
             (place', dir') \<Rightarrow> (dict_put attempts me (req, place'), dir')))"
| "attempt_event rt (Kill me) (attempts, dir) =
     (case map_of attempts me of
        None \<Rightarrow> (attempts, dir)
      | Some (req, _) \<Rightarrow> (dict_put attempts me (req, Done), dir))"

definition lease_run :: "lease_runtime \<Rightarrow> lease_event list \<Rightarrow> lease_system" where
  "lease_run rt es = fold (attempt_event rt) es ([], [])"

section \<open>Governed runs\<close>

text \<open>The settings of the runs (src/app/services/runtime_retention_run_service.py, recovery_drill_run_service.py).\<close>

record run_settings =
  rs_retention_days_default :: int
  rs_cooldown_seconds :: rat
  rs_preview_max_age_seconds :: rat
  rs_stale_seconds :: rat

definition enforce_runtime_retention_manual_run_guards ::
    "lease_runtime \<Rightarrow> retention_request \<Rightarrow> retention_entry list \<Rightarrow> int \<Rightarrow> run_settings \<Rightarrow> datetime \<Rightarrow> operator_error + unit" where
  "enforce_runtime_retention_manual_run_guards rt request entries resolved_retention_days settings now =
     bind_res (if rq_apply request
               then enforce_runtime_retention_apply_preview (lr_fromisoformat rt) entries (rq_operator_id request)
                 (rq_tenant_id request) resolved_retention_days (rq_job_id request) (rs_preview_max_age_seconds settings) now
               else Inr ()) (\<lambda>_.
       enforce_runtime_retention_manual_run_cooldown (lr_fromisoformat rt) entries (rq_apply request) (rq_operator_id request)
         (rq_tenant_id request) resolved_retention_days (rq_job_id request) (rs_cooldown_seconds settings) now)"

definition runtime_retention_governed_target :: "bool \<Rightarrow> int \<Rightarrow> string option \<Rightarrow> string" where
  "runtime_retention_governed_target is_apply retention_days job_id =
     cleanup_mode_of is_apply @ '':'' @ int_text retention_days @ '':''
     @ (case job_id of None \<Rightarrow> ''no-job'' | Some j \<Rightarrow> if j = [] then ''no-job'' else j)"

text \<open>
  What a run comes to before it touches the lock. The guards read the \<open>clock\<close>; \<open>now\<close> is the time that the
  caller may give for the lease.
\<close>

datatype run_decision =
    ReplayEvidence action_replay_result
  | UnderLease lease_request lease_place

definition runtime_retention_lease ::
    "lease_runtime \<Rightarrow> retention_request \<Rightarrow> int \<Rightarrow> run_settings \<Rightarrow> string \<Rightarrow> datetime \<Rightarrow> operator_error + lease_request \<times> lease_place" where
  "runtime_retention_lease rt request resolved_retention_days settings token now =
     bind_res (build_runtime_retention_action_key (rq_operator_id request) (rq_tenant_id request) (rq_apply request)
                 resolved_retention_days (rq_job_id request)) (\<lambda>action_key.
       operator_action_lease rt action_key
         \<lparr>lm_action_name = ''runtime_retention_cleanup'', lm_operator_id = rq_operator_id request,
          lm_tenant_id = rq_tenant_id request,
          lm_governed_target = runtime_retention_governed_target (rq_apply request) resolved_retention_days (rq_job_id request),
          lm_acquired_at_utc = isoformat_utc (instant_of now)\<rparr>
         token (rs_stale_seconds settings))"

definition governed_retention_run ::
    "lease_runtime \<Rightarrow> artifact_directory \<Rightarrow> retention_entry list \<Rightarrow> retention_request \<Rightarrow> run_settings \<Rightarrow> string
      \<Rightarrow> datetime \<Rightarrow> datetime \<Rightarrow> operator_error + run_decision" where
  "governed_retention_run rt artifacts entries request settings token clock now =
     (let resolved_retention_days = (case rq_retention_days request of
            Some n \<Rightarrow> if n = 0 then rs_retention_days_default settings else n
          | None \<Rightarrow> rs_retention_days_default settings)
      in case resolve_runtime_retention_manual_replay artifacts entries request of
           Some replay \<Rightarrow> Inr (ReplayEvidence replay)
         | None \<Rightarrow>
             bind_res (enforce_runtime_retention_manual_run_guards rt request entries resolved_retention_days settings clock) (\<lambda>_.
             bind_res (runtime_retention_lease rt request resolved_retention_days settings token now) (\<lambda>(req, place).
               Inr (UnderLease req place))))"

definition recovery_drill_lease ::
    "lease_runtime \<Rightarrow> string \<Rightarrow> string option \<Rightarrow> string \<Rightarrow> run_settings \<Rightarrow> string \<Rightarrow> datetime
      \<Rightarrow> operator_error + lease_request \<times> lease_place" where
  "recovery_drill_lease rt operator tenant backup_identifier settings token acquired =
     bind_res (build_recovery_drill_action_key operator tenant backup_identifier) (\<lambda>action_key.
       operator_action_lease rt action_key
         \<lparr>lm_action_name = ''recovery_drill'', lm_operator_id = operator, lm_tenant_id = tenant,
          lm_governed_target = backup_identifier, lm_acquired_at_utc = isoformat_utc (instant_of acquired)\<rparr>
         token (rs_stale_seconds settings))"

definition run_governed_recovery_drill ::
    "lease_runtime \<Rightarrow> artifact_directory \<Rightarrow> drill_entry list \<Rightarrow> string \<Rightarrow> string option \<Rightarrow> string option \<Rightarrow> string
      \<Rightarrow> run_settings \<Rightarrow> string \<Rightarrow> datetime \<Rightarrow> datetime \<Rightarrow> operator_error + run_decision" where
  "run_governed_recovery_drill rt artifacts entries operator tenant correlation_id backup_identifier settings token clock now =
     (case resolve_recovery_drill_manual_replay artifacts entries operator tenant correlation_id backup_identifier of
        Some replay \<Rightarrow> Inr (ReplayEvidence replay)
      | None \<Rightarrow>
          bind_res (enforce_recovery_drill_manual_run_cooldown (lr_fromisoformat rt) entries operator tenant
                      backup_identifier (rs_cooldown_seconds settings) clock) (\<lambda>_.
          bind_res (recovery_drill_lease rt operator tenant backup_identifier settings token now) (\<lambda>(req, place).
            Inr (UnderLease req place))))"

end
