(* ===== verification/Operator_Safety.thy ===== *)
theory Operator_Safety
  imports Operator_Leases
begin

text \<open>
  What the checks around operator actions promise: a replay belongs to the request that asks for it, a
  cooldown refuses exactly for its time, and the lock of an action excludes all other attempts as long as
  no lock is overdue. The reclaim of an overdue lock does not exclude them, and a lock whose writer was
  killed is never reclaimed.
\<close>

section \<open>Replays\<close>

lemma required_identity_matches_iff:
  "required_identity_matches a b \<longleftrightarrow> strip a = strip b \<and> strip a \<noteq> []"
  by (auto simp: required_identity_matches_def normalize_required_evidence_identifier_def Let_def)

lemma correlation_matches:
  assumes "operator_action_correlation_matches actor c operator tenant correlation"
  shows "strip (fst actor) = strip operator" "optional_identity_matches (snd actor) tenant"
    "\<exists>s. c = Some s \<and> strip s = strip correlation"
proof -
  from assms show "strip (fst actor) = strip operator" "optional_identity_matches (snd actor) tenant"
    by (auto simp: operator_action_correlation_matches_def operator_action_actor_matches_def required_identity_matches_iff)
  from assms show "\<exists>s. c = Some s \<and> strip s = strip correlation"
    by (cases c) (auto simp: operator_action_correlation_matches_def required_identity_matches_iff strip_def lstrip_Nil)
qed

lemma replayed:
  assumes "resolve_runtime_retention_manual_replay artifacts entries request = Some r"
  obtains e correlation where "e \<in> set entries" "rq_correlation_id request = Some correlation"
    "runtime_retention_entry_matches e request correlation"
    "load_payload artifacts (rh_evidence_file_name e) = Some (ap_payload r)"
    "runtime_retention_payload_matches_entry (ap_payload r) e" "ap_evidence_file_name r = rh_evidence_file_name e"
proof -
  from assms obtain correlation e where c: "rq_correlation_id request = Some correlation"
    and e: "find (\<lambda>e. runtime_retention_entry_matches e request correlation) entries = Some e"
    and r: "runtime_retention_replay_from_entry artifacts e = Some r"
    by (auto simp: resolve_runtime_retention_manual_replay_def split: option.splits if_splits)
  from e have "e \<in> set entries" "runtime_retention_entry_matches e request correlation"
    by (auto simp: find_Some_iff)
  with c r show thesis
    by (intro that) (auto simp: runtime_retention_replay_from_entry_def split: option.splits if_splits)
qed

lemma loaded_from_safe_name:
  "load_payload artifacts name = Some payload \<Longrightarrow> is_safe_evidence_file_name name"
  by (auto simp: load_payload_def resolve_evidence_file_path_def split: option.splits if_splits)

lemma split_on_sep: "CHR ''/'' \<in> set s \<Longrightarrow> \<forall>p \<in> set (split_on (CHR ''/'') s). p \<noteq> s"
proof -
  have "CHR ''/'' \<notin> set p" if "p \<in> set (split_on (CHR ''/'') s)" for p
    using that by (induction s arbitrary: p) (auto split: if_splits list.splits)
  then show "CHR ''/'' \<in> set s \<Longrightarrow> \<forall>p \<in> set (split_on (CHR ''/'') s). p \<noteq> s" by blast
qed

lemma safe_name_plain:
  assumes "is_safe_evidence_file_name name"
  shows "CHR ''/'' \<notin> set name"
proof
  assume sep: "CHR ''/'' \<in> set name"
  from assms have ne: "name \<noteq> []" and eq: "posix_name name = name" by (auto simp: is_safe_evidence_file_name_def)
  then obtain p ps where "rev (filter (\<lambda>p. p \<noteq> [] \<and> p \<noteq> ''.'') (split_on (CHR ''/'') name)) = p # ps" "p = name"
    by (auto simp: posix_name_def split: list.splits)
  then have "name \<in> set (rev (filter (\<lambda>p. p \<noteq> [] \<and> p \<noteq> ''.'') (split_on (CHR ''/'') name)))" by simp
  with split_on_sep [OF sep] show False by auto
qed

text \<open>C22: What is replayed to an operator is the evidence of an action of the same operator, tenant and
  correlation id, in the same mode, for the same job (or, like the request, for none) and, if the
  request names a number of days, for those days: the payload names exactly the operator, tenant,
  correlation, job, mode, days and counts of that entry of the history, and comes from a file of the
  directory itself.\<close>

theorem replay_of_own_request:
  assumes "resolve_runtime_retention_manual_replay artifacts entries request = Some r"
  shows "\<exists>e \<in> set entries. strip (rh_operator_id e) = strip (rq_operator_id request)
    \<and> optional_identity_matches (rh_tenant_id e) (rq_tenant_id request)
    \<and> map_option strip (rh_correlation_id e) = map_option strip (rq_correlation_id request)
    \<and> rh_cleanup_mode e = cleanup_mode_of (rq_apply request)
    \<and> rh_status e = (if rq_apply request then ''applied'' else ''planned'')
    \<and> (case rq_retention_days request of None \<Rightarrow> True | Some n \<Rightarrow> rh_retention_days e = n)
    \<and> optional_identity_matches (rh_job_id e) (rq_job_id request)
    \<and> dict_get (ap_payload r) ''evidence_file_name'' = Some (JStr (rh_evidence_file_name e))
    \<and> dict_get (ap_payload r) ''generated_at_utc'' = Some (JStr (rh_generated_at_utc e))
    \<and> dict_get (ap_payload r) ''operator_id'' = Some (JStr (rh_operator_id e))
    \<and> dict_get (ap_payload r) ''trigger_mode'' = Some (JStr (rh_trigger_mode e))
    \<and> dict_get (ap_payload r) ''cleanup_mode'' = Some (JStr (rh_cleanup_mode e))
    \<and> dict_get (ap_payload r) ''status'' = Some (JStr (rh_status e))
    \<and> dict_get (ap_payload r) ''retention_days'' = Some (JInt (rh_retention_days e))
    \<and> dict_get (ap_payload r) ''prunable_execution_count'' = Some (JInt (rh_prunable_execution_count e))
    \<and> dict_get (ap_payload r) ''prunable_compute_job_count'' = Some (JInt (rh_prunable_compute_job_count e))
    \<and> dict_get (ap_payload r) ''prunable_async_result_count'' = Some (JInt (rh_prunable_async_result_count e))
    \<and> dict_get (ap_payload r) ''prunable_lineage_record_count'' = Some (JInt (rh_prunable_lineage_record_count e))
    \<and> dict_get (ap_payload r) ''prunable_lineage_artifact_count'' = Some (JInt (rh_prunable_lineage_artifact_count e))
    \<and> payload_get (ap_payload r) ''tenant_id'' = json_opt (rh_tenant_id e)
    \<and> payload_get (ap_payload r) ''correlation_id'' = json_opt (rh_correlation_id e)
    \<and> payload_get (ap_payload r) ''job_id'' = json_opt (rh_job_id e)
    \<and> CHR ''/'' \<notin> set (ap_evidence_file_name r)"
proof -
  obtain e correlation where e: "e \<in> set entries" and c: "rq_correlation_id request = Some correlation"
    and m: "runtime_retention_entry_matches e request correlation"
    and l: "load_payload artifacts (rh_evidence_file_name e) = Some (ap_payload r)"
    and p: "runtime_retention_payload_matches_entry (ap_payload r) e"
    and f: "ap_evidence_file_name r = rh_evidence_file_name e" by (rule replayed [OF assms])
  from m have corr: "operator_action_correlation_matches (retention_actor e) (rh_correlation_id e)
      (rq_operator_id request) (rq_tenant_id request) correlation"
    by (simp add: runtime_retention_entry_matches_def)
  have optional: "payload_get (retention_fields e) ''tenant_id'' = json_opt (rh_tenant_id e)"
    "payload_get (retention_fields e) ''correlation_id'' = json_opt (rh_correlation_id e)"
    "payload_get (retention_fields e) ''job_id'' = json_opt (rh_job_id e)"
    by (simp_all add: payload_get_def dict_get_def retention_fields_def)
  have required: "list_all (\<lambda>k. dict_get (ap_payload r) k = dict_get (retention_fields e) k)
        (RUNTIME_RETENTION_REQUIRED_IDENTITY_FIELDS @ RUNTIME_RETENTION_REQUIRED_INT_FIELDS)"
    using p by (auto simp: runtime_retention_payload_matches_entry_def runtime_retention_payload_identity_matches_def
        runtime_retention_payload_counts_match_def payload_entry_required_fields_match_def)
  show ?thesis
    using e m p c f optional correlation_matches [OF corr] safe_name_plain [OF loaded_from_safe_name [OF l]]
      required [unfolded RUNTIME_RETENTION_REQUIRED_IDENTITY_FIELDS_def RUNTIME_RETENTION_REQUIRED_INT_FIELDS_def]
    by (intro bexI [of _ e]) (auto simp: runtime_retention_entry_matches_def runtime_retention_request_filters_match_def
        runtime_retention_payload_matches_entry_def runtime_retention_payload_identity_matches_def
        payload_entry_optional_fields_match_def RUNTIME_RETENTION_OPTIONAL_IDENTITY_FIELDS_def
        retention_fields_def dict_get_def)
qed

section \<open>Cooldowns\<close>

definition retry_seconds :: "operator_error + unit \<Rightarrow> int option" where
  "retry_seconds answer =
     (case answer of
        Inl (ActionConflict e) \<Rightarrow>
          (case detail e of JObj d \<Rightarrow> (case dict_get d ''retry_after_seconds'' of Some (JInt n) \<Rightarrow> Some n | _ \<Rightarrow> None) | _ \<Rightarrow> None)
      | _ \<Rightarrow> None)"

lemma cooldown_cases:
  assumes "fromisoformat (str_replace ''Z'' ''+00:00'' generated) = Some parsed" "0 < cooldown_seconds"
  shows "enforce_manual_action_cooldown fromisoformat action_name code (Some (generated, file_name)) cooldown_seconds now
    = (let n = \<lceil>cooldown_seconds - elapsed_seconds_since now parsed\<rceil> in
       if 0 < n then Inl (action_conflict
          [(''code'', JStr code),
           (''message'', JStr (''A recent manual '' @ action_name
              @ '' already completed inside the governed cooldown window. ''
              @ ''Wait for the cooldown to expire before retrying.'')),
           (''latest_generated_at_utc'', JStr generated), (''latest_evidence_file_name'', JStr file_name),
           (''retry_after_seconds'', JInt n)])
       else Inr ())"
proof -
  have "elapsed_seconds_since now (coerce_utc_datetime parsed) = elapsed_seconds_since now parsed"
    by (simp add: elapsed_seconds_since_def)
  then show ?thesis using assms
    by (simp add: enforce_manual_action_cooldown_def manual_action_retry_after_seconds_def parse_utc_datetime_def Let_def
        del: coerce_utc_datetime_eq)
qed

text \<open>C35: A manual action is refused exactly while its latest run is younger than the cooldown, and the
  seconds that the refusal announces are enough: a second try after that time is accepted, and one whole
  second earlier is still refused.\<close>

theorem cooldown_exact:
  assumes generated: "fromisoformat (str_replace ''Z'' ''+00:00'' generated) = Some parsed" "0 < cooldown_seconds"
  shows "if elapsed_seconds_since now parsed < cooldown_seconds
    then \<exists>n. retry_seconds (enforce_manual_action_cooldown fromisoformat action_name code (Some (generated, file_name))
               cooldown_seconds now) = Some n
         \<and> of_int (n - 1) < cooldown_seconds - elapsed_seconds_since now parsed
         \<and> cooldown_seconds - elapsed_seconds_since now parsed \<le> of_int n
         \<and> (\<forall>later. elapsed_seconds_since now parsed + of_int n \<le> elapsed_seconds_since later parsed
              \<longrightarrow> enforce_manual_action_cooldown fromisoformat action_name code (Some (generated, file_name))
                    cooldown_seconds later = Inr ())
    else enforce_manual_action_cooldown fromisoformat action_name code (Some (generated, file_name)) cooldown_seconds now = Inr ()"
proof -
  note answer = cooldown_cases [where fromisoformat = fromisoformat and generated = generated, OF assms]
  show ?thesis
proof (cases "elapsed_seconds_since now parsed < cooldown_seconds")
  case True
  let ?n = "\<lceil>cooldown_seconds - elapsed_seconds_since now parsed\<rceil>"
  have pos: "0 < ?n" using True by simp
  have bounds: "of_int (?n - 1) < cooldown_seconds - elapsed_seconds_since now parsed"
    "cooldown_seconds - elapsed_seconds_since now parsed \<le> of_int ?n" by linarith+
  have later: "enforce_manual_action_cooldown fromisoformat action_name code (Some (generated, file_name))
      cooldown_seconds later = Inr ()"
    if after: "elapsed_seconds_since now parsed + of_int ?n \<le> elapsed_seconds_since later parsed" for later
  proof -
    from after bounds(2) have "\<not> 0 < \<lceil>cooldown_seconds - elapsed_seconds_since later parsed\<rceil>" by linarith
    then show ?thesis by (simp only: answer Let_def if_False)
  qed
  have "retry_seconds (enforce_manual_action_cooldown fromisoformat action_name code (Some (generated, file_name))
      cooldown_seconds now) = Some ?n"
    using pos by (simp add: answer Let_def retry_seconds_def action_conflict_def dict_get_def)
  with bounds later show ?thesis unfolding if_P [OF True] by blast
next
  case False
  then have "\<lceil>cooldown_seconds - elapsed_seconds_since now parsed\<rceil> \<le> 0" by (simp add: ceiling_le_iff)
  then show ?thesis using False by (simp add: answer Let_def)
qed
qed

section \<open>Previews\<close>

lemma bind_res_InrD: "bind_res m f = Inr y \<Longrightarrow> \<exists>x. m = Inr x \<and> f x = Inr y"
  by (cases m) auto

lemma previewed:
  assumes "enforce_runtime_retention_apply_preview fromisoformat entries operator tenant days job_id max_age now = Inr ()"
    "0 < max_age"
  shows "\<exists>e \<in> set entries. \<exists>generated. runtime_retention_history_entry_matches e False operator tenant days job_id
    \<and> parse_utc_datetime fromisoformat (rh_generated_at_utc e) = Inr generated
    \<and> elapsed_seconds_since now generated \<le> max_age"
proof -
  from assms obtain e where e: "find_latest_runtime_retention_entry entries False operator tenant days job_id = Some e"
    and checked: "bind_res (parse_utc_datetime fromisoformat (rh_generated_at_utc e)) (\<lambda>generated.
      if elapsed_seconds_since now generated \<le> max_age then Inr ()
      else Inl (action_conflict (PREVIEW_REQUIRED
        @ [(''latest_preview_generated_at_utc'', JStr (rh_generated_at_utc e)),
           (''latest_preview_evidence_file_name'', JStr (rh_evidence_file_name e)),
           (''preview_max_age_seconds'', JInt \<lfloor>max_age\<rfloor>)]))) = Inr ()"
    by (auto simp: enforce_runtime_retention_apply_preview_def split: option.splits)
  from bind_res_InrD [OF checked] obtain generated where
    "parse_utc_datetime fromisoformat (rh_generated_at_utc e) = Inr generated"
    "elapsed_seconds_since now generated \<le> max_age" by (auto split: if_splits)
  moreover from e have "e \<in> set entries" "runtime_retention_history_entry_matches e False operator tenant days job_id"
    by (auto simp: find_latest_runtime_retention_entry_def find_Some_iff)
  ultimately show ?thesis by blast
qed

text \<open>C30: While a bound on the age of previews is configured (a positive number of seconds; any other
  switches the check off), a cleanup that is to delete anything takes the lock only when its own dry run
  is recent: the history has a dry run of the same operator, tenant and job and of the days the cleanup is
  to use (those it asks for, or the default when it names none or zero), whose age is at most the bound,
  and the cooldown of the last such deletion is over. Its lock names the target that was previewed.\<close>

theorem apply_needs_preview:
  assumes run: "governed_retention_run rt artifacts entries request settings token clock now = Inr (UnderLease req place)"
    and "rq_apply request" "0 < rs_preview_max_age_seconds settings"
  shows "\<exists>days. days = (if rq_retention_days request \<in> {None, Some 0} then rs_retention_days_default settings
        else the (rq_retention_days request))
    \<and> (\<exists>e \<in> set entries. \<exists>generated. rh_cleanup_mode e = ''dry_run''
    \<and> strip (rh_operator_id e) = strip (rq_operator_id request)
    \<and> optional_identity_matches (rh_tenant_id e) (rq_tenant_id request)
    \<and> optional_identity_matches (rh_job_id e) (rq_job_id request)
    \<and> parse_utc_datetime (lr_fromisoformat rt) (rh_generated_at_utc e) = Inr generated
    \<and> rh_retention_days e = days
    \<and> elapsed_seconds_since clock generated \<le> rs_preview_max_age_seconds settings)
    \<and> enforce_runtime_retention_manual_run_cooldown (lr_fromisoformat rt) entries True (rq_operator_id request)
        (rq_tenant_id request) days (rq_job_id request) (rs_cooldown_seconds settings) clock = Inr ()
    \<and> lm_governed_target (lq_metadata req) = strip (runtime_retention_governed_target True days (rq_job_id request))
    \<and> place = Opening False"
proof -
  define days where "days = (case rq_retention_days request of
            Some n \<Rightarrow> if n = 0 then rs_retention_days_default settings else n
          | None \<Rightarrow> rs_retention_days_default settings)"
  from run have "bind_res (enforce_runtime_retention_manual_run_guards rt request entries days settings clock) (\<lambda>_.
      bind_res (runtime_retention_lease rt request days settings token now) (\<lambda>(req, place). Inr (UnderLease req place)))
      = Inr (UnderLease req place)"
    by (simp add: governed_retention_run_def days_def [symmetric] Let_def split: option.splits)
  from bind_res_InrD [OF this] obtain
    guards: "enforce_runtime_retention_manual_run_guards rt request entries days settings clock = Inr ()"
    and lease: "bind_res (runtime_retention_lease rt request days settings token now) (\<lambda>(req, place). Inr (UnderLease req place))
      = Inr (UnderLease req place)" by auto
  from guards assms(2) have "bind_res (enforce_runtime_retention_apply_preview (lr_fromisoformat rt) entries (rq_operator_id request)
      (rq_tenant_id request) days (rq_job_id request) (rs_preview_max_age_seconds settings) clock) (\<lambda>_.
      enforce_runtime_retention_manual_run_cooldown (lr_fromisoformat rt) entries True (rq_operator_id request)
        (rq_tenant_id request) days (rq_job_id request) (rs_cooldown_seconds settings) clock) = Inr ()"
    by (simp add: enforce_runtime_retention_manual_run_guards_def)
  from bind_res_InrD [OF this] obtain
    preview: "enforce_runtime_retention_apply_preview (lr_fromisoformat rt) entries (rq_operator_id request)
      (rq_tenant_id request) days (rq_job_id request) (rs_preview_max_age_seconds settings) clock = Inr ()"
    and cooldown: "enforce_runtime_retention_manual_run_cooldown (lr_fromisoformat rt) entries True (rq_operator_id request)
        (rq_tenant_id request) days (rq_job_id request) (rs_cooldown_seconds settings) clock = Inr ()" by auto
  from lease have "runtime_retention_lease rt request days settings token now = Inr (req, place)"
    by (auto dest!: bind_res_InrD)
  then have "lm_governed_target (lq_metadata req) = strip (runtime_retention_governed_target True days (rq_job_id request))
      \<and> place = Opening False" using assms(2)
    by (auto simp: runtime_retention_lease_def operator_action_lease_def normalize_lease_metadata_def
        normalize_required_evidence_identifier_def Let_def dest!: bind_res_InrD split: if_splits)
  moreover have "days = (if rq_retention_days request \<in> {None, Some 0} then rs_retention_days_default settings
        else the (rq_retention_days request))"
    by (auto simp: days_def split: option.split)
  moreover have "\<exists>e \<in> set entries. \<exists>generated. rh_cleanup_mode e = ''dry_run''
    \<and> strip (rh_operator_id e) = strip (rq_operator_id request)
    \<and> optional_identity_matches (rh_tenant_id e) (rq_tenant_id request)
    \<and> optional_identity_matches (rh_job_id e) (rq_job_id request)
    \<and> parse_utc_datetime (lr_fromisoformat rt) (rh_generated_at_utc e) = Inr generated
    \<and> rh_retention_days e = days
    \<and> elapsed_seconds_since clock generated \<le> rs_preview_max_age_seconds settings"
    using previewed [OF preview assms(3)]
    by (fastforce simp: runtime_retention_history_entry_matches_def cleanup_mode_of_def
        operator_action_actor_matches_def required_identity_matches_iff)
  ultimately show ?thesis using cooldown by blast
qed

section \<open>The lock\<close>

abbreviation name_of :: "lease_request \<Rightarrow> string" where
  "name_of req \<equiv> lock_name (lq_action_key req)"

lemma payload_matches_itself [simp]: "lock_payload_matches (Some (Doc (JObj p))) p"
  by (simp add: lock_payload_matches_def read_json_payload_def)

lemma torn_file_matches_nothing [simp]: "\<not> lock_payload_matches (Some (Malformed s)) p" "\<not> lock_payload_matches None p"
  by (simp_all add: lock_payload_matches_def read_json_payload_def)

lemma map_of_unlink: "map_of (unlink_file n dir) k = (if k = n then None else map_of dir k)"
  by (induction dir) (auto simp: unlink_file_def)

text \<open>What an attempt knows of its file in each place when no lock is overdue.\<close>

fun place_ok :: "attempt \<Rightarrow> lease_request \<Rightarrow> lease_place \<Rightarrow> lock_dir \<Rightarrow> bool" where
  "place_ok me req Created dir = (map_of dir (name_of req) = Some (me, Malformed []))"
| "place_ok me req Holding dir = (map_of dir (name_of req) = Some (me, Doc (JObj (payload_of req))))"
| "place_ok me req (Leaving content) dir =
     (lock_payload_matches content (payload_of req) \<longrightarrow> (\<exists>text. map_of dir (name_of req) = Some (me, text)))"
| "place_ok me req (Overdue c) dir = False"
| "place_ok me req (Compared c content) dir = False"
| "place_ok me req (Removed c) dir = False"
| "place_ok me req _ dir = True"

fun finds_overdue :: "lease_place \<Rightarrow> bool" where
  "finds_overdue (Overdue c) = True"
| "finds_overdue _ = False"

text \<open>A step touches no file but one that is free or the attempt's own.\<close>

definition own_change :: "attempt \<Rightarrow> lock_dir \<Rightarrow> lock_dir \<Rightarrow> bool" where
  "own_change me dir dir' \<longleftrightarrow>
     (\<forall>n. map_of dir' n = map_of dir n \<or> (case map_of dir n of None \<Rightarrow> True | Some (creator, _) \<Rightarrow> creator = me))"

lemma own_change_same [simp]: "own_change me dir dir"
  by (simp add: own_change_def)

lemma step_ok:
  assumes "place_ok me req place dir" "attempt_step rt req me now writable place dir = (place', dir')"
    "\<not> finds_overdue place'"
  shows "place_ok me req place' dir' \<and> own_change me dir dir'"
  using assms
  by (cases place)
    (auto simp: create_exclusive_def write_opened_def release_lock_if_owned_def file_text_def own_change_def
      dict_put_map_of map_of_unlink split: if_splits option.splits prod.splits)

lemma other_place_ok:
  assumes "own_change me dir dir'" "other \<noteq> me" "place_ok other req place dir"
  shows "place_ok other req place dir'"
proof -
  have keep: "map_of dir' n = Some (other, t)" if "map_of dir n = Some (other, t)" for n t
    using that assms(1,2) by (auto simp: own_change_def dest!: spec [of _ n])
  show ?thesis using assms(3) by (cases place) (auto intro: keep)
qed

definition system_ok :: "lease_system \<Rightarrow> bool" where
  "system_ok s \<longleftrightarrow> (\<forall>me req place. map_of (fst s) me = Some (req, place) \<longrightarrow> place_ok me req place (snd s))"

definition none_overdue :: "lease_system \<Rightarrow> bool" where
  "none_overdue s \<longleftrightarrow> list_all (\<lambda>(me, req, place). \<not> finds_overdue place) (fst s)"

lemma none_overdueD: "none_overdue s \<Longrightarrow> map_of (fst s) me = Some (req, place) \<Longrightarrow> \<not> finds_overdue place"
  by (auto simp: none_overdue_def list_all_iff dest!: map_of_SomeD)

lemma event_ok:
  assumes s: "system_ok s" and calm: "none_overdue (attempt_event rt e s)"
  shows "system_ok (attempt_event rt e s)"
proof (cases s)
  case (Pair attempts dir)
  have ok: "place_ok me req place dir" if "map_of attempts me = Some (req, place)" for me req place
    using s that by (auto simp: system_ok_def Pair)
  show ?thesis
  proof (cases e)
    case (Turn me now writable)
    show ?thesis
    proof (cases "map_of attempts me")
      case (Some entry)
      obtain req place where entry: "entry = (req, place)" by (cases entry)
      obtain place' dir' where step: "attempt_step rt req me now writable place dir = (place', dir')"
        by (cases "attempt_step rt req me now writable place dir")
      have event: "attempt_event rt e s = (dict_put attempts me (req, place'), dir')"
        using Some entry step by (simp add: Turn Pair)
      have "\<not> finds_overdue place'"
        using none_overdueD [OF calm, of me req place'] by (simp add: event dict_put_map_of)
      from step_ok [OF ok step this] Some entry have mine: "place_ok me req place' dir'" "own_change me dir dir'" by auto
      show ?thesis unfolding event system_ok_def
        using mine ok other_place_ok [OF mine(2)] by (auto simp: dict_put_map_of split: if_splits)
    qed (use s in \<open>simp add: Turn Pair\<close>)
  qed (use ok in \<open>auto simp: Pair system_ok_def dict_put_map_of split: if_splits option.splits prod.splits\<close>)
qed

fun never_overdue :: "lease_runtime \<Rightarrow> lease_event list \<Rightarrow> lease_system \<Rightarrow> bool" where
  "never_overdue rt [] s = True"
| "never_overdue rt (e # es) s =
     (none_overdue (attempt_event rt e s) \<and> never_overdue rt es (attempt_event rt e s))"

lemma run_ok: "system_ok s \<Longrightarrow> never_overdue rt es s \<Longrightarrow> system_ok (fold (attempt_event rt) es s)"
proof (induction es arbitrary: s)
  case (Cons e es)
  then show ?case using event_ok [of s rt e] by simp
qed simp

text \<open>C14: However the attempts to run an action interleave, and whichever of them are killed: as long as no
  attempt finds an overdue lock, no two of them hold the lock of one action at the same time, and the lock
  file holds the metadata and the token of the one that does, so that nobody else can release it.\<close>

theorem lock_excludes:
  assumes "never_overdue rt es ([], [])" and s: "lease_run rt es = (attempts, dir)"
    and a: "map_of attempts a = Some (req, Holding)"
  shows "map_of dir (name_of req) = Some (a, Doc (JObj (payload_of req)))
    \<and> (\<forall>b req' place. b \<noteq> a \<longrightarrow> map_of attempts b = Some (req', place) \<longrightarrow> lq_action_key req' = lq_action_key req
         \<longrightarrow> place \<noteq> Holding \<and> place \<noteq> Created)"
proof -
  have "system_ok (attempts, dir)"
    using run_ok [OF _ assms(1)] s by (simp add: lease_run_def system_ok_def)
  then have ok: "place_ok me r p dir" if "map_of attempts me = Some (r, p)" for me r p
    using that by (auto simp: system_ok_def)
  have mine: "map_of dir (name_of req) = Some (a, Doc (JObj (payload_of req)))" using ok [OF a] by simp
  moreover have "place \<noteq> Holding \<and> place \<noteq> Created"
    if "b \<noteq> a" "map_of attempts b = Some (req', place)" "lq_action_key req' = lq_action_key req" for b req' place
    using ok [OF that(2)] that(1,3) mine by auto
  ultimately show ?thesis by blast
qed

text \<open>
  A lock whose writer was killed before the payload was written, or whose payload does not parse for any
  other reason, refuses every later attempt, however late: it can only be removed by hand.
\<close>

lemma torn_lock_refuses:
  assumes "map_of dir (name_of req) = Some (creator, Malformed text)"
  shows "\<exists>e. (\<lambda>(place, dir). attempt_step rt req me later writable place dir)
      ((\<lambda>(place, dir). attempt_step rt req me now writable place dir)
        (attempt_step rt req me now writable (Opening False) dir)) = (RefusedLease e, dir)"
  using assms by (auto simp: create_exclusive_def file_text_def stale_lock_reclaim_candidate_def read_json_payload_def)

section \<open>Reclaiming an overdue lock\<close>

text \<open>Evidence of a reclaim is written beside the locks, under names that are no lock's.\<close>

lemma evidence_keeps_locks:
  "map_of (write_latest_reclaimed_lease rt me event dir) (lock_name key) = map_of dir (lock_name key)"
proof -
  have "lock_name key \<noteq> LATEST_RECLAIM" "lock_name key \<noteq> RECLAIM_HISTORY"
    by (auto simp: lock_name_def LATEST_RECLAIM_def RECLAIM_HISTORY_def dest!: arg_cong [where f = rev])
  then show ?thesis
    by (simp add: write_latest_reclaimed_lease_def write_reclaim_history_def replace_file_def dict_put_map_of Let_def)
qed

text \<open>
  The four turns by which an attempt that has compared an overdue lock takes it: whatever the lock file
  is by then, it is removed.
\<close>

definition takes_over :: "attempt \<Rightarrow> (nat \<Rightarrow> datetime) \<Rightarrow> bool \<Rightarrow> lease_event list" where
  "takes_over me clock recorded = [Turn me (clock 0) True, Turn me (clock 1) recorded, Turn me (clock 2) True, Turn me (clock 3) True]"

lemma takeover_holds:
  assumes "map_of attempts me = Some (req, Compared c content)" "lock_payload_matches content (rc_lock_payload c)"
  shows "\<exists>attempts' dir'. fold (attempt_event rt) (takes_over me clock recorded) (attempts, dir) = (attempts', dir')
    \<and> map_of attempts' me = Some (req, Holding) \<and> (\<forall>other. other \<noteq> me \<longrightarrow> map_of attempts' other = map_of attempts other)
    \<and> map_of dir' (name_of req) = Some (me, Doc (JObj (payload_of req)))"
  using assms
  by (cases recorded) (simp_all add: takes_over_def release_lock_if_owned_def create_exclusive_def write_opened_def
      evidence_keeps_locks map_of_unlink dict_put_map_of)

text \<open>C40: The comparison of an overdue lock and its removal are two operations on the file system. Whenever
  two attempts at one action have found the same lock overdue and both compare it, as it still is, before
  either removes it, then if first the one and then the other goes on undisturbed (at any times, and whether
  or not its evidence can be written), the second removes the lock that the first has just created and both
  hold the lock of the action at the same time, the file naming only the second.\<close>

theorem reclaim_race:
  assumes "a \<noteq> b" "map_of attempts a = Some (ra, Overdue ca)" "map_of attempts b = Some (rb, Overdue cb)"
    and same: "lq_action_key rb = lq_action_key ra"
    and still: "lock_payload_matches (file_text dir (name_of ra)) (rc_lock_payload ca)"
      "lock_payload_matches (file_text dir (name_of ra)) (rc_lock_payload cb)"
  shows "\<exists>attempts' dir'. fold (attempt_event rt) ([Turn a t1 w1, Turn b t2 w2] @ takes_over a clock recorded @ takes_over b clock' recorded')
        (attempts, dir) = (attempts', dir')
    \<and> map_of attempts' a = Some (ra, Holding) \<and> map_of attempts' b = Some (rb, Holding)
    \<and> map_of dir' (name_of ra) = Some (b, Doc (JObj (payload_of rb)))"
proof -
  define attempts1 where "attempts1 = dict_put (dict_put attempts a (ra, Compared ca (file_text dir (name_of ra))))
      b (rb, Compared cb (file_text dir (name_of ra)))"
  have compared: "fold (attempt_event rt) [Turn a t1 w1, Turn b t2 w2] (attempts, dir) = (attempts1, dir)"
    using assms(1-4) by (simp add: dict_put_map_of attempts1_def)
  have "map_of attempts1 a = Some (ra, Compared ca (file_text dir (name_of ra)))"
    using assms(1) by (simp add: attempts1_def dict_put_map_of)
  from takeover_holds [OF this still(1), of rt clock recorded dir] obtain attempts2 dir2 where
    first: "fold (attempt_event rt) (takes_over a clock recorded) (attempts1, dir) = (attempts2, dir2)"
      "map_of attempts2 a = Some (ra, Holding)" "\<forall>other. other \<noteq> a \<longrightarrow> map_of attempts2 other = map_of attempts1 other"
    by blast
  then have "map_of attempts2 b = Some (rb, Compared cb (file_text dir (name_of ra)))"
    using assms(1) by (simp add: attempts1_def dict_put_map_of)
  from takeover_holds [OF this still(2), of rt clock' recorded' dir2] obtain attempts3 dir3 where
    second: "fold (attempt_event rt) (takes_over b clock' recorded') (attempts2, dir2) = (attempts3, dir3)"
      "map_of attempts3 b = Some (rb, Holding)" "\<forall>other. other \<noteq> b \<longrightarrow> map_of attempts3 other = map_of attempts2 other"
      "map_of dir3 (name_of rb) = Some (b, Doc (JObj (payload_of rb)))" by blast
  have "fold (attempt_event rt) ([Turn a t1 w1, Turn b t2 w2] @ takes_over a clock recorded @ takes_over b clock' recorded')
      (attempts, dir) = (attempts3, dir3)"
    unfolding fold_append comp_apply compared first(1) second(1) ..
  then show ?thesis using first(2) second(2-4) assms(1) same by auto
qed

end
