(* ===== verification/Operator_Witnesses.thy ===== *)
theory Operator_Witnesses
  imports Operator_Safety
begin

text \<open>
  The properties of operator actions applied to a history with one applied cleanup and to a lock that is
  held and released, and to two attempts that reclaim the same overdue lock.
\<close>

section \<open>Replay and cooldown\<close>

definition demo_clock :: "string \<Rightarrow> datetime option" where
  "demo_clock s = (if s = ''2026-01-01T00:00:00+00:00'' then Some (Aware 0 0) else None)"

definition demo_entry :: retention_entry where
  "demo_entry = \<lparr>rh_evidence_file_name = ''e.json'', rh_generated_at_utc = ''2026-01-01T00:00:00Z'', rh_operator_id = ''ops'',
     rh_trigger_mode = ''manual'', rh_job_id = None, rh_cleanup_mode = ''apply'', rh_status = ''applied'',
     rh_retention_days = 30, rh_prunable_execution_count = 1, rh_prunable_compute_job_count = 1,
     rh_prunable_async_result_count = 0, rh_prunable_lineage_record_count = 0, rh_prunable_lineage_artifact_count = 0,
     rh_tenant_id = None, rh_correlation_id = Some ''c1''\<rparr>"

definition demo_evidence :: json_dict where
  "demo_evidence = retention_fields demo_entry @ [(''cleanup_name'', JStr ''cleanup''), (''cutoff_utc'', JStr ''x'')]"

definition demo_directory :: artifact_directory where
  "demo_directory = \<lparr>ad_resolve = Some, ad_read = (\<lambda>name. if name = ''e.json'' then Some (Doc (JObj demo_evidence)) else None)\<rparr>"

definition demo_request :: retention_request where
  "demo_request = \<lparr>rq_operator_id = '' ops'', rq_tenant_id = None, rq_correlation_id = Some ''c1'', rq_apply = True,
     rq_retention_days = Some 30, rq_job_id = None\<rparr>"

lemma demo_replayed:
  "resolve_runtime_retention_manual_replay demo_directory [demo_entry] demo_request
    = Some \<lparr>ap_payload = demo_evidence, ap_evidence_file_name = ''e.json''\<rparr>"
  by code_simp

lemma replay_of_own_request_witness:
  "\<exists>e \<in> set [demo_entry]. rh_cleanup_mode e = ''apply''
    \<and> payload_get demo_evidence ''tenant_id'' = json_opt (rh_tenant_id e)"
  using replay_of_own_request [OF demo_replayed] by (simp add: demo_request_def cleanup_mode_of_def)

lemma cooldown_exact_witness:
  "retry_seconds (enforce_manual_action_cooldown demo_clock ''drill'' ''busy'' (Some (''2026-01-01T00:00:00Z'', ''e'')) 60
      (Aware 30500000 0)) = Some 30"
proof -
  have parsed: "demo_clock (str_replace ''Z'' ''+00:00'' ''2026-01-01T00:00:00Z'') = Some (Aware 0 0)" by code_simp
  have elapsed: "elapsed_seconds_since (Aware 30500000 0) (Aware 0 0) = 61 / 2"
    by (simp add: elapsed_seconds_since_def total_seconds_def utc_def)
  obtain n where n: "retry_seconds (enforce_manual_action_cooldown demo_clock ''drill'' ''busy''
      (Some (''2026-01-01T00:00:00Z'', ''e'')) 60 (Aware 30500000 0)) = Some n"
    "of_int (n - 1) < (60 :: rat) - 61 / 2" "(60 :: rat) - 61 / 2 \<le> of_int n"
    using cooldown_exact [where fromisoformat = demo_clock and generated = "''2026-01-01T00:00:00Z''" and file_name = "''e''",
        OF parsed, of 60 "Aware 30500000 0" "''drill''" "''busy''"] unfolding elapsed by auto
  from n(2,3) have "n = 30" by linarith
  with n(1) show ?thesis by simp
qed

section \<open>An apply after its dry run\<close>

definition demo_preview :: retention_entry where
  "demo_preview = demo_entry\<lparr>rh_cleanup_mode := ''dry_run'', rh_status := ''planned''\<rparr>"

definition demo_settings :: run_settings where
  "demo_settings = \<lparr>rs_retention_days_default = 30, rs_cooldown_seconds = 60, rs_preview_max_age_seconds = 900,
     rs_stale_seconds = 60\<rparr>"

definition demo_run_clock :: "string \<Rightarrow> datetime option" where
  "demo_run_clock s = (if s = ''2026-01-01T00:00:00+00:00'' then Some (Aware 0 0) else Some (Aware 600000000 0))"

definition demo_run_runtime :: lease_runtime where
  "demo_run_runtime = \<lparr>lr_fromisoformat = demo_run_clock, lr_float_literal = (\<lambda>_. ''60.0''), lr_float_value = (\<lambda>_. 60)\<rparr>"

definition demo_run :: "operator_error + run_decision" where
  "demo_run = governed_retention_run demo_run_runtime demo_directory [demo_preview] demo_request demo_settings ''t1''
     (Aware 600000000 0) (Aware 600000000 0)"

lemma apply_needs_preview_witness:
  "\<exists>req place. demo_run = Inr (UnderLease req place) \<and> place = Opening False"
proof -
  have "(case demo_run of Inr (UnderLease req place) \<Rightarrow> True | _ \<Rightarrow> False)" by code_simp
  then obtain req place where run: "demo_run = Inr (UnderLease req place)"
    by (auto split: sum.splits run_decision.splits)
  have "rq_apply demo_request" "0 < rs_preview_max_age_seconds demo_settings"
    by (simp_all add: demo_request_def demo_settings_def)
  from apply_needs_preview [OF run [unfolded demo_run_def] this] run show ?thesis by blast
qed

section \<open>The lock\<close>

definition demo_runtime :: lease_runtime where
  "demo_runtime = \<lparr>lr_fromisoformat = demo_clock, lr_float_literal = (\<lambda>_. ''60.0''), lr_float_value = (\<lambda>_. 60)\<rparr>"

definition demo_attempt :: "string \<Rightarrow> lease_request" where
  "demo_attempt token = \<lparr>lq_action_key = ''drill'', lq_metadata = \<lparr>lm_action_name = ''drill'', lm_operator_id = ''ops'',
     lm_tenant_id = None, lm_governed_target = ''b1'', lm_acquired_at_utc = ''2026-01-01T00:00:00Z''\<rparr>,
     lq_token = token, lq_stale_after_seconds = 60\<rparr>"

abbreviation step_at :: "attempt \<Rightarrow> int \<Rightarrow> lease_event" where
  "step_at me second \<equiv> Turn me (Aware (second * 1000000) 0) False"

abbreviation write_at :: "attempt \<Rightarrow> int \<Rightarrow> lease_event" where
  "write_at me second \<equiv> Turn me (Aware (second * 1000000) 0) True"

definition demo_calm :: "lease_event list" where
  "demo_calm = [Start 1 (demo_attempt ''t1''), Start 2 (demo_attempt ''t2''), step_at 1 0, write_at 1 0,
     step_at 2 10, step_at 2 10, step_at 2 10]"

lemma lock_excludes_witness:
  "map_of (snd (lease_run demo_runtime demo_calm)) ''drill.lock'' = Some (1, Doc (JObj (payload_of (demo_attempt ''t1''))))"
proof -
  have calm: "never_overdue demo_runtime demo_calm ([], [])" by code_simp
  have holds: "map_of (fst (lease_run demo_runtime demo_calm)) 1 = Some (demo_attempt ''t1'', Holding)" by code_simp
  from lock_excludes [OF calm prod.collapse [symmetric] holds] show ?thesis
    by (simp add: lock_name_def demo_attempt_def)
qed

text \<open>
  The attempt 1 holds the lock and is killed; the attempts 2 and 3 find its lock overdue.
\<close>

definition demo_compared :: lease_system where
  "demo_compared = lease_run demo_runtime ([Start 1 (demo_attempt ''t1''), Start 2 (demo_attempt ''t2''),
       Start 3 (demo_attempt ''t3''), step_at 1 0, write_at 1 0, Kill 1]
     @ replicate 3 (step_at 2 100) @ replicate 3 (step_at 3 100))"

definition demo_late :: "nat \<Rightarrow> datetime" where "demo_late n = Aware 100000000 0"

definition overdue_at :: "attempt \<Rightarrow> lease_system \<Rightarrow> bool" where
  "overdue_at me s = (case map_of (fst s) me of
     Some (req, Overdue c) \<Rightarrow> lq_action_key req = ''drill''
       \<and> lock_payload_matches (file_text (snd s) ''drill.lock'') (rc_lock_payload c)
   | _ \<Rightarrow> False)"

lemma overdue_atD:
  assumes "overdue_at me s"
  obtains req c where "map_of (fst s) me = Some (req, Overdue c)" "lq_action_key req = ''drill''"
    "lock_payload_matches (file_text (snd s) ''drill.lock'') (rc_lock_payload c)"
  using assms by (auto simp: overdue_at_def split: option.splits prod.splits lease_place.splits)

lemma reclaim_race_witness:
  "\<exists>attempts' dir' ra rb. fold (attempt_event demo_runtime) ([step_at 2 100, step_at 3 100]
        @ takes_over 2 demo_late True @ takes_over 3 demo_late False) demo_compared = (attempts', dir')
    \<and> map_of attempts' 2 = Some (ra, Holding) \<and> map_of attempts' 3 = Some (rb, Holding)"
proof -
  have overdue: "overdue_at 2 demo_compared" "overdue_at 3 demo_compared" by code_simp+
  obtain attempts dir where s: "demo_compared = (attempts, dir)" by fastforce
  obtain ra ca where a: "map_of attempts 2 = Some (ra, Overdue ca)" "lq_action_key ra = ''drill''"
    "lock_payload_matches (file_text dir ''drill.lock'') (rc_lock_payload ca)" by (rule overdue_atD [OF overdue(1)]) (simp add: s)
  obtain rb cb where b: "map_of attempts 3 = Some (rb, Overdue cb)" "lq_action_key rb = ''drill''"
    "lock_payload_matches (file_text dir ''drill.lock'') (rc_lock_payload cb)" by (rule overdue_atD [OF overdue(2)]) (simp add: s)
  have name: "lock_name ''drill'' = ''drill.lock''" by (simp add: lock_name_def)
  have "\<exists>attempts' dir'. fold (attempt_event demo_runtime) ([step_at 2 100, step_at 3 100]
        @ takes_over 2 demo_late True @ takes_over 3 demo_late False) (attempts, dir) = (attempts', dir')
    \<and> map_of attempts' 2 = Some (ra, Holding) \<and> map_of attempts' 3 = Some (rb, Holding)
    \<and> map_of dir' (lock_name (lq_action_key ra)) = Some (3, Doc (JObj (payload_of rb)))"
    by (rule reclaim_race [OF _ a(1) b(1)]) (simp_all add: a b name)
  then show ?thesis unfolding s by blast
qed

end
