(* ===== verification/Spec2Isabelle.thy ===== *)
theory Spec2Isabelle
  imports Job_Witnesses Execution_Witnesses Lineage_Witnesses Boundary_Safety Query_Safety Composite_Witnesses
    Worker_Witnesses Access_Witnesses Stateful_Witnesses Publication_Witnesses Operator_Witnesses
begin

text \<open>
  A model of the durable control plane of lotus-performance and of its asset-weighted composite
  return, with the theorems that make them correct.

  The program. Analytics requests arrive over HTTP, are admitted for a tenant
  (src/app/services/core_tenant_authority.py) and become one durable execution
  (execution_registry.py) and, when they are offloaded, one durable compute job
  (compute_job_store.py). submission_fencing_service.py ties the two stores together, which commit
  separately. Workers lease jobs, start them, renew their leases and complete or fail them;
  the control plane returns stale jobs to the queue, cancels pending ones and prunes old ones.
  A returns-series calculation also freezes the source it reads
  (returns_series_source/custody.py) inside the transactions of the job queue, and a lineage
  worker materializes its evidence from a payload leased from lineage_metadata_store.py. A failure is
  reduced to what may be disclosed before it is stored (durable_failure_classification.py).
  Operators read the queue through statistics, inspection pages and recovery pages. The
  composite calculation (src/engine/composites.py) is a pure function of persisted member facts,
  which composite_metadata_store.py keeps with the definitions and memberships of composites and the
  publications that attest the complete set of facts of a restatement sequence.

  Around this core, every HTTP request passes the enterprise middleware (src/app/enterprise_*.py), which
  bounds its body, authorizes it against capability rules and audits it. The compute worker
  (src/app/workers/compute_executor_worker.py) leases and runs jobs and publishes what they return
  (async_result_store.py); async_result_service.py answers polls from the result, the job or the
  execution; runtime_retention_service.py deletes what is old and not held. A calculation reads its
  inputs from upstream services in chunks and pages (stateful_input_service.py), each answer leaving
  a snapshot on its execution. An operator's cleanup or recovery drill is replayed from its evidence, held
  back by a cooldown and a preview, or run under a lock file (src/app/services/operator_action_*.py).

  The theories, each importing the ones it calls:

  \<^item> \<open>Prelude\<close>: results as sums, stable sorting, tables as lists, and two interfaces: \<open>keyed_store\<close>
    (what lookups return after inserts, updates and deletes) and \<open>guarded_machine\<close> (an invariant
    that every permitted step keeps, hence every run).
  \<^item> \<open>Calendar\<close>, \<open>Durable_Time\<close>: dates, ordinals, ISO texts, instants in microseconds; the
    timestamp helpers of durable_store_time.py, durable_store_inspection.py and
    durable_store_pagination.py.
  \<^item> \<open>Durable_Json\<close>, \<open>Failure_Classification\<close>, \<open>Tenant_Authority\<close>: the files of those names.
  \<^item> \<open>Store_Schema\<close>: the SQLAlchemy rows and the database record all stores share, as
    interpretations of \<open>keyed_store\<close>.
  \<^item> \<open>Source_Custody\<close>: claims, root selection, capture failure and queueing of sources; their
    events as a \<open>guarded_machine\<close>.
  \<^item> \<open>Compute_Jobs\<close>: every operation of the queue that changes state, and \<open>Job_Queries\<close> its
    operator views.
  \<^item> \<open>Job_Machine\<close>: the queue as a state machine. \<open>job_step\<close> is one call of the store, made under
    a worker's id or under none (\<open>worker_id=None\<close>, the default of the source and what the worker's recovery uses);
    \<open>row_step\<close> is the specification of what a call may do to one row, and \<open>job_step_row\<close> shows that
    every call refines it. Invariants of one job are instances of the locale \<open>row_invariant\<close>.
  \<^item> \<open>Job_Safety\<close>, \<open>Job_Custody\<close>: lifecycle (\<open>job_shape\<close> for every run, \<open>job_wf\<close> for those
    without owner-less starts and renewals), terminal fence and the one call that passes it, exclusive leases,
    retry budget, leasing order, reconciliation, registration, cancellation, pruning; and what the queue keeps of
    source custody (locale \<open>custody_closed\<close>).
  \<^item> \<open>Execution_Registry\<close>, \<open>Execution_Safety\<close>: executions, stages and upstream snapshots;
    their invariant, the idempotency key, the fence of completion, deletion, tenant isolation.
  \<^item> \<open>Submission_Fencing\<close>, \<open>Submission_Safety\<close>: the fencing over the locale \<open>job_store\<close>,
    interpreted on the model's own registration: exactly-once submission, roll-back, recovery.
  \<^item> \<open>Lineage_Store\<close>: records and payloads of lineage: queueing, the leases of both dialects,
    completion, failure, retry, retention, reconciliation of stranded sources.
  \<^item> \<open>Lineage_Machine\<close>, \<open>Lineage_Safety\<close>: \<open>lineage_step\<close> is one call of that store and \<open>source_move\<close> the
    specification of what a call may do to a record; \<open>system_step\<close> is a call of any store, and the
    locale \<open>source_contract\<close> (which extends \<open>custody_closed\<close>) lifts what each store keeps to every run
    of all of them.
  \<^item> \<open>Lineage_Leases\<close>, \<open>Lineage_Outcomes\<close>, \<open>Lineage_Stranded\<close>: exclusive payload leases, completion
    by the holder only, artifact names, the retry budget of a source, the agreement of the two
    lease paths, reconciliation of stranded sources.
  \<^item> \<open>Query_Safety\<close>, \<open>Boundary_Safety\<close>: statistics, paging and cursors; failure texts and
    tenant headers.
  \<^item> \<open>Decimal_Context\<close>, \<open>Composite_Engine\<close>, \<open>Composite_Safety\<close>, \<open>Composite_Accuracy\<close>: decimal
    arithmetic rounded to a context precision, the composite calculation, what it refuses and
    links, and how exact the reported parts are.
  \<^item> \<open>Async_Results\<close>, \<open>Results_Safety\<close>: the result store with the triggers that guard composite originals,
    and the specification \<open>result_move\<close> of what a call may do to one result.
  \<^item> \<open>Compute_Worker\<close>, \<open>Worker_Machine\<close>, \<open>Worker_Safety\<close>: one pass of the worker, in which any other
    process may commit between two calls; what a pass leaves in the database is what some
    sequence of store calls leaves there, so it keeps their invariants (\<open>worker_pass_refines\<close>); what becomes of a
    job that succeeds, fails or goes stale, what a worker without its lease may still write, and how a
    publication that comes after the job was failed diverges from it.
  \<^item> \<open>Enterprise_Access\<close>, \<open>Enterprise_Middleware\<close>, \<open>Enterprise_Safety\<close>: configuration, capability rules,
    authorization, body limits, redaction, feature flags and the middleware composed of them.
  \<^item> \<open>Async_Resolution\<close>, \<open>Resolution_Safety\<close>: who may read a result, and what a poll answers.
  \<^item> \<open>Runtime_Retention\<close>, \<open>Retention_Safety\<close>: legal holds, the plan of a cleanup, its phases.
  \<^item> \<open>Stateful_Inputs\<close>, \<open>Stateful_Safety\<close>: chunks, pages, snapshots and merging of upstream answers; the locale
    \<open>page_source\<close> states what the three paged sources owe the loop over pages. \<open>Keyed_Merge\<close> has the laws of
    dictionaries filled from parts; \<open>Stateful_Reading\<close> shows that an answered window is the merge of the pages of
    its chunks, \<open>Stateful_Accounts\<close> what its counts mean and whose rows it holds.
  \<^item> \<open>Composite_Metadata\<close>: the contract of a fact (src/app/models/composites.py), the rows of
    composite_metadata_store.py with the constraints and triggers of their tables, and every operation:
    writing of definitions, memberships and facts, completion of a publication, selection and
    authorized reading of facts, maintenance. \<open>Publication_Safety\<close> has its invariant as a
    \<open>guarded_machine\<close> and what no later call changes; \<open>Manifest_Safety\<close> the round trip of manifests and
    when a publication succeeds; \<open>Selection_Safety\<close> repeated writes and what a reader is given.
  \<^item> \<open>Operator_Evidence\<close>, \<open>Operator_Leases\<close>, \<open>Operator_Safety\<close>: evidence, guards and replays of operator actions;
    their lock file, with \<open>attempt_step\<close> as one file operation of one attempt and \<open>attempt_event\<close> as a move of
    any of them; what the lock excludes, and when two attempts that reclaim it come to hold it both.
  \<^item> \<open>Job_Witnesses\<close>, \<open>Execution_Witnesses\<close>, \<open>Lineage_Witnesses\<close>, \<open>Composite_Witnesses\<close>,
    \<open>Worker_Witnesses\<close>, \<open>Access_Witnesses\<close>, \<open>Stateful_Witnesses\<close>, \<open>Publication_Witnesses\<close>,
    \<open>Operator_Witnesses\<close>: the properties applied on
    concrete databases and facts.

  How the model reads the code. A table is the list of its rows in scan order; \<open>ORDER BY\<close> is a
  stable sort, so every order a database may give to ties is covered by some row order. One
  call of a store is one transaction: it returns an exception, and the database stays, or its
  result with the new database. The clock is an argument of each operation, and so is the set of
  rows that other transactions hold locked (\<open>SKIP LOCKED\<close> on PostgreSQL; empty on SQLite). Instants
  are microseconds; text timestamps of SQLite's \<open>CURRENT_TIMESTAMP\<close> are compared as texts. Status
  columns hold enumeration values. A JSON column is the value its text parses to, or a malformed
  text. Float seconds are rationals. Exceptions are values of sums with the message the code
  raises. A UUID is a string. A \<open>Decimal\<close> is its value, a rational, and an operation rounds
  half-even to the context's precision, as CPython's \<open>decimal\<close> does; exponent limits are
  left out. The precision is a parameter \<open>prec\<close>: settings choose 28 by default.

  Parameters. The registrar of jobs that submission fencing calls is a parameter of its
  functions; the properties instantiate it with \<open>register_job\<close> of the model. Predicates that the code
  imports as callables (a job callback under an active lease) are functions over the database. The
  calculators a worker dispatches to, the inline lineage materializer and the publication of
  composite originals are functions that may do anything to the database the stores permit. The
  response model of a poll, the application behind the middleware, the file system of the artifact
  directories, the faults of the database driver, the digests of \<open>hashlib\<close> and the answers of the upstream
  services are parameters as well; an upstream may answer each request differently. What other
  sessions commit while a fact is written (\<open>others\<close>) or while facts are read (\<open>later\<close>) is a parameter too. So are the parser of
  ISO timestamps, the literals of floats and the file system that resolves and reads evidence files.

  Termination and bounds. Every function is total but the loop over pages, a partial function over
  options whose value \<open>None\<close> means that it does not return; \<open>retrieval_terminates\<close> shows that it
  always does, because every page is counted and the count is bounded, and that a read depends on the answers
  to no more requests than the bound. The digit count and the integer
  root of \<open>Decimal_Context\<close>, the decimal text of a number and the planning of chunks recurse on a
  measure; all other recursion is structural. No fuel is used.

  Not modelled. The float and pandas engines (time- and money-weighted returns, contribution,
  attribution, benchmarks) compute in IEEE doubles or in library kernels that this logic does not
  hold. HTTP endpoints, pydantic models, mappers, HTTP clients and their resilience, process
  settings, logging, metrics and health probes are glue around the operations modelled here.
  Schema creation and upgrades are DDL. The ledger of composite materializations, result candidates
  and annual dispersion are separate components that call the ones modelled here. Of the parts modelled: the
  observer that a cleanup calls before it deletes, the Decimal totals of component economics, the
  spool of raw pages of a source capture, the credentials of composite principals, model fee profiles, the validation of a composite
  definition that is read back, the assembly of operator histories from their files. Chunks
  that the code reads concurrently are read one after the other; they share only the set of known
  snapshot ids.
\<close>

end
